(* ===== verification/Prelude.thy ===== *)
theory Prelude
  imports Complex_Main "HOL-Library.Word" "HOL-Library.Signed_Division"
begin

text \<open>
  Shared vocabulary of the development: the C integer types of
  \<^verbatim>\<open>os/os.h\<close>, two's complement wrap-around of signed results, truncating
  division, and the generic list and option lemmas the component theories use.

  Unsigned C types are words (\<open>u8\<close>, \<open>u16\<close>, \<open>u32\<close>): their arithmetic wraps
  and their order is the unsigned one.  Signed C types are \<open>int\<close> and every
  assignment that can leave the range is written with \<open>s8\<close>, \<open>s16\<close>,
  \<open>s32\<close> or \<open>s64\<close>, the two's complement value the target computes.
  Division and remainder of signed values truncate (\<open>sdiv\<close>, \<open>smod\<close>), and a
  right shift of a signed value is the arithmetic shift (\<open>div 2 ^ n\<close>).
\<close>

unbundle bit_operations_syntax

named_theorems c_int \<open>ranges and identities of the C integer types\<close>

type_synonym u8 = "8 word"
type_synonym u16 = "16 word"
type_synonym u32 = "32 word"
type_synonym u64 = "64 word"
type_synonym byte_list = "8 word list"

subsection \<open>Signed wrap-around\<close>

definition wrap :: "nat \<Rightarrow> int \<Rightarrow> int" where
  "wrap w x = (x + 2 ^ (w - 1)) mod 2 ^ w - 2 ^ (w - 1)"

abbreviation s8 :: "int \<Rightarrow> int" where "s8 \<equiv> wrap 8"
abbreviation s16 :: "int \<Rightarrow> int" where "s16 \<equiv> wrap 16"
abbreviation s32 :: "int \<Rightarrow> int" where "s32 \<equiv> wrap 32"
abbreviation s64 :: "int \<Rightarrow> int" where "s64 \<equiv> wrap 64"

definition fits :: "nat \<Rightarrow> int \<Rightarrow> bool" where
  "fits w x \<longleftrightarrow> - (2 ^ (w - 1)) \<le> x \<and> x < 2 ^ (w - 1)"

lemma pow_pred: "0 < w \<Longrightarrow> (2::int) ^ w = 2 * 2 ^ (w - 1)"
  by (cases w) simp_all

lemma wrap_id: "0 < w \<Longrightarrow> fits w x \<Longrightarrow> wrap w x = x"
  by (simp add: wrap_def fits_def pow_pred)

lemma wrap_fits: "0 < w \<Longrightarrow> fits w (wrap w x)"
proof -
  assume w: "0 < w"
  have "0 \<le> (x + 2 ^ (w - 1)) mod 2 ^ w" and "(x + 2 ^ (w - 1)) mod 2 ^ w < (2::int) ^ w"
    by simp_all
  with w show ?thesis
    by (simp add: wrap_def fits_def pow_pred)
qed

lemma wrap_wrap [simp]: "0 < w \<Longrightarrow> wrap w (wrap w x) = wrap w x"
  by (simp add: wrap_id wrap_fits)

lemma wrap_cong: "wrap w x mod 2 ^ w = x mod 2 ^ w"
proof -
  have "wrap w x mod 2 ^ w = ((x + 2 ^ (w - 1)) mod 2 ^ w - 2 ^ (w - 1)) mod 2 ^ w"
    by (simp add: wrap_def)
  also have "\<dots> = x mod 2 ^ w"
    by (simp only: mod_diff_left_eq add_diff_cancel_right')
  finally show ?thesis .
qed

lemma s64_id [c_int]: "- 9223372036854775808 \<le> x \<Longrightarrow> x \<le> 9223372036854775807 \<Longrightarrow> s64 x = x"
  by (rule wrap_id) (simp_all add: fits_def)

lemma s32_id [c_int]: "- 2147483648 \<le> x \<Longrightarrow> x \<le> 2147483647 \<Longrightarrow> s32 x = x"
  by (rule wrap_id) (simp_all add: fits_def)

lemma s16_id [c_int]: "- 32768 \<le> x \<Longrightarrow> x \<le> 32767 \<Longrightarrow> s16 x = x"
  by (rule wrap_id) (simp_all add: fits_def)

lemma s8_id [c_int]: "- 128 \<le> x \<Longrightarrow> x \<le> 127 \<Longrightarrow> s8 x = x"
  by (rule wrap_id) (simp_all add: fits_def)

lemma s64_range: "- 9223372036854775808 \<le> s64 x \<and> s64 x \<le> 9223372036854775807"
  using wrap_fits [of 64 x] by (simp add: fits_def)

lemma s32_range: "- 2147483648 \<le> s32 x \<and> s32 x \<le> 2147483647"
  using wrap_fits [of 32 x] by (simp add: fits_def)

subsection \<open>Truncating division\<close>

lemma sdiv_smod_eq: "(a::int) = a sdiv b * b + a smod b"
  by (simp add: minus_mult_sdiv_eq_smod [symmetric])

lemma smod_bound: "(b::int) \<noteq> 0 \<Longrightarrow> \<bar>a smod b\<bar> < \<bar>b\<bar>"
  by (simp add: signed_modulo_int_def abs_mult sgn_if)

lemma smod_sign: "0 \<le> (a::int) \<Longrightarrow> 0 \<le> a smod b" "(a::int) \<le> 0 \<Longrightarrow> a smod b \<le> 0"
  by (cases "b = 0"; simp add: signed_modulo_int_def sgn_if)+

lemma sdiv_nonneg [simp]: "0 \<le> (a::int) \<Longrightarrow> 0 < b \<Longrightarrow> a sdiv b = a div b"
  by (auto simp: signed_divide_int_def sgn_if)

lemma smod_nonneg [simp]: "0 \<le> (a::int) \<Longrightarrow> 0 < b \<Longrightarrow> a smod b = a mod b"
  by (auto simp: signed_modulo_int_def sgn_if)

subsection \<open>Lists\<close>

lemma list_update_take_drop:
  "i < length xs \<Longrightarrow> xs[i := x] = take i xs @ x # drop (Suc i) xs"
  by (rule upd_conv_take_nth_drop)

lemma nth_list_update_if:
  "i < length xs \<Longrightarrow> xs[i := x] ! j = (if i = j then x else xs ! j)"
  by (simp add: nth_list_update)

end
