(* ===== verification/Ptu.thy ===== *)
theory Ptu
  imports Prelude
begin

text \<open>
  \<^verbatim>\<open>ptp_ptu.c\<close>: PTP time units.  A \<open>ptu\<close> is a signed number of seconds and a
  signed number of scaled nanoseconds (nanoseconds times \<open>2 ^ 16\<close>).  The
  theory models the arithmetic at 64 bits, gives it a meaning (\<open>ptu_val\<close>, the
  time in scaled nanoseconds), and shows that addition and subtraction return
  the canonical representation of the exact result, that reading nanoseconds
  rounds down, and that the division used for the path delay is exact up to
  less than two units.  The locale \<open>scaled_time\<close> is the contract the filter
  and the servo rely on.
\<close>

subsection \<open>The structure and its operations\<close>

record ptu =
  u_sec :: int
  u_nsec :: int

abbreviation (input) NANOSEC_IN_SEC :: int where
  "NANOSEC_IN_SEC \<equiv> 1000000000"

abbreviation (input) SCALED_NANOSEC_IN_SEC :: int where
  "SCALED_NANOSEC_IN_SEC \<equiv> 65536000000000"

definition ptu_after :: "ptu \<Rightarrow> ptu \<Rightarrow> bool" where
  "ptu_after u1 u2 \<longleftrightarrow>
     u_sec u1 > u_sec u2 \<or> (u_sec u1 = u_sec u2 \<and> u_nsec u1 > u_nsec u2)"

definition ptu_empty :: "ptu \<Rightarrow> bool" where
  "ptu_empty u \<longleftrightarrow> u_sec u = 0 \<and> u_nsec u = 0"

definition ptu_zero :: ptu where
  "ptu_zero = \<lparr>u_sec = 0, u_nsec = 0\<rparr>"

definition ptu_get_nsec :: "ptu \<Rightarrow> int" where
  "ptu_get_nsec u =
     (let nsec = (if u_sec u \<noteq> 0 then s64 (u_sec u * NANOSEC_IN_SEC) else 0)
      in s64 (nsec + u_nsec u div 2 ^ 16))"

definition ptu_add :: "ptu \<Rightarrow> ptu \<Rightarrow> ptu" where
  "ptu_add u1 u2 =
     (let sec = s64 (u_sec u1 + u_sec u2);
          nsec = s64 (u_nsec u1 + u_nsec u2);
          (sec, nsec) =
            (if nsec \<ge> SCALED_NANOSEC_IN_SEC
             then (s64 (sec + 1), s64 (nsec - SCALED_NANOSEC_IN_SEC))
             else if nsec \<le> - SCALED_NANOSEC_IN_SEC
             then (s64 (sec - 1), s64 (nsec + SCALED_NANOSEC_IN_SEC))
             else (sec, nsec));
          (sec, nsec) =
            (if sec > 0 \<and> nsec < 0
             then (s64 (sec - 1), s64 (nsec + SCALED_NANOSEC_IN_SEC))
             else if sec < 0 \<and> nsec > 0
             then (s64 (sec + 1), s64 (- s64 (SCALED_NANOSEC_IN_SEC - nsec)))
             else (sec, nsec))
      in \<lparr>u_sec = sec, u_nsec = nsec\<rparr>)"

definition ptu_sub :: "ptu \<Rightarrow> ptu \<Rightarrow> ptu" where
  "ptu_sub u1 u2 = ptu_add u1 \<lparr>u_sec = s64 (- u_sec u2), u_nsec = s64 (- u_nsec u2)\<rparr>"

text \<open>A zero divisor stops the program (\<open>None\<close>).\<close>

definition ptu_div_int :: "ptu \<Rightarrow> int \<Rightarrow> ptu option" where
  "ptu_div_int u1 divisor =
     (if divisor = 0 then None
      else
        (let nsec = s64 (u_sec u1 smod divisor);
             nsec = s64 (nsec * NANOSEC_IN_SEC);
             nsec = s64 (nsec * 2 ^ 16);
             nsec = s64 (nsec sdiv divisor)
         in Some \<lparr>u_sec = s64 (u_sec u1 sdiv divisor),
                  u_nsec = s64 (s64 (u_nsec u1 sdiv divisor) + nsec)\<rparr>))"

definition ptu_div_sec :: "ptu \<Rightarrow> ptu \<Rightarrow> ptu option" where
  "ptu_div_sec u1 u2 =
     (let nsec1 = ptu_get_nsec u1;
          nsec2 = ptu_get_nsec u2;
          nsec1 = s64 (nsec1 * NANOSEC_IN_SEC)
      in if nsec2 = 0 then None
         else
           (let nsec1 = s64 (nsec1 sdiv nsec2)
            in Some \<lparr>u_sec = nsec1 sdiv NANOSEC_IN_SEC,
                     u_nsec = s64 (nsec1 smod NANOSEC_IN_SEC * 2 ^ 16)\<rparr>))"

subsection \<open>Meaning\<close>

definition ptu_val :: "ptu \<Rightarrow> int" where
  "ptu_val u = u_sec u * SCALED_NANOSEC_IN_SEC + u_nsec u"

definition ptu_canon :: "ptu \<Rightarrow> bool" where
  "ptu_canon u \<longleftrightarrow>
     \<bar>u_nsec u\<bar> < SCALED_NANOSEC_IN_SEC \<and>
     (u_sec u > 0 \<longrightarrow> u_nsec u \<ge> 0) \<and> (u_sec u < 0 \<longrightarrow> u_nsec u \<le> 0)"

text \<open>Times up to \<open>2 ^ 61\<close> seconds keep every intermediate value in 64 bits.\<close>

definition ptu_lim :: int where
  "ptu_lim = 2 ^ 61 * SCALED_NANOSEC_IN_SEC"

lemma ptu_canon_zero [simp]: "ptu_canon ptu_zero"
  by (simp add: ptu_canon_def ptu_zero_def)

lemma ptu_val_zero [simp]: "ptu_val ptu_zero = 0"
  by (simp add: ptu_val_def ptu_zero_def)

lemma ptu_lim_sec:
  assumes "ptu_canon u" and "\<bar>ptu_val u\<bar> \<le> ptu_lim"
  shows "\<bar>u_sec u\<bar> \<le> 2305843009213693952"
  using assms by (auto simp: ptu_canon_def ptu_val_def ptu_lim_def abs_le_iff abs_less_iff)

lemma ptu_canon_unique:
  assumes "ptu_canon u" and "ptu_canon v" and "ptu_val u = ptu_val v"
  shows "u = v"
proof -
  have "u_sec u = u_sec v"
    using assms by (auto simp: ptu_canon_def ptu_val_def)
  then show ?thesis
    using assms(3) by (cases u; cases v) (auto simp: ptu_val_def)
qed

lemma ptu_add_exact:
  assumes c: "ptu_canon x" "ptu_canon y"
    and b: "\<bar>ptu_val x\<bar> \<le> ptu_lim" "\<bar>ptu_val y\<bar> \<le> ptu_lim"
  shows "ptu_canon (ptu_add x y) \<and> ptu_val (ptu_add x y) = ptu_val x + ptu_val y"
proof -
  have s: "\<bar>u_sec x\<bar> \<le> 2305843009213693952" "\<bar>u_sec y\<bar> \<le> 2305843009213693952"
    using ptu_lim_sec c b by blast+
  have n: "\<bar>u_nsec x\<bar> < SCALED_NANOSEC_IN_SEC" "\<bar>u_nsec y\<bar> < SCALED_NANOSEC_IN_SEC"
    using c by (auto simp: ptu_canon_def)
  have w: "s64 (u_sec x + u_sec y) = u_sec x + u_sec y"
    "s64 (u_nsec x + u_nsec y) = u_nsec x + u_nsec y"
    using s n by (auto intro!: s64_id)
  define a where "a = u_sec x + u_sec y"
  define d where "d = u_nsec x + u_nsec y"
  have a: "\<bar>a\<bar> \<le> 4611686018427387904" and d: "\<bar>d\<bar> < 2 * SCALED_NANOSEC_IN_SEC"
    using s n unfolding a_def d_def by linarith+
  have v: "ptu_val x + ptu_val y = a * SCALED_NANOSEC_IN_SEC + d"
    by (simp add: ptu_val_def a_def d_def algebra_simps)
  show ?thesis
    unfolding v using a d
    by (auto simp: ptu_add_def w a_def [symmetric] d_def [symmetric] Let_def
        ptu_canon_def ptu_val_def s64_id)
qed

definition ptu_neg :: "ptu \<Rightarrow> ptu" where
  "ptu_neg u = \<lparr>u_sec = s64 (- u_sec u), u_nsec = s64 (- u_nsec u)\<rparr>"

lemma ptu_neg_exact:
  assumes "ptu_canon x" and "\<bar>ptu_val x\<bar> \<le> ptu_lim"
  shows "ptu_canon (ptu_neg x) \<and> ptu_val (ptu_neg x) = - ptu_val x"
proof -
  have "\<bar>u_sec x\<bar> \<le> 2305843009213693952"
    using ptu_lim_sec assms by blast
  then have "s64 (- u_sec x) = - u_sec x" "s64 (- u_nsec x) = - u_nsec x"
    using assms(1) by (auto simp: ptu_canon_def intro!: s64_id)
  then show ?thesis
    using assms(1) by (auto simp: ptu_neg_def ptu_canon_def ptu_val_def)
qed

lemma ptu_sub_exact:
  assumes c: "ptu_canon x" "ptu_canon y"
    and b: "\<bar>ptu_val x\<bar> \<le> ptu_lim" "\<bar>ptu_val y\<bar> \<le> ptu_lim"
  shows "ptu_canon (ptu_sub x y) \<and> ptu_val (ptu_sub x y) = ptu_val x - ptu_val y"
proof -
  have n: "ptu_canon (ptu_neg y)" "ptu_val (ptu_neg y) = - ptu_val y"
    using ptu_neg_exact [OF c(2) b(2)] by auto
  have "ptu_sub x y = ptu_add x (ptu_neg y)"
    by (simp add: ptu_sub_def ptu_neg_def)
  then show ?thesis
    using ptu_add_exact [OF c(1) n(1) b(1)] n(2) b(2) by simp
qed

subsection \<open>The contract of the time arithmetic\<close>

text \<open>
  What the users of a time representation need: a meaning, a canonical form,
  and exact addition and subtraction below a limit.  The four-timestamp delay
  computation and the offset computation are proved from the contract.
\<close>

locale scaled_time =
  fixes add :: "'t \<Rightarrow> 't \<Rightarrow> 't"
    and sub :: "'t \<Rightarrow> 't \<Rightarrow> 't"
    and val :: "'t \<Rightarrow> int"
    and canon :: "'t \<Rightarrow> bool"
    and lim :: int
  assumes add_exact: "canon x \<Longrightarrow> canon y \<Longrightarrow> \<bar>val x\<bar> \<le> lim \<Longrightarrow> \<bar>val y\<bar> \<le> lim \<Longrightarrow>
      canon (add x y) \<and> val (add x y) = val x + val y"
    and sub_exact: "canon x \<Longrightarrow> canon y \<Longrightarrow> \<bar>val x\<bar> \<le> lim \<Longrightarrow> \<bar>val y\<bar> \<le> lim \<Longrightarrow>
      canon (sub x y) \<and> val (sub x y) = val x - val y"
begin

lemma round_trip_sum:
  assumes c: "canon t1" "canon t2" "canon t3" "canon t4"
    and b: "2 * \<bar>val t1\<bar> \<le> lim" "2 * \<bar>val t2\<bar> \<le> lim" "2 * \<bar>val t3\<bar> \<le> lim" "2 * \<bar>val t4\<bar> \<le> lim"
  shows "canon (add (sub t2 t3) (sub t4 t1)) \<and>
    val (add (sub t2 t3) (sub t4 t1)) = (val t2 - val t3) + (val t4 - val t1)"
proof -
  have b': "\<bar>val t1\<bar> \<le> lim" "\<bar>val t2\<bar> \<le> lim" "\<bar>val t3\<bar> \<le> lim" "\<bar>val t4\<bar> \<le> lim"
    using b by linarith+
  have s23: "canon (sub t2 t3) \<and> val (sub t2 t3) = val t2 - val t3"
    and s41: "canon (sub t4 t1) \<and> val (sub t4 t1) = val t4 - val t1"
    using sub_exact c b' by blast+
  have "\<bar>val (sub t2 t3)\<bar> \<le> lim" "\<bar>val (sub t4 t1)\<bar> \<le> lim"
    using s23 s41 b by linarith+
  then show ?thesis
    using add_exact [of "sub t2 t3" "sub t4 t1"] s23 s41 by simp
qed

lemma offset_minus_delay:
  assumes c: "canon t1" "canon t2" "canon d"
    and b: "2 * \<bar>val t1\<bar> \<le> lim" "2 * \<bar>val t2\<bar> \<le> lim" "\<bar>val d\<bar> \<le> lim"
  shows "canon (sub (sub t2 t1) d) \<and> val (sub (sub t2 t1) d) = val t2 - val t1 - val d"
proof -
  have b': "\<bar>val t1\<bar> \<le> lim" "\<bar>val t2\<bar> \<le> lim"
    using b by linarith+
  have s: "canon (sub t2 t1) \<and> val (sub t2 t1) = val t2 - val t1"
    using sub_exact c b' by blast
  then have "\<bar>val (sub t2 t1)\<bar> \<le> lim"
    using b by linarith
  then show ?thesis
    using sub_exact [of "sub t2 t1" d] s c(3) b(3) by simp
qed

end

interpretation ptu_time: scaled_time ptu_add ptu_sub ptu_val ptu_canon ptu_lim
  by unfold_locales (rule ptu_add_exact ptu_sub_exact; assumption)+

subsection \<open>Reading, dividing and comparing times\<close>

lemma ptu_get_nsec_div:
  assumes "\<bar>u_nsec u\<bar> < SCALED_NANOSEC_IN_SEC" and "\<bar>u_sec u\<bar> \<le> 2 ^ 33 + 2"
  shows "ptu_get_nsec u = ptu_val u div 2 ^ 16"
proof -
  have q: "\<bar>u_nsec u div 65536\<bar> \<le> 1000000000"
    using assms(1) by (auto simp: abs_le_iff abs_less_iff)
  have m: "\<bar>u_sec u * 1000000000\<bar> \<le> 8589934594000000000"
    using assms(2) by (auto simp: abs_le_iff)
  have "s64 (u_sec u * 1000000000) = u_sec u * 1000000000"
    using m by (auto intro!: s64_id)
  moreover have "s64 (u_sec u * 1000000000 + u_nsec u div 65536) = u_sec u * 1000000000 + u_nsec u div 65536"
    using m q by (auto intro!: s64_id)
  moreover have "ptu_val u div 65536 = u_sec u * 1000000000 + u_nsec u div 65536"
    by (simp add: ptu_val_def)
  ultimately show ?thesis
    by (auto simp: ptu_get_nsec_def Let_def)
qed

lemma ptu_get_nsec_val:
  assumes "ptu_canon u" and "\<bar>u_sec u\<bar> \<le> 2 ^ 33"
  shows "ptu_get_nsec u = ptu_val u div 2 ^ 16"
  by (rule ptu_get_nsec_div) (use assms in \<open>auto simp: ptu_canon_def\<close>)

lemma ptu_after_val:
  assumes "ptu_canon x" and "ptu_canon y"
  shows "ptu_after x y \<longleftrightarrow> ptu_val y < ptu_val x"
  using assms by (auto simp: ptu_after_def ptu_canon_def ptu_val_def)

lemma ptu_empty_val:
  assumes "ptu_canon x"
  shows "ptu_empty x \<longleftrightarrow> ptu_val x = 0"
  using assms by (auto simp: ptu_empty_def ptu_canon_def ptu_val_def)

lemma ptu_div_two:
  assumes c: "ptu_canon u" and b: "\<bar>ptu_val u\<bar> \<le> ptu_lim"
  obtains v where "ptu_div_int u 2 = Some v"
    and "u_sec v = u_sec u sdiv 2"
    and "\<bar>2 * ptu_val v - ptu_val u\<bar> < 2"
    and "\<bar>u_nsec v\<bar> < SCALED_NANOSEC_IN_SEC"
proof -
  define r where "r = u_sec u smod 2"
  define q where "q = u_sec u sdiv 2"
  define h where "h = u_nsec u sdiv 2"
  define e where "e = u_nsec u smod 2"
  have r: "\<bar>r\<bar> < 2" and sr: "u_sec u = q * 2 + r"
    using smod_bound [of 2 "u_sec u"] sdiv_smod_eq [of "u_sec u" 2]
    unfolding r_def q_def by simp_all
  have h: "u_nsec u = h * 2 + e" "\<bar>e\<bar> < 2"
    using smod_bound [of 2 "u_nsec u"] sdiv_smod_eq [of "u_nsec u" 2]
    unfolding h_def e_def by simp_all
  have es: "0 \<le> u_nsec u \<longrightarrow> 0 \<le> e" "u_nsec u \<le> 0 \<longrightarrow> e \<le> 0"
    using smod_sign [of "u_nsec u" 2] unfolding e_def by blast+
  have n: "\<bar>u_nsec u\<bar> < 65536000000000"
    using c by (simp add: ptu_canon_def)
  have hb: "\<bar>h\<bar> < 32768000000000"
    using n h es by linarith
  have r3: "r = 0 \<or> r = 1 \<or> r = -1"
    using r by linarith
  have half: "s64 (s64 (s64 (s64 r * 1000000000) * 65536) sdiv 2) = r * 32768000000000"
    using r3 by (elim disjE) (simp_all add: wrap_def signed_divide_int_def)
  have sb: "\<bar>u_sec u\<bar> \<le> 2305843009213693952"
    using ptu_lim_sec [OF c b] .
  define v where "v = \<lparr>u_sec = q, u_nsec = h + r * 32768000000000\<rparr>"
  have nb: "\<bar>h + r * 32768000000000\<bar> < 65536000000000"
    using r3 hb by linarith
  have "\<bar>q\<bar> \<le> 2305843009213693952"
    using sb sr r by linarith
  then have "s64 q = q" "s64 h = h" "s64 (h + r * 32768000000000) = h + r * 32768000000000"
    using hb nb by (simp_all add: s64_id)
  then have "ptu_div_int u 2 = Some v"
    by (simp add: ptu_div_int_def Let_def r_def [symmetric] q_def [symmetric] half
        h_def [symmetric] v_def)
  moreover have "\<bar>2 * ptu_val v - ptu_val u\<bar> < 2"
    using sr h by (simp add: ptu_val_def v_def)
  ultimately show ?thesis
    using that nb by (simp add: v_def q_def)
qed

end
