(* ===== verification/Dbl.thy ===== *)
theory Dbl
  imports Ptu
begin

text \<open>
  The part of IEEE 754 double precision that \<^verbatim>\<open>ptp_ptu.c\<close> uses for clock ratios:
  conversion from integers, the four operations and comparison with rounding
  to nearest, ties to even, and the truncating conversion back to integers,
  which is undefined (\<open>None\<close>) outside the target type.  A finite double is its
  rational value; the sign of zero is not kept, no function of the program
  observes it.  On top of it: \<open>ptu_div_ratio\<close>, \<open>ptu_mult\<close>, \<open>float_to_ratio\<close>
  and \<open>ratio_to_float\<close>.
\<close>

datatype dbl = Fin rat | Inf bool | NaN

subsection \<open>Rounding\<close>

function nbits :: "int \<Rightarrow> nat" where
  "nbits n = (if n \<le> 0 then 0 else Suc (nbits (n div 2)))"
  by pat_completeness auto
termination
  by (relation "measure nat") auto

declare nbits.simps [simp del]

definition pow2 :: "int \<Rightarrow> rat" where
  "pow2 k = (if 0 \<le> k then 2 ^ nat k else 1 / 2 ^ nat (- k))"

definition flog2 :: "rat \<Rightarrow> int" where
  "flog2 x =
     (let (a, b) = quotient_of x;
          k = int (nbits a) - int (nbits b)
      in if pow2 k \<le> x then k else k - 1)"

definition round_even :: "rat \<Rightarrow> int" where
  "round_even x =
     (let f = \<lfloor>x\<rfloor>; r = x - of_int f
      in if r < 1 / 2 then f else if r > 1 / 2 then f + 1 else if even f then f else f + 1)"

definition round_dbl :: "rat \<Rightarrow> dbl" where
  "round_dbl x =
     (if x = 0 then Fin 0
      else
        (let e = max (flog2 \<bar>x\<bar> - 52) (- 1074);
             y = of_int (round_even (x / pow2 e)) * pow2 e
         in if pow2 1024 \<le> \<bar>y\<bar> then Inf (x < 0) else Fin y))"

subsection \<open>Operations\<close>

definition dbl_of_int :: "int \<Rightarrow> dbl" where
  "dbl_of_int n = round_dbl (of_int n)"

fun dbl_sgn :: "dbl \<Rightarrow> bool" where
  "dbl_sgn (Fin x) = (x < 0)"
| "dbl_sgn (Inf s) = s"
| "dbl_sgn NaN = False"

fun dbl_add :: "dbl \<Rightarrow> dbl \<Rightarrow> dbl" where
  "dbl_add (Fin x) (Fin y) = round_dbl (x + y)"
| "dbl_add (Inf s) (Inf t) = (if s = t then Inf s else NaN)"
| "dbl_add (Inf s) (Fin y) = Inf s"
| "dbl_add (Fin x) (Inf t) = Inf t"
| "dbl_add x y = NaN"

fun dbl_neg :: "dbl \<Rightarrow> dbl" where
  "dbl_neg (Fin x) = Fin (- x)"
| "dbl_neg (Inf s) = Inf (\<not> s)"
| "dbl_neg NaN = NaN"

definition dbl_sub :: "dbl \<Rightarrow> dbl \<Rightarrow> dbl" where
  "dbl_sub x y = dbl_add x (dbl_neg y)"

fun dbl_mult :: "dbl \<Rightarrow> dbl \<Rightarrow> dbl" where
  "dbl_mult (Fin x) (Fin y) = round_dbl (x * y)"
| "dbl_mult NaN y = NaN"
| "dbl_mult x NaN = NaN"
| "dbl_mult x y = (if x = Fin 0 \<or> y = Fin 0 then NaN else Inf (dbl_sgn x \<noteq> dbl_sgn y))"

fun dbl_div :: "dbl \<Rightarrow> dbl \<Rightarrow> dbl" where
  "dbl_div (Fin x) (Fin y) =
     (if y = 0 then (if x = 0 then NaN else Inf (x < 0)) else round_dbl (x / y))"
| "dbl_div (Inf s) (Fin y) = Inf (s \<noteq> (y < 0))"
| "dbl_div (Fin x) (Inf t) = Fin 0"
| "dbl_div x y = NaN"

fun dbl_less :: "dbl \<Rightarrow> dbl \<Rightarrow> bool" where
  "dbl_less (Fin x) (Fin y) = (x < y)"
| "dbl_less (Inf s) (Fin y) = s"
| "dbl_less (Fin x) (Inf t) = (\<not> t)"
| "dbl_less (Inf s) (Inf t) = (s \<and> \<not> t)"
| "dbl_less x y = False"

definition dbl_eq :: "dbl \<Rightarrow> dbl \<Rightarrow> bool" where
  "dbl_eq x y \<longleftrightarrow> x \<noteq> NaN \<and> x = y"

definition rat_trunc :: "rat \<Rightarrow> int" where
  "rat_trunc x = (if 0 \<le> x then \<lfloor>x\<rfloor> else - \<lfloor>- x\<rfloor>)"

fun dbl_to_int :: "nat \<Rightarrow> dbl \<Rightarrow> int option" where
  "dbl_to_int w (Fin x) = (if fits w (rat_trunc x) then Some (rat_trunc x) else None)"
| "dbl_to_int w d = None"

subsection \<open>Clock ratios\<close>

definition ptu_div_ratio :: "ptu \<Rightarrow> ptu \<Rightarrow> dbl" where
  "ptu_div_ratio u1 u2 = dbl_div (dbl_of_int (ptu_get_nsec u1)) (dbl_of_int (ptu_get_nsec u2))"

definition ptu_mult :: "ptu \<Rightarrow> dbl \<Rightarrow> ptu option" where
  "ptu_mult u1 r =
     (let d = dbl_of_int (u_sec u1);
          d = dbl_mult d (dbl_of_int NANOSEC_IN_SEC);
          d = dbl_add d (dbl_of_int (u_nsec u1));
          d = dbl_mult d r
      in (case dbl_to_int 64 d of
            None \<Rightarrow> None
          | Some s \<Rightarrow> Some \<lparr>u_sec = s sdiv SCALED_NANOSEC_IN_SEC, u_nsec = s smod SCALED_NANOSEC_IN_SEC\<rparr>))"

abbreviation (input) POW2_41 :: dbl where
  "POW2_41 \<equiv> Fin 2199023255552"

definition float_to_ratio :: "dbl \<Rightarrow> int option" where
  "float_to_ratio ratio = dbl_to_int 32 (dbl_sub (dbl_mult ratio POW2_41) POW2_41)"

definition ratio_to_float :: "int \<Rightarrow> dbl" where
  "ratio_to_float ratio =
     (let r = dbl_add (dbl_of_int ratio) POW2_41;
          c = dbl_div POW2_41 (Fin 10000000);
          r = (if dbl_less r (Fin 0) then dbl_sub r c else dbl_add r c)
      in dbl_div r POW2_41)"

subsection \<open>Small integers are exact\<close>

lemma nbits_bounds: "0 < n \<Longrightarrow> 2 ^ (nbits n - 1) \<le> n \<and> n < 2 ^ nbits n \<and> 0 < nbits n"
proof (induction n rule: nbits.induct)
  case (1 n)
  show ?case
  proof (cases "n = 1")
    case True
    then show ?thesis by (simp add: nbits.simps)
  next
    case False
    then have "0 < n div 2" using 1 by simp
    then have ih: "2 ^ (nbits (n div 2) - 1) \<le> n div 2" "n div 2 < 2 ^ nbits (n div 2)" "0 < nbits (n div 2)"
      using 1 by simp_all
    have n: "nbits n = Suc (nbits (n div 2))"
      using 1 by (subst nbits.simps) simp
    have "(2::int) ^ nbits (n div 2) = 2 * 2 ^ (nbits (n div 2) - 1)"
      using ih(3) by (simp add: pow_pred)
    then have "2 ^ nbits (n div 2) \<le> n" "n < 2 * 2 ^ nbits (n div 2)"
      using ih by linarith+
    then show ?thesis using n by simp
  qed
qed

lemma pow2_pos [simp]: "0 < pow2 k"
  by (simp add: pow2_def)

lemma pow2_add: "pow2 (int m - int n) = 2 ^ m / 2 ^ n"
proof (cases "n \<le> m")
  case True
  then show ?thesis by (simp add: pow2_def nat_diff_distrib' power_diff)
next
  case False
  then show ?thesis by (simp add: pow2_def nat_diff_distrib' power_diff)
qed

lemma pow2_minus_one: "pow2 (k - 1) = pow2 k / 2"
proof -
  obtain m n where k: "k = int m - int n"
    by (metis int_diff_cases)
  have "k - 1 = int m - int (Suc n)" using k by simp
  then show ?thesis unfolding k by (simp only: pow2_add) simp
qed

lemma pow2_mono: "k \<le> l \<Longrightarrow> pow2 k \<le> pow2 l"
proof (induction l rule: int_ge_induct)
  case (step l)
  have "pow2 l = pow2 (l + 1) / 2" using pow2_minus_one [of "l + 1"] by simp
  then have "pow2 l \<le> pow2 (l + 1)" using pow2_pos [of "l + 1"] by linarith
  then show ?case using step by linarith
qed simp

lemma flog2_le:
  assumes "0 < x"
  shows "pow2 (flog2 x) \<le> x"
proof -
  obtain a b where q: "quotient_of x = (a, b)" by (cases "quotient_of x")
  have b: "0 < b" and x: "x = of_int a / of_int b"
    using q by (simp_all add: quotient_of_denom_pos quotient_of_div)
  have a: "0 < a" using assms x b by (simp add: zero_less_divide_iff)
  have "2 ^ (nbits a - 1) \<le> a" "b < 2 ^ nbits b" "0 < nbits a"
    using nbits_bounds [OF a] nbits_bounds [OF b] by simp_all
  then have "(2::rat) ^ (nbits a - 1) \<le> of_int a" "of_int b \<le> (2::rat) ^ nbits b"
    by (metis of_int_le_iff of_int_numeral of_int_power, metis less_imp_le of_int_le_iff of_int_numeral of_int_power)
  then have "(2::rat) ^ (nbits a - 1) / 2 ^ nbits b \<le> of_int a / of_int b"
    using a b by (intro frac_le) simp_all
  moreover have "int (nbits a) - int (nbits b) - 1 = int (nbits a - 1) - int (nbits b)"
    using \<open>0 < nbits a\<close> by simp
  ultimately have "pow2 (int (nbits a) - int (nbits b) - 1) \<le> x"
    unfolding x by (simp only: pow2_add)
  then show ?thesis
    by (simp add: flog2_def q Let_def)
qed

lemma round_dbl_int:
  assumes "\<bar>n\<bar> < 2 ^ 53"
  shows "round_dbl (of_int n) = Fin (of_int n)"
proof (cases "n = 0")
  case False
  define e where "e = max (flog2 \<bar>of_int n\<bar> - 52) (- 1074)"
  have lt: "\<bar>of_int n :: rat\<bar> < 2 ^ 53"
    using assms by (metis of_int_abs of_int_less_iff of_int_numeral of_int_power)
  have "pow2 (flog2 \<bar>of_int n\<bar>) \<le> \<bar>of_int n\<bar>"
    using False by (intro flog2_le) simp
  then have "pow2 (flog2 \<bar>of_int n\<bar>) < pow2 53"
    using lt by (simp add: pow2_def)
  then have "flog2 \<bar>of_int n\<bar> \<le> 52"
    using pow2_mono [of 53 "flog2 \<bar>of_int n\<bar>"] by linarith
  then have e: "e \<le> 0" by (simp add: e_def)
  have p: "pow2 e = 1 / 2 ^ nat (- e)"
    using e by (cases "e = 0") (simp_all add: pow2_def)
  have "of_int n / pow2 e = of_int (n * 2 ^ nat (- e))"
    by (simp add: p)
  then have "round_even (of_int n / pow2 e) = n * 2 ^ nat (- e)"
    by (simp only: round_even_def floor_of_int Let_def) simp
  then have "of_int (round_even (of_int n / pow2 e)) * pow2 e = of_int n"
    by (simp add: p)
  moreover have "\<not> pow2 1024 \<le> \<bar>of_int n\<bar>"
    using lt pow2_mono [of 53 1024] by (simp add: pow2_def)
  ultimately show ?thesis
    using False by (simp add: round_dbl_def Let_def flip: e_def)
qed (simp add: round_dbl_def)

lemma rat_trunc_int [simp]: "rat_trunc (of_int n) = n"
  by (simp add: rat_trunc_def flip: of_int_minus)

text \<open>A ratio of one leaves an interval below one second as it is.\<close>

lemma ptu_mult_one:
  assumes "u_sec u = 0" and "\<bar>u_nsec u\<bar> < SCALED_NANOSEC_IN_SEC"
  shows "ptu_mult u (Fin 1) = Some u"
proof -
  have b: "\<bar>u_nsec u\<bar> < 2 ^ 53" using assms(2) by simp
  have r: "round_dbl (of_int (u_nsec u)) = Fin (of_int (u_nsec u))"
    by (rule round_dbl_int [OF b])
  have z: "dbl_mult (dbl_of_int 0) (dbl_of_int NANOSEC_IN_SEC) = Fin 0"
    using round_dbl_int [of NANOSEC_IN_SEC] by (simp add: dbl_of_int_def round_dbl_def [of 0])
  have "fits 64 (u_nsec u)" using b by (auto simp: fits_def)
  moreover have "u_nsec u sdiv SCALED_NANOSEC_IN_SEC = 0" "u_nsec u smod SCALED_NANOSEC_IN_SEC = u_nsec u"
    using assms(2) by (auto simp: signed_divide_int_def signed_modulo_int_def sgn_if)
  ultimately show ?thesis
    using assms(1) z by (simp add: ptu_mult_def Let_def r dbl_of_int_def)
qed

end
