(* ===== verification/Median.thy ===== *)
theory Median
  imports Prelude "HOL-Library.Multiset"
begin

text \<open>
  \<^verbatim>\<open>ptp_filter.c\<close>, first part: the moving median that smooths the measured
  path delay.  The C structure keeps the samples in a ring buffer and, beside
  each slot, one entry of an array \<open>order\<close> that lists the slots by increasing
  sample.  The theory models the three loops of \<open>filter_sample\<close> on that array
  and shows that it computes the median of the last \<open>len\<close> samples: the
  abstract window is a list, the contract is the locale \<open>moving_median\<close>, and
  the structure of the code is interpreted in it.
\<close>

subsection \<open>The structure and its operations\<close>

record mmedian_data =
  md_order :: nat
  md_delays :: int

record mmedian =
  mm_len :: nat
  mm_cnt :: nat
  mm_index :: nat
  mm_data :: "mmedian_data list"

definition mmedian_reset :: "mmedian \<Rightarrow> mmedian" where
  "mmedian_reset m = m\<lparr>mm_cnt := 0, mm_index := 0\<rparr>"

text \<open>
  \<open>mem\<close> is what the allocator returns: \<open>None\<close> for a failed allocation, else
  the uninitialised block.
\<close>

definition mmedian_create :: "mmedian \<Rightarrow> int \<Rightarrow> (nat \<Rightarrow> mmedian_data list option) \<Rightarrow> mmedian" where
  "mmedian_create m len mem =
     (if len < 1 then m
      else (case mem (nat len) of
              None \<Rightarrow> m\<lparr>mm_data := []\<rparr>
            | Some d \<Rightarrow> m\<lparr>mm_data := d, mm_len := nat len\<rparr>))"

definition mmedian_destroy :: "mmedian \<Rightarrow> mmedian" where
  "mmedian_destroy m = m\<lparr>mm_data := [], mm_len := 0\<rparr>"

definition set_order :: "mmedian_data list \<Rightarrow> nat \<Rightarrow> nat \<Rightarrow> mmedian_data list" where
  "set_order d i v = d[i := (d ! i)\<lparr>md_order := v\<rparr>]"

text \<open>The three loops of \<open>filter_sample\<close>, in the order of the code.\<close>

function find_order :: "mmedian_data list \<Rightarrow> nat \<Rightarrow> nat \<Rightarrow> nat \<Rightarrow> nat" where
  "find_order d idx i cnt =
     (if i < cnt then (if md_order (d ! i) = idx then i else find_order d idx (Suc i) cnt) else i)"
  by pat_completeness auto
termination
  by (relation "measure (\<lambda>(d, idx, i, cnt). cnt - i)") auto

function shift_order :: "mmedian_data list \<Rightarrow> nat \<Rightarrow> nat \<Rightarrow> mmedian_data list" where
  "shift_order d i cnt =
     (if i + 1 < cnt then shift_order (set_order d i (md_order (d ! (i + 1)))) (Suc i) cnt else d)"
  by pat_completeness auto
termination
  by (relation "measure (\<lambda>(d, i, cnt). cnt - i)") auto

fun insert_order :: "mmedian_data list \<Rightarrow> nat \<Rightarrow> nat \<Rightarrow> mmedian_data list \<times> nat" where
  "insert_order d idx 0 = (d, 0)"
| "insert_order d idx (Suc j) =
     (if md_delays (d ! md_order (d ! j)) \<le> md_delays (d ! idx) then (d, Suc j)
      else insert_order (set_order d (Suc j) (md_order (d ! j))) idx j)"

declare find_order.simps [simp del] shift_order.simps [simp del]

definition filter_sample :: "mmedian \<Rightarrow> int \<Rightarrow> int \<times> mmedian" where
  "filter_sample m delay =
     (let idx = mm_index m;
          d = (mm_data m)[idx := (mm_data m ! idx)\<lparr>md_delays := delay\<rparr>];
          (cnt, d) =
            (if mm_cnt m < mm_len m then (mm_cnt m + 1, d)
             else (mm_cnt m, shift_order d (find_order d idx 0 (mm_cnt m)) (mm_cnt m)));
          (d, i) = insert_order d idx (cnt - 1);
          d = set_order d i idx;
          idx' = (1 + idx) mod mm_len m;
          i = cnt div 2;
          median =
            (if cnt mod 2 \<noteq> 0 then md_delays (d ! md_order (d ! i))
             else s64 (md_delays (d ! md_order (d ! (i - 1))) + md_delays (d ! md_order (d ! i)))
                    sdiv 2)
      in (median, m\<lparr>mm_cnt := cnt, mm_index := idx', mm_data := d\<rparr>))"

subsection \<open>The abstract moving median\<close>

definition median_of :: "int list \<Rightarrow> int" where
  "median_of xs =
     (let s = sort xs; n = length xs
      in if odd n then s ! (n div 2) else (s ! (n div 2 - 1) + s ! (n div 2)) sdiv 2)"

definition last_n :: "nat \<Rightarrow> 'a list \<Rightarrow> 'a list" where
  "last_n n xs = drop (length xs - n) xs"

lemma length_last_n [simp]: "length (last_n n xs) = min n (length xs)"
  by (simp add: last_n_def)

lemma set_last_n: "set (last_n n xs) \<subseteq> set xs"
  by (simp add: last_n_def set_drop_subset)

lemma last_n_last_n_snoc: "last_n n (last_n n xs @ [x]) = last_n n (xs @ [x])"
proof (cases "length xs < n")
  case True
  then show ?thesis by (simp add: last_n_def)
next
  case False
  show ?thesis
  proof (cases n)
    case 0
    then show ?thesis by (simp add: last_n_def)
  next
    case (Suc k)
    then have "Suc (length xs - Suc k) = length xs - k"
      using False by arith
    then show ?thesis
      using Suc False by (simp add: last_n_def Suc_diff_le)
  qed
qed

text \<open>
  The contract of a moving median of capacity \<open>cap\<close>: a window of the last
  samples, and a step that appends a sample and returns the median.
\<close>

locale moving_median =
  fixes inv :: "'m \<Rightarrow> bool"
    and cap :: "'m \<Rightarrow> nat"
    and window :: "'m \<Rightarrow> int list"
    and sample :: "'m \<Rightarrow> int \<Rightarrow> int \<times> 'm"
  assumes sample_inv: "inv m \<Longrightarrow> inv (snd (sample m x))"
    and sample_cap: "inv m \<Longrightarrow> cap (snd (sample m x)) = cap m"
    and sample_window: "inv m \<Longrightarrow> window (snd (sample m x)) = last_n (cap m) (window m @ [x])"
    and sample_median: "inv m \<Longrightarrow> \<forall>y \<in> set (window m @ [x]). \<bar>y\<bar> < 2 ^ 62 \<Longrightarrow>
      fst (sample m x) = median_of (last_n (cap m) (window m @ [x]))"
begin

fun feed :: "'m \<Rightarrow> int list \<Rightarrow> 'm" where
  "feed m [] = m"
| "feed m (x # xs) = feed (snd (sample m x)) xs"

lemma feed_append: "feed m (xs @ ys) = feed (feed m xs) ys"
  by (induction m xs rule: feed.induct) simp_all

lemma feed_spec:
  "inv m \<Longrightarrow> length (window m) \<le> cap m \<Longrightarrow>
   inv (feed m xs) \<and> cap (feed m xs) = cap m \<and> window (feed m xs) = last_n (cap m) (window m @ xs)"
proof (induction xs rule: rev_induct)
  case Nil
  then show ?case by (simp add: last_n_def)
next
  case (snoc x xs)
  then show ?case
    using last_n_last_n_snoc [of "cap m" "window m @ xs" x]
    by (simp add: feed_append sample_inv sample_cap sample_window)
qed

lemma feed_median:
  assumes m: "inv m" "window m = []" and b: "\<forall>y \<in> set (xs @ [x]). \<bar>y\<bar> < 2 ^ 62"
  shows "fst (sample (feed m xs) x) = median_of (last_n (cap m) (xs @ [x]))"
proof -
  have f: "inv (feed m xs)" "cap (feed m xs) = cap m" "window (feed m xs) = last_n (cap m) xs"
    using feed_spec [of m xs] m by simp_all
  have "\<forall>y \<in> set (last_n (cap m) xs @ [x]). \<bar>y\<bar> < 2 ^ 62"
    using b set_last_n [of "cap m" xs] by auto
  then show ?thesis
    using sample_median [OF f(1), of x] f last_n_last_n_snoc [of "cap m" xs x] by simp
qed

end

subsection \<open>The loops on the order array\<close>

lemma set_order_orders [simp]: "map md_order (set_order d i v) = (map md_order d)[i := v]"
  by (simp add: set_order_def map_update)

lemma set_order_delays [simp]: "map md_delays (set_order d i v) = map md_delays d"
proof (cases "i < length d")
  case True
  then have "map md_delays (set_order d i v) = (map md_delays d)[i := map md_delays d ! i]"
    by (simp add: set_order_def map_update)
  then show ?thesis by simp
next
  case False
  then show ?thesis by (simp add: set_order_def list_update_beyond)
qed

lemma set_order_delays_nth [simp]: "md_delays (set_order d i v ! k) = md_delays (d ! k)"
  by (cases "i < length d"; cases "k = i") (simp_all add: set_order_def list_update_beyond)

lemma set_order_order_nth:
  "i < length d \<Longrightarrow> md_order (set_order d i v ! k) = (if k = i then v else md_order (d ! k))"
  by (simp add: set_order_def)

lemma set_order_length [simp]: "length (set_order d i v) = length d"
  by (simp add: set_order_def)

lemma shift_order_delays [simp]: "map md_delays (shift_order d i cnt) = map md_delays d"
proof (induction d i cnt rule: shift_order.induct)
  case (1 d i cnt)
  then show ?case by (subst shift_order.simps) simp
qed

lemma find_order_least:
  "i \<le> p \<Longrightarrow> p < cnt \<Longrightarrow> md_order (d ! p) = idx \<Longrightarrow>
   i \<le> find_order d idx i cnt \<and> find_order d idx i cnt < cnt \<and>
   md_order (d ! find_order d idx i cnt) = idx"
proof (induction d idx i cnt rule: find_order.induct)
  case (1 d idx i cnt)
  show ?case
  proof (cases "md_order (d ! i) = idx")
    case True
    then show ?thesis using 1 by (subst (1 2 3) find_order.simps) simp
  next
    case False
    then have "i \<noteq> p" using 1 by auto
    then have "Suc i \<le> find_order d idx (Suc i) cnt \<and> find_order d idx (Suc i) cnt < cnt \<and>
        md_order (d ! find_order d idx (Suc i) cnt) = idx"
      using 1 False by simp
    then show ?thesis using 1 False by (subst (1 2 3) find_order.simps) simp
  qed
qed

lemma shift_order_spec:
  "i < cnt \<Longrightarrow> cnt \<le> length d \<Longrightarrow>
   map md_order (shift_order d i cnt) =
     take i (map md_order d) @ drop (Suc i) (take cnt (map md_order d)) @ drop (cnt - 1) (map md_order d)"
proof (induction d i cnt rule: shift_order.induct)
  case (1 d i cnt)
  let ?O = "map md_order d"
  show ?case
  proof (cases "i + 1 < cnt")
    case True
    let ?d = "set_order d i (md_order (d ! (i + 1)))"
    have "map md_order (shift_order d i cnt) = map md_order (shift_order ?d (Suc i) cnt)"
      using True by (subst shift_order.simps) simp
    also have "\<dots> = take (Suc i) (map md_order ?d) @ drop (Suc (Suc i)) (take cnt (map md_order ?d))
        @ drop (cnt - 1) (map md_order ?d)"
      using 1 True by simp
    also have "\<dots> = take i ?O @ (?O ! Suc i # drop (Suc (Suc i)) (take cnt ?O)) @ drop (cnt - 1) ?O"
      using 1 True by (simp add: take_Suc_conv_app_nth take_update_swap list_update_append)
    also have "?O ! Suc i # drop (Suc (Suc i)) (take cnt ?O) = drop (Suc i) (take cnt ?O)"
      using 1 True Cons_nth_drop_Suc [of "Suc i" "take cnt ?O"] by simp
    finally show ?thesis .
  next
    case False
    then have "cnt = Suc i" using 1 by simp
    then show ?thesis using False by (subst shift_order.simps) simp
  qed
qed

lemma insert_order_spec:
  "insert_order d idx j = (d', i) \<Longrightarrow> j < length d \<Longrightarrow>
   map md_delays d' = map md_delays d \<and> i \<le> j \<and>
   map md_order (set_order d' i idx) =
     take i (map md_order d) @ idx # drop i (take j (map md_order d)) @ drop (Suc j) (map md_order d) \<and>
   (\<forall>k. i \<le> k \<longrightarrow> k < j \<longrightarrow> md_delays (d ! idx) < md_delays (d ! md_order (d ! k))) \<and>
   (0 < i \<longrightarrow> md_delays (d ! md_order (d ! (i - 1))) \<le> md_delays (d ! idx))"
proof (induction d idx j arbitrary: d' i rule: insert_order.induct)
  case (1 d idx)
  then show ?case by (auto simp: list_update_take_drop)
next
  case (2 d idx j)
  let ?O = "map md_order d"
  show ?case
  proof (cases "md_delays (d ! md_order (d ! j)) \<le> md_delays (d ! idx)")
    case True
    then have "d' = d" "i = Suc j" using 2 by simp_all
    then show ?thesis
      using 2(3) True by (simp add: list_update_take_drop)
  next
    case False
    let ?d = "set_order d (Suc j) (md_order (d ! j))"
    have r: "insert_order ?d idx j = (d', i)" using 2 False by simp
    note ih = 2(1) [OF False r]
    have i: "i \<le> j" using ih 2(3) by simp
    have ord: "map md_order (set_order d' i idx) =
        take i ?O @ idx # drop i (take j ?O) @ ?O ! j # drop (Suc (Suc j)) ?O"
      using ih 2(3) i by (simp add: list_update_take_drop drop_Cons' min_def)
    moreover have "drop i (take (Suc j) ?O) = drop i (take j ?O) @ [?O ! j]"
      using 2(3) i by (simp add: take_Suc_conv_app_nth)
    moreover have "md_delays (d ! idx) < md_delays (d ! md_order (d ! k))" if "i \<le> k" "k < Suc j" for k
      using ih 2(3) False that by (cases "k = j") (auto simp: set_order_order_nth)
    moreover have "md_delays (d ! md_order (d ! (i - 1))) \<le> md_delays (d ! idx)" if "0 < i"
      using ih 2(3) that i by (auto simp: set_order_order_nth split: if_splits)
    ultimately show ?thesis
      using ih 2(3) i by simp
  qed
qed

lemma sorted_insert_at:
  assumes s: "sorted (map f L)" and i: "i \<le> length L"
    and gt: "\<And>k. i \<le> k \<Longrightarrow> k < length L \<Longrightarrow> f x < f (L ! k)"
    and le: "0 < i \<Longrightarrow> f (L ! (i - 1)) \<le> f x"
  shows "sorted (map f (take i L @ x # drop i L))"
proof -
  have "f y \<le> f x" if y: "y \<in> set (take i L)" for y
  proof -
    obtain k where k: "k < i" "y = L ! k" using y
      unfolding in_set_conv_nth by auto
    then have "f (L ! k) \<le> f (L ! (i - 1))"
      using s i by (auto simp: sorted_iff_nth_mono)
    then show ?thesis using k le by auto
  qed
  moreover have "f x \<le> f y" if y: "y \<in> set (drop i L)" for y
  proof -
    obtain k where "k < length L - i" "y = L ! (i + k)" using y i
      unfolding in_set_conv_nth by auto
    then show ?thesis using gt [of "i + k"] by (simp add: less_diff_conv add.commute less_imp_le)
  qed
  moreover have "f y \<le> f z" if "y \<in> set (take i L)" "z \<in> set (drop i L)" for y z
    using calculation that by force
  moreover have "sorted (map f (take i L))" "sorted (map f (drop i L))"
    using s by (simp_all add: sorted_wrt_take sorted_wrt_drop flip: take_map drop_map)
  ultimately show ?thesis
    by (auto simp: sorted_append)
qed

subsection \<open>Invariant and window\<close>

definition mm_delays :: "mmedian \<Rightarrow> int list" where
  "mm_delays m = map md_delays (mm_data m)"

definition mm_orders :: "mmedian \<Rightarrow> nat list" where
  "mm_orders m = map md_order (mm_data m)"

definition order_ok :: "int list \<Rightarrow> nat list \<Rightarrow> bool" where
  "order_ok ds L \<longleftrightarrow> distinct L \<and> set L = {0..<length L} \<and> sorted (map (\<lambda>k. ds ! k) L)"

definition mm_inv :: "mmedian \<Rightarrow> bool" where
  "mm_inv m \<longleftrightarrow>
     length (mm_data m) = mm_len m \<and> mm_cnt m \<le> mm_len m \<and> mm_index m < mm_len m \<and>
     (mm_cnt m < mm_len m \<longrightarrow> mm_index m = mm_cnt m) \<and>
     order_ok (mm_delays m) (take (mm_cnt m) (mm_orders m))"

definition mm_window :: "mmedian \<Rightarrow> int list" where
  "mm_window m =
     (if mm_cnt m < mm_len m then take (mm_cnt m) (mm_delays m)
      else drop (mm_index m) (mm_delays m) @ take (mm_index m) (mm_delays m))"

lemma order_ok_sort:
  assumes "order_ok ds L" and "length L \<le> length ds"
  shows "map (\<lambda>k. ds ! k) L = sort (take (length L) ds)"
proof -
  have "mset L = mset [0..<length L]"
    using assms(1) set_eq_iff_mset_eq_distinct [of L "[0..<length L]"] by (simp add: order_ok_def)
  then have "mset (map (\<lambda>k. ds ! k) L) = mset (map (\<lambda>k. ds ! k) [0..<length L])"
    by simp
  also have "map (\<lambda>k. ds ! k) [0..<length L] = take (length L) ds"
    by (rule nth_equalityI) (use assms(2) in simp_all)
  finally show ?thesis
    using assms(1) properties_for_sort [of "map (\<lambda>k. ds ! k) L" "take (length L) ds"]
    by (simp add: order_ok_def)
qed

lemma order_ok_insert:
  assumes L: "distinct L" "insert idx (set L) = {0..<Suc (length L)}" "idx \<notin> set L"
    and s: "sorted (map (\<lambda>k. ds ! k) L)" and i: "i \<le> length L"
    and gt: "\<And>k. i \<le> k \<Longrightarrow> k < length L \<Longrightarrow> ds ! idx < ds ! (L ! k)"
    and le: "0 < i \<Longrightarrow> ds ! (L ! (i - 1)) \<le> ds ! idx"
  shows "order_ok ds (take i L @ idx # drop i L)"
proof -
  have "set (take i L) \<union> set (drop i L) = set L"
    by (metis append_take_drop_id set_append)
  moreover have "set (take i L) \<inter> set (drop i L) = {}"
    using L(1) by (metis append_take_drop_id distinct_append)
  ultimately show ?thesis
    using L i sorted_insert_at [of "\<lambda>k. ds ! k" L i idx, OF s i gt le]
    by (auto simp: order_ok_def)
qed

text \<open>The work of one sample on the order array, in both branches of the code.\<close>

definition mm_pre :: "mmedian \<Rightarrow> int \<Rightarrow> mmedian_data list" where
  "mm_pre m x =
     (let d = (mm_data m)[mm_index m := (mm_data m ! mm_index m)\<lparr>md_delays := x\<rparr>]
      in if mm_cnt m < mm_len m then d
         else shift_order d (find_order d (mm_index m) 0 (mm_cnt m)) (mm_cnt m))"

definition mm_cnt' :: "mmedian \<Rightarrow> nat" where
  "mm_cnt' m = (if mm_cnt m < mm_len m then mm_cnt m + 1 else mm_cnt m)"

lemma mm_pre_delays: "map md_delays (mm_pre m x) = (mm_delays m)[mm_index m := x]"
  by (simp add: mm_pre_def mm_delays_def map_update Let_def)

lemma sorted_remove_at: "sorted (map f L) \<Longrightarrow> sorted (map f (take p L @ drop (Suc p) L))"
proof (induction L arbitrary: p)
  case (Cons a L)
  then show ?case by (cases p) (auto dest: in_set_takeD in_set_dropD)
qed simp

lemma order_write_delays:
  "(map md_order (d[i := (d ! i)\<lparr>md_delays := x\<rparr>])) = map md_order d"
  by (cases "i < length d") (simp_all add: map_update list_update_beyond list_update_same_conv)

lemma mm_pre_ok:
  fixes x :: int
  assumes inv: "mm_inv m"
  defines "L \<equiv> take (mm_cnt' m - 1) (map md_order (mm_pre m x))"
  shows "distinct L" and "insert (mm_index m) (set L) = {0..<mm_cnt' m}" and "mm_index m \<notin> set L"
    and "sorted (map (\<lambda>k. ((mm_delays m)[mm_index m := x]) ! k) L)" and "length L = mm_cnt' m - 1"
proof -
  let ?ds = "(mm_delays m)[mm_index m := x]" and ?O = "mm_orders m"
  have ok: "order_ok (mm_delays m) (take (mm_cnt m) ?O)" and le: "mm_cnt m \<le> length ?O"
    using inv by (simp_all add: mm_inv_def mm_orders_def)
  have upd: "sorted (map (\<lambda>k. ?ds ! k) K)"
    if "sorted (map (\<lambda>k. mm_delays m ! k) K)" "mm_index m \<notin> set K" for K
  proof -
    have "map (\<lambda>k. ?ds ! k) K = map (\<lambda>k. mm_delays m ! k) K"
      using that(2) by (auto intro!: map_cong nth_list_update_neq)
    then show ?thesis using that(1) by (simp only:)
  qed
  have *: "distinct L \<and> insert (mm_index m) (set L) = {0..<mm_cnt' m} \<and> mm_index m \<notin> set L \<and>
      sorted (map (\<lambda>k. mm_delays m ! k) L) \<and> length L = mm_cnt' m - 1"
  proof (cases "mm_cnt m < mm_len m")
    case True
    then have "L = take (mm_cnt m) ?O"
      by (simp add: L_def mm_cnt'_def mm_pre_def order_write_delays mm_orders_def)
    then show ?thesis
      using ok le True inv by (auto simp: order_ok_def mm_cnt'_def mm_inv_def)
  next
    case False
    define d where "d = (mm_data m)[mm_index m := (mm_data m ! mm_index m)\<lparr>md_delays := x\<rparr>]"
    define p where "p = find_order d (mm_index m) 0 (mm_cnt m)"
    have O: "map md_order d = ?O" and n: "mm_cnt m = length ?O" "length d = length ?O"
      using False inv by (simp_all add: d_def order_write_delays mm_orders_def mm_inv_def)
    have perm: "distinct ?O" "set ?O = {0..<length ?O}" "sorted (map (\<lambda>k. mm_delays m ! k) ?O)"
      using ok n by (simp_all add: order_ok_def)
    have "mm_index m \<in> set ?O"
      using perm inv n by (simp add: mm_inv_def mm_orders_def)
    then obtain q where q: "q < mm_cnt m" "md_order (d ! q) = mm_index m"
      using n by (metis O in_set_conv_nth nth_map)
    have pd: "p < length d" "md_order (d ! p) = mm_index m"
      using find_order_least [of 0 q "mm_cnt m" d "mm_index m"] q n
      by (simp_all add: p_def)
    then have "map md_order d ! p = mm_index m" by simp
    then have p: "p < length ?O" "?O ! p = mm_index m"
      using pd n by (simp_all add: O)
    have "mm_pre m x = shift_order d p (mm_cnt m)"
      using False by (simp add: mm_pre_def p_def d_def Let_def)
    then have L: "L = take p ?O @ drop (Suc p) ?O"
      using False p n shift_order_spec [of p "mm_cnt m" d]
      by (simp add: L_def mm_cnt'_def O)
    have eq: "take p ?O @ mm_index m # drop (Suc p) ?O = ?O"
      using p id_take_nth_drop [of p ?O] by simp
    have dist: "distinct (take p ?O @ mm_index m # drop (Suc p) ?O)"
      unfolding eq by (rule perm(1))
    have "set (take p ?O @ mm_index m # drop (Suc p) ?O) = {0..<length ?O}"
      unfolding eq by (rule perm(2))
    then have "distinct L" "insert (mm_index m) (set L) = {0..<length ?O}" "mm_index m \<notin> set L"
      using dist by (simp_all add: L)
    then show ?thesis
      using p n False sorted_remove_at [OF perm(3), of p]
      by (simp add: mm_cnt'_def L)
  qed
  show "distinct L" "insert (mm_index m) (set L) = {0..<mm_cnt' m}" "mm_index m \<notin> set L"
    "sorted (map (\<lambda>k. ?ds ! k) L)" "length L = mm_cnt' m - 1"
    using * upd by auto
qed

text \<open>The sample as a whole: the final order array is sorted and the ring holds the new sample.\<close>

lemma filter_sample_step:
  assumes inv: "mm_inv m"
  obtains m' where "filter_sample m x = (fst (filter_sample m x), m')"
    and "mm_len m' = mm_len m" and "mm_cnt m' = mm_cnt' m"
    and "mm_index m' = (1 + mm_index m) mod mm_len m"
    and "mm_delays m' = (mm_delays m)[mm_index m := x]"
    and "order_ok (mm_delays m') (take (mm_cnt' m) (mm_orders m'))"
    and "fst (filter_sample m x) =
      (let L = map (\<lambda>k. mm_delays m' ! k) (take (mm_cnt' m) (mm_orders m')); i = mm_cnt' m div 2
       in if mm_cnt' m mod 2 \<noteq> 0 then L ! i else s64 (L ! (i - 1) + L ! i) sdiv 2)"
proof -
  define c where "c = mm_cnt' m"
  define e where "e = mm_pre m x"
  obtain d1 i where io: "insert_order e (mm_index m) (c - 1) = (d1, i)"
    by (cases "insert_order e (mm_index m) (c - 1)")
  define d2 where "d2 = set_order d1 i (mm_index m)"
  define m' where "m' = m\<lparr>mm_cnt := c, mm_index := (1 + mm_index m) mod mm_len m, mm_data := d2\<rparr>"
  define L where "L = take (c - 1) (map md_order e)"
  have c: "0 < c" "c \<le> mm_len m"
    using inv by (auto simp: c_def mm_cnt'_def mm_inv_def)
  have le: "length e = mm_len m"
    using inv arg_cong [OF mm_pre_delays, of length m x] by (simp add: e_def mm_delays_def mm_inv_def)
  have de: "md_delays (e ! k) = ((mm_delays m)[mm_index m := x]) ! k" if "k < mm_len m" for k
    using that le by (simp add: e_def flip: mm_pre_delays)
  note io' = insert_order_spec [OF io]
  have d2: "map md_delays d2 = (mm_delays m)[mm_index m := x]"
    using io' c le by (simp add: d2_def e_def mm_pre_delays)
  then have l2: "length d2 = mm_len m"
    using inv by (metis length_map length_list_update mm_delays_def mm_inv_def)
  have iL: "i \<le> length L"
    using io' c le by (simp add: L_def)
  note pre = mm_pre_ok [OF inv, of x, folded c_def e_def, folded L_def]
  have o2: "take c (map md_order d2) = take i L @ mm_index m # drop i L"
  proof -
    have "map md_order d2 = (take i L @ mm_index m # drop i L) @ drop c (map md_order e)"
      using io' c le by (simp add: d2_def L_def min_def)
    moreover have "length (take i L @ mm_index m # drop i L) = c"
      using iL pre(5) c by simp
    ultimately show ?thesis by (metis append_eq_conv_conj)
  qed
  have lt: "L ! k < mm_len m" if "k < length L" for k
    using pre(2) c nth_mem [OF that] by (metis atLeastLessThan_iff insertCI order_less_le_trans)
  have ix: "mm_index m < mm_len m" and j: "c - 1 < length e"
    using inv c le by (simp_all add: mm_inv_def)
  have Le: "md_delays (e ! md_order (e ! k)) = ((mm_delays m)[mm_index m := x]) ! (L ! k)"
    if "k < length L" for k
    using lt [OF that] that de [of "L ! k"] by (simp add: L_def)
  have "order_ok ((mm_delays m)[mm_index m := x]) (take i L @ mm_index m # drop i L)"
  proof (rule order_ok_insert [OF pre(1) _ pre(3) pre(4) iL])
    show "insert (mm_index m) (set L) = {0..<Suc (length L)}"
      using pre(2,5) c by simp
  next
    fix k assume k: "i \<le> k" "k < length L"
    then show "((mm_delays m)[mm_index m := x]) ! mm_index m < ((mm_delays m)[mm_index m := x]) ! (L ! k)"
      using io' [OF j] Le [OF k(2)] de [OF ix] pre(5) by (metis One_nat_def)
  next
    assume "0 < i"
    then show "((mm_delays m)[mm_index m := x]) ! (L ! (i - 1)) \<le> ((mm_delays m)[mm_index m := x]) ! mm_index m"
      using io' [OF j] Le [of "i - 1"] de [OF ix] iL by simp
  qed
  moreover have dm': "mm_delays m' = (mm_delays m)[mm_index m := x]"
    using d2 by (simp add: m'_def mm_delays_def)
  ultimately have ok: "order_ok (mm_delays m') (take c (mm_orders m'))"
    by (simp add: mm_orders_def o2 m'_def)
  have sel: "md_delays (d2 ! md_order (d2 ! k)) =
      map (\<lambda>k. mm_delays m' ! k) (take c (mm_orders m')) ! k" if k: "k < c" for k
  proof -
    have "take c (mm_orders m') ! k < c"
      using ok k c l2 nth_mem [of k "take c (mm_orders m')"]
      by (simp add: order_ok_def mm_orders_def m'_def del: nth_mem)
    then show ?thesis
      using k c l2 by (simp add: mm_orders_def mm_delays_def m'_def)
  qed
  have fs: "filter_sample m x =
      (if c mod 2 \<noteq> 0 then md_delays (d2 ! md_order (d2 ! (c div 2)))
       else s64 (md_delays (d2 ! md_order (d2 ! (c div 2 - 1))) +
                 md_delays (d2 ! md_order (d2 ! (c div 2)))) sdiv 2, m')"
    using io by (simp add: filter_sample_def Let_def c_def mm_cnt'_def e_def mm_pre_def d2_def m'_def
        split: if_splits)
  show ?thesis
  proof (rule that [of m'])
    show "fst (filter_sample m x) =
      (let L = map (\<lambda>k. mm_delays m' ! k) (take (mm_cnt' m) (mm_orders m')); i = mm_cnt' m div 2
       in if mm_cnt' m mod 2 \<noteq> 0 then L ! i else s64 (L ! (i - 1) + L ! i) sdiv 2)"
      unfolding fs Let_def c_def [symmetric] using sel [of "c div 2"] sel [of "c div 2 - 1"] c by simp
  qed (use fs ok dm' in \<open>simp_all add: m'_def c_def\<close>)
qed

lemma mm_window_mset: "mm_inv m \<Longrightarrow> mset (mm_window m) = mset (take (mm_cnt m) (mm_delays m))"
  by (simp add: mm_window_def mm_inv_def mm_delays_def) (metis append_take_drop_id mset_append
      union_commute mset_map)

lemma mm_window_length: "mm_inv m \<Longrightarrow> length (mm_window m) = mm_cnt m"
  by (auto simp: mm_window_def mm_inv_def mm_delays_def)

lemma ring_window:
  assumes "i < length ds"
  shows "drop (Suc i mod length ds) (ds[i := x]) @ take (Suc i mod length ds) (ds[i := x]) =
    drop (Suc i) ds @ take i ds @ [x]"
proof (cases "Suc i = length ds")
  case True
  then show ?thesis using assms by (simp add: list_update_take_drop)
next
  case False
  then have "Suc i < length ds" using assms by simp
  then show ?thesis using assms by (simp add: take_Suc_conv_app_nth take_update_swap list_update_append)
qed

lemma filter_sample_window:
  assumes inv: "mm_inv m"
  shows "mm_inv (snd (filter_sample m x)) \<and>
    mm_len (snd (filter_sample m x)) = mm_len m \<and>
    mm_window (snd (filter_sample m x)) = last_n (mm_len m) (mm_window m @ [x])"
proof -
  obtain m' where m': "filter_sample m x = (fst (filter_sample m x), m')"
    "mm_len m' = mm_len m" "mm_cnt m' = mm_cnt' m" "mm_index m' = (1 + mm_index m) mod mm_len m"
    "mm_delays m' = (mm_delays m)[mm_index m := x]"
    "order_ok (mm_delays m') (take (mm_cnt' m) (mm_orders m'))"
    using filter_sample_step [OF inv] .
  have len: "length (mm_data m') = mm_len m"
    using m'(5) inv by (metis length_list_update length_map mm_delays_def mm_inv_def)
  have ld: "length (mm_delays m) = mm_len m"
    using inv by (simp add: mm_inv_def mm_delays_def)
  have inv': "mm_inv m'"
    using m' len inv by (auto simp: mm_inv_def mm_cnt'_def)
  have "mm_window m' = last_n (mm_len m) (mm_window m @ [x])"
  proof (cases "mm_cnt m < mm_len m")
    case True
    then have i: "mm_index m = mm_cnt m" using inv by (simp add: mm_inv_def)
    have t: "take (Suc (mm_cnt m)) ((mm_delays m)[mm_cnt m := x]) = take (mm_cnt m) (mm_delays m) @ [x]"
      using True ld by (simp add: take_Suc_conv_app_nth take_update_swap list_update_append)
    show ?thesis
    proof (cases "Suc (mm_cnt m) < mm_len m")
      case True
      then show ?thesis using m' i t ld by (simp add: mm_window_def mm_cnt'_def last_n_def)
    next
      case False
      then have "Suc (mm_cnt m) = mm_len m" using True by simp
      then show ?thesis using m' i t ld True by (simp add: mm_window_def mm_cnt'_def last_n_def)
    qed
  next
    case False
    then have "mm_window m' = drop (Suc (mm_index m)) (mm_delays m) @ take (mm_index m) (mm_delays m) @ [x]"
      using m' ld inv ring_window [of "mm_index m" "mm_delays m" x]
      by (simp add: mm_window_def mm_cnt'_def mm_inv_def)
    also have "\<dots> = last_n (mm_len m) (mm_window m @ [x])"
      using False ld inv by (simp add: mm_window_def last_n_def mm_inv_def)
    finally show ?thesis .
  qed
  then show ?thesis
    using m'(1,2) inv' by (metis snd_conv)
qed

lemma filter_sample_median:
  assumes inv: "mm_inv m" and b: "\<forall>y \<in> set (mm_window m @ [x]). \<bar>y\<bar> < 2 ^ 62"
  shows "fst (filter_sample m x) = median_of (last_n (mm_len m) (mm_window m @ [x]))"
proof -
  obtain m' where m': "filter_sample m x = (fst (filter_sample m x), m')"
    "mm_cnt m' = mm_cnt' m" "mm_delays m' = (mm_delays m)[mm_index m := x]"
    "order_ok (mm_delays m') (take (mm_cnt' m) (mm_orders m'))"
    "fst (filter_sample m x) =
      (let L = map (\<lambda>k. mm_delays m' ! k) (take (mm_cnt' m) (mm_orders m')); i = mm_cnt' m div 2
       in if mm_cnt' m mod 2 \<noteq> 0 then L ! i else s64 (L ! (i - 1) + L ! i) sdiv 2)"
    using filter_sample_step [OF inv] .
  define W where "W = last_n (mm_len m) (mm_window m @ [x])"
  have "snd (filter_sample m x) = m'"
    using m'(1) by (metis snd_conv)
  then have W: "mm_inv m'" "mm_window m' = W"
    using filter_sample_window [OF inv, of x] by (simp_all add: W_def)
  have len: "length W = mm_cnt' m" "0 < length W"
    using mm_window_length [OF W(1)] W(2) m'(2) inv by (auto simp: mm_cnt'_def mm_inv_def)
  have le: "length (take (mm_cnt' m) (mm_orders m')) = mm_cnt' m" "mm_cnt' m \<le> length (mm_delays m')"
    using W(1) m'(2) by (simp_all add: mm_inv_def mm_orders_def mm_delays_def)
  have L: "map (\<lambda>k. mm_delays m' ! k) (take (mm_cnt' m) (mm_orders m')) = sort W"
  proof -
    have "sort (take (mm_cnt' m) (mm_delays m')) = sort W"
      using mm_window_mset [OF W(1)] W(2) m'(2)
      by (intro properties_for_sort) simp_all
    then show ?thesis
      using order_ok_sort [OF m'(4)] le by simp
  qed
  have "\<bar>y\<bar> < 2 ^ 62" if "y \<in> set (sort W)" for y
    using that b set_last_n [of "mm_len m" "mm_window m @ [x]"] by (auto simp: W_def)
  then have "\<bar>sort W ! k\<bar> < 2 ^ 62" if "k < length W" for k
    using that by (metis length_sort nth_mem)
  then have "\<bar>sort W ! (mm_cnt' m div 2 - 1)\<bar> < 2 ^ 62" "\<bar>sort W ! (mm_cnt' m div 2)\<bar> < 2 ^ 62"
    using len by simp_all
  then have "s64 (sort W ! (mm_cnt' m div 2 - 1) + sort W ! (mm_cnt' m div 2)) =
      sort W ! (mm_cnt' m div 2 - 1) + sort W ! (mm_cnt' m div 2)"
    by (intro s64_id) (auto simp: abs_less_iff)
  then show ?thesis
    unfolding W_def [symmetric] using m'(5) L len
    by (auto simp: median_of_def Let_def odd_iff_mod_2_eq_one)
qed

interpretation delay_filter: moving_median mm_inv mm_len mm_window filter_sample
  by unfold_locales (use filter_sample_window filter_sample_median in blast)+

text \<open>Creation and reset give an empty window.\<close>

lemma mmedian_create_window:
  assumes "0 < len" and "mem (nat len) = Some d" and "length d = nat len"
    and "mm_cnt m = 0" and "mm_index m = 0"
  shows "mm_inv (mmedian_create m len mem) \<and> mm_window (mmedian_create m len mem) = [] \<and>
    mm_len (mmedian_create m len mem) = nat len"
  using assms by (simp add: mmedian_create_def mm_inv_def mm_window_def order_ok_def)

lemma mmedian_reset_window:
  "mm_inv m \<Longrightarrow> mm_inv (mmedian_reset m) \<and> mm_window (mmedian_reset m) = [] \<and>
    mm_len (mmedian_reset m) = mm_len m"
  by (auto simp: mmedian_reset_def mm_inv_def mm_window_def order_ok_def mm_orders_def)

primrec filter_samples :: "mmedian \<Rightarrow> int list \<Rightarrow> mmedian" where
  "filter_samples m [] = m"
| "filter_samples m (x # xs) = filter_samples (snd (filter_sample m x)) xs"

lemma filter_samples_feed: "filter_samples m xs = delay_filter.feed m xs"
  by (induction xs arbitrary: m) simp_all

end
