(* ===== verification/Ptp_filter.thy ===== *)
theory Ptp_filter
  imports Dbl Median
begin

text \<open>
  \<^verbatim>\<open>ptp_filter.c\<close>, second part: the filter of a port.  It keeps the four
  timestamps of a delay measurement, the neighbour's clock ratio and the
  moving median of the delay, and computes the path delay and the offset from
  the master.  A conversion or a division that C leaves undefined is \<open>None\<close>;
  the return code \<open>-1\<close> is \<open>Inl (-1)\<close>.
\<close>

record ptp_filter =
  f_t1 :: ptu
  f_t2 :: ptu
  f_t3 :: ptu
  f_t4 :: ptu
  f_clock_ratio :: dbl
  f_delay :: int
  f_delay_valid :: bool
  f_median :: mmedian

definition filter_set_clock_ratio :: "ptp_filter \<Rightarrow> dbl \<Rightarrow> ptp_filter" where
  "filter_set_clock_ratio f clock_ratio = f\<lparr>f_clock_ratio := clock_ratio\<rparr>"

definition filter_set_t1_t2 :: "ptp_filter \<Rightarrow> ptu \<Rightarrow> ptu \<Rightarrow> ptp_filter" where
  "filter_set_t1_t2 f t1 t2 = f\<lparr>f_t1 := t1, f_t2 := t2\<rparr>"

definition filter_set_t3_t4 :: "ptp_filter \<Rightarrow> ptu \<Rightarrow> ptu \<Rightarrow> ptp_filter" where
  "filter_set_t3_t4 f t3 t4 = f\<lparr>f_t3 := t3, f_t4 := t4\<rparr>"

definition filter_set_delay :: "ptp_filter \<Rightarrow> dbl \<Rightarrow> ptp_filter option" where
  "filter_set_delay f delay =
     (case dbl_to_int 64 delay of
        None \<Rightarrow> None
      | Some n \<Rightarrow> Some (f\<lparr>f_delay := n, f_delay_valid := True\<rparr>))"

definition calc_delay :: "ptp_filter \<Rightarrow> int option" where
  "calc_delay f =
     (let t23 = ptu_sub (f_t2 f) (f_t3 f)
      in case (if \<not> dbl_eq (f_clock_ratio f) (Fin 1)
               then ptu_mult t23 (f_clock_ratio f) else Some t23) of
           None \<Rightarrow> None
         | Some t23 \<Rightarrow>
             (let t41 = ptu_sub (f_t4 f) (f_t1 f);
                  t1 = ptu_add t23 t41
              in case ptu_div_int t1 2 of
                   None \<Rightarrow> None
                 | Some t2 \<Rightarrow>
                     (let delay = ptu_get_nsec t2
                      in Some (if delay < 0 \<or> delay > 10000 then 1 else delay))))"

definition filter_update_delay :: "ptp_filter \<Rightarrow> ((int + int \<times> int) \<times> ptp_filter) option" where
  "filter_update_delay f =
     (if ptu_empty (f_t2 f) \<or> ptu_empty (f_t3 f) then Some (Inl (- 1), f)
      else
        (case calc_delay f of
           None \<Rightarrow> None
         | Some raw_delay \<Rightarrow>
             (let f = (if mm_len (f_median f) \<noteq> 0
                       then (let (d, m) = filter_sample (f_median f) raw_delay
                             in f\<lparr>f_delay := d, f_median := m\<rparr>)
                       else f\<lparr>f_delay := raw_delay\<rparr>);
                  f = f\<lparr>f_delay_valid := True\<rparr>
              in Some (Inr (f_delay f, raw_delay), f))))"

definition filter_update_offset :: "ptp_filter \<Rightarrow> int + ptu" where
  "filter_update_offset f =
     (if ptu_empty (f_t1 f) \<or> ptu_empty (f_t2 f) then Inl (- 1)
      else
        (let t12 = ptu_sub (f_t2 f) (f_t1 f)
         in if f_delay_valid f
            then Inr (ptu_sub t12 \<lparr>u_sec = 0, u_nsec = s64 (f_delay f * 2 ^ 16)\<rparr>)
            else Inr t12))"

definition filter_reset :: "ptp_filter \<Rightarrow> bool \<Rightarrow> ptp_filter" where
  "filter_reset f full =
     (let f = f\<lparr>f_t1 := ptu_zero, f_t2 := ptu_zero, f_t3 := ptu_zero, f_t4 := ptu_zero\<rparr>
      in if full
         then f\<lparr>f_clock_ratio := Fin 1, f_median := mmedian_reset (f_median f), f_delay_valid := False\<rparr>
         else f)"

definition exit_ptp_filter :: "ptp_filter \<Rightarrow> ptp_filter" where
  "exit_ptp_filter f =
     (if mm_len (f_median f) \<noteq> 0 then f\<lparr>f_median := mmedian_destroy (f_median f)\<rparr> else f)"

definition init_ptp_filter :: "(nat \<Rightarrow> mmedian_data list option) \<Rightarrow> ptp_filter \<Rightarrow> ptp_filter" where
  "init_ptp_filter mem f =
     f\<lparr>f_median := mmedian_create (f_median f) 10 mem, f_clock_ratio := Fin 1, f_delay_valid := False\<rparr>"

subsection \<open>Delay and offset\<close>

definition ts_ok :: "ptu \<Rightarrow> bool" where
  "ts_ok t \<longleftrightarrow> ptu_canon t \<and> \<bar>u_sec t\<bar> \<le> 2 ^ 32"

lemma ts_ok_val: "ts_ok t \<Longrightarrow> \<bar>ptu_val t\<bar> < (2 ^ 32 + 1) * SCALED_NANOSEC_IN_SEC"
  by (auto simp: ts_ok_def ptu_canon_def ptu_val_def abs_less_iff abs_le_iff)

lemma ts_ok_canon: "ts_ok t \<Longrightarrow> ptu_canon t"
  by (simp add: ts_ok_def)

lemma ts_ok_lim: "ts_ok t \<Longrightarrow> 2 * \<bar>ptu_val t\<bar> \<le> ptu_lim"
  using ts_ok_val [of t] by (simp add: ptu_lim_def)

lemma ptu_add_sub_sec:
  assumes "ts_ok t1" "ts_ok t2" "ts_ok t3" "ts_ok t4"
  shows "\<bar>u_sec (ptu_add (ptu_sub t2 t3) (ptu_sub t4 t1))\<bar> \<le> 2 ^ 34 + 4"
proof -
  let ?s = "ptu_add (ptu_sub t2 t3) (ptu_sub t4 t1)"
  have s: "ptu_canon ?s \<and> ptu_val ?s = (ptu_val t2 - ptu_val t3) + (ptu_val t4 - ptu_val t1)"
    using assms by (intro ptu_time.round_trip_sum) (auto intro: ts_ok_canon ts_ok_lim)
  then have "\<bar>ptu_val ?s\<bar> < 4 * ((2 ^ 32 + 1) * SCALED_NANOSEC_IN_SEC)"
    using assms [THEN ts_ok_val] by linarith
  then show ?thesis
    using s by (auto simp: ptu_canon_def ptu_val_def abs_less_iff abs_le_iff)
qed

text \<open>The delay in nanoseconds, before the plausibility check, in terms of exact times.\<close>

definition half_round_trip :: "ptu \<Rightarrow> ptu \<Rightarrow> ptu \<Rightarrow> ptu \<Rightarrow> int" where
  "half_round_trip t1 t2 t3 t4 = (ptu_val t2 - ptu_val t3) + (ptu_val t4 - ptu_val t1)"

lemma calc_delay_exact:
  assumes t: "ts_ok (f_t1 f)" "ts_ok (f_t2 f)" "ts_ok (f_t3 f)" "ts_ok (f_t4 f)"
    and r: "f_clock_ratio f = Fin 1"
  obtains d where "calc_delay f = Some (if d < 0 \<or> d > 10000 then 1 else d)"
    and "\<bar>d * 2 ^ 17 + 2 ^ 16 - half_round_trip (f_t1 f) (f_t2 f) (f_t3 f) (f_t4 f)\<bar> \<le> 2 ^ 16 + 2"
proof -
  define s where "s = ptu_add (ptu_sub (f_t2 f) (f_t3 f)) (ptu_sub (f_t4 f) (f_t1 f))"
  have s: "ptu_canon s" "ptu_val s = half_round_trip (f_t1 f) (f_t2 f) (f_t3 f) (f_t4 f)"
    unfolding s_def half_round_trip_def
    using t by (auto intro!: ptu_time.round_trip_sum [THEN conjunct1] ptu_time.round_trip_sum [THEN conjunct2]
        intro: ts_ok_canon ts_ok_lim)
  have ss: "\<bar>u_sec s\<bar> \<le> 2 ^ 34 + 4"
    unfolding s_def using t by (rule ptu_add_sub_sec)
  then have "\<bar>ptu_val s\<bar> \<le> ptu_lim"
    using s(1) by (auto simp: ptu_canon_def ptu_val_def ptu_lim_def abs_less_iff abs_le_iff)
  then obtain v where v: "ptu_div_int s 2 = Some v" "u_sec v = u_sec s sdiv 2"
    "\<bar>2 * ptu_val v - ptu_val s\<bar> < 2" "\<bar>u_nsec v\<bar> < SCALED_NANOSEC_IN_SEC"
    using ptu_div_two [OF s(1)] by metis
  have vs: "\<bar>u_sec v\<bar> \<le> 2 ^ 33 + 2"
    using ss v(2) sdiv_smod_eq [of "u_sec s" 2] smod_bound [of 2 "u_sec s"] by simp
  have g: "ptu_get_nsec v = ptu_val v div 2 ^ 16"
    by (rule ptu_get_nsec_div [OF v(4)]) (use vs in simp)
  show ?thesis
  proof (rule that [of "ptu_get_nsec v"])
    show "calc_delay f = Some (if ptu_get_nsec v < 0 \<or> ptu_get_nsec v > 10000 then 1 else ptu_get_nsec v)"
      using v(1) by (simp add: calc_delay_def r dbl_eq_def Let_def s_def)
    have "0 \<le> ptu_val v - ptu_val v div 65536 * 65536" "ptu_val v - ptu_val v div 65536 * 65536 < 65536"
      by (simp_all add: minus_div_mult_eq_mod)
    then show "\<bar>ptu_get_nsec v * 2 ^ 17 + 2 ^ 16 - half_round_trip (f_t1 f) (f_t2 f) (f_t3 f) (f_t4 f)\<bar> \<le> 2 ^ 16 + 2"
      unfolding g s(2) [symmetric] using v(3) by simp
  qed
qed

text \<open>A computed delay lies in the plausible range, whatever the ratio.\<close>

lemma calc_delay_range: "calc_delay f = Some d \<Longrightarrow> 0 \<le> d \<and> d \<le> 10000"
  by (auto simp: calc_delay_def Let_def split: option.splits if_splits)

definition filter_inv :: "ptp_filter \<Rightarrow> bool" where
  "filter_inv f \<longleftrightarrow>
     (mm_len (f_median f) \<noteq> 0 \<longrightarrow>
        mm_inv (f_median f) \<and> (\<forall>y \<in> set (mm_window (f_median f)). 0 \<le> y \<and> y \<le> 10000)) \<and>
     (f_delay_valid f \<longrightarrow> 0 \<le> f_delay f \<and> f_delay f \<le> 10000)"

lemma median_of_bounds:
  assumes "xs \<noteq> []" and "\<forall>x \<in> set xs. 0 \<le> x \<and> x \<le> B"
  shows "0 \<le> median_of xs \<and> median_of xs \<le> B"
proof -
  have b: "0 \<le> sort xs ! k \<and> sort xs ! k \<le> B" if "k < length xs" for k
    using that assms(2) nth_mem [of k "sort xs"] by simp
  have "length xs div 2 < length xs" "length xs div 2 - 1 < length xs"
    using assms(1) by (simp_all add: div_less_dividend less_imp_diff_less)
  then show ?thesis
    using b [of "length xs div 2"] b [of "length xs div 2 - 1"]
    by (auto simp: median_of_def Let_def)
qed

lemma filter_update_delay_inv:
  assumes inv: "filter_inv f" and r: "filter_update_delay f = Some (res, f')"
  shows "filter_inv f' \<and> (\<forall>d raw. res = Inr (d, raw) \<longrightarrow> 0 \<le> d \<and> d \<le> 10000 \<and> f_delay_valid f')"
proof (cases "ptu_empty (f_t2 f) \<or> ptu_empty (f_t3 f)")
  case True
  then show ?thesis using inv r by (auto simp: filter_update_delay_def)
next
  case False
  then obtain raw where raw: "calc_delay f = Some raw"
    using r by (auto simp: filter_update_delay_def split: option.splits)
  note rb = calc_delay_range [OF raw]
  show ?thesis
  proof (cases "mm_len (f_median f) = 0")
    case True
    then show ?thesis using False r raw rb by (auto simp: filter_update_delay_def Let_def filter_inv_def)
  next
    case len: False
    define W where "W = last_n (mm_len (f_median f)) (mm_window (f_median f) @ [raw])"
    have m: "mm_inv (f_median f)" and w: "\<forall>y \<in> set (mm_window (f_median f) @ [raw]). 0 \<le> y \<and> y \<le> 10000"
      using inv len rb by (auto simp: filter_inv_def)
    have W: "W \<noteq> []" "\<forall>y \<in> set W. 0 \<le> y \<and> y \<le> 10000"
      using w set_last_n [of "mm_len (f_median f)" "mm_window (f_median f) @ [raw]"] len
      by (force simp: W_def last_n_def)+
    have "fst (filter_sample (f_median f) raw) = median_of W"
      unfolding W_def by (rule delay_filter.sample_median [OF m]) (use w in force)
    then have "0 \<le> fst (filter_sample (f_median f) raw) \<and> fst (filter_sample (f_median f) raw) \<le> 10000"
      using median_of_bounds [OF W] by simp
    moreover have "mm_inv (snd (filter_sample (f_median f) raw))"
      "mm_window (snd (filter_sample (f_median f) raw)) = W"
      using delay_filter.sample_inv [OF m] delay_filter.sample_window [OF m] by (simp_all add: W_def)
    ultimately show ?thesis
      using False len r raw W(2)
      by (auto simp: filter_update_delay_def Let_def filter_inv_def split: prod.splits)
  qed
qed

text \<open>The offset is the exact difference of the two timestamps, less the delay when it is known.\<close>

lemma filter_update_offset_exact:
  assumes t: "ts_ok (f_t1 f)" "ts_ok (f_t2 f)" and ne: "\<not> ptu_empty (f_t1 f)" "\<not> ptu_empty (f_t2 f)"
    and d: "f_delay_valid f \<longrightarrow> 0 \<le> f_delay f \<and> f_delay f \<le> 10000"
  obtains u where "filter_update_offset f = Inr u" and "ptu_canon u"
    and "ptu_val u = ptu_val (f_t2 f) - ptu_val (f_t1 f) - (if f_delay_valid f then f_delay f * 2 ^ 16 else 0)"
proof (cases "f_delay_valid f")
  case True
  let ?d = "\<lparr>u_sec = 0, u_nsec = f_delay f * 65536\<rparr>"
  have w: "s64 (f_delay f * 65536) = f_delay f * 65536"
    using True d by (intro s64_id) auto
  have "ptu_canon (ptu_sub (ptu_sub (f_t2 f) (f_t1 f)) ?d) \<and>
      ptu_val (ptu_sub (ptu_sub (f_t2 f) (f_t1 f)) ?d) = ptu_val (f_t2 f) - ptu_val (f_t1 f) - ptu_val ?d"
  proof (intro ptu_time.offset_minus_delay)
    show "ptu_canon ?d" "\<bar>ptu_val ?d\<bar> \<le> ptu_lim"
      using d True by (auto simp: ptu_canon_def ptu_val_def ptu_lim_def)
  qed (use t in \<open>auto intro: ts_ok_canon ts_ok_lim\<close>)
  then show ?thesis
    using that [of "ptu_sub (ptu_sub (f_t2 f) (f_t1 f)) ?d"] ne True w
    by (simp add: filter_update_offset_def Let_def ptu_val_def)
next
  case False
  have "ptu_canon (ptu_sub (f_t2 f) (f_t1 f)) \<and>
      ptu_val (ptu_sub (f_t2 f) (f_t1 f)) = ptu_val (f_t2 f) - ptu_val (f_t1 f)"
    using t ts_ok_lim [OF t(1)] ts_ok_lim [OF t(2)] by (intro ptu_sub_exact) (auto intro: ts_ok_canon)
  then show ?thesis
    using that [of "ptu_sub (f_t2 f) (f_t1 f)"] ne False
    by (simp add: filter_update_offset_def Let_def)
qed

end
