(* ===== verification/Servo.thy ===== *)
theory Servo
  imports Ptu
begin

text \<open>
  \<^verbatim>\<open>ptp_servo.c\<close>: the PI controller that turns offsets from the master into a
  frequency adjustment.  The out-parameters \<open>adj\<close> and \<open>state\<close> of
  \<open>servo_sample\<close> are the caller's variables: they are passed in and returned.
\<close>

datatype servo_state = SERVO_UNLOCKED | SERVO_JUMP | SERVO_JUMP_LONG | SERVO_LOCKING | SERVO_LOCKED

record ptp_servo =
  sv_last_offset :: ptu
  sv_last_ingress :: ptu
  sv_last_interval :: ptu
  sv_last_dbg_ingress :: ptu
  sv_kp :: int
  sv_ki :: int
  sv_drift :: int
  sv_freq_diff :: int
  sv_last_freq :: int
  sv_drift_valid :: bool

abbreviation (input) MAX_DRIFT_CORR :: int where "MAX_DRIFT_CORR \<equiv> 6250000"
abbreviation (input) MAX_OFFSET_ADJ_ALLOWED :: int where "MAX_OFFSET_ADJ_ALLOWED \<equiv> 5000"
abbreviation (input) MIN_FREQ_DIFF_ACCEPTED :: int where "MIN_FREQ_DIFF_ACCEPTED \<equiv> 5000"
abbreviation (input) MAX_FREQ_DIFF_ALLOWED :: int where "MAX_FREQ_DIFF_ALLOWED \<equiv> 100000"
abbreviation (input) MIN_FREQ_CORR_INTERVAL :: int where "MIN_FREQ_CORR_INTERVAL \<equiv> 50000000"
abbreviation (input) MIN_JUMP_CORR_INTERVAL :: int where "MIN_JUMP_CORR_INTERVAL \<equiv> 125000000"

definition llabs :: "int \<Rightarrow> int" where
  "llabs x = s64 \<bar>x\<bar>"

definition abs_int :: "int \<Rightarrow> int" where
  "abs_int x = s32 \<bar>x\<bar>"

definition limit_drift :: "int \<Rightarrow> bool \<times> int" where
  "limit_drift drift =
     (if drift < - MAX_DRIFT_CORR then (True, - MAX_DRIFT_CORR)
      else if drift > MAX_DRIFT_CORR then (True, MAX_DRIFT_CORR)
      else (False, drift))"

definition servo_adj_ingress :: "ptp_servo \<Rightarrow> ptu \<Rightarrow> ptp_servo" where
  "servo_adj_ingress s offset =
     s\<lparr>sv_last_dbg_ingress := ptu_sub (sv_last_dbg_ingress s) offset,
       sv_last_ingress := ptu_sub (sv_last_ingress s) offset,
       sv_last_offset := ptu_sub (sv_last_offset s) offset\<rparr>"

text \<open>
  The three stages of an accepted sample, in the order of the code: the
  frequency estimate (lines 105 to 124), the PI law (128 to 144), the state of
  the servo (146 to 160).
\<close>

definition servo_freq :: "ptp_servo \<Rightarrow> ptu \<Rightarrow> int \<Rightarrow> int \<Rightarrow> servo_state \<Rightarrow> (ptp_servo \<times> int \<times> servo_state) option" where
  "servo_freq s offset offset_nsec adj state =
     (if \<not> sv_drift_valid s \<or> llabs offset_nsec \<ge> MAX_OFFSET_ADJ_ALLOWED
      then
        (let diff = ptu_sub offset (sv_last_offset s)
         in case ptu_div_sec diff (sv_last_interval s) of
              None \<Rightarrow> None
            | Some drift \<Rightarrow>
                (let freq = s64 (ptu_get_nsec drift * 1000);
                     freq = (if abs_int (sv_freq_diff s) \<ge> 100000 then 0 else freq);
                     s = s\<lparr>sv_drift := s64 (sv_drift s + freq)\<rparr>;
                     (limited, adj) = limit_drift (s32 (sv_drift s sdiv 1000));
                     s = (if limited then s\<lparr>sv_drift := s32 (adj * 1000)\<rparr> else s)
                 in Some (s, adj, SERVO_LOCKING)))
      else Some (s, adj, state))"

definition servo_pi :: "ptp_servo \<Rightarrow> int \<Rightarrow> int \<Rightarrow> servo_state \<Rightarrow> ptp_servo \<times> int \<times> servo_state" where
  "servo_pi s offset_nsec adj state =
     (if sv_drift_valid s \<and> llabs offset_nsec < MAX_OFFSET_ADJ_ALLOWED
      then
        (let ki = s64 (sv_ki s * offset_nsec);
             kp = s64 (sv_kp s * offset_nsec);
             kp = s64 (kp + s64 (ki + sv_drift s));
             kp = (if kp \<ge> 0 then s64 (kp + 500) else s64 (kp - 500));
             (limited, adj) = limit_drift (s32 (kp sdiv 1000));
             s = (if \<not> limited then s\<lparr>sv_drift := s64 (sv_drift s + ki)\<rparr> else s);
             state = (if llabs offset_nsec < MAX_OFFSET_ADJ_ALLOWED then SERVO_LOCKED else SERVO_JUMP)
         in (s, adj, state))
      else (s, adj, state))"

definition servo_final :: "ptp_servo \<Rightarrow> int \<Rightarrow> int \<Rightarrow> int \<Rightarrow> servo_state \<Rightarrow> ptp_servo \<times> servo_state" where
  "servo_final s offset_nsec interval adj state =
     (let freq_diff = s32 (adj - sv_last_freq s);
          (s, state) =
            (if \<not> sv_drift_valid s \<and>
                (abs_int freq_diff < MIN_FREQ_DIFF_ACCEPTED \<or> interval > MIN_JUMP_CORR_INTERVAL)
             then (s\<lparr>sv_drift_valid := True\<rparr>, SERVO_JUMP)
             else if abs_int freq_diff \<ge> MAX_FREQ_DIFF_ALLOWED then (s, SERVO_JUMP_LONG)
             else if llabs offset_nsec \<ge> MAX_OFFSET_ADJ_ALLOWED then (s, SERVO_JUMP)
             else (s, state))
      in (s\<lparr>sv_freq_diff := freq_diff, sv_last_freq := adj\<rparr>, state))"

text \<open>
  \<open>None\<close> is a division by zero; the first component of a result is the C
  return value.
\<close>

definition servo_sample ::
  "ptp_servo \<Rightarrow> ptu \<Rightarrow> ptu \<Rightarrow> int \<Rightarrow> servo_state \<Rightarrow> (int \<times> ptp_servo \<times> int \<times> servo_state) option" where
  "servo_sample s offset ingress adj state =
     (if ptu_empty (sv_last_ingress s)
      then Some (- 1, s\<lparr>sv_last_offset := offset, sv_last_ingress := ingress,
                       sv_last_dbg_ingress := ingress\<rparr>, adj, SERVO_UNLOCKED)
      else if ptu_empty (sv_last_interval s) \<and> ptu_after (sv_last_ingress s) ingress
      then Some (- 1, s\<lparr>sv_last_ingress := ptu_zero\<rparr>, adj, SERVO_UNLOCKED)
      else
        (let last_interval = ptu_sub ingress (sv_last_ingress s)
         in if \<not> ptu_empty (sv_last_interval s) \<and> ptu_get_nsec last_interval \<ge> 4 * NANOSEC_IN_SEC
            then Some (- 1, s\<lparr>sv_drift_valid := False, sv_last_interval := ptu_zero,
                             sv_last_offset := offset, sv_last_ingress := ingress,
                             sv_last_dbg_ingress := ingress\<rparr>, adj, SERVO_UNLOCKED)
            else
              (let s = s\<lparr>sv_last_interval := last_interval\<rparr>;
                   interval = ptu_get_nsec (sv_last_interval s)
               in if interval < MIN_FREQ_CORR_INTERVAL then Some (- 1, s, adj, state)
                  else
                    (let offset_nsec = ptu_get_nsec offset
                     in case servo_freq s offset offset_nsec adj state of
                          None \<Rightarrow> None
                        | Some (s, adj, state) \<Rightarrow>
                            (let s = s\<lparr>sv_last_offset := offset, sv_last_ingress := ingress\<rparr>;
                                 (s, adj, state) = servo_pi s offset_nsec adj state;
                                 (s, state) = servo_final s offset_nsec interval adj state
                             in Some (0, s, adj, state))))))"

definition init_ptp_servo :: "ptp_servo \<Rightarrow> ptp_servo" where
  "init_ptp_servo s =
     s\<lparr>sv_ki := 100, sv_kp := 500, sv_last_interval := ptu_zero, sv_last_offset := ptu_zero\<rparr>"

subsection \<open>The adjustment is always in the range of the hardware\<close>

lemma limit_drift_range: "limit_drift d = (l, a) \<Longrightarrow> \<bar>a\<bar> \<le> MAX_DRIFT_CORR"
  by (auto simp: limit_drift_def split: if_splits)

lemma limit_drift_id: "\<bar>d\<bar> \<le> MAX_DRIFT_CORR \<Longrightarrow> limit_drift d = (False, d)"
  by (auto simp: limit_drift_def)

lemma servo_freq_total:
  "ptu_get_nsec (sv_last_interval s) \<noteq> 0 \<Longrightarrow> servo_freq s offset n adj state \<noteq> None"
  by (auto simp: servo_freq_def ptu_div_sec_def Let_def split: prod.splits)

lemma servo_freq_adj:
  assumes "servo_freq s offset n adj state = Some (s', adj', state')"
    and "\<not> sv_drift_valid s \<or> llabs n \<ge> MAX_OFFSET_ADJ_ALLOWED"
  shows "\<bar>adj'\<bar> \<le> MAX_DRIFT_CORR"
  using assms by (auto simp: servo_freq_def Let_def split: option.splits prod.splits dest: limit_drift_range)

lemma servo_freq_valid:
  "servo_freq s offset n adj state = Some (s', adj', state') \<Longrightarrow> sv_drift_valid s' = sv_drift_valid s"
  by (auto simp: servo_freq_def Let_def split: option.splits prod.splits if_splits)

lemma servo_pi_adj:
  assumes "servo_pi s n adj state = (s', adj', state')"
    and "\<not> (sv_drift_valid s \<and> llabs n < MAX_OFFSET_ADJ_ALLOWED) \<Longrightarrow> \<bar>adj\<bar> \<le> MAX_DRIFT_CORR"
  shows "\<bar>adj'\<bar> \<le> MAX_DRIFT_CORR"
  using assms by (auto simp: servo_pi_def Let_def split: prod.splits if_splits dest: limit_drift_range)

lemma servo_sample_returns: "servo_sample s offset ingress adj state \<noteq> None"
  using servo_freq_total [of "s\<lparr>sv_last_interval := ptu_sub ingress (sv_last_ingress s)\<rparr>"
      offset "ptu_get_nsec offset" adj state]
  by (auto simp: servo_sample_def Let_def split: option.splits prod.splits)

lemma servo_sample_adj:
  assumes "servo_sample s offset ingress adj state = Some (0, s', adj', state')"
  shows "\<bar>adj'\<bar> \<le> MAX_DRIFT_CORR \<and> sv_last_freq s' = adj'"
proof -
  let ?n = "ptu_get_nsec offset" and ?s = "s\<lparr>sv_last_interval := ptu_sub ingress (sv_last_ingress s)\<rparr>"
  obtain s1 a1 st1 s2 a2 st2 s3 st3 i where
    f: "servo_freq ?s offset ?n adj state = Some (s1, a1, st1)" and
    p: "servo_pi (s1\<lparr>sv_last_offset := offset, sv_last_ingress := ingress\<rparr>) ?n a1 st1 = (s2, a2, st2)" and
    e: "servo_final s2 ?n i a2 st2 = (s3, st3)" and r: "s' = s3" "adj' = a2"
    using assms by (auto simp: servo_sample_def Let_def split: if_splits option.splits prod.splits)
  have v: "sv_drift_valid s1 = sv_drift_valid s"
    using servo_freq_valid [OF f] by simp
  have "\<bar>a2\<bar> \<le> MAX_DRIFT_CORR"
    by (rule servo_pi_adj [OF p]) (use servo_freq_adj [OF f] v in auto)
  moreover have "sv_last_freq s3 = a2"
    using e by (auto simp: servo_final_def Let_def split: if_splits)
  ultimately show ?thesis using r by simp
qed

subsection \<open>The control law\<close>

text \<open>Rounded division by one thousand, half away from zero, as the code does it.\<close>

definition round_thousandth :: "int \<Rightarrow> int" where
  "round_thousandth x = (if 0 \<le> x then (x + 500) sdiv 1000 else (x - 500) sdiv 1000)"

lemma servo_pi_law:
  assumes v: "sv_drift_valid s" and n: "\<bar>n\<bar> < MAX_OFFSET_ADJ_ALLOWED"
    and g: "\<bar>sv_kp s\<bar> \<le> 1000000" "\<bar>sv_ki s\<bar> \<le> 1000000" and d: "\<bar>sv_drift s\<bar> \<le> 1000000000000"
  defines "u \<equiv> round_thousandth (sv_kp s * n + sv_ki s * n + sv_drift s)"
  shows "servo_pi s n adj state =
    (if \<bar>u\<bar> \<le> MAX_DRIFT_CORR then s\<lparr>sv_drift := sv_drift s + sv_ki s * n\<rparr> else s,
     max (- MAX_DRIFT_CORR) (min MAX_DRIFT_CORR u), SERVO_LOCKED)"
proof -
  have m: "\<bar>k * n\<bar> \<le> 1000000 * 5000" if "\<bar>k\<bar> \<le> 1000000" for k :: int
    using mult_mono [OF that, of "\<bar>n\<bar>" 5000] n by (simp add: abs_mult)
  define p where "p = sv_kp s * n"
  define i where "i = sv_ki s * n"
  have b: "\<bar>p\<bar> \<le> 5000000000" "\<bar>i\<bar> \<le> 5000000000"
    using m [OF g(1)] m [OF g(2)] by (simp_all add: p_def i_def)
  have w: "s64 p = p" "s64 i = i" "s64 (i + sv_drift s) = i + sv_drift s"
    "s64 (sv_drift s + i) = sv_drift s + i"
    using b d by (auto intro!: s64_id)
  have a: "llabs n < MAX_OFFSET_ADJ_ALLOWED"
    using n s64_id [of "\<bar>n\<bar>"] by (simp add: llabs_def)
  define t where "t = p + (i + sv_drift s)"
  have t: "\<bar>t\<bar> \<le> 1010000000000" using b d unfolding t_def by linarith
  have wt: "s64 t = t" "s64 (t + 500) = t + 500" "s64 (t - 500) = t - 500"
    using t by (auto intro!: s64_id)
  have u: "u = round_thousandth t"
    by (simp add: u_def t_def p_def i_def algebra_simps)
  have ub: "\<bar>u\<bar> \<le> 1010000001"
    using t by (auto simp: u round_thousandth_def signed_divide_int_def sgn_if abs_le_iff)
  have k: "(if 0 \<le> t then t + 500 else t - 500) sdiv 1000 = u"
    by (simp add: u round_thousandth_def)
  have "s32 u = u" using ub by (intro s32_id) auto
  then have "servo_pi s n adj state =
      (let (limited, adj) = limit_drift u;
           s = (if \<not> limited then s\<lparr>sv_drift := sv_drift s + i\<rparr> else s)
       in (s, adj, SERVO_LOCKED))"
    using k by (cases "0 \<le> t"; cases "fst (limit_drift u)")
      (simp_all add: servo_pi_def Let_def v a w wt split_beta flip: p_def i_def t_def)
  then show ?thesis
    by (auto simp: limit_drift_def max_def min_def i_def)
qed

end
