(* ===== verification/Bytes.thy ===== *)
theory Bytes
  imports Prelude
begin

text \<open>
  A PTP message in memory is a packed C structure: a list of bytes whose
  multi-byte fields are little endian (the byte order of the target).  A field
  is an offset and a size.  \<open>rd\<close> and \<open>wr\<close> are the load and the store of a
  field, \<open>swap\<close> is \<open>ntohs\<close>, \<open>ntohl\<close> or \<open>betoh64\<close> applied to it in place.  An
  access outside the buffer is \<open>None\<close>.
\<close>

type_synonym field = "nat \<times> nat"

primrec le_val :: "byte_list \<Rightarrow> nat" where
  "le_val [] = 0"
| "le_val (b # bs) = unat b + 256 * le_val bs"

primrec le_bytes :: "nat \<Rightarrow> nat \<Rightarrow> byte_list" where
  "le_bytes 0 v = []"
| "le_bytes (Suc n) v = of_nat (v mod 256) # le_bytes n (v div 256)"

fun rd :: "field \<Rightarrow> byte_list \<Rightarrow> nat" where
  "rd (k, n) m = le_val (take n (drop k m))"

fun wr :: "field \<Rightarrow> nat \<Rightarrow> byte_list \<Rightarrow> byte_list" where
  "wr (k, n) v m = take k m @ le_bytes n v @ drop (k + n) m"

fun swap :: "field \<Rightarrow> byte_list \<Rightarrow> byte_list" where
  "swap (k, n) m = take k m @ rev (take n (drop k m)) @ drop (k + n) m"

fun inb :: "field \<Rightarrow> byte_list \<Rightarrow> bool" where
  "inb (k, n) m \<longleftrightarrow> k + n \<le> length m"

fun disj :: "field \<Rightarrow> field \<Rightarrow> bool" where
  "disj (k, n) (l, p) \<longleftrightarrow> k + n \<le> l \<or> l + p \<le> k"

primrec swaps :: "field list \<Rightarrow> byte_list \<Rightarrow> byte_list option" where
  "swaps [] m = Some m"
| "swaps (f # fs) m = (if inb f m then swaps fs (swap f m) else None)"

text \<open>\<open>memcpy\<close> of \<open>bs\<close> to offset \<open>k\<close>.\<close>

definition put_bytes :: "nat \<Rightarrow> byte_list \<Rightarrow> byte_list \<Rightarrow> byte_list" where
  "put_bytes k bs m = take k m @ bs @ drop (k + length bs) m"

definition get_bytes :: "nat \<Rightarrow> nat \<Rightarrow> byte_list \<Rightarrow> byte_list" where
  "get_bytes k n m = take n (drop k m)"

subsection \<open>Values and bytes\<close>

lemma le_bytes_length [simp]: "length (le_bytes n v) = n"
  by (induction n arbitrary: v) simp_all

lemma le_val_bytes [simp]: "le_val (le_bytes n v) = v mod 256 ^ n"
proof (induction n arbitrary: v)
  case (Suc n)
  have "unat (of_nat (v mod 256) :: u8) = v mod 256"
    by (simp add: unat_of_nat)
  then show ?case using Suc [of "v div 256"] by (simp add: mod_mult2_eq add.commute)
qed simp

lemma le_bytes_val: "length bs = n \<Longrightarrow> le_bytes n (le_val bs) = bs"
proof (induction n arbitrary: bs)
  case (Suc n)
  then obtain b cs where bs: "bs = b # cs" by (cases bs) auto
  have "unat b < 256" using unsigned_less [of b] by simp
  then show ?case using Suc bs by simp
qed simp

lemma le_val_less: "le_val bs < 256 ^ length bs"
proof (induction bs)
  case (Cons b bs)
  have "unat b < 256" using unsigned_less [of b] by simp
  then show ?case using Cons by simp
qed simp

lemma rd_less: "rd (k, n) m < 256 ^ n"
proof -
  have "rd (k, n) m < 256 ^ length (take n (drop k m))"
    unfolding rd.simps by (rule le_val_less)
  also have "\<dots> \<le> 256 ^ n" by (rule power_increasing) simp_all
  finally show ?thesis .
qed

subsection \<open>The laws of fields\<close>

lemma take_drop_split: "take k m @ take n (drop k m) @ drop (k + n) m = m"
  by (metis append_take_drop_id drop_drop add.commute)

lemma take_drop_take: "l + p \<le> k \<Longrightarrow> take p (drop l (take k m)) = take p (drop l m)"
  by (simp add: drop_take min_def)

lemma wr_length [simp]: "inb f m \<Longrightarrow> length (wr f v m) = length m"
  by (cases f) simp

lemma swap_length [simp]: "length (swap f m) = length m"
  by (cases f) (simp add: min_def)

lemma inb_wr [simp]: "inb f m \<Longrightarrow> inb g (wr f v m) = inb g m"
  by (cases g) (simp only: inb.simps wr_length)

lemma inb_swap [simp]: "inb g (swap f m) = inb g m"
  by (cases g) (simp only: inb.simps swap_length)

lemma rd_wr [simp]: "inb (k, n) m \<Longrightarrow> rd (k, n) (wr (k, n) v m) = v mod 256 ^ n"
  by simp

lemma rd_wr_disj [simp]: "inb f m \<Longrightarrow> disj f g \<Longrightarrow> rd g (wr f v m) = rd g m"
  by (cases f; cases g) (auto simp: drop_append take_append take_drop_take)

lemma wr_rd: "inb f m \<Longrightarrow> wr f (rd f m) m = m"
  by (cases f) (simp add: le_bytes_val take_drop_split)

lemma wr_wr: "inb f m \<Longrightarrow> wr f v (wr f w m) = wr f v m"
  by (cases f) (simp add: min_def)

lemma swap_inv [simp]: "swap f (swap f m) = m"
proof (cases f)
  case (Pair k n)
  show ?thesis
  proof (cases "k \<le> length m")
    case True
    then have "swap (k, n) (swap (k, n) m) = take k m @ take n (drop k m) @ drop (k + n) m"
      by (cases "k + n \<le> length m") (simp_all add: min_def)
    then show ?thesis using Pair by (simp only: take_drop_split)
  qed (simp add: Pair)
qed

lemma rd_swap_disj [simp]: "disj f g \<Longrightarrow> inb f m \<Longrightarrow> rd g (swap f m) = rd g m"
  by (cases f; cases g) (auto simp: drop_append take_append take_drop_take)

lemma disj_sym: "disj f g = disj g f"
  by (cases f; cases g) auto

lemma field_nth:
  "inb (k, n) m \<Longrightarrow> i < length m \<Longrightarrow>
   swap (k, n) m ! i = (if k \<le> i \<and> i < k + n then m ! (k + k + n - 1 - i) else m ! i)"
  by (auto simp: nth_append rev_nth min_def intro!: arg_cong [where f = "nth m"])

lemma swap_comm: "disj f g \<Longrightarrow> inb f m \<Longrightarrow> inb g m \<Longrightarrow> swap f (swap g m) = swap g (swap f m)"
proof (cases f; cases g)
  fix k n l p assume *: "disj f g" "inb f m" "inb g m" "f = (k, n)" "g = (l, p)"
  show "swap f (swap g m) = swap g (swap f m)"
  proof (rule nth_equalityI)
    fix i assume "i < length (swap f (swap g m))"
    then have i: "i < length m" by simp
    have b: "k + n \<le> length m" "l + p \<le> length m" "k + n \<le> l \<or> l + p \<le> k"
      using * by auto
    have F: "swap (k, n) x ! i = (if k \<le> i \<and> i < k + n then x ! (k + k + n - 1 - i) else x ! i)"
      if "length x = length m" for x
      using that b i by (intro field_nth) simp_all
    have G: "swap (l, p) x ! i = (if l \<le> i \<and> i < l + p then x ! (l + l + p - 1 - i) else x ! i)"
      if "length x = length m" for x
      using that b i by (intro field_nth) simp_all
    have G': "swap (l, p) m ! (k + k + n - 1 - i) = m ! (k + k + n - 1 - i)" if "k \<le> i" "i < k + n"
      using that b field_nth [of l p m "k + k + n - 1 - i"] by auto
    have F': "swap (k, n) m ! (l + l + p - 1 - i) = m ! (l + l + p - 1 - i)" if "l \<le> i" "i < l + p"
      using that b field_nth [of k n m "l + l + p - 1 - i"] by auto
    show "swap f (swap g m) ! i = swap g (swap f m) ! i"
      unfolding *(4,5) using b(3) F [of "swap (l, p) m"] G [of "swap (k, n) m"] F [of m] G [of m] F' G'
      by auto
  qed simp
qed

text \<open>
  The contract of structure members: what a store changes and what it keeps.
  A sequence of stores to disjoint members keeps every other member.
\<close>

locale members =
  fixes get :: "'f \<Rightarrow> 'm \<Rightarrow> nat"
    and put :: "'f \<Rightarrow> nat \<Rightarrow> 'm \<Rightarrow> 'm"
    and inside :: "'f \<Rightarrow> 'm \<Rightarrow> bool"
    and apart :: "'f \<Rightarrow> 'f \<Rightarrow> bool"
    and bound :: "'f \<Rightarrow> nat"
  assumes get_put: "inside f m \<Longrightarrow> v < bound f \<Longrightarrow> get f (put f v m) = v"
    and get_put_apart: "inside f m \<Longrightarrow> apart f g \<Longrightarrow> get g (put f v m) = get g m"
    and put_inside: "inside f m \<Longrightarrow> inside g (put f v m) = inside g m"
begin

fun puts :: "('f \<times> nat) list \<Rightarrow> 'm \<Rightarrow> 'm" where
  "puts [] m = m"
| "puts ((f, v) # ps) m = puts ps (put f v m)"

lemma puts_inside: "\<forall>(f, v) \<in> set ps. inside f m \<Longrightarrow> inside g (puts ps m) = inside g m"
  by (induction ps m rule: puts.induct) (auto simp: put_inside)

lemma puts_other:
  "\<forall>(f, v) \<in> set ps. inside f m \<and> apart f g \<Longrightarrow> get g (puts ps m) = get g m"
  by (induction ps m rule: puts.induct) (auto simp: put_inside get_put_apart)

lemma puts_get:
  "\<forall>(f, v) \<in> set ps. inside f m \<and> v < bound f \<Longrightarrow>
   sorted_wrt (\<lambda>(f, v) (g, w). apart g f) ps \<Longrightarrow> (f, v) \<in> set ps \<Longrightarrow> get f (puts ps m) = v"
proof (induction ps m rule: puts.induct)
  case (2 g w ps m)
  show ?case
  proof (cases "(f, v) = (g, w)")
    case True
    have "\<forall>(h, x) \<in> set ps. inside h (put g w m) \<and> apart h g"
      using 2(2,3) by (auto simp: put_inside)
    then have "get g (puts ps (put g w m)) = get g (put g w m)"
      by (rule puts_other)
    then show ?thesis using True 2(2) by (simp add: get_put)
  next
    case False
    then show ?thesis using 2 by (auto simp: put_inside)
  qed
qed simp

end

interpretation fields: members rd wr inb disj "\<lambda>(k, n). 256 ^ n"
  by unfold_locales (auto simp del: rd.simps wr.simps inb.simps disj.simps)

declare rd.simps [simp del] wr.simps [simp del] swap.simps [simp del]

subsection \<open>Sequences of byte swaps\<close>

lemma swaps_length: "swaps fs m = Some m' \<Longrightarrow> length m' = length m"
  by (induction fs arbitrary: m) (auto split: if_splits)

lemma swaps_some: "swaps fs m \<noteq> None \<longleftrightarrow> (\<forall>f \<in> set fs. inb f m)"
  by (induction fs arbitrary: m) auto

lemma swaps_append: "swaps (fs @ gs) m = Option.bind (swaps fs m) (swaps gs)"
  by (induction fs arbitrary: m) auto

lemma swaps_rd: "swaps fs m = Some m' \<Longrightarrow> \<forall>f \<in> set fs. disj f g \<Longrightarrow> rd g m' = rd g m"
  by (induction fs arbitrary: m) (auto split: if_splits)

lemma swaps_swap:
  "swaps fs m = Some m' \<Longrightarrow> inb g m \<Longrightarrow> \<forall>f \<in> set fs. disj f g \<Longrightarrow> swaps fs (swap g m) = Some (swap g m')"
proof (induction fs arbitrary: m)
  case (Cons f fs)
  then have "inb f m" "swaps fs (swap f m) = Some m'" by (simp_all split: if_splits)
  moreover have "swap f (swap g m) = swap g (swap f m)"
    using Cons calculation by (intro swap_comm) auto
  ultimately show ?case using Cons by simp
qed simp

text \<open>Swapping a set of disjoint fields twice is the identity.\<close>

lemma swaps_swaps:
  "swaps fs m = Some m' \<Longrightarrow> sorted_wrt disj fs \<Longrightarrow> swaps fs m' = Some m"
proof (induction fs arbitrary: m m')
  case (Cons f fs)
  from Cons.prems have f: "inb f m" "swaps fs (swap f m) = Some m'" by (simp_all split: if_splits)
  have l: "length m' = length m" using swaps_length [OF f(2)] by simp
  then have fm': "inb f m'" using f(1) by (cases f) simp
  have "swaps fs m' = Some (swap f m)" using Cons.IH [OF f(2)] Cons.prems(2) by simp
  moreover have "\<forall>h \<in> set fs. disj h f"
    using Cons.prems(2) disj_sym [THEN iffD1] by (simp del: disj.simps)
  ultimately have "swaps fs (swap f m') = Some (swap f (swap f m))"
    using fm' by (intro swaps_swap) auto
  then show ?case using fm' by simp
qed simp

end
