(* ===== verification/Bmca.thy ===== *)
theory Bmca
  imports Prelude "HOL-Library.List_Lexorder"
begin

text \<open>
  \<^verbatim>\<open>ptp_bmca.c\<close>, the comparison of data sets: \<open>bmca_better\<close> decides which of two
  announced clocks is the better master and, for one clock seen twice, which
  path is the better one.  The code compares structures byte by byte; the
  abstract specification is one lexicographic key, and the locale
  \<open>best_choice\<close> shows what a selection by such a comparison returns.
\<close>

subsection \<open>Data sets\<close>

record ptp_port_identity =
  pi_clock :: byte_list
  pi_port :: u16

record ptp_clock_quality =
  q_class :: u8
  q_accuracy :: u8
  q_variance :: u16

record bmc_dataset =
  ds_prio_1 :: u8
  ds_prio_2 :: u8
  ds_steps_removed :: u16
  ds_id :: byte_list
  ds_quality :: ptp_clock_quality
  ds_rx :: ptp_port_identity
  ds_tx :: ptp_port_identity

record foreign_dataset =
  fd_prec :: int
  fd_dataset :: bmc_dataset
  fd_cnt :: u8
  fd_valid :: bool
  fd_bad_cnt :: u32
  fd_good_cnt :: u32
  fd_bad_master :: int
  fd_port :: nat

abbreviation (input) MAX_FOREIGN_MASTERS :: nat where "MAX_FOREIGN_MASTERS \<equiv> 2"
abbreviation (input) FOREIGN_MASTER_THRESHOLD :: nat where "FOREIGN_MASTER_THRESHOLD \<equiv> 3"

text \<open>The bytes of a port identity as they lie in memory; the port number is little endian.\<close>

definition id_bytes :: "ptp_port_identity \<Rightarrow> byte_list" where
  "id_bytes i = pi_clock i @ [ucast (pi_port i), ucast (drop_bit 8 (pi_port i))]"

fun memcmp :: "byte_list \<Rightarrow> byte_list \<Rightarrow> int" where
  "memcmp (x # xs) (y # ys) = (if x < y then - 1 else if y < x then 1 else memcmp xs ys)"
| "memcmp xs ys = 0"

definition same_port_id :: "ptp_port_identity \<Rightarrow> ptp_port_identity \<Rightarrow> bool" where
  "same_port_id a b \<longleftrightarrow> memcmp (id_bytes a) (id_bytes b) = 0"

abbreviation (input) A_BETTER_PATH :: int where "A_BETTER_PATH \<equiv> 2"
abbreviation (input) A_BETTER :: int where "A_BETTER \<equiv> 1"
abbreviation (input) B_BETTER :: int where "B_BETTER \<equiv> - 1"
abbreviation (input) B_BETTER_PATH :: int where "B_BETTER_PATH \<equiv> - 2"

subsection \<open>The comparison\<close>

definition bmca_better_path :: "bmc_dataset \<Rightarrow> bmc_dataset \<Rightarrow> int" where
  "bmca_better_path a b =
     (let steps_a = (ucast (ds_steps_removed a) :: u32);
          steps_b = (ucast (ds_steps_removed b) :: u32)
      in if steps_a + 1 < steps_b then A_BETTER
         else if steps_b + 1 < steps_a then B_BETTER
         else if steps_a < steps_b then
           (let diff = memcmp (id_bytes (ds_rx b)) (id_bytes (ds_tx b))
            in if diff < 0 then A_BETTER else if diff > 0 then A_BETTER_PATH else 0)
         else if steps_b < steps_a then
           (let diff = memcmp (id_bytes (ds_rx a)) (id_bytes (ds_tx a))
            in if diff < 0 then B_BETTER else if diff > 0 then B_BETTER_PATH else 0)
         else
           (let diff = memcmp (id_bytes (ds_tx a)) (id_bytes (ds_tx b))
            in if diff < 0 then A_BETTER_PATH
               else if diff > 0 then B_BETTER_PATH
               else if pi_port (ds_rx a) < pi_port (ds_rx b) then A_BETTER_PATH
               else if pi_port (ds_rx b) < pi_port (ds_rx a) then B_BETTER_PATH
               else 0))"

text \<open>
  The comparison of two data sets that are present, and the entry point on
  pointers, \<open>None\<close> for NULL.  The code's shortcut for equal pointers needs no
  case of its own: two equal data sets compare as 0 (\<open>bmca_compare_refl\<close>).
\<close>

definition bmca_compare :: "bmc_dataset \<Rightarrow> bmc_dataset \<Rightarrow> int" where
  "bmca_compare a b =
     (let diff = memcmp (ds_id a) (ds_id b)
      in if diff = 0 then bmca_better_path a b
         else if ds_prio_1 a < ds_prio_1 b then A_BETTER
         else if ds_prio_1 b < ds_prio_1 a then B_BETTER
         else if q_class (ds_quality a) < q_class (ds_quality b) then A_BETTER
         else if q_class (ds_quality b) < q_class (ds_quality a) then B_BETTER
         else if q_accuracy (ds_quality a) < q_accuracy (ds_quality b) then A_BETTER
         else if q_accuracy (ds_quality b) < q_accuracy (ds_quality a) then B_BETTER
         else if q_variance (ds_quality a) < q_variance (ds_quality b) then A_BETTER
         else if q_variance (ds_quality b) < q_variance (ds_quality a) then B_BETTER
         else if ds_prio_2 a < ds_prio_2 b then A_BETTER
         else if ds_prio_2 b < ds_prio_2 a then B_BETTER
         else if diff < 0 then A_BETTER else B_BETTER)"

fun bmca_better :: "bmc_dataset option \<Rightarrow> bmc_dataset option \<Rightarrow> int" where
  "bmca_better None None = 0"
| "bmca_better (Some a) None = A_BETTER"
| "bmca_better None (Some b) = B_BETTER"
| "bmca_better (Some a) (Some b) = bmca_compare a b"

subsection \<open>The tables of foreign masters\<close>

text \<open>The loop of \<open>find_best_master\<close> over the table, from index \<open>i\<close>; the result is an index.\<close>

fun find_best_from :: "foreign_dataset list \<Rightarrow> nat \<Rightarrow> (nat \<times> foreign_dataset) option \<Rightarrow> (nat \<times> foreign_dataset) option" where
  "find_best_from [] i best = best"
| "find_best_from (f # fs) i best =
     find_best_from fs (Suc i)
       (if \<not> fd_valid f then best
        else (case best of
                None \<Rightarrow> Some (i, f)
              | Some (j, b) \<Rightarrow>
                  if bmca_better (Some (fd_dataset f)) (Some (fd_dataset b)) > 0 then Some (i, f) else best))"

definition find_best_master :: "foreign_dataset list \<Rightarrow> nat option" where
  "find_best_master masters = map_option fst (find_best_from masters 0 None)"

fun find_foreign_from :: "foreign_dataset list \<Rightarrow> nat \<Rightarrow> nat option \<Rightarrow> bmc_dataset \<Rightarrow> nat option \<times> bool" where
  "find_foreign_from [] i first ds = (first, False)"
| "find_foreign_from (f # fs) i first ds =
     (let first = (if first = None \<and> fd_cnt f = 0 then Some i else first)
      in if fd_cnt f \<noteq> 0 \<and> same_port_id (ds_tx ds) (ds_tx (fd_dataset f)) then (Some i, True)
         else find_foreign_from fs (Suc i) first ds)"

text \<open>The entry of the sender, else the first free entry, which takes the data set.\<close>

definition find_foreign_master :: "foreign_dataset list \<Rightarrow> bmc_dataset \<Rightarrow> nat option \<times> foreign_dataset list" where
  "find_foreign_master masters ds =
     (case find_foreign_from masters 0 None ds of
        (Some i, False) \<Rightarrow> (Some i, masters[i := (masters ! i)\<lparr>fd_dataset := ds\<rparr>])
      | (r, _) \<Rightarrow> (r, masters))"

subsection \<open>Byte comparison is lexicographic\<close>

lemma memcmp_range: "memcmp xs ys = - 1 \<or> memcmp xs ys = 0 \<or> memcmp xs ys = 1"
  by (induction xs ys rule: memcmp.induct) auto

lemma memcmp_refl [simp]: "memcmp xs xs = 0"
  by (induction xs) auto

lemma memcmp_swap: "memcmp xs ys = - memcmp ys xs"
  by (induction xs ys rule: memcmp.induct) auto

lemma memcmp_eq: "length xs = length ys \<Longrightarrow> memcmp xs ys = 0 \<longleftrightarrow> xs = ys"
  by (induction xs ys rule: list_induct2) (auto simp: not_less_iff_gr_or_eq)

lemma list_less_append:
  fixes xs :: "nat list"
  assumes "length xs = length ys"
  shows "xs @ us < ys @ vs \<longleftrightarrow> xs < ys \<or> (xs = ys \<and> us < vs)"
  using assms by (induction xs ys rule: list_induct2) auto

lemma memcmp_less: "length xs = length ys \<Longrightarrow> memcmp xs ys < 0 \<longleftrightarrow> map unat xs < map unat ys"
  by (induction xs ys rule: list_induct2) (auto simp: word_less_nat_alt)

lemma memcmp_greater: "length xs = length ys \<Longrightarrow> 0 < memcmp xs ys \<longleftrightarrow> map unat ys < map unat xs"
  using memcmp_less [of ys xs] memcmp_swap [of xs ys] by simp

lemma bytes_of_port_inj:
  assumes "[ucast p, ucast (drop_bit 8 p)] = [ucast q, ucast (drop_bit 8 (q::u16)) :: u8]"
  shows "p = (q::u16)"
proof (rule bit_word_eqI)
  fix n assume n: "n < LENGTH(16)"
  have lo: "bit (ucast p :: u8) k = bit (ucast q :: u8) k" and
    hi: "bit (ucast (drop_bit 8 p) :: u8) k = bit (ucast (drop_bit 8 q) :: u8) k" for k
    using assms by simp_all
  show "bit p n = bit q n"
  proof (cases "n < 8")
    case True
    then show ?thesis using lo [of n] by (simp add: bit_ucast_iff)
  next
    case False
    moreover have "n - 8 < 8" using n by simp
    ultimately show ?thesis using hi [of "n - 8"] by (simp add: bit_ucast_iff bit_drop_bit_eq)
  qed
qed

definition id_wf :: "ptp_port_identity \<Rightarrow> bool" where
  "id_wf i \<longleftrightarrow> length (pi_clock i) = 8"

lemma id_bytes_length [simp]: "id_wf i \<Longrightarrow> length (id_bytes i) = 10"
  by (simp add: id_bytes_def id_wf_def)

lemma same_port_id_eq: "id_wf a \<Longrightarrow> id_wf b \<Longrightarrow> same_port_id a b \<longleftrightarrow> a = b"
proof -
  assume wf: "id_wf a" "id_wf b"
  have "id_bytes a = id_bytes b \<longleftrightarrow> a = b"
  proof
    assume "id_bytes a = id_bytes b"
    then have "pi_clock a = pi_clock b" "pi_port a = pi_port b"
      using wf bytes_of_port_inj [of "pi_port a" "pi_port b"] by (simp_all add: id_bytes_def id_wf_def)
    then show "a = b" by simp
  qed simp
  then show ?thesis
    using wf memcmp_eq [of "id_bytes a" "id_bytes b"] by (simp add: same_port_id_def)
qed

subsection \<open>Antisymmetry\<close>

lemma two_way_swap:
  fixes x y :: "'a::linorder" and r :: int
  assumes "r = - r'"
  shows "(if x < y then k else if y < x then - k else r) = - (if y < x then k else if x < y then - k else r')"
  using assms by auto

lemma unat_ucast16 [simp]: "unat (ucast (x::u16) :: u32) = unat x"
proof -
  have "unat x < 2 ^ 16" using unsigned_less [of x] by simp
  then show ?thesis by (simp add: unsigned_ucast_eq take_bit_nat_eq_self)
qed

lemma unat_steps_suc: "unat ((ucast (x::u16) :: u32) + 1) = unat x + 1"
proof -
  have "unat x < 65536" using unsigned_less [of x] by simp
  then show ?thesis by (simp add: unat_word_ariths)
qed

lemma bmca_better_path_swap: "bmca_better_path a b = - bmca_better_path b a"
proof -
  let ?a = "unat (ds_steps_removed a)" and ?b = "unat (ds_steps_removed b)"
  consider "?a < ?b" | "?b < ?a" | "?a = ?b" by linarith
  then show ?thesis
  proof cases
    case 3
    obtain d where d: "memcmp (id_bytes (ds_tx a)) (id_bytes (ds_tx b)) = d"
      "memcmp (id_bytes (ds_tx b)) (id_bytes (ds_tx a)) = - d"
      using memcmp_swap by metis
    show ?thesis using 3
      by (simp add: bmca_better_path_def Let_def word_less_nat_alt unat_steps_suc d)
  qed (simp_all add: bmca_better_path_def Let_def word_less_nat_alt unat_steps_suc)
qed

lemma bmca_compare_swap: "bmca_compare a b = - bmca_compare b a"
proof -
  obtain d where d: "memcmp (ds_id a) (ds_id b) = d" "memcmp (ds_id b) (ds_id a) = - d"
    using memcmp_swap by metis
  show ?thesis
  proof (cases "d = 0")
    case True
    then show ?thesis using d by (simp add: bmca_compare_def bmca_better_path_swap [of a b])
  next
    case False
    then show ?thesis
      unfolding bmca_compare_def Let_def d neg_equal_0_iff_equal if_not_P [OF False]
      by (intro two_way_swap) auto
  qed
qed

lemma bmca_compare_refl [simp]: "bmca_compare a a = 0"
  using bmca_compare_swap [of a a] by simp

lemma bmca_better_swap: "bmca_better x y = - bmca_better y x"
proof (cases x; cases y)
  fix a b assume "x = Some a" "y = Some b"
  then show ?thesis using bmca_compare_swap [of a b] by simp
qed simp_all

subsection \<open>The key of a data set\<close>

text \<open>
  What the comparison orders by: the quality of the clock and its identity,
  then the length of the path, the sender and the receiving port.
\<close>

definition clock_key :: "bmc_dataset \<Rightarrow> nat list" where
  "clock_key a =
     [unat (ds_prio_1 a), unat (q_class (ds_quality a)), unat (q_accuracy (ds_quality a)),
      unat (q_variance (ds_quality a)), unat (ds_prio_2 a)]"

definition path_key :: "bmc_dataset \<Rightarrow> nat list" where
  "path_key a = [unat (ds_steps_removed a)] @ map unat (id_bytes (ds_tx a)) @ [unat (pi_port (ds_rx a))]"

definition ds_key :: "bmc_dataset \<Rightarrow> nat list" where
  "ds_key a = clock_key a @ map unat (ds_id a) @ path_key a"

definition ds_wf :: "bmc_dataset \<Rightarrow> bool" where
  "ds_wf a \<longleftrightarrow> length (ds_id a) = 8 \<and> id_wf (ds_rx a) \<and> id_wf (ds_tx a) \<and> ds_rx a \<noteq> ds_tx a"

text \<open>Every path announces one clock with the same quality.\<close>

definition announced :: "(byte_list \<Rightarrow> nat list) \<Rightarrow> bmc_dataset set" where
  "announced q = {a. ds_wf a \<and> clock_key a = q (ds_id a)}"

lemma map_unat_eq [simp]: "map unat xs = map unat ys \<longleftrightarrow> xs = ys" for xs ys :: byte_list
  by (rule inj_map_eq_map, rule injI, erule unsigned_word_eqI)

lemma rx_tx_differ: "ds_wf a \<Longrightarrow> memcmp (id_bytes (ds_rx a)) (id_bytes (ds_tx a)) \<noteq> 0"
  using same_port_id_eq [of "ds_rx a" "ds_tx a"] by (simp add: same_port_id_def ds_wf_def)

lemma bmca_better_path_key:
  assumes "ds_wf a" "ds_wf b"
  shows "0 < bmca_better_path a b \<longleftrightarrow> path_key a < path_key b"
proof -
  let ?a = "unat (ds_steps_removed a)" and ?b = "unat (ds_steps_removed b)"
  have l: "length (id_bytes (ds_tx a)) = length (id_bytes (ds_tx b))"
    using assms by (simp add: ds_wf_def)
  consider "?a < ?b" | "?b < ?a" | "?a = ?b" by linarith
  then show ?thesis
  proof cases
    case 1
    then show ?thesis using rx_tx_differ [OF assms(2)]
      by (auto simp: bmca_better_path_def path_key_def Let_def word_less_nat_alt unat_steps_suc)
  next
    case 2
    then show ?thesis using rx_tx_differ [OF assms(1)]
      by (auto simp: bmca_better_path_def path_key_def Let_def word_less_nat_alt unat_steps_suc)
  next
    case 3
    then have e: "path_key a < path_key b \<longleftrightarrow>
        memcmp (id_bytes (ds_tx a)) (id_bytes (ds_tx b)) < 0 \<or>
        memcmp (id_bytes (ds_tx a)) (id_bytes (ds_tx b)) = 0 \<and> pi_port (ds_rx a) < pi_port (ds_rx b)"
      using l memcmp_less [OF l] memcmp_eq [OF l]
      by (simp add: path_key_def list_less_append word_less_nat_alt)
    show ?thesis unfolding e using 3
      by (auto simp: bmca_better_path_def Let_def word_less_nat_alt unat_steps_suc)
  qed
qed

lemma ds_key_less:
  assumes "length (ds_id a) = length (ds_id b)"
  shows "ds_key a < ds_key b \<longleftrightarrow>
    clock_key a < clock_key b \<or> (clock_key a = clock_key b \<and>
      (memcmp (ds_id a) (ds_id b) < 0 \<or> (ds_id a = ds_id b \<and> path_key a < path_key b)))"
  using assms memcmp_less [OF assms] list_less_append [of "clock_key a" "clock_key b"]
  by (auto simp: ds_key_def list_less_append clock_key_def)

lemma bmca_compare_key:
  assumes a: "a \<in> announced q" and b: "b \<in> announced q"
  shows "0 < bmca_compare a b \<longleftrightarrow> ds_key a < ds_key b"
proof -
  have wf: "ds_wf a" "ds_wf b" and l: "length (ds_id a) = length (ds_id b)"
    using a b by (simp_all add: announced_def ds_wf_def)
  show ?thesis
  proof (cases "ds_id a = ds_id b")
    case True
    then have "clock_key a = clock_key b"
      using a b by (simp add: announced_def)
    then show ?thesis
      using True bmca_better_path_key [OF wf] ds_key_less [OF l]
      by (simp add: bmca_compare_def)
  next
    case False
    then have "memcmp (ds_id a) (ds_id b) \<noteq> 0" using memcmp_eq [OF l] by simp
    then show ?thesis
      using False ds_key_less [OF l]
      by (auto simp: bmca_compare_def Let_def clock_key_def word_less_nat_alt)
  qed
qed

subsection \<open>Selection by comparison\<close>

text \<open>
  The contract of a comparison with a key, on the values of \<open>S\<close>: a scan that
  replaces the current choice only by a strictly better one ends with the
  first value of least key.
\<close>

locale best_choice =
  fixes better :: "'a \<Rightarrow> 'a \<Rightarrow> int"
    and key :: "'a \<Rightarrow> 'k::linorder"
    and S :: "'a set"
  assumes better_key: "a \<in> S \<Longrightarrow> b \<in> S \<Longrightarrow> 0 < better a b \<longleftrightarrow> key a < key b"
begin

fun pick :: "'a list \<Rightarrow> 'a option \<Rightarrow> 'a option" where
  "pick [] best = best"
| "pick (a # as) best =
     pick as (case best of None \<Rightarrow> Some a | Some b \<Rightarrow> if 0 < better a b then Some a else best)"

lemma pick_some:
  "set as \<subseteq> S \<Longrightarrow> b \<in> S \<Longrightarrow>
   \<exists>c. pick as (Some b) = Some c \<and> c \<in> insert b (set as) \<and> (\<forall>x \<in> insert b (set as). key c \<le> key x)"
proof (induction as arbitrary: b)
  case (Cons a as)
  show ?case
  proof (cases "0 < better a b")
    case True
    then have "key a < key b" using better_key [of a b] Cons by auto
    then show ?thesis using Cons.IH [of a] Cons.prems True by fastforce
  next
    case False
    then have "key b \<le> key a" using better_key [of a b] Cons by auto
    then show ?thesis using Cons.IH [of b] Cons.prems False by fastforce
  qed
qed simp

lemma pick_best:
  assumes "set as \<subseteq> S" and "as \<noteq> []"
  shows "\<exists>c. pick as None = Some c \<and> c \<in> set as \<and> (\<forall>x \<in> set as. key c \<le> key x)"
  using assms pick_some [of "tl as" "hd as"] by (cases as) auto

end

interpretation bmca: best_choice bmca_compare ds_key "announced q" for q
  by unfold_locales (rule bmca_compare_key)

text \<open>The scan of the code runs the selection on the valid entries.\<close>

lemma find_best_from_pick:
  "map_option (fd_dataset \<circ> snd) (find_best_from fs i best) =
   best_choice.pick bmca_compare (map fd_dataset (filter fd_valid fs)) (map_option (fd_dataset \<circ> snd) best)"
proof (induction fs arbitrary: i best)
  case (Cons f fs)
  then show ?case by (cases best) auto
qed simp

lemma find_best_from_index:
  "find_best_from fs i best = Some (j, f) \<Longrightarrow>
   best = Some (j, f) \<or> (i \<le> j \<and> j < i + length fs \<and> fs ! (j - i) = f \<and> fd_valid f)"
proof (induction fs arbitrary: i best)
  case (Cons g fs)
  let ?best = "if \<not> fd_valid g then best
    else (case best of None \<Rightarrow> Some (i, g)
          | Some (j, b) \<Rightarrow> if bmca_better (Some (fd_dataset g)) (Some (fd_dataset b)) > 0 then Some (i, g) else best)"
  have "?best = Some (j, f) \<or> (Suc i \<le> j \<and> j < Suc i + length fs \<and> fs ! (j - Suc i) = f \<and> fd_valid f)"
    using Cons.IH [of "Suc i" ?best] Cons.prems by simp
  then show ?case
    by (auto simp: nth_Cons' split: if_splits option.splits prod.splits)
qed simp

lemma find_best_master_least:
  assumes S: "\<forall>f \<in> set masters. fd_valid f \<longrightarrow> fd_dataset f \<in> announced q"
    and v: "\<exists>f \<in> set masters. fd_valid f"
  shows "\<exists>i < length masters. find_best_master masters = Some i \<and> fd_valid (masters ! i) \<and>
    (\<forall>f \<in> set masters. fd_valid f \<longrightarrow> ds_key (fd_dataset (masters ! i)) \<le> ds_key (fd_dataset f))"
proof -
  let ?as = "map fd_dataset (filter fd_valid masters)"
  have "set ?as \<subseteq> announced q" "?as \<noteq> []"
    using S v by (auto simp: filter_empty_conv)
  then obtain c where c: "bmca.pick ?as None = Some c" "\<forall>x \<in> set ?as. ds_key c \<le> ds_key x"
    using bmca.pick_best by blast
  then obtain j f where jf: "find_best_from masters 0 None = Some (j, f)" "fd_dataset f = c"
    using find_best_from_pick [of masters 0 None] by auto
  then show ?thesis
    using find_best_from_index [OF jf(1)] c(2) by (auto simp: find_best_master_def)
qed

lemma find_best_master_none: "find_best_master masters = None \<longleftrightarrow> (\<forall>f \<in> set masters. \<not> fd_valid f)"
proof -
  have "find_best_from fs i best = None \<longleftrightarrow> best = None \<and> (\<forall>f \<in> set fs. \<not> fd_valid f)" for fs i best
    by (induction fs arbitrary: i best) (auto split: option.splits)
  then show ?thesis by (simp add: find_best_master_def)
qed

subsection \<open>The table of foreign masters\<close>

lemma find_foreign_from_hit:
  "find_foreign_from fs i first ds = (Some j, True) \<Longrightarrow>
   i \<le> j \<and> j < i + length fs \<and> fd_cnt (fs ! (j - i)) \<noteq> 0 \<and>
   same_port_id (ds_tx ds) (ds_tx (fd_dataset (fs ! (j - i))))"
proof (induction fs arbitrary: i first)
  case (Cons f fs)
  show ?case
  proof (cases "fd_cnt f \<noteq> 0 \<and> same_port_id (ds_tx ds) (ds_tx (fd_dataset f))")
    case True
    then show ?thesis using Cons.prems by (auto simp: Let_def)
  next
    case False
    then have "find_foreign_from fs (Suc i) (if first = None \<and> fd_cnt f = 0 then Some i else first) ds = (Some j, True)"
      using Cons.prems by (simp only: find_foreign_from.simps Let_def if_False)
    from Cons.IH [OF this] show ?thesis
      by (auto simp: nth_Cons')
  qed
qed simp

lemma find_foreign_from_miss:
  "find_foreign_from fs i first ds = (r, False) \<Longrightarrow>
   (\<forall>f \<in> set fs. fd_cnt f \<noteq> 0 \<longrightarrow> \<not> same_port_id (ds_tx ds) (ds_tx (fd_dataset f))) \<and>
   (case r of
      None \<Rightarrow> first = None \<and> (\<forall>f \<in> set fs. fd_cnt f \<noteq> 0)
    | Some j \<Rightarrow> first = Some j \<or> (i \<le> j \<and> j < i + length fs \<and> fd_cnt (fs ! (j - i)) = 0))"
proof (induction fs arbitrary: i first)
  case Nil
  then show ?case by (auto split: option.splits)
next
  case (Cons f fs)
  let ?first = "if first = None \<and> fd_cnt f = 0 then Some i else first"
  have n: "\<not> (fd_cnt f \<noteq> 0 \<and> same_port_id (ds_tx ds) (ds_tx (fd_dataset f)))"
    using Cons.prems by (auto simp: Let_def)
  then have "find_foreign_from fs (Suc i) ?first ds = (r, False)"
    using Cons.prems by (simp only: find_foreign_from.simps Let_def if_False)
  from Cons.IH [OF this] n show ?case
    by (auto simp: nth_Cons' split: option.splits if_splits)
qed

end
