(* ===== verification/Msg.thy ===== *)
theory Msg
  imports Bytes Bmca
begin

text \<open>
  \<^verbatim>\<open>ptp_msg.c\<close> and the message layouts of \<^verbatim>\<open>lan937x_ptp_api.h\<close>: the members of a
  PTP message and the conversion between network and host byte order with its
  walk over the TLVs.  A message is its bytes; every conversion that would touch
  a byte outside the buffer is \<open>None\<close>.
\<close>

subsection \<open>Layout\<close>

abbreviation (input) SYNC_MSG :: nat where "SYNC_MSG \<equiv> 0"
abbreviation (input) DELAY_REQ_MSG :: nat where "DELAY_REQ_MSG \<equiv> 1"
abbreviation (input) PDELAY_REQ_MSG :: nat where "PDELAY_REQ_MSG \<equiv> 2"
abbreviation (input) PDELAY_RESP_MSG :: nat where "PDELAY_RESP_MSG \<equiv> 3"
abbreviation (input) FOLLOW_UP_MSG :: nat where "FOLLOW_UP_MSG \<equiv> 8"
abbreviation (input) DELAY_RESP_MSG :: nat where "DELAY_RESP_MSG \<equiv> 9"
abbreviation (input) PDELAY_RESP_FOLLOW_UP_MSG :: nat where "PDELAY_RESP_FOLLOW_UP_MSG \<equiv> 10"
abbreviation (input) ANNOUNCE_MSG :: nat where "ANNOUNCE_MSG \<equiv> 11"
abbreviation (input) SIGNALING_MSG :: nat where "SIGNALING_MSG \<equiv> 12"
abbreviation (input) MANAGEMENT_MSG :: nat where "MANAGEMENT_MSG \<equiv> 13"

abbreviation (input) TLV_MANAGEMENT :: nat where "TLV_MANAGEMENT \<equiv> 1"
abbreviation (input) TLV_MANAGEMENT_ERROR_STATUS :: nat where "TLV_MANAGEMENT_ERROR_STATUS \<equiv> 2"
abbreviation (input) TLV_ORGANIZATION_EXTENSION :: nat where "TLV_ORGANIZATION_EXTENSION \<equiv> 3"
abbreviation (input) TLV_PATH_TRACE :: nat where "TLV_PATH_TRACE \<equiv> 8"

abbreviation (input) M_DEFAULT_DATA_SET :: nat where "M_DEFAULT_DATA_SET \<equiv> 0x2000"
abbreviation (input) M_CURRENT_DATA_SET :: nat where "M_CURRENT_DATA_SET \<equiv> 0x2001"
abbreviation (input) M_PARENT_DATA_SET :: nat where "M_PARENT_DATA_SET \<equiv> 0x2002"
abbreviation (input) M_PORT_DATA_SET :: nat where "M_PORT_DATA_SET \<equiv> 0x2004"
abbreviation (input) M_PORT_DATA_SET_NP :: nat where "M_PORT_DATA_SET_NP \<equiv> 0xC002"

text \<open>The members of \<open>ptp_msg_hdr\<close>.\<close>

abbreviation (input) F_messageLength :: field where "F_messageLength \<equiv> (2, 2)"
abbreviation (input) F_domainNumber :: field where "F_domainNumber \<equiv> (4, 1)"
abbreviation (input) F_flagField :: field where "F_flagField \<equiv> (6, 2)"
abbreviation (input) F_correctionField :: field where "F_correctionField \<equiv> (8, 8)"
abbreviation (input) F_sourcePort :: field where "F_sourcePort \<equiv> (28, 2)"
abbreviation (input) F_sequenceId :: field where "F_sequenceId \<equiv> (30, 2)"
abbreviation (input) F_controlField :: field where "F_controlField \<equiv> (32, 1)"
abbreviation (input) F_logMessageInterval :: field where "F_logMessageInterval \<equiv> (33, 1)"

abbreviation (input) SIZEOF_HDR :: nat where "SIZEOF_HDR \<equiv> 34"
abbreviation (input) SIZEOF_TLV :: nat where "SIZEOF_TLV \<equiv> 4"

text \<open>The message type is the low half of the first byte.\<close>

definition messageType :: "byte_list \<Rightarrow> nat" where
  "messageType m = rd (0, 1) m mod 16"

subsection \<open>Byte order of the fixed parts\<close>

text \<open>The members each function converts, from the start of its structure \<open>k\<close>.\<close>

abbreviation (input) hdr_fields :: "field list" where
  "hdr_fields \<equiv> [F_correctionField, F_messageLength, F_sourcePort, F_sequenceId]"

definition ptp_hdr_rx :: "byte_list \<Rightarrow> byte_list option" where
  "ptp_hdr_rx m = swaps hdr_fields m"

definition ptp_hdr_tx :: "byte_list \<Rightarrow> byte_list option" where
  "ptp_hdr_tx m = swaps hdr_fields m"

abbreviation (input) port_identity_fields :: "nat \<Rightarrow> field list" where
  "port_identity_fields k \<equiv> [(k + 8, 2)]"

abbreviation (input) timestamp_fields :: "nat \<Rightarrow> field list" where
  "timestamp_fields k \<equiv> [(k, 2), (k + 2, 4), (k + 6, 4)]"

subsection \<open>Byte order of the TLVs\<close>

text \<open>The functions on one TLV get the bytes from the start of the TLV on.\<close>

abbreviation (input) F_tlvType :: field where "F_tlvType \<equiv> (0, 2)"
abbreviation (input) F_lengthField :: field where "F_lengthField \<equiv> (2, 2)"
abbreviation (input) F_managementId :: field where "F_managementId \<equiv> (4, 2)"

definition ptp_tlv_manage_rx :: "byte_list \<Rightarrow> byte_list option" where
  "ptp_tlv_manage_rx tlv = swaps [F_managementId] tlv"

definition ptp_tlv_manage_tx :: "byte_list \<Rightarrow> byte_list option" where
  "ptp_tlv_manage_tx tlv =
     (let managementId = rd F_managementId tlv
      in if managementId = M_DEFAULT_DATA_SET then swaps [(8, 2), (13, 2), F_managementId] tlv
         else if managementId = M_CURRENT_DATA_SET then swaps [(6, 2), (8, 8), (16, 8), F_managementId] tlv
         else if managementId = M_PARENT_DATA_SET
         then swaps [(14, 2), (18, 2), (20, 4), (27, 2), F_managementId] tlv
         else if managementId = M_PORT_DATA_SET then swaps [(14, 2), (18, 8), F_managementId] tlv
         else if managementId = M_PORT_DATA_SET_NP then swaps [(6, 4), (10, 4), F_managementId] tlv
         else swaps [F_managementId] tlv)"

definition ptp_tlv_manage_error_rx :: "byte_list \<Rightarrow> byte_list option" where
  "ptp_tlv_manage_error_rx tlv = swaps [(4, 2), (6, 2), (8, 4)] tlv"

definition ptp_tlv_manage_error_tx :: "byte_list \<Rightarrow> byte_list option" where
  "ptp_tlv_manage_error_tx tlv = swaps [(4, 2), (6, 2), (8, 4)] tlv"

text \<open>
  The organisation extension: \<open>organizationId\<close> at 4, \<open>organizationSubType\<close> at
  7, \<open>dataField\<close> at 10.  The loop over the entries of the Microchip extension
  counts in an \<open>int\<close> that is compared with a \<open>sizeof\<close>, so the comparison is
  the unsigned one.
\<close>

abbreviation (input) SIZEOF_MCHP :: nat where "SIZEOF_MCHP \<equiv> 18"

function mchp_entries :: "u32 \<Rightarrow> nat \<Rightarrow> byte_list \<Rightarrow> byte_list option" where
  "mchp_entries i k tlv =
     (if 18 \<le> i
      then (case swaps [(k + 8, 2), (k + 10, 4), (k + 14, 4)] tlv of
              None \<Rightarrow> None
            | Some tlv \<Rightarrow> mchp_entries (i - 18) (k + SIZEOF_MCHP) tlv)
      else Some tlv)"
  by pat_completeness auto
termination
  by (relation "measure (\<lambda>(i, k, tlv). unat i)") (auto simp: word_le_nat_alt unat_sub)

declare mchp_entries.simps [simp del]

definition mchp_count :: "byte_list \<Rightarrow> u32" where
  "mchp_count tlv = of_nat (rd F_lengthField tlv) + 4 - 10"

text \<open>
  A chain of \<open>&&\<close> over the bytes from \<open>k\<close> on: it stops at the first byte that
  differs, and reading outside the buffer is \<open>None\<close>.
\<close>

fun match_at :: "nat \<Rightarrow> nat list \<Rightarrow> byte_list \<Rightarrow> bool option" where
  "match_at k [] tlv = Some True"
| "match_at k (b # bs) tlv =
     (if inb (k, 1) tlv then (if rd (k, 1) tlv = b then match_at (Suc k) bs tlv else Some False) else None)"

fun if_read :: "bool option \<Rightarrow> 'a option \<Rightarrow> 'a option \<Rightarrow> 'a option" where
  "if_read None x y = None"
| "if_read (Some b) x y = (if b then x else y)"

definition ptp_tlv_org_ext_rx :: "byte_list \<Rightarrow> byte_list option" where
  "ptp_tlv_org_ext_rx tlv =
     if_read (match_at 4 [0x00, 0x80, 0xC2] tlv)
       (if_read (match_at 7 [0, 0, 1] tlv)
          (swaps [(10, 4), (14, 2), (16, 2), (18, 8), (26, 2), (28, 4)] tlv)
          (if_read (match_at 7 [0, 0, 2] tlv) (swaps [(14, 2)] tlv) (Some tlv)))
       (if_read (match_at 4 [0x1C, 0x12, 0x9D] tlv)
          (if_read (match_at 7 [0, 0, 1] tlv)
             (swaps [(10, 2), (12, 4), (16, 4), (20, 2)] tlv)
             (Some tlv))
          (if_read (match_at 4 [0x00, 0x10, 0xA1] tlv)
             (if_read (match_at 7 [0, 0, 1] tlv)
                (mchp_entries (mchp_count tlv) 10 tlv)
                (Some tlv))
             (Some tlv)))"

definition ptp_tlv_org_ext_tx :: "byte_list \<Rightarrow> byte_list option" where
  "ptp_tlv_org_ext_tx tlv =
     if_read (match_at 4 [0x00, 0x80, 0xC2] tlv)
       (if_read (match_at 7 [0, 0, 1] tlv)
          (swaps [(10, 4), (14, 2), (16, 2), (18, 8), (26, 2), (28, 4)] tlv)
          (if_read (match_at 7 [0, 0, 2] tlv) (swaps [(14, 2)] tlv) (Some tlv)))
       (if_read (match_at 4 [0x1C, 0x12, 0x9D] tlv)
          (if_read (match_at 7 [0, 0, 1] tlv)
             (swaps [(10, 2), (12, 4), (16, 4), (20, 2)] tlv)
             (Some tlv))
          (if_read (match_at 4 [0x00, 0x10, 0xA1] tlv)
             (if_read (match_at 7 [0, 0, 1] tlv)
                (mchp_entries (mchp_count tlv) 10 tlv)
                (Some tlv))
             (Some tlv)))"

definition tlv_body_rx :: "byte_list \<Rightarrow> byte_list option" where
  "tlv_body_rx tlv =
     (let tlvType = rd F_tlvType tlv
      in if tlvType = TLV_MANAGEMENT then ptp_tlv_manage_rx tlv
         else if tlvType = TLV_MANAGEMENT_ERROR_STATUS then ptp_tlv_manage_error_rx tlv
         else if tlvType = TLV_ORGANIZATION_EXTENSION then ptp_tlv_org_ext_rx tlv
         else Some tlv)"

definition tlv_body_tx :: "byte_list \<Rightarrow> byte_list option" where
  "tlv_body_tx tlv =
     (let tlvType = rd F_tlvType tlv
      in if tlvType = TLV_MANAGEMENT then ptp_tlv_manage_tx tlv
         else if tlvType = TLV_MANAGEMENT_ERROR_STATUS then ptp_tlv_manage_error_tx tlv
         else if tlvType = TLV_ORGANIZATION_EXTENSION then ptp_tlv_org_ext_tx tlv
         else Some tlv)"

text \<open>
  The size of the TLV at the start of \<open>data\<close> in host order, as the 16-bit sum
  the code computes.
\<close>

definition tlv_size :: "byte_list \<Rightarrow> u16" where
  "tlv_size data = of_nat (rd F_lengthField data) + 4"

text \<open>The loops over the TLVs; \<open>len\<close> is the 16-bit count of bytes left.\<close>

definition wraps_to_zero :: "byte_list \<Rightarrow> bool" where
  "wraps_to_zero data \<longleftrightarrow> rd F_lengthField data = 0xFFFC"

lemma mchp_entries_keep:
  "mchp_entries i k tlv = Some tlv' \<Longrightarrow> \<forall>x \<ge> k. \<forall>n. disj (x, n) g \<Longrightarrow>
   rd g tlv' = rd g tlv \<and> length tlv' = length tlv"
proof (induction i k tlv rule: mchp_entries.induct)
  case (1 i k tlv)
  show ?case
  proof (cases "18 \<le> i")
    case True
    then obtain t where t: "swaps [(k + 8, 2), (k + 10, 4), (k + 14, 4)] tlv = Some t"
      "mchp_entries (i - 18) (k + 18) t = Some tlv'"
      using 1(2) by (subst (asm) mchp_entries.simps) (auto split: option.splits)
    have "\<forall>x \<ge> k + 18. \<forall>n. disj (x, n) g" using 1(3) by (metis add_leD1)
    then have "rd g tlv' = rd g t \<and> length tlv' = length t"
      by (intro 1(1) [OF True t(1) t(2)])
    moreover have "rd g t = rd g tlv"
      using 1(3) by (intro swaps_rd [OF t(1)]) (simp del: disj.simps)
    ultimately show ?thesis using swaps_length [OF t(1)] by simp
  next
    case False
    then show ?thesis using 1(2) by (subst (asm) mchp_entries.simps) simp
  qed
qed

lemma swap_length_field:
  assumes "4 \<le> length m" and "rd F_lengthField m = 0xFFFC"
  shows "rd F_lengthField (swap F_lengthField m) \<noteq> 0xFFFC"
proof -
  obtain a b where ab: "take 2 (drop 2 m) = [a, b]"
  proof -
    have "drop 2 m = m ! 2 # m ! 3 # drop 4 m"
      using assms(1) Cons_nth_drop_Suc [of 2 m] Cons_nth_drop_Suc [of 3 m] by simp
    then show ?thesis using that by simp
  qed
  have "unat a < 256" "unat b < 256" using unsigned_less [of a] unsigned_less [of b] by simp_all
  moreover have "unat a + 256 * unat b = 0xFFFC"
    using assms(2) ab by (simp add: rd.simps)
  ultimately have "unat a = 0xFC" "unat b = 0xFF"
    by presburger+
  then show ?thesis using assms(1) ab by (simp add: rd.simps swap.simps)
qed

lemma ifr_cases: "if_read c x y = Some z \<Longrightarrow> (c = Some True \<and> x = Some z) \<or> (c = Some False \<and> y = Some z)"
  by (cases c) (auto split: if_splits)

lemmas tlv_defs = tlv_body_rx_def tlv_body_tx_def ptp_tlv_manage_rx_def ptp_tlv_manage_tx_def
  ptp_tlv_manage_error_rx_def ptp_tlv_manage_error_tx_def ptp_tlv_org_ext_rx_def ptp_tlv_org_ext_tx_def

lemma tlv_body_keeps:
  assumes "tlv_body_rx data = Some d \<or> tlv_body_tx data = Some d"
  shows "rd F_lengthField d = rd F_lengthField data \<and> length d = length data"
proof -
  have s: "rd F_lengthField d = rd F_lengthField data \<and> length d = length data"
    if "swaps fs data = Some d" "\<forall>f \<in> set fs. 4 \<le> fst f" for fs
    using swaps_rd [OF that(1), of F_lengthField] swaps_length [OF that(1)] that(2) by fastforce
  have m: "rd F_lengthField d = rd F_lengthField data \<and> length d = length data"
    if "mchp_entries i 10 data = Some d" for i
    using that by (rule mchp_entries_keep) auto
  show ?thesis
    using assms
    apply (auto simp: tlv_defs Let_def simp del: swaps.simps dest!: ifr_cases split: if_splits)
    apply ((drule s, simp, simp) | (drule m, simp))+
    done
qed

function ptp_tlv_rx :: "u16 \<Rightarrow> byte_list \<Rightarrow> byte_list option" where
  "ptp_tlv_rx len data =
     (case swaps [F_tlvType, F_lengthField] data of
        None \<Rightarrow> None
      | Some data \<Rightarrow>
          (let size = tlv_size data
           in if len < size then Some data
              else
                (case tlv_body_rx data of
                   None \<Rightarrow> None
                 | Some data \<Rightarrow>
                     if 4 \<le> len - size
                     then map_option (\<lambda>rest. take (unat size) data @ rest)
                            (ptp_tlv_rx (len - size) (drop (unat size) data))
                     else Some data)))"
  by pat_completeness auto

function ptp_tlv_tx :: "u16 \<Rightarrow> byte_list \<Rightarrow> byte_list option" where
  "ptp_tlv_tx len data =
     (if length data < SIZEOF_TLV then None
      else
        (let size = tlv_size data
         in if len < size then Some data
            else
              (case tlv_body_tx data of
                 None \<Rightarrow> None
               | Some data \<Rightarrow>
                   (case swaps [F_tlvType, F_lengthField] data of
                      None \<Rightarrow> None
                    | Some data \<Rightarrow>
                        if 4 \<le> len - size
                        then map_option (\<lambda>rest. take (unat size) data @ rest)
                               (ptp_tlv_tx (len - size) (drop (unat size) data))
                        else Some data))))"
  by pat_completeness auto

lemma tlv_size_zero: "tlv_size data = 0 \<Longrightarrow> wraps_to_zero data"
proof -
  assume "tlv_size data = 0"
  then have "(of_nat (rd F_lengthField data + 4) :: u16) = 0" by (simp add: tlv_size_def)
  then have "65536 dvd rd F_lengthField data + 4"
    by (simp only: word_of_nat_eq_0_iff) simp
  then obtain k where k: "rd F_lengthField data + 4 = 65536 * k" ..
  moreover have "rd F_lengthField data < 65536" using rd_less [of 2 2 data] by simp
  ultimately have "k < 2" by linarith
  moreover have "0 < k" using k by (cases k) auto
  ultimately show ?thesis using k by (simp add: wraps_to_zero_def less_2_cases_iff)
qed

lemma unat_sub_less: "\<not> len < sz \<Longrightarrow> sz \<noteq> 0 \<Longrightarrow> unat (len - sz) < unat len" for len sz :: u16
proof -
  assume a: "\<not> len < sz" "sz \<noteq> 0"
  have "unat sz \<noteq> 0" using a(2) by (simp add: unsigned_eq_0_iff)
  then show ?thesis using a(1) by (simp add: word_less_nat_alt word_le_nat_alt unat_sub)
qed

lemma swaps_header:
  assumes "swaps [F_tlvType, F_lengthField] data = Some d"
  shows "rd F_lengthField d = rd F_lengthField (swap F_lengthField data)" "4 \<le> length data"
    "rd F_tlvType d = rd F_tlvType (swap F_tlvType data)"
proof -
  show l: "4 \<le> length data"
    using assms by (auto split: if_splits)
  have d: "d = swap F_lengthField (swap F_tlvType data)"
    using assms by (auto split: if_splits)
  show "rd F_tlvType d = rd F_tlvType (swap F_tlvType data)"
    using l by (simp add: d)
  have "d = swap F_tlvType (swap F_lengthField data)"
    unfolding d using l by (intro swap_comm) auto
  then show "rd F_lengthField d = rd F_lengthField (swap F_lengthField data)"
    using l by simp
qed

lemma wraps_to_zero_swap: "wraps_to_zero m \<Longrightarrow> 4 \<le> length m \<Longrightarrow> \<not> wraps_to_zero (swap F_lengthField m)"
  using swap_length_field by (simp add: wraps_to_zero_def)

termination ptp_tlv_rx
proof (relation "measure (\<lambda>(len, data). 2 * unat len + (if wraps_to_zero (swap F_lengthField data) then 1 else 0))")
  fix len :: u16 and data d e sz
  assume a: "swaps [F_tlvType, F_lengthField] data = Some d" "sz = tlv_size d" "\<not> len < sz"
    "tlv_body_rx d = Some e" "4 \<le> len - sz"
  show "((len - sz, drop (unat sz) e), len, data)
      \<in> measure (\<lambda>(len, data). 2 * unat len + (if wraps_to_zero (swap F_lengthField data) then 1 else 0))"
  proof (cases "sz = 0")
    case True
    have "wraps_to_zero d" using True a(2) tlv_size_zero by simp
    then have w: "wraps_to_zero (swap F_lengthField data)" "wraps_to_zero e" "4 \<le> length e"
      using swaps_header [OF a(1)] tlv_body_keeps [of d e] a(4) swaps_length [OF a(1)]
      by (simp_all add: wraps_to_zero_def)
    then show ?thesis using True wraps_to_zero_swap [OF w(2,3)] by simp
  next
    case False
    then show ?thesis using unat_sub_less [OF a(3)] by simp
  qed
qed simp

termination ptp_tlv_tx
proof (relation "measure (\<lambda>(len, data). 2 * unat len + (if wraps_to_zero data then 1 else 0))")
  fix len :: u16 and data d e sz
  assume a: "\<not> length data < 4" "sz = tlv_size data" "\<not> len < sz" "tlv_body_tx data = Some d"
    "swaps [F_tlvType, F_lengthField] d = Some e" "4 \<le> len - sz"
  show "((len - sz, drop (unat sz) e), len, data)
      \<in> measure (\<lambda>(len, data). 2 * unat len + (if wraps_to_zero data then 1 else 0))"
  proof (cases "sz = 0")
    case True
    have "wraps_to_zero data" using True a(2) tlv_size_zero by simp
    then have w: "wraps_to_zero data" "wraps_to_zero d" "4 \<le> length d"
      using tlv_body_keeps [of data d] a(1,4) by (simp_all add: wraps_to_zero_def)
    then show ?thesis
      using True wraps_to_zero_swap [OF w(2,3)] swaps_header(1) [OF a(5)] by (simp add: wraps_to_zero_def)
  next
    case False
    then show ?thesis using unat_sub_less [OF a(3)] by simp
  qed
qed simp

declare ptp_tlv_rx.simps [simp del] ptp_tlv_tx.simps [simp del]

subsection \<open>Byte order of a message\<close>

text \<open>
  The members a message type converts and the size of its body; \<open>len\<close> is the
  message length in host order.
\<close>

definition msg_part_rx :: "nat \<Rightarrow> u16 \<Rightarrow> field list \<times> u16" where
  "msg_part_rx type len =
     (if type = SYNC_MSG then (timestamp_fields 34, 10)
      else if type = FOLLOW_UP_MSG then (timestamp_fields 34, 10)
      else if type = DELAY_RESP_MSG then (port_identity_fields 44 @ timestamp_fields 34, 20)
      else if type = PDELAY_REQ_MSG then (port_identity_fields 44 @ timestamp_fields 34, 20)
      else if type = PDELAY_RESP_MSG then (port_identity_fields 44 @ timestamp_fields 34, 20)
      else if type = PDELAY_RESP_FOLLOW_UP_MSG then (timestamp_fields 34 @ port_identity_fields 44, 20)
      else if type = ANNOUNCE_MSG then (timestamp_fields 34 @ [(44, 2), (50, 2), (61, 2)], 30)
      else if type = SIGNALING_MSG then (port_identity_fields 34, 10)
      else if type = MANAGEMENT_MSG then (port_identity_fields 34, 14)
      else ([], len - 34))"

definition msg_part_tx :: "nat \<Rightarrow> u16 \<Rightarrow> field list \<times> u16" where
  "msg_part_tx type len =
     (if type = SYNC_MSG then (timestamp_fields 34, 10)
      else if type = FOLLOW_UP_MSG then (timestamp_fields 34, 10)
      else if type = DELAY_RESP_MSG then (port_identity_fields 44 @ timestamp_fields 34, 20)
      else if type = PDELAY_REQ_MSG then (timestamp_fields 34, 20)
      else if type = PDELAY_RESP_MSG then (port_identity_fields 44 @ timestamp_fields 34, 20)
      else if type = PDELAY_RESP_FOLLOW_UP_MSG then (timestamp_fields 34 @ port_identity_fields 44, 20)
      else if type = ANNOUNCE_MSG then (timestamp_fields 34 @ [(44, 2), (50, 2), (61, 2)], 30)
      else if type = SIGNALING_MSG then (port_identity_fields 34, 10)
      else if type = MANAGEMENT_MSG then (port_identity_fields 34, 14)
      else ([], len - 34))"

definition msg_tail :: "(u16 \<Rightarrow> byte_list \<Rightarrow> byte_list option) \<Rightarrow> u16 \<Rightarrow> u16 \<Rightarrow> byte_list \<Rightarrow> byte_list option" where
  "msg_tail tlvs len sz m =
     (let k = SIZEOF_HDR + unat sz; sz = sz + 34
      in if sz \<le> len \<and> 4 \<le> len - sz
         then map_option (\<lambda>data. take k m @ data) (tlvs (len - sz) (drop k m))
         else Some m)"

definition ptp_msg_rx :: "byte_list \<Rightarrow> byte_list option" where
  "ptp_msg_rx m =
     (case ptp_hdr_rx m of
        None \<Rightarrow> None
      | Some m \<Rightarrow>
          (let len = of_nat (rd F_messageLength m)
           in if len = 34 then Some m
              else
                (let (fs, sz) = msg_part_rx (messageType m) len
                 in case swaps fs m of
                      None \<Rightarrow> None
                    | Some m \<Rightarrow> msg_tail ptp_tlv_rx len sz m)))"

definition ptp_msg_tx :: "byte_list \<Rightarrow> byte_list option" where
  "ptp_msg_tx m =
     (let len = of_nat (rd F_messageLength m)
      in case ptp_hdr_tx m of
           None \<Rightarrow> None
         | Some m \<Rightarrow>
             (let (fs, sz) = msg_part_tx (messageType m) len
              in case swaps fs m of
                   None \<Rightarrow> None
                 | Some m \<Rightarrow> msg_tail ptp_tlv_tx len sz m))"

subsection \<open>Local effect of the swaps\<close>

lemma swap_append: "inb f h \<Longrightarrow> swap f (h @ t) = swap f h @ t"
  by (cases f) (simp add: swap.simps)

lemma inb_append: "inb f h \<Longrightarrow> inb f (h @ t)"
  by (cases f) simp

lemma rd_append: "inb f h \<Longrightarrow> rd f (h @ t) = rd f h"
  by (cases f) (simp add: rd.simps)

lemma swaps_local: "\<forall>f \<in> set fs. inb f h \<Longrightarrow> swaps fs (h @ t) = map_option (\<lambda>x. x @ t) (swaps fs h)"
  by (induction fs arbitrary: h) (simp_all add: swap_append inb_append)

definition mchp_fields :: "nat \<Rightarrow> field list" where
  "mchp_fields k = [(k + 8, 2), (k + 10, 4), (k + 14, 4)]"

primrec mchp_list :: "nat \<Rightarrow> nat \<Rightarrow> field list" where
  "mchp_list 0 k = []"
| "mchp_list (Suc n) k = mchp_fields k @ mchp_list n (k + 18)"

text \<open>The loop over the Microchip entries as a list of fields.\<close>

lemma mchp_entries_list: "mchp_entries i k tlv = swaps (mchp_list (unat i div 18) k) tlv"
proof (induction i k tlv rule: mchp_entries.induct)
  case (1 i k tlv)
  show ?case
  proof (cases "18 \<le> i")
    case True
    then have i: "unat (i - 18) = unat i - 18" "18 \<le> unat i"
      by (simp_all add: unat_sub word_le_nat_alt)
    have "unat i div 18 = Suc (unat (i - 18) div 18)"
      using i by (simp add: le_div_geq)
    then have "swaps (mchp_list (unat i div 18) k) tlv =
        Option.bind (swaps (mchp_fields k) tlv) (swaps (mchp_list (unat (i - 18) div 18) (k + 18)))"
      by (simp only: mchp_list.simps swaps_append)
    then show ?thesis
      using 1 [OF True] True
      by (subst mchp_entries.simps) (simp add: mchp_fields_def del: swaps.simps split: option.splits)
  next
    case False
    then have "unat i div 18 = 0" by (simp add: word_le_nat_alt)
    then show ?thesis using False by (subst mchp_entries.simps) simp
  qed
qed

lemma mchp_list_range: "(k', n) \<in> set (mchp_list c k) \<Longrightarrow> k + 8 \<le> k' \<and> k' + n \<le> k + 18 * c"
  by (induction c arbitrary: k) (force simp: mchp_fields_def)+

lemma mchp_list_disj: "sorted_wrt disj (mchp_list c k)"
proof (induction c arbitrary: k)
  case (Suc c)
  have "disj f g" if "f \<in> set (mchp_fields k)" "g \<in> set (mchp_list c (k + 18))" for f g
    using that mchp_list_range [of "fst g" "snd g" c "k + 18"] by (cases g) (auto simp: mchp_fields_def)
  moreover have "sorted_wrt disj (mchp_fields k)" by (simp add: mchp_fields_def)
  ultimately show ?case using Suc by (simp add: sorted_wrt_append del: disj.simps)
qed simp

subsection \<open>One TLV is an involution\<close>

text \<open>
  The fields of one TLV: \<open>None\<close> when the bytes that select them lie outside
  the buffer.  The management data sets are converted when sent only, so they
  are left out here.
\<close>

definition org_fields :: "byte_list \<Rightarrow> field list option" where
  "org_fields tlv =
     if_read (match_at 4 [0x00, 0x80, 0xC2] tlv)
       (if_read (match_at 7 [0, 0, 1] tlv)
          (Some [(10, 4), (14, 2), (16, 2), (18, 8), (26, 2), (28, 4)])
          (if_read (match_at 7 [0, 0, 2] tlv) (Some [(14, 2)]) (Some [])))
       (if_read (match_at 4 [0x1C, 0x12, 0x9D] tlv)
          (if_read (match_at 7 [0, 0, 1] tlv) (Some [(10, 2), (12, 4), (16, 4), (20, 2)]) (Some []))
          (if_read (match_at 4 [0x00, 0x10, 0xA1] tlv)
             (if_read (match_at 7 [0, 0, 1] tlv)
                (Some (mchp_list (unat (mchp_count tlv) div 18) 10)) (Some []))
             (Some [])))"

definition data_set_ids :: "nat set" where
  "data_set_ids = {M_DEFAULT_DATA_SET, M_CURRENT_DATA_SET, M_PARENT_DATA_SET, M_PORT_DATA_SET, M_PORT_DATA_SET_NP}"

definition tlv_fields :: "byte_list \<Rightarrow> field list option" where
  "tlv_fields tlv =
     (let tlvType = rd F_tlvType tlv
      in if tlvType = TLV_MANAGEMENT then Some [F_managementId]
         else if tlvType = TLV_MANAGEMENT_ERROR_STATUS then Some [(4, 2), (6, 2), (8, 4)]
         else if tlvType = TLV_ORGANIZATION_EXTENSION then org_fields tlv
         else Some [])"

lemma if_read_bind: "if_read c (Option.bind x f) (Option.bind y f) = Option.bind (if_read c x y) f"
  by (cases c) auto

lemma org_ext_swaps:
  "ptp_tlv_org_ext_rx tlv = Option.bind (org_fields tlv) (\<lambda>fs. swaps fs tlv)"
  "ptp_tlv_org_ext_tx tlv = Option.bind (org_fields tlv) (\<lambda>fs. swaps fs tlv)"
  by (simp_all add: ptp_tlv_org_ext_rx_def ptp_tlv_org_ext_tx_def org_fields_def mchp_entries_list
      del: swaps.simps(2) flip: if_read_bind)

lemma tlv_body_rx_swaps: "tlv_body_rx tlv = Option.bind (tlv_fields tlv) (\<lambda>fs. swaps fs tlv)"
  by (simp add: tlv_body_rx_def tlv_fields_def Let_def org_ext_swaps ptp_tlv_manage_rx_def
      ptp_tlv_manage_error_rx_def del: swaps.simps(2))

lemma tlv_body_tx_swaps:
  "rd F_tlvType tlv = TLV_MANAGEMENT \<Longrightarrow> rd F_managementId tlv \<notin> data_set_ids \<Longrightarrow>
   tlv_body_tx tlv = Option.bind (tlv_fields tlv) (\<lambda>fs. swaps fs tlv)"
  "rd F_tlvType tlv \<noteq> TLV_MANAGEMENT \<Longrightarrow> tlv_body_tx tlv = Option.bind (tlv_fields tlv) (\<lambda>fs. swaps fs tlv)"
  by (simp_all add: tlv_body_tx_def tlv_fields_def Let_def org_ext_swaps ptp_tlv_manage_tx_def
      ptp_tlv_manage_error_tx_def data_set_ids_def del: swaps.simps(2))

lemma match_at_cong:
  "\<forall>j. k \<le> j \<and> j < k + length bs \<longrightarrow> inb (j, 1) a = inb (j, 1) b \<and> rd (j, 1) a = rd (j, 1) b \<Longrightarrow>
   match_at k bs a = match_at k bs b"
proof (induction bs arbitrary: k)
  case (Cons x bs)
  have "inb (k, 1) a = inb (k, 1) b" "rd (k, 1) a = rd (k, 1) b"
    using Cons.prems by (auto simp del: inb.simps)
  moreover have "match_at (Suc k) bs a = match_at (Suc k) bs b"
    by (rule Cons.IH) (use Cons.prems in \<open>auto simp del: inb.simps\<close>)
  ultimately show ?case by (simp only: match_at.simps)
qed simp

lemma org_fields_cong:
  assumes "rd F_lengthField a = rd F_lengthField b"
    and "\<forall>j. 4 \<le> j \<and> j < 10 \<longrightarrow> inb (j, 1) a = inb (j, 1) b \<and> rd (j, 1) a = rd (j, 1) b"
  shows "org_fields a = org_fields b"
proof -
  have "match_at k bs a = match_at k bs b" if "4 \<le> k" "k + length bs \<le> 10" for k bs
    using that assms(2) by (intro match_at_cong) auto
  then show ?thesis
    unfolding org_fields_def mchp_count_def assms(1) by (simp del: match_at.simps)
qed

lemma tlv_fields_props:
  assumes "tlv_fields tlv = Some fs"
  shows "sorted_wrt disj fs" and "\<forall>f \<in> set fs. 4 \<le> fst f"
    and "rd F_tlvType tlv = TLV_ORGANIZATION_EXTENSION \<Longrightarrow> \<forall>f \<in> set fs. 10 \<le> fst f"
proof -
  have m: "10 \<le> fst f" if "f \<in> set (mchp_list c 10)" for f c
    using that mchp_list_range [of "fst f" "snd f" c 10] by auto
  have o: "sorted_wrt disj fs \<and> (\<forall>f \<in> set fs. 10 \<le> fst f)" if "org_fields tlv = Some fs"
    using that m mchp_list_disj
    by (auto simp: org_fields_def simp del: match_at.simps dest!: ifr_cases)
  have "sorted_wrt disj fs \<and> (\<forall>f \<in> set fs. 4 \<le> fst f)"
  proof (cases "rd F_tlvType tlv = TLV_ORGANIZATION_EXTENSION")
    case True
    then have "org_fields tlv = Some fs" using assms by (simp add: tlv_fields_def)
    then show ?thesis using o by force
  next
    case False
    then show ?thesis using assms by (auto simp: tlv_fields_def Let_def split: if_splits)
  qed
  then show "sorted_wrt disj fs" "\<forall>f \<in> set fs. 4 \<le> fst f" by blast+
  show "\<forall>f \<in> set fs. 10 \<le> fst f" if "rd F_tlvType tlv = TLV_ORGANIZATION_EXTENSION"
    using o that assms by (simp add: tlv_fields_def)
qed

lemma tlv_fields_stable:
  assumes "tlv_fields tlv = Some fs" and d: "swaps fs tlv = Some d"
  shows "tlv_fields d = Some fs"
proof -
  have low: "rd (j, n) d = rd (j, n) tlv" if "\<forall>f \<in> set fs. j + n \<le> fst f" for j n
    using that by (intro swaps_rd [OF d]) force
  have t: "rd F_tlvType d = rd F_tlvType tlv" and l: "rd F_lengthField d = rd F_lengthField tlv"
    using tlv_fields_props(2) [OF assms(1)] by (intro low; force)+
  show ?thesis
  proof (cases "rd F_tlvType tlv = TLV_ORGANIZATION_EXTENSION")
    case True
    have "org_fields d = org_fields tlv"
    proof (rule org_fields_cong [OF l], intro allI impI)
      fix j :: nat assume "4 \<le> j \<and> j < 10"
      then show "inb (j, 1) d = inb (j, 1) tlv \<and> rd (j, 1) d = rd (j, 1) tlv"
        using low [of j 1] tlv_fields_props(3) [OF assms(1) True] swaps_length [OF d] by force
    qed
    then show ?thesis using assms(1) t True by (simp add: tlv_fields_def)
  next
    case False
    then show ?thesis using assms(1) t by (simp add: tlv_fields_def Let_def split: if_splits)
  qed
qed

subsection \<open>Round trip of a chain of TLVs\<close>

text \<open>One TLV in host order whose members lie inside its length.\<close>

definition tlv_ok :: "byte_list \<Rightarrow> bool" where
  "tlv_ok h \<longleftrightarrow>
     4 \<le> length h \<and> rd F_lengthField h + 4 = length h \<and>
     (rd F_tlvType h = TLV_MANAGEMENT \<longrightarrow> rd F_managementId h \<notin> data_set_ids) \<and>
     (case tlv_fields h of None \<Rightarrow> False | Some fs \<Rightarrow> list_all (\<lambda>f. inb f h) fs)"

lemma tlv_fields_append: "4 \<le> length h \<Longrightarrow> tlv_fields h = Some fs \<Longrightarrow> tlv_fields (h @ t) = Some fs"
proof -
  assume h: "4 \<le> length h" "tlv_fields h = Some fs"
  have r: "rd F_tlvType (h @ t) = rd F_tlvType h" "rd F_lengthField (h @ t) = rd F_lengthField h"
    using h(1) by (simp_all add: rd_append)
  have m: "match_at k bs h = Some c \<Longrightarrow> match_at k bs (h @ t) = Some c" for k bs c
  proof (induction bs arbitrary: k)
    case (Cons x bs)
    then have i: "inb (k, 1) h" by (simp del: inb.simps split: if_splits)
    then show ?case
      using Cons rd_append [OF i, of t] inb_append [OF i, of t]
      by (simp del: inb.simps split: if_splits)
  qed simp
  have "org_fields h = Some fs \<Longrightarrow> org_fields (h @ t) = Some fs"
    unfolding org_fields_def mchp_count_def r
    by (auto dest!: ifr_cases simp: m [where c = True] m [where c = False] simp del: match_at.simps)
  then show "tlv_fields (h @ t) = Some fs"
    using h(2) by (auto simp: tlv_fields_def Let_def r split: if_splits)
qed

lemma tlv_round_trip:
  assumes ok: "tlv_ok h"
  obtains h1 h2 where "\<And>t. tlv_body_tx (h @ t) = Some (h1 @ t)"
    and "\<And>t. swaps [F_tlvType, F_lengthField] (h1 @ t) = Some (h2 @ t)"
    and "\<And>t. swaps [F_tlvType, F_lengthField] (h2 @ t) = Some (h1 @ t)"
    and "\<And>t. tlv_body_rx (h1 @ t) = Some (h @ t)"
    and "\<And>t. tlv_size (h1 @ t) = of_nat (length h)" and "\<And>t. tlv_size (h @ t) = of_nat (length h)"
    and "length h1 = length h" and "length h2 = length h"
proof -
  obtain fs where fs: "tlv_fields h = Some fs" "\<forall>f \<in> set fs. inb f h" and
    l: "4 \<le> length h" "rd F_lengthField h + 4 = length h" and
    m: "rd F_tlvType h = TLV_MANAGEMENT \<longrightarrow> rd F_managementId h \<notin> data_set_ids"
    using ok by (auto simp: tlv_ok_def list_all_iff split: option.splits)
  obtain h1 where h1: "swaps fs h = Some h1" using fs(2) swaps_some [of fs h] by blast
  have l1: "length h1 = length h" by (rule swaps_length [OF h1])
  have b1: "\<forall>f \<in> set fs. inb f h1" using fs(2) l1 by (metis inb.simps surj_pair)
  have bk: "swaps fs h1 = Some h"
    using swaps_swaps [OF h1] tlv_fields_props(1) [OF fs(1)] by blast
  have hd: "\<forall>f \<in> set [F_tlvType, F_lengthField]. inb f x" if "length x = length h" for x
    using that l by simp
  obtain h2 where h2: "swaps [F_tlvType, F_lengthField] h1 = Some h2"
    using swaps_some [of "[F_tlvType, F_lengthField]" h1] hd [OF l1] by blast
  have l2: "length h2 = length h" using swaps_length [OF h2] l1 by simp
  have bk2: "swaps [F_tlvType, F_lengthField] h2 = Some h1"
    by (rule swaps_swaps [OF h2]) simp
  have "rd F_lengthField h1 = rd F_lengthField h"
    using swaps_rd [OF h1, of F_lengthField] tlv_fields_props(2) [OF fs(1)] by force
  moreover have "of_nat (rd F_lengthField h) + 4 = (of_nat (length h) :: u16)"
    by (metis l(2) of_nat_add of_nat_numeral)
  ultimately have sz: "tlv_size (h1 @ t) = of_nat (length h)" "tlv_size (h @ t) = of_nat (length h)" for t
    using l(1) l1 by (simp_all add: tlv_size_def rd_append)
  have fa: "tlv_fields (h @ t) = Some fs" "tlv_fields (h1 @ t) = Some fs" for t
    using tlv_fields_append l l1 fs(1) tlv_fields_stable [OF fs(1) h1] by simp_all
  show ?thesis
  proof (rule that [of h1 h2])
    fix t
    have "rd F_managementId (h @ t) \<notin> data_set_ids" if "rd F_tlvType (h @ t) = TLV_MANAGEMENT"
    proof -
      have "rd F_tlvType h = TLV_MANAGEMENT" using that l by (simp add: rd_append)
      moreover from this have "inb F_managementId h" using fs by (auto simp: tlv_fields_def)
      ultimately show ?thesis using m by (simp add: rd_append)
    qed
    then have "tlv_body_tx (h @ t) = Option.bind (tlv_fields (h @ t)) (\<lambda>fs. swaps fs (h @ t))"
      using tlv_body_tx_swaps by blast
    then show "tlv_body_tx (h @ t) = Some (h1 @ t)"
      using fa swaps_local [OF fs(2)] h1 by simp
    show "tlv_body_rx (h1 @ t) = Some (h @ t)"
      using fa swaps_local [OF b1] bk by (simp add: tlv_body_rx_swaps)
    show "swaps [F_tlvType, F_lengthField] (h1 @ t) = Some (h2 @ t)"
      unfolding swaps_local [OF hd [OF l1]] h2 by simp
    show "swaps [F_tlvType, F_lengthField] (h2 @ t) = Some (h1 @ t)"
      unfolding swaps_local [OF hd [OF l2]] bk2 by simp
  qed (use sz l1 l2 in simp_all)
qed

lemma tlv_chain_round_trip:
  assumes "\<forall>h \<in> set hs. tlv_ok h" and "hs \<noteq> []" and "r < 4"
    and "length (concat hs) + r < 65536"
  shows "\<exists>w. ptp_tlv_tx (of_nat (length (concat hs) + r)) (concat hs @ t) = Some (w @ t) \<and>
    length w = length (concat hs) \<and>
    ptp_tlv_rx (of_nat (length (concat hs) + r)) (w @ t) = Some (concat hs @ t)"
  using assms
proof (induction hs)
  case (Cons h hs)
  let ?rest = "length (concat hs) + r"
  obtain h1 h2 where h:
    "\<And>t. tlv_body_tx (h @ t) = Some (h1 @ t)"
    "\<And>t. swaps [F_tlvType, F_lengthField] (h1 @ t) = Some (h2 @ t)"
    "\<And>t. swaps [F_tlvType, F_lengthField] (h2 @ t) = Some (h1 @ t)"
    "\<And>t. tlv_body_rx (h1 @ t) = Some (h @ t)"
    "\<And>t. tlv_size (h1 @ t) = of_nat (length h)" "\<And>t. tlv_size (h @ t) = of_nat (length h)"
    "length h1 = length h" "length h2 = length h"
    using tlv_round_trip [of h] Cons.prems(1) by (metis list.set_intros(1))
  have l: "4 \<le> length h" using Cons.prems(1) by (simp add: tlv_ok_def)
  define L where "L = (of_nat (length (concat (h # hs)) + r) :: u16)"
  have b: "length h + ?rest < 65536" using Cons.prems(4) by simp
  have u: "unat L = length h + ?rest" "unat (of_nat (length h) :: u16) = length h"
    using b by (simp_all add: L_def unat_of_nat del: of_nat_add)
  have lt: "\<not> L < of_nat (length h)"
    using u by (simp add: word_less_nat_alt)
  have d: "L - of_nat (length h) = of_nat ?rest"
    by (simp add: L_def)
  have four: "4 \<le> (of_nat ?rest :: u16) \<longleftrightarrow> 4 \<le> ?rest"
    using b by (simp add: word_le_nat_alt unat_of_nat del: of_nat_add)
  have tx: "ptp_tlv_tx L (h @ s) =
      (if 4 \<le> ?rest then map_option (\<lambda>x. h2 @ x) (ptp_tlv_tx (of_nat ?rest) s) else Some (h2 @ s))" for s
    using l lt
    by (subst ptp_tlv_tx.simps) (simp add: h d four u Let_def del: swaps.simps of_nat_add)
  have rx: "ptp_tlv_rx L (h2 @ s) =
      (if 4 \<le> ?rest then map_option (\<lambda>x. h @ x) (ptp_tlv_rx (of_nat ?rest) s) else Some (h @ s))" for s
    using l lt
    by (subst ptp_tlv_rx.simps) (simp add: h d four u Let_def del: swaps.simps of_nat_add)
  show ?case
  proof (cases "hs = []")
    case True
    then have "\<not> 4 \<le> ?rest" using Cons.prems(3) by simp
    then show ?thesis using tx [of t] rx [of t] True h(8)
      unfolding L_def [symmetric] by (intro exI [of _ h2]) (simp del: of_nat_add)
  next
    case False
    then obtain w where w: "ptp_tlv_tx (of_nat ?rest) (concat hs @ t) = Some (w @ t)"
      "length w = length (concat hs)" "ptp_tlv_rx (of_nat ?rest) (w @ t) = Some (concat hs @ t)"
      using Cons by auto
    have "4 \<le> ?rest"
    proof -
      have "4 \<le> length (hd hs)" using False Cons.prems(1) by (cases hs) (auto simp: tlv_ok_def)
      then show ?thesis using False by (cases hs) auto
    qed
    then show ?thesis
      unfolding L_def [symmetric]
      using tx [of "concat hs @ t"] rx [of "w @ t"] w h(8)
      by (intro exI [of _ "h2 @ w"]) (simp del: of_nat_add)
  qed
qed simp

subsection \<open>Round trip of a message\<close>

text \<open>
  A message in host order as the stack builds it: the type is known and not
  \<open>PDELAY_REQ_MSG\<close> (whose reserved identity is converted on receipt only),
  the length field covers the fixed part, a chain of well-formed TLVs and less
  than four bytes more.
\<close>

definition fixed_types :: "nat set" where
  "fixed_types = {SYNC_MSG, FOLLOW_UP_MSG, DELAY_RESP_MSG, PDELAY_RESP_MSG, PDELAY_RESP_FOLLOW_UP_MSG,
     ANNOUNCE_MSG, SIGNALING_MSG, MANAGEMENT_MSG}"

definition body_size :: "nat \<Rightarrow> nat" where
  "body_size type =
     (if type \<in> {SYNC_MSG, FOLLOW_UP_MSG, SIGNALING_MSG} then 10
      else if type = ANNOUNCE_MSG then 30 else if type = MANAGEMENT_MSG then 14 else 20)"

definition body_fields :: "nat \<Rightarrow> field list" where
  "body_fields type = fst (msg_part_rx type 0)"

lemma body_fields_facts:
  assumes "ty \<in> fixed_types"
  shows "msg_part_rx ty n = (body_fields ty, of_nat (body_size ty))"
    and "msg_part_tx ty n = (body_fields ty, of_nat (body_size ty))"
    and "sorted_wrt disj (hdr_fields @ body_fields ty)"
    and "\<forall>f \<in> set (hdr_fields @ body_fields ty). fst f + snd f \<le> 34 + body_size ty"
    and "\<forall>f \<in> set (hdr_fields @ body_fields ty). disj f (0, 1)"
    and "\<forall>f \<in> set (body_fields ty). disj f F_messageLength"
  using assms unfolding fixed_types_def
  by (elim insertE emptyE; simp add: body_fields_def msg_part_rx_def msg_part_tx_def body_size_def)+

definition msg_wf :: "byte_list \<Rightarrow> byte_list list \<Rightarrow> byte_list \<Rightarrow> bool" where
  "msg_wf head hs tail \<longleftrightarrow>
     messageType head \<in> fixed_types \<and> length head = 34 + body_size (messageType head) \<and>
     list_all tlv_ok hs \<and>
     (\<exists>r < 4. rd F_messageLength head = length head + length (concat hs) + r \<and> (hs = [] \<longrightarrow> r = 0))"

lemma messageType_append: "length h \<noteq> 0 \<Longrightarrow> messageType (h @ t) = messageType h"
  by (simp add: messageType_def rd_append Suc_leI)

lemma msg_tail_none:
  "\<not> (sz + 34 \<le> len \<and> 4 \<le> len - (sz + 34)) \<Longrightarrow> msg_tail tlvs len sz m = Some m"
  by (auto simp: msg_tail_def Let_def)

lemma msg_tail_some:
  assumes "sz + 34 \<le> len" "4 \<le> len - (sz + 34)" "length h = 34 + unat sz"
  shows "msg_tail tlvs len sz (h @ d) = map_option (\<lambda>x. h @ x) (tlvs (len - (sz + 34)) d)"
  using assms by (simp add: msg_tail_def Let_def)

text \<open>The fixed part of a message, both ways.\<close>

lemma msg_head_round_trip:
  assumes type: "messageType head \<in> fixed_types" and len: "length head = 34 + body_size (messageType head)"
  obtains fs h1 h2 h3 where
    "\<And>n. msg_part_rx (messageType head) n = (fs, of_nat (body_size (messageType head)))"
    "\<And>n. msg_part_tx (messageType head) n = (fs, of_nat (body_size (messageType head)))"
    "\<And>t. swaps hdr_fields (head @ t) = Some (h1 @ t)" "\<And>t. swaps fs (h1 @ t) = Some (h2 @ t)"
    "\<And>t. swaps hdr_fields (h2 @ t) = Some (h3 @ t)" "\<And>t. swaps fs (h3 @ t) = Some (head @ t)"
    "\<And>t. messageType (h1 @ t) = messageType head" "\<And>t. messageType (h3 @ t) = messageType head"
    "\<And>t. rd F_messageLength (h3 @ t) = rd F_messageLength head" "length h2 = length head"
proof -
  obtain fs where fs: "\<And>n. msg_part_rx (messageType head) n = (fs, of_nat (body_size (messageType head)))"
    "\<And>n. msg_part_tx (messageType head) n = (fs, of_nat (body_size (messageType head)))"
    "sorted_wrt disj (hdr_fields @ fs)"
    "\<forall>f \<in> set (hdr_fields @ fs). fst f + snd f \<le> 34 + body_size (messageType head)"
    "\<forall>f \<in> set (hdr_fields @ fs). disj f (0, 1)" "\<forall>f \<in> set fs. disj f F_messageLength"
    by (rule that [OF body_fields_facts [OF type]])
  have ib: "inb f x" if "f \<in> set (hdr_fields @ fs)" "length x = length head" for f x
  proof -
    have "fst f + snd f \<le> length x" using bspec [OF fs(4) that(1)] that(2) len by simp
    then show ?thesis by (cases f) simp
  qed
  have "swaps (hdr_fields @ fs) head \<noteq> None"
    unfolding swaps_some using ib by blast
  then obtain h1 h2 where h: "swaps hdr_fields head = Some h1" "swaps fs h1 = Some h2"
    "swaps (hdr_fields @ fs) head = Some h2"
    unfolding swaps_append by (auto simp del: swaps.simps split: Option.bind_splits)
  have "swaps (hdr_fields @ fs) h2 = Some head"
    by (rule swaps_swaps [OF h(3) fs(3)])
  then obtain h3 where h3: "swaps hdr_fields h2 = Some h3" "swaps fs h3 = Some head"
    unfolding swaps_append by (auto simp del: swaps.simps split: Option.bind_splits)
  have l: "length h1 = length head" "length h2 = length head" "length h3 = length head"
    using swaps_length [OF h(1)] swaps_length [OF h(2)] swaps_length [OF h3(2)] by simp_all
  have loc: "swaps gs (x @ t) = map_option (\<lambda>y. y @ t) (swaps gs x)"
    if "gs = hdr_fields \<or> gs = fs" "length x = length head" for gs x t
  proof (intro swaps_local ballI)
    fix f assume "f \<in> set gs"
    then have "f \<in> set (hdr_fields @ fs)" using that(1) by auto
    then show "inb f x" using ib that(2) by blast
  qed
  have ty: "rd (0, 1) y = rd (0, 1) x" if "swaps gs x = Some y" "gs = hdr_fields \<or> gs = fs" for gs x y
    using that(2) fs(5) by (intro swaps_rd [OF that(1)]) auto
  have "messageType h1 = messageType head" "messageType h3 = messageType head"
    using ty [OF h(1)] ty [OF h3(2)] by (simp_all add: messageType_def)
  moreover have "rd F_messageLength h3 = rd F_messageLength head"
    using swaps_rd [OF h3(2) fs(6)] by simp
  ultimately show ?thesis
    by (intro that [OF fs(1,2), where ?h1.0 = h1 and ?h2.0 = h2 and ?h3.0 = h3])
      (use h h3 l len in \<open>simp_all add: loc messageType_append rd_append del: swaps.simps\<close>)
qed

lemma ptp_msg_round_trip:
  assumes wf: "msg_wf head hs tail"
  shows "\<exists>w. ptp_msg_tx (head @ concat hs @ t) = Some w \<and>
    length w = length (head @ concat hs @ t) \<and> ptp_msg_rx w = Some (head @ concat hs @ t)"
proof -
  obtain r where type: "messageType head \<in> fixed_types" "length head = 34 + body_size (messageType head)"
    and hs: "\<forall>h \<in> set hs. tlv_ok h" and r: "r < 4" "hs = [] \<longrightarrow> r = 0"
    "rd F_messageLength head = length head + length (concat hs) + r"
    using wf by (auto simp: msg_wf_def list_all_iff)
  obtain fs h1 h2 h3 where h:
    "\<And>n. msg_part_rx (messageType head) n = (fs, of_nat (body_size (messageType head)))"
    "\<And>n. msg_part_tx (messageType head) n = (fs, of_nat (body_size (messageType head)))"
    "\<And>t. swaps hdr_fields (head @ t) = Some (h1 @ t)" "\<And>t. swaps fs (h1 @ t) = Some (h2 @ t)"
    "\<And>t. swaps hdr_fields (h2 @ t) = Some (h3 @ t)" "\<And>t. swaps fs (h3 @ t) = Some (head @ t)"
    "\<And>t. messageType (h1 @ t) = messageType head" "\<And>t. messageType (h3 @ t) = messageType head"
    "\<And>t. rd F_messageLength (h3 @ t) = rd F_messageLength head" "length h2 = length head"
    using msg_head_round_trip [OF type] by metis
  define b where "b = body_size (messageType head)"
  define len where "len = (of_nat (rd F_messageLength head) :: u16)"
  have bb: "10 \<le> b" "b \<le> 30" by (auto simp: b_def body_size_def)
  have lt: "length head + length (concat hs) + r < 65536"
    using rd_less [of 2 2 head] r(3) by simp
  have u: "unat len = length head + length (concat hs) + r"
    using lt by (simp add: len_def r(3) unat_of_nat del: of_nat_add)
  have usz: "unat (of_nat b :: u16) = b" "unat (of_nat b + 34 :: u16) = length head"
    using bb type(2) by (simp_all add: unat_of_nat unat_word_ariths flip: b_def)
  have ne: "len \<noteq> 34" using u bb type(2) b_def by auto
  have le: "of_nat b + 34 \<le> len" using u usz by (simp add: word_le_nat_alt)
  have df: "len - (of_nat b + 34) = of_nat (length (concat hs) + r)"
    using le u usz lt by (intro word_unat_eq_iff [THEN iffD2]) (simp add: unat_sub unat_of_nat del: of_nat_add)
  have four: "4 \<le> len - (of_nat b + 34) \<longleftrightarrow> 4 \<le> length (concat hs) + r"
    unfolding df using lt by (simp add: word_le_nat_alt unat_of_nat del: of_nat_add)
  have rl: "rd F_messageLength (head @ x) = rd F_messageLength head" for x
    using type(2) by (simp add: rd_append)
  have tx: "ptp_msg_tx (head @ x) = msg_tail ptp_tlv_tx len (of_nat b) (h2 @ x)" for x
    by (simp add: ptp_msg_tx_def ptp_hdr_tx_def h rl Let_def del: swaps.simps flip: len_def b_def)
  have rx: "ptp_msg_rx (h2 @ x) = msg_tail ptp_tlv_rx len (of_nat b) (head @ x)" for x
    using ne by (simp add: ptp_msg_rx_def ptp_hdr_rx_def h Let_def del: swaps.simps flip: len_def b_def)
  show ?thesis
  proof (cases "hs = []")
    case True
    then have "\<not> 4 \<le> len - (of_nat b + 34)" using four r by simp
    then have "msg_tail f len (of_nat b) m = Some m" for f m by (intro msg_tail_none) blast
    then show ?thesis using tx [of t] rx [of t] True h(10) by simp
  next
    case False
    then have "4 \<le> length (concat hs) + r" using hs by (cases hs) (auto simp: tlv_ok_def)
    then have f4: "4 \<le> len - (of_nat b + 34)" using four by blast
    have t2: "msg_tail f len (of_nat b) (x @ d) = map_option (\<lambda>y. x @ y) (f (len - (of_nat b + 34)) d)"
      if "length x = length head" for f x d
      using that le f4 type(2) usz by (intro msg_tail_some) (simp_all flip: b_def)
    obtain w where w: "ptp_tlv_tx (of_nat (length (concat hs) + r)) (concat hs @ t) = Some (w @ t)"
      "length w = length (concat hs)"
      "ptp_tlv_rx (of_nat (length (concat hs) + r)) (w @ t) = Some (concat hs @ t)"
      using tlv_chain_round_trip [OF hs False r(1), of t] lt by auto
    have "ptp_msg_tx (head @ concat hs @ t) = Some (h2 @ w @ t)"
      using t2 [OF h(10), of ptp_tlv_tx "concat hs @ t"] w(1) by (simp add: tx df del: of_nat_add)
    moreover have "ptp_msg_rx (h2 @ w @ t) = Some (head @ concat hs @ t)"
      using t2 [OF refl, of ptp_tlv_rx "w @ t"] w(3) by (simp add: rx df del: of_nat_add)
    ultimately show ?thesis using w(2) h(10) by simp
  qed
qed

end
