(* ===== verification/Msginfo.thy ===== *)
theory Msginfo
  imports Msg "HOL-Library.Monad_Syntax"
begin

text \<open>
  The second half of \<^verbatim>\<open>ptp_msg.c\<close>: what is remembered of a message (\<open>struct
  ptp_msg_info\<close>) and the reference counted message buffers (\<open>struct
  ptp_message\<close>), with the six buffer pointers a clock keeps for forwarding
  (\<^verbatim>\<open>ptp_clock.h\<close>) and the queue to the process task (\<^verbatim>\<open>ptp_stack.c\<close>).

  A buffer has an address that is never used again, so that an access through a
  stale pointer is visible: it is \<open>None\<close>, as are a second free and an access
  outside a buffer.
\<close>

subsection \<open>Times in messages\<close>

record ptp_utime =
  ut_sec :: u32
  ut_nsec :: u32

record ptp_timestamp =
  ts_hi :: u16
  ts_lo :: u32
  ts_nsec :: u32

definition utime_zero :: ptp_utime where
  "utime_zero = \<lparr>ut_sec = 0, ut_nsec = 0\<rparr>"

text \<open>Reading and writing members; \<open>None\<close> is an access outside the buffer.\<close>

definition rdo :: "field \<Rightarrow> byte_list \<Rightarrow> nat option" where
  "rdo f m = (if inb f m then Some (rd f m) else None)"

definition wro :: "field \<Rightarrow> nat \<Rightarrow> byte_list \<Rightarrow> byte_list option" where
  "wro f v m = (if inb f m then Some (wr f v m) else None)"

definition get_port_id :: "nat \<Rightarrow> byte_list \<Rightarrow> ptp_port_identity option" where
  "get_port_id k m =
     (if k + 10 \<le> length m
      then Some \<lparr>pi_clock = get_bytes k 8 m, pi_port = of_nat (rd (k + 8, 2) m)\<rparr> else None)"

definition put_port_id :: "nat \<Rightarrow> ptp_port_identity \<Rightarrow> byte_list \<Rightarrow> byte_list option" where
  "put_port_id k i m =
     (if k + 10 \<le> length m
      then Some (wr (k + 8, 2) (unat (pi_port i)) (put_bytes k (pi_clock i) m)) else None)"

definition get_timestamp :: "nat \<Rightarrow> byte_list \<Rightarrow> ptp_timestamp option" where
  "get_timestamp k m =
     (if k + 10 \<le> length m
      then Some \<lparr>ts_hi = of_nat (rd (k, 2) m), ts_lo = of_nat (rd (k + 2, 4) m), ts_nsec = of_nat (rd (k + 6, 4) m)\<rparr>
      else None)"

definition put_timestamp :: "nat \<Rightarrow> ptp_timestamp \<Rightarrow> byte_list \<Rightarrow> byte_list option" where
  "put_timestamp k t m =
     (if k + 10 \<le> length m
      then Some (wr (k + 6, 4) (unat (ts_nsec t)) (wr (k + 2, 4) (unat (ts_lo t)) (wr (k, 2) (unat (ts_hi t)) m)))
      else None)"

definition ptp_utime_to_timestamp :: "u16 \<Rightarrow> ptp_utime \<Rightarrow> ptp_timestamp" where
  "ptp_utime_to_timestamp sec u = \<lparr>ts_hi = sec, ts_lo = ut_sec u, ts_nsec = ut_nsec u\<rparr>"

text \<open>Bits of the flag bytes 6 and 7 and the signed members of the header.\<close>

definition bit_of :: "nat \<Rightarrow> nat \<Rightarrow> byte_list \<Rightarrow> bool" where
  "bit_of k i m \<longleftrightarrow> odd (rd (k, 1) m div 2 ^ i)"

definition set_bit_of :: "nat \<Rightarrow> nat \<Rightarrow> byte_list \<Rightarrow> byte_list" where
  "set_bit_of k i m = (if bit_of k i m then m else wr (k, 1) (rd (k, 1) m + 2 ^ i) m)"

abbreviation twoStepFlag :: "byte_list \<Rightarrow> bool" where "twoStepFlag \<equiv> bit_of 6 1"
abbreviation unicastFlag :: "byte_list \<Rightarrow> bool" where "unicastFlag \<equiv> bit_of 6 2"
abbreviation set_twoStepFlag :: "byte_list \<Rightarrow> byte_list" where "set_twoStepFlag \<equiv> set_bit_of 6 1"
abbreviation set_unicastFlag :: "byte_list \<Rightarrow> byte_list" where "set_unicastFlag \<equiv> set_bit_of 6 2"

definition correctionField :: "byte_list \<Rightarrow> int" where
  "correctionField m = s64 (int (rd F_correctionField m))"

definition sequenceId :: "byte_list \<Rightarrow> u16" where
  "sequenceId m = of_nat (rd F_sequenceId m)"

definition logMessageInterval :: "byte_list \<Rightarrow> int" where
  "logMessageInterval m = s8 (int (rd F_logMessageInterval m))"

definition transportSpecific :: "byte_list \<Rightarrow> nat" where
  "transportSpecific m = rd (0, 1) m div 16"

subsection \<open>What is remembered of a message\<close>

record ptp_msg_info =
  mi_valid :: bool
  mi_two_step :: bool
  mi_resp :: bool
  mi_correction :: int
  mi_seqid :: u16
  mi_domain :: u8
  mi_msg :: nat
  mi_id :: ptp_port_identity
  mi_ptp_time :: ptp_timestamp
  mi_hw_time :: ptp_utime

definition msg_info_valid :: "ptp_msg_info \<Rightarrow> bool" where
  "msg_info_valid i = mi_valid i"

definition msg_info_ts_valid :: "ptp_msg_info \<Rightarrow> bool" where
  "msg_info_ts_valid i \<longleftrightarrow> ut_sec (mi_hw_time i) \<noteq> 0"

definition msg_info_clear :: "ptp_msg_info \<Rightarrow> ptp_msg_info" where
  "msg_info_clear i = i\<lparr>mi_valid := False, mi_resp := False, mi_hw_time := (mi_hw_time i)\<lparr>ut_sec := 0\<rparr>\<rparr>"

text \<open>The time and the identity a message type adds to those of the header.\<close>

definition info_body :: "byte_list \<Rightarrow> ptp_utime option \<Rightarrow> ptp_msg_info \<Rightarrow> ptp_msg_info option" where
  "info_body m hw_time i =
     (let type = messageType m
      in if type = SYNC_MSG \<or> type = FOLLOW_UP_MSG \<or> type = DELAY_RESP_MSG \<or> type = PDELAY_RESP_FOLLOW_UP_MSG
         then do { t \<leftarrow> get_timestamp 34 m; Some (i\<lparr>mi_ptp_time := t\<rparr>) }
         else if type = PDELAY_RESP_MSG
         then do {
           t \<leftarrow> get_timestamp 34 m;
           let i = i\<lparr>mi_ptp_time := t\<rparr>;
           if hw_time \<noteq> None then Some i
           else do { d \<leftarrow> get_port_id 44 m; Some (i\<lparr>mi_id := d\<rparr>) } }
         else Some i)"

definition msg_info_save :: "byte_list \<Rightarrow> ptp_utime option \<Rightarrow> ptp_msg_info \<Rightarrow> ptp_msg_info option" where
  "msg_info_save m hw_time i =
     do {
       d \<leftarrow> get_port_id 20 m;
       _ \<leftarrow> rdo F_logMessageInterval m;
       i \<leftarrow> info_body m hw_time
         (i\<lparr>mi_valid := True, mi_two_step := twoStepFlag m, mi_correction := correctionField m,
            mi_seqid := sequenceId m, mi_domain := of_nat (rd F_domainNumber m), mi_msg := messageType m,
            mi_id := d\<rparr>);
       Some (i\<lparr>mi_hw_time := (case hw_time of None \<Rightarrow> utime_zero | Some u \<Rightarrow> u)\<rparr>) }"

subsection \<open>Message buffers\<close>

record ptp_msg_save =
  sa_delayed :: bool
  sa_tx :: bool
  sa_udp :: bool
  sa_index :: nat
  sa_queue :: u8
  sa_portmap :: u16
  sa_vid :: u16
  sa_sec :: u32
  sa_nsec :: u32

text \<open>\<open>m_src\<close> are the bytes from \<open>payload[6]\<close> on, the source MAC address.\<close>

record ptp_message =
  m_refcnt :: u8
  m_p :: nat
  m_rx :: ptp_utime
  m_save :: ptp_msg_save
  m_msg :: byte_list
  m_src :: byte_list

text \<open>
  \<open>mh_malloc n len\<close> is the answer of \<open>malloc\<close> to the request number \<open>n\<close> for a
  buffer of \<open>len\<close> message bytes: \<open>None\<close>, or what the memory holds.  \<open>mh_cnt\<close> is
  \<open>alloc_msg_cnt\<close>.
\<close>

record mheap =
  mh_msgs :: "nat \<Rightarrow> ptp_message option"
  mh_next :: nat
  mh_cnt :: int
  mh_malloc :: "nat \<Rightarrow> nat \<Rightarrow> byte_list option"

definition new_message :: "ptp_utime option \<Rightarrow> byte_list \<Rightarrow> ptp_message" where
  "new_message rx b =
     \<lparr>m_refcnt = 1, m_p = 0, m_rx = (case rx of None \<Rightarrow> utime_zero | Some u \<Rightarrow> u),
      m_save = \<lparr>sa_delayed = False, sa_tx = False, sa_udp = False, sa_index = 0, sa_queue = 0,
                sa_portmap = 0, sa_vid = 0, sa_sec = 0, sa_nsec = 0\<rparr>,
      m_msg = b, m_src = [0xFF]\<rparr>"

definition fill_msg :: "byte_list option \<Rightarrow> nat \<Rightarrow> byte_list \<Rightarrow> byte_list option" where
  "fill_msg src len mem =
     (case src of
        None \<Rightarrow> Some mem
      | Some bs \<Rightarrow> if len \<le> length bs \<and> len \<le> length mem then ptp_msg_rx (take len bs @ drop len mem) else None)"

definition alloc_msg :: "byte_list option \<Rightarrow> nat \<Rightarrow> ptp_utime option \<Rightarrow> mheap \<Rightarrow> (nat option \<times> mheap) option" where
  "alloc_msg src len rx h =
     (let a = mh_next h; h = h\<lparr>mh_next := Suc a\<rparr>
      in case mh_malloc h a len of
           None \<Rightarrow> Some (None, h)
         | Some mem \<Rightarrow>
             do {
               b \<leftarrow> fill_msg src len mem;
               Some (Some a, h\<lparr>mh_msgs := (mh_msgs h)(a \<mapsto> new_message rx b), mh_cnt := mh_cnt h + 1\<rparr>) })"

definition free_msg :: "nat \<Rightarrow> mheap \<Rightarrow> mheap option" where
  "free_msg a h =
     (if mh_msgs h a = None then None
      else Some (h\<lparr>mh_msgs := (mh_msgs h)(a := None), mh_cnt := mh_cnt h - 1\<rparr>))"

definition upd_msg :: "nat \<Rightarrow> (ptp_message \<Rightarrow> ptp_message) \<Rightarrow> mheap \<Rightarrow> mheap option" where
  "upd_msg a f h =
     (case mh_msgs h a of None \<Rightarrow> None | Some m \<Rightarrow> Some (h\<lparr>mh_msgs := (mh_msgs h)(a \<mapsto> f m)\<rparr>))"

definition msg_get :: "nat \<Rightarrow> mheap \<Rightarrow> mheap option" where
  "msg_get a h = upd_msg a (\<lambda>m. m\<lparr>m_refcnt := m_refcnt m + 1\<rparr>) h"

definition msg_put :: "nat \<Rightarrow> mheap \<Rightarrow> mheap option" where
  "msg_put a h =
     do {
       h \<leftarrow> upd_msg a (\<lambda>m. m\<lparr>m_refcnt := m_refcnt m - 1\<rparr>) h;
       m \<leftarrow> mh_msgs h a;
       if m_refcnt m = 0 then free_msg a h else Some h }"

subsection \<open>The pointers to buffers\<close>

datatype slot = Last_ann | Last_sync | Last_fup | Last_rx_fup | Base_sync | Base_fup

record mstore =
  st_heap :: mheap
  st_slot :: "slot \<Rightarrow> nat option"
  st_queue :: "nat list"

definition on_heap :: "(mheap \<Rightarrow> mheap option) \<Rightarrow> mstore \<Rightarrow> mstore option" where
  "on_heap f st = do { h \<leftarrow> f (st_heap st); Some (st\<lparr>st_heap := h\<rparr>) }"

definition put_slot :: "slot \<Rightarrow> mstore \<Rightarrow> mstore option" where
  "put_slot s st = (case st_slot st s of None \<Rightarrow> Some st | Some a \<Rightarrow> on_heap (msg_put a) st)"

definition msg_clear :: "slot \<Rightarrow> mstore \<Rightarrow> mstore option" where
  "msg_clear s st = do { st \<leftarrow> put_slot s st; Some (st\<lparr>st_slot := (st_slot st)(s := None)\<rparr>) }"

definition msg_save :: "slot \<Rightarrow> nat \<Rightarrow> mstore \<Rightarrow> mstore option" where
  "msg_save s a st =
     do {
       st \<leftarrow> put_slot s st;
       st \<leftarrow> on_heap (msg_get a) st;
       Some (st\<lparr>st_slot := (st_slot st)(s \<mapsto> a)\<rparr>) }"

text \<open>\<open>queue_send\<close> once there is room in the queue.\<close>

definition queue_send :: "nat \<Rightarrow> mstore \<Rightarrow> mstore" where
  "queue_send a st = st\<lparr>st_queue := st_queue st @ [a]\<rparr>"

definition ptp_save_rx_msg :: "nat \<Rightarrow> mstore \<Rightarrow> mstore option" where
  "ptp_save_rx_msg a st =
     do {
       st \<leftarrow> on_heap (upd_msg a (\<lambda>m. m\<lparr>m_save := (m_save m)\<lparr>sa_tx := False\<rparr>\<rparr>)) st;
       st \<leftarrow> on_heap (msg_get a) st;
       Some (queue_send a st) }"

definition ptp_save_tx_msg ::
  "nat \<Rightarrow> nat \<Rightarrow> u16 \<Rightarrow> u8 \<Rightarrow> bool \<Rightarrow> u16 \<Rightarrow> u32 \<Rightarrow> u32 \<Rightarrow> mstore \<Rightarrow> mstore option" where
  "ptp_save_tx_msg a index portmap queue udp vid sec nsec st =
     do {
       st \<leftarrow> on_heap (upd_msg a (\<lambda>m. m\<lparr>m_save := (m_save m)\<lparr>sa_tx := True, sa_udp := udp, sa_index := index,
               sa_queue := queue, sa_portmap := portmap, sa_vid := vid, sa_sec := sec, sa_nsec := nsec\<rparr>\<rparr>)) st;
       Some (queue_send a st) }"

end
