(* ===== verification/Sched.thy ===== *)
theory Sched
  imports Prelude
begin

text \<open>
  \<^verbatim>\<open>os/sw_support.c\<close>: the one-shot and repeating timers and the work queue every
  part of the stack runs on.  A timer is the C structure plus the state of its
  timer descriptor (\<open>t_armed\<close>: the first expiry and the interval, both in
  milliseconds, as set by the last \<open>timerfd_settime\<close>; a zero expiry disarms
  it).  The work queue is the linked list from the anchor to \<open>last\<close>, as a list
  of works, beside the \<open>attach\<close> flag and the due time of each work.
\<close>

type_synonym ticks = u32

subsection \<open>Timers\<close>

record ksz_timer_info =
  t_callback :: bool
  t_repeat :: bool
  t_max :: ticks
  t_period :: ticks
  t_armed :: "(ticks \<times> ticks) option"
  t_poll :: bool

definition convert_ticks_to_ns :: "ticks \<Rightarrow> int \<times> int" where
  "convert_ticks_to_ns xTicks =
     (let (seconds, xTicks) = (if xTicks \<ge> 1000 then (s32 (uint (xTicks div 1000)), xTicks mod 1000) else (0, xTicks))
      in (seconds, s32 (uint (xTicks * 1000000))))"

definition timerfd_settime :: "ksz_timer_info \<Rightarrow> ticks \<Rightarrow> ticks \<Rightarrow> ksz_timer_info" where
  "timerfd_settime t val interval = t\<lparr>t_armed := (if val = 0 then None else Some (val, interval))\<rparr>"

definition ksz_exit_timer :: "ksz_timer_info \<Rightarrow> ksz_timer_info" where
  "ksz_exit_timer t = (if \<not> t_callback t then t else t\<lparr>t_callback := False, t_armed := None\<rparr>)"

definition ksz_init_timer :: "ksz_timer_info \<Rightarrow> ticks \<Rightarrow> bool \<Rightarrow> ksz_timer_info" where
  "ksz_init_timer t xTicks repeat =
     (let active = t_callback t;
          t = t\<lparr>t_period := xTicks, t_repeat := repeat, t_callback := True\<rparr>
      in if active then t else t\<lparr>t_armed := None, t_poll := True\<rparr>)"

definition ksz_change_timer :: "ksz_timer_info \<Rightarrow> ticks \<Rightarrow> ticks \<Rightarrow> ksz_timer_info" where
  "ksz_change_timer t next xTicks = timerfd_settime t next (if t_repeat t then xTicks else 0)"

definition ksz_start_timer :: "ksz_timer_info \<Rightarrow> ticks \<Rightarrow> ksz_timer_info" where
  "ksz_start_timer t xTicks =
     (timerfd_settime t xTicks (if t_repeat t then t_period t else 0))\<lparr>t_max := t_period t, t_poll := True\<rparr>"

definition ksz_stop_timer :: "ksz_timer_info \<Rightarrow> ksz_timer_info" where
  "ksz_stop_timer t =
     (if t_max t = 0 then t else (timerfd_settime t 0 0)\<lparr>t_max := 0, t_poll := False\<rparr>)"

subsection \<open>The work queue\<close>

record ksz_schedule_work =
  wk_ticks :: ticks
  wk_attach :: bool

record 'w ksz_schedule_info =
  si_works :: "'w \<Rightarrow> ksz_schedule_work"
  si_queue :: "'w list"
  si_timer :: ksz_timer_info
  si_pause :: bool
  si_signal :: bool

definition upd_work :: "'w \<Rightarrow> (ksz_schedule_work \<Rightarrow> ksz_schedule_work) \<Rightarrow> 'w ksz_schedule_info \<Rightarrow> 'w ksz_schedule_info" where
  "upd_work w f s = s\<lparr>si_works := (si_works s)(w := f (si_works s w))\<rparr>"

definition init_work :: "'w \<Rightarrow> 'w ksz_schedule_info \<Rightarrow> 'w ksz_schedule_info" where
  "init_work w s = upd_work w (\<lambda>k. k\<lparr>wk_attach := False\<rparr>) s"

definition add_work :: "'w \<Rightarrow> 'w ksz_schedule_info \<Rightarrow> 'w ksz_schedule_info" where
  "add_work w s =
     (if \<not> wk_attach (si_works s w)
      then (upd_work w (\<lambda>k. k\<lparr>wk_ticks := 0, wk_attach := True\<rparr>) s)\<lparr>si_queue := si_queue s @ [w]\<rparr>
      else s)"

definition schedule_work :: "'w \<Rightarrow> 'w ksz_schedule_info \<Rightarrow> 'w ksz_schedule_info" where
  "schedule_work w s =
     (let s = add_work w s
      in if wk_attach (si_works s w) then s\<lparr>si_signal := True\<rparr> else s)"

definition schedule_delayed_work :: "ticks \<Rightarrow> 'w \<Rightarrow> ticks \<Rightarrow> 'w ksz_schedule_info \<Rightarrow> 'w ksz_schedule_info" where
  "schedule_delayed_work jiffies w xTicks s =
     (let s = add_work w s;
          s = upd_work w (\<lambda>k. k\<lparr>wk_ticks := jiffies + xTicks\<rparr>) s
      in if t_max (si_timer s) = 0
         then s\<lparr>si_timer := ksz_start_timer (si_timer s) (t_period (si_timer s))\<rparr>
         else s)"

definition delayed_timer_func :: "'w ksz_schedule_info \<Rightarrow> 'w ksz_schedule_info" where
  "delayed_timer_func s = (if si_pause s then s else s\<lparr>si_signal := True\<rparr>)"

definition schedule_pause :: "'w ksz_schedule_info \<Rightarrow> 'w ksz_schedule_info" where
  "schedule_pause s = s\<lparr>si_pause := True\<rparr>"

definition schedule_resume :: "'w ksz_schedule_info \<Rightarrow> 'w ksz_schedule_info" where
  "schedule_resume s = s\<lparr>si_pause := False\<rparr>"

text \<open>The signed comparison of ticks that survives the wrap-around of the counter.\<close>

definition time_after_eq :: "ticks \<Rightarrow> ticks \<Rightarrow> bool" where
  "time_after_eq a b \<longleftrightarrow> 0 \<le> sint (a - b)"

definition work_ready :: "ticks \<Rightarrow> ksz_schedule_work \<Rightarrow> bool" where
  "work_ready now k \<longleftrightarrow> \<not> (wk_ticks k \<noteq> 0 \<and> \<not> time_after_eq now (wk_ticks k))"

text \<open>
  One pass of \<open>ScheduleTask\<close>: \<open>i\<close> is the number of works before \<open>work\<close> in the
  list (\<open>prev\<close> is the last of them).  Running a work is the function \<open>run\<close> on
  the state it acts on; the queue is part of that state through \<open>get\<close> and
  \<open>put\<close>, so a work may schedule works.  A pass in which works keep scheduling
  works need not end: \<open>fuel\<close> bounds the iterations and \<open>None\<close> is a pass that
  has not ended within them.
\<close>

definition detach_work :: "nat \<Rightarrow> 'w ksz_schedule_info \<Rightarrow> 'w ksz_schedule_info" where
  "detach_work i s =
     (let w = si_queue s ! i;
          was_last = (i = length (si_queue s) - 1);
          s = (upd_work w (\<lambda>k. k\<lparr>wk_attach := False\<rparr>) s)\<lparr>si_queue := take i (si_queue s) @ drop (Suc i) (si_queue s)\<rparr>
      in if was_last \<and> i = 0 \<and> wk_ticks (si_works s w) \<noteq> 0
         then s\<lparr>si_timer := ksz_stop_timer (si_timer s)\<rparr> else s)"

fun schedule_pass ::
  "('w \<Rightarrow> 's \<Rightarrow> 's) \<Rightarrow> ('s \<Rightarrow> 'w ksz_schedule_info) \<Rightarrow> ('w ksz_schedule_info \<Rightarrow> 's \<Rightarrow> 's) \<Rightarrow>
   ticks \<Rightarrow> nat \<Rightarrow> nat \<Rightarrow> 's \<Rightarrow> ('w list \<times> 's) option" where
  "schedule_pass run get put now 0 i st = None"
| "schedule_pass run get put now (Suc fuel) i st =
     (if length (si_queue (get st)) \<le> i then Some ([], st)
      else
        (let w = si_queue (get st) ! i
         in if \<not> work_ready now (si_works (get st) w)
            then schedule_pass run get put now fuel (Suc i) st
            else map_option (\<lambda>(ws, st). (w # ws, st))
                   (schedule_pass run get put now fuel i (run w (put (detach_work i (get st)) st)))))"

subsection \<open>The queue holds exactly the attached works\<close>

definition sched_inv :: "'w ksz_schedule_info \<Rightarrow> bool" where
  "sched_inv s \<longleftrightarrow> distinct (si_queue s) \<and> (\<forall>w. wk_attach (si_works s w) \<longleftrightarrow> w \<in> set (si_queue s))"

text \<open>
  The contract of a scheduler: scheduling a work that is pending changes
  nothing of the order, scheduling another one appends it.
\<close>

locale work_queue =
  fixes inv :: "'q \<Rightarrow> bool"
    and pending :: "'q \<Rightarrow> 'w list"
    and sched :: "'w \<Rightarrow> 'q \<Rightarrow> 'q"
  assumes sched_inv: "inv q \<Longrightarrow> inv (sched w q)"
    and sched_pending: "inv q \<Longrightarrow>
      pending (sched w q) = (if w \<in> set (pending q) then pending q else pending q @ [w])"
begin

fun sched_all :: "'w list \<Rightarrow> 'q \<Rightarrow> 'q" where
  "sched_all [] q = q"
| "sched_all (w # ws) q = sched_all ws (sched w q)"

lemma sched_all_inv: "inv q \<Longrightarrow> inv (sched_all ws q)"
  by (induction ws q rule: sched_all.induct) (simp_all add: sched_inv)

lemma sched_all_set: "inv q \<Longrightarrow> set (pending (sched_all ws q)) = set (pending q) \<union> set ws"
  by (induction ws q rule: sched_all.induct) (auto simp: sched_inv sched_pending)

lemma sched_all_prefix: "inv q \<Longrightarrow> \<exists>new. pending (sched_all ws q) = pending q @ new"
proof (induction ws q rule: sched_all.induct)
  case (2 w ws q)
  then show ?case using sched_inv sched_pending [of q w] by (cases "w \<in> set (pending q)") force+
qed simp

lemma sched_idem: "inv q \<Longrightarrow> pending (sched w (sched w q)) = pending (sched w q)"
  by (simp add: sched_inv sched_pending)

end

lemma add_work_inv: "sched_inv s \<Longrightarrow> sched_inv (add_work w s)"
  by (auto simp: sched_inv_def add_work_def upd_work_def)

lemma add_work_queue:
  "sched_inv s \<Longrightarrow> si_queue (add_work w s) = (if w \<in> set (si_queue s) then si_queue s else si_queue s @ [w])"
  by (auto simp: sched_inv_def add_work_def upd_work_def)

lemma sched_inv_ticks: "sched_inv (upd_work w (\<lambda>k. k\<lparr>wk_ticks := t\<rparr>) s) = sched_inv s"
  by (auto simp: sched_inv_def upd_work_def)

lemma sched_inv_other [simp]: "sched_inv (s\<lparr>si_timer := t\<rparr>) = sched_inv s"
  "sched_inv (s\<lparr>si_signal := b\<rparr>) = sched_inv s" "sched_inv (s\<lparr>si_pause := b\<rparr>) = sched_inv s"
  by (simp_all add: sched_inv_def)

interpretation immediate: work_queue sched_inv si_queue schedule_work
  by unfold_locales (auto simp: schedule_work_def Let_def add_work_inv add_work_queue)

interpretation delayed: work_queue sched_inv si_queue "\<lambda>w. schedule_delayed_work now w n" for now n
  by unfold_locales
    (auto simp: schedule_delayed_work_def Let_def add_work_inv add_work_queue sched_inv_ticks,
     auto simp: upd_work_def add_work_queue)

lemma detach_work_inv:
  assumes "sched_inv s" and i: "i < length (si_queue s)"
  shows "sched_inv (detach_work i s)" and "si_queue (detach_work i s) = take i (si_queue s) @ drop (Suc i) (si_queue s)"
    and "\<And>w. wk_ticks (si_works (detach_work i s) w) = wk_ticks (si_works s w)"
proof -
  let ?q = "si_queue s"
  have q: "take i ?q @ ?q ! i # drop (Suc i) ?q = ?q"
    using i by (simp add: id_take_nth_drop [symmetric])
  have d: "distinct (take i ?q @ ?q ! i # drop (Suc i) ?q)"
    unfolding q using assms(1) by (simp add: sched_inv_def)
  have "set ?q = insert (?q ! i) (set (take i ?q) \<union> set (drop (Suc i) ?q))"
    by (metis q list.simps(15) set_append Un_insert_right)
  then show "sched_inv (detach_work i s)"
    using assms(1) d by (auto simp: sched_inv_def detach_work_def Let_def upd_work_def)
  show "si_queue (detach_work i s) = take i ?q @ drop (Suc i) ?q"
    by (simp add: detach_work_def Let_def upd_work_def)
  show "wk_ticks (si_works (detach_work i s) w) = wk_ticks (si_works s w)" for w
    by (simp add: detach_work_def Let_def upd_work_def)
qed

text \<open>
  With works that do not touch the queue, one pass runs the ready works in the
  order of the queue, each once, and leaves the others in their order.
\<close>

lemma schedule_pass_order:
  assumes "\<And>w s. get (run w s) = get s" and "\<And>q s. get (put q s) = q"
    and "sched_inv (get st)" and "i \<le> length (si_queue (get st))"
    and "length (si_queue (get st)) - i < fuel"
  shows "\<exists>st'. schedule_pass run get put now fuel i st =
      Some (filter (\<lambda>w. work_ready now (si_works (get st) w)) (drop i (si_queue (get st))), st') \<and>
    sched_inv (get st') \<and>
    si_queue (get st') = take i (si_queue (get st)) @
      filter (\<lambda>w. \<not> work_ready now (si_works (get st) w)) (drop i (si_queue (get st)))"
  using assms(3-)
proof (induction fuel arbitrary: i st)
  case (Suc fuel)
  let ?q = "si_queue (get st)"
  show ?case
  proof (cases "length ?q \<le> i")
    case True
    then show ?thesis using Suc.prems by simp
  next
    case False
    then have i: "i < length ?q" by simp
    then have dr: "drop i ?q = ?q ! i # drop (Suc i) ?q" by (simp add: Cons_nth_drop_Suc)
    show ?thesis
    proof (cases "work_ready now (si_works (get st) (?q ! i))")
      case True
      let ?st = "run (?q ! i) (put (detach_work i (get st)) st)"
      have g: "get ?st = detach_work i (get st)" using assms(1,2) by simp
      note d = detach_work_inv [OF Suc.prems(1) i]
      have r: "work_ready now (si_works (get ?st) w) = work_ready now (si_works (get st) w)" for w
        using d(3) by (simp add: g work_ready_def)
      have len: "length (si_queue (get ?st)) = length ?q - 1" using d(2) i by (simp add: g)
      obtain st' where st': "schedule_pass run get put now fuel i ?st =
          Some (filter (\<lambda>w. work_ready now (si_works (get ?st) w)) (drop i (si_queue (get ?st))), st')"
        "sched_inv (get st')"
        "si_queue (get st') = take i (si_queue (get ?st)) @
          filter (\<lambda>w. \<not> work_ready now (si_works (get ?st) w)) (drop i (si_queue (get ?st)))"
      proof -
        have "i \<le> length (si_queue (get ?st))" "length (si_queue (get ?st)) - i < fuel"
          unfolding len using i Suc.prems(3) by linarith+
        then show ?thesis using Suc.IH [of ?st i] d(1) that by (auto simp only: g)
      qed
      have "drop i (si_queue (get ?st)) = drop (Suc i) ?q" "take i (si_queue (get ?st)) = take i ?q"
        using d(2) i by (simp_all add: g)
      then show ?thesis
        using st' True False by (auto simp: dr r Let_def)
    next
      case nr: False
      obtain st' where st': "schedule_pass run get put now fuel (Suc i) st =
          Some (filter (\<lambda>w. work_ready now (si_works (get st) w)) (drop (Suc i) ?q), st')"
        "sched_inv (get st')"
        "si_queue (get st') = take (Suc i) ?q @ filter (\<lambda>w. \<not> work_ready now (si_works (get st) w)) (drop (Suc i) ?q)"
      proof -
        have "length ?q - Suc i < fuel" using i Suc.prems(3) by linarith
        then show ?thesis using Suc.IH [of st "Suc i"] Suc.prems(1) i that by auto
      qed
      then show ?thesis
        using nr False i by (auto simp: dr Let_def take_Suc_conv_app_nth)
    qed
  qed
qed simp

subsection \<open>Timers\<close>

definition timer_ok :: "ksz_timer_info \<Rightarrow> bool" where
  "timer_ok t \<longleftrightarrow> (t_max t = 0 \<longrightarrow> t_armed t = None)"

lemma timer_ops_ok:
  "timer_ok (ksz_stop_timer t)" if "timer_ok t"
  using that by (auto simp: timer_ok_def ksz_stop_timer_def timerfd_settime_def)

lemma start_timer_armed:
  assumes "xTicks \<noteq> 0" and "t_period t \<noteq> 0"
  shows "timer_ok (ksz_start_timer t xTicks) \<and>
    t_armed (ksz_start_timer t xTicks) = Some (xTicks, if t_repeat t then t_period t else 0) \<and>
    t_max (ksz_start_timer t xTicks) = t_period t"
  using assms by (simp add: timer_ok_def ksz_start_timer_def timerfd_settime_def)

lemma stop_timer_disarms: "timer_ok t \<Longrightarrow> t_armed (ksz_stop_timer t) = None \<and> t_max (ksz_stop_timer t) = 0"
  by (simp add: timer_ok_def ksz_stop_timer_def timerfd_settime_def)

lemma convert_ticks_exact:
  "\<exists>s n. convert_ticks_to_ns x = (s, n) \<and> 0 \<le> s \<and> 0 \<le> n \<and> n < 1000000000 \<and>
    s * 1000000000 + n = uint x * 1000000"
proof -
  define m where "m = (if x \<ge> 1000 then x mod 1000 else x)"
  have U: "0 \<le> uint x" "uint x < 4294967296" using uint_lt2p [of x] by simp_all
  have um: "uint m = uint x mod 1000"
    by (simp add: m_def uint_mod word_le_def)
  have "uint (m * 1000000) = uint m * 1000000 mod 4294967296"
    by (simp add: uint_word_ariths)
  also have "\<dots> = uint m * 1000000"
    using um by (simp add: mod_pos_pos_trivial)
  finally have n: "s32 (uint (m * 1000000)) = uint x mod 1000 * 1000000"
    using um by (simp add: s32_id)
  have s: "s32 (uint (x div 1000)) = uint x div 1000"
  proof -
    have "0 \<le> uint x div 1000" "uint x div 1000 \<le> 2147483647" using U by linarith+
    then show ?thesis by (simp add: uint_div s32_id)
  qed
  have "convert_ticks_to_ns x = (uint x div 1000, uint x mod 1000 * 1000000)"
  proof (cases "x \<ge> 1000")
    case True
    then show ?thesis using n s by (simp add: convert_ticks_to_ns_def m_def)
  next
    case False
    then have "uint x div 1000 = 0" using U by (simp add: word_le_def)
    then show ?thesis using False n by (simp add: convert_ticks_to_ns_def m_def)
  qed
  moreover have "uint x div 1000 * 1000 + uint x mod 1000 = uint x" by simp
  moreover have "0 \<le> uint x div 1000" using U by (simp add: pos_imp_zdiv_nonneg_iff)
  moreover have "0 \<le> uint x mod 1000 * 1000000" "uint x mod 1000 * 1000000 < 1000000000" by simp_all
  moreover have "uint x div 1000 * 1000000000 + uint x mod 1000 * 1000000 = uint x * 1000000"
    using calculation(2) by linarith
  ultimately show ?thesis by blast
qed

end
