(* ===== verification/Ptp_interval.thy ===== *)
theory Ptp_interval
  imports Prelude
begin

text \<open>
  \<^verbatim>\<open>ptp_protocol.c\<close>: message intervals.  PTP writes an interval as the logarithm
  to base two of seconds; the stack converts it to milliseconds, to a number of
  messages, and back, and spreads requests by a random amount.  The values are
  C \<open>int\<close>; \<open>rand\<close> is a parameter (a non-negative \<open>int\<close>).
\<close>

function up_seconds :: "int \<Rightarrow> nat \<Rightarrow> nat" where
  "up_seconds ms interval = (if ms > 2 ^ interval then up_seconds ms (Suc interval) else interval)"
  by pat_completeness auto
termination
proof (relation "measure (\<lambda>(ms, interval). nat (ms - 2 ^ interval))")
  fix ms :: int and interval :: nat
  assume "ms > 2 ^ interval"
  moreover have "(2::int) ^ interval < 2 ^ Suc interval" by simp
  ultimately show "((ms, Suc interval), ms, interval) \<in> measure (\<lambda>(ms, interval). nat (ms - 2 ^ interval))"
    by simp
qed simp

function up_micros :: "int \<Rightarrow> int \<Rightarrow> int \<Rightarrow> int" where
  "up_micros us interval ms = (if 0 < ms \<and> ms < us then up_micros us (interval + 1) (ms * 2) else interval)"
  by pat_completeness auto
termination
  by (relation "measure (\<lambda>(us, interval, ms). nat (us - ms))") auto

declare up_seconds.simps [simp del] up_micros.simps [simp del]

definition us_to_ptp_interval :: "int \<Rightarrow> int" where
  "us_to_ptp_interval us =
     (if us \<ge> 1000000 then int (up_seconds (us sdiv 1000000) 0) else up_micros us (- 4) 62500)"

definition ptp_interval_to_ms :: "int \<Rightarrow> int" where
  "ptp_interval_to_ms interval =
     (if interval \<ge> 0
      then 2 ^ nat (if interval > 8 then 8 else interval) * 1000
      else
        (let ms = (500000 div 2 ^ (nat (- interval) - 1)) sdiv 1000
         in if ms = 0 then 1 else ms))"

text \<open>The shift count is below 31 for the intervals of the protocol; the product is kept in 32 bits.\<close>

definition ptp_interval_to_cnt :: "int \<Rightarrow> int \<Rightarrow> int" where
  "ptp_interval_to_cnt interval seconds =
     (if interval \<ge> 0
      then (let cnt = seconds sdiv s32 (2 ^ nat interval) in if cnt = 0 then 1 else cnt)
      else s32 (s32 (s32 (2 ^ nat (- interval)) * seconds) + 1))"

text \<open>\<open>None\<close>: division by zero.\<close>

definition ptp_random_ms :: "int \<Rightarrow> int \<Rightarrow> int \<Rightarrow> int option" where
  "ptp_random_ms rand ms percent =
     (let range = s32 (ms * percent) sdiv 100
      in if range = 0 then None
         else
           (let sign = (rand div 2 ^ 16) mod 2;
                random = rand smod range
            in Some (if sign \<noteq> 0 then s32 (ms + random) else s32 (ms - random))))"

subsection \<open>Milliseconds\<close>

lemma ptp_interval_to_ms_bounds: "1 \<le> ptp_interval_to_ms i \<and> ptp_interval_to_ms i \<le> 256000"
proof (cases "i \<ge> 0")
  case True
  define k where "k = nat (if i > 8 then 8 else i)"
  have "k \<le> 8" using True by (auto simp: k_def)
  then have "(2::int) ^ k \<le> 2 ^ 8" by (rule power_increasing) simp
  then have "(2::int) ^ k \<le> 256" by simp
  moreover have "(1::int) \<le> 2 ^ k" by simp
  moreover have "ptp_interval_to_ms i = 2 ^ k * 1000"
    using True by (simp add: ptp_interval_to_ms_def k_def)
  ultimately show ?thesis by linarith
next
  case False
  define k where "k = nat (- i) - Suc 0"
  have "0 \<le> 500000 div (2::int) ^ k" by (simp add: pos_imp_zdiv_nonneg_iff)
  moreover have "500000 div (2::int) ^ k \<le> 500000 div 1" by (rule zdiv_mono2) simp_all
  ultimately have "0 \<le> 500000 div (2::int) ^ k sdiv 1000" "500000 div (2::int) ^ k sdiv 1000 \<le> 500"
    by (simp_all add: div_le_mono)
  then show ?thesis using False by (auto simp: ptp_interval_to_ms_def Let_def simp flip: k_def)
qed

lemma ptp_interval_to_ms_mono: "i \<le> j \<Longrightarrow> ptp_interval_to_ms i \<le> ptp_interval_to_ms j"
proof -
  assume ij: "i \<le> j"
  have neg: "ptp_interval_to_ms i \<le> 500" if "i < 0" for i
  proof -
    define x where "x = 500000 div (2::int) ^ (nat (- i) - Suc 0)"
    have "x \<le> 500000 div 1" unfolding x_def by (rule zdiv_mono2) simp_all
    then have "x \<le> 500000" by simp
    then have "x div 1000 \<le> 500000 div 1000" by (rule zdiv_mono1) simp
    moreover have "0 \<le> x" by (simp add: x_def pos_imp_zdiv_nonneg_iff)
    ultimately show ?thesis using that by (simp add: ptp_interval_to_ms_def Let_def flip: x_def)
  qed
  consider "0 \<le> i" | "i < 0" "0 \<le> j" | "j < 0" using ij by linarith
  then show ?thesis
  proof cases
    case 1
    define k l where "k = nat (if i > 8 then 8 else i)" and "l = nat (if j > 8 then 8 else j)"
    have "k \<le> l" using 1 ij by (auto simp: k_def l_def)
    then have "(2::int) ^ k \<le> 2 ^ l" by (rule power_increasing) simp
    then show ?thesis using 1 ij by (simp add: ptp_interval_to_ms_def flip: k_def l_def)
  next
    case 2
    have "(1::int) \<le> 2 ^ nat (if j > 8 then 8 else j)" by simp
    moreover have "ptp_interval_to_ms j = 2 ^ nat (if j > 8 then 8 else j) * 1000"
      using 2(2) by (simp add: ptp_interval_to_ms_def)
    ultimately show ?thesis using neg [OF 2(1)] by linarith
  next
    case 3
    define k l where "k = nat (- i) - Suc 0" and "l = nat (- j) - Suc 0"
    have "l \<le> k" using 3 ij by (simp add: k_def l_def)
    then have "(2::int) ^ l \<le> 2 ^ k" by (rule power_increasing) simp
    then have "500000 div (2::int) ^ k \<le> 500000 div 2 ^ l" by (intro zdiv_mono2) simp_all
    then have "500000 div (2::int) ^ k div 1000 \<le> 500000 div 2 ^ l div 1000" by (rule zdiv_mono1) simp
    moreover have "0 \<le> 500000 div (2::int) ^ k" "0 \<le> 500000 div (2::int) ^ l"
      by (simp_all add: pos_imp_zdiv_nonneg_iff)
    ultimately show ?thesis
      using 3 ij by (auto simp: ptp_interval_to_ms_def Let_def simp flip: k_def l_def)
  qed
qed

subsection \<open>From microseconds to an interval\<close>

lemma up_seconds_least:
  "ms \<le> 2 ^ up_seconds ms k \<and> k \<le> up_seconds ms k \<and> (\<forall>j. k \<le> j \<longrightarrow> j < up_seconds ms k \<longrightarrow> 2 ^ j < ms)"
proof (induction ms k rule: up_seconds.induct)
  case (1 ms k)
  show ?case
  proof (cases "ms > 2 ^ k")
    case True
    have e: "up_seconds ms k = up_seconds ms (Suc k)" using True by (subst up_seconds.simps) simp
    have "2 ^ j < ms" if "k \<le> j" "j < up_seconds ms (Suc k)" for j
      using 1 [OF True] True that by (cases "j = k") auto
    then show ?thesis using 1 [OF True] unfolding e by auto
  next
    case False
    then have "up_seconds ms k = k" by (subst up_seconds.simps) simp
    then show ?thesis using False by simp
  qed
qed

lemma up_micros_least:
  "0 < ms \<Longrightarrow> \<exists>n. up_micros us i ms = i + int n \<and> us \<le> ms * 2 ^ n \<and> (\<forall>j < n. ms * 2 ^ j < us)"
proof (induction us i ms rule: up_micros.induct)
  case (1 us i ms)
  show ?case
  proof (cases "ms < us")
    case True
    then obtain n where n: "up_micros us (i + 1) (ms * 2) = i + 1 + int n" "us \<le> ms * 2 * 2 ^ n"
      "\<forall>j < n. ms * 2 * 2 ^ j < us"
      using 1 by auto
    have "ms * 2 ^ j < us" if "j < Suc n" for j
      using that True n(3) by (cases j) (auto simp: mult.assoc)
    moreover have "up_micros us i ms = i + int (Suc n)"
      using True 1(2) n(1) by (subst up_micros.simps) simp
    ultimately show ?thesis using n(2) by (intro exI [of _ "Suc n"]) (simp add: mult.assoc)
  next
    case False
    then have "up_micros us i ms = i" by (subst up_micros.simps) simp
    then show ?thesis using False by (intro exI [of _ 0]) simp
  qed
qed

text \<open>The interval chosen for less than a second is the least power of two not below the time.\<close>

lemma us_to_ptp_interval_micros:
  assumes "us < 1000000"
  shows "\<exists>n. us_to_ptp_interval us = - 4 + int n \<and> us \<le> 62500 * 2 ^ n \<and> (\<forall>j < n. 62500 * 2 ^ j < us) \<and> n \<le> 4"
proof -
  obtain n where n: "up_micros us (- 4) 62500 = - 4 + int n" "us \<le> 62500 * 2 ^ n" "\<forall>j < n. 62500 * 2 ^ j < us"
    using up_micros_least [of 62500 us "- 4"] by auto
  have "n \<le> 4"
  proof (rule ccontr)
    assume "\<not> n \<le> 4"
    then have "62500 * (2::int) ^ 4 < us" using n(3) [rule_format, of 4] by linarith
    then show False using assms by simp
  qed
  then show ?thesis using n assms by (auto simp: us_to_ptp_interval_def)
qed

subsection \<open>Random spread\<close>

lemma ptp_random_ms_spread:
  assumes "0 < ms" "ms \<le> 256000" "0 < percent" "percent \<le> 100" "0 \<le> rand" "100 \<le> ms * percent"
  obtains r where "ptp_random_ms rand ms percent = Some r" and "\<bar>r - ms\<bar> < ms * percent div 100"
proof -
  have p: "ms * percent \<le> 256000 * 100" using assms by (intro mult_mono) auto
  then have w: "s32 (ms * percent) = ms * percent" using assms(6) by (simp add: s32_id)
  define R where "R = ms * percent div 100"
  have r: "0 < R" "R \<le> 256000" using assms(6) p by (auto simp: R_def)
  have m: "rand smod R = rand mod R" "0 \<le> rand mod R" "rand mod R < R"
    using assms(5) r by simp_all
  have s: "s32 (ms + rand mod R) = ms + rand mod R" "s32 (ms - rand mod R) = ms - rand mod R"
    by (rule s32_id; use m(2,3) r assms(1,2) in linarith)+
  have "s32 (ms * percent) sdiv 100 = R"
    using w assms(6) by (simp add: R_def)
  then have "ptp_random_ms rand ms percent =
      Some (if rand div 2 ^ 16 mod 2 \<noteq> 0 then ms + rand mod R else ms - rand mod R)"
    unfolding ptp_random_ms_def Let_def using r by (simp only: m(1) s) simp
  then show ?thesis
    by (rule that) (use m r in \<open>simp flip: R_def\<close>)
qed

end
