(* ===== verification/State.thy ===== *)
theory State
  imports Ptp_filter Servo Msginfo Sched Ptp_interval
begin

text \<open>
  The state of a PTP clock: the data sets of \<^verbatim>\<open>lan937x_ptp_api.h\<close>, \<open>struct
  ptp_port\<close> of \<^verbatim>\<open>ptp_port.h\<close> and \<open>struct ptp_clock\<close> of \<^verbatim>\<open>ptp_clock.h\<close>.  A clock
  owns its ports: \<open>c_ports ! 0\<close> is \<open>host_port\<close> and \<open>c_ports ! n\<close> is
  \<open>ptp_ports[n]\<close>; a pointer to a port is its position.  A pointer into a
  port's table of foreign masters is a position in that table.  The members that
  the message handlers use are grouped in \<open>port_msgs\<close> and \<open>clock_msgs\<close>.  The world
  adds the message buffers, the scheduler, the tick counter, the saved
  configuration and the effects on the hardware, in order.
\<close>

subsection \<open>Data sets\<close>

datatype ptp_state =
    PTP_S_INIT | PTP_S_INITIALIZING | PTP_S_FAULTY | PTP_S_DISABLED | PTP_S_LISTENING
  | PTP_S_PRE_MASTER | PTP_S_MASTER | PTP_S_PASSIVE | PTP_S_UNCALIBRATED | PTP_S_SLAVE

datatype delay_mech = DELAY_NONE | DELAY_E2E | DELAY_P2P

record ptp_default_ds =
  dd_slave_only :: bool
  dd_two_step :: bool
  dd_numberPorts :: u16
  dd_priority1 :: u8
  dd_quality :: ptp_clock_quality
  dd_priority2 :: u8
  dd_clockIdentity :: byte_list
  dd_domainNumber :: u8

record ptp_current_ds =
  cd_stepsRemoved :: u16
  cd_offsetFromMaster :: int
  cd_meanPathDelay :: int

record ptp_parent_ds =
  pr_parentPortIdentity :: ptp_port_identity
  pr_grandmasterPriority1 :: u8
  pr_grandmasterClockQuality :: ptp_clock_quality
  pr_grandmasterPriority2 :: u8
  pr_grandmasterIdentity :: byte_list

record ptp_port_ds =
  pds_portIdentity :: ptp_port_identity
  pds_portState :: ptp_state
  pds_logMinDelayReqInterval :: int
  pds_peerMeanPathDelay :: int
  pds_logAnnounceInterval :: int
  pds_announceReceiptTimeout :: u8
  pds_logSyncInterval :: int
  pds_delayMechanism :: delay_mech
  pds_logMinPdelayReqInterval :: int
  pds_versionNumber :: u8

subsection \<open>Ports\<close>

record nrate_info =
  nr_ratio :: dbl
  nr_tx1 :: ptu
  nr_tx2 :: ptu
  nr_rx1 :: ptu
  nr_rx2 :: ptu
  nr_ratio_valid :: bool

record ptp_pdelay_info =
  dl_index :: u8
  dl_delay :: int
  dl_raw_delay :: int
  dl_nrate :: nrate_info
  dl_filter :: ptp_filter
  dl_id :: ptp_port_identity

record port_flags =
  fl_gptp :: bool
  fl_gptp_auto :: bool
  fl_gptp_slave :: bool
  fl_peer_resp :: bool
  fl_peer_valid :: bool
  fl_report_announce :: bool
  fl_report_mismatched :: nat
  fl_report_pdelay :: bool
  fl_report_resp :: bool
  fl_report_signal :: bool
  fl_report_sync :: bool
  fl_as_capable :: bool
  fl_as_capable_set :: bool
  fl_no_capable :: bool
  fl_no_link :: bool
  fl_p2p :: bool
  fl_use_delay :: bool
  fl_use_one_way_resp :: bool
  fl_allow_multi_resp :: bool
  fl_mult_resp :: bool
  fl_p2p_two_step :: bool
  fl_sync_two_step :: bool
  fl_path_trace :: bool
  fl_follow_up_tlv :: bool
  fl_no_id_check :: bool
  fl_no_id_replace :: bool
  fl_report_ready :: bool
  fl_report_ready_done :: bool

text \<open>The messages a port keeps track of and what it has sent.\<close>

record port_msgs =
  pm_tx_sync :: ptp_msg_info
  pm_tx_delay_req :: ptp_msg_info
  pm_tx_pdelay_resp :: ptp_msg_info
  pm_rx_delay_resp :: ptp_msg_info
  pm_rx_pdelay_fup :: ptp_msg_info
  pm_multi_resp :: "ptp_msg_info list"
  pm_multi_fup :: "ptp_msg_info list"
  pm_seqid_ann :: u16
  pm_seqid_delay_req :: u16
  pm_seqid_sync :: u16
  pm_seqid_manage :: u16
  pm_seqid_signal :: u16
  pm_resp_cnt :: u8
  pm_resp_fup_cnt :: u8
  pm_mult_resp_cnt :: u8
  pm_mult_resp_fup_cnt :: u8
  pm_peer_id :: ptp_port_identity
  pm_peer_addr :: byte_list
  pm_peer_index :: u8
  pm_last_tx_sync_jiffies :: ticks

record ptp_port =
  p_index :: nat
  p_portmap :: u16
  p_id :: u16
  p_state :: ptp_state
  p_last_state :: ptp_state
  p_next_state :: ptp_state
  p_flags :: port_flags
  p_neighborDelayThresh :: int
  p_ds :: ptp_port_ds
  p_initialPdelayReqInterval :: int
  p_operPdelayReqInterval :: int
  p_initialSyncInterval :: int
  p_operSyncInterval :: int
  p_pdelay_req_interval :: int
  p_logSyncInterval :: int
  p_rx_latency :: u16
  p_tx_latency :: u16
  p_asym_delay :: int
  p_initialSyncTimeout :: u16
  p_waitPdelayReqInterval :: u16
  p_waitSyncInterval :: u16
  p_best :: "nat option"
  p_foreign_masters :: "foreign_dataset list"
  p_pdelay_info :: ptp_pdelay_info
  p_multi_pdelay :: "ptp_pdelay_info list option"
  p_as_capable_err :: u16
  p_resp_missing :: u8
  p_cnt_delay_req :: u16
  p_cnt_sync_rx :: u16
  p_cnt_delay_resp :: u8
  p_cnt_sync_tx :: u8
  p_cnt_fup_tx :: u8
  p_max_sync_tx :: u8
  p_last_fault :: int
  p_delay_timer_info :: ksz_timer_info
  p_ann_timeout_timer_info :: ksz_timer_info
  p_qual_timeout_timer_info :: ksz_timer_info
  p_fault_timeout_timer_info :: ksz_timer_info
  p_msgs :: port_msgs

subsection \<open>Clocks\<close>

record clock_timers =
  ct_sync :: ksz_timer_info
  ct_interval :: ksz_timer_info
  ct_sync_timeout :: ksz_timer_info
  ct_fup_timeout :: ksz_timer_info
  ct_signaling :: ksz_timer_info

record clock_flags =
  cf_no_announce :: bool
  cf_sync_timeout :: bool
  cf_sync_timeout_ready :: bool
  cf_tx_sync :: bool
  cf_miss_sync :: bool
  cf_miss_fup :: bool
  cf_signaling :: bool
  cf_first_sync :: bool
  cf_report_sync :: bool
  cf_req_interval :: bool
  cf_set_interval_force :: bool
  cf_report_link :: bool
  cf_stop :: bool
  cf_setup :: bool

text \<open>What a clock keeps for its messages; the buffer pointers are in \<open>w_msgs\<close>.\<close>

record clock_msgs =
  cm_domain :: u8
  cm_specific :: u8
  cm_transport :: u8
  cm_vid :: u16
  cm_tx_fup_seqid :: u16
  cm_tx_sync_seqid :: u16
  cm_utc_offset :: int
  cm_residence :: int
  cm_time_source :: u8
  cm_first_sync_tx :: ptp_utime
  cm_last_sync_rx :: ptp_utime
  cm_rx_sync :: ptp_msg_info
  cm_rx_fup :: ptp_msg_info
  cm_ann_template :: byte_list
  cm_sync_template :: byte_list
  cm_fup_template :: byte_list
  cm_delay_req_template :: byte_list
  cm_delay_resp_template :: byte_list
  cm_pdelay_req_template :: byte_list
  cm_manage_template :: byte_list
  cm_signal_template :: byte_list
  cm_time_cnt :: u16
  cm_prev_sync_jiffies :: ticks

record ptp_clock =
  c_cfg_index :: u8
  c_cnt :: nat
  c_index :: u8
  c_delay_mechanism :: delay_mech
  c_ports :: "ptp_port list"
  c_slave_port :: "nat option"
  c_live_ports :: u16
  c_portmap :: u16
  c_logAnnounceInterval :: int
  c_logSyncInterval :: int
  c_syncReceiptTimeout :: u8
  c_fupReceiptTimeout :: u8
  c_rx_fup_seqid :: int
  c_rx_sync_seqid :: int
  c_id :: byte_list
  c_dataset :: bmc_dataset
  c_best :: "(nat \<times> nat) option"
  c_best_id :: byte_list
  c_dds :: ptp_default_ds
  c_cur :: ptp_current_ds
  c_pds :: ptp_parent_ds
  c_servo_state :: servo_state
  c_offset :: ptu
  c_servo :: ptp_servo
  c_ann_max :: u8
  c_sync_max :: u8
  c_ann_cnt :: u8
  c_sync_cnt :: u8
  c_flags :: clock_flags
  c_last_sync_jiffies :: ticks
  c_last_sync_time_jiffies :: ticks
  c_oper_sync_jiffies :: ticks
  c_set_sync_timeout_jiffies :: ticks
  c_timers :: clock_timers
  c_msgs :: clock_msgs

subsection \<open>The world\<close>

text \<open>The works of the clock and of its ports (\<open>ksz_schedule_work\<close> members).\<close>

datatype work =
    W_delay_req nat | W_ann_timeout nat | W_qual_timeout nat | W_fault_timeout nat
  | W_update_interval | W_ethernet_ready | W_sync | W_interval | W_sync_timeout | W_fup_timeout | W_signaling

text \<open>
  The saved configuration (\<^verbatim>\<open>os/config_store.c\<close>): \<open>None\<close> when nothing is saved.
  \<open>cfg_two_domain\<close> is the answer of the driver to \<open>get_2_domain_cfg\<close>,
  \<open>cfg_automotive_test\<close> the command line switch \<open>automotive_test_mode\<close>,
  \<open>cfg_adj_rc\<close> the answer of the driver to \<open>adj_freq\<close>.  \<open>cfg_allowed_lost\<close> and
  \<open>cfg_allowed_faults\<close> are the variables \<open>allowed_lost_responses\<close> and
  \<open>allowed_pdelay_faults\<close> that \<open>gptp_get_allowed\<close> fills.
\<close>

record ptp_config =
  cfg_port_sync :: "nat \<Rightarrow> (int \<times> u8) option"
  cfg_port_announce :: "nat \<Rightarrow> (int \<times> u8) option"
  cfg_port_delay :: "nat \<Rightarrow> int option"
  cfg_port_pdelay :: "nat \<Rightarrow> int option"
  cfg_use_delay :: "nat \<Rightarrow> bool option"
  cfg_latency :: "nat \<Rightarrow> (u16 \<times> u16 \<times> int) option"
  cfg_delay_thresh :: "u8 \<Rightarrow> u16 option"
  cfg_peer_delay :: "nat \<Rightarrow> u16 option"
  cfg_two_domain :: "bool option"
  cfg_automotive_test :: bool
  cfg_adj_rc :: int
  cfg_allowed_lost :: u8
  cfg_allowed_faults :: u8

text \<open>Calls into the driver and requests to send, in order.\<close>

datatype effect =
    E_adj_freq int int int int
  | E_set_delays nat u16 u16 int
  | E_set_peer_delay nat int
  | E_set_global_cfg bool bool bool bool
  | E_tx_signal_interval nat int int int
  | E_tx_msg byte_list nat u16 u8 bool u16 u32 u32 "byte_list option"
  | E_aed_status nat bool
  | E_set_2_domain_port_cfg nat bool bool
  | E_set_clk_domain u8 byte_list
  | E_set_2_domain_cfg bool
  | E_set_notify bool

text \<open>\<open>w_tx\<close> is the buffer of \<open>get_tx_msg\<close>, \<open>w_spec\<close> the variable \<open>spec\<close> of \<open>ptp_rx\<close>.\<close>

record world =
  w_clock :: ptp_clock
  w_sched :: "work ksz_schedule_info"
  w_jiffies :: ticks
  w_cfg :: ptp_config
  w_out :: "effect list"
  w_msgs :: mstore
  w_tx :: byte_list
  w_spec :: nat

abbreviation port :: "nat \<Rightarrow> world \<Rightarrow> ptp_port" where
  "port n w \<equiv> c_ports (w_clock w) ! n"

abbreviation flag :: "(port_flags \<Rightarrow> 'a) \<Rightarrow> nat \<Rightarrow> world \<Rightarrow> 'a" where
  "flag f n w \<equiv> f (p_flags (port n w))"

abbreviation cflag :: "(clock_flags \<Rightarrow> 'a) \<Rightarrow> world \<Rightarrow> 'a" where
  "cflag f w \<equiv> f (c_flags (w_clock w))"

definition upd_clock :: "(ptp_clock \<Rightarrow> ptp_clock) \<Rightarrow> world \<Rightarrow> world" where
  "upd_clock f w = w\<lparr>w_clock := f (w_clock w)\<rparr>"

definition upd_port :: "nat \<Rightarrow> (ptp_port \<Rightarrow> ptp_port) \<Rightarrow> world \<Rightarrow> world" where
  "upd_port n f w = upd_clock (\<lambda>c. c\<lparr>c_ports := (c_ports c)[n := f (c_ports c ! n)]\<rparr>) w"

definition upd_pflags :: "nat \<Rightarrow> (port_flags \<Rightarrow> port_flags) \<Rightarrow> world \<Rightarrow> world" where
  "upd_pflags n f = upd_port n (\<lambda>p. p\<lparr>p_flags := f (p_flags p)\<rparr>)"

definition upd_pmsgs :: "nat \<Rightarrow> (port_msgs \<Rightarrow> port_msgs) \<Rightarrow> world \<Rightarrow> world" where
  "upd_pmsgs n f = upd_port n (\<lambda>p. p\<lparr>p_msgs := f (p_msgs p)\<rparr>)"

definition upd_cmsgs :: "(clock_msgs \<Rightarrow> clock_msgs) \<Rightarrow> world \<Rightarrow> world" where
  "upd_cmsgs f = upd_clock (\<lambda>c. c\<lparr>c_msgs := f (c_msgs c)\<rparr>)"

definition upd_pds :: "nat \<Rightarrow> (ptp_port_ds \<Rightarrow> ptp_port_ds) \<Rightarrow> world \<Rightarrow> world" where
  "upd_pds n f = upd_port n (\<lambda>p. p\<lparr>p_ds := f (p_ds p)\<rparr>)"

definition upd_cflags :: "(clock_flags \<Rightarrow> clock_flags) \<Rightarrow> world \<Rightarrow> world" where
  "upd_cflags f = upd_clock (\<lambda>c. c\<lparr>c_flags := f (c_flags c)\<rparr>)"

definition upd_timers :: "(clock_timers \<Rightarrow> clock_timers) \<Rightarrow> world \<Rightarrow> world" where
  "upd_timers f = upd_clock (\<lambda>c. c\<lparr>c_timers := f (c_timers c)\<rparr>)"

definition emit :: "effect \<Rightarrow> world \<Rightarrow> world" where
  "emit e w = w\<lparr>w_out := w_out w @ [e]\<rparr>"

definition sched_now :: "work \<Rightarrow> world \<Rightarrow> world" where
  "sched_now k w = w\<lparr>w_sched := schedule_work k (w_sched w)\<rparr>"

definition sched_delayed :: "work \<Rightarrow> ticks \<Rightarrow> world \<Rightarrow> world" where
  "sched_delayed k n w = w\<lparr>w_sched := schedule_delayed_work (w_jiffies w) k n (w_sched w)\<rparr>"

abbreviation pmsgs :: "(port_msgs \<Rightarrow> 'a) \<Rightarrow> nat \<Rightarrow> world \<Rightarrow> 'a" where
  "pmsgs f n w \<equiv> f (p_msgs (port n w))"

abbreviation cmsgs :: "(clock_msgs \<Rightarrow> 'a) \<Rightarrow> world \<Rightarrow> 'a" where
  "cmsgs f w \<equiv> f (c_msgs (w_clock w))"

named_theorems world_upd \<open>the update functions of the world\<close>

lemmas world_updates [world_upd] =
  upd_clock_def upd_port_def upd_pflags_def upd_pmsgs_def upd_cmsgs_def upd_pds_def upd_cflags_def upd_timers_def
  emit_def sched_now_def sched_delayed_def

end
