(* ===== verification/Clock.thy ===== *)
theory Clock
  imports State
begin

text \<open>
  The clock: \<^verbatim>\<open>ptp_clock.c\<close> (data sets, live ports, the sync, interval, timeout
  and signaling timers), the interval bookkeeping of \<^verbatim>\<open>ptp_forward.c\<close> and
  \<open>ptp_update_parent_ds\<close> of \<^verbatim>\<open>ptp_config.c\<close>.
\<close>

subsection \<open>Data sets\<close>

definition clock_class :: "ptp_clock \<Rightarrow> u8" where
  "clock_class c = q_class (dd_quality (c_dds c))"

definition clock_steps :: "ptp_clock \<Rightarrow> u16" where
  "clock_steps c = cd_stepsRemoved (c_cur c)"

definition clock_default_ds :: "world \<Rightarrow> world" where
  "clock_default_ds = upd_clock (\<lambda>c.
     let dds = c_dds c; ds = c_dataset c
     in c\<lparr>c_dataset := ds\<lparr>ds_prio_1 := dd_priority1 dds, ds_id := dd_clockIdentity dds,
           ds_quality := dd_quality dds, ds_prio_2 := dd_priority2 dds, ds_steps_removed := 0,
           ds_rx := (ds_rx ds)\<lparr>pi_clock := dd_clockIdentity dds\<rparr>,
           ds_tx := (ds_tx ds)\<lparr>pi_clock := dd_clockIdentity dds, pi_port := 0\<rparr>\<rparr>\<rparr>)"

text \<open>\<open>c->best\<close> points into the table of foreign masters of a port.\<close>

definition clock_best :: "ptp_clock \<Rightarrow> foreign_dataset option" where
  "clock_best c = map_option (\<lambda>(n, i). p_foreign_masters (c_ports c ! n) ! i) (c_best c)"

definition clock_best_ds :: "ptp_clock \<Rightarrow> bmc_dataset option" where
  "clock_best_ds c = map_option fd_dataset (clock_best c)"

definition clock_best_port :: "ptp_clock \<Rightarrow> nat option" where
  "clock_best_port c = map_option fd_port (clock_best c)"

definition clock_set_slave_port :: "nat \<Rightarrow> world \<Rightarrow> world" where
  "clock_set_slave_port n = upd_clock (\<lambda>c. c\<lparr>c_slave_port := Some n\<rparr>)"

text \<open>The mask of a port; the host port has index 0 and no bit.\<close>

definition port_bit :: "nat \<Rightarrow> u16" where
  "port_bit index = (if index = 0 then 0 else push_bit (index - 1) 1)"

definition clock_enable_port :: "nat \<Rightarrow> bool \<Rightarrow> world \<Rightarrow> world" where
  "clock_enable_port n enable w =
     (let ports = port_bit (p_index (port n w));
          w = upd_clock (\<lambda>c. c\<lparr>c_live_ports := (if enable then c_live_ports c OR ports
                                              else c_live_ports c AND NOT ports)\<rparr>) w
      in upd_port 0 (\<lambda>h. h\<lparr>p_portmap := c_portmap (w_clock w) AND c_live_ports (w_clock w)\<rparr>) w)"

definition ptp_update_parent_ds :: "foreign_dataset option \<Rightarrow> world \<Rightarrow> world" where
  "ptp_update_parent_ds f =
     (case f of
        Some f \<Rightarrow> upd_clock (\<lambda>c. c\<lparr>
          c_cur := (c_cur c)\<lparr>cd_stepsRemoved := ds_steps_removed (fd_dataset f) + 1\<rparr>,
          c_pds := (c_pds c)\<lparr>pr_parentPortIdentity := ds_tx (fd_dataset f),
            pr_grandmasterIdentity := ds_id (fd_dataset f),
            pr_grandmasterClockQuality := ds_quality (fd_dataset f),
            pr_grandmasterPriority1 := ds_prio_1 (fd_dataset f),
            pr_grandmasterPriority2 := ds_prio_2 (fd_dataset f)\<rparr>\<rparr>)
      | None \<Rightarrow> upd_clock (\<lambda>c. c\<lparr>
          c_cur := \<lparr>cd_stepsRemoved = 0, cd_offsetFromMaster = 0, cd_meanPathDelay = 0\<rparr>,
          c_pds := (c_pds c)\<lparr>
            pr_parentPortIdentity := \<lparr>pi_clock = dd_clockIdentity (c_dds c), pi_port = 0\<rparr>,
            pr_grandmasterIdentity := dd_clockIdentity (c_dds c),
            pr_grandmasterClockQuality := dd_quality (c_dds c),
            pr_grandmasterPriority1 := dd_priority1 (c_dds c),
            pr_grandmasterPriority2 := dd_priority2 (c_dds c)\<rparr>\<rparr>))"

definition clock_update_grandmaster :: "world \<Rightarrow> world" where
  "clock_update_grandmaster = upd_clock (\<lambda>c. c\<lparr>
     c_cur := \<lparr>cd_stepsRemoved = 0, cd_offsetFromMaster = 0, cd_meanPathDelay = 0\<rparr>,
     c_pds := (c_pds c)\<lparr>
       pr_parentPortIdentity := \<lparr>pi_clock = dd_clockIdentity (c_dds c), pi_port = 0\<rparr>,
       pr_grandmasterIdentity := dd_clockIdentity (c_dds c),
       pr_grandmasterClockQuality := dd_quality (c_dds c),
       pr_grandmasterPriority1 := dd_priority1 (c_dds c),
       pr_grandmasterPriority2 := dd_priority2 (c_dds c)\<rparr>\<rparr>)"

subsection \<open>Timers\<close>

abbreviation ctimer :: "(clock_timers \<Rightarrow> ksz_timer_info) \<Rightarrow> world \<Rightarrow> ksz_timer_info" where
  "ctimer f w \<equiv> f (c_timers (w_clock w))"

definition time_delta :: "ticks \<Rightarrow> ticks \<Rightarrow> ticks" where
  "time_delta a b = b - a"

text \<open>\<open>time_save\<close> keeps the values up to \<open>m\<close> free for other indications.\<close>

definition time_save :: "ticks \<Rightarrow> ticks \<Rightarrow> ticks" where
  "time_save jiffies m = (if jiffies < m then m else jiffies)"

definition clock_stop_sync_interval :: "world \<Rightarrow> world" where
  "clock_stop_sync_interval = upd_timers (\<lambda>t. t\<lparr>ct_interval := ksz_stop_timer (ct_interval t)\<rparr>)"

definition clock_stop_sync_timeout :: "world \<Rightarrow> world" where
  "clock_stop_sync_timeout = upd_timers (\<lambda>t. t\<lparr>ct_sync_timeout := ksz_stop_timer (ct_sync_timeout t)\<rparr>)"

definition clock_stop_fup_timeout :: "world \<Rightarrow> world" where
  "clock_stop_fup_timeout = upd_timers (\<lambda>t. t\<lparr>ct_fup_timeout := ksz_stop_timer (ct_fup_timeout t)\<rparr>)"

definition clock_set_initial_sync_timeout :: "int \<Rightarrow> world \<Rightarrow> world" where
  "clock_set_initial_sync_timeout delay w =
     (let w = upd_cflags (\<lambda>f. f\<lparr>cf_sync_timeout := False\<rparr>) w
      in upd_timers (\<lambda>t. t\<lparr>ct_sync_timeout :=
           ksz_start_timer ((ct_sync_timeout t)\<lparr>t_period := of_int delay\<rparr>) (of_int delay)\<rparr>) w)"

definition clock_stop_sync_timer :: "world \<Rightarrow> world" where
  "clock_stop_sync_timer w =
     (let w = upd_timers (\<lambda>t. t\<lparr>ct_sync := ksz_stop_timer (ct_sync t)\<rparr>) w
      in upd_cflags (\<lambda>f. f\<lparr>cf_miss_sync := False, cf_sync_timeout := False,
           cf_sync_timeout_ready := False, cf_tx_sync := False\<rparr>) w)"

definition clock_start_sync_timer :: "world \<Rightarrow> world" where
  "clock_start_sync_timer w =
     (let next = t_period (ctimer ct_sync w)
      in if cflag cf_tx_sync w then w
         else
           (let w = upd_clock (\<lambda>c. c\<lparr>c_ann_cnt := c_ann_max c, c_sync_cnt := 0\<rparr>) w;
                w = (if cflag cf_sync_timeout w
                     then upd_clock (\<lambda>c. c\<lparr>c_ann_cnt := 0, c_sync_cnt := c_sync_max c\<rparr>) w else w);
                w = upd_cflags (\<lambda>f. f\<lparr>cf_tx_sync := True\<rparr>) w;
                w = upd_clock (\<lambda>c. c\<lparr>c_last_sync_time_jiffies := 0\<rparr>) w;
                faster = (cflag cf_sync_timeout_ready w \<and>
                          t_period (ctimer ct_fup_timeout w) < t_period (ctimer ct_sync w));
                next = (if faster then next - t_period (ctimer ct_fup_timeout w) else next);
                w = (if faster then upd_clock (\<lambda>c. c\<lparr>c_last_sync_time_jiffies := 1\<rparr>) w else w);
                w = upd_timers (\<lambda>t. t\<lparr>ct_sync := ksz_start_timer (ct_sync t) (t_period (ct_sync t))\<rparr>) w
            in if t_repeat (ctimer ct_sync w)
               then upd_timers (\<lambda>t. t\<lparr>ct_sync := ksz_change_timer (ct_sync t) next (t_period (ct_sync t))\<rparr>) w
               else w))"

definition clock_start_signaling_timer :: "bool \<Rightarrow> world \<Rightarrow> world" where
  "clock_start_signaling_timer oper w =
     (let next = t_period (ctimer ct_signaling w);
          go = (\<lambda>next w.
            (let w = (if t_max (ctimer ct_signaling w) \<noteq> 0
                      then upd_timers (\<lambda>t. t\<lparr>ct_signaling :=
                             ksz_change_timer (ct_signaling t) next (t_period (ct_sync t))\<rparr>) w
                      else upd_timers (\<lambda>t. t\<lparr>ct_signaling := ksz_start_timer (ct_signaling t) next\<rparr>) w)
             in upd_cflags (\<lambda>f. f\<lparr>cf_signaling := True\<rparr>) w))
      in if oper
         then (case c_slave_port (w_clock w) of
                 None \<Rightarrow> w
               | Some n \<Rightarrow> go (of_nat (unat (p_waitSyncInterval (port n w)) * 1000)) w)
         else go next (upd_cflags (\<lambda>f. f\<lparr>cf_req_interval := True\<rparr>) w))"

definition clock_stop_signaling_timer :: "world \<Rightarrow> world" where
  "clock_stop_signaling_timer w =
     (let w = upd_timers (\<lambda>t. t\<lparr>ct_signaling := ksz_stop_timer (ct_signaling t)\<rparr>) w;
          w = upd_clock (\<lambda>c. c\<lparr>c_oper_sync_jiffies := 0\<rparr>) w
      in upd_cflags (\<lambda>f. f\<lparr>cf_req_interval := False, cf_signaling := False\<rparr>) w)"

definition clock_set_sync_timeout :: "world \<Rightarrow> world" where
  "clock_set_sync_timeout w =
     (let delay = ptp_interval_to_ms (p_logSyncInterval (port 0 w));
          w = (if cflag cf_sync_timeout w then clock_stop_sync_timer w else w)
      in if c_syncReceiptTimeout (w_clock w) = 0 then w
         else
           (let delay = of_int (s32 (delay * uint (c_syncReceiptTimeout (w_clock w))));
                w = upd_timers (\<lambda>t. t\<lparr>ct_sync_timeout :=
                      ksz_start_timer ((ct_sync_timeout t)\<lparr>t_period := delay\<rparr>) delay\<rparr>) w
            in upd_clock (\<lambda>c. c\<lparr>c_set_sync_timeout_jiffies := time_save (w_jiffies w) 0\<rparr>) w))"

definition clock_set_fup_timeout :: "world \<Rightarrow> world" where
  "clock_set_fup_timeout w =
     (if t_max (ctimer ct_sync w) \<noteq> 0 then w
      else if t_max (ctimer ct_fup_timeout w) \<noteq> 0 then w
      else
        (let n = ucast (c_fupReceiptTimeout (w_clock w))
         in upd_timers (\<lambda>t. t\<lparr>ct_fup_timeout :=
              ksz_start_timer ((ct_fup_timeout t)\<lparr>t_period := n\<rparr>) n\<rparr>) w))"

definition clock_set_sync_interval :: "world \<Rightarrow> world" where
  "clock_set_sync_interval w =
     (let delay = ptp_interval_to_ms (p_logSyncInterval (port 0 w))
      in if t_max (ctimer ct_sync w) \<noteq> 0 then w
         else
           (let ticks = of_int delay;
                w = upd_timers (\<lambda>t. t\<lparr>ct_interval := (ct_interval t)\<lparr>t_period := ticks\<rparr>\<rparr>) w;
                ticks = ticks + 4;
                w = (if t_max (ctimer ct_interval w) = 0
                     then upd_timers (\<lambda>t. t\<lparr>ct_interval :=
                            ksz_start_timer (ct_interval t) (t_period (ct_interval t))\<rparr>) w
                     else w)
            in if t_repeat (ctimer ct_interval w)
               then upd_timers (\<lambda>t. t\<lparr>ct_interval :=
                      ksz_change_timer (ct_interval t) ticks (t_period (ct_interval t))\<rparr>) w
               else w))"

definition clock_change_sync_timer :: "int \<Rightarrow> world \<Rightarrow> world" where
  "clock_change_sync_timer interval w =
     (if interval = c_logSyncInterval (w_clock w) then w
      else
        (let w = upd_clock (\<lambda>c. c\<lparr>c_logSyncInterval := s8 interval\<rparr>) w;
             li = c_logSyncInterval (w_clock w);
             la = c_logAnnounceInterval (w_clock w);
             delay = (if li \<le> la then li else la);
             w = (if li \<le> la
                  then upd_clock (\<lambda>c. c\<lparr>c_sync_max := 0, c_ann_max := of_int (2 ^ nat (la - li) - 1)\<rparr>) w
                  else upd_clock (\<lambda>c. c\<lparr>c_ann_max := 0, c_sync_max := of_int (2 ^ nat (li - la) - 1)\<rparr>) w);
             w = upd_clock (\<lambda>c. if c_sync_cnt c > c_sync_max c then c\<lparr>c_sync_cnt := c_sync_max c\<rparr> else c) w;
             w = upd_clock (\<lambda>c. if c_ann_cnt c > c_ann_max c then c\<lparr>c_ann_cnt := c_ann_max c\<rparr> else c) w;
             ticks = of_int (ptp_interval_to_ms delay)
         in if t_period (ctimer ct_sync w) \<noteq> ticks
            then
              (let last = c_last_sync_time_jiffies (w_clock w);
                   diff = time_delta last (w_jiffies w);
                   next = (if last > 1 then (if diff < ticks then ticks - diff else 10) else ticks);
                   w = upd_clock (\<lambda>c. c\<lparr>c_last_sync_time_jiffies := 1\<rparr>) w;
                   w = upd_timers (\<lambda>t. t\<lparr>ct_sync := (ct_sync t)\<lparr>t_period := ticks\<rparr>\<rparr>) w
               in if t_max (ctimer ct_sync w) \<noteq> 0
                  then upd_timers (\<lambda>t. t\<lparr>ct_sync := ksz_change_timer (ct_sync t) next ticks\<rparr>) w
                  else w)
            else w))"

subsection \<open>Sync intervals of the ports\<close>

definition shl1 :: "int \<Rightarrow> u8" where
  "shl1 n = (if n < 0 then 0 else of_int (2 ^ nat n))"

definition setup_port_interval :: "int \<Rightarrow> ptp_port \<Rightarrow> ptp_port" where
  "setup_port_interval interval p =
     (if p_state p = PTP_S_SLAVE \<or> p_state p = PTP_S_UNCALIBRATED then p
      else
        (let diff = p_logSyncInterval p - interval;
             diff = (if diff < 0 then 0 else diff)
         in if uint (p_max_sync_tx p) \<noteq> 2 ^ nat diff
            then p\<lparr>p_max_sync_tx := shl1 diff, p_cnt_sync_tx := shl1 diff, p_cnt_fup_tx := shl1 diff\<rparr>
            else p))"

definition ptp_setup_sync_interval :: "world \<Rightarrow> world" where
  "ptp_setup_sync_interval w =
     upd_clock (\<lambda>c. c\<lparr>c_ports := (case c_ports c of
        [] \<Rightarrow> [] | h # ps \<Rightarrow> h # map (setup_port_interval (c_logSyncInterval c)) (take (c_cnt c) ps) @ drop (c_cnt c) ps)\<rparr>) w"

definition ptp_get_fastest_interval :: "ptp_clock \<Rightarrow> int \<Rightarrow> int" where
  "ptp_get_fastest_interval c interval =
     foldl (\<lambda>i p. if p_state p \<noteq> PTP_S_MASTER then i
                 else if p_logSyncInterval p < i then p_logSyncInterval p else i)
       interval (take (c_cnt c) (drop 1 (c_ports c)))"

definition ptp_change_slave_interval :: "int \<Rightarrow> bool \<Rightarrow> world \<Rightarrow> world" where
  "ptp_change_slave_interval interval now w =
     (let interval = ptp_get_fastest_interval (w_clock w) interval
      in if p_logSyncInterval (port 0 w) \<noteq> interval \<or> now
         then (case c_slave_port (w_clock w) of
                 None \<Rightarrow> w
               | Some n \<Rightarrow>
                   (let w = (if p_logSyncInterval (port 0 w) < interval
                             then clock_stop_sync_timeout (clock_stop_sync_interval w) else w);
                        w = upd_port 0 (\<lambda>h. h\<lparr>p_logSyncInterval := s8 interval\<rparr>) w;
                        w = emit (E_tx_signal_interval n 127 (p_logSyncInterval (port 0 w)) 127) w;
                        w = clock_start_signaling_timer False w
                    in ptp_setup_sync_interval w))
         else ptp_setup_sync_interval w)"

definition ptp_change_master_interval :: "nat \<Rightarrow> int \<Rightarrow> world \<Rightarrow> world" where
  "ptp_change_master_interval n interval w =
     (if p_state (port n w) \<noteq> PTP_S_MASTER then w
      else if p_logSyncInterval (port n w) \<noteq> interval
      then
        (let w = upd_port n (\<lambda>p. p\<lparr>p_logSyncInterval := s8 interval,
                   p_ds := (p_ds p)\<lparr>pds_logSyncInterval := s8 interval\<rparr>\<rparr>) w;
             w = upd_cflags (\<lambda>f. f\<lparr>cf_set_interval_force := False\<rparr>) w
         in sched_delayed W_update_interval 10 w)
      else w)"

end
