(* ===== verification/Port.thy ===== *)
theory Port
  imports Clock
begin

text \<open>
  The ports: \<^verbatim>\<open>ptp_port.c\<close> with the port data set of \<^verbatim>\<open>ptp_config.c\<close> and
  \<open>clock_peer_delay\<close> of \<^verbatim>\<open>ptp_sync.c\<close>.  \<open>host_event\<close> and \<open>port_event\<close> are the
  state machines of the host port and of the other ports; \<open>port_set_state\<close>
  enters a state with all it starts and stops.  The \<open>last_seqid_*\<close> members,
  which \<open>port_initialize\<close> clears and nothing reads, have no counterpart.
\<close>

datatype event =
    EVENT_NONE | EVENT_FAULT_SET | EVENT_FAULT_CLEAR | EVENT_ENABLE | EVENT_DISABLE
  | EVENT_ANNOUNCE_TIMEOUT | EVENT_QUALIFICATION_TIMEOUT | EVENT_CLOCK_STABLE | EVENT_CLOCK_UNSTABLE
  | EVENT_READY_MASTER | EVENT_BECOME_MASTER | EVENT_BECOME_SLAVE | EVENT_BECOME_PASSIVE
  | EVENT_INIT_COMPLETE

abbreviation (input) ALLOWED_LOST_RESPONSES :: u8 where "ALLOWED_LOST_RESPONSES \<equiv> 3"

subsection \<open>Small accessors\<close>

definition port_is_aed :: "ptp_port \<Rightarrow> bool" where
  "port_is_aed p \<longleftrightarrow> fl_gptp_auto (p_flags p)"

definition port_is_aed_master :: "ptp_port \<Rightarrow> bool" where
  "port_is_aed_master p \<longleftrightarrow> fl_gptp_auto (p_flags p) \<and> \<not> fl_gptp_slave (p_flags p)"

definition port_best :: "ptp_port \<Rightarrow> foreign_dataset option" where
  "port_best p = map_option (\<lambda>i. p_foreign_masters p ! i) (p_best p)"

definition port_best_ds :: "ptp_port \<Rightarrow> bmc_dataset option" where
  "port_best_ds p = map_option fd_dataset (port_best p)"

text \<open>The peer delay record in use: the first of several when several peers answer.\<close>

definition first_info :: "ptp_port \<Rightarrow> ptp_pdelay_info" where
  "first_info p = (case p_multi_pdelay p of Some (i # is) \<Rightarrow> i | _ \<Rightarrow> p_pdelay_info p)"

definition init_nrate_info :: "nrate_info \<Rightarrow> nrate_info" where
  "init_nrate_info n =
     \<lparr>nr_ratio = Fin 1, nr_tx1 = ptu_zero, nr_tx2 = ptu_zero, nr_rx1 = ptu_zero, nr_rx2 = ptu_zero,
      nr_ratio_valid = False\<rparr>"

subsection \<open>Timeouts\<close>

definition port_announce_timeout :: "nat \<Rightarrow> world \<Rightarrow> world" where
  "port_announce_timeout n =
     upd_port n (\<lambda>p. case p_best p of
        None \<Rightarrow> p
      | Some i \<Rightarrow> p\<lparr>p_foreign_masters := (p_foreign_masters p)[i := (p_foreign_masters p ! i)\<lparr>fd_valid := False, fd_cnt := 0\<rparr>],
                   p_best := None\<rparr>)"

definition port_set_announce_timeout :: "nat \<Rightarrow> world \<Rightarrow> world" where
  "port_set_announce_timeout n =
     upd_port n (\<lambda>p.
       let delay = s32 (ptp_interval_to_ms (pds_logAnnounceInterval (p_ds p)) * uint (pds_announceReceiptTimeout (p_ds p)))
       in p\<lparr>p_ann_timeout_timer_info :=
              ksz_start_timer ((p_ann_timeout_timer_info p)\<lparr>t_period := of_int delay\<rparr>) (of_int delay)\<rparr>)"

definition port_set_qualification_timeout :: "nat \<Rightarrow> world \<Rightarrow> world" where
  "port_set_qualification_timeout n w =
     upd_port n (\<lambda>p.
       let delay = s32 (ptp_interval_to_ms (pds_logAnnounceInterval (p_ds p)) * (1 + uint (clock_steps (w_clock w))))
       in p\<lparr>p_qual_timeout_timer_info :=
              ksz_start_timer ((p_qual_timeout_timer_info p)\<lparr>t_period := of_int delay\<rparr>) (of_int delay)\<rparr>) w"

definition port_stop_qualification_timeout :: "nat \<Rightarrow> world \<Rightarrow> world" where
  "port_stop_qualification_timeout n =
     upd_port n (\<lambda>p. p\<lparr>p_qual_timeout_timer_info := ksz_stop_timer (p_qual_timeout_timer_info p)\<rparr>)"

subsection \<open>The Sync timer of the host port\<close>

definition port_global_cfg :: "bool \<Rightarrow> nat \<Rightarrow> world \<Rightarrow> world" where
  "port_global_cfg master n w =
     (if cfg_two_domain (w_cfg w) = Some False
      then emit (E_set_global_cfg master (dd_two_step (c_dds (w_clock w)))
             (c_delay_mechanism (w_clock w) = DELAY_P2P) (flag fl_gptp n w)) w
      else w)"

definition port_start_sync_timer :: "nat \<Rightarrow> world \<Rightarrow> world" where
  "port_start_sync_timer n w =
     (if p_index (port n w) = 0 then clock_start_sync_timer (port_global_cfg True n w) else w)"

definition port_stop_sync_timer :: "nat \<Rightarrow> world \<Rightarrow> world" where
  "port_stop_sync_timer n w =
     (if p_index (port n w) = 0 then clock_stop_sync_timer (port_global_cfg False n w) else w)"

subsection \<open>Neighbours\<close>

definition port_set_capable :: "nat \<Rightarrow> bool \<Rightarrow> world \<Rightarrow> world" where
  "port_set_capable n capable = upd_pflags n (\<lambda>f. f\<lparr>fl_as_capable := capable\<rparr>)"

definition port_check_capable :: "u8 \<Rightarrow> ptp_port \<Rightarrow> ptp_port" where
  "port_check_capable allowed_lost_responses p =
     (let info = first_info p;
          ok = \<not> (p_resp_missing p \<ge> allowed_lost_responses) \<and>
               \<not> (s32 (dl_delay info) > p_neighborDelayThresh p) \<and>
               \<not> fl_mult_resp (p_flags p) \<and> fl_peer_valid (p_flags p) \<and> nr_ratio_valid (dl_nrate info);
          p = (if ok then p\<lparr>p_as_capable_err := 0\<rparr> else p)
      in p\<lparr>p_flags := (p_flags p)\<lparr>fl_as_capable := ok\<rparr>\<rparr>)"

definition port_capable :: "ptp_port \<Rightarrow> bool" where
  "port_capable p =
     (if \<not> fl_no_capable (p_flags p) \<and> \<not> fl_as_capable_set (p_flags p) then fl_as_capable (p_flags p) else True)"

definition port_start_p2p :: "nat \<Rightarrow> world \<Rightarrow> world" where
  "port_start_p2p n =
     upd_port n (\<lambda>p.
       if pds_delayMechanism (p_ds p) = DELAY_P2P \<and> fl_use_delay (p_flags p)
       then
         (let p = p\<lparr>p_delay_timer_info := ksz_start_timer (p_delay_timer_info p) (t_period (p_delay_timer_info p))\<rparr>;
              p = (if port_is_aed p
                   then p\<lparr>p_cnt_delay_req := of_int (ptp_interval_to_cnt (p_initialPdelayReqInterval p)
                            (uint (p_waitPdelayReqInterval p)))\<rparr> else p);
              p = p\<lparr>p_cnt_delay_resp := (if fl_gptp_auto (p_flags p) then 10 else 20)\<rparr>
          in p\<lparr>p_flags := (p_flags p)\<lparr>fl_p2p := True\<rparr>\<rparr>)
       else p)"

definition port_stop_p2p :: "nat \<Rightarrow> world \<Rightarrow> world" where
  "port_stop_p2p n =
     upd_port n (\<lambda>p.
       if pds_delayMechanism (p_ds p) = DELAY_P2P \<and> fl_p2p (p_flags p)
       then
         (let p = p\<lparr>p_delay_timer_info := ksz_stop_timer (p_delay_timer_info p),
                    p_flags := (p_flags p)\<lparr>fl_p2p := False\<rparr>,
                    p_pdelay_req_interval := p_initialPdelayReqInterval p,
                    p_ds := (p_ds p)\<lparr>pds_logMinPdelayReqInterval := p_initialPdelayReqInterval p\<rparr>\<rparr>
          in p\<lparr>p_delay_timer_info := (p_delay_timer_info p)\<lparr>t_period :=
                 of_int (ptp_interval_to_ms (p_pdelay_req_interval p))\<rparr>\<rparr>)
       else p)"

definition empty_dataset :: bmc_dataset where
  "empty_dataset =
     \<lparr>ds_prio_1 = 0, ds_prio_2 = 0, ds_steps_removed = 0, ds_id = replicate 8 0,
      ds_quality = \<lparr>q_class = 0, q_accuracy = 0, q_variance = 0\<rparr>,
      ds_rx = \<lparr>pi_clock = replicate 8 0, pi_port = 0\<rparr>, ds_tx = \<lparr>pi_clock = replicate 8 0, pi_port = 0\<rparr>\<rparr>"

definition empty_foreign :: foreign_dataset where
  "empty_foreign =
     \<lparr>fd_prec = 0, fd_dataset = empty_dataset, fd_cnt = 0, fd_valid = False, fd_bad_cnt = 0,
      fd_good_cnt = 0, fd_bad_master = 0, fd_port = 0\<rparr>"

definition port_init :: "nat \<Rightarrow> world \<Rightarrow> world" where
  "port_init n =
     upd_port n (\<lambda>p. if p_index p = 0 then p
       else p\<lparr>p_foreign_masters := replicate MAX_FOREIGN_MASTERS empty_foreign, p_best := None\<rparr>)"

text \<open>
  The delay in the host port's filter.  The double conversion of a delay that
  fits 53 bits is exact (\<open>filter_set_delay_exact\<close>); outside the target type C
  leaves it undefined and the filter is kept here.
\<close>

definition clock_peer_delay :: "ptp_pdelay_info \<Rightarrow> world \<Rightarrow> world" where
  "clock_peer_delay info w =
     (let w = upd_port 0 (\<lambda>h.
            let pdelay = p_pdelay_info h;
                pdelay = pdelay\<lparr>dl_delay := dl_delay info, dl_raw_delay := dl_raw_delay info,
                           dl_nrate := (dl_nrate pdelay)\<lparr>nr_ratio := nr_ratio (dl_nrate info)\<rparr>\<rparr>
            in h\<lparr>p_pdelay_info := pdelay\<lparr>dl_filter :=
                   (case filter_set_delay (dl_filter pdelay) (dbl_of_int (dl_delay info)) of
                      None \<Rightarrow> dl_filter pdelay | Some f \<Rightarrow> f)\<rparr>\<rparr>) w
      in upd_clock (\<lambda>c. c\<lparr>c_cur := (c_cur c)\<lparr>cd_meanPathDelay := s64 (dl_delay info * 2 ^ 16)\<rparr>\<rparr>) w)"

lemma filter_set_delay_exact:
  assumes "\<bar>d\<bar> < 2 ^ 53"
  shows "filter_set_delay f (dbl_of_int d) = Some (f\<lparr>f_delay := d, f_delay_valid := True\<rparr>)"
proof -
  have "fits 64 d" using assms by (auto simp: fits_def)
  then show ?thesis
    using round_dbl_int [OF assms] by (simp add: filter_set_delay_def dbl_of_int_def)
qed

definition port_to_master :: "nat \<Rightarrow> world \<Rightarrow> world" where
  "port_to_master n w =
     (let w = (if port_is_aed (port n w)
               then sched_delayed W_update_interval 5 (upd_cflags (\<lambda>f. f\<lparr>cf_set_interval_force := True\<rparr>) w)
               else w)
      in if p_index (port n w) = 0 then port_start_sync_timer n w
         else if flag fl_gptp n w \<and> flag fl_use_one_way_resp n w
         then port_stop_p2p n (upd_pflags n (\<lambda>f. f\<lparr>fl_as_capable_set := True\<rparr>) w)
         else w)"

definition port_to_slave :: "nat \<Rightarrow> world \<Rightarrow> world" where
  "port_to_slave n w =
     (if p_index (port n w) = 0
      then upd_clock (\<lambda>c. c\<lparr>c_rx_sync_seqid := 0x10000, c_rx_fup_seqid := 0x10000\<rparr>) w
      else
        (let w = (if cflag cf_tx_sync w then clock_stop_sync_timer w else w);
             w = (if port_is_aed (port n w)
                  then clock_set_initial_sync_timeout (s32 (uint (p_initialSyncTimeout (port n w)) * 1000)) w
                  else
                    (let w = (if clock_class (w_clock w) \<noteq> 255 then port_set_announce_timeout n w else w)
                     in if flag fl_gptp n w \<and> \<not> cflag cf_signaling w
                        then clock_start_signaling_timer False w else w))
         in if flag fl_gptp n w \<and> flag fl_use_one_way_resp n w
            then port_start_p2p n (upd_pflags n (\<lambda>f. f\<lparr>fl_as_capable_set := False\<rparr>) w)
            else w))"

subsection \<open>State machines\<close>

definition host_event :: "ptp_clock \<Rightarrow> ptp_port \<Rightarrow> event \<Rightarrow> ptp_state" where
  "host_event c p event =
     (let master_ok = (clock_class c \<noteq> 255)
      in if event = EVENT_BECOME_PASSIVE
         then (if list_all (\<lambda>q. p_state q = PTP_S_FAULTY) (take (c_cnt c) (drop 1 (c_ports c)))
               then PTP_S_LISTENING else PTP_S_PASSIVE)
         else
           (case p_state p of
              PTP_S_INITIALIZING \<Rightarrow> (case event of EVENT_INIT_COMPLETE \<Rightarrow> PTP_S_LISTENING | _ \<Rightarrow> p_state p)
            | PTP_S_LISTENING \<Rightarrow>
                (case event of
                   EVENT_ANNOUNCE_TIMEOUT \<Rightarrow> if master_ok then PTP_S_MASTER else p_state p
                 | EVENT_BECOME_SLAVE \<Rightarrow> PTP_S_SLAVE
                 | EVENT_BECOME_MASTER \<Rightarrow> PTP_S_MASTER
                 | _ \<Rightarrow> p_state p)
            | PTP_S_PASSIVE \<Rightarrow>
                (case event of
                   EVENT_ANNOUNCE_TIMEOUT \<Rightarrow> if master_ok then PTP_S_MASTER else p_state p
                 | EVENT_BECOME_SLAVE \<Rightarrow> PTP_S_SLAVE
                 | EVENT_BECOME_MASTER \<Rightarrow> PTP_S_MASTER
                 | _ \<Rightarrow> p_state p)
            | PTP_S_MASTER \<Rightarrow>
                (case event of
                   EVENT_BECOME_SLAVE \<Rightarrow> PTP_S_SLAVE
                 | EVENT_BECOME_PASSIVE \<Rightarrow> PTP_S_LISTENING
                 | _ \<Rightarrow> p_state p)
            | PTP_S_SLAVE \<Rightarrow>
                (case event of
                   EVENT_ANNOUNCE_TIMEOUT \<Rightarrow> if master_ok then PTP_S_MASTER else PTP_S_LISTENING
                 | EVENT_BECOME_MASTER \<Rightarrow> PTP_S_MASTER
                 | EVENT_BECOME_PASSIVE \<Rightarrow> PTP_S_LISTENING
                 | _ \<Rightarrow> p_state p)
            | _ \<Rightarrow> p_state p))"

definition port_event :: "ptp_clock \<Rightarrow> ptp_port \<Rightarrow> event \<Rightarrow> ptp_state" where
  "port_event c p event =
     (let master_ok = (clock_class c \<noteq> 255);
          ready = (if fl_gptp (p_flags p) then PTP_S_MASTER else PTP_S_PRE_MASTER)
      in case p_state p of
           PTP_S_INITIALIZING \<Rightarrow>
             (case event of
                EVENT_INIT_COMPLETE \<Rightarrow> PTP_S_LISTENING
              | EVENT_FAULT_SET \<Rightarrow> PTP_S_FAULTY
              | EVENT_DISABLE \<Rightarrow> PTP_S_DISABLED
              | _ \<Rightarrow> p_state p)
         | PTP_S_FAULTY \<Rightarrow>
             (case event of
                EVENT_FAULT_CLEAR \<Rightarrow> PTP_S_INITIALIZING
              | EVENT_DISABLE \<Rightarrow> PTP_S_DISABLED
              | _ \<Rightarrow> p_state p)
         | PTP_S_DISABLED \<Rightarrow> (case event of EVENT_ENABLE \<Rightarrow> PTP_S_INITIALIZING | _ \<Rightarrow> p_state p)
         | PTP_S_LISTENING \<Rightarrow>
             (case event of
                EVENT_FAULT_SET \<Rightarrow> PTP_S_FAULTY
              | EVENT_DISABLE \<Rightarrow> PTP_S_DISABLED
              | EVENT_ANNOUNCE_TIMEOUT \<Rightarrow> if master_ok then ready else p_state p
              | EVENT_BECOME_SLAVE \<Rightarrow> PTP_S_UNCALIBRATED
              | EVENT_READY_MASTER \<Rightarrow> ready
              | EVENT_BECOME_MASTER \<Rightarrow> PTP_S_MASTER
              | EVENT_BECOME_PASSIVE \<Rightarrow> PTP_S_PASSIVE
              | _ \<Rightarrow> p_state p)
         | PTP_S_PRE_MASTER \<Rightarrow>
             (case event of
                EVENT_FAULT_SET \<Rightarrow> PTP_S_FAULTY
              | EVENT_DISABLE \<Rightarrow> PTP_S_DISABLED
              | EVENT_BECOME_SLAVE \<Rightarrow> PTP_S_UNCALIBRATED
              | EVENT_QUALIFICATION_TIMEOUT \<Rightarrow> PTP_S_MASTER
              | EVENT_BECOME_MASTER \<Rightarrow> PTP_S_MASTER
              | EVENT_BECOME_PASSIVE \<Rightarrow> PTP_S_PASSIVE
              | _ \<Rightarrow> p_state p)
         | PTP_S_MASTER \<Rightarrow>
             (case event of
                EVENT_FAULT_SET \<Rightarrow> PTP_S_FAULTY
              | EVENT_DISABLE \<Rightarrow> PTP_S_DISABLED
              | EVENT_BECOME_SLAVE \<Rightarrow> PTP_S_UNCALIBRATED
              | EVENT_BECOME_PASSIVE \<Rightarrow> PTP_S_PASSIVE
              | _ \<Rightarrow> p_state p)
         | PTP_S_PASSIVE \<Rightarrow>
             (case event of
                EVENT_FAULT_SET \<Rightarrow> PTP_S_FAULTY
              | EVENT_DISABLE \<Rightarrow> PTP_S_DISABLED
              | EVENT_BECOME_SLAVE \<Rightarrow> PTP_S_UNCALIBRATED
              | EVENT_ANNOUNCE_TIMEOUT \<Rightarrow> PTP_S_MASTER
              | EVENT_READY_MASTER \<Rightarrow> ready
              | EVENT_BECOME_MASTER \<Rightarrow> PTP_S_MASTER
              | _ \<Rightarrow> p_state p)
         | PTP_S_UNCALIBRATED \<Rightarrow>
             (case event of
                EVENT_FAULT_SET \<Rightarrow> PTP_S_FAULTY
              | EVENT_DISABLE \<Rightarrow> PTP_S_DISABLED
              | EVENT_ANNOUNCE_TIMEOUT \<Rightarrow> if master_ok then PTP_S_MASTER else PTP_S_LISTENING
              | EVENT_READY_MASTER \<Rightarrow> ready
              | EVENT_BECOME_MASTER \<Rightarrow> PTP_S_MASTER
              | EVENT_BECOME_PASSIVE \<Rightarrow> PTP_S_PASSIVE
              | EVENT_CLOCK_STABLE \<Rightarrow> PTP_S_SLAVE
              | _ \<Rightarrow> p_state p)
         | PTP_S_SLAVE \<Rightarrow>
             (case event of
                EVENT_FAULT_SET \<Rightarrow> PTP_S_FAULTY
              | EVENT_DISABLE \<Rightarrow> PTP_S_DISABLED
              | EVENT_ANNOUNCE_TIMEOUT \<Rightarrow> if master_ok then PTP_S_MASTER else PTP_S_LISTENING
              | EVENT_READY_MASTER \<Rightarrow> ready
              | EVENT_BECOME_MASTER \<Rightarrow> PTP_S_MASTER
              | EVENT_BECOME_PASSIVE \<Rightarrow> PTP_S_PASSIVE
              | EVENT_CLOCK_UNSTABLE \<Rightarrow> PTP_S_UNCALIBRATED
              | _ \<Rightarrow> p_state p)
         | _ \<Rightarrow> p_state p)"

subsection \<open>Initialisation\<close>

definition ptp_init_port_ds :: "nat \<Rightarrow> world \<Rightarrow> world" where
  "ptp_init_port_ds n w =
     upd_port n (\<lambda>p.
       let cfg = w_cfg w; index = p_index p;
           ds = (p_ds p)\<lparr>pds_portState := PTP_S_DISABLED, pds_logMinDelayReqInterval := 0,
                  pds_peerMeanPathDelay := 0, pds_logAnnounceInterval := 1, pds_announceReceiptTimeout := 3,
                  pds_logSyncInterval := 0, pds_logMinPdelayReqInterval := 0\<rparr>;
           ds = (if fl_gptp (p_flags p)
                 then ds\<lparr>pds_logAnnounceInterval := 0, pds_logSyncInterval := - 3\<rparr> else ds);
           ds = ds\<lparr>pds_versionNumber := 2\<rparr>;
           ds = (case cfg_port_sync cfg index of None \<Rightarrow> ds | Some (i, _) \<Rightarrow> ds\<lparr>pds_logSyncInterval := i\<rparr>);
           ds = (case cfg_port_announce cfg index of
                   None \<Rightarrow> ds
                 | Some (i, t) \<Rightarrow> ds\<lparr>pds_logAnnounceInterval := i, pds_announceReceiptTimeout := t\<rparr>);
           ds = (case cfg_port_delay cfg index of None \<Rightarrow> ds | Some i \<Rightarrow> ds\<lparr>pds_logMinDelayReqInterval := i\<rparr>);
           ds = (case cfg_port_pdelay cfg index of None \<Rightarrow> ds | Some i \<Rightarrow> ds\<lparr>pds_logMinPdelayReqInterval := i\<rparr>)
       in p\<lparr>p_ds := ds\<rparr>) w"

definition reset_info :: "ptp_pdelay_info \<Rightarrow> ptp_pdelay_info" where
  "reset_info i =
     i\<lparr>dl_delay := 0, dl_nrate := init_nrate_info (dl_nrate i), dl_filter := filter_reset (dl_filter i) True\<rparr>"

text \<open>The part of \<open>port_initialize\<close> before the state of the port is chosen.\<close>

definition port_initialize_data :: "nat \<Rightarrow> world \<Rightarrow> world" where
  "port_initialize_data n w =
     (let cfg = w_cfg w; index = p_index (port n w);
          w = upd_port n (\<lambda>p. p\<lparr>p_logSyncInterval := p_initialSyncInterval p, p_neighborDelayThresh := 800,
                p_flags := (p_flags p)\<lparr>fl_report_resp := True\<rparr>\<rparr>) w;
          w = upd_port n (\<lambda>p. if \<not> fl_no_capable (p_flags p) then p\<lparr>p_resp_missing := cfg_allowed_lost cfg + 1\<rparr> else p) w;
          w = upd_pflags n (\<lambda>f. if \<not> fl_allow_multi_resp f then f\<lparr>fl_peer_valid := False\<rparr> else f) w;
          w = upd_pflags n (\<lambda>f. f\<lparr>fl_peer_resp := False\<rparr>) w;
          w = (if cfg_use_delay cfg index = Some False
               then upd_pflags n (\<lambda>f. f\<lparr>fl_as_capable_set := True, fl_use_delay := False\<rparr>) w else w);
          w = (case cfg_latency cfg index of
                 None \<Rightarrow> w
               | Some (rx, tx, asymm) \<Rightarrow>
                   emit (E_set_delays index rx tx asymm)
                     (upd_port n (\<lambda>p. p\<lparr>p_rx_latency := rx, p_tx_latency := tx, p_asym_delay := asymm\<rparr>) w));
          w = (case cfg_delay_thresh cfg (c_cfg_index (w_clock w)) of
                 None \<Rightarrow> w | Some t \<Rightarrow> upd_port n (\<lambda>p. p\<lparr>p_neighborDelayThresh := uint t\<rparr>) w);
          w = upd_port n (\<lambda>p. p\<lparr>p_multi_pdelay := map_option (map reset_info) (p_multi_pdelay p),
                p_pdelay_info := reset_info (p_pdelay_info p)\<rparr>) w
      in case cfg_peer_delay cfg index of
           None \<Rightarrow> w
         | Some t \<Rightarrow>
             if t \<noteq> 0
             then emit (E_set_peer_delay index (uint t))
                    (upd_port n (\<lambda>p. p\<lparr>p_pdelay_info := (p_pdelay_info p)\<lparr>dl_delay := uint t, dl_raw_delay := uint t\<rparr>,
                        p_ds := (p_ds p)\<lparr>pds_peerMeanPathDelay := s64 (uint t * 2 ^ 16)\<rparr>\<rparr>) w)
             else w)"

text \<open>
  \<open>h2s\<close> is the call \<open>port_set_state (host, PTP_S_SLAVE)\<close> that \<open>port_to_sync\<close>
  makes: a parameter here, tied below.
\<close>

definition port_to_sync :: "(world \<Rightarrow> world) \<Rightarrow> nat \<Rightarrow> world \<Rightarrow> world" where
  "port_to_sync h2s n w =
     h2s (ptp_change_slave_interval (p_logSyncInterval (port n w)) False
       (clock_peer_delay (first_info (port n w)) w))"

text \<open>The state of a port that has a link.\<close>

definition port_initialize_state :: "(world \<Rightarrow> world) \<Rightarrow> nat \<Rightarrow> world \<Rightarrow> world" where
  "port_initialize_state h2s n w =
     (let w = upd_port n (\<lambda>p. p\<lparr>p_state := PTP_S_LISTENING\<rparr>) w
      in if port_is_aed (port n w)
         then
           (let w = upd_pflags n (\<lambda>f. f\<lparr>fl_report_announce := True, fl_report_mismatched := 0,
                      fl_report_pdelay := True\<rparr>) w
            in if flag fl_gptp_slave n w
               then port_to_sync h2s n
                      (upd_pflags n (\<lambda>f. f\<lparr>fl_report_signal := True\<rparr>)
                        (upd_port n (\<lambda>p. p\<lparr>p_state := PTP_S_SLAVE\<rparr>) w))
               else upd_pflags n (\<lambda>f. f\<lparr>fl_report_sync := True\<rparr>)
                      (upd_port n (\<lambda>p. p\<lparr>p_state := PTP_S_MASTER\<rparr>) w))
         else if clock_class (w_clock w) \<noteq> 255 \<and> p_last_fault (port n w) = 0
         then port_set_announce_timeout n w
         else w)"

definition port_initialize_start :: "nat \<Rightarrow> world \<Rightarrow> world" where
  "port_initialize_start n w =
     (let w = clock_enable_port n True w;
          w = (if \<not> flag fl_use_one_way_resp n w \<or>
                  (flag fl_gptp n w \<and> p_state (port n w) \<noteq> PTP_S_MASTER)
               then port_start_p2p n w else w)
      in if p_state (port n w) = PTP_S_MASTER then port_to_master n w
         else if p_state (port n w) = PTP_S_SLAVE then port_to_slave n w
         else w)"

definition port_initialize_slave :: "nat \<Rightarrow> world \<Rightarrow> world" where
  "port_initialize_slave n w =
     (if flag fl_gptp_slave n w
      then
        (let w = (if p_state (port n w) = PTP_S_FAULTY
                  then clock_set_initial_sync_timeout
                         (s32 (s32 (uint (p_initialSyncTimeout (port n w)) * 1000) * 2)) w
                  else w)
         in clock_set_slave_port n w)
      else w)"

definition port_initialize :: "(world \<Rightarrow> world) \<Rightarrow> nat \<Rightarrow> world \<Rightarrow> world" where
  "port_initialize h2s n w =
     (let w = ptp_init_port_ds n w
      in if p_index (port n w) = 0 then upd_port n (\<lambda>p. p\<lparr>p_state := PTP_S_LISTENING\<rparr>) w
         else
           (let w = port_initialize_data n w
            in port_initialize_slave n
                 (if flag fl_no_link n w then upd_port n (\<lambda>p. p\<lparr>p_state := PTP_S_FAULTY\<rparr>) w
                  else port_initialize_start n (port_initialize_state h2s n w))))"

subsection \<open>Entering a state\<close>

definition leave_sync :: "nat \<Rightarrow> ptp_state \<Rightarrow> world \<Rightarrow> world" where
  "leave_sync n state w =
     (let w = (if \<not> flag fl_gptp n w \<and> cflag cf_sync_timeout w
               then clock_stop_sync_timer (upd_cflags (\<lambda>f. f\<lparr>cf_sync_timeout := False\<rparr>) w) else w)
      in if state = PTP_S_UNCALIBRATED \<or> state = PTP_S_SLAVE then w
         else if p_index (port n w) \<noteq> 0 \<and> flag fl_gptp n w \<and> \<not> port_is_aed (port n w)
         then clock_stop_signaling_timer w
         else w)"

definition leave_state :: "nat \<Rightarrow> ptp_state \<Rightarrow> world \<Rightarrow> world" where
  "leave_state n state w =
     (case p_state (port n w) of
        PTP_S_MASTER \<Rightarrow> (if p_index (port n w) = 0 then port_stop_sync_timer n w else w)
      | PTP_S_UNCALIBRATED \<Rightarrow> leave_sync n state w
      | PTP_S_SLAVE \<Rightarrow> leave_sync n state w
      | _ \<Rightarrow> w)"

definition enter_state :: "(world \<Rightarrow> world) \<Rightarrow> nat \<Rightarrow> bool \<Rightarrow> ptp_state \<Rightarrow> world \<Rightarrow> world" where
  "enter_state h2s n master state w =
     (case state of
        PTP_S_INITIALIZING \<Rightarrow> port_initialize h2s n w
      | PTP_S_FAULTY \<Rightarrow>
          (let w = port_stop_p2p n (clock_enable_port n False w)
           in if port_is_aed (port n w) \<and> master
              then sched_delayed W_update_interval 5 (upd_cflags (\<lambda>f. f\<lparr>cf_set_interval_force := True\<rparr>) w)
              else w)
      | PTP_S_DISABLED \<Rightarrow> port_stop_p2p n (clock_enable_port n False w)
      | PTP_S_LISTENING \<Rightarrow>
          (let w = (if p_index (port n w) = 0 \<and> flag fl_gptp n w
                    then upd_port n (\<lambda>p. p\<lparr>p_logSyncInterval := 8\<rparr>) w else w)
           in if p_index (port n w) \<noteq> 0 \<and> clock_class (w_clock w) \<noteq> 255
              then port_set_announce_timeout n w else w)
      | PTP_S_PASSIVE \<Rightarrow>
          (if p_index (port n w) \<noteq> 0 \<and> clock_class (w_clock w) \<noteq> 255
           then port_set_announce_timeout n w else w)
      | PTP_S_UNCALIBRATED \<Rightarrow>
          (let w = (if pds_delayMechanism (p_ds (port n w)) = DELAY_P2P
                    then clock_peer_delay (first_info (port n w)) w else w)
           in port_to_slave n w)
      | PTP_S_SLAVE \<Rightarrow> port_to_slave n w
      | PTP_S_PRE_MASTER \<Rightarrow>
          (if p_index (port n w) \<noteq> 0 \<and> \<not> flag fl_gptp n w
           then port_set_qualification_timeout n w else w)
      | PTP_S_MASTER \<Rightarrow> port_to_master n w
      | PTP_S_INIT \<Rightarrow> w)"

definition set_state_with :: "(world \<Rightarrow> world) \<Rightarrow> nat \<Rightarrow> ptp_state \<Rightarrow> world \<Rightarrow> world" where
  "set_state_with h2s n state w =
     (let w = (if state = PTP_S_SLAVE \<and> p_index (port n w) = 0
               then upd_port n (\<lambda>p. p\<lparr>p_cnt_sync_rx := 20\<rparr>) w else w)
      in if p_state (port n w) = state then w
         else
           (let master = (p_state (port n w) = PTP_S_MASTER);
                w = leave_state n state w;
                w = upd_port n (\<lambda>p. p\<lparr>p_state := state\<rparr>) w;
                w = enter_state h2s n master state w
            in upd_port n (\<lambda>p. p\<lparr>p_ds := (p_ds p)\<lparr>pds_portState := p_state p\<rparr>,
                                 p_next_state := p_state p\<rparr>) w))"

text \<open>
  The recursion of the code is one level deep: only \<open>port_initialize\<close> calls
  back, with the host port and the slave state, and entering the slave state
  does not initialise.
\<close>

definition host_to_slave :: "world \<Rightarrow> world" where
  "host_to_slave = set_state_with (\<lambda>w. w) 0 PTP_S_SLAVE"

definition port_set_state :: "nat \<Rightarrow> ptp_state \<Rightarrow> world \<Rightarrow> world" where
  "port_set_state = set_state_with host_to_slave"

lemma set_state_with_slave: "set_state_with h n PTP_S_SLAVE = set_state_with h' n PTP_S_SLAVE"
proof -
  have "enter_state h n m PTP_S_SLAVE w = enter_state h' n m PTP_S_SLAVE w" for m w
    by (simp add: enter_state_def)
  then show ?thesis unfolding set_state_with_def Let_def by (intro ext) simp
qed

lemma host_to_slave_eq: "host_to_slave = port_set_state 0 PTP_S_SLAVE"
  unfolding host_to_slave_def port_set_state_def by (rule set_state_with_slave)

definition port_set_fault_timeout :: "nat \<Rightarrow> int \<Rightarrow> int \<Rightarrow> world \<Rightarrow> world" where
  "port_set_fault_timeout n fault ms w =
     (let w = upd_port n (\<lambda>p. p\<lparr>p_last_fault := fault,
                p_fault_timeout_timer_info := ksz_start_timer
                  ((p_fault_timeout_timer_info p)\<lparr>t_period := of_int ms\<rparr>) (of_int ms)\<rparr>) w
      in port_set_state n (port_event (w_clock w) (port n w) EVENT_FAULT_SET) w)"

definition port_stop_fault_timeout :: "nat \<Rightarrow> world \<Rightarrow> world" where
  "port_stop_fault_timeout n =
     upd_port n (\<lambda>p. p\<lparr>p_fault_timeout_timer_info := ksz_stop_timer (p_fault_timeout_timer_info p)\<rparr>)"

end
