(* ===== verification/Tlv.thy ===== *)
theory Tlv
  imports Msginfo
begin

text \<open>
  The TLVs of a message in host order (\<^verbatim>\<open>ptp_protocol.c\<close>): adding and finding one,
  the path trace of Announce messages, the follow-up information.  A pointer
  into a message is the offset in it.
\<close>

subsection \<open>Identities\<close>

definition same_clock_id :: "byte_list \<Rightarrow> byte_list \<Rightarrow> bool" where
  "same_clock_id h n \<longleftrightarrow> memcmp h n = 0"

definition broadcast_clock_id :: "byte_list \<Rightarrow> bool" where
  "broadcast_clock_id n \<longleftrightarrow> memcmp n (replicate 8 0xFF) = 0"

text \<open>The second identity has its port in network order.\<close>

definition same_port_id_net :: "ptp_port_identity \<Rightarrow> ptp_port_identity \<Rightarrow> bool" where
  "same_port_id_net h n \<longleftrightarrow>
     memcmp (pi_clock h) (pi_clock n) = 0 \<and>
     unat (pi_port h) = le_val (rev (le_bytes 2 (unat (pi_port n))))"

subsection \<open>Adding and finding a TLV\<close>

definition ptp_add_tlv :: "nat \<Rightarrow> nat \<Rightarrow> nat \<Rightarrow> u16 \<Rightarrow> u16 \<Rightarrow> byte_list \<Rightarrow> (nat \<times> u16 \<times> byte_list) option" where
  "ptp_add_tlv tlv tlv_end type len sz m =
     do {
       m \<leftarrow> wro (tlv, 2) type m;
       (tlv_end, len, m) \<leftarrow>
         (if odd (unat len) then do { m \<leftarrow> wro (tlv_end, 1) 0 m; Some (tlv_end + 1, len + 1, m) }
          else Some (tlv_end, len, m));
       let sz = sz + len;
       m \<leftarrow> wro (tlv + 2, 2) (unat (len - 4)) m;
       Some (tlv_end, sz, m) }"

text \<open>The size of the TLV at an offset, the 16-bit sum of the code.\<close>

definition size_at :: "nat \<Rightarrow> byte_list \<Rightarrow> u16" where
  "size_at k m = of_nat (rd (k + 2, 2) m) + 4"

text \<open>
  \<open>ptp_next_tlv\<close> gives the TLV with the new position and the bytes left; the
  outer \<open>None\<close> is a read outside the message.
\<close>

definition ptp_next_tlv :: "nat \<Rightarrow> u16 \<Rightarrow> byte_list \<Rightarrow> (nat option \<times> nat \<times> u16) option" where
  "ptp_next_tlv data left m =
     (if 4 \<le> left
      then if \<not> inb (data + 2, 2) m then None
           else (let len = size_at data m
                 in if left < len then Some (None, data, left)
                    else Some (Some data, data + unat len, left - len))
      else Some (None, data, left))"

text \<open>
  The loop of \<open>ptp_find_tlv\<close>.  \<open>Tlv_found\<close> has the TLV and the bytes left behind
  it, \<open>Tlv_short\<close> is the return when a TLV is longer than the message,
  \<open>Tlv_none\<close> the end of the loop with the value of \<open>*last\<close>, \<open>Tlv_bad\<close> a read
  outside the message.  A size that wraps to 0 keeps the loop where it is.
\<close>

datatype tlv_result = Tlv_found nat u16 | Tlv_short u16 | Tlv_none nat u16 | Tlv_bad

partial_function (option) ptp_find_tlv :: "nat \<Rightarrow> nat \<Rightarrow> u16 \<Rightarrow> byte_list \<Rightarrow> tlv_result option" where
  "ptp_find_tlv data type left m =
     (if 4 \<le> left
      then if \<not> inb (data, 4) m then Some Tlv_bad
           else if left < size_at data m then Some (Tlv_short left)
           else if rd (data, 2) m = type then Some (Tlv_found data (left - size_at data m))
           else ptp_find_tlv (data + unat (size_at data m)) type (left - size_at data m) m
      else Some (Tlv_none data left))"

lemmas [code] = ptp_find_tlv.simps

subsection \<open>The path trace\<close>

abbreviation (input) ANNOUNCE_SIZE :: nat where "ANNOUNCE_SIZE \<equiv> 64"

definition messageLength :: "byte_list \<Rightarrow> u16" where
  "messageLength m = of_nat (rd F_messageLength m)"

fun path_has :: "nat \<Rightarrow> byte_list \<Rightarrow> nat \<Rightarrow> byte_list \<Rightarrow> bool option" where
  "path_has 0 own k m = Some False"
| "path_has (Suc n) own k m =
     (if length m < k + 8 then None
      else if memcmp (get_bytes k 8 m) own = 0 then Some True
      else path_has n own (k + 8) m)"

definition check_path_trace :: "byte_list \<Rightarrow> byte_list \<Rightarrow> bool option" where
  "check_path_trace own m =
     (let len = messageLength m
      in if 64 < len
         then case ptp_find_tlv ANNOUNCE_SIZE TLV_PATH_TRACE (len - 64) m of
                None \<Rightarrow> None
              | Some Tlv_bad \<Rightarrow> None
              | Some (Tlv_found k left) \<Rightarrow> path_has (rd (k + 2, 2) m div 8) own (k + 4) m
              | Some _ \<Rightarrow> Some False
         else Some False)"

text \<open>
  Where the path trace goes: the TLV, the place of the new identity, the length
  before it, and the message without the old TLV.  \<open>None\<close> inside: nothing is
  added.
\<close>

definition path_trace_place :: "byte_list \<Rightarrow> (nat \<times> nat \<times> u16 \<times> byte_list) option option" where
  "path_trace_place m =
     (let len = messageLength m
      in if 64 < len
         then case ptp_find_tlv ANNOUNCE_SIZE TLV_PATH_TRACE (len - 64) m of
                None \<Rightarrow> None
              | Some Tlv_bad \<Rightarrow> None
              | Some (Tlv_found k left) \<Rightarrow>
                  (let cnt = rd (k + 2, 2) m div 8
                   in if cnt * 8 \<noteq> rd (k + 2, 2) m then Some None
                      else Some (Some (k, k + 4 + 8 * cnt, size_at k m,
                             wr F_messageLength (unat (messageLength m - size_at k m)) m)))
              | Some (Tlv_short left) \<Rightarrow> Some None
              | Some (Tlv_none e left) \<Rightarrow> if 2 < left then Some None else Some (Some (e, e + 4, 4, m))
         else Some (Some (ANNOUNCE_SIZE, ANNOUNCE_SIZE + 4, 4, m)))"

definition clock_add_path_trace :: "byte_list \<Rightarrow> byte_list \<Rightarrow> byte_list option" where
  "clock_add_path_trace own m =
     do {
       pl \<leftarrow> path_trace_place m;
       case pl of
         None \<Rightarrow> Some m
       | Some (tlv, idp, len, m) \<Rightarrow>
           if length m < idp + 8 then None
           else do {
             (_, sz, m) \<leftarrow> ptp_add_tlv tlv (idp + 8) TLV_PATH_TRACE (len + 8) (messageLength m)
               (put_bytes idp own m);
             wro F_messageLength (unat sz) m } }"

subsection \<open>The organization extension TLVs\<close>

definition ptp_set_org_ext_tlv :: "nat \<Rightarrow> u8 \<Rightarrow> byte_list \<Rightarrow> byte_list option" where
  "ptp_set_org_ext_tlv k sub m =
     (if length m < k + 10 then None else Some (put_bytes (k + 4) [0x00, 0x80, 0xC2, 0, 0, sub] m))"

definition clock_add_follow_up :: "byte_list \<Rightarrow> byte_list option" where
  "clock_add_follow_up m =
     (if length m < 76 then None
      else do {
        m \<leftarrow> ptp_set_org_ext_tlv 44 1 m;
        (_, sz, m) \<leftarrow> ptp_add_tlv 44 76 TLV_ORGANIZATION_EXTENSION 32 (messageLength m)
          (put_bytes 54 (replicate 22 0) m);
        wro F_messageLength (unat sz) m })"

text \<open>The follow-up information is looked up and then not used.\<close>

definition check_follow_up :: "byte_list \<Rightarrow> unit option" where
  "check_follow_up m =
     (let len = messageLength m
      in if 44 < len
         then case ptp_find_tlv 44 TLV_ORGANIZATION_EXTENSION (len - 44) m of
                None \<Rightarrow> None
              | Some Tlv_bad \<Rightarrow> None
              | Some (Tlv_found k left) \<Rightarrow>
                  if_read (match_at (k + 4) [0x00, 0x80, 0xC2, 0, 0, 1] m)
                    (if inb (k + 10, 4) m then Some () else None) (Some ())
              | Some _ \<Rightarrow> Some ()
         else Some ())"

end
