(* ===== verification/Tlv_props.thy ===== *)
theory Tlv_props
  imports Tlv
begin

text \<open>
  Looking up TLVs ends on a chain whose lengths do not wrap, and does not end on
  a TLV whose size wraps to 0; a clock finds itself in the path trace it has
  extended.
\<close>

subsection \<open>Chains of TLVs\<close>

text \<open>A chain: every TLV the walk meets has a length that does not wrap.\<close>

lemma size_at_tlv: "size_at k m = tlv_size (drop k m)"
  by (simp add: size_at_def tlv_size_def rd.simps add.commute)

lemma size_at_unat: "rd (k + 2, 2) m < 0xFFFC \<Longrightarrow> unat (size_at k m) = rd (k + 2, 2) m + 4"
  unfolding size_at_def by (simp add: unat_word_ariths unat_of_nat)

lemma unat_sub_le: "y \<le> x \<Longrightarrow> unat (x - y :: u16) = unat x - unat y"
  by (simp add: unat_sub word_le_nat_alt)

function chain :: "nat \<Rightarrow> u16 \<Rightarrow> byte_list \<Rightarrow> bool" where
  "chain k left m \<longleftrightarrow>
     (if 4 \<le> left
      then inb (k, 4) m \<and> rd (k + 2, 2) m < 0xFFFC \<and>
           (if rd (k + 2, 2) m < 0xFFFC \<and> size_at k m \<le> left
            then chain (k + unat (size_at k m)) (left - size_at k m) m else True)
      else True)"
  by pat_completeness auto
termination
  by (relation "measure (\<lambda>(k, left, m). unat left)")
    (auto simp: unat_sub_le size_at_unat word_le_nat_alt)

declare chain.simps [simp del]

lemma chain_found:
  "chain k left m \<Longrightarrow> \<exists>r. ptp_find_tlv k type left m = Some r \<and> r \<noteq> Tlv_bad"
proof (induction k left m rule: chain.induct)
  case (1 k left m)
  then show ?case
    by (subst ptp_find_tlv.simps) (subst (asm) (2) chain.simps, auto simp: not_less split: if_splits)
qed

text \<open>A TLV of another type with the length \<open>0xFFFC\<close> keeps the loop in place.\<close>

definition stuck :: "nat \<Rightarrow> nat \<Rightarrow> u16 \<Rightarrow> byte_list \<Rightarrow> bool" where
  "stuck k type left m \<longleftrightarrow>
     4 \<le> left \<and> inb (k, 4) m \<and> rd (k + 2, 2) m = 0xFFFC \<and> rd (k, 2) m \<noteq> type"

lemma find_not_stuck: "ptp_find_tlv k type left m = Some y \<Longrightarrow> \<not> stuck k type left m"
proof (erule ptp_find_tlv.raw_induct [where P = "\<lambda>k type left m y. \<not> stuck k type left m", rotated])
  fix find k type left m y
  assume IH: "\<And>k type left m y. find k type left m = Some y \<Longrightarrow> \<not> stuck k type left m"
    and eq: "(if 4 \<le> left
      then if \<not> inb (k, 4) m then Some Tlv_bad
           else if left < size_at k m then Some (Tlv_short left)
           else if rd (k, 2) m = type then Some (Tlv_found k (left - size_at k m))
           else find (k + unat (size_at k m)) type (left - size_at k m) m
      else Some (Tlv_none k left)) = Some y"
  show "\<not> stuck k type left m"
  proof
    assume s: "stuck k type left m"
    then have "size_at k m = 0" by (simp add: stuck_def size_at_def)
    then have "find k type left m = Some y" using eq s by (simp add: stuck_def)
    then show False using IH s by blast
  qed
qed

lemma find_stuck: "stuck k type left m \<Longrightarrow> ptp_find_tlv k type left m = None"
  by (metis find_not_stuck not_None_eq)

text \<open>What a result says: where the TLV is and how many bytes are behind it.\<close>

fun found_ok :: "nat \<Rightarrow> nat \<Rightarrow> u16 \<Rightarrow> byte_list \<Rightarrow> tlv_result \<Rightarrow> bool" where
  "found_ok k type left m (Tlv_found j r) \<longleftrightarrow>
     rd (j, 2) m = type \<and> inb (j, 4) m \<and> k \<le> j \<and> j + unat (size_at j m) + unat r = k + unat left"
| "found_ok k type left m (Tlv_none j r) \<longleftrightarrow> k \<le> j \<and> j + unat r = k + unat left \<and> r < 4"
| "found_ok k type left m (Tlv_short r) \<longleftrightarrow> 4 \<le> r"
| "found_ok k type left m Tlv_bad \<longleftrightarrow> True"

lemma found_ok_step:
  "found_ok (k + unat s) type (left - s) m y \<Longrightarrow> s \<le> left \<Longrightarrow> found_ok k type left m y"
  by (cases y) (auto simp: unat_sub_le word_le_nat_alt)

lemma find_sound: "ptp_find_tlv k type left m = Some y \<Longrightarrow> found_ok k type left m y"
proof (erule ptp_find_tlv.raw_induct [where P = "found_ok", rotated])
  fix find k type left m y
  assume IH: "\<And>k type left m y. find k type left m = Some y \<Longrightarrow> found_ok k type left m y"
    and eq: "(if 4 \<le> left
      then if \<not> inb (k, 4) m then Some Tlv_bad
           else if left < size_at k m then Some (Tlv_short left)
           else if rd (k, 2) m = type then Some (Tlv_found k (left - size_at k m))
           else find (k + unat (size_at k m)) type (left - size_at k m) m
      else Some (Tlv_none k left)) = Some y"
  show "found_ok k type left m y"
  proof (cases "4 \<le> left \<and> inb (k, 4) m \<and> \<not> left < size_at k m \<and> rd (k, 2) m \<noteq> type")
    case True
    then have "find (k + unat (size_at k m)) type (left - size_at k m) m = Some y" using eq by simp
    then show ?thesis using IH True found_ok_step by (metis not_less)
  next
    case False
    then show ?thesis using eq by (auto simp: not_le not_less unat_sub_le word_le_nat_alt word_less_nat_alt split: if_splits)
  qed
qed

subsection \<open>The walk does not depend on what is behind\<close>

lemma rd_same: "length m' = length m \<Longrightarrow> \<forall>i. j \<le> i \<and> i < j + n \<longrightarrow> m' ! i = m ! i \<Longrightarrow> rd (j, n) m' = rd (j, n) m"
proof -
  assume a: "length m' = length m" "\<forall>i. j \<le> i \<and> i < j + n \<longrightarrow> m' ! i = m ! i"
  have "take n (drop j m') = take n (drop j m)" using a by (intro nth_equalityI) auto
  then show ?thesis by (simp add: rd.simps)
qed

text \<open>
  A TLV is put where a walk through a chain stops: the walk with \<open>x\<close> bytes more
  finds it.
\<close>

lemma find_move:
  assumes "chain k left m"
    and "ptp_find_tlv k type left m = Some (Tlv_found e r) \<or> ptp_find_tlv k type left m = Some (Tlv_none e r)"
    and "length m' = length m" and "\<forall>i. k \<le> i \<and> i < e \<longrightarrow> m' ! i = m ! i"
    and "inb (e, 4) m'" and "rd (e, 2) m' = type" and "unat left + x < 65536"
    and "unat (size_at e m') + e \<le> k + unat left + x" and "4 \<le> unat left + x + k - e"
  shows "\<exists>r'. ptp_find_tlv k type (left + of_nat x) m' = Some (Tlv_found e r')"
  using assms
proof (induction k left m rule: chain.induct)
  case (1 k left m)
  have u: "unat (left + of_nat x) = unat left + x" using 1(8) by (simp add: unat_word_ariths unat_of_nat)
  show ?case
  proof (cases "k = e")
    case True
    have "4 \<le> left + of_nat x" "\<not> left + of_nat x < size_at k m'"
      using True 1(9,10) by (simp_all add: word_le_nat_alt word_less_nat_alt u)
    then show ?thesis using True 1(6,7) by (subst ptp_find_tlv.simps) simp
  next
    case False
    have s: "found_ok k type left m (Tlv_found e r) \<or> found_ok k type left m (Tlv_none e r)"
      using 1(3) find_sound by blast
    have l4: "4 \<le> left" using 1(3) False by (subst (asm) (1 2) ptp_find_tlv.simps) (auto split: if_splits)
    have c: "inb (k, 4) m" "rd (k + 2, 2) m < 0xFFFC" using 1(2) l4 by (subst (asm) chain.simps, simp)+
    have n: "\<not> left < size_at k m" "rd (k, 2) m \<noteq> type"
      and step: "ptp_find_tlv (k + unat (size_at k m)) type (left - size_at k m) m = Some (Tlv_found e r) \<or>
        ptp_find_tlv (k + unat (size_at k m)) type (left - size_at k m) m = Some (Tlv_none e r)"
      using 1(3) False l4 c(1) by (subst (asm) (1 2) ptp_find_tlv.simps, auto split: if_splits)+
    have c': "chain (k + unat (size_at k m)) (left - size_at k m) m"
      using 1(2) l4 c n(1) by (subst (asm) chain.simps) (simp add: not_less)
    have z: "unat (size_at k m) = rd (k + 2, 2) m + 4" by (rule size_at_unat [OF c(2)])
    have ke: "k + unat (size_at k m) \<le> e" using step find_sound found_ok.simps by (metis (no_types))
    have eq: "rd (k, 2) m' = rd (k, 2) m" "rd (k + 2, 2) m' = rd (k + 2, 2) m"
      using ke z 1(4,5) by (auto intro!: rd_same)
    have sz: "size_at k m' = size_at k m" using eq(2) by (simp add: size_at_def)
    have us: "unat (left - size_at k m) = unat left - unat (size_at k m)" "unat (size_at k m) \<le> unat left"
      using n(1) by (simp_all add: unat_sub_le not_less word_le_nat_alt)
    have "\<exists>r'. ptp_find_tlv (k + unat (size_at k m)) type (left - size_at k m + of_nat x) m' = Some (Tlv_found e r')"
      using 1(4-10) us ke c(2) l4 n(1) by (intro 1(1) [OF l4 _ c' step]) (auto simp: not_less)
    moreover have "left - size_at k m + of_nat x = left + of_nat x - size_at k m" by simp
    moreover have "4 \<le> left + of_nat x" "\<not> left + of_nat x < size_at k m"
      using l4 us(2) by (simp_all add: word_le_nat_alt word_less_nat_alt u)
    ultimately show ?thesis
      using c(1) n eq sz 1(4) by (subst ptp_find_tlv.simps) simp
  qed
qed

subsection \<open>The path trace\<close>

lemma wr_nth: "inb (k, n) m \<Longrightarrow> i < k \<or> k + n \<le> i \<Longrightarrow> i < length m \<Longrightarrow> wr (k, n) v m ! i = m ! i"
  by (auto simp: wr.simps nth_append)

lemma put_bytes_nth: "k + length bs \<le> length m \<Longrightarrow> i < k \<or> k + length bs \<le> i \<Longrightarrow> i < length m \<Longrightarrow> put_bytes k bs m ! i = m ! i"
  by (auto simp: put_bytes_def nth_append)

lemma put_bytes_length [simp]: "k + length bs \<le> length m \<Longrightarrow> length (put_bytes k bs m) = length m"
  by (simp add: put_bytes_def)

lemma get_put_bytes: "k + length bs \<le> length m \<Longrightarrow> get_bytes k (length bs) (put_bytes k bs m) = bs"
  by (simp add: put_bytes_def get_bytes_def)

lemma get_bytes_same:
  "length m' = length m \<Longrightarrow> \<forall>i. k \<le> i \<and> i < k + n \<longrightarrow> m' ! i = m ! i \<Longrightarrow> get_bytes k n m' = get_bytes k n m"
  unfolding get_bytes_def by (intro nth_equalityI) auto

lemma path_has_iff:
  "k + 8 * n \<le> length m \<Longrightarrow>
   path_has n own k m = Some (\<exists>j < n. memcmp (get_bytes (k + 8 * j) 8 m) own = 0)"
proof (induction n arbitrary: k)
  case (Suc n)
  have "(\<exists>j < Suc n. memcmp (get_bytes (k + 8 * j) 8 m) own = 0) \<longleftrightarrow>
      memcmp (get_bytes k 8 m) own = 0 \<or> (\<exists>j < n. memcmp (get_bytes (k + 8 + 8 * j) 8 m) own = 0)"
    by (simp add: Ex_less_Suc2 add.assoc)
  then show ?case using Suc by simp
qed simp

text \<open>
  The message after the identity is added behind \<open>cnt\<close> others, to the TLV at
  \<open>e\<close>, whatever the message length was before.
\<close>

definition traced :: "byte_list \<Rightarrow> nat \<Rightarrow> nat \<Rightarrow> nat \<Rightarrow> byte_list \<Rightarrow> byte_list" where
  "traced own e cnt len m =
     wr F_messageLength len (wr (e + 2, 2) (8 * cnt + 8) (wr (e, 2) TLV_PATH_TRACE (put_bytes (e + 4 + 8 * cnt) own m)))"

lemma traced_facts:
  assumes "length own = 8" and "64 \<le> e" and "e + 12 + 8 * cnt \<le> length m" and "8 * cnt + 8 < 65536" and "len < 65536"
  shows "length (traced own e cnt len m) = length m"
    and "i < length m \<Longrightarrow> (64 \<le> i \<and> i < e) \<or> (e + 4 \<le> i \<and> i < e + 4 + 8 * cnt) \<Longrightarrow> traced own e cnt len m ! i = m ! i"
    and "rd (e, 2) (traced own e cnt len m) = TLV_PATH_TRACE"
    and "rd (e + 2, 2) (traced own e cnt len m) = 8 * cnt + 8"
    and "rd F_messageLength (traced own e cnt len m) = len"
    and "get_bytes (e + 4 + 8 * cnt) 8 (traced own e cnt len m) = own"
proof -
  have l: "e + 4 + 8 * cnt + length own \<le> length m" using assms by simp
  show t: "length (traced own e cnt len m) = length m" using assms l by (simp add: traced_def)
  show "traced own e cnt len m ! i = m ! i"
    if "i < length m" "(64 \<le> i \<and> i < e) \<or> (e + 4 \<le> i \<and> i < e + 4 + 8 * cnt)"
    using that assms l by (auto simp: traced_def wr_nth put_bytes_nth)
  show "rd (e, 2) (traced own e cnt len m) = TLV_PATH_TRACE"
    "rd (e + 2, 2) (traced own e cnt len m) = 8 * cnt + 8"
    "rd F_messageLength (traced own e cnt len m) = len"
    using assms l by (simp_all add: traced_def)
  have "get_bytes (e + 4 + 8 * cnt) 8 (traced own e cnt len m) = get_bytes (e + 4 + 8 * cnt) 8 (put_bytes (e + 4 + 8 * cnt) own m)"
    using assms l t by (intro get_bytes_same) (auto simp: traced_def wr_nth)
  then show "get_bytes (e + 4 + 8 * cnt) 8 (traced own e cnt len m) = own"
    using get_put_bytes [OF l] assms(1) by simp
qed

lemma traced_checks:
  assumes "length own = 8" and "64 \<le> messageLength m" and "chain 64 (messageLength m - 64) m"
    and "ptp_find_tlv 64 TLV_PATH_TRACE (messageLength m - 64) m = Some (Tlv_found e r) \<or>
         ptp_find_tlv 64 TLV_PATH_TRACE (messageLength m - 64) m = Some (Tlv_none e r)"
    and "len = unat (messageLength m) + x" and "len < 65536" and "e + 12 + 8 * cnt \<le> len" and "len \<le> length m"
  shows "check_path_trace i (traced own e cnt len m) =
    Some ((\<exists>j < cnt. memcmp (get_bytes (e + 4 + 8 * j) 8 m) i = 0) \<or> memcmp own i = 0)"
proof -
  let ?m = "traced own e cnt len m"
  have e: "64 \<le> e" using find_sound assms(4) found_ok.simps by (metis (no_types))
  note f = traced_facts [OF assms(1) e, of cnt m len]
  have b: "e + 12 + 8 * cnt \<le> length m" "8 * cnt + 8 < 65536" using assms(6-8) by linarith+
  have L: "messageLength ?m = messageLength m + of_nat x"
    using f(5) [OF b assms(6)] assms(5) by (simp add: messageLength_def)
  have uL: "unat (messageLength m + of_nat x) = len" using assms(5,6) by (simp add: unat_word_ariths unat_of_nat)
  have sz: "unat (size_at e ?m) = 8 * cnt + 12"
    using f(4) [OF b assms(6)] assms(6,7) by (simp add: size_at_def unat_word_ariths unat_of_nat)
  have u64: "unat (messageLength m - 64) = unat (messageLength m) - 64"
    using unat_sub_le [OF assms(2)] by simp
  have g: "64 \<le> unat (messageLength m)" using assms(2) by (simp add: word_le_nat_alt)
  have "\<exists>r'. ptp_find_tlv 64 TLV_PATH_TRACE (messageLength m - 64 + of_nat x) ?m = Some (Tlv_found e r')"
    using f(1-3) [OF b assms(6)] assms(5-8) sz u64 g b by (intro find_move [OF assms(3,4)]) auto
  then obtain r' where r: "ptp_find_tlv 64 TLV_PATH_TRACE (messageLength m - 64 + of_nat x) ?m = Some (Tlv_found e r')" ..
  have d: "messageLength ?m - 64 = messageLength m - 64 + of_nat x" by (simp add: L)
  have "64 < messageLength ?m" using assms(6,7) e uL by (simp add: L word_less_nat_alt)
  then have "check_path_trace i ?m = path_has (Suc cnt) i (e + 4) ?m"
    using r f(4) [OF b assms(6)] by (simp add: check_path_trace_def Let_def d)
  also have "\<dots> = Some (\<exists>j < Suc cnt. memcmp (get_bytes (e + 4 + 8 * j) 8 ?m) i = 0)"
    using b f(1) [OF b assms(6)] by (intro path_has_iff) simp
  also have "(\<exists>j < Suc cnt. memcmp (get_bytes (e + 4 + 8 * j) 8 ?m) i = 0) \<longleftrightarrow>
      (\<exists>j < cnt. memcmp (get_bytes (e + 4 + 8 * j) 8 ?m) i = 0) \<or> memcmp own i = 0"
    using f(6) [OF b assms(6)] by (auto simp: less_Suc_eq)
  also have "(\<exists>j < cnt. memcmp (get_bytes (e + 4 + 8 * j) 8 ?m) i = 0) \<longleftrightarrow>
      (\<exists>j < cnt. memcmp (get_bytes (e + 4 + 8 * j) 8 m) i = 0)"
  proof (intro ex_cong conj_cong refl)
    fix j assume "j < cnt"
    then have "get_bytes (e + 4 + 8 * j) 8 ?m = get_bytes (e + 4 + 8 * j) 8 m"
      using f(1,2) [OF b assms(6)] b by (intro get_bytes_same) auto
    then show "(memcmp (get_bytes (e + 4 + 8 * j) 8 ?m) i = 0) = (memcmp (get_bytes (e + 4 + 8 * j) 8 m) i = 0)" by simp
  qed
  finally show ?thesis .
qed

lemma wr_nth_if:
  "inb (k, n) m \<Longrightarrow> i < length m \<Longrightarrow>
   wr (k, n) v m ! i = (if k \<le> i \<and> i < k + n then le_bytes n v ! (i - k) else m ! i)"
  by (auto simp: wr.simps nth_append min_def)

lemma put_bytes_nth_if:
  "k + length bs \<le> length m \<Longrightarrow> i < length m \<Longrightarrow>
   put_bytes k bs m ! i = (if k \<le> i \<and> i < k + length bs then bs ! (i - k) else m ! i)"
  by (auto simp: put_bytes_def nth_append min_def)

lemma traced_wr:
  assumes "length own = 8" and "64 \<le> e" and "e + 12 + 8 * cnt \<le> length m"
  shows "traced own e cnt len (wr F_messageLength v m) = traced own e cnt len m"
proof (rule nth_equalityI)
  show "length (traced own e cnt len (wr F_messageLength v m)) = length (traced own e cnt len m)"
    using assms by (simp add: traced_def)
  fix i assume "i < length (traced own e cnt len (wr F_messageLength v m))"
  then have "i < length m" using assms by (simp add: traced_def)
  then show "traced own e cnt len (wr F_messageLength v m) ! i = traced own e cnt len m ! i"
    using assms by (simp add: traced_def wr_nth_if put_bytes_nth_if)
qed

lemma messageLength_wr: "4 \<le> length m \<Longrightarrow> messageLength (wr F_messageLength (unat x) m) = x"
  using unsigned_less [of x, where 'a = nat] by (simp add: messageLength_def)

lemma add_traced:
  assumes "length own = 8" and "64 \<le> e" and "e + 12 + 8 * cnt \<le> length m" and "8 * cnt + 12 < 65536"
    and "unat lw = 4 + 8 * cnt"
  shows "(if length m < e + 4 + 8 * cnt + 8 then None
     else do {
       (_, sz, m) \<leftarrow> ptp_add_tlv e (e + 4 + 8 * cnt + 8) TLV_PATH_TRACE (lw + 8) ml
         (put_bytes (e + 4 + 8 * cnt) own m);
       wro F_messageLength (unat sz) m }) =
     Some (traced own e cnt (unat (ml + (lw + 8))) m)"
proof -
  have u: "unat (lw + 8) = 8 * cnt + 12" using assms(4,5) by (simp add: unat_word_ariths)
  have u': "unat (4 + lw) = 8 * cnt + 8" using assms(4,5) by (simp add: unat_word_ariths)
  show ?thesis
    unfolding ptp_add_tlv_def wro_def Let_def u traced_def using assms(1-3) by (simp add: u')
qed

lemma path_trace_self:
  assumes "length own = 8" and "64 \<le> messageLength m" and "chain 64 (messageLength m - 64) m"
    and "unat (messageLength m) + 12 < 65536" and "unat (messageLength m) + 12 \<le> length m"
    and "path_trace_place m \<noteq> Some None"
  shows "\<exists>m'. clock_add_path_trace own m = Some m' \<and> check_path_trace own m' = Some True \<and>
    (\<forall>i. check_path_trace i m = Some True \<longrightarrow> check_path_trace i m' = Some True)"
proof -
  let ?L = "messageLength m"
  have g: "64 \<le> unat ?L" using assms(2) by (simp add: word_le_nat_alt)
  have uL: "unat (?L - 64) = unat ?L - 64" using unat_sub_le [OF assms(2)] by simp
  obtain y where y: "ptp_find_tlv 64 TLV_PATH_TRACE (?L - 64) m = Some y" "y \<noteq> Tlv_bad"
    using chain_found [OF assms(3)] by blast
  have ok: "found_ok 64 TLV_PATH_TRACE (?L - 64) m y" by (rule find_sound [OF y(1)])
  have small: "y = Tlv_none 64 0" if "\<not> 64 < ?L"
  proof -
    have "?L = 64" using that assms(2) by simp
    then show ?thesis using y(1) by (subst (asm) ptp_find_tlv.simps) simp
  qed
  show ?thesis
  proof (cases y)
    case (Tlv_found e r)
    define cnt where "cnt = rd (e + 2, 2) m div 8"
    have big: "64 < ?L" using small Tlv_found by fastforce
    have c8: "8 * cnt = rd (e + 2, 2) m"
      using assms(6) big y(1) Tlv_found by (auto simp: path_trace_place_def Let_def cnt_def split: if_splits)
    have e: "64 \<le> e" "e + unat (size_at e m) + unat r = 64 + unat (?L - 64)" using ok Tlv_found by auto
    have "rd (e + 2, 2) m < 65536" using rd_less [of "e + 2" 2 m] by simp
    then have "rd (e + 2, 2) m < 0xFFFC" using c8 by presburger
    then have sz: "unat (size_at e m) = 4 + 8 * cnt" using size_at_unat [of e m] c8 by simp
    have room: "e + 4 + 8 * cnt \<le> unat ?L" using e uL g sz by linarith
    have m1: "messageLength (wr F_messageLength (unat (?L - size_at e m)) m) = ?L - size_at e m"
      using assms(5) by (simp add: messageLength_wr)
    have "unat (?L + 8) = unat ?L + 8" using assms(4) by (simp add: unat_word_ariths)
    moreover have "?L - size_at e m + (size_at e m + 8) = ?L + 8" by simp
    moreover have "clock_add_path_trace own m =
        Some (traced own e cnt (unat (?L - size_at e m + (size_at e m + 8))) (wr F_messageLength (unat (?L - size_at e m)) m))"
    proof -
      have "path_trace_place m = Some (Some (e, e + 4 + 8 * cnt, size_at e m, wr F_messageLength (unat (?L - size_at e m)) m))"
        using y(1) Tlv_found big c8 by (simp add: path_trace_place_def Let_def cnt_def)
      then show ?thesis
        unfolding clock_add_path_trace_def
        using add_traced [OF assms(1) e(1), of cnt "wr F_messageLength (unat (?L - size_at e m)) m" "size_at e m" "?L - size_at e m"]
          sz room assms(4,5) m1 by simp
    qed
    ultimately have add: "clock_add_path_trace own m = Some (traced own e cnt (unat ?L + 8) m)"
      using traced_wr [OF assms(1) e(1), of cnt m] room assms(5) by simp
    have chk: "check_path_trace i (traced own e cnt (unat ?L + 8) m) =
        Some ((\<exists>j < cnt. memcmp (get_bytes (e + 4 + 8 * j) 8 m) i = 0) \<or> memcmp own i = 0)" for i
      using y(1) Tlv_found room assms(4,5) by (intro traced_checks [OF assms(1-3), where x = 8]) auto
    have "check_path_trace i m = Some (\<exists>j < cnt. memcmp (get_bytes (e + 4 + 8 * j) 8 m) i = 0)" for i
      using y(1) Tlv_found big path_has_iff [of "e + 4" cnt m i] room assms(5)
      by (simp add: check_path_trace_def Let_def cnt_def)
    then show ?thesis using add chk by simp
  next
    case (Tlv_none e r)
    have e: "64 \<le> e" "e + unat r = unat ?L" using ok Tlv_none uL g by auto
    have pl: "path_trace_place m = Some (Some (e, e + 4, 4, m))"
    proof (cases "64 < ?L")
      case True
      then show ?thesis
        using y(1) Tlv_none assms(6) by (auto simp: path_trace_place_def Let_def split: if_splits)
    next
      case False
      then show ?thesis using small Tlv_none by (simp add: path_trace_place_def Let_def)
    qed
    have "unat (?L + 12) = unat ?L + 12" using assms(4) by (simp add: unat_word_ariths)
    then have add: "clock_add_path_trace own m = Some (traced own e 0 (unat ?L + 12) m)"
      unfolding clock_add_path_trace_def pl
      using add_traced [OF assms(1) e(1), of 0 m 4 ?L] e(2) assms(5) by simp
    have "check_path_trace own (traced own e 0 (unat ?L + 12) m) =
        Some ((\<exists>j < 0. memcmp (get_bytes (e + 4 + 8 * j) 8 m) own = 0) \<or> memcmp own own = 0)"
      using y(1) Tlv_none e assms(4,5) by (intro traced_checks [OF assms(1-3), where x = 12]) auto
    moreover have "check_path_trace i m = Some False" for i
      using y(1) Tlv_none by (simp add: check_path_trace_def Let_def)
    ultimately show ?thesis using add by simp
  qed (use ok y assms small in \<open>auto simp: path_trace_place_def Let_def split: if_splits\<close>)
qed

subsection \<open>An Announce that is never done with\<close>

text \<open>
  The first TLV has the length \<open>0xFFFD\<close>, so that its size wraps to 1 and the
  conversion of the next TLV, one byte further, swaps bytes of the first header.
  What is left there is the length \<open>0xFFFC\<close>.
\<close>

definition announce_head :: "u8 \<Rightarrow> byte_list" where
  "announce_head len =
     [0x1B, 2, 0, len, 0, 0, 0, 0, 0, 0, 0, 0, 0, 0, 0, 0, 0, 0, 0, 0, 1, 2, 3, 4, 5, 6, 7, 8, 0, 1, 0, 0, 0, 0,
      0, 0, 0, 0, 0, 0, 0, 0, 0, 0, 0, 0, 0, 0, 0, 0, 0, 0, 0, 0, 0, 0, 0, 0, 0, 0, 0, 0, 0, 0]"

definition bad_announce :: byte_list where
  "bad_announce = announce_head 76 @ [0xFC, 0, 0xFF, 0xFD, 0xFF, 0, 0, 4, 0, 0, 0, 0]"

definition bad_received :: byte_list where
  "bad_received =
     [0x1B, 2, 76, 0, 0, 0, 0, 0, 0, 0, 0, 0, 0, 0, 0, 0, 0, 0, 0, 0, 1, 2, 3, 4, 5, 6, 7, 8, 1, 0, 0, 0, 0, 0,
      0, 0, 0, 0, 0, 0, 0, 0, 0, 0, 0, 0, 0, 0, 0, 0, 0, 0, 0, 0, 0, 0, 0, 0, 0, 0, 0, 0, 0, 0] @
     [0, 0xFD, 0xFC, 0xFF, 0, 0xFF, 4, 0, 0, 0, 0, 0]"

lemmas evaluate = rd.simps swap.simps tlv_size_def tlv_body_rx_def messageType_def msg_part_rx_def msg_tail_def

lemma tlv_rx_third: "ptp_tlv_rx 8 [0xFF, 0, 0, 4, 0, 0, 0, 0] = Some [0, 0xFF, 4, 0, 0, 0, 0, 0]"
  by (subst ptp_tlv_rx.simps) (simp add: evaluate)

lemma tlv_rx_second:
  "ptp_tlv_rx 11 [0xFC, 0xFD, 0xFF, 0xFF, 0, 0, 4, 0, 0, 0, 0] = Some [0xFD, 0xFC, 0xFF, 0, 0xFF, 4, 0, 0, 0, 0, 0]"
proof -
  have e: "(- 65528 :: u16) = 8" by simp
  show ?thesis by (subst ptp_tlv_rx.simps) (simp add: evaluate tlv_rx_third [folded e])
qed

lemma tlv_rx_first:
  "ptp_tlv_rx 12 [0xFC, 0, 0xFF, 0xFD, 0xFF, 0, 0, 4, 0, 0, 0, 0] =
   Some [0, 0xFD, 0xFC, 0xFF, 0, 0xFF, 4, 0, 0, 0, 0, 0]"
proof -
  have e: "(- 65525 :: u16) = 11" by simp
  show ?thesis by (subst ptp_tlv_rx.simps) (simp add: evaluate tlv_rx_second [folded e])
qed

lemma bad_announce_rx: "ptp_msg_rx bad_announce = Some bad_received"
proof -
  have "ptp_hdr_rx bad_announce =
      Some ([0x1B, 2, 76, 0, 0, 0, 0, 0, 0, 0, 0, 0, 0, 0, 0, 0, 0, 0, 0, 0, 1, 2, 3, 4, 5, 6, 7, 8, 1, 0, 0, 0, 0, 0,
      0, 0, 0, 0, 0, 0, 0, 0, 0, 0, 0, 0, 0, 0, 0, 0, 0, 0, 0, 0, 0, 0, 0, 0, 0, 0, 0, 0, 0, 0] @
      [0xFC, 0, 0xFF, 0xFD, 0xFF, 0, 0, 4, 0, 0, 0, 0])"
    by (simp add: ptp_hdr_rx_def bad_announce_def announce_head_def evaluate)
  then show ?thesis unfolding ptp_msg_rx_def by (simp add: evaluate tlv_rx_first bad_received_def)
qed

lemma bad_announce_stuck: "stuck 64 TLV_PATH_TRACE (messageLength bad_received - 64) bad_received"
  by (simp add: stuck_def messageLength_def bad_received_def rd.simps)

end
