(* ===== verification/Template.thy ===== *)
theory Template
  imports State Tlv_props
begin

text \<open>
  The messages a clock builds (\<^verbatim>\<open>ptp_protocol.c\<close>, \<open>ptp_prep_hdr\<close> to
  \<open>ptp_init_signal\<close>; \<^verbatim>\<open>ptp_clock.c\<close>, \<open>clock_setup_ptp_msg\<close>, \<open>clock_new_msg\<close> and
  \<open>clock_get_msg\<close>): a template for each type, copied into a buffer when one is sent.
  A template is a \<open>struct ptp_msg\<close>, so that the stores are inside it.
\<close>

subsection \<open>Building a message\<close>

abbreviation (input) CTL_SYNC :: nat where "CTL_SYNC \<equiv> 0"
abbreviation (input) CTL_DELAY_REQ :: nat where "CTL_DELAY_REQ \<equiv> 1"
abbreviation (input) CTL_FOLLOW_UP :: nat where "CTL_FOLLOW_UP \<equiv> 2"
abbreviation (input) CTL_DELAY_RESP :: nat where "CTL_DELAY_RESP \<equiv> 3"
abbreviation (input) CTL_MANAGEMENT :: nat where "CTL_MANAGEMENT \<equiv> 4"
abbreviation (input) CTL_OTHER :: nat where "CTL_OTHER \<equiv> 5"

definition memset :: "nat \<Rightarrow> u8 \<Rightarrow> nat \<Rightarrow> byte_list \<Rightarrow> byte_list" where
  "memset k b n m = put_bytes k (replicate n b) m"

definition ptp_prep_hdr :: "u8 \<Rightarrow> nat \<Rightarrow> nat \<Rightarrow> u8 \<Rightarrow> nat \<Rightarrow> int \<Rightarrow> byte_list \<Rightarrow> byte_list \<Rightarrow> byte_list" where
  "ptp_prep_hdr transport message len domain ctrl interval cid m =
     (let m = memset 0 0 34 m;
          m = wr (0, 1) (message mod 16 + 16 * (unat transport mod 16)) m;
          m = wr (1, 1) 2 m;
          m = wr F_messageLength (len + 34) m;
          m = wr F_domainNumber (unat domain) m;
          m = wr (7, 1) 8 m;
          m = put_bytes 20 cid m;
          m = wr F_controlField ctrl m
      in wr F_logMessageInterval (nat (interval mod 256)) m)"

abbreviation prep :: "ptp_clock \<Rightarrow> nat \<Rightarrow> nat \<Rightarrow> nat \<Rightarrow> int \<Rightarrow> byte_list \<Rightarrow> byte_list" where
  "prep c message len ctrl interval \<equiv>
     ptp_prep_hdr (cm_specific (c_msgs c)) message len (cm_domain (c_msgs c)) ctrl interval (c_id c)"

definition ptp_init_announce :: "ptp_clock \<Rightarrow> byte_list \<Rightarrow> byte_list" where
  "ptp_init_announce c m =
     (let pds = c_pds c; q = pr_grandmasterClockQuality pds;
          m = prep c ANNOUNCE_MSG 30 CTL_OTHER (c_logAnnounceInterval c) m;
          m = (if cm_utc_offset (c_msgs c) \<noteq> 0 then set_bit_of 7 2 m else m);
          m = wr F_sourcePort (c_cnt c + 1) m;
          m = memset 34 0 10 m;
          m = wr (44, 2) (nat (cm_utc_offset (c_msgs c) mod 65536)) m;
          m = wr (46, 1) 0 m;
          m = wr (47, 1) (unat (pr_grandmasterPriority1 pds)) m;
          m = wr (48, 1) (unat (q_class q)) m;
          m = wr (49, 1) (unat (q_accuracy q)) m;
          m = wr (50, 2) (unat (q_variance q)) m;
          m = wr (52, 1) (unat (pr_grandmasterPriority2 pds)) m;
          m = put_bytes 53 (pr_grandmasterIdentity pds) m;
          m = wr (61, 2) 0 m
      in wr (63, 1) (unat (cm_time_source (c_msgs c))) m)"

definition ptp_init_sync :: "ptp_clock \<Rightarrow> byte_list \<Rightarrow> byte_list" where
  "ptp_init_sync c m =
     memset 34 0 10 (wr F_sourcePort (c_cnt c + 1) (prep c SYNC_MSG 10 CTL_SYNC (c_logSyncInterval c) m))"

definition ptp_init_follow_up :: "ptp_clock \<Rightarrow> byte_list \<Rightarrow> byte_list" where
  "ptp_init_follow_up c m =
     wr F_sourcePort (c_cnt c + 1) (prep c FOLLOW_UP_MSG 10 CTL_FOLLOW_UP (c_logSyncInterval c) m)"

definition ptp_init_delay_req :: "ptp_clock \<Rightarrow> byte_list \<Rightarrow> byte_list" where
  "ptp_init_delay_req c m = memset 34 0 10 (prep c DELAY_REQ_MSG 10 CTL_DELAY_REQ 0x7F m)"

definition ptp_init_delay_resp :: "ptp_clock \<Rightarrow> byte_list \<Rightarrow> byte_list" where
  "ptp_init_delay_resp c m =
     wr F_sourcePort (c_cnt c + 1) (prep c DELAY_RESP_MSG 20 CTL_DELAY_RESP 0 m)"

definition ptp_init_pdelay_req :: "ptp_clock \<Rightarrow> byte_list \<Rightarrow> byte_list" where
  "ptp_init_pdelay_req c m = memset 34 0 20 (prep c PDELAY_REQ_MSG 20 CTL_OTHER 0x7F m)"

definition ptp_init_manage :: "ptp_clock \<Rightarrow> byte_list \<Rightarrow> byte_list" where
  "ptp_init_manage c m =
     (let m = wr F_sourcePort (c_cnt c + 1) (prep c MANAGEMENT_MSG 27 CTL_MANAGEMENT 0x7F m);
          m = memset 34 0 14 m;
          m = memset 34 0xFF 10 m;
          m = wr (44, 1) 0 m;
          m = wr (45, 1) 0 m
      in memset 48 0 13 m)"

definition ptp_init_signal :: "ptp_clock \<Rightarrow> byte_list \<Rightarrow> byte_list" where
  "ptp_init_signal c m =
     memset 34 0xFF 10 (wr F_sourcePort (c_cnt c + 1) (prep c SIGNALING_MSG 10 CTL_OTHER 0x7F m))"

definition clock_setup_ptp_msg :: "world \<Rightarrow> world" where
  "clock_setup_ptp_msg w =
     (let c = w_clock w
      in upd_cmsgs (\<lambda>t. t\<lparr>
           cm_ann_template := ptp_init_announce c (cm_ann_template t),
           cm_sync_template := ptp_init_sync c (cm_sync_template t),
           cm_fup_template := ptp_init_follow_up c (cm_fup_template t),
           cm_delay_req_template := ptp_init_delay_req c (cm_delay_req_template t),
           cm_delay_resp_template := ptp_init_delay_resp c (cm_delay_resp_template t),
           cm_pdelay_req_template := ptp_init_pdelay_req c (cm_pdelay_req_template t),
           cm_manage_template := ptp_init_manage c (cm_manage_template t),
           cm_signal_template := ptp_init_signal c (cm_signal_template t)\<rparr>) w)"

subsection \<open>Copying a message\<close>

text \<open>\<open>memcpy\<close> of as many bytes as the length field of the source says.\<close>

definition copy_msg :: "byte_list \<Rightarrow> byte_list \<Rightarrow> byte_list option" where
  "copy_msg src m =
     (let n = rd F_messageLength src
      in if inb F_messageLength src \<and> n \<le> length src \<and> n \<le> length m then Some (take n src @ drop n m) else None)"

definition clock_get_msg :: "byte_list \<Rightarrow> byte_list \<Rightarrow> byte_list option" where
  "clock_get_msg msg m = copy_msg msg m"

fun template_of :: "clock_msgs \<Rightarrow> nat \<Rightarrow> byte_list option" where
  "template_of t type =
     (if type = ANNOUNCE_MSG then Some (cm_ann_template t)
      else if type = SYNC_MSG then Some (cm_sync_template t)
      else if type = FOLLOW_UP_MSG then Some (cm_fup_template t)
      else if type = DELAY_REQ_MSG then Some (cm_delay_req_template t)
      else if type = DELAY_RESP_MSG then Some (cm_delay_resp_template t)
      else if type = PDELAY_REQ_MSG \<or> type = PDELAY_RESP_MSG \<or> type = PDELAY_RESP_FOLLOW_UP_MSG
      then Some (cm_pdelay_req_template t)
      else if type = MANAGEMENT_MSG then Some (cm_manage_template t)
      else if type = SIGNALING_MSG then Some (cm_signal_template t)
      else None)"

definition clock_new_msg :: "ptp_clock \<Rightarrow> nat \<Rightarrow> byte_list \<Rightarrow> byte_list option" where
  "clock_new_msg c type m =
     do {
       temp \<leftarrow> template_of (c_msgs c) type;
       m \<leftarrow> copy_msg temp m;
       if type = PDELAY_RESP_MSG \<or> type = PDELAY_RESP_FOLLOW_UP_MSG
       then Some (wr (0, 1) (type mod 16 + 16 * transportSpecific m) m)
       else Some m }"

end
