(* ===== verification/Sync.thy ===== *)
theory Sync
  imports Port Template
begin

text \<open>
  \<^verbatim>\<open>ptp_sync.c\<close>: the times of the messages as scaled nanoseconds, the adjustment
  of the clock with each Sync, and the delay to the master or to the peer.
  \<open>None\<close> stands for an access through a dangling pointer and for the conversions
  of a double that C leaves undefined.
\<close>

subsection \<open>Times\<close>

definition ptp_timestamp_to_scaled :: "ptp_timestamp \<Rightarrow> ptu" where
  "ptp_timestamp_to_scaled t =
     \<lparr>u_sec = s64 (uint (ts_hi t) * 2 ^ 32 + uint (ts_lo t)), u_nsec = s64 (uint (ts_nsec t) * 2 ^ 16)\<rparr>"

definition ptp_utime_to_scaled :: "ptp_utime \<Rightarrow> ptu" where
  "ptp_utime_to_scaled t = \<lparr>u_sec = uint (ut_sec t), u_nsec = s64 (uint (ut_nsec t) * 2 ^ 16)\<rparr>"

definition ptp_correction_to_scaled :: "int \<Rightarrow> ptu" where
  "ptp_correction_to_scaled s = \<lparr>u_sec = s sdiv SCALED_NANOSEC_IN_SEC, u_nsec = s smod SCALED_NANOSEC_IN_SEC\<rparr>"

subsection \<open>Adjusting the clock\<close>

definition clock_set_freq :: "int \<Rightarrow> world \<Rightarrow> world" where
  "clock_set_freq freq = emit (E_adj_freq 0 0 freq NANOSEC_IN_SEC)"

text \<open>The receive time of a kept message, moved with the clock.\<close>

definition shift_rx :: "ptu \<Rightarrow> ptp_message \<Rightarrow> ptp_message" where
  "shift_rx offset m =
     (let u2 = ptu_sub (ptp_utime_to_scaled (m_rx m)) offset
      in m\<lparr>m_rx := \<lparr>ut_sec = of_int (s32 (u_sec u2)), ut_nsec = of_int (s32 (u_nsec u2 div 2 ^ 16))\<rparr>\<rparr>)"

definition on_msgs :: "(mstore \<Rightarrow> mstore option) \<Rightarrow> world \<Rightarrow> world option" where
  "on_msgs f w = do { st \<leftarrow> f (w_msgs w); Some (w\<lparr>w_msgs := st\<rparr>) }"

definition get_msg :: "nat \<Rightarrow> world \<Rightarrow> ptp_message option" where
  "get_msg a w = mh_msgs (st_heap (w_msgs w)) a"

abbreviation slot_of :: "slot \<Rightarrow> world \<Rightarrow> nat option" where
  "slot_of s w \<equiv> st_slot (w_msgs w) s"

definition clock_adj_freq :: "ptu \<Rightarrow> int \<Rightarrow> world \<Rightarrow> world option" where
  "clock_adj_freq offset freq w =
     (let sec = s32 (u_sec offset); nsec = s32 (u_nsec offset div 2 ^ 16);
          w = emit (E_adj_freq (s32 (- sec)) (s32 (- nsec)) freq NANOSEC_IN_SEC) w
      in if cfg_adj_rc (w_cfg w) \<noteq> 0 then Some w
         else do {
           let w = upd_clock (\<lambda>c. c\<lparr>c_servo := servo_adj_ingress (c_servo c) offset\<rparr>) w;
           w \<leftarrow> (case slot_of Last_sync w of
                   None \<Rightarrow> Some w
                 | Some a \<Rightarrow> on_msgs (on_heap (upd_msg a (shift_rx offset))) w);
           (case slot_of Base_sync w of
              None \<Rightarrow> Some w
            | Some b \<Rightarrow>
                do {
                  w \<leftarrow> (if slot_of Last_sync w \<noteq> Some b
                        then on_msgs (on_heap (upd_msg b (shift_rx offset))) w else Some w);
                  m \<leftarrow> get_msg b w;
                  Some (upd_cmsgs (\<lambda>c. c\<lparr>cm_last_sync_rx := m_rx m\<rparr>) w) }) })"

definition clock_adj :: "ptu \<Rightarrow> world \<Rightarrow> world" where
  "clock_adj offset w =
     (let sec = s32 (u_sec offset); nsec = s32 (u_nsec offset div 2 ^ 16);
          w = emit (E_adj_freq (s32 (- sec)) (s32 (- nsec)) 0 0) w
      in if cfg_adj_rc (w_cfg w) \<noteq> 0 then w
         else upd_clock (\<lambda>c. c\<lparr>c_servo := servo_adj_ingress (c_servo c) offset\<rparr>) w)"

definition upd_hinfo :: "(ptp_pdelay_info \<Rightarrow> ptp_pdelay_info) \<Rightarrow> world \<Rightarrow> world" where
  "upd_hinfo f = upd_port 0 (\<lambda>h. h\<lparr>p_pdelay_info := f (p_pdelay_info h)\<rparr>)"

abbreviation hinfo :: "world \<Rightarrow> ptp_pdelay_info" where
  "hinfo w \<equiv> p_pdelay_info (port 0 w)"

definition upd_hfilter :: "(ptp_filter \<Rightarrow> ptp_filter) \<Rightarrow> world \<Rightarrow> world" where
  "upd_hfilter f = upd_hinfo (\<lambda>i. i\<lparr>dl_filter := f (dl_filter i)\<rparr>)"

definition clock_path_delay :: "ptu \<Rightarrow> ptu \<Rightarrow> world \<Rightarrow> world option" where
  "clock_path_delay tx rx w =
     do {
       let f = filter_set_t3_t4 (dl_filter (hinfo w)) tx rx;
       (r, f) \<leftarrow> filter_update_delay f;
       let w = upd_hfilter (\<lambda>_. f) w;
       case r of
         Inl _ \<Rightarrow> Some w
       | Inr (delay, raw_delay) \<Rightarrow>
           (let w = upd_hinfo (\<lambda>i. i\<lparr>dl_delay := delay, dl_raw_delay := raw_delay\<rparr>) w;
                w = upd_clock (\<lambda>c. c\<lparr>c_cur := (c_cur c)\<lparr>cd_meanPathDelay := s64 (delay * 2 ^ 16)\<rparr>\<rparr>) w
            in if c_servo_state (w_clock w) = SERVO_LOCKING
               then (case filter_update_offset f of
                       Inl _ \<Rightarrow> Some w
                     | Inr offset \<Rightarrow>
                         (let w = upd_clock (\<lambda>c. c\<lparr>c_offset := offset\<rparr>) w;
                              w = clock_adj offset w;
                              w = upd_clock (\<lambda>c. c\<lparr>c_servo_state := SERVO_JUMP\<rparr>) w
                          in Some (upd_hfilter (\<lambda>f. filter_reset f False) w)))
               else Some w) }"

text \<open>
  The last part of \<open>clock_sync\<close>, once the servo has an adjustment; the delay of
  0 set without a delay mechanism converts exactly.
\<close>

definition clock_act :: "int \<Rightarrow> servo_state \<Rightarrow> world \<Rightarrow> (servo_state \<times> world) option" where
  "clock_act adj state w =
     do {
       let state = (if state = SERVO_JUMP \<and> \<not> f_delay_valid (dl_filter (hinfo w)) then SERVO_LOCKING else state);
       w \<leftarrow> (if state = SERVO_JUMP_LONG \<or> state = SERVO_JUMP
             then do {
               w \<leftarrow> clock_adj_freq (c_offset (w_clock w)) adj w;
               let w = upd_hfilter (\<lambda>f. filter_reset f True) w;
               if c_delay_mechanism (w_clock w) = DELAY_NONE
               then do { f \<leftarrow> filter_set_delay (dl_filter (hinfo w)) (Fin 0); Some (upd_hfilter (\<lambda>_. f) w) }
               else Some w }
             else if state = SERVO_LOCKING \<or> state = SERVO_LOCKED then Some (clock_set_freq adj w)
             else Some w);
       Some (state, upd_clock (\<lambda>c. c\<lparr>c_servo_state := state\<rparr>) w) }"

definition clock_sync :: "ptu \<Rightarrow> ptu \<Rightarrow> world \<Rightarrow> (servo_state \<times> world) option" where
  "clock_sync ingress origin w =
     (let state = c_servo_state (w_clock w);
          w = upd_hfilter (\<lambda>f. filter_set_t1_t2 f origin ingress) w
      in case filter_update_offset (dl_filter (hinfo w)) of
           Inl _ \<Rightarrow> Some (state, w)
         | Inr offset \<Rightarrow>
             do {
               let w = upd_clock (\<lambda>c. c\<lparr>c_offset := offset,
                     c_cur := (c_cur c)\<lparr>cd_offsetFromMaster := s64 (ptu_get_nsec offset * 2 ^ 16)\<rparr>\<rparr>) w;
               (rc, servo, adj, state) \<leftarrow> servo_sample (c_servo (w_clock w)) offset ingress 0 state;
               let w = upd_clock (\<lambda>c. c\<lparr>c_servo := servo\<rparr>) w;
               if rc \<noteq> 0 then Some (state, w) else clock_act adj state w })"

subsection \<open>A Sync at a port\<close>

definition upd_first_info :: "nat \<Rightarrow> (ptp_pdelay_info \<Rightarrow> ptp_pdelay_info) \<Rightarrow> world \<Rightarrow> world" where
  "upd_first_info n f =
     upd_port n (\<lambda>p. case p_multi_pdelay p of
       Some (i # is) \<Rightarrow> p\<lparr>p_multi_pdelay := Some (f i # is)\<rparr>
     | _ \<Rightarrow> p\<lparr>p_pdelay_info := f (p_pdelay_info p)\<rparr>)"

text \<open>The state change a servo state asks for; \<open>ptu_empty\<close> only tests, so that a jump keeps \<open>rx2\<close>.\<close>

definition port_synced :: "nat \<Rightarrow> servo_state \<Rightarrow> world \<Rightarrow> world" where
  "port_synced n state w =
     (case state of
        SERVO_JUMP_LONG \<Rightarrow>
          (let w = (if flag fl_gptp n w then w
                    else upd_first_info n (\<lambda>i. i\<lparr>dl_filter := filter_reset (dl_filter i) True\<rparr>) w)
           in if \<not> flag fl_gptp_auto n w
              then port_set_state n (port_event (w_clock w) (port n w) EVENT_CLOCK_UNSTABLE) w else w)
      | SERVO_JUMP \<Rightarrow>
          (if \<not> flag fl_gptp_auto n w
           then port_set_state n (port_event (w_clock w) (port n w) EVENT_CLOCK_UNSTABLE) w else w)
      | SERVO_LOCKED \<Rightarrow>
          (if p_state (port n w) \<noteq> PTP_S_SLAVE
           then port_set_state n (port_event (w_clock w) (port n w) EVENT_CLOCK_STABLE) w else w)
      | _ \<Rightarrow> w)"

definition report_synced :: "nat \<Rightarrow> world \<Rightarrow> world" where
  "report_synced n w =
     (let w = (if \<not> cflag cf_first_sync w
               then upd_cflags (\<lambda>f. f\<lparr>cf_first_sync := True, cf_report_sync := True\<rparr>) w else w)
      in if cflag cf_report_sync w
         then (if cfg_automotive_test (w_cfg w) \<and> flag fl_report_ready_done n w
               then upd_cflags (\<lambda>f. f\<lparr>cf_report_sync := False\<rparr>) (emit (E_aed_status (p_index (port n w)) True) w)
               else if \<not> cfg_automotive_test (w_cfg w) then upd_cflags (\<lambda>f. f\<lparr>cf_report_sync := False\<rparr>) w
               else w)
         else w)"

text \<open>The time a Sync left the master, with the corrections of the Sync and of its Follow_Up.\<close>

definition origin_time :: "ptp_timestamp \<Rightarrow> int \<Rightarrow> int \<Rightarrow> ptu" where
  "origin_time origin cor_sync cor_fup =
     (let c1 = ptp_correction_to_scaled cor_sync;
          c2 = (if cor_fup \<noteq> 0 then ptp_correction_to_scaled cor_fup else ptu_zero)
      in ptu_add (ptp_timestamp_to_scaled origin) (ptu_add c1 c2))"

definition port_sync :: "nat \<Rightarrow> ptp_utime \<Rightarrow> ptp_timestamp \<Rightarrow> int \<Rightarrow> int \<Rightarrow> world \<Rightarrow> world option" where
  "port_sync n ingress origin cor_sync cor_fup w =
     do {
       (state, w) \<leftarrow> clock_sync (ptp_utime_to_scaled ingress) (origin_time origin cor_sync cor_fup) w;
       Some (report_synced n (port_synced n state w)) }"

definition port_path_delay :: "nat \<Rightarrow> ptp_utime \<Rightarrow> ptp_timestamp \<Rightarrow> int \<Rightarrow> world \<Rightarrow> world option" where
  "port_path_delay n egress receive corr_resp w =
     clock_path_delay (ptp_utime_to_scaled egress)
       (ptu_sub (ptp_timestamp_to_scaled receive) (ptp_correction_to_scaled corr_resp)) w"

subsection \<open>The delay to the peer\<close>

definition port_calc_nrate :: "ptu \<Rightarrow> ptu \<Rightarrow> nrate_info \<Rightarrow> nrate_info" where
  "port_calc_nrate tx rx n =
     (if u_sec (nr_rx1 n) = 0 then n\<lparr>nr_rx1 := rx, nr_tx1 := tx, nr_rx2 := rx, nr_tx2 := tx\<rparr>
      else
        (let own_interval = ptu_sub rx (nr_rx2 n);
             other_interval = ptu_sub tx (nr_tx2 n);
             diff_nsec = ptu_get_nsec (ptu_sub own_interval other_interval);
             n = n\<lparr>nr_rx2 := rx, nr_tx2 := tx\<rparr>
         in if \<bar>diff_nsec\<bar> > NANOSEC_IN_SEC sdiv 16
            then n\<lparr>nr_rx1 := rx, nr_tx1 := tx, nr_ratio := Fin 1\<rparr>
            else
              (let other_interval = ptu_sub tx (nr_tx1 n);
                   own_interval = ptu_sub rx (nr_rx1 n)
               in n\<lparr>nr_ratio := ptu_div_ratio other_interval own_interval, nr_rx1 := rx, nr_tx1 := tx,
                    nr_ratio_valid := True\<rparr>)))"

definition port_assign_peer_delay :: "nat \<Rightarrow> ptp_pdelay_info \<Rightarrow> world \<Rightarrow> world" where
  "port_assign_peer_delay n info w =
     (let w = (if p_state (port n w) = PTP_S_UNCALIBRATED \<or> p_state (port n w) = PTP_S_SLAVE
               then clock_peer_delay info w else w)
      in upd_pds n (\<lambda>d. d\<lparr>pds_peerMeanPathDelay := s64 (dl_delay info * 2 ^ 16)\<rparr>) w)"

text \<open>
  A pointer to the delay of a port: \<open>None\<close> is \<open>pdelay_info\<close> of the port, \<open>Some i\<close>
  the entry \<open>i\<close> of \<open>multi_pdelay\<close>; the result \<open>None\<close> is an entry that is not there.
\<close>

definition get_info :: "nat option \<Rightarrow> ptp_port \<Rightarrow> ptp_pdelay_info option" where
  "get_info k p =
     (case k of
        None \<Rightarrow> Some (p_pdelay_info p)
      | Some i \<Rightarrow> (case p_multi_pdelay p of None \<Rightarrow> None | Some is \<Rightarrow> if i < length is then Some (is ! i) else None))"

definition put_info :: "nat option \<Rightarrow> ptp_pdelay_info \<Rightarrow> ptp_port \<Rightarrow> ptp_port" where
  "put_info k info p =
     (case k of
        None \<Rightarrow> p\<lparr>p_pdelay_info := info\<rparr>
      | Some i \<Rightarrow> p\<lparr>p_multi_pdelay := map_option (\<lambda>is. is[i := info]) (p_multi_pdelay p)\<rparr>)"

text \<open>The four times of a peer delay measurement; without Follow_Up they are in the egress time.\<close>

definition peer_times ::
  "ptp_utime \<Rightarrow> ptp_timestamp \<Rightarrow> int \<Rightarrow> (ptp_timestamp \<times> int) option \<Rightarrow> ptu \<times> ptu \<times> ptu" where
  "peer_times egress receive corr_resp transmit =
     (let c1 = ptp_correction_to_scaled corr_resp
      in case transmit of
           None \<Rightarrow>
             (let t3c = ptu_add ptu_zero (ptu_add c1 ptu_zero)
              in (ptu_zero, t3c, ptu_add t3c (ptp_utime_to_scaled egress)))
         | Some (t, corr_fup) \<Rightarrow>
             (let t3c = ptu_add (ptp_timestamp_to_scaled t) (ptu_add c1 (ptp_correction_to_scaled corr_fup))
              in (ptp_timestamp_to_scaled receive, t3c, ptu_add t3c ptu_zero)))"

definition port_peer_delay ::
  "nat \<Rightarrow> nat option \<Rightarrow> ptp_utime \<Rightarrow> ptp_utime \<Rightarrow> ptp_timestamp \<Rightarrow> int \<Rightarrow> (ptp_timestamp \<times> int) option \<Rightarrow>
   world \<Rightarrow> world option" where
  "port_peer_delay n k egress ingress receive corr_resp transmit w =
     do {
       info \<leftarrow> get_info k (port n w);
       let t1 = ptp_utime_to_scaled egress;
       let t4 = ptp_utime_to_scaled ingress;
       let (t2, t3c, c12) = peer_times egress receive corr_resp transmit;
       let info = info\<lparr>dl_nrate := port_calc_nrate c12 t4 (dl_nrate info)\<rparr>;
       let f = filter_set_clock_ratio (dl_filter info) (nr_ratio (dl_nrate info));
       let f = filter_set_t1_t2 (filter_set_t3_t4 f t1 t2) t3c t4;
       (r, f) \<leftarrow> filter_update_delay f;
       let info = info\<lparr>dl_filter := f\<rparr>;
       case r of
         Inl _ \<Rightarrow> Some (upd_port n (put_info k info) w)
       | Inr (delay, raw_delay) \<Rightarrow>
           (let info = info\<lparr>dl_delay := delay, dl_raw_delay := raw_delay\<rparr>;
                w = upd_port n (put_info k info) w;
                w = (if p_state (port n w) = PTP_S_UNCALIBRATED \<or> p_state (port n w) = PTP_S_SLAVE
                     then clock_peer_delay info w else w)
            in if (if p_multi_pdelay (port n w) = None then k \<noteq> None else k \<noteq> Some 0) then Some w
               else
                 (let w = upd_pds n (\<lambda>d. d\<lparr>pds_peerMeanPathDelay := s64 (delay * 2 ^ 16)\<rparr>) w;
                      w = emit (E_set_peer_delay (p_index (port n w)) (s32 (dl_delay (p_pdelay_info (port n w))))) w
                  in Some (upd_port n (port_check_capable (cfg_allowed_lost (w_cfg w))) w))) }"

end
