(* ===== verification/Send.thy ===== *)
theory Send
  imports Sync
begin

text \<open>
  Sending messages (\<^verbatim>\<open>ptp_protocol.c\<close>).  A message goes out either through the
  queue, in a buffer of its own (\<open>ptp_save_tx_msg\<close>), or at once, from the buffer of
  \<open>get_tx_msg\<close> (\<open>ptp_tx_msg\<close>).
\<close>

subsection \<open>Buffers\<close>

definition alloc_new :: "nat \<Rightarrow> world \<Rightarrow> (nat option \<times> world) option" where
  "alloc_new len w =
     do {
       (r, h) \<leftarrow> alloc_msg None len None (st_heap (w_msgs w));
       Some (r, w\<lparr>w_msgs := (w_msgs w)\<lparr>st_heap := h\<rparr>\<rparr>) }"

definition set_msg :: "nat \<Rightarrow> byte_list \<Rightarrow> world \<Rightarrow> world option" where
  "set_msg a b = on_msgs (on_heap (upd_msg a (\<lambda>m. m\<lparr>m_msg := b\<rparr>)))"

text \<open>The transport and VLAN of the clock, for every message sent.\<close>

definition ptp_tx_msg :: "byte_list \<Rightarrow> nat \<Rightarrow> u16 \<Rightarrow> u32 \<Rightarrow> u32 \<Rightarrow> byte_list option \<Rightarrow> world \<Rightarrow> world" where
  "ptp_tx_msg b index portmap sec nsec addr w =
     emit (E_tx_msg b index portmap 7 (cmsgs cm_transport w \<noteq> 0) (cmsgs cm_vid w) sec nsec addr) (w\<lparr>w_tx := b\<rparr>)"

definition save_tx :: "nat \<Rightarrow> nat \<Rightarrow> u16 \<Rightarrow> world \<Rightarrow> world option" where
  "save_tx a index portmap w =
     on_msgs (ptp_save_tx_msg a index portmap 7 (cmsgs cm_transport w \<noteq> 0) (cmsgs cm_vid w) 0 0) w"

text \<open>The byte order and the queue: the end of every function that sends through the queue.\<close>

definition finish_tx :: "nat \<Rightarrow> byte_list \<Rightarrow> nat \<Rightarrow> u16 \<Rightarrow> world \<Rightarrow> world option" where
  "finish_tx a b index portmap w =
     do { b \<leftarrow> ptp_msg_tx b; w \<leftarrow> set_msg a b w; save_tx a index portmap w }"

definition set_sequenceId :: "u16 \<Rightarrow> byte_list \<Rightarrow> byte_list" where
  "set_sequenceId s m = wr F_sequenceId (unat s) m"

definition set_sourcePort :: "u16 \<Rightarrow> byte_list \<Rightarrow> byte_list" where
  "set_sourcePort s m = wr F_sourcePort (unat s) m"

definition set_logMessageInterval :: "int \<Rightarrow> byte_list \<Rightarrow> byte_list" where
  "set_logMessageInterval i m = wr F_logMessageInterval (nat (i mod 256)) m"

definition set_correctionField :: "int \<Rightarrow> byte_list \<Rightarrow> byte_list" where
  "set_correctionField c m = wr F_correctionField (nat (c mod 2 ^ 64)) m"

text \<open>A new message of a type in an allocated buffer.\<close>

definition new_in :: "nat \<Rightarrow> nat \<Rightarrow> world \<Rightarrow> byte_list option" where
  "new_in a type w = do { m \<leftarrow> get_msg a w; clock_new_msg (w_clock w) type (m_msg m) }"

subsection \<open>Announce\<close>

definition port_tx_announce :: "nat \<Rightarrow> world \<Rightarrow> world option" where
  "port_tx_announce n w =
     (if p_state (port n w) \<noteq> PTP_S_MASTER then Some w
      else if \<not> port_capable (port n w) then Some w
      else do {
        (r, w) \<leftarrow> alloc_new 100 w;
        case r of
          None \<Rightarrow> Some w
        | Some a \<Rightarrow>
            do {
              b \<leftarrow> new_in a ANNOUNCE_MSG w;
              let b = set_sequenceId (pmsgs pm_seqid_ann n w) b;
              let w = upd_pmsgs n (\<lambda>m. m\<lparr>pm_seqid_ann := pm_seqid_ann m + 1\<rparr>) w;
              let b = (if \<not> flag fl_no_id_replace n w then set_sourcePort (p_id (port n w)) b else b);
              b \<leftarrow> (if flag fl_path_trace n w then clock_add_path_trace (c_id (w_clock w)) b else Some b);
              finish_tx a b (p_index (port n w)) (p_portmap (port n w)) w } })"

definition port_fwd_announce :: "nat \<Rightarrow> byte_list \<Rightarrow> world \<Rightarrow> world option" where
  "port_fwd_announce n m w =
     do {
       b \<leftarrow> clock_get_msg m (w_tx w);
       s \<leftarrow> rdo (61, 2) b;
       let b = wr (61, 2) (s + 1) b;
       b \<leftarrow> (if flag fl_path_trace n w then clock_add_path_trace (c_id (w_clock w)) b else Some b);
       b \<leftarrow> ptp_msg_tx b;
       Some (ptp_tx_msg b (p_index (port n w)) (p_portmap (port n w)) 0 0 None w) }"

subsection \<open>Sync and Follow_Up\<close>

text \<open>
  The divider of the Sync interval: the new count and whether this Sync is sent.
\<close>

definition sync_divider :: "u8 \<Rightarrow> u8 \<Rightarrow> u8 \<times> bool" where
  "sync_divider cnt mx =
     (if cnt \<noteq> 0 then (let cnt = cnt - 1; cnt = (if cnt = 0 then mx else cnt) in (cnt, cnt = mx)) else (cnt, True))"

definition upd_tx_sync :: "nat \<Rightarrow> (ptp_msg_info \<Rightarrow> ptp_msg_info) \<Rightarrow> world \<Rightarrow> world" where
  "upd_tx_sync n f = upd_pmsgs n (\<lambda>m. m\<lparr>pm_tx_sync := f (pm_tx_sync m)\<rparr>)"

definition port_fwd_sync :: "nat \<Rightarrow> byte_list \<Rightarrow> world \<Rightarrow> world option" where
  "port_fwd_sync n m w =
     (let (cnt, send) = sync_divider (p_cnt_sync_tx (port n w)) (p_max_sync_tx (port n w));
          w = upd_port n (\<lambda>p. p\<lparr>p_cnt_sync_tx := cnt\<rparr>) w
      in if \<not> send then Some w
         else do {
           b \<leftarrow> clock_get_msg m (w_tx w);
           let b = set_logMessageInterval (p_logSyncInterval (port n w)) (set_sourcePort (p_id (port n w)) b);
           i \<leftarrow> msg_info_save b None (pmsgs pm_tx_sync n w);
           let w = upd_tx_sync n (\<lambda>_. i) w;
           b \<leftarrow> ptp_msg_tx b;
           Some (ptp_tx_msg b (p_index (port n w)) (port_bit (p_index (port n w))) 0 0 None w) })"

definition port_fwd_fup :: "nat \<Rightarrow> byte_list \<Rightarrow> int \<Rightarrow> world \<Rightarrow> world option" where
  "port_fwd_fup n m residence w =
     do {
       b \<leftarrow> clock_get_msg m (w_tx w);
       let rx = s64 (correctionField b + residence);
       let b = set_correctionField rx b;
       let b = set_sourcePort (p_id (port n w)) (set_logMessageInterval (p_logSyncInterval (port n w)) b);
       let w = upd_tx_sync n msg_info_clear w;
       b \<leftarrow> ptp_msg_tx b;
       Some (ptp_tx_msg b (p_index (port n w)) (port_bit (p_index (port n w))) 0 0 None w) }"

definition sync_marked :: "nat \<Rightarrow> byte_list \<Rightarrow> world \<Rightarrow> byte_list" where
  "sync_marked n b w =
     (if \<not> flag fl_no_id_replace n w
      then set_logMessageInterval (p_logSyncInterval (port n w)) (set_sourcePort (p_id (port n w)) b) else b)"

definition port_tx_sync :: "nat \<Rightarrow> world \<Rightarrow> world option" where
  "port_tx_sync n w =
     (if p_state (port n w) \<noteq> PTP_S_MASTER then Some w
      else if \<not> port_capable (port n w) then Some w
      else
        (let (cnt, send) = (if p_index (port n w) \<noteq> 0
                            then sync_divider (p_cnt_sync_tx (port n w)) (p_max_sync_tx (port n w))
                            else (p_cnt_sync_tx (port n w), True));
             w = upd_port n (\<lambda>p. p\<lparr>p_cnt_sync_tx := cnt\<rparr>) w
         in if \<not> send then Some w
            else do {
              (r, w) \<leftarrow> alloc_new 100 w;
              case r of
                None \<Rightarrow> Some w
              | Some a \<Rightarrow>
                  do {
                    b \<leftarrow> new_in a SYNC_MSG w;
                    let b = set_sequenceId (pmsgs pm_seqid_sync n w) b;
                    let w = upd_pmsgs n (\<lambda>m. m\<lparr>pm_seqid_sync := pm_seqid_sync m + 1\<rparr>) w;
                    let b = sync_marked n b w;
                    (b, w) \<leftarrow>
                      (if flag fl_sync_two_step n w
                       then do {
                         let b = set_twoStepFlag b;
                         i \<leftarrow> msg_info_save b None (pmsgs pm_tx_sync n w);
                         Some (b, upd_tx_sync n (\<lambda>_. i) w) }
                       else Some (b, w));
                    w \<leftarrow> finish_tx a b (p_index (port n w)) (p_portmap (port n w)) w;
                    Some (if p_multi_pdelay (port n w) \<noteq> None
                          then upd_pmsgs n (\<lambda>m. m\<lparr>pm_last_tx_sync_jiffies := w_jiffies w\<rparr>) w else w) } }))"

definition port_tx_fup :: "nat \<Rightarrow> ptp_message \<Rightarrow> world \<Rightarrow> world option" where
  "port_tx_fup n m w =
     do {
       (r, w) \<leftarrow> alloc_new 100 w;
       case r of
         None \<Rightarrow> Some w
       | Some a \<Rightarrow>
           do {
             b \<leftarrow> new_in a FOLLOW_UP_MSG w;
             let b = sync_marked n (set_sequenceId (sequenceId (m_msg m)) b) w;
             b \<leftarrow> put_timestamp 34 (ptp_utime_to_timestamp 0 (m_rx m)) b;
             b \<leftarrow> (if flag fl_follow_up_tlv n w then clock_add_follow_up b else Some b);
             let w = upd_tx_sync n msg_info_clear w;
             finish_tx a b (p_index (port n w)) (port_bit (p_index (port n w))) w } }"

subsection \<open>Signaling\<close>

definition port_tx_signal :: "nat \<Rightarrow> ptp_port_identity option \<Rightarrow> byte_list \<Rightarrow> world \<Rightarrow> (byte_list \<times> world) option" where
  "port_tx_signal n i m w =
     do {
       b \<leftarrow> clock_new_msg (w_clock w) SIGNALING_MSG m;
       let b = set_sequenceId (pmsgs pm_seqid_signal n w) b;
       let w = upd_pmsgs n (\<lambda>m. m\<lparr>pm_seqid_signal := pm_seqid_signal m + 1\<rparr>) w;
       let b = (if \<not> flag fl_no_id_replace n w then set_sourcePort (p_id (port n w)) b else b);
       b \<leftarrow> (case i of None \<Rightarrow> Some b | Some i \<Rightarrow> put_port_id 34 i b);
       Some (b, w) }"

text \<open>The interval request TLV at offset 44.\<close>

definition signal_interval_tlv :: "int \<Rightarrow> int \<Rightarrow> int \<Rightarrow> byte_list \<Rightarrow> byte_list option" where
  "signal_interval_tlv delay sync ann b =
     do {
       b \<leftarrow> ptp_set_org_ext_tlv 44 2 b;
       if length b < 60 then None
       else do {
         let b = put_bytes 54 [of_int delay, of_int sync, of_int ann, 3, 0, 0] b;
         (_, sz, b) \<leftarrow> ptp_add_tlv 44 60 TLV_ORGANIZATION_EXTENSION 16 (messageLength b) b;
         wro F_messageLength (unat sz) b } }"

text \<open>\<open>a\<close> is the buffer the caller has allocated; without one the common buffer is sent at once.\<close>

definition port_tx_signal_interval :: "nat \<Rightarrow> int \<Rightarrow> int \<Rightarrow> int \<Rightarrow> nat option \<Rightarrow> world \<Rightarrow> world option" where
  "port_tx_signal_interval n delay sync ann a w =
     (case a of
        Some a \<Rightarrow>
          do {
            m \<leftarrow> get_msg a w;
            (b, w) \<leftarrow> port_tx_signal n None (m_msg m) w;
            b \<leftarrow> signal_interval_tlv delay sync ann b;
            finish_tx a b (p_index (port n w)) (port_bit (p_index (port n w))) w }
      | None \<Rightarrow>
          do {
            (b, w) \<leftarrow> port_tx_signal n None (w_tx w) w;
            b \<leftarrow> signal_interval_tlv delay sync ann b;
            b \<leftarrow> ptp_msg_tx b;
            Some (ptp_tx_msg b (p_index (port n w)) (port_bit (p_index (port n w))) 0 0 None w) })"

end
