(* ===== verification/Delay.thy ===== *)
theory Delay
  imports Send
begin

text \<open>
  The delay messages (\<^verbatim>\<open>ptp_protocol.c\<close>): Delay_Req and Delay_Resp to the master,
  Pdelay_Req and its responses to the peer, with the delay information that
  several responders share in a TLV.  A \<open>handle_\<close> function runs when a message
  arrives, its \<open>proc_\<close> function when it comes out of the queue.  \<open>a\<close> is the
  message's buffer.
\<close>

subsection \<open>The responses\<close>

abbreviation (input) MAX_PDELAY_RESP :: nat where "MAX_PDELAY_RESP \<equiv> 4"
abbreviation (input) MULT_RESP_FAULT_TIMEOUT :: int where "MULT_RESP_FAULT_TIMEOUT \<equiv> 300000"

text \<open>
  A pointer to the response of a peer and to its Follow_Up: \<open>None\<close> are
  \<open>rx_delay_resp\<close> and \<open>rx_pdelay_fup\<close>, \<open>Some i\<close> the entries \<open>i\<close> of \<open>multi_pdelay\<close>.
\<close>

definition get_entry :: "ptp_msg_info \<Rightarrow> ptp_msg_info list \<Rightarrow> nat option \<Rightarrow> ptp_msg_info option" where
  "get_entry i is k =
     (case k of None \<Rightarrow> Some i | Some j \<Rightarrow> if j < length is then Some (is ! j) else None)"

definition get_rsp :: "nat option \<Rightarrow> nat \<Rightarrow> world \<Rightarrow> ptp_msg_info option" where
  "get_rsp k n w = get_entry (pmsgs pm_rx_delay_resp n w) (pmsgs pm_multi_resp n w) k"

definition get_fup :: "nat option \<Rightarrow> nat \<Rightarrow> world \<Rightarrow> ptp_msg_info option" where
  "get_fup k n w = get_entry (pmsgs pm_rx_pdelay_fup n w) (pmsgs pm_multi_fup n w) k"

definition put_rsp :: "nat option \<Rightarrow> ptp_msg_info \<Rightarrow> nat \<Rightarrow> world \<Rightarrow> world" where
  "put_rsp k i n = upd_pmsgs n (\<lambda>m. case k of None \<Rightarrow> m\<lparr>pm_rx_delay_resp := i\<rparr>
     | Some j \<Rightarrow> m\<lparr>pm_multi_resp := (pm_multi_resp m)[j := i]\<rparr>)"

definition put_fup :: "nat option \<Rightarrow> ptp_msg_info \<Rightarrow> nat \<Rightarrow> world \<Rightarrow> world" where
  "put_fup k i n = upd_pmsgs n (\<lambda>m. case k of None \<Rightarrow> m\<lparr>pm_rx_pdelay_fup := i\<rparr>
     | Some j \<Rightarrow> m\<lparr>pm_multi_fup := (pm_multi_fup m)[j := i]\<rparr>)"

definition is_multi :: "nat \<Rightarrow> world \<Rightarrow> bool" where
  "is_multi n w \<longleftrightarrow> p_multi_pdelay (port n w) \<noteq> None"

definition upd_req :: "nat \<Rightarrow> (ptp_msg_info \<Rightarrow> ptp_msg_info) \<Rightarrow> world \<Rightarrow> world" where
  "upd_req n f = upd_pmsgs n (\<lambda>m. m\<lparr>pm_tx_delay_req := f (pm_tx_delay_req m)\<rparr>)"

text \<open>One turn of the loop of \<open>clear_pdelay_req\<close>: the identity of a responder is kept.\<close>

definition keep_id :: "ptp_msg_info \<Rightarrow> ptp_pdelay_info \<Rightarrow> ptp_pdelay_info" where
  "keep_id rsp info =
     (let info = info\<lparr>dl_id := (dl_id info)\<lparr>pi_port := 0\<rparr>\<rparr>
      in if mi_valid rsp then info\<lparr>dl_id := mi_id rsp\<rparr> else info)"

definition clear_pdelay_req :: "nat \<Rightarrow> world \<Rightarrow> world" where
  "clear_pdelay_req n w =
     upd_port n (\<lambda>p.
       let ms = p_msgs p; ms = ms\<lparr>pm_tx_delay_req := msg_info_clear (pm_tx_delay_req ms)\<rparr>
       in case p_multi_pdelay p of
            None \<Rightarrow> p\<lparr>p_msgs := ms\<lparr>pm_rx_delay_resp := msg_info_clear (pm_rx_delay_resp ms),
                                 pm_rx_pdelay_fup := msg_info_clear (pm_rx_pdelay_fup ms)\<rparr>\<rparr>
          | Some infos \<Rightarrow>
              p\<lparr>p_multi_pdelay := Some (map2 keep_id (pm_multi_resp ms) infos),
                p_msgs := ms\<lparr>pm_multi_resp := map msg_info_clear (pm_multi_resp ms),
                             pm_multi_fup := map msg_info_clear (pm_multi_fup ms)\<rparr>\<rparr>) w"

definition find_msg_info :: "ptp_msg_info list \<Rightarrow> ptp_port_identity \<Rightarrow> nat" where
  "find_msg_info is d =
     (case List.find (\<lambda>i. same_port_id (mi_id (is ! i)) d) [0..<length is] of
        Some i \<Rightarrow> i
      | None \<Rightarrow> (case List.find (\<lambda>i. \<not> mi_valid (is ! i)) [0..<length is] of Some i \<Rightarrow> i | None \<Rightarrow> length is))"

subsection \<open>The delays of the responders\<close>

definition put_peer :: "nat \<Rightarrow> ptp_pdelay_info \<Rightarrow> byte_list \<Rightarrow> byte_list option" where
  "put_peer k info b =
     do {
       b \<leftarrow> put_port_id k (dl_id info) b;
       b \<leftarrow> wro (k + 10, 4) (nat (dl_delay info mod 2 ^ 32)) b;
       r \<leftarrow> float_to_ratio (nr_ratio (dl_nrate info));
       wro (k + 14, 4) (nat (r mod 2 ^ 32)) b }"

fun put_peers :: "nat \<Rightarrow> ptp_pdelay_info list \<Rightarrow> byte_list \<Rightarrow> (nat \<times> byte_list) option" where
  "put_peers k [] b = Some (k, b)"
| "put_peers k (info # is) b =
     (if pi_port (dl_id info) = 0 then put_peers k is b
      else do { b \<leftarrow> put_peer k info b; put_peers (k + 18) is b })"

text \<open>The TLV is at offset 54, its entries start at 64.\<close>

definition port_add_peer_info :: "ptp_pdelay_info list \<Rightarrow> byte_list \<Rightarrow> byte_list option" where
  "port_add_peer_info infos b =
     (if length b < 64 then None
      else do {
        let b = put_bytes 58 [0x00, 0x10, 0xA1, 0, 0, 1] b;
        (k, b) \<leftarrow> put_peers 64 infos b;
        (_, sz, b) \<leftarrow> ptp_add_tlv 54 (k + 18) TLV_ORGANIZATION_EXTENSION (of_nat (k - 54)) (messageLength b) b;
        wro F_messageLength (unat sz) b })"

text \<open>The loop of \<open>check_peer_info\<close>: the number and the place of the entry of this port.\<close>

function find_peer :: "u32 \<Rightarrow> nat \<Rightarrow> nat \<Rightarrow> byte_list \<Rightarrow> u16 \<Rightarrow> byte_list \<Rightarrow> (nat \<times> nat) option option" where
  "find_peer i k cnt own pid m =
     (if 18 \<le> i
      then if length m < k + 10 then None
           else if memcmp (get_bytes k 8 m) own = 0 \<and> rd (k + 8, 2) m = unat pid
           then if length m < k + 18 then None else Some (Some (cnt, k))
           else find_peer (i - 18) (k + 18) (cnt + 1) own pid m
      else Some None)"
  by pat_completeness auto
termination
  by (relation "measure (\<lambda>(i, k, cnt, own, pid, m). unat i)") (auto simp: word_le_nat_alt unat_sub)

declare find_peer.simps [simp del]

text \<open>The MAC address of a port of a clock, with the carry as the code computes it.\<close>

fun mac_carry :: "nat \<Rightarrow> nat \<Rightarrow> byte_list \<Rightarrow> byte_list" where
  "mac_carry 0 num addr = addr"
| "mac_carry (Suc n) num addr =
     (if 255 < num \<and> 3 \<le> Suc n
      then (let addr = addr[Suc n := of_nat (num - 255)] in mac_carry n (unat (addr ! n) + 1) addr)
      else addr)"

definition peer_mac :: "byte_list \<Rightarrow> u16 \<Rightarrow> byte_list \<times> byte_list" where
  "peer_mac d pno =
     (let addr = take 3 d @ take 3 (drop 5 d);
          num = unat (addr ! 5) + unat pno
      in (addr, mac_carry 5 num (addr[5 := of_nat num])))"

definition set_peer :: "nat \<Rightarrow> nat \<Rightarrow> nat \<Rightarrow> byte_list \<Rightarrow> byte_list \<Rightarrow> world \<Rightarrow> world option" where
  "set_peer n cnt k m src w =
     do {
       let w = upd_port n (\<lambda>p. let info = p_pdelay_info p; d = int (rd (k + 10, 4) m)
         in p\<lparr>p_pdelay_info := info\<lparr>dl_delay := d, dl_raw_delay := d,
              dl_nrate := (dl_nrate info)\<lparr>nr_ratio := ratio_to_float (s32 (int (rd (k + 14, 4) m)))\<rparr>\<rparr>\<rparr>) w;
       let w = upd_pmsgs n (\<lambda>p. p\<lparr>pm_peer_index := of_nat cnt\<rparr>) w;
       s \<leftarrow> (if src = [] then None else Some (hd src));
       w \<leftarrow> (if s \<noteq> 0xFF
             then do {
               d \<leftarrow> get_port_id 20 m;
               let (addr, addr') = peer_mac (pi_clock d) (pi_port d);
               Some (upd_pmsgs n (\<lambda>p. p\<lparr>pm_peer_addr := (if memcmp addr' src \<noteq> 0 then addr[0 := 0xFF] else addr)\<rparr>) w) }
             else Some w);
       Some (port_assign_peer_delay n (p_pdelay_info (port n w)) w) }"

definition check_peer_info :: "nat \<Rightarrow> byte_list \<Rightarrow> byte_list \<Rightarrow> world \<Rightarrow> world option" where
  "check_peer_info n m src w =
     (let len = messageLength m
      in if 54 < len
         then case ptp_find_tlv 54 TLV_ORGANIZATION_EXTENSION (len - 54) m of
                None \<Rightarrow> None
              | Some Tlv_bad \<Rightarrow> None
              | Some (Tlv_found t left) \<Rightarrow>
                  if_read (match_at (t + 4) [0x00, 0x10, 0xA1] m)
                    (case find_peer (of_nat (rd (t + 2, 2) m) + 4 - 10) (t + 10) 1 (c_id (w_clock w)) (p_id (port n w)) m of
                       None \<Rightarrow> None
                     | Some None \<Rightarrow> Some w
                     | Some (Some (cnt, k)) \<Rightarrow> set_peer n cnt k m src w)
                    (Some w)
              | Some _ \<Rightarrow> Some w
         else Some w)"

subsection \<open>Requests\<close>

definition port_tx_delay_req :: "nat \<Rightarrow> world \<Rightarrow> world option" where
  "port_tx_delay_req n w =
     do {
       (r, w) \<leftarrow> alloc_new 100 w;
       case r of
         None \<Rightarrow> Some w
       | Some a \<Rightarrow>
           do {
             b \<leftarrow> new_in a DELAY_REQ_MSG w;
             let b = set_sequenceId (pmsgs pm_seqid_delay_req n w) b;
             let w = upd_pmsgs n (\<lambda>m. m\<lparr>pm_seqid_delay_req := pm_seqid_delay_req m + 1\<rparr>) w;
             let b = set_sourcePort (p_id (port n w)) b;
             i \<leftarrow> msg_info_save b None (pmsgs pm_tx_delay_req n w);
             let w = upd_req n (\<lambda>_. i) w;
             finish_tx a b (p_index (port n w)) (port_bit (p_index (port n w))) w } }"

text \<open>The bookkeeping of missing and of multiple responses before a request goes out.\<close>

definition count_responses :: "nat \<Rightarrow> world \<Rightarrow> world" where
  "count_responses n w =
     (let w = (if msg_info_valid (pmsgs pm_tx_delay_req n w) \<and> \<not> mi_resp (pmsgs pm_tx_delay_req n w)
               then upd_port n (\<lambda>p. port_check_capable (cfg_allowed_lost (w_cfg w))
                      ((if p_resp_missing p < 10 then p\<lparr>p_resp_missing := p_resp_missing p + 1\<rparr> else p)
                         \<lparr>p_flags := (p_flags p)\<lparr>fl_report_resp := True\<rparr>\<rparr>)) w
               else w);
          w = upd_pmsgs n (\<lambda>m. if pm_resp_cnt m \<le> 1 \<and> pm_mult_resp_cnt m \<noteq> 0
                 then m\<lparr>pm_mult_resp_cnt := pm_mult_resp_cnt m - 1\<rparr> else m) w;
          w = upd_pmsgs n (\<lambda>m. m\<lparr>pm_resp_cnt := 0, pm_resp_fup_cnt := 0\<rparr>) w;
          w = upd_pflags n (\<lambda>f. f\<lparr>fl_mult_resp := False\<rparr>) w
      in clear_pdelay_req n w)"

definition port_tx_pdelay_req :: "nat \<Rightarrow> world \<Rightarrow> world option" where
  "port_tx_pdelay_req n w =
     (if is_multi n w \<and> p_state (port n w) = PTP_S_MASTER \<and> port_capable (port n w) \<and>
         time_after_eq (pmsgs pm_last_tx_sync_jiffies n w + 2) (w_jiffies w)
      then Some (sched_delayed (W_delay_req n) 2 w)
      else
        do {
          let w = count_responses n w;
          (r, w) \<leftarrow> alloc_new 100 w;
          case r of
            None \<Rightarrow> Some w
          | Some a \<Rightarrow>
              do {
                b \<leftarrow> new_in a PDELAY_REQ_MSG w;
                let b = (if flag fl_gptp n w
                         then set_logMessageInterval (pds_logMinPdelayReqInterval (p_ds (port n w))) b else b);
                let b = set_sequenceId (pmsgs pm_seqid_delay_req n w) b;
                let w = upd_pmsgs n (\<lambda>m. m\<lparr>pm_seqid_delay_req := pm_seqid_delay_req m + 1\<rparr>) w;
                let b = set_sourcePort (p_id (port n w)) b;
                b \<leftarrow> (case p_multi_pdelay (port n w) of None \<Rightarrow> Some b | Some infos \<Rightarrow> port_add_peer_info infos b);
                i \<leftarrow> msg_info_save b None (pmsgs pm_tx_delay_req n w);
                let w = upd_req n (\<lambda>_. i) w;
                finish_tx a b (p_index (port n w)) (port_bit (p_index (port n w))) w } })"

subsection \<open>Delay_Req and Delay_Resp\<close>

definition save_rx :: "nat \<Rightarrow> world \<Rightarrow> world option" where
  "save_rx a = on_msgs (ptp_save_rx_msg a)"

text \<open>The clock has one domain; a message of another domain has no clock.\<close>

definition own_domain :: "byte_list \<Rightarrow> world \<Rightarrow> bool" where
  "own_domain m w \<longleftrightarrow> rd F_domainNumber m = unat (cmsgs cm_domain w)"

definition accept_slave_msg :: "nat \<Rightarrow> byte_list \<Rightarrow> bool \<Rightarrow> world \<Rightarrow> bool" where
  "accept_slave_msg n m chk w \<longleftrightarrow>
     own_domain m w \<and>
     (p_state (port n w) = PTP_S_UNCALIBRATED \<or> p_state (port n w) = PTP_S_SLAVE) \<and>
     \<not> (chk \<and> memcmp (c_best_id (w_clock w)) (get_bytes 20 8 m) \<noteq> 0)"

definition accept_seqid :: "int \<Rightarrow> byte_list \<Rightarrow> bool" where
  "accept_seqid seqid m =
     (if seqid > 0xffff then True
      else (let d = (int (unat (sequenceId m)) - seqid) mod 65536 in \<not> (d = 0 \<or> d > 0xFFF0)))"

definition port_tx_delay_resp :: "nat \<Rightarrow> ptp_message \<Rightarrow> world \<Rightarrow> world option" where
  "port_tx_delay_resp n m w =
     do {
       let req = m_msg m;
       b \<leftarrow> clock_new_msg (w_clock w) DELAY_RESP_MSG (w_tx w);
       let b = wr F_domainNumber (rd F_domainNumber req) b;
       let b = set_sequenceId (sequenceId req) b;
       let b = (if \<not> flag fl_no_id_replace n w then set_sourcePort (p_id (port n w)) b else b);
       let b = set_correctionField (correctionField req) b;
       b \<leftarrow> put_timestamp 34 (ptp_utime_to_timestamp 0 (m_rx m)) b;
       d \<leftarrow> get_port_id 20 req;
       b \<leftarrow> put_port_id 44 d b;
       b \<leftarrow> ptp_msg_tx b;
       Some (ptp_tx_msg b (p_index (port n w)) (port_bit (p_index (port n w))) 0 0 None w) }"

definition handle_delay_req :: "nat \<Rightarrow> nat \<Rightarrow> world \<Rightarrow> world option" where
  "handle_delay_req n a w =
     (if pds_delayMechanism (p_ds (port n w)) \<noteq> DELAY_E2E then Some w
      else if p_state (port n w) \<noteq> PTP_S_MASTER then Some w
      else save_rx a w)"

definition proc_delay_req :: "nat \<Rightarrow> ptp_message \<Rightarrow> world \<Rightarrow> world option" where
  "proc_delay_req = port_tx_delay_resp"

definition proc_delay_response :: "nat \<Rightarrow> world \<Rightarrow> world option" where
  "proc_delay_response n w =
     do {
       let rsp = pmsgs pm_rx_delay_resp n w;
       w \<leftarrow> port_path_delay n (mi_hw_time (pmsgs pm_tx_delay_req n w)) (mi_ptp_time rsp) (mi_correction rsp) w;
       Some (upd_pmsgs n (\<lambda>m. m\<lparr>pm_tx_delay_req := msg_info_clear (pm_tx_delay_req m),
               pm_rx_delay_resp := msg_info_clear (pm_rx_delay_resp m)\<rparr>) w) }"

definition handle_delay_resp :: "nat \<Rightarrow> nat \<Rightarrow> world \<Rightarrow> world option" where
  "handle_delay_resp n a w =
     do {
       m \<leftarrow> get_msg a w;
       let msg = m_msg m;
       let req = pmsgs pm_tx_delay_req n w;
       if \<not> msg_info_valid req then Some w
       else if \<not> accept_slave_msg n msg True w then Some w
       else do {
         d \<leftarrow> get_port_id 44 msg;
         if \<not> same_port_id d (mi_id req) then Some w
         else if sequenceId msg \<noteq> mi_seqid req then Some w
         else do {
           let i = logMessageInterval msg;
           let w = (if pds_logMinDelayReqInterval (p_ds (port n w)) \<noteq> i \<and> \<not> unicastFlag msg \<and> i > - 4 \<and> i < 8
                    then upd_pds n (\<lambda>d. d\<lparr>pds_logMinDelayReqInterval := i\<rparr>) w else w);
           rsp \<leftarrow> msg_info_save msg None (pmsgs pm_rx_delay_resp n w);
           let w = upd_pmsgs n (\<lambda>m. m\<lparr>pm_rx_delay_resp := rsp\<rparr>) w;
           if msg_info_ts_valid req then save_rx a w else Some w } } }"

definition proc_delay_resp :: "nat \<Rightarrow> world \<Rightarrow> world option" where
  "proc_delay_resp = proc_delay_response"

definition handle_delayed_delay_req :: "nat \<Rightarrow> nat \<Rightarrow> world \<Rightarrow> world option" where
  "handle_delayed_delay_req n a w =
     do {
       m \<leftarrow> get_msg a w;
       if \<not> msg_info_valid (pmsgs pm_tx_delay_req n w) then Some w
       else do {
         let w = upd_req n (\<lambda>r. r\<lparr>mi_hw_time := m_rx m\<rparr>) w;
         let rsp = pmsgs pm_rx_delay_resp n w;
         if msg_info_valid rsp \<and> mi_seqid rsp = mi_seqid (pmsgs pm_tx_delay_req n w) then save_rx a w else Some w } }"

definition proc_delayed_delay_req :: "nat \<Rightarrow> world \<Rightarrow> world option" where
  "proc_delayed_delay_req n w =
     (let rsp = pmsgs pm_rx_delay_resp n w
      in if msg_info_valid rsp \<and> mi_seqid rsp = mi_seqid (pmsgs pm_tx_delay_req n w)
         then proc_delay_response n w else Some w)"

subsection \<open>Pdelay_Req and its responses\<close>

definition peer_dest :: "nat \<Rightarrow> world \<Rightarrow> byte_list option" where
  "peer_dest n w =
     (if pmsgs pm_peer_index n w \<noteq> 0 \<and> pmsgs pm_peer_addr n w \<noteq> [] \<and> hd (pmsgs pm_peer_addr n w) \<noteq> 0xFF
      then Some (pmsgs pm_peer_addr n w) else None)"

definition port_tx_pdelay_resp :: "nat \<Rightarrow> ptp_message \<Rightarrow> world \<Rightarrow> world option" where
  "port_tx_pdelay_resp n m w =
     do {
       let req = m_msg m;
       b \<leftarrow> clock_new_msg (w_clock w) PDELAY_RESP_MSG (w_tx w);
       let b = wr F_domainNumber (rd F_domainNumber req) b;
       let b = set_sequenceId (sequenceId req) b;
       let b = set_sourcePort (p_id (port n w)) b;
       let b = set_correctionField (correctionField req) b;
       (b, sec, nsec) \<leftarrow>
         (if flag fl_p2p_two_step n w
          then do { b \<leftarrow> put_timestamp 34 (ptp_utime_to_timestamp 0 (m_rx m)) (set_twoStepFlag b); Some (b, 0, 0) }
          else Some (b, ut_sec (m_rx m), ut_nsec (m_rx m)));
       let b = (if peer_dest n w \<noteq> None then set_unicastFlag b else b);
       d \<leftarrow> get_port_id 20 req;
       b \<leftarrow> put_port_id 44 d b;
       i \<leftarrow> msg_info_save b None (pmsgs pm_tx_pdelay_resp n w);
       let w = upd_pmsgs n (\<lambda>m. m\<lparr>pm_tx_pdelay_resp := i\<rparr>) w;
       b \<leftarrow> ptp_msg_tx b;
       Some (ptp_tx_msg b (p_index (port n w)) (port_bit (p_index (port n w))) sec nsec (peer_dest n w) w) }"

definition handle_delayed_pdelay_resp :: "nat \<Rightarrow> nat \<Rightarrow> world \<Rightarrow> world option" where
  "handle_delayed_pdelay_resp n a w =
     do {
       m \<leftarrow> get_msg a w;
       let rsp = pmsgs pm_tx_pdelay_resp n w;
       if \<not> msg_info_valid rsp \<or> \<not> mi_two_step rsp \<or> mi_seqid rsp \<noteq> sequenceId (m_msg m) then Some w
       else save_rx a w }"

definition proc_delayed_pdelay_resp :: "nat \<Rightarrow> ptp_message \<Rightarrow> world \<Rightarrow> world option" where
  "proc_delayed_pdelay_resp n m w =
     do {
       let rsp = pmsgs pm_tx_pdelay_resp n w;
       b \<leftarrow> clock_new_msg (w_clock w) PDELAY_RESP_FOLLOW_UP_MSG (w_tx w);
       let b = wr F_domainNumber (unat (mi_domain rsp)) b;
       let b = set_sequenceId (mi_seqid rsp) b;
       let b = set_sourcePort (p_id (port n w)) b;
       b \<leftarrow> put_port_id 44 (mi_id rsp) b;
       let b = (if peer_dest n w \<noteq> None then set_unicastFlag b else b);
       b \<leftarrow> put_timestamp 34 (ptp_utime_to_timestamp 0 (m_rx m)) b;
       let w = upd_pmsgs n (\<lambda>m. m\<lparr>pm_tx_pdelay_resp := msg_info_clear (pm_tx_pdelay_resp m)\<rparr>) w;
       b \<leftarrow> ptp_msg_tx b;
       Some (ptp_tx_msg b (p_index (port n w)) (port_bit (p_index (port n w))) 0 0 (peer_dest n w) w) }"

definition handle_pdelay_req :: "nat \<Rightarrow> nat \<Rightarrow> world \<Rightarrow> world option" where
  "handle_pdelay_req n a w =
     (if pds_delayMechanism (p_ds (port n w)) \<noteq> DELAY_P2P then Some w
      else if flag fl_use_one_way_resp n w \<and>
              (p_state (port n w) = PTP_S_SLAVE \<or> p_state (port n w) = PTP_S_UNCALIBRATED) then Some w
      else do {
        m \<leftarrow> get_msg a w;
        w \<leftarrow> check_peer_info n (m_msg m) (m_src m) w;
        save_rx a w })"

definition remember_peer :: "nat \<Rightarrow> ptp_port_identity \<Rightarrow> world \<Rightarrow> world" where
  "remember_peer n d w =
     (if flag fl_as_capable_set n w then w
      else if flag fl_peer_valid n w \<and> \<not> flag fl_no_id_check n w
      then (if \<not> same_port_id d (pmsgs pm_peer_id n w) then upd_pflags n (\<lambda>f. f\<lparr>fl_peer_valid := False\<rparr>) w else w)
      else if \<not> flag fl_peer_valid n w
      then upd_pmsgs n (\<lambda>m. m\<lparr>pm_peer_id := d\<rparr>) (upd_pflags n (\<lambda>f. f\<lparr>fl_peer_valid := True\<rparr>) w)
      else w)"

definition proc_pdelay_req :: "nat \<Rightarrow> ptp_message \<Rightarrow> world \<Rightarrow> world option" where
  "proc_pdelay_req n m w =
     do {
       let w = upd_port n (\<lambda>p. if p_resp_missing p \<noteq> 0 \<and> p_cnt_delay_resp p = 0 then p\<lparr>p_cnt_delay_resp := 5\<rparr> else p) w;
       d \<leftarrow> get_port_id 20 (m_msg m);
       port_tx_pdelay_resp n m (remember_peer n d w) }"

definition proc_each_pdelay_response :: "nat \<Rightarrow> nat option \<Rightarrow> world \<Rightarrow> world option" where
  "proc_each_pdelay_response n k w =
     do {
       rsp \<leftarrow> get_rsp k n w;
       fup \<leftarrow> get_fup k n w;
       let transmit = (if mi_two_step rsp then Some (mi_ptp_time fup, mi_correction fup) else None);
       w \<leftarrow> port_peer_delay n k (mi_hw_time (pmsgs pm_tx_delay_req n w)) (mi_hw_time rsp) (mi_ptp_time rsp)
         (mi_correction rsp) transmit w;
       Some (put_fup k (fup\<lparr>mi_resp := True\<rparr>) n (put_rsp k (rsp\<lparr>mi_resp := True\<rparr>) n w)) }"

text \<open>
  The responses from \<open>i\<close> on, \<open>cnt\<close> of them; without \<open>multi_pdelay\<close> there is one.
\<close>

fun proc_responses :: "nat \<Rightarrow> nat \<Rightarrow> nat \<Rightarrow> world \<Rightarrow> world option" where
  "proc_responses n i 0 w = Some w"
| "proc_responses n i (Suc cnt) w =
     do {
       let k = (if is_multi n w then Some i else None);
       rsp \<leftarrow> get_rsp k n w;
       fup \<leftarrow> get_fup k n w;
       w \<leftarrow> (if mi_valid rsp \<and> \<not> mi_resp rsp \<and> (\<not> mi_two_step rsp \<or> mi_valid fup \<and> \<not> mi_resp fup)
             then proc_each_pdelay_response n k w else Some w);
       proc_responses n (Suc i) cnt w }"

definition proc_pdelay_response :: "nat \<Rightarrow> nat \<Rightarrow> world \<Rightarrow> world option" where
  "proc_pdelay_response n k w =
     do {
       w \<leftarrow> (if k < 8 then proc_responses n k 1 w else proc_responses n 0 k w);
       let w = upd_port n (\<lambda>p. if \<not> mi_resp (pm_tx_delay_req (p_msgs p)) \<and> p_cnt_delay_resp p > 0
                 then p\<lparr>p_cnt_delay_resp := p_cnt_delay_resp p - 1\<rparr> else p) w;
       let w = upd_req n (\<lambda>r. r\<lparr>mi_resp := True\<rparr>) w;
       let w = upd_port n (\<lambda>p. p\<lparr>p_resp_missing := 0,
                 p_flags := (p_flags p)\<lparr>fl_report_resp := False, fl_peer_resp := True\<rparr>\<rparr>) w;
       Some (upd_port n (port_check_capable (cfg_allowed_lost (w_cfg w))) w) }"

text \<open>Counting a second response to the same request; \<open>True\<close>: too many, the port is set faulty.\<close>

definition mult_resp_check :: "nat \<Rightarrow> (port_msgs \<Rightarrow> port_msgs) \<Rightarrow> (port_msgs \<Rightarrow> bool) \<Rightarrow> world \<Rightarrow> bool \<times> world" where
  "mult_resp_check n incr limit w =
     (let w = (if \<not> flag fl_allow_multi_resp n w then upd_pflags n (\<lambda>f. f\<lparr>fl_mult_resp := True\<rparr>) w else w);
          w = upd_port n (port_check_capable (cfg_allowed_lost (w_cfg w))) w
      in if flag fl_mult_resp n w
         then (let w = upd_pmsgs n incr w
               in if limit (p_msgs (port n w))
                  then (True, port_set_fault_timeout n 1 MULT_RESP_FAULT_TIMEOUT
                          (upd_pmsgs n (\<lambda>m. m\<lparr>pm_mult_resp_cnt := 0, pm_mult_resp_fup_cnt := 0\<rparr>) w))
                  else (False, w))
         else (False, w))"

definition handle_pdelay_resp :: "nat \<Rightarrow> nat \<Rightarrow> world \<Rightarrow> world option" where
  "handle_pdelay_resp n a w =
     do {
       m \<leftarrow> get_msg a w;
       let msg = m_msg m;
       let req = pmsgs pm_tx_delay_req n w;
       if \<not> msg_info_valid req then Some w
       else do {
         d \<leftarrow> get_port_id 44 msg;
         src \<leftarrow> get_port_id 20 msg;
         if \<not> same_port_id d (mi_id req) then Some w
         else if sequenceId msg \<noteq> mi_seqid req then Some w
         else do {
           let i = find_msg_info (pmsgs pm_multi_resp n w) src;
           let k = (if is_multi n w then Some i else None);
           if is_multi n w \<and> i = MAX_PDELAY_RESP then Some w
           else do {
             let w = upd_pmsgs n (\<lambda>m. m\<lparr>pm_resp_cnt := pm_resp_cnt m + 1\<rparr>) w;
             let (stop, w) = (if pmsgs pm_resp_cnt n w > 1
                    then mult_resp_check n (\<lambda>m. m\<lparr>pm_mult_resp_cnt := pm_mult_resp_cnt m + 1\<rparr>)
                           (\<lambda>m. pm_mult_resp_cnt m \<ge> cfg_allowed_faults (w_cfg w)) w
                    else (False, w));
             if stop then Some w
             else do {
               rsp \<leftarrow> get_rsp k n w;
               rsp \<leftarrow> msg_info_save msg (Some (m_rx m)) rsp;
               let w = put_rsp k rsp n w;
               if \<not> msg_info_ts_valid (pmsgs pm_tx_delay_req n w) then Some w
               else if \<not> twoStepFlag msg then save_rx a w
               else Some w } } } } }"

definition proc_pdelay_resp :: "nat \<Rightarrow> ptp_message \<Rightarrow> world \<Rightarrow> world option" where
  "proc_pdelay_resp n m w =
     (if \<not> msg_info_ts_valid (pmsgs pm_tx_delay_req n w) then Some w
      else if \<not> twoStepFlag (m_msg m)
      then do {
        src \<leftarrow> get_port_id 20 (m_msg m);
        proc_pdelay_response n (if is_multi n w then find_msg_info (pmsgs pm_multi_resp n w) src else 0) w }
      else Some w)"

definition handle_pdelay_resp_fup :: "nat \<Rightarrow> nat \<Rightarrow> world \<Rightarrow> world option" where
  "handle_pdelay_resp_fup n a w =
     do {
       m \<leftarrow> get_msg a w;
       let msg = m_msg m;
       let req = pmsgs pm_tx_delay_req n w;
       if \<not> msg_info_valid req then Some w
       else do {
         d \<leftarrow> get_port_id 44 msg;
         src \<leftarrow> get_port_id 20 msg;
         if \<not> same_port_id d (mi_id req) then Some w
         else if sequenceId msg \<noteq> mi_seqid req then Some w
         else do {
           let i = find_msg_info (pmsgs pm_multi_resp n w) src;
           let k = (if is_multi n w then Some i else None);
           if is_multi n w \<and> i = MAX_PDELAY_RESP then Some w
           else do {
             rsp \<leftarrow> get_rsp k n w;
             if \<not> same_port_id src (mi_id rsp) then Some w
             else do {
               let w = upd_pmsgs n (\<lambda>m. m\<lparr>pm_resp_fup_cnt := pm_resp_fup_cnt m + 1\<rparr>) w;
               let (stop, w) = (if pmsgs pm_resp_fup_cnt n w > 1
                      then mult_resp_check n (\<lambda>m. m\<lparr>pm_mult_resp_fup_cnt := pm_mult_resp_fup_cnt m + 1\<rparr>)
                             (\<lambda>m. pm_mult_resp_fup_cnt m \<ge> 3) w
                      else (False, upd_pmsgs n (\<lambda>m. if pm_mult_resp_fup_cnt m \<noteq> 0
                             then m\<lparr>pm_mult_resp_fup_cnt := pm_mult_resp_fup_cnt m - 1\<rparr> else m) w));
               if stop then Some w
               else do {
                 fup \<leftarrow> get_fup k n w;
                 fup \<leftarrow> msg_info_save msg None fup;
                 let w = put_fup k fup n w;
                 rsp \<leftarrow> get_rsp k n w;
                 if \<not> msg_info_ts_valid (pmsgs pm_tx_delay_req n w) then Some w
                 else if msg_info_valid rsp then save_rx a w
                 else Some w } } } } } }"

definition proc_pdelay_resp_fup :: "nat \<Rightarrow> ptp_message \<Rightarrow> world \<Rightarrow> world option" where
  "proc_pdelay_resp_fup n m w =
     (if \<not> msg_info_ts_valid (pmsgs pm_tx_delay_req n w) then Some w
      else do {
        src \<leftarrow> get_port_id 20 (m_msg m);
        let i = (if is_multi n w then find_msg_info (pmsgs pm_multi_fup n w) src else 0);
        rsp \<leftarrow> get_rsp (if is_multi n w then Some i else None) n w;
        if msg_info_valid rsp then proc_pdelay_response n i w else Some w })"

text \<open>The test both functions for a sent Pdelay_Req make: its response is complete.\<close>

definition response_complete :: "nat \<Rightarrow> world \<Rightarrow> bool option" where
  "response_complete n w =
     do {
       let k = (if is_multi n w then Some 0 else None);
       rsp \<leftarrow> get_rsp k n w;
       fup \<leftarrow> get_fup k n w;
       Some (msg_info_valid rsp \<and> mi_seqid rsp = mi_seqid (pmsgs pm_tx_delay_req n w) \<and>
             (\<not> mi_two_step rsp \<or> msg_info_valid fup)) }"

definition handle_delayed_pdelay_req :: "nat \<Rightarrow> nat \<Rightarrow> world \<Rightarrow> world option" where
  "handle_delayed_pdelay_req n a w =
     do {
       m \<leftarrow> get_msg a w;
       if \<not> msg_info_valid (pmsgs pm_tx_delay_req n w) then Some w
       else do {
         let w = upd_req n (\<lambda>r. r\<lparr>mi_hw_time := m_rx m\<rparr>) w;
         ok \<leftarrow> response_complete n w;
         if ok then save_rx a w else Some w } }"

definition proc_delayed_pdelay_req :: "nat \<Rightarrow> world \<Rightarrow> world option" where
  "proc_delayed_pdelay_req n w =
     do {
       ok \<leftarrow> response_complete n w;
       if ok then proc_pdelay_response n (if is_multi n w then MAX_PDELAY_RESP else 0) w else Some w }"

end
