(* ===== verification/Forward.thy ===== *)
theory Forward
  imports Delay
begin

text \<open>
  Forwarding in a gPTP bridge (\<^verbatim>\<open>ptp_forward.c\<close>): the Sync, Follow_Up and Announce
  of the slave port are kept and sent on from the master ports, with the time
  they spent in the bridge added to the correction.  The pointers are the slots
  of \<open>w_msgs\<close>.
\<close>

abbreviation (input) MAX_ALLOWED_CORRECTION_SEC :: int where "MAX_ALLOWED_CORRECTION_SEC \<equiv> 28800"

definition save_slot :: "slot \<Rightarrow> nat \<Rightarrow> world \<Rightarrow> world option" where
  "save_slot s a = on_msgs (msg_save s a)"

definition clear_slot :: "slot \<Rightarrow> world \<Rightarrow> world option" where
  "clear_slot s = on_msgs (msg_clear s)"

text \<open>The message a slot points to; a null pointer is \<open>None\<close>.\<close>

definition slot_msg :: "slot \<Rightarrow> world \<Rightarrow> (nat \<times> ptp_message) option" where
  "slot_msg s w = do { a \<leftarrow> slot_of s w; m \<leftarrow> get_msg a w; Some (a, m) }"

definition upd_slot :: "slot \<Rightarrow> (byte_list \<Rightarrow> byte_list) \<Rightarrow> world \<Rightarrow> world option" where
  "upd_slot s f w = do { (a, m) \<leftarrow> slot_msg s w; set_msg a (f (m_msg m)) w }"

subsection \<open>Residence\<close>

definition next_seqid :: "byte_list \<Rightarrow> byte_list" where
  "next_seqid m = set_sequenceId (sequenceId m + 1) m"

text \<open>A later second of the timestamp at offset 34 (the low word is at 36).\<close>

definition add_seconds :: "int \<Rightarrow> byte_list \<Rightarrow> byte_list" where
  "add_seconds s m = wr (36, 4) (nat ((int (rd (36, 4) m) + s) mod 2 ^ 32)) m"

definition refresh_kept :: "world \<Rightarrow> world option" where
  "refresh_kept w =
     do {
       w \<leftarrow> (if slot_of Last_sync w \<noteq> slot_of Base_sync w
             then do { a \<leftarrow> slot_of Base_sync w; save_slot Last_sync a w } else Some w);
       if slot_of Last_fup w \<noteq> slot_of Base_fup w
       then do {
         (_, m) \<leftarrow> slot_msg Base_sync w;
         let w = upd_cmsgs (\<lambda>c. c\<lparr>cm_last_sync_rx := m_rx m\<rparr>) w;
         b \<leftarrow> slot_of Base_fup w;
         w \<leftarrow> save_slot Last_fup b w;
         save_slot Last_rx_fup b w }
       else Some w }"

definition ptp_check_residence :: "world \<Rightarrow> world option" where
  "ptp_check_residence w =
     do {
       let residence = cmsgs cm_residence w;
       w \<leftarrow> refresh_kept w;
       w \<leftarrow> (if s64 (residence + 120000000) sdiv NANOSEC_IN_SEC \<ge> MAX_ALLOWED_CORRECTION_SEC
             then do {
               let w = upd_cmsgs (\<lambda>c. c\<lparr>cm_last_sync_rx := (cm_last_sync_rx c)\<lparr>ut_sec :=
                         ut_sec (cm_last_sync_rx c) + of_int MAX_ALLOWED_CORRECTION_SEC\<rparr>\<rparr>) w;
               w \<leftarrow> upd_slot Last_sync (\<lambda>m. if rd (36, 4) m \<noteq> 0 then add_seconds MAX_ALLOWED_CORRECTION_SEC m else m) w;
               w \<leftarrow> upd_slot Last_fup (add_seconds MAX_ALLOWED_CORRECTION_SEC) w;
               Some (upd_cmsgs (\<lambda>c. c\<lparr>cm_residence := 0\<rparr>) w) }
             else Some w);
       w \<leftarrow> upd_slot Last_sync next_seqid w;
       upd_slot Last_fup next_seqid w }"

definition utime_nsec :: "ptp_utime \<Rightarrow> int" where
  "utime_nsec u = s64 (s64 (uint (ut_sec u) * 1000000000) + uint (ut_nsec u))"

text \<open>Marks the first Sync sent; the receive time of a simulated Sync is its send time.\<close>

definition first_forward :: "nat \<Rightarrow> world \<Rightarrow> (bool \<times> world) option" where
  "first_forward n w =
     (let hw = mi_hw_time (pmsgs pm_tx_sync n w)
      in if ut_sec (cmsgs cm_first_sync_tx w) \<noteq> 0 then Some (False, w)
         else do {
           let w = upd_cmsgs (\<lambda>c. c\<lparr>cm_first_sync_tx := hw\<rparr>) w;
           w \<leftarrow> (if ut_sec (cmsgs cm_last_sync_rx w) = 0 \<and> ut_nsec (cmsgs cm_last_sync_rx w) = 0
                 then do {
                   (a, m) \<leftarrow> slot_msg Last_fup w;
                   b \<leftarrow> put_timestamp 34 (ptp_utime_to_timestamp 0 hw) (m_msg m);
                   set_msg a b (upd_cmsgs (\<lambda>c. c\<lparr>cm_last_sync_rx := hw\<rparr>) w) }
                 else Some w);
           Some (True, w) })"

definition ptp_fwd_fup :: "nat \<Rightarrow> world \<Rightarrow> world option" where
  "ptp_fwd_fup n w =
     do {
       (first, w) \<leftarrow> first_forward n w;
       let rx = utime_nsec (cmsgs cm_last_sync_rx w);
       let tx = utime_nsec (mi_hw_time (pmsgs pm_tx_sync n w));
       if tx < rx then Some w
       else do {
         let residence = s64 (s64 (tx - rx) + cd_meanPathDelay (c_cur (w_clock w)) div 2 ^ 16);
         let w = (if first then upd_cmsgs (\<lambda>c. c\<lparr>cm_residence := residence\<rparr>) w else w);
         (_, m) \<leftarrow> slot_msg Last_fup w;
         port_fwd_fup n (m_msg m) (s64 (residence * 2 ^ 16)) w } }"

definition ptp_save_sync :: "nat \<Rightarrow> world \<Rightarrow> world option" where
  "ptp_save_sync a = save_slot Base_sync a"

definition ptp_save_fup :: "nat \<Rightarrow> world \<Rightarrow> world option" where
  "ptp_save_fup a = save_slot Base_fup a"

subsection \<open>Forwarding\<close>

text \<open>The first part of \<open>ptp_forward\<close>: the message is kept.\<close>

definition forward_keep :: "nat \<Rightarrow> nat \<Rightarrow> world \<Rightarrow> world option" where
  "forward_keep type a w =
     (if type = SYNC_MSG
      then do {
        let w = upd_cmsgs (\<lambda>c. c\<lparr>cm_first_sync_tx := (cm_first_sync_tx c)\<lparr>ut_sec := 0\<rparr>\<rparr>) w;
        w \<leftarrow> clear_slot Last_fup w;
        save_slot Last_sync a w }
      else if type = FOLLOW_UP_MSG
      then do {
        w \<leftarrow> (case slot_of Last_sync w of
                None \<Rightarrow> Some w
              | Some b \<Rightarrow> do { m \<leftarrow> get_msg b w; Some (upd_cmsgs (\<lambda>c. c\<lparr>cm_last_sync_rx := m_rx m\<rparr>) w) });
        w \<leftarrow> save_slot Last_fup a w;
        save_slot Last_rx_fup a w }
      else if type = ANNOUNCE_MSG
      then save_slot Last_ann a (upd_clock (\<lambda>c. c\<lparr>c_ann_cnt := 0\<rparr>) w)
      else Some w)"

definition forward_port :: "nat \<Rightarrow> nat \<Rightarrow> nat \<Rightarrow> world \<Rightarrow> world option" where
  "forward_port type a n w =
     (if p_state (port n w) \<noteq> PTP_S_MASTER \<or> \<not> port_capable (port n w) then Some w
      else if type = SYNC_MSG then do { m \<leftarrow> get_msg a w; port_fwd_sync n (m_msg m) w }
      else if type = FOLLOW_UP_MSG
      then (if ut_sec (mi_hw_time (pmsgs pm_tx_sync n w)) \<noteq> 0 then ptp_fwd_fup n w else Some w)
      else if type = ANNOUNCE_MSG
      then (if cflag cf_no_announce w then Some w else do { m \<leftarrow> get_msg a w; port_fwd_announce n (m_msg m) w })
      else Some w)"

fun each_port :: "(nat \<Rightarrow> world \<Rightarrow> world option) \<Rightarrow> nat list \<Rightarrow> world \<Rightarrow> world option" where
  "each_port f [] w = Some w"
| "each_port f (n # ns) w = do { w \<leftarrow> f n w; each_port f ns w }"

definition ptp_forward :: "nat \<Rightarrow> world \<Rightarrow> world option" where
  "ptp_forward a w =
     do {
       m \<leftarrow> get_msg a w;
       let type = messageType (m_msg m);
       w \<leftarrow> forward_keep type a w;
       each_port (forward_port type a) [1..<Suc (c_cnt (w_clock w))] w }"

subsection \<open>The Sync interval\<close>

text \<open>The request to the master, in a buffer of its own; it is left out without memory.\<close>

definition request_interval :: "nat \<Rightarrow> int \<Rightarrow> world \<Rightarrow> world option" where
  "request_interval n interval w =
     do {
       (r, w) \<leftarrow> alloc_new 100 w;
       case r of None \<Rightarrow> Some w | Some a \<Rightarrow> port_tx_signal_interval n 127 interval 127 (Some a) w }"

text \<open>\<open>True\<close>: the request has been made, \<open>force\<close> is done.\<close>

definition change_interval :: "int \<Rightarrow> world \<Rightarrow> (bool \<times> world) option" where
  "change_interval interval w =
     (let slower = p_logSyncInterval (port 0 w) < interval;
          w = upd_port 0 (\<lambda>h. h\<lparr>p_logSyncInterval := interval\<rparr>) w
      in if p_state (port 0 w) = PTP_S_MASTER \<or> cflag cf_sync_timeout w
         then Some (False, clock_change_sync_timer interval w)
         else if \<not> cflag cf_req_interval w
         then (case c_slave_port (w_clock w) of
                 None \<Rightarrow> Some (False, w)
               | Some p \<Rightarrow>
                   if p_state (port p w) = PTP_S_SLAVE
                   then do {
                     let w = (if slower then clock_stop_sync_timeout (clock_stop_sync_interval w) else w);
                     w \<leftarrow> request_interval p interval w;
                     Some (True, clock_start_signaling_timer False w) }
                   else Some (False, w))
         else Some (False, w))"

definition ptp_set_sync_interval :: "world \<Rightarrow> world option" where
  "ptp_set_sync_interval w =
     (if \<not> flag fl_gptp_auto 0 w then Some w
      else do {
        let force = cflag cf_set_interval_force w;
        let interval = (case c_slave_port (w_clock w) of None \<Rightarrow> 1 | Some p \<Rightarrow> p_logSyncInterval (port p w));
        let interval = ptp_get_fastest_interval (w_clock w) interval;
        (asked, w) \<leftarrow> (if interval \<noteq> p_logSyncInterval (port 0 w) then change_interval interval w else Some (False, w));
        w \<leftarrow> (if force \<and> \<not> asked
              then (case c_slave_port (w_clock w) of
                      None \<Rightarrow> Some w
                    | Some p \<Rightarrow> if p_state (port p w) = PTP_S_SLAVE then request_interval p interval w else Some w)
              else Some w);
        Some (ptp_setup_sync_interval w) })"

end
