(* ===== verification/Decision.thy ===== *)
theory Decision
  imports Port
begin

text \<open>
  The state decision: \<open>bmca_decision\<close> of \<^verbatim>\<open>ptp_bmca.c\<close>, the handling of Announce
  messages of \<^verbatim>\<open>ptp_protocol.c\<close> (from \<open>dataset_cmp\<close> to \<open>proc_announce\<close>, without
  the path trace, which is in \<^verbatim>\<open>Tlv.thy\<close>), and the timeouts of \<^verbatim>\<open>ptp_port.c\<close> that
  end in a state decision.
\<close>

subsection \<open>The decision for one port\<close>

definition port_can_accept_announce :: "ptp_clock \<Rightarrow> bmc_dataset \<Rightarrow> bmc_dataset option \<Rightarrow> bool" where
  "port_can_accept_announce c own best =
     (if clock_class c \<le> 127 \<or> (case best of None \<Rightarrow> False | Some b \<Rightarrow> memcmp (ds_id own) (ds_id b) = 0)
      then False else True)"

definition own_ds :: "world \<Rightarrow> bmc_dataset" where
  "own_ds w = c_dataset (w_clock w)"

definition bmca_decision :: "nat \<Rightarrow> world \<Rightarrow> ptp_state \<times> world" where
  "bmca_decision n w =
     (let w = clock_default_ds w;
          best = clock_best_ds (w_clock w);
          port_best = port_best_ds (port n w);
          state = p_state (port n w);
          w = upd_clock (\<lambda>c. c\<lparr>c_dataset := (c_dataset c)\<lparr>ds_tx :=
                (ds_tx (c_dataset c))\<lparr>pi_port := of_nat (p_index (port n w))\<rparr>\<rparr>\<rparr>) w;
          c = w_clock w;
          own = own_ds w
      in (if port_best = None \<and> (state = PTP_S_LISTENING \<or> state = PTP_S_FAULTY) then state
          else if \<not> port_can_accept_announce c own port_best
          then (if bmca_better (Some own) port_best > 0 then PTP_S_MASTER else PTP_S_PASSIVE)
          else if clock_class c \<noteq> 255 \<and> bmca_better (Some own) best > 0 then PTP_S_MASTER
          else if clock_best_port c = Some n then PTP_S_SLAVE
          else if clock_best_port c = None
          then (if state = PTP_S_FAULTY then state else PTP_S_LISTENING)
          else if bmca_better best port_best = A_BETTER_PATH then PTP_S_PASSIVE
          else PTP_S_PRE_MASTER, w))"

subsection \<open>Foreign masters\<close>

definition dataset_bytes :: "bmc_dataset \<Rightarrow> byte_list" where
  "dataset_bytes d =
     [ds_prio_1 d, ds_prio_2 d] @ le_bytes 2 (unat (ds_steps_removed d)) @ ds_id d @
     [q_class (ds_quality d), q_accuracy (ds_quality d)] @ le_bytes 2 (unat (q_variance (ds_quality d)))"

definition dataset_cmp :: "bmc_dataset \<Rightarrow> bmc_dataset \<Rightarrow> int" where
  "dataset_cmp old new = memcmp (dataset_bytes old) (dataset_bytes new)"

text \<open>The members of \<open>ptp_msg_announce\<close> behind the header.\<close>

abbreviation (input) F_grandmasterPriority1 :: field where "F_grandmasterPriority1 \<equiv> (47, 1)"
abbreviation (input) F_clockClass :: field where "F_clockClass \<equiv> (48, 1)"
abbreviation (input) F_clockAccuracy :: field where "F_clockAccuracy \<equiv> (49, 1)"
abbreviation (input) F_clockVariance :: field where "F_clockVariance \<equiv> (50, 2)"
abbreviation (input) F_grandmasterPriority2 :: field where "F_grandmasterPriority2 \<equiv> (52, 1)"
abbreviation (input) F_stepsRemoved :: field where "F_stepsRemoved \<equiv> (61, 2)"

definition announce_to_dataset :: "byte_list \<Rightarrow> nat \<Rightarrow> world \<Rightarrow> bmc_dataset" where
  "announce_to_dataset msg n w =
     \<lparr>ds_prio_1 = of_nat (rd F_grandmasterPriority1 msg),
      ds_prio_2 = of_nat (rd F_grandmasterPriority2 msg),
      ds_steps_removed = of_nat (rd F_stepsRemoved msg),
      ds_id = get_bytes 53 8 msg,
      ds_quality = \<lparr>q_class = of_nat (rd F_clockClass msg), q_accuracy = of_nat (rd F_clockAccuracy msg),
                    q_variance = of_nat (rd F_clockVariance msg)\<rparr>,
      ds_rx = \<lparr>pi_clock = c_id (w_clock w), pi_port = p_id (port n w)\<rparr>,
      ds_tx = \<lparr>pi_clock = get_bytes 20 8 msg, pi_port = of_nat (rd F_sourcePort msg)\<rparr>\<rparr>"

definition add_foreign_master :: "nat \<Rightarrow> bmc_dataset \<Rightarrow> world \<Rightarrow> bool \<times> world" where
  "add_foreign_master n ds w =
     (let threshold = (if flag fl_gptp n w then 1 else FOREIGN_MASTER_THRESHOLD)
      in case find_foreign_master (p_foreign_masters (port n w)) ds of
           (None, ms) \<Rightarrow> (False, w)
         | (Some i, ms) \<Rightarrow>
             (let w = port_set_announce_timeout n (upd_port n (\<lambda>p. p\<lparr>p_foreign_masters := ms\<rparr>) w);
                  f = ms ! i;
                  f = (if fd_cnt f = 0 then f\<lparr>fd_port := n\<rparr> else f);
                  meet_threshold = (threshold - 1 = unat (fd_cnt f));
                  diff = (fd_cnt f > 1 \<and> dataset_cmp (fd_dataset f) ds \<noteq> 0);
                  f = (if diff then f\<lparr>fd_dataset := ds\<rparr> else f);
                  f = (if \<not> fd_valid f then f\<lparr>fd_cnt := fd_cnt f + 1\<rparr> else f);
                  f = (if meet_threshold then f\<lparr>fd_valid := True\<rparr> else f)
              in (meet_threshold \<or> diff, upd_port n (\<lambda>p. p\<lparr>p_foreign_masters := ms[i := f]\<rparr>) w)))"

text \<open>\<open>None\<close>: the port has no best master and the code reads through the null pointer.\<close>

definition update_current_master :: "nat \<Rightarrow> bmc_dataset \<Rightarrow> world \<Rightarrow> (bool \<times> world) option" where
  "update_current_master n ds w =
     (case p_best (port n w) of
        None \<Rightarrow> None
      | Some i \<Rightarrow>
          (let f = p_foreign_masters (port n w) ! i
           in if \<not> same_port_id (ds_tx ds) (ds_tx (fd_dataset f)) then Some (add_foreign_master n ds w)
              else
                (let w = port_set_announce_timeout n w;
                     w = (if p_state (port n w) \<noteq> PTP_S_PASSIVE then port_set_announce_timeout 0 w else w);
                     diff = (fd_cnt f \<noteq> 0 \<and> dataset_cmp (fd_dataset f) ds \<noteq> 0);
                     f = f\<lparr>fd_dataset := ds\<rparr>
                 in Some (diff,
                      if diff
                      then ptp_update_parent_ds (Some f)
                             (upd_port n (\<lambda>p. p\<lparr>p_foreign_masters := (p_foreign_masters p)[i := f]\<rparr>) w)
                      else w))))"

subsection \<open>The decision for the clock\<close>

definition master_ds :: "nat \<times> nat \<Rightarrow> world \<Rightarrow> bmc_dataset" where
  "master_ds r w = fd_dataset (p_foreign_masters (port (fst r) w) ! snd r)"

fun scan_best :: "nat list \<Rightarrow> (nat \<times> nat) option \<Rightarrow> world \<Rightarrow> (nat \<times> nat) option \<times> world" where
  "scan_best [] best w = (best, w)"
| "scan_best (i # is) best w =
     (let b = find_best_master (p_foreign_masters (port i w));
          w = upd_port i (\<lambda>p. p\<lparr>p_best := b\<rparr>) w
      in case b of
           None \<Rightarrow> scan_best is best w
         | Some k \<Rightarrow>
             scan_best is
               (case best of
                  None \<Rightarrow> Some (i, k)
                | Some r \<Rightarrow> if bmca_better (Some (master_ds (i, k) w)) (Some (master_ds r w)) > 0
                           then Some (i, k) else best) w)"

definition choose_best :: "(nat \<times> nat) option \<Rightarrow> world \<Rightarrow> world" where
  "choose_best best w =
     (let own = own_ds w;
          take_it = (case best of None \<Rightarrow> False | Some r \<Rightarrow> bmca_better (Some (master_ds r w)) (Some own) > 0);
          best_id = (case best of Some r \<Rightarrow> if take_it then ds_id (master_ds r w) else dd_clockIdentity (c_dds (w_clock w))
                     | None \<Rightarrow> dd_clockIdentity (c_dds (w_clock w)));
          w = upd_clock (\<lambda>c. c\<lparr>c_best := (if take_it then best else None)\<rparr>) w
      in if memcmp best_id (c_best_id (w_clock w)) \<noteq> 0
         then
           (let w = upd_clock (\<lambda>c. c\<lparr>c_best_id := best_id\<rparr>) w;
                w = ptp_update_parent_ds (clock_best (w_clock w)) w
            in upd_clock (\<lambda>c. c\<lparr>c_rx_sync_seqid := 0x30000, c_rx_fup_seqid := 0x30001\<rparr>) w)
         else w)"

definition decision_event :: "ptp_state \<Rightarrow> event" where
  "decision_event state =
     (case state of
        PTP_S_LISTENING \<Rightarrow> EVENT_NONE
      | PTP_S_PRE_MASTER \<Rightarrow> EVENT_READY_MASTER
      | PTP_S_MASTER \<Rightarrow> EVENT_BECOME_MASTER
      | PTP_S_PASSIVE \<Rightarrow> EVENT_BECOME_PASSIVE
      | PTP_S_SLAVE \<Rightarrow> EVENT_BECOME_SLAVE
      | _ \<Rightarrow> EVENT_FAULT_SET)"

fun decide_ports :: "nat list \<Rightarrow> bool \<Rightarrow> bool \<Rightarrow> world \<Rightarrow> bool \<times> bool \<times> world" where
  "decide_ports [] have_slave have_master w = (have_slave, have_master, w)"
| "decide_ports (i # is) have_slave have_master w =
     (let (state, w) = bmca_decision i w;
          w = upd_port i (\<lambda>p. p\<lparr>p_last_state := state\<rparr>) w;
          w = port_set_state i (port_event (w_clock w) (port i w) (decision_event state)) w
      in decide_ports is (have_slave \<or> state = PTP_S_SLAVE)
           (have_master \<or> state = PTP_S_MASTER \<or> p_state (port i w) = PTP_S_MASTER) w)"

definition handle_state_decision :: "world \<Rightarrow> world" where
  "handle_state_decision w =
     (let w = clock_default_ds w
      in if cflag cf_no_announce w then w
         else
           (let ports = [1..<Suc (c_cnt (w_clock w))];
                (best, w) = scan_best ports None w;
                w = choose_best best w;
                (have_slave, have_master, w) = decide_ports ports False False w;
                event = (if have_slave then EVENT_BECOME_SLAVE
                         else if have_master then EVENT_BECOME_MASTER else EVENT_BECOME_PASSIVE)
            in port_set_state 0 (host_event (w_clock w) (port 0 w) event) w))"

definition proc_announce :: "nat \<Rightarrow> byte_list \<Rightarrow> world \<Rightarrow> world option" where
  "proc_announce n msg w =
     (let ds = announce_to_dataset msg n w;
          r = (case p_state (port n w) of
                 PTP_S_INITIALIZING \<Rightarrow> Some (False, w)
               | PTP_S_FAULTY \<Rightarrow> Some (False, w)
               | PTP_S_DISABLED \<Rightarrow> Some (False, w)
               | PTP_S_PASSIVE \<Rightarrow> update_current_master n ds w
               | PTP_S_UNCALIBRATED \<Rightarrow> update_current_master n ds w
               | PTP_S_SLAVE \<Rightarrow> update_current_master n ds w
               | _ \<Rightarrow> Some (add_foreign_master n ds w))
      in map_option (\<lambda>(result, w). if result then handle_state_decision w else w) r)"

subsection \<open>Timeouts\<close>

definition port_ann_timeout_work :: "nat \<Rightarrow> world \<Rightarrow> world" where
  "port_ann_timeout_work n w =
     (let w = port_announce_timeout n w;
          w = (if p_index (port n w) \<noteq> 0
               then port_set_state n (port_event (w_clock w) (port n w) EVENT_ANNOUNCE_TIMEOUT) w
               else upd_port n (\<lambda>p. p\<lparr>p_next_state := host_event (w_clock w) p EVENT_ANNOUNCE_TIMEOUT\<rparr>) w)
      in handle_state_decision w)"

definition port_qual_timeout_work :: "nat \<Rightarrow> world \<Rightarrow> world" where
  "port_qual_timeout_work n w =
     (if p_index (port n w) = 0 then w
      else handle_state_decision
             (port_set_state n (port_event (w_clock w) (port n w) EVENT_QUALIFICATION_TIMEOUT) w))"

definition port_fault_timeout_work :: "nat \<Rightarrow> world \<Rightarrow> world" where
  "port_fault_timeout_work n w =
     (let w = upd_port n (\<lambda>p. p\<lparr>p_last_fault := 0\<rparr>) w
      in if p_index (port n w) \<noteq> 0 \<and> \<not> flag fl_no_link n w
         then handle_state_decision
                (port_set_state n (port_event (w_clock w) (port n w) EVENT_FAULT_CLEAR) w)
         else w)"

definition port_timeout_func :: "(nat \<Rightarrow> work) \<Rightarrow> nat \<Rightarrow> world \<Rightarrow> world" where
  "port_timeout_func k n w =
     (if p_state (port n w) = PTP_S_DISABLED then w else sched_delayed (k n) 0 w)"

definition port_ann_timeout_func :: "nat \<Rightarrow> world \<Rightarrow> world" where
  "port_ann_timeout_func = port_timeout_func W_ann_timeout"

definition port_qual_timeout_func :: "nat \<Rightarrow> world \<Rightarrow> world" where
  "port_qual_timeout_func = port_timeout_func W_qual_timeout"

definition port_fault_timeout_func :: "nat \<Rightarrow> world \<Rightarrow> world" where
  "port_fault_timeout_func = port_timeout_func W_fault_timeout"

definition port_delay_req_func :: "nat \<Rightarrow> world \<Rightarrow> world" where
  "port_delay_req_func n w =
     (if p_state (port n w) = PTP_S_DISABLED then w else sched_now (W_delay_req n) w)"

text \<open>
  \<open>r\<close> is the next value of \<open>rand\<close>.  \<open>None\<close>: the modulus in \<open>ptp_random_ms\<close> is 0.
\<close>

definition port_pdelay_req_func :: "int \<Rightarrow> nat \<Rightarrow> world \<Rightarrow> world option" where
  "port_pdelay_req_func r n w =
     (if p_state (port n w) = PTP_S_DISABLED then Some w
      else
        (let w = (if p_cnt_delay_req (port n w) > 0 \<and> flag fl_peer_resp n w
                  then
                    (let w = upd_port n (\<lambda>p. p\<lparr>p_cnt_delay_req := p_cnt_delay_req p - 1\<rparr>) w
                     in upd_port n (\<lambda>p.
                          if p_cnt_delay_req p = 0 \<and> p_operPdelayReqInterval p \<noteq> p_pdelay_req_interval p
                          then p\<lparr>p_pdelay_req_interval := p_operPdelayReqInterval p,
                                 p_ds := (p_ds p)\<lparr>pds_logMinPdelayReqInterval := p_operPdelayReqInterval p\<rparr>\<rparr>
                          else p) w)
                  else w)
         in case ptp_random_ms r (ptp_interval_to_ms (p_pdelay_req_interval (port n w))) 10 of
              None \<Rightarrow> None
            | Some ms \<Rightarrow>
                Some (sched_now (W_delay_req n)
                  (upd_port n (\<lambda>p. p\<lparr>p_delay_timer_info :=
                     ksz_start_timer ((p_delay_timer_info p)\<lparr>t_period := of_int ms\<rparr>) (of_int ms)\<rparr>) w))))"

end
