(* ===== verification/Receive.thy ===== *)
theory Receive
  imports Forward Decision
begin

text \<open>
  Sync, Follow_Up, Announce and Signaling messages (\<^verbatim>\<open>ptp_protocol.c\<close>,
  \<^verbatim>\<open>ptp_signal.c\<close>).  A \<open>handle_\<close> function runs when a message arrives and may put
  it in the queue; its \<open>proc_\<close> function runs when it comes out of there.
\<close>

subsection \<open>Sync\<close>

definition port_rx_sync :: "nat \<Rightarrow> world \<Rightarrow> world" where
  "port_rx_sync n w =
     (if pds_delayMechanism (p_ds (port n w)) = DELAY_E2E \<and> c_servo_state (w_clock w) \<noteq> SERVO_UNLOCKED
      then upd_port n (\<lambda>p. p\<lparr>p_delay_timer_info := ksz_start_timer (p_delay_timer_info p)
             (if c_servo_state (w_clock w) = SERVO_LOCKING then 500 else 1)\<rparr>) w
      else w)"

text \<open>The Sync whose transmit time a port waits for: its own, or that of the host port.\<close>

definition sent_sync :: "nat \<Rightarrow> world \<Rightarrow> nat option" where
  "sent_sync n w =
     (if msg_info_valid (pmsgs pm_tx_sync n w) then Some n
      else if p_state (port 0 w) \<noteq> PTP_S_MASTER \<or> \<not> msg_info_valid (pmsgs pm_tx_sync 0 w) then None
      else Some 0)"

definition handle_delayed_sync :: "nat \<Rightarrow> nat \<Rightarrow> world \<Rightarrow> world option" where
  "handle_delayed_sync n a w =
     do {
       m \<leftarrow> get_msg a w;
       case sent_sync n w of
         None \<Rightarrow> Some w
       | Some q \<Rightarrow>
           if \<not> flag fl_sync_two_step n w then Some w
           else if mi_seqid (pmsgs pm_tx_sync q w) \<noteq> sequenceId (m_msg m) then Some w
           else save_rx a (upd_tx_sync q (\<lambda>i. i\<lparr>mi_hw_time := m_rx m\<rparr>) w) }"

definition proc_delayed_sync :: "nat \<Rightarrow> ptp_message \<Rightarrow> world \<Rightarrow> world option" where
  "proc_delayed_sync n m w =
     (let send = (\<lambda>w. if p_state (port 0 w) = PTP_S_MASTER then port_tx_fup n m w
                     else if slot_of Last_fup w \<noteq> None then ptp_fwd_fup n w else Some w)
      in case sent_sync n w of
           None \<Rightarrow> Some w
         | Some q \<Rightarrow>
             if q = 0
             then (if \<not> flag fl_sync_two_step n w then Some w
                   else if mi_seqid (pmsgs pm_tx_sync q w) \<noteq> sequenceId (m_msg m) then Some w
                   else send (upd_tx_sync q (\<lambda>i. i\<lparr>mi_hw_time := m_rx m\<rparr>) w))
             else send w)"

text \<open>The timers a Sync of a gPTP port restarts, and whether it is forwarded.\<close>

definition sync_timers :: "byte_list \<Rightarrow> world \<Rightarrow> bool \<times> world" where
  "sync_timers msg w =
     (let w = upd_cmsgs (\<lambda>c. c\<lparr>cm_prev_sync_jiffies := c_last_sync_jiffies (w_clock w)\<rparr>) w;
          w = upd_clock (\<lambda>c. c\<lparr>c_last_sync_jiffies := time_save (w_jiffies w) 1\<rparr>) w;
          w = clock_set_sync_interval w;
          w = (if twoStepFlag msg then clock_set_fup_timeout w
               else upd_clock (\<lambda>c. c\<lparr>c_rx_fup_seqid := uint (sequenceId msg)\<rparr>) w);
          forward = \<not> (cflag cf_miss_sync w \<and> cmsgs cm_tx_sync_seqid w = sequenceId msg);
          w = (if c_rx_fup_seqid (w_clock w) = c_rx_sync_seqid (w_clock w) then clock_set_sync_timeout w else w);
          forward = (forward \<and> \<not> (cflag cf_sync_timeout w \<or> cflag cf_tx_sync w));
          w = upd_cflags (\<lambda>f. f\<lparr>cf_miss_fup := \<not> forward\<rparr>) w
      in (forward, w))"

definition handle_sync :: "nat \<Rightarrow> nat \<Rightarrow> world \<Rightarrow> world option" where
  "handle_sync n a w =
     do {
       m \<leftarrow> get_msg a w;
       let msg = m_msg m;
       if port_is_aed_master (port n w)
       then Some (upd_pflags n (\<lambda>f. f\<lparr>fl_report_sync := False\<rparr>) w)
       else if \<not> accept_slave_msg n msg (\<not> port_is_aed (port n w)) w then Some w
       else if \<not> accept_seqid (c_rx_sync_seqid (w_clock w)) msg then Some w
       else do {
         let w = (if port_is_aed (port n w) then upd_clock (\<lambda>c. c\<lparr>c_best_id := get_bytes 20 8 msg\<rparr>) w else w);
         w \<leftarrow> (if flag fl_gptp n w
               then do {
                 let (forward, w) = sync_timers msg w;
                 w \<leftarrow> (if forward then ptp_forward a w else Some w);
                 w \<leftarrow> (if flag fl_gptp n w then ptp_save_sync a w else Some w);
                 Some (if \<not> cflag cf_sync_timeout w then upd_cflags (\<lambda>f. f\<lparr>cf_miss_sync := False\<rparr>) w else w) }
               else Some w);
         let w = upd_clock (\<lambda>c. c\<lparr>c_rx_sync_seqid := uint (sequenceId msg)\<rparr>) w;
         i \<leftarrow> msg_info_save msg (Some (m_rx m)) (cmsgs cm_rx_sync w);
         save_rx a (upd_cmsgs (\<lambda>c. c\<lparr>cm_rx_sync := i\<rparr>) w) } }"

text \<open>
  The interval the Syncs of an automotive master arrive with, measured and
  announced; \<open>us_to_ptp_interval\<close> is called with milliseconds.
\<close>

definition measure_interval :: "nat \<Rightarrow> int \<Rightarrow> world \<Rightarrow> int \<times> world" where
  "measure_interval n interval w =
     (let ms = ptp_interval_to_ms interval;
          actual = sint (time_delta (cmsgs cm_prev_sync_jiffies w) (c_last_sync_jiffies (w_clock w)));
          diff = s32 (actual - ms)
      in if \<bar>diff\<bar> \<le> ms sdiv 4 then (interval, upd_pflags n (\<lambda>f. f\<lparr>fl_report_mismatched := 0\<rparr>) w)
         else
           (let w = upd_pflags n (\<lambda>f. if fl_report_mismatched f < 3
                      then f\<lparr>fl_report_mismatched := fl_report_mismatched f + 1\<rparr> else f) w
            in (if flag fl_report_mismatched n w \<ge> 2 then us_to_ptp_interval actual else interval, w)))"

definition proc_sync_interval :: "nat \<Rightarrow> byte_list \<Rightarrow> world \<Rightarrow> world" where
  "proc_sync_interval n msg w =
     (if cmsgs cm_prev_sync_jiffies w = 0 then w
      else
        (let (interval, w) = measure_interval n (logMessageInterval msg) w;
             w = (if c_logSyncInterval (w_clock w) \<noteq> interval
                  then
                    (let delay = of_int (ptp_interval_to_ms interval);
                         w = upd_timers (\<lambda>t. t\<lparr>ct_sync := (ct_sync t)\<lparr>t_period := delay\<rparr>\<rparr>) w;
                         w = upd_clock (\<lambda>c. c\<lparr>c_logSyncInterval := s8 interval\<rparr>) w;
                         w = upd_port n (\<lambda>p. p\<lparr>p_cnt_sync_rx := 0\<rparr>) w;
                         w = upd_port 0 (\<lambda>h. h\<lparr>p_cnt_sync_rx := 5\<rparr>) w
                     in upd_cflags (\<lambda>f. f\<lparr>cf_first_sync := False, cf_report_sync := True\<rparr>) w)
                  else w)
         in if p_logSyncInterval (port 0 w) \<noteq> interval
            then (if \<not> cflag cf_signaling w
                  then
                    (let new_interval = p_logSyncInterval (port 0 w);
                         w = upd_port 0 (\<lambda>h. h\<lparr>p_logSyncInterval := s8 interval\<rparr>) w
                     in ptp_change_slave_interval new_interval False w)
                  else w)
            else
              (let w = (if port_is_aed (port n w) \<and> cflag cf_req_interval w
                        then
                          (let w = upd_cflags (\<lambda>f. f\<lparr>cf_req_interval := False\<rparr>) w
                           in if cflag cf_signaling w \<and> c_oper_sync_jiffies (w_clock w) = 0
                              then clock_stop_signaling_timer w else w)
                        else w)
               in if p_logSyncInterval (port n w) \<noteq> p_operSyncInterval (port n w) \<and> c_oper_sync_jiffies (w_clock w) = 0
                  then
                    (let w = upd_clock (\<lambda>c. c\<lparr>c_oper_sync_jiffies := time_save (w_jiffies w) 1\<rparr>) w
                     in if \<not> cflag cf_signaling w then clock_start_signaling_timer True w else w)
                  else w)))"

definition proc_sync :: "nat \<Rightarrow> ptp_message \<Rightarrow> world \<Rightarrow> world option" where
  "proc_sync n m w =
     do {
       let msg = m_msg m;
       let w = (if port_is_aed (port n w) then proc_sync_interval n msg w else w);
       if \<not> twoStepFlag msg
       then do {
         t \<leftarrow> get_timestamp 34 msg;
         w \<leftarrow> port_sync n (m_rx m) t (correctionField msg) 0 w;
         Some (port_rx_sync n w) }
       else do {
         let fup = cmsgs cm_rx_fup w;
         let found = (msg_info_valid fup \<and> mi_seqid fup = sequenceId msg);
         w \<leftarrow> (if found
               then do {
                 w \<leftarrow> port_sync n (m_rx m) (mi_ptp_time fup) (correctionField msg) (mi_correction fup) w;
                 Some (port_rx_sync n w) }
               else Some w);
         let w = (if msg_info_valid fup then upd_cmsgs (\<lambda>c. c\<lparr>cm_rx_fup := msg_info_clear (cm_rx_fup c)\<rparr>) w else w);
         if found then Some w
         else do {
           i \<leftarrow> msg_info_save msg (Some (m_rx m)) (cmsgs cm_rx_sync w);
           Some (upd_cmsgs (\<lambda>c. c\<lparr>cm_rx_sync := i\<rparr>) w) } } }"

subsection \<open>Follow_Up\<close>

definition fup_forward :: "nat \<Rightarrow> byte_list \<Rightarrow> world \<Rightarrow> bool \<times> world" where
  "fup_forward n msg w =
     (let s = uint (sequenceId msg); c = w_clock w;
          forward = (\<not> (cflag cf_miss_fup w \<or> c_rx_sync_seqid c \<noteq> s) \<and> \<not> (cflag cf_sync_timeout w \<or> cflag cf_tx_sync w));
          diff = time_delta (c_set_sync_timeout_jiffies c) (w_jiffies w);
          again = (of_int (2 * ptp_interval_to_ms (p_logSyncInterval (port n w))) \<le> diff \<and> c_rx_sync_seqid c = s \<or>
                   c_rx_fup_seqid c > 0xffff \<and> c_rx_sync_seqid c = 0x10000)
      in (forward, if again then clock_set_sync_timeout w else w))"

definition handle_fup :: "nat \<Rightarrow> nat \<Rightarrow> world \<Rightarrow> world option" where
  "handle_fup n a w =
     do {
       m \<leftarrow> get_msg a w;
       let msg = m_msg m;
       if port_is_aed_master (port n w) then Some w
       else if \<not> accept_slave_msg n msg True w then Some w
       else if \<not> accept_seqid (c_rx_fup_seqid (w_clock w)) msg then Some w
       else do {
         w \<leftarrow> (if msg_info_valid (cmsgs cm_rx_sync w) \<and> mi_seqid (cmsgs cm_rx_sync w) = sequenceId msg
               then Some (if flag fl_gptp n w then clock_stop_fup_timeout w else w)
               else do {
                 i \<leftarrow> msg_info_save msg None (cmsgs cm_rx_fup w);
                 Some (upd_cmsgs (\<lambda>c. c\<lparr>cm_rx_fup := i\<rparr>) w) });
         _ \<leftarrow> check_follow_up msg;
         let (forward, w) = (if flag fl_gptp n w then fup_forward n msg w else (False, w));
         let w = upd_clock (\<lambda>c. c\<lparr>c_rx_fup_seqid := uint (sequenceId msg)\<rparr>) w;
         w \<leftarrow> (if forward then ptp_forward a w else Some w);
         w \<leftarrow> (if flag fl_gptp n w then ptp_save_fup a w else Some w);
         save_rx a (upd_cflags (\<lambda>f. f\<lparr>cf_miss_fup := False\<rparr>) w) } }"

definition proc_fup :: "nat \<Rightarrow> ptp_message \<Rightarrow> world \<Rightarrow> world option" where
  "proc_fup n m w =
     (let msg = m_msg m; sync = cmsgs cm_rx_sync w
      in if msg_info_valid sync
         then do {
           w \<leftarrow> (if mi_seqid sync = sequenceId msg
                 then do {
                   t \<leftarrow> get_timestamp 34 msg;
                   w \<leftarrow> port_sync n (mi_hw_time sync) t (mi_correction sync) (correctionField msg) w;
                   Some (port_rx_sync n w) }
                 else Some w);
           Some (upd_cmsgs (\<lambda>c. c\<lparr>cm_rx_sync := msg_info_clear (cm_rx_sync c)\<rparr>) w) }
         else Some w)"

subsection \<open>Announce\<close>

definition handle_announce :: "nat \<Rightarrow> nat \<Rightarrow> world \<Rightarrow> world option" where
  "handle_announce n a w =
     do {
       m \<leftarrow> get_msg a w;
       let msg = m_msg m;
       if port_is_aed (port n w)
       then Some (upd_pflags n (\<lambda>f. f\<lparr>fl_report_announce := False\<rparr>) w)
       else do {
         steps \<leftarrow> rdo F_stepsRemoved msg;
         if steps \<ge> 255 then Some w
         else if same_clock_id (c_id (w_clock w)) (get_bytes 20 8 msg)
         then Some (if rd F_sourcePort msg < unat (p_id (port n w))
                    then (if p_state (port n w) = PTP_S_PASSIVE then port_set_announce_timeout n w
                          else port_set_state n PTP_S_PASSIVE w)
                    else w)
         else do {
           loop \<leftarrow> check_path_trace (c_id (w_clock w)) msg;
           if loop then Some w
           else do {
             w \<leftarrow> (if flag fl_gptp n w then ptp_forward a w else Some w);
             save_rx a w } } } }"

subsection \<open>Signaling\<close>

definition for_clock :: "byte_list \<Rightarrow> world \<Rightarrow> bool" where
  "for_clock msg w \<longleftrightarrow> same_clock_id (c_id (w_clock w)) (get_bytes 34 8 msg) \<or> broadcast_clock_id (get_bytes 34 8 msg)"

definition handle_signaling :: "nat \<Rightarrow> nat \<Rightarrow> world \<Rightarrow> world option" where
  "handle_signaling n a w =
     do {
       m \<leftarrow> get_msg a w;
       let msg = m_msg m;
       if messageLength msg - 34 \<le> 10 then Some w
       else if length msg < 44 then None
       else if \<not> for_clock msg w then Some w
       else save_rx a w }"

definition ptp_signal_interval :: "nat \<Rightarrow> nat \<Rightarrow> byte_list \<Rightarrow> world \<Rightarrow> world option" where
  "ptp_signal_interval n k msg w =
     if_read (match_at (k + 4) [0x00, 0x80, 0xC2, 0, 0, 2] msg)
       (let w = upd_pflags n (\<lambda>f. f\<lparr>fl_report_signal := False\<rparr>) w
        in if \<not> port_is_aed_master (port n w) then Some w
           else do {
             t \<leftarrow> rdo (k + 11, 1) msg;
             _ \<leftarrow> rdo (k + 12, 1) msg;
             let timesync = s8 (int t);
             Some (if timesync \<noteq> 127 \<and> timesync \<noteq> 126 \<and> timesync \<noteq> p_logSyncInterval (port n w)
                   then ptp_change_master_interval n timesync w else w) })
       (Some w)"

text \<open>The loop over the TLVs; \<open>None\<close> also stands for a walk that does not end.\<close>

partial_function (option) signal_tlvs :: "nat \<Rightarrow> nat \<Rightarrow> u16 \<Rightarrow> byte_list \<Rightarrow> world \<Rightarrow> world option" where
  "signal_tlvs n data left msg w =
     Option.bind (ptp_next_tlv data left msg) (\<lambda>(tlv, data, left).
       case tlv of
         None \<Rightarrow> Some w
       | Some k \<Rightarrow>
           Option.bind
             (if rd (k, 2) msg = TLV_ORGANIZATION_EXTENSION then ptp_signal_interval n k msg w else Some w)
             (signal_tlvs n data left msg))"

definition proc_signaling :: "nat \<Rightarrow> ptp_message \<Rightarrow> world \<Rightarrow> world option" where
  "proc_signaling n m w = signal_tlvs n 44 (messageLength (m_msg m) - 34 - 10) (m_msg m) w"

end
