(* ===== verification/Manage.thy ===== *)
theory Manage
  imports Receive
begin

text \<open>
  \<^verbatim>\<open>ptp_manage.c\<close>: the answers to management messages.  A data set is answered as
  the bytes of its packed structure; the members that the code never writes are
  0.
\<close>

subsection \<open>The data sets as bytes\<close>

definition le_int :: "nat \<Rightarrow> int \<Rightarrow> byte_list" where
  "le_int n x = le_bytes n (nat (x mod 256 ^ n))"

definition quality_bytes :: "ptp_clock_quality \<Rightarrow> byte_list" where
  "quality_bytes q = [q_class q, q_accuracy q] @ le_bytes 2 (unat (q_variance q))"

fun state_code :: "ptp_state \<Rightarrow> u8" where
  "state_code PTP_S_INIT = 0"
| "state_code PTP_S_INITIALIZING = 1"
| "state_code PTP_S_FAULTY = 2"
| "state_code PTP_S_DISABLED = 3"
| "state_code PTP_S_LISTENING = 4"
| "state_code PTP_S_PRE_MASTER = 5"
| "state_code PTP_S_MASTER = 6"
| "state_code PTP_S_PASSIVE = 7"
| "state_code PTP_S_UNCALIBRATED = 8"
| "state_code PTP_S_SLAVE = 9"

text \<open>Without a delay mechanism the answer is \<open>0xFE\<close>.\<close>

fun delay_code :: "delay_mech \<Rightarrow> u8" where
  "delay_code DELAY_NONE = 0xFE"
| "delay_code DELAY_E2E = 1"
| "delay_code DELAY_P2P = 2"

definition port_id_bytes :: "ptp_port_identity \<Rightarrow> byte_list" where
  "port_id_bytes i = pi_clock i @ le_bytes 2 (unat (pi_port i))"

definition ptp_manage_get_default_ds :: "ptp_clock \<Rightarrow> byte_list" where
  "ptp_manage_get_default_ds c =
     (let d = c_dds c
      in [(if dd_two_step d then 1 else 0) + (if dd_slave_only d then 2 else 0), 0] @
         le_bytes 2 (unat (dd_numberPorts d)) @ [dd_priority1 d] @ quality_bytes (dd_quality d) @
         [dd_priority2 d] @ dd_clockIdentity d @ [dd_domainNumber d, 0])"

definition ptp_manage_get_current_ds :: "ptp_clock \<Rightarrow> byte_list" where
  "ptp_manage_get_current_ds c =
     le_bytes 2 (unat (cd_stepsRemoved (c_cur c))) @ le_int 8 (cd_offsetFromMaster (c_cur c)) @
     le_int 8 (cd_meanPathDelay (c_cur c))"

definition ptp_manage_get_parent_ds :: "ptp_clock \<Rightarrow> byte_list" where
  "ptp_manage_get_parent_ds c =
     (let p = c_pds c
      in port_id_bytes (pr_parentPortIdentity p) @ replicate 8 0 @ [pr_grandmasterPriority1 p] @
         quality_bytes (pr_grandmasterClockQuality p) @ [pr_grandmasterPriority2 p] @ pr_grandmasterIdentity p)"

definition ptp_manage_get_priority1 :: "ptp_clock \<Rightarrow> byte_list" where
  "ptp_manage_get_priority1 c = [dd_priority1 (c_dds c), 0]"

definition ptp_manage_get_priority2 :: "ptp_clock \<Rightarrow> byte_list" where
  "ptp_manage_get_priority2 c = [dd_priority2 (c_dds c), 0]"

definition ptp_manage_get_domain :: "ptp_clock \<Rightarrow> byte_list" where
  "ptp_manage_get_domain c = [dd_domainNumber (c_dds c), 0]"

definition ptp_manage_get_port_ds :: "ptp_port \<Rightarrow> byte_list" where
  "ptp_manage_get_port_ds p =
     (let d = p_ds p
      in port_id_bytes (pds_portIdentity d) @
         [state_code (pds_portState d), of_int (pds_logMinDelayReqInterval d)] @
         le_int 8 (pds_peerMeanPathDelay d) @
         [of_int (pds_logAnnounceInterval d), pds_announceReceiptTimeout d, of_int (pds_logSyncInterval d),
          delay_code (pds_delayMechanism d), of_int (pds_logMinPdelayReqInterval d), pds_versionNumber d])"

definition ptp_manage_get_ann_int :: "ptp_port \<Rightarrow> byte_list" where
  "ptp_manage_get_ann_int p = [of_int (pds_logAnnounceInterval (p_ds p)), 0]"

definition ptp_manage_get_ann_timeout :: "ptp_port \<Rightarrow> byte_list" where
  "ptp_manage_get_ann_timeout p = [pds_announceReceiptTimeout (p_ds p), 0]"

definition ptp_manage_get_sync_int :: "ptp_port \<Rightarrow> byte_list" where
  "ptp_manage_get_sync_int p = [of_int (pds_logSyncInterval (p_ds p)), 0]"

definition ptp_manage_get_version :: "ptp_port \<Rightarrow> byte_list" where
  "ptp_manage_get_version p = [pds_versionNumber (p_ds p), 0]"

definition ptp_manage_get_delay_mech :: "ptp_port \<Rightarrow> byte_list" where
  "ptp_manage_get_delay_mech p = [delay_code (pds_delayMechanism (p_ds p)), 0]"

definition ptp_manage_get_pdelay_int :: "ptp_port \<Rightarrow> byte_list" where
  "ptp_manage_get_pdelay_int p = [of_int (pds_logMinPdelayReqInterval (p_ds p)), 0]"

definition ptp_manage_get_port_ds_np :: "ptp_port \<Rightarrow> byte_list" where
  "ptp_manage_get_port_ds_np p =
     le_int 4 (p_neighborDelayThresh p) @ le_bytes 4 (if port_capable p then 1 else 0)"

text \<open>The set functions: nothing is set and 0, no error, is returned.\<close>

definition ptp_manage_set :: "world \<Rightarrow> u16 \<times> world" where
  "ptp_manage_set w = (0, w)"

subsection \<open>The table of management ids\<close>

abbreviation (input) M_PRIORITY1 :: nat where "M_PRIORITY1 \<equiv> 0x2005"
abbreviation (input) M_PRIORITY2 :: nat where "M_PRIORITY2 \<equiv> 0x2006"
abbreviation (input) M_DOMAIN :: nat where "M_DOMAIN \<equiv> 0x2007"
abbreviation (input) M_SLAVE_ONLY :: nat where "M_SLAVE_ONLY \<equiv> 0x2008"
abbreviation (input) M_LOG_ANNOUNCE_INTERVAL :: nat where "M_LOG_ANNOUNCE_INTERVAL \<equiv> 0x2009"
abbreviation (input) M_ANNOUNCE_RECEIPT_TIMEOUT :: nat where "M_ANNOUNCE_RECEIPT_TIMEOUT \<equiv> 0x200A"
abbreviation (input) M_LOG_SYNC_INTERVAL :: nat where "M_LOG_SYNC_INTERVAL \<equiv> 0x200B"
abbreviation (input) M_VERSION_NUMBER :: nat where "M_VERSION_NUMBER \<equiv> 0x200C"
abbreviation (input) M_ENABLE_PORT :: nat where "M_ENABLE_PORT \<equiv> 0x200D"
abbreviation (input) M_DISABLE_PORT :: nat where "M_DISABLE_PORT \<equiv> 0x200E"
abbreviation (input) M_TIME :: nat where "M_TIME \<equiv> 0x200F"
abbreviation (input) M_DELAY_MECHANISM :: nat where "M_DELAY_MECHANISM \<equiv> 0x6000"
abbreviation (input) M_LOG_MIN_PDELAY_REQ_INTERVAL :: nat where "M_LOG_MIN_PDELAY_REQ_INTERVAL \<equiv> 0x6001"

abbreviation (input) MANAGEMENT_GET :: nat where "MANAGEMENT_GET \<equiv> 0"
abbreviation (input) MANAGEMENT_SET :: nat where "MANAGEMENT_SET \<equiv> 1"
abbreviation (input) MANAGEMENT_RESPONSE :: nat where "MANAGEMENT_RESPONSE \<equiv> 2"
abbreviation (input) MANAGEMENT_ACKNOWLEDGE :: nat where "MANAGEMENT_ACKNOWLEDGE \<equiv> 4"

abbreviation (input) M_NO_SUCH_ID :: u16 where "M_NO_SUCH_ID \<equiv> 2"
abbreviation (input) M_WRONG_LENGTH :: u16 where "M_WRONG_LENGTH \<equiv> 3"
abbreviation (input) M_WRONG_VALUE :: u16 where "M_WRONG_VALUE \<equiv> 4"
abbreviation (input) M_NOT_SUPPORTED :: u16 where "M_NOT_SUPPORTED \<equiv> 6"

text \<open>The first \<open>switch\<close>: whether the id is of the clock, its size, its get function, whether it is set.\<close>

definition clock_ids :: "nat \<Rightarrow> (nat \<times> (ptp_clock \<Rightarrow> byte_list) option \<times> bool) option" where
  "clock_ids mid =
     (if mid = M_DEFAULT_DATA_SET then Some (20, Some ptp_manage_get_default_ds, True)
      else if mid = M_CURRENT_DATA_SET then Some (18, Some ptp_manage_get_current_ds, False)
      else if mid = M_PARENT_DATA_SET then Some (32, Some ptp_manage_get_parent_ds, False)
      else if mid = M_PRIORITY1 then Some (2, Some ptp_manage_get_priority1, True)
      else if mid = M_PRIORITY2 then Some (2, Some ptp_manage_get_priority2, True)
      else if mid = M_DOMAIN then Some (0, Some ptp_manage_get_domain, False)
      else if mid = M_SLAVE_ONLY then Some (0, None, False)
      else if mid = M_TIME then Some (0, None, False)
      else None)"

definition port_ids :: "nat \<Rightarrow> (ptp_port \<Rightarrow> byte_list) option option" where
  "port_ids mid =
     (if mid = M_PORT_DATA_SET then Some (Some ptp_manage_get_port_ds)
      else if mid = M_LOG_ANNOUNCE_INTERVAL then Some (Some ptp_manage_get_ann_int)
      else if mid = M_ANNOUNCE_RECEIPT_TIMEOUT then Some (Some ptp_manage_get_ann_timeout)
      else if mid = M_LOG_SYNC_INTERVAL then Some (Some ptp_manage_get_sync_int)
      else if mid = M_VERSION_NUMBER then Some (Some ptp_manage_get_version)
      else if mid = M_DELAY_MECHANISM then Some (Some ptp_manage_get_delay_mech)
      else if mid = M_LOG_MIN_PDELAY_REQ_INTERVAL then Some (Some ptp_manage_get_pdelay_int)
      else if mid = M_PORT_DATA_SET_NP then Some (Some ptp_manage_get_port_ds_np)
      else if mid = M_ENABLE_PORT then Some None
      else if mid = M_DISABLE_PORT then Some None
      else None)"

text \<open>What is done with a request.\<close>

datatype request = Get_clock "ptp_clock \<Rightarrow> byte_list" | Get_port "ptp_port \<Rightarrow> byte_list" | Set_clock | Refuse u16

definition manage_request :: "nat \<Rightarrow> nat \<Rightarrow> nat \<Rightarrow> request" where
  "manage_request mid action len =
     (let size = (case clock_ids mid of None \<Rightarrow> 0 | Some (s, _) \<Rightarrow> s);
          no_id = (clock_ids mid = None \<and> port_ids mid = None);
          get = (case clock_ids mid of Some (_, Some f, _) \<Rightarrow> Some f | _ \<Rightarrow> None);
          sets = (case clock_ids mid of Some (_, _, b) \<Rightarrow> b | None \<Rightarrow> False);
          pget = (case port_ids mid of Some (Some f) \<Rightarrow> Some f | _ \<Rightarrow> None)
      in if action = MANAGEMENT_SET \<and> len < size + 2 then Refuse M_WRONG_LENGTH
         else if action = MANAGEMENT_GET \<and> get \<noteq> None then Get_clock (the get)
         else if action = MANAGEMENT_SET \<and> sets then Set_clock
         else if action = MANAGEMENT_GET \<and> pget \<noteq> None then Get_port (the pget)
         else if no_id then Refuse M_NO_SUCH_ID
         else Refuse M_NOT_SUPPORTED)"

subsection \<open>Answers\<close>

definition manage_head :: "nat \<Rightarrow> ptp_message \<Rightarrow> nat \<Rightarrow> u16 \<Rightarrow> world \<Rightarrow> byte_list option" where
  "manage_head n m action pid w =
     do {
       let req = m_msg m;
       b \<leftarrow> clock_new_msg (w_clock w) MANAGEMENT_MSG (w_tx w);
       let b = wr F_messageLength 48 b;
       let b = set_sequenceId (sequenceId req) b;
       let b = (if \<not> flag fl_no_id_replace n w then set_sourcePort pid b else b);
       d \<leftarrow> get_port_id 20 req;
       b \<leftarrow> put_port_id 34 d b;
       a \<leftarrow> rdo (46, 1) b;
       Some (wr (46, 1) (action mod 16 + 16 * (a div 16)) b) }"

definition manage_send :: "nat \<Rightarrow> byte_list \<Rightarrow> nat \<Rightarrow> nat \<Rightarrow> nat \<Rightarrow> world \<Rightarrow> world option" where
  "manage_send n b type tlv_end len w =
     do {
       (_, sz, b) \<leftarrow> ptp_add_tlv 48 tlv_end type (of_nat len) (messageLength b) b;
       b \<leftarrow> wro F_messageLength (unat sz) b;
       b \<leftarrow> ptp_msg_tx b;
       Some (ptp_tx_msg b (p_index (port n w)) (port_bit (p_index (port n w))) 0 0 None w) }"

definition port_tx_manage_error :: "nat \<Rightarrow> ptp_message \<Rightarrow> nat \<Rightarrow> nat \<Rightarrow> u16 \<Rightarrow> world \<Rightarrow> world option" where
  "port_tx_manage_error n m action mid err_id w =
     do {
       b \<leftarrow> manage_head n m action (p_id (port n w)) w;
       b \<leftarrow> wro (52, 2) (unat err_id) b;
       b \<leftarrow> wro (54, 2) mid b;
       manage_send n b TLV_MANAGEMENT_ERROR_STATUS 60 12 w }"

text \<open>\<open>q\<close> is the port the data is about.\<close>

definition port_tx_manage :: "nat \<Rightarrow> ptp_message \<Rightarrow> nat \<Rightarrow> nat \<Rightarrow> byte_list \<Rightarrow> nat \<Rightarrow> world \<Rightarrow> world option" where
  "port_tx_manage n m action mid data q w =
     do {
       b \<leftarrow> manage_head n m action (p_id (port q w)) w;
       b \<leftarrow> wro (52, 2) mid b;
       if length b < 54 + length data then None
       else manage_send n (put_bytes 54 data b) TLV_MANAGEMENT (54 + length data) (6 + length data) w }"

definition answer_port :: "nat \<Rightarrow> ptp_message \<Rightarrow> nat \<Rightarrow> nat \<Rightarrow> (ptp_port \<Rightarrow> byte_list) \<Rightarrow> nat \<Rightarrow> nat \<Rightarrow> world \<Rightarrow> world option" where
  "answer_port n m resp mid f target q w =
     (if unat (p_id (port q w)) = target \<or> target = 0xFFFF
      then port_tx_manage n m resp mid (f (port q w)) q w else Some w)"

definition manage_tlv :: "nat \<Rightarrow> ptp_message \<Rightarrow> nat \<Rightarrow> world \<Rightarrow> world option" where
  "manage_tlv n m k w =
     do {
       let msg = m_msg m;
       mid \<leftarrow> rdo (52, 2) msg;
       let action = rd (46, 1) msg mod 16;
       let resp = (if action = MANAGEMENT_GET \<or> action = MANAGEMENT_SET then MANAGEMENT_RESPONSE else MANAGEMENT_ACKNOWLEDGE);
       let target = rd (42, 2) msg;
       case manage_request mid action (rd (k + 2, 2) msg) of
         Refuse err \<Rightarrow> port_tx_manage_error n m resp mid err w
       | Get_clock f \<Rightarrow> port_tx_manage n m resp mid (f (w_clock w)) n w
       | Get_port f \<Rightarrow>
           do {
             let ports = [1..<Suc (max 1 (c_cnt (w_clock w)))];
             let hit = list_ex (\<lambda>q. unat (p_id (port q w)) = target \<or> target = 0xFFFF) ports;
             w \<leftarrow> each_port (answer_port n m resp mid f target) ports w;
             if hit then Some w else port_tx_manage_error n m resp mid M_WRONG_VALUE w }
       | Set_clock \<Rightarrow>
           (let (ret, w) = ptp_manage_set w
            in if ret \<noteq> 0 then port_tx_manage_error n m resp mid ret w
               else port_tx_manage n m resp mid [] n w) }"

text \<open>The loop over the TLVs; the management id is always read from the first.\<close>

partial_function (option) manage_tlvs :: "nat \<Rightarrow> ptp_message \<Rightarrow> nat \<Rightarrow> u16 \<Rightarrow> world \<Rightarrow> world option" where
  "manage_tlvs n m data left w =
     Option.bind (ptp_next_tlv data left (m_msg m)) (\<lambda>(tlv, data, left).
       case tlv of
         None \<Rightarrow> Some w
       | Some k \<Rightarrow>
           Option.bind (if rd (k, 2) (m_msg m) = TLV_MANAGEMENT then manage_tlv n m k w else Some w)
             (manage_tlvs n m data left))"

definition handle_management :: "nat \<Rightarrow> nat \<Rightarrow> world \<Rightarrow> world option" where
  "handle_management n a w =
     do {
       m \<leftarrow> get_msg a w;
       let msg = m_msg m;
       if messageLength msg - 34 \<le> 14 then Some w
       else if length msg < 48 then None
       else if \<not> for_clock msg w then Some w
       else save_rx a w }"

definition proc_management :: "nat \<Rightarrow> ptp_message \<Rightarrow> world \<Rightarrow> world option" where
  "proc_management n m w = manage_tlvs n m 48 (messageLength (m_msg m) - 34 - 14) w"

end
