(* ===== verification/Dispatch.thy ===== *)
theory Dispatch
  imports Manage
begin

text \<open>
  From the network to the handlers and back (\<^verbatim>\<open>ptp_protocol.c\<close>, \<open>ptp_rx\<close> to
  \<open>ptp_proc_rx\<close>; \<^verbatim>\<open>ptp_stack.c\<close>, \<open>proc_tx_timestamp\<close> and the body of the loop of \<open>ptp_process_task\<close>).  A message is copied into a buffer of
  its own, its \<open>handle_\<close> function runs, and the buffer is released; a message that
  has to be processed has a second reference in the queue.  What is sent through
  the queue leaves it the same way.
\<close>

subsection \<open>Receiving\<close>

text \<open>The place of the port with an index; \<open>None\<close> when no port has it.\<close>

definition get_ptp_port :: "nat \<Rightarrow> world \<Rightarrow> nat option" where
  "get_ptp_port index w =
     List.find (\<lambda>n. p_index (port n w) = index) [1..<Suc (c_cnt (w_clock w))]"

text \<open>The length a received message has in its header, in network order.\<close>

definition wire_length :: "byte_list \<Rightarrow> nat option" where
  "wire_length m = (if inb F_messageLength m then Some (le_val (rev (get_bytes 2 2 m))) else None)"

definition handle_msg :: "bool \<Rightarrow> nat \<Rightarrow> nat \<Rightarrow> nat \<Rightarrow> world \<Rightarrow> world option" where
  "handle_msg delayed type n a w =
     (if type = SYNC_MSG then (if delayed then handle_delayed_sync n a w else handle_sync n a w)
      else if type = FOLLOW_UP_MSG then handle_fup n a w
      else if type = ANNOUNCE_MSG then handle_announce n a w
      else if type = DELAY_REQ_MSG then (if delayed then handle_delayed_delay_req n a w else handle_delay_req n a w)
      else if type = DELAY_RESP_MSG then handle_delay_resp n a w
      else if type = PDELAY_REQ_MSG then (if delayed then handle_delayed_pdelay_req n a w else handle_pdelay_req n a w)
      else if type = PDELAY_RESP_MSG then (if delayed then handle_delayed_pdelay_resp n a w else handle_pdelay_resp n a w)
      else if type = PDELAY_RESP_FOLLOW_UP_MSG then handle_pdelay_resp_fup n a w
      else if type = MANAGEMENT_MSG then handle_management n a w
      else if type = SIGNALING_MSG then handle_signaling n a w
      else Some w)"

definition release :: "nat \<Rightarrow> world \<Rightarrow> world option" where
  "release a = on_msgs (on_heap (msg_put a))"

text \<open>The source address, the port and the kind of a message in its buffer.\<close>

definition stamp_msg :: "byte_list option \<Rightarrow> nat \<Rightarrow> bool \<Rightarrow> ptp_message \<Rightarrow> ptp_message" where
  "stamp_msg src n delayed m =
     m\<lparr>m_src := (case src of None \<Rightarrow> m_src m | Some s \<Rightarrow> s), m_p := n,
       m_save := (m_save m)\<lparr>sa_delayed := delayed\<rparr>\<rparr>"

text \<open>Whether \<open>ptp_rx\<close> takes a message: the state of the port, the domain and the profile.\<close>

definition rx_accepted :: "nat \<Rightarrow> byte_list \<Rightarrow> world \<Rightarrow> bool" where
  "rx_accepted n msg w \<longleftrightarrow>
     p_state (port n w) \<notin> {PTP_S_INIT, PTP_S_INITIALIZING, PTP_S_FAULTY, PTP_S_DISABLED} \<and>
     own_domain msg w \<and> transportSpecific msg = unat (cmsgs cm_specific w)"

definition ptp_rx :: "nat \<Rightarrow> byte_list \<Rightarrow> ptp_utime option \<Rightarrow> bool \<Rightarrow> byte_list option \<Rightarrow> world \<Rightarrow> world option" where
  "ptp_rx n msg rx delayed src w =
     (if length msg < 34 then None
      else if flag fl_gptp n w \<and> transportSpecific msg \<noteq> 1
      then
        (let w = (if w_spec w \<noteq> transportSpecific msg
                  then upd_port n (\<lambda>p. p\<lparr>p_resp_missing := ALLOWED_LOST_RESPONSES - 1\<rparr>) w else w)
         in Some (w\<lparr>w_spec := transportSpecific msg\<rparr>))
      else if \<not> rx_accepted n msg w then Some w
      else do {
        len \<leftarrow> wire_length msg;
        (r, h) \<leftarrow> alloc_msg (Some msg) len rx (st_heap (w_msgs w));
        let w = w\<lparr>w_msgs := (w_msgs w)\<lparr>st_heap := h\<rparr>\<rparr>;
        case r of
          None \<Rightarrow> Some w
        | Some a \<Rightarrow>
            do {
              w \<leftarrow> on_msgs (on_heap (upd_msg a (stamp_msg src n delayed))) w;
              w \<leftarrow> handle_msg delayed (messageType msg) n a w;
              release a w } })"

text \<open>
  An entry of \<open>ptp_hw_ports\<close> that no clock has keeps the index 0 and a null \<open>c\<close>.
  \<open>get_ptp_port (0)\<close> finds it, and \<open>ptp_setup_rx\<close> follows the null pointer.
\<close>

definition unowned_port :: "nat \<Rightarrow> world \<Rightarrow> bool" where
  "unowned_port index w \<longleftrightarrow> index = 0 \<and> c_cnt (w_clock w) < 13"

definition ptp_setup_rx ::
  "byte_list \<Rightarrow> nat \<Rightarrow> u32 \<Rightarrow> u32 \<Rightarrow> bool \<Rightarrow> byte_list option \<Rightarrow> bool \<Rightarrow> u16 \<Rightarrow> world \<Rightarrow> world option" where
  "ptp_setup_rx msg index sec nsec delayed src raw vid w =
     (if unowned_port index w then None
      else case get_ptp_port index w of
        None \<Rightarrow> Some w
      | Some n \<Rightarrow>
          (let w = (if cflag cf_report_link w \<and> flag fl_report_ready n w then sched_now W_ethernet_ready w else w)
           in if \<not> delayed \<and> (vid \<noteq> 0 \<and> vid \<noteq> cmsgs cm_vid w AND 0xFFF \<or> raw \<noteq> (cmsgs cm_transport w = 0))
              then Some w
              else ptp_rx n msg (if nsec \<noteq> 0 then Some \<lparr>ut_sec = sec, ut_nsec = nsec\<rparr> else None) delayed src w))"

text \<open>
  A transmit timestamp from the driver.  It becomes a message of a header alone,
  on the stack: \<open>junk\<close> are the bytes that were there.
\<close>

record ptp_msg_options =
  mo_id :: ptp_port_identity
  mo_seqid :: u16
  mo_domain :: u8
  mo_msg :: nat
  mo_specific :: nat
  mo_port :: nat
  mo_sec :: u32
  mo_nsec :: u32

definition timestamp_msg :: "ptp_msg_options \<Rightarrow> byte_list \<Rightarrow> byte_list option" where
  "timestamp_msg o' junk =
     do {
       m \<leftarrow> put_port_id 20 (mo_id o') junk;
       m \<leftarrow> wro F_sequenceId (unat (mo_seqid o')) m;
       m \<leftarrow> wro F_domainNumber (unat (mo_domain o')) m;
       m \<leftarrow> wro F_messageLength (le_val (rev (le_bytes 2 34))) m;
       m \<leftarrow> wro F_correctionField 0 m;
       wro (0, 1) (mo_msg o' mod 16 + 16 * (mo_specific o' mod 16)) m }"

definition proc_tx_timestamp :: "ptp_msg_options \<Rightarrow> byte_list \<Rightarrow> world \<Rightarrow> world option" where
  "proc_tx_timestamp o' junk w =
     do {
       m \<leftarrow> timestamp_msg o' junk;
       ptp_setup_rx m (mo_port o') (mo_sec o') (mo_nsec o') True None False 0 w }"

subsection \<open>Processing\<close>

definition ptp_proc_rx :: "ptp_message \<Rightarrow> world \<Rightarrow> world option" where
  "ptp_proc_rx m w =
     (let n = m_p m; type = messageType (m_msg m); delayed = sa_delayed (m_save m)
      in if type = SYNC_MSG then (if delayed then proc_delayed_sync n m w else proc_sync n m w)
         else if type = FOLLOW_UP_MSG then proc_fup n m w
         else if type = ANNOUNCE_MSG then proc_announce n (m_msg m) w
         else if type = DELAY_REQ_MSG then (if delayed then proc_delayed_delay_req n w else proc_delay_req n m w)
         else if type = DELAY_RESP_MSG then proc_delay_resp n w
         else if type = PDELAY_REQ_MSG then (if delayed then proc_delayed_pdelay_req n w else proc_pdelay_req n m w)
         else if type = PDELAY_RESP_MSG then (if delayed then proc_delayed_pdelay_resp n m w else proc_pdelay_resp n m w)
         else if type = PDELAY_RESP_FOLLOW_UP_MSG then proc_pdelay_resp_fup n m w
         else if type = MANAGEMENT_MSG then proc_management n m w
         else if type = SIGNALING_MSG then proc_signaling n m w
         else Some w)"

text \<open>
  One turn of the loop of \<open>ptp_process_task\<close>.  An empty queue keeps the task
  waiting.
\<close>

definition process_msg :: "world \<Rightarrow> world option" where
  "process_msg w =
     (case st_queue (w_msgs w) of
        [] \<Rightarrow> Some w
      | a # q \<Rightarrow>
          do {
            let w = w\<lparr>w_msgs := (w_msgs w)\<lparr>st_queue := q\<rparr>\<rparr>;
            m \<leftarrow> get_msg a w;
            let s = m_save m;
            w \<leftarrow> (if sa_tx s
                  then Some (emit (E_tx_msg (m_msg m) (sa_index s) (sa_portmap s) (sa_queue s) (sa_udp s)
                               (sa_vid s) (sa_sec s) (sa_nsec s) None) w)
                  else ptp_proc_rx m w);
            release a w })"

end
