(* ===== verification/Works.thy ===== *)
theory Works
  imports Dispatch
begin

text \<open>
  The works of the clock (\<^verbatim>\<open>ptp_clock.c\<close>): the periodic Announce and Sync, what
  happens when the Sync or the Follow_Up of the master is missing, the requests
  for another interval, and stopping.  The functions that end in \<open>_func\<close> are the
  timer callbacks that schedule them.  \<open>None\<close> is an access through a null or
  dangling pointer.
\<close>

subsection \<open>Announce and Sync\<close>

definition on_master :: "(nat \<Rightarrow> world \<Rightarrow> world option) \<Rightarrow> nat \<Rightarrow> world \<Rightarrow> world option" where
  "on_master f n w = (if p_state (port n w) \<noteq> PTP_S_MASTER then Some w else f n w)"

definition on_capable :: "(nat \<Rightarrow> world \<Rightarrow> world option) \<Rightarrow> nat \<Rightarrow> world \<Rightarrow> world option" where
  "on_capable f = on_master (\<lambda>n w. if \<not> port_capable (port n w) then Some w else f n w)"

definition all_ports :: "world \<Rightarrow> nat list" where
  "all_ports w = [1..<Suc (c_cnt (w_clock w))]"

definition clock_tx_announce :: "world \<Rightarrow> world option" where
  "clock_tx_announce w =
     (if cflag cf_no_announce w then Some w
      else if \<not> flag fl_gptp 0 w then port_tx_announce 0 w
      else if p_state (port 0 w) = PTP_S_MASTER then each_port (on_master port_tx_announce) (all_ports w) w
      else do {
        w \<leftarrow> upd_slot Last_ann next_seqid w;
        (_, m) \<leftarrow> slot_msg Last_ann w;
        each_port (on_capable (\<lambda>n. port_fwd_announce n (m_msg m))) (all_ports w) w })"

text \<open>The Sync kept in \<open>last_sync\<close>, sent again with the next sequence id.\<close>

definition fwd_last_sync :: "nat \<Rightarrow> world \<Rightarrow> world option" where
  "fwd_last_sync n w =
     do {
       (_, m) \<leftarrow> slot_msg Last_sync w;
       let s = sequenceId (m_msg m);
       port_fwd_sync n (m_msg m) (upd_cmsgs (\<lambda>c. c\<lparr>cm_tx_sync_seqid := s, cm_tx_fup_seqid := s\<rparr>) w) }"

definition clock_tx_sync :: "world \<Rightarrow> world option" where
  "clock_tx_sync w =
     (if \<not> flag fl_gptp 0 w then port_tx_sync 0 w
      else if p_state (port 0 w) = PTP_S_MASTER then each_port (on_master port_tx_sync) (all_ports w) w
      else if slot_of Last_sync w \<noteq> None \<and> slot_of Last_fup w \<noteq> None
      then do {
        w \<leftarrow> ptp_check_residence (upd_cmsgs (\<lambda>c. c\<lparr>cm_first_sync_tx := (cm_first_sync_tx c)\<lparr>ut_sec := 0\<rparr>\<rparr>) w);
        each_port (on_capable fwd_last_sync) (all_ports w) w }
      else Some w)"

text \<open>The last part of \<open>clock_sync_work\<close>, at every hundredth run.\<close>

definition rearm_reports :: "ptp_clock \<Rightarrow> ptp_clock" where
  "rearm_reports c =
     c\<lparr>c_ports := (case c_ports c of
        [] \<Rightarrow> []
      | h # ps \<Rightarrow> h # map (\<lambda>p. if fl_p2p (p_flags p) \<and> p_cnt_delay_resp p = 0 then p\<lparr>p_cnt_delay_resp := 10\<rparr> else p)
                        (take (c_cnt c) ps) @ drop (c_cnt c) ps)\<rparr>"

definition clock_sync_work :: "world \<Rightarrow> world option" where
  "clock_sync_work w =
     (if c_live_ports (w_clock w) = 0 then Some w
      else do {
        let w = upd_clock (\<lambda>c. c\<lparr>c_ann_cnt := (c_ann_cnt c + 1) AND c_ann_max c\<rparr>) w;
        w \<leftarrow> (if c_ann_cnt (w_clock w) = 0 then clock_tx_announce w else Some w);
        let w = upd_clock (\<lambda>c. c\<lparr>c_sync_cnt := (c_sync_cnt c + 1) AND c_sync_max c\<rparr>) w;
        w \<leftarrow> (if c_sync_cnt (w_clock w) = 0 then clock_tx_sync w else Some w);
        let w = upd_cmsgs (\<lambda>c. c\<lparr>cm_time_cnt := cm_time_cnt c + 1\<rparr>) w;
        Some (if cmsgs cm_time_cnt w mod 100 = 0 then upd_clock rearm_reports w else w) })"

definition clock_sync_func :: "world \<Rightarrow> world" where
  "clock_sync_func w =
     (let w = (if c_last_sync_time_jiffies (w_clock w) = 1
               then upd_timers (\<lambda>t. t\<lparr>ct_sync := ksz_change_timer (ct_sync t) (t_period (ct_sync t)) (t_period (ct_sync t))\<rparr>) w
               else w);
          w = sched_now W_sync w
      in upd_clock (\<lambda>c. c\<lparr>c_last_sync_time_jiffies := time_save (w_jiffies w) 2\<rparr>) w)"

subsection \<open>A missing Follow_Up\<close>

text \<open>The Follow_Up of a port that knows when its Sync was sent.\<close>

definition fwd_last_fup :: "nat \<Rightarrow> world \<Rightarrow> world option" where
  "fwd_last_fup n w = (if ut_sec (mi_hw_time (pmsgs pm_tx_sync n w)) \<noteq> 0 then ptp_fwd_fup n w else Some w)"

definition set_slot :: "slot \<Rightarrow> nat \<Rightarrow> world \<Rightarrow> world" where
  "set_slot s a w = w\<lparr>w_msgs := (w_msgs w)\<lparr>st_slot := (st_slot (w_msgs w))(s \<mapsto> a)\<rparr>\<rparr>"

text \<open>
  The first part of \<open>clock_fup_timeout\<close>: \<open>last_rx_fup\<close> is there, made from the
  template with the source of the last Sync when it was not; \<open>False\<close> without memory.
\<close>

definition have_rx_fup :: "world \<Rightarrow> (bool \<times> world) option" where
  "have_rx_fup w =
     (case slot_of Last_rx_fup w of
        Some _ \<Rightarrow> Some (True, w)
      | None \<Rightarrow>
          do {
            let temp = cmsgs cm_fup_template w;
            (r, w) \<leftarrow> alloc_new (rd F_messageLength temp + 32) w;
            case r of
              None \<Rightarrow> Some (False, w)
            | Some a \<Rightarrow>
                do {
                  m \<leftarrow> get_msg a w;
                  b \<leftarrow> copy_msg temp (m_msg m);
                  (_, s) \<leftarrow> slot_msg Last_sync w;
                  b \<leftarrow> clock_add_follow_up (put_bytes 20 (get_bytes 20 10 (m_msg s)) b);
                  w \<leftarrow> set_msg a b w;
                  Some (True, set_slot Last_rx_fup a w) } })"

text \<open>\<open>last_rx_fup\<close> gets the sequence id of \<open>last_sync\<close>.\<close>

definition align_rx_fup :: "world \<Rightarrow> world option" where
  "align_rx_fup w =
     do {
       (_, s) \<leftarrow> slot_msg Last_sync w;
       upd_slot Last_rx_fup (set_sequenceId (sequenceId (m_msg s))) w }"

definition clock_fup_timeout :: "world \<Rightarrow> world option" where
  "clock_fup_timeout w =
     (if slot_of Last_fup w \<noteq> None then Some w
      else do {
        (ok, w) \<leftarrow> have_rx_fup w;
        if \<not> ok then Some w
        else do {
          w \<leftarrow> align_rx_fup w;
          (a, m) \<leftarrow> slot_msg Last_rx_fup w;
          w \<leftarrow> save_slot Last_fup a w;
          w \<leftarrow> save_slot Base_fup a w;
          let w = upd_cflags (\<lambda>f. f\<lparr>cf_miss_fup := True\<rparr>) w;
          let w = upd_cmsgs (\<lambda>c. c\<lparr>cm_tx_fup_seqid := sequenceId (m_msg m),
                    cm_first_sync_tx := (cm_first_sync_tx c)\<lparr>ut_sec := 0\<rparr>\<rparr>) w;
          each_port (on_capable fwd_last_fup) (all_ports w) w } })"

definition clock_fup_timeout_work :: "world \<Rightarrow> world option" where
  "clock_fup_timeout_work w =
     do {
       w \<leftarrow> clock_fup_timeout w;
       Some (if cflag cf_sync_timeout_ready w then sched_delayed W_sync_timeout 0 w else w) }"

definition clock_fup_timeout_func :: "world \<Rightarrow> world" where
  "clock_fup_timeout_func w =
     (let w = upd_timers (\<lambda>t. t\<lparr>ct_fup_timeout :=
                (if \<not> t_repeat (ct_fup_timeout t) then (ct_fup_timeout t)\<lparr>t_max := 0\<rparr> else ct_fup_timeout t)\<rparr>) w
      in if p_state (port 0 w) = PTP_S_DISABLED then w else sched_delayed W_fup_timeout 0 w)"

subsection \<open>A missing Sync\<close>

text \<open>A Sync made from the template, and the Follow_Up that goes with it.\<close>

definition own_source :: "nat \<Rightarrow> world \<Rightarrow> world option" where
  "own_source a w =
     (if cflag cf_no_announce w then Some w
      else do { m \<leftarrow> get_msg a w; set_msg a (put_bytes 20 (c_best_id (w_clock w)) (m_msg m)) w })"

definition made_sync :: "world \<Rightarrow> (bool \<times> world) option" where
  "made_sync w =
     do {
       let temp = cmsgs cm_sync_template w;
       (r, w) \<leftarrow> alloc_new (rd F_messageLength temp) w;
       case r of
         None \<Rightarrow> Some (False, w)
       | Some a \<Rightarrow>
           do {
             m \<leftarrow> get_msg a w;
             b \<leftarrow> copy_msg temp (m_msg m);
             w \<leftarrow> set_msg a b w;
             w \<leftarrow> own_source a w;
             m \<leftarrow> get_msg a w;
             w \<leftarrow> set_msg a (set_twoStepFlag (set_sequenceId 0xFFFF (m_msg m))) w;
             w \<leftarrow> save_slot Base_sync a (set_slot Last_sync a w);
             Some (True, w) } }"

definition made_fup :: "world \<Rightarrow> world option" where
  "made_fup w =
     do {
       let temp = cmsgs cm_fup_template w;
       (r, w) \<leftarrow> alloc_new (rd F_messageLength temp + 32) w;
       case r of
         None \<Rightarrow> Some w
       | Some a \<Rightarrow>
           do {
             m \<leftarrow> get_msg a w;
             b \<leftarrow> copy_msg temp (m_msg m);
             w \<leftarrow> set_msg a b w;
             w \<leftarrow> own_source a w;
             m \<leftarrow> get_msg a w;
             b \<leftarrow> clock_add_follow_up (set_sequenceId 0xFFFF (m_msg m));
             w \<leftarrow> set_msg a b w;
             w \<leftarrow> save_slot Last_rx_fup a (set_slot Last_fup a w);
             save_slot Base_fup a w } }"

definition clock_sync_timeout :: "world \<Rightarrow> world option" where
  "clock_sync_timeout w =
     (let w = upd_cflags (\<lambda>f. f\<lparr>cf_first_sync := False, cf_report_sync := True\<rparr>) w;
          w = upd_cmsgs (\<lambda>c. c\<lparr>cm_prev_sync_jiffies := 0\<rparr>) w;
          w = upd_clock (\<lambda>c. c\<lparr>c_rx_sync_seqid := 0x20000, c_rx_fup_seqid := 0x20001\<rparr>) w
      in if ut_sec (cmsgs cm_last_sync_rx w) \<noteq> 0
         then do {
           w \<leftarrow> align_rx_fup w;
           a \<leftarrow> slot_of Last_rx_fup w;
           save_slot Last_fup a w }
         else if clock_class (w_clock w) = 255 then Some w
         else do {
           w \<leftarrow> clear_slot Last_sync w;
           w \<leftarrow> clear_slot Last_fup w;
           w \<leftarrow> clear_slot Last_rx_fup w;
           w \<leftarrow> clear_slot Base_sync w;
           w \<leftarrow> clear_slot Base_fup w;
           (ok, w) \<leftarrow> made_sync w;
           if ok then made_fup w else Some w })"

definition clock_sync_timeout_work :: "world \<Rightarrow> world option" where
  "clock_sync_timeout_work w =
     (if time_delta (c_set_sync_timeout_jiffies (w_clock w)) (w_jiffies w) \<le> 1
      then Some (upd_cflags (\<lambda>f. f\<lparr>cf_sync_timeout_ready := True\<rparr>) w)
      else do {
        let w = clock_stop_sync_interval w;
        let fup_timeout = (t_max (ctimer ct_fup_timeout w) \<noteq> 0);
        let w = clock_stop_fup_timeout w;
        let w = (if cflag cf_signaling w then clock_stop_signaling_timer w else w);
        let w = upd_cflags (\<lambda>f. f\<lparr>cf_miss_sync := True, cf_miss_fup := False\<rparr>) w;
        w \<leftarrow> (if fup_timeout then clock_fup_timeout w else Some w);
        w \<leftarrow> clock_sync_timeout w;
        let w = upd_cflags (\<lambda>f. f\<lparr>cf_sync_timeout := True\<rparr>) w;
        if slot_of Last_sync w = None \<or> slot_of Last_fup w = None then Some w
        else
          (let w = clock_change_sync_timer (p_logSyncInterval (port 0 w)) (clock_start_sync_timer w)
           in Some (if of_int (ptp_interval_to_ms (p_logSyncInterval (port 0 w)))
                         \<le> time_delta (c_last_sync_jiffies (w_clock w)) (w_jiffies w)
                    then sched_now W_sync w else w)) })"

definition clock_timeout_func :: "work \<Rightarrow> world \<Rightarrow> world" where
  "clock_timeout_func k w = (if p_state (port 0 w) = PTP_S_DISABLED then w else sched_delayed k 0 w)"

definition clock_sync_timeout_func :: "world \<Rightarrow> world" where
  "clock_sync_timeout_func = clock_timeout_func W_sync_timeout"

definition clock_interval_work :: "world \<Rightarrow> world" where
  "clock_interval_work w =
     (let diff = (if slot_of Last_sync w = None \<or> slot_of Last_fup w = None then 0
                  else time_delta (c_last_sync_jiffies (w_clock w)) (w_jiffies w))
      in if t_period (ctimer ct_interval w) \<le> diff
         then
           (let w = upd_cflags (\<lambda>f. f\<lparr>cf_miss_sync := True, cf_miss_fup := True\<rparr>) w;
                w = upd_clock (\<lambda>c. c\<lparr>c_ann_cnt := 0, c_sync_cnt := c_sync_max c\<rparr>) w
            in sched_now W_sync w)
         else w)"

definition clock_interval_func :: "world \<Rightarrow> world" where
  "clock_interval_func w =
     sched_now W_interval (upd_timers (\<lambda>t. if t_repeat (ct_interval t)
       then t\<lparr>ct_interval := ksz_change_timer (ct_interval t) (t_period (ct_interval t)) (t_period (ct_interval t))\<rparr>
       else t) w)"

subsection \<open>Requests for an interval\<close>

text \<open>The end of the time a slave stays with the first interval; \<open>n\<close> is the slave port.\<close>

definition oper_interval :: "nat \<Rightarrow> world \<Rightarrow> world" where
  "oper_interval n w =
     (let diff = time_delta (c_oper_sync_jiffies (w_clock w)) (w_jiffies w)
      in if c_oper_sync_jiffies (w_clock w) \<noteq> 0 \<and> of_nat (unat (p_waitSyncInterval (port n w)) * 1000) \<le> diff
         then
           (let w = upd_clock (\<lambda>c. c\<lparr>c_oper_sync_jiffies := 0\<rparr>) w;
                w = (if p_logSyncInterval (port n w) \<noteq> p_operSyncInterval (port n w)
                     then
                       (let w = upd_port n (\<lambda>p. p\<lparr>p_logSyncInterval := p_operSyncInterval p,
                                  p_ds := (p_ds p)\<lparr>pds_logSyncInterval := p_operSyncInterval p\<rparr>\<rparr>) w
                        in ptp_change_slave_interval (p_operSyncInterval (port n w)) False w)
                     else w)
            in if \<not> cflag cf_req_interval w then clock_stop_signaling_timer w else w)
         else w)"

definition clock_signaling_work :: "world \<Rightarrow> world option" where
  "clock_signaling_work w =
     (case c_slave_port (w_clock w) of
        None \<Rightarrow> Some w
      | Some n \<Rightarrow>
          if p_state (port n w) \<noteq> PTP_S_SLAVE \<and> p_state (port n w) \<noteq> PTP_S_UNCALIBRATED then Some w
          else do {
            (sent, w) \<leftarrow>
              (if cflag cf_req_interval w
               then do {
                 (r, w) \<leftarrow> alloc_new 100 w;
                 case r of
                   None \<Rightarrow> Some (False, w)
                 | Some a \<Rightarrow>
                     do {
                       let ann = (if \<not> cflag cf_no_announce w then c_logAnnounceInterval (w_clock w) else 127);
                       w \<leftarrow> port_tx_signal_interval n 127 (p_logSyncInterval (port 0 w)) ann (Some a) w;
                       Some (True, w) } }
               else Some (True, w));
            if \<not> sent then Some w
            else
              (let w = oper_interval n w
               in Some (if port_is_aed (port n w) \<and> \<not> cflag cf_first_sync w
                        then clock_stop_signaling_timer w else w)) })"

definition clock_signaling_func :: "world \<Rightarrow> world" where
  "clock_signaling_func = clock_timeout_func W_signaling"

definition clock_update_interval_work :: "world \<Rightarrow> world option" where
  "clock_update_interval_work = ptp_set_sync_interval"

subsection \<open>Links\<close>

definition report_ready :: "nat \<Rightarrow> world \<Rightarrow> world" where
  "report_ready n w =
     (if flag fl_report_ready n w
      then emit (E_aed_status (p_index (port n w)) False)
             (upd_pflags n (\<lambda>f. f\<lparr>fl_report_ready := False, fl_report_ready_done := True\<rparr>) w)
      else w)"

definition clock_ethernet_ready_work :: "world \<Rightarrow> world" where
  "clock_ethernet_ready_work w =
     (if \<not> cfg_automotive_test (w_cfg w) then w
      else upd_cflags (\<lambda>f. f\<lparr>cf_report_link := False\<rparr>) (fold report_ready (all_ports w) w))"

text \<open>The low bits of the status are the speed, none without a link; the high bit is half duplex.  The driver numbers the ports from 1.\<close>

definition proc_link_status :: "nat \<Rightarrow> u8 \<Rightarrow> world \<Rightarrow> world" where
  "proc_link_status index status w =
     (case get_ptp_port index w of
        None \<Rightarrow> w
      | Some n \<Rightarrow>
          (let speed = (bit status 0 \<or> bit status 1 \<or> bit status 2);
               half = bit status 7;
               w = (if speed
                    then upd_pflags n (\<lambda>f. f\<lparr>fl_use_one_way_resp := (half \<and> fl_use_delay f \<or> fl_use_one_way_resp f),
                           fl_report_ready := True, fl_no_link := False\<rparr>) w
                    else upd_pflags n (\<lambda>f. f\<lparr>fl_no_link := True, fl_report_ready_done := False\<rparr>) w);
               ev = (if \<not> speed then EVENT_FAULT_SET else if p_last_fault (port n w) \<noteq> 0 then EVENT_NONE else EVENT_FAULT_CLEAR);
               w = port_set_state n (port_event (w_clock w) (port n w) ev) w;
               w = (if \<not> cflag cf_stop w then handle_state_decision w else w)
           in if cfg_automotive_test (w_cfg w) \<and> flag fl_report_ready n w
              then sched_delayed W_ethernet_ready 10 (upd_cflags (\<lambda>f. f\<lparr>cf_report_link := True\<rparr>) w)
              else w))"

subsection \<open>Stopping\<close>

definition clock_stop :: "world \<Rightarrow> world" where
  "clock_stop w =
     (let w = clock_stop_sync_timer w;
          w = clock_stop_sync_interval (clock_stop_fup_timeout (clock_stop_sync_timeout w));
          w = fold (\<lambda>n. port_set_state n PTP_S_DISABLED) [0..<Suc (c_cnt (w_clock w))] w;
          w = (if cflag cf_signaling w then clock_stop_signaling_timer w else w);
          w = upd_timers (\<lambda>t. \<lparr>ct_sync = ksz_exit_timer (ct_sync t), ct_interval = ksz_exit_timer (ct_interval t),
                ct_sync_timeout = ksz_exit_timer (ct_sync_timeout t), ct_fup_timeout = ksz_exit_timer (ct_fup_timeout t),
                ct_signaling = ksz_exit_timer (ct_signaling t)\<rparr>) w;
          w = upd_cmsgs (\<lambda>c. c\<lparr>cm_last_sync_rx := utime_zero\<rparr>) w;
          w = upd_clock (\<lambda>c. c\<lparr>c_last_sync_jiffies := 0\<rparr>) w
      in upd_cflags (\<lambda>f. f\<lparr>cf_stop := True, cf_setup := False\<rparr>) w)"

definition clock_delete_ptp_msg :: "world \<Rightarrow> world option" where
  "clock_delete_ptp_msg w =
     do {
       w \<leftarrow> clear_slot Last_sync w;
       w \<leftarrow> clear_slot Last_fup w;
       w \<leftarrow> clear_slot Last_rx_fup w;
       w \<leftarrow> clear_slot Last_ann w;
       w \<leftarrow> clear_slot Base_sync w;
       clear_slot Base_fup w }"

text \<open>The works of a port: \<open>delay_req_work\<close> is set for the delay mechanism of the port.\<close>

definition port_delay_req_work :: "nat \<Rightarrow> world \<Rightarrow> world option" where
  "port_delay_req_work = port_tx_delay_req"

definition port_pdelay_req_work :: "nat \<Rightarrow> world \<Rightarrow> world option" where
  "port_pdelay_req_work = port_tx_pdelay_req"

end
