(* ===== verification/Config.thy ===== *)
theory Config
  imports Prelude "HOL-Library.Monad_Syntax"
begin

text \<open>
  The saved configuration (\<^verbatim>\<open>os/config_store.c\<close>): the three static tables and the
  global values, the functions that read and write them, and \<open>init_config\<close>, which
  reads the configuration file.  An accessor gives \<open>None\<close> where the code returns
  \<open>-EINVAL\<close> and leaves its outputs and the tables alone.  The file is the string of
  its characters; \<open>fgets\<close>, \<open>strchr\<close>, \<open>strstr\<close> and the four formats of \<open>sscanf\<close> that
  the code uses are written out.  A number that does not fit an \<open>int\<close> is undefined
  in C: what the library makes of it is the parameter \<open>big\<close>.
\<close>

abbreviation (input) MAX_PTP_PROFILES :: nat where "MAX_PTP_PROFILES \<equiv> 3"
abbreviation (input) MAX_CFG_PORTS :: nat where "MAX_CFG_PORTS \<equiv> 8"
abbreviation (input) EINVAL :: int where "EINVAL \<equiv> 22"

subsection \<open>The tables\<close>

record config_store_ptp_global =
  g_utcOffset :: u8
  g_maxAllowedMissedResponses :: u8
  g_maxAllowedDelayFaults :: u8
  g_followUpReceiptTimeout :: u8
  g_initialSyncTimeout :: u8
  g_waitPdelayReqInterval :: u8
  g_waitSyncInterval :: u8

abbreviation (input) PTP_FLAGS_2_STEP :: nat where "PTP_FLAGS_2_STEP \<equiv> 0"
abbreviation (input) PTP_FLAGS_GM_CAPABLE :: nat where "PTP_FLAGS_GM_CAPABLE \<equiv> 1"
abbreviation (input) PTP_FLAGS_CMLDS :: nat where "PTP_FLAGS_CMLDS \<equiv> 2"
abbreviation (input) PTP_FLAGS_E2E :: nat where "PTP_FLAGS_E2E \<equiv> 3"
abbreviation (input) PTP_FLAGS_P2P :: nat where "PTP_FLAGS_P2P \<equiv> 4"

record config_store_ptp_profile =
  f_ports :: u16
  f_stackFlags :: u16
  f_profile :: u8
  f_transport :: u8
  f_domain :: u8
  f_priority1 :: u8
  f_priority2 :: u8
  f_offsetScaledLogVariance :: u16
  f_clkClass :: u8
  f_clkAccuracy :: u8
  f_majorSDOID :: u8
  f_minorSDOID :: u8
  f_vlan :: u16

record config_store_ptp_port_profile =
  o_announceReceiptTimeout :: u8
  o_syncReceiptTimeout :: u8
  o_logSyncInterval :: int
  o_logAnnounceInterval :: int
  o_logMinDelayReqInterval :: int
  o_logMinPdelayReqInterval :: int
  o_operLogSyncInterval :: int
  o_operLogMinPdelayReqInterval :: int
  o_neighborPropDelayThresh :: u16

record config_store_ptp_port_setting =
  e_receiveLatency :: u16
  e_transmitLatency :: u16
  e_delayAsymmetry :: int
  e_peerDelay :: u16
  e_masterOnly :: u8
  e_useDelayReq :: u8

record config_store =
  ptp_global :: config_store_ptp_global
  ptp_profiles :: "config_store_ptp_profile list"
  ptp_port_profiles :: "config_store_ptp_port_profile list"
  ptp_settings :: "config_store_ptp_port_setting list"

definition default_profile :: "u16 \<Rightarrow> u8 \<Rightarrow> u8 \<Rightarrow> u8 \<Rightarrow> config_store_ptp_profile" where
  "default_profile ports profile transport sdo =
     \<lparr>f_ports = ports, f_stackFlags = 0x13, f_profile = profile, f_transport = transport, f_domain = 0,
      f_priority1 = 246, f_priority2 = 248, f_offsetScaledLogVariance = 0x436A, f_clkClass = 248,
      f_clkAccuracy = 0x21, f_majorSDOID = sdo, f_minorSDOID = 0, f_vlan = 0\<rparr>"

text \<open>The initial values; only the first entry of the port tables has an initialiser.\<close>

definition default_store :: config_store where
  "default_store =
     \<lparr>ptp_global = \<lparr>g_utcOffset = 37, g_maxAllowedMissedResponses = 3, g_maxAllowedDelayFaults = 5,
        g_followUpReceiptTimeout = 25, g_initialSyncTimeout = 3, g_waitPdelayReqInterval = 10, g_waitSyncInterval = 5\<rparr>,
      ptp_profiles = [default_profile 0x1F 0 1 0, default_profile 0 1 0 1, default_profile 0 2 0 1],
      ptp_port_profiles =
        \<lparr>o_announceReceiptTimeout = 3, o_syncReceiptTimeout = 3, o_logSyncInterval = - 3, o_logAnnounceInterval = 0,
         o_logMinDelayReqInterval = 0, o_logMinPdelayReqInterval = 0, o_operLogSyncInterval = 2,
         o_operLogMinPdelayReqInterval = 0, o_neighborPropDelayThresh = 800\<rparr> #
        replicate 7 \<lparr>o_announceReceiptTimeout = 0, o_syncReceiptTimeout = 0, o_logSyncInterval = 0,
         o_logAnnounceInterval = 0, o_logMinDelayReqInterval = 0, o_logMinPdelayReqInterval = 0,
         o_operLogSyncInterval = 0, o_operLogMinPdelayReqInterval = 0, o_neighborPropDelayThresh = 0\<rparr>,
      ptp_settings =
        \<lparr>e_receiveLatency = 600, e_transmitLatency = 300, e_delayAsymmetry = 0, e_peerDelay = 10, e_masterOnly = 1,
         e_useDelayReq = 1\<rparr> #
        replicate 7 \<lparr>e_receiveLatency = 0, e_transmitLatency = 0, e_delayAsymmetry = 0, e_peerDelay = 0,
         e_masterOnly = 0, e_useDelayReq = 0\<rparr>\<rparr>"

subsection \<open>Access by index\<close>

text \<open>The result and the index it leaves.\<close>

definition chk_index :: "u8 \<Rightarrow> nat \<Rightarrow> int \<times> u8" where
  "chk_index index mx =
     (if index = 0 then (- EINVAL, index)
      else if unat (index - 1) \<ge> mx then (- EINVAL, index - 1)
      else (0, index - 1))"

definition get_at :: "nat \<Rightarrow> (config_store \<Rightarrow> 'e list) \<Rightarrow> ('e \<Rightarrow> 'v) \<Rightarrow> u8 \<Rightarrow> config_store \<Rightarrow> 'v option" where
  "get_at mx table f index s =
     (let (rc, i) = chk_index index mx in if rc \<noteq> 0 then None else Some (f (table s ! unat i)))"

definition set_at ::
  "nat \<Rightarrow> (('e list \<Rightarrow> 'e list) \<Rightarrow> config_store \<Rightarrow> config_store) \<Rightarrow> ('v \<Rightarrow> 'e \<Rightarrow> 'e) \<Rightarrow> u8 \<Rightarrow> 'v \<Rightarrow> config_store \<Rightarrow> config_store option" where
  "set_at mx upd f index v s =
     (let (rc, i) = chk_index index mx
      in if rc \<noteq> 0 then None else Some (upd (\<lambda>t. t[unat i := f v (t ! unat i)]) s))"

abbreviation "get_profile \<equiv> get_at MAX_PTP_PROFILES ptp_profiles"
abbreviation "set_profile \<equiv> set_at MAX_PTP_PROFILES ptp_profiles_update"
abbreviation "get_port_profile \<equiv> get_at MAX_CFG_PORTS ptp_port_profiles"
abbreviation "set_port_profile \<equiv> set_at MAX_CFG_PORTS ptp_port_profiles_update"
abbreviation "get_setting \<equiv> get_at MAX_CFG_PORTS ptp_settings"
abbreviation "set_setting \<equiv> set_at MAX_CFG_PORTS ptp_settings_update"

subsection \<open>Global values\<close>

definition gptp_get_allowed :: "config_store \<Rightarrow> u8 \<times> u8" where
  "gptp_get_allowed s = (g_maxAllowedMissedResponses (ptp_global s), g_maxAllowedDelayFaults (ptp_global s))"

definition gptp_get_follow_up_timeout :: "config_store \<Rightarrow> u8" where
  "gptp_get_follow_up_timeout s = g_followUpReceiptTimeout (ptp_global s)"

definition gptp_get_initial_wait :: "config_store \<Rightarrow> u8 \<times> u8 \<times> u8" where
  "gptp_get_initial_wait s =
     (g_initialSyncTimeout (ptp_global s), g_waitSyncInterval (ptp_global s), g_waitPdelayReqInterval (ptp_global s))"

definition gptp_set_initial_wait :: "u8 \<Rightarrow> u8 \<Rightarrow> u8 \<Rightarrow> config_store \<Rightarrow> config_store" where
  "gptp_set_initial_wait initial wait_sync wait_pdelay s =
     s\<lparr>ptp_global := (ptp_global s)\<lparr>g_initialSyncTimeout := initial, g_waitSyncInterval := wait_sync,
        g_waitPdelayReqInterval := wait_pdelay\<rparr>\<rparr>"

definition gptp_get_utc :: "config_store \<Rightarrow> u8" where
  "gptp_get_utc s = g_utcOffset (ptp_global s)"

subsection \<open>Profiles\<close>

definition gptp_profile_get_profile :: "u8 \<Rightarrow> config_store \<Rightarrow> u8 option" where
  "gptp_profile_get_profile = get_profile f_profile"

definition gptp_profile_get_sdoid :: "u8 \<Rightarrow> config_store \<Rightarrow> (u8 \<times> u8) option" where
  "gptp_profile_get_sdoid = get_profile (\<lambda>f. (f_majorSDOID f, f_minorSDOID f))"

definition gptp_profile_set_sdoid :: "u8 \<Rightarrow> u8 \<times> u8 \<Rightarrow> config_store \<Rightarrow> config_store option" where
  "gptp_profile_set_sdoid = set_profile (\<lambda>(major, minor) f. f\<lparr>f_majorSDOID := major, f_minorSDOID := minor\<rparr>)"

definition gptp_profile_get_transport :: "u8 \<Rightarrow> config_store \<Rightarrow> u8 option" where
  "gptp_profile_get_transport = get_profile f_transport"

definition gptp_profile_get_e2e_p2p :: "u8 \<Rightarrow> config_store \<Rightarrow> (bool \<times> bool) option" where
  "gptp_profile_get_e2e_p2p = get_profile (\<lambda>f. (bit (f_stackFlags f) PTP_FLAGS_E2E, bit (f_stackFlags f) PTP_FLAGS_P2P))"

definition gptp_profile_get_gm_capable :: "u8 \<Rightarrow> config_store \<Rightarrow> bool option" where
  "gptp_profile_get_gm_capable = get_profile (\<lambda>f. bit (f_stackFlags f) PTP_FLAGS_GM_CAPABLE)"

definition gptp_profile_get_two_step :: "u8 \<Rightarrow> config_store \<Rightarrow> bool option" where
  "gptp_profile_get_two_step = get_profile (\<lambda>f. bit (f_stackFlags f) PTP_FLAGS_2_STEP)"

definition gptp_profile_get_clock_prio :: "u8 \<Rightarrow> config_store \<Rightarrow> (u8 \<times> u8) option" where
  "gptp_profile_get_clock_prio = get_profile (\<lambda>f. (f_priority1 f, f_priority2 f))"

definition gptp_profile_set_clock_prio :: "u8 \<Rightarrow> u8 \<times> u8 \<Rightarrow> config_store \<Rightarrow> config_store option" where
  "gptp_profile_set_clock_prio = set_profile (\<lambda>(prio1, prio2) f. f\<lparr>f_priority1 := prio1, f_priority2 := prio2\<rparr>)"

definition gptp_profile_get_clock_prop :: "u8 \<Rightarrow> config_store \<Rightarrow> (u8 \<times> u8 \<times> u16) option" where
  "gptp_profile_get_clock_prop = get_profile (\<lambda>f. (f_clkClass f, f_clkAccuracy f, f_offsetScaledLogVariance f))"

definition gptp_profile_set_clock_prop :: "u8 \<Rightarrow> u8 \<times> u8 \<times> u16 \<Rightarrow> config_store \<Rightarrow> config_store option" where
  "gptp_profile_set_clock_prop = set_profile (\<lambda>(clk_class, accuracy, variance) f.
     f\<lparr>f_clkClass := clk_class, f_clkAccuracy := accuracy, f_offsetScaledLogVariance := variance\<rparr>)"

definition gptp_profile_get_domain :: "u8 \<Rightarrow> config_store \<Rightarrow> (u8 \<times> u16 \<times> u16) option" where
  "gptp_profile_get_domain = get_profile (\<lambda>f. (f_domain f, f_ports f, f_vlan f))"

definition gptp_profile_set_domain :: "u8 \<Rightarrow> u8 \<times> u16 \<times> u16 \<Rightarrow> config_store \<Rightarrow> config_store option" where
  "gptp_profile_set_domain = set_profile (\<lambda>(domain, ports, vlan) f. f\<lparr>f_domain := domain, f_ports := ports, f_vlan := vlan\<rparr>)"

subsection \<open>Port profiles\<close>

definition gptp_port_profile_get_oper :: "u8 \<Rightarrow> config_store \<Rightarrow> (int \<times> int) option" where
  "gptp_port_profile_get_oper = get_port_profile (\<lambda>p. (o_operLogSyncInterval p, o_operLogMinPdelayReqInterval p))"

definition gptp_port_profile_set_oper :: "u8 \<Rightarrow> int \<times> int \<Rightarrow> config_store \<Rightarrow> config_store option" where
  "gptp_port_profile_set_oper = set_port_profile (\<lambda>(sync, pdelay) p.
     p\<lparr>o_operLogSyncInterval := sync, o_operLogMinPdelayReqInterval := pdelay\<rparr>)"

definition gptp_port_profile_get_delay :: "u8 \<Rightarrow> config_store \<Rightarrow> int option" where
  "gptp_port_profile_get_delay = get_port_profile o_logMinDelayReqInterval"

definition gptp_port_profile_set_delay :: "u8 \<Rightarrow> int \<Rightarrow> config_store \<Rightarrow> config_store option" where
  "gptp_port_profile_set_delay = set_port_profile (\<lambda>delay p. p\<lparr>o_logMinDelayReqInterval := delay\<rparr>)"

definition gptp_port_profile_get_pdelay :: "u8 \<Rightarrow> config_store \<Rightarrow> int option" where
  "gptp_port_profile_get_pdelay = get_port_profile o_logMinPdelayReqInterval"

definition gptp_port_profile_set_pdelay :: "u8 \<Rightarrow> int \<Rightarrow> config_store \<Rightarrow> config_store option" where
  "gptp_port_profile_set_pdelay = set_port_profile (\<lambda>pdelay p. p\<lparr>o_logMinPdelayReqInterval := pdelay\<rparr>)"

definition gptp_port_profile_get_announce :: "u8 \<Rightarrow> config_store \<Rightarrow> (int \<times> u8) option" where
  "gptp_port_profile_get_announce = get_port_profile (\<lambda>p. (o_logAnnounceInterval p, o_announceReceiptTimeout p))"

definition gptp_port_profile_set_announce :: "u8 \<Rightarrow> int \<times> u8 \<Rightarrow> config_store \<Rightarrow> config_store option" where
  "gptp_port_profile_set_announce = set_port_profile (\<lambda>(announce, timeout) p.
     p\<lparr>o_logAnnounceInterval := announce, o_announceReceiptTimeout := timeout\<rparr>)"

definition gptp_port_profile_get_sync :: "u8 \<Rightarrow> config_store \<Rightarrow> (int \<times> u8) option" where
  "gptp_port_profile_get_sync = get_port_profile (\<lambda>p. (o_logSyncInterval p, o_syncReceiptTimeout p))"

definition gptp_port_profile_set_sync :: "u8 \<Rightarrow> int \<times> u8 \<Rightarrow> config_store \<Rightarrow> config_store option" where
  "gptp_port_profile_set_sync = set_port_profile (\<lambda>(sync, timeout) p.
     p\<lparr>o_logSyncInterval := sync, o_syncReceiptTimeout := timeout\<rparr>)"

definition gptp_port_profile_get_delay_thresh :: "u8 \<Rightarrow> config_store \<Rightarrow> u16 option" where
  "gptp_port_profile_get_delay_thresh = get_port_profile o_neighborPropDelayThresh"

definition gptp_port_profile_set_delay_thresh :: "u8 \<Rightarrow> u16 \<Rightarrow> config_store \<Rightarrow> config_store option" where
  "gptp_port_profile_set_delay_thresh = set_port_profile (\<lambda>pdelay p. p\<lparr>o_neighborPropDelayThresh := pdelay\<rparr>)"

subsection \<open>Port settings\<close>

definition gptp_port_get_latency :: "u8 \<Rightarrow> config_store \<Rightarrow> (u16 \<times> u16 \<times> int) option" where
  "gptp_port_get_latency = get_setting (\<lambda>e. (e_receiveLatency e, e_transmitLatency e, e_delayAsymmetry e))"

definition gptp_port_set_latency :: "u8 \<Rightarrow> u16 \<times> u16 \<times> int \<Rightarrow> config_store \<Rightarrow> config_store option" where
  "gptp_port_set_latency = set_setting (\<lambda>(rx, tx, asym) e.
     e\<lparr>e_receiveLatency := rx, e_transmitLatency := tx, e_delayAsymmetry := asym\<rparr>)"

definition gptp_port_get_master :: "u8 \<Rightarrow> config_store \<Rightarrow> u8 option" where
  "gptp_port_get_master = get_setting e_masterOnly"

definition gptp_port_set_master :: "u8 \<Rightarrow> u8 \<Rightarrow> config_store \<Rightarrow> config_store option" where
  "gptp_port_set_master = set_setting (\<lambda>master e. e\<lparr>e_masterOnly := master\<rparr>)"

definition gptp_port_get_peer_delay :: "u8 \<Rightarrow> config_store \<Rightarrow> u16 option" where
  "gptp_port_get_peer_delay = get_setting e_peerDelay"

definition gptp_port_set_peer_delay :: "u8 \<Rightarrow> u16 \<Rightarrow> config_store \<Rightarrow> config_store option" where
  "gptp_port_set_peer_delay = set_setting (\<lambda>delay e. e\<lparr>e_peerDelay := delay\<rparr>)"

definition gptp_port_get_use_delay :: "u8 \<Rightarrow> config_store \<Rightarrow> u8 option" where
  "gptp_port_get_use_delay = get_setting e_useDelayReq"

definition gptp_port_set_use_delay :: "u8 \<Rightarrow> u8 \<Rightarrow> config_store \<Rightarrow> config_store option" where
  "gptp_port_set_use_delay = set_setting (\<lambda>use e. e\<lparr>e_useDelayReq := use\<rparr>)"

subsection \<open>Parameters by name\<close>

definition chk_global_param :: "string \<Rightarrow> int \<Rightarrow> config_store \<Rightarrow> config_store" where
  "chk_global_param param val s =
     (let g = ptp_global s;
          g = (if param = ''utcOffset'' then g\<lparr>g_utcOffset := of_int val\<rparr>
               else if param = ''maxAllowedMissedResponses'' then g\<lparr>g_maxAllowedMissedResponses := of_int val\<rparr>
               else if param = ''maxAllowedDelayFaults'' then g\<lparr>g_maxAllowedDelayFaults := of_int val\<rparr>
               else if param = ''followUpReceiptTimeout'' then g\<lparr>g_followUpReceiptTimeout := of_int val\<rparr>
               else if param = ''initialSyncTimeout'' then g\<lparr>g_initialSyncTimeout := of_int val\<rparr>
               else if param = ''waitPdelayReqInterval'' then g\<lparr>g_waitPdelayReqInterval := of_int val\<rparr>
               else if param = ''waitSyncInterval'' then g\<lparr>g_waitSyncInterval := of_int val\<rparr>
               else g)
      in s\<lparr>ptp_global := g\<rparr>)"

definition put_bit :: "nat \<Rightarrow> bool \<Rightarrow> u16 \<Rightarrow> u16" where
  "put_bit n on x = (if on then set_bit n x else unset_bit n x)"

definition put_flag :: "nat \<Rightarrow> bool \<Rightarrow> config_store_ptp_profile \<Rightarrow> config_store_ptp_profile" where
  "put_flag n on f = f\<lparr>f_stackFlags := put_bit n on (f_stackFlags f)\<rparr>"

definition profile_param :: "string \<Rightarrow> int \<Rightarrow> config_store_ptp_profile \<Rightarrow> config_store_ptp_profile" where
  "profile_param param val f =
     (if param = ''ports'' then f\<lparr>f_ports := of_int val\<rparr>
      else if param = ''profile'' then f\<lparr>f_profile := of_int val\<rparr>
      else if param = ''delayMechanism''
      then (let f = put_flag PTP_FLAGS_E2E False (put_flag PTP_FLAGS_P2P False f)
            in if val = 1 then put_flag PTP_FLAGS_E2E True f
               else if val = 2 then put_flag PTP_FLAGS_P2P True f else f)
      else if param = ''two_step'' then put_flag PTP_FLAGS_2_STEP (val \<noteq> 0) f
      else if param = ''gm_capable'' then put_flag PTP_FLAGS_GM_CAPABLE (val \<noteq> 0) f
      else if param = ''cmlds'' then put_flag PTP_FLAGS_CMLDS (val \<noteq> 0) f
      else if param = ''transport'' then f\<lparr>f_transport := of_int val\<rparr>
      else if param = ''domain'' then f\<lparr>f_domain := of_int val\<rparr>
      else if param = ''priority1'' then f\<lparr>f_priority1 := of_int val\<rparr>
      else if param = ''priority2'' then f\<lparr>f_priority2 := of_int val\<rparr>
      else if param = ''offsetScaledLogVariance'' then f\<lparr>f_offsetScaledLogVariance := of_int val\<rparr>
      else if param = ''clkClass'' then f\<lparr>f_clkClass := of_int val\<rparr>
      else if param = ''clkAccuracy'' then f\<lparr>f_clkAccuracy := of_int val\<rparr>
      else if param = ''majorSDOID'' then f\<lparr>f_majorSDOID := of_int val\<rparr>
      else if param = ''minorSDOID'' then f\<lparr>f_minorSDOID := of_int val\<rparr>
      else if param = ''vlan'' then f\<lparr>f_vlan := of_int val\<rparr>
      else f)"

definition chk_profile_param :: "u8 \<Rightarrow> string \<Rightarrow> int \<Rightarrow> config_store \<Rightarrow> config_store" where
  "chk_profile_param index param val s =
     (let (rc, i) = chk_index index MAX_PTP_PROFILES
      in if rc \<noteq> 0 then s
         else s\<lparr>ptp_profiles := (ptp_profiles s)[unat i := profile_param param val (ptp_profiles s ! unat i)]\<rparr>)"

text \<open>Index 0 stands for all the ports; the loop from \<open>first\<close> to \<open>last\<close>.\<close>

definition port_range :: "u8 \<Rightarrow> (nat \<times> nat) option" where
  "port_range index =
     (let (rc, i) = chk_index index MAX_CFG_PORTS
      in if rc \<noteq> 0 \<and> i = 0 then Some (0, MAX_CFG_PORTS)
         else if rc = 0 then Some (unat i, unat i + 1)
         else None)"

definition for_ports :: "nat \<Rightarrow> nat \<Rightarrow> ('e \<Rightarrow> 'e) \<Rightarrow> 'e list \<Rightarrow> 'e list" where
  "for_ports first end_at f t = fold (\<lambda>i t. t[i := f (t ! i)]) [first..<end_at] t"

definition port_profile_param :: "string \<Rightarrow> int \<Rightarrow> config_store_ptp_port_profile \<Rightarrow> config_store_ptp_port_profile" where
  "port_profile_param param val p =
     (if param = ''announceReceiptTimeout'' then p\<lparr>o_announceReceiptTimeout := of_int val\<rparr>
      else if param = ''syncReceiptTimeout'' then p\<lparr>o_syncReceiptTimeout := of_int val\<rparr>
      else if param = ''logSyncInterval'' then p\<lparr>o_logSyncInterval := s8 val\<rparr>
      else if param = ''logAnnounceInterval'' then p\<lparr>o_logAnnounceInterval := s8 val\<rparr>
      else if param = ''logMinDelayReqInterval'' then p\<lparr>o_logMinDelayReqInterval := s8 val\<rparr>
      else if param = ''logMinPdelayReqInterval'' then p\<lparr>o_logMinPdelayReqInterval := s8 val\<rparr>
      else if param = ''operLogSyncInterval'' then p\<lparr>o_operLogSyncInterval := s8 val\<rparr>
      else if param = ''operLogMinPdelayReqInterval'' then p\<lparr>o_operLogMinPdelayReqInterval := s8 val\<rparr>
      else if param = ''neighborPropDelayThresh'' then p\<lparr>o_neighborPropDelayThresh := of_int val\<rparr>
      else p)"

definition port_setting_param :: "string \<Rightarrow> int \<Rightarrow> config_store_ptp_port_setting \<Rightarrow> config_store_ptp_port_setting" where
  "port_setting_param param val e =
     (if param = ''receiveLatency'' then e\<lparr>e_receiveLatency := of_int val\<rparr>
      else if param = ''transmitLatency'' then e\<lparr>e_transmitLatency := of_int val\<rparr>
      else if param = ''delayAsymmetry'' then e\<lparr>e_delayAsymmetry := s16 val\<rparr>
      else if param = ''peerDelay'' then e\<lparr>e_peerDelay := of_int val\<rparr>
      else if param = ''masterOnly'' then e\<lparr>e_masterOnly := of_int val\<rparr>
      else if param = ''useDelayReq'' then e\<lparr>e_useDelayReq := of_int val\<rparr>
      else e)"

definition chk_port_param :: "u8 \<Rightarrow> string \<Rightarrow> int \<Rightarrow> config_store \<Rightarrow> config_store" where
  "chk_port_param index param val s =
     (case port_range index of
        None \<Rightarrow> s
      | Some (first, end_at) \<Rightarrow>
          s\<lparr>ptp_port_profiles := for_ports first end_at (port_profile_param param val) (ptp_port_profiles s),
            ptp_settings := for_ports first end_at (port_setting_param param val) (ptp_settings s)\<rparr>)"

subsection \<open>Reading the file\<close>

text \<open>\<open>fgets\<close> into a buffer of 80 characters: to the end of the line, at most 79.\<close>

fun fgets_line :: "nat \<Rightarrow> string \<Rightarrow> string \<times> string" where
  "fgets_line 0 s = ([], s)"
| "fgets_line (Suc n) [] = ([], [])"
| "fgets_line (Suc n) (c # s) =
     (if c = CHR 0x0A then ([c], s) else (let (l, r) = fgets_line n s in (c # l, r)))"

lemma fgets_shorter: "0 < n \<Longrightarrow> s \<noteq> [] \<Longrightarrow> length (snd (fgets_line n s)) < length s"
proof (induction n s rule: fgets_line.induct)
  case (3 n c s)
  then show ?case by (cases n; cases s) (auto split: prod.splits)
qed simp_all

function file_lines :: "string \<Rightarrow> string list" where
  "file_lines s = (if s = [] then [] else fst (fgets_line 79 s) # file_lines (snd (fgets_line 79 s)))"
  by pat_completeness auto
termination by (relation "measure length") (simp_all add: fgets_shorter)

declare file_lines.simps [simp del]

definition c_string :: "string \<Rightarrow> string" where
  "c_string = takeWhile (\<lambda>c. c \<noteq> CHR 0x00)"

fun strstr :: "string \<Rightarrow> string \<Rightarrow> bool" where
  "strstr p [] = (p = [])"
| "strstr p (c # s) = (take (length p) (c # s) = p \<or> strstr p s)"

text \<open>\<open>sscanf\<close>: white space, \<open>%s\<close>, and a number in decimal or hexadecimal.\<close>

definition is_space :: "char \<Rightarrow> bool" where
  "is_space c = (let n = of_char c :: nat in n = 32 \<or> 9 \<le> n \<and> n \<le> 13)"

definition skip_space :: "string \<Rightarrow> string" where
  "skip_space = dropWhile is_space"

definition scan_word :: "string \<Rightarrow> (string \<times> string) option" where
  "scan_word s =
     (let s = skip_space s; w = takeWhile (\<lambda>c. \<not> is_space c) s
      in if w = [] then None else Some (w, dropWhile (\<lambda>c. \<not> is_space c) s))"

definition digit_val :: "char \<Rightarrow> nat" where
  "digit_val c =
     (let n = of_char c
      in if 48 \<le> n \<and> n \<le> 57 then n - 48
         else if 97 \<le> n \<and> n \<le> 102 then n - 87
         else if 65 \<le> n \<and> n \<le> 70 then n - 55
         else 16)"

definition digits_val :: "nat \<Rightarrow> string \<Rightarrow> nat" where
  "digits_val base = foldl (\<lambda>a c. a * base + digit_val c) 0"

definition scan_number :: "nat \<Rightarrow> string \<Rightarrow> int option" where
  "scan_number base s =
     (let s = skip_space s;
          neg = (take 1 s = ''-'');
          s = (if take 1 s = ''-'' \<or> take 1 s = ''+'' then drop 1 s else s);
          s = (if base = 16 \<and> (take 2 s = ''0x'' \<or> take 2 s = ''0X'') then drop 2 s else s);
          ds = takeWhile (\<lambda>c. digit_val c < base) s;
          v = int (digits_val base ds)
      in if ds = [] then None else Some (if neg then - v else v))"

definition fit_int :: "(int \<Rightarrow> int) \<Rightarrow> int \<Rightarrow> int" where
  "fit_int big v = (if - (2 ^ 31) \<le> v \<and> v < 2 ^ 31 then v else s32 (big v))"

definition fit_uint :: "(int \<Rightarrow> int) \<Rightarrow> int \<Rightarrow> int" where
  "fit_uint big v = (if \<bar>v\<bar> < 2 ^ 32 then s32 v else s32 (big v))"

definition scan_hex :: "(int \<Rightarrow> int) \<Rightarrow> string \<Rightarrow> int option" where
  "scan_hex big s =
     (let s = skip_space s
      in if take 2 s = ''0x'' then map_option (fit_uint big) (scan_number 16 (drop 2 s)) else None)"

definition mode_value :: "string \<Rightarrow> int" where
  "mode_value strval =
     (if strval = ''E2E'' then 1 else if strval = ''P2P'' then 2 else if strval = ''L2'' then 0
      else if strval = ''UDP'' then 1 else if strval = ''UDPv6'' then 2 else 0)"

text \<open>The three formats a line is tried with.\<close>

definition config_value :: "(int \<Rightarrow> int) \<Rightarrow> string \<Rightarrow> (string \<times> int) option" where
  "config_value big line =
     (case scan_word line of
        None \<Rightarrow> None
      | Some (param, r) \<Rightarrow>
          (case scan_hex big r of
             Some v \<Rightarrow> Some (param, v)
           | None \<Rightarrow>
               (case scan_number 10 r of
                  Some v \<Rightarrow> Some (param, fit_int big v)
                | None \<Rightarrow> map_option (\<lambda>(strval, _). (param, mode_value strval)) (scan_word r))))"

text \<open>The section the lines belong to: the numbers \<open>port\<close> and \<open>profile\<close>.\<close>

definition section_number :: "(int \<Rightarrow> int) \<Rightarrow> string \<Rightarrow> int option" where
  "section_number big param =
     (case scan_word param of None \<Rightarrow> None | Some (_, r) \<Rightarrow> map_option (fit_uint big) (scan_number 10 r))"

definition config_section :: "(int \<Rightarrow> int) \<Rightarrow> string \<Rightarrow> int \<times> int \<Rightarrow> int \<times> int" where
  "config_section big line = (\<lambda>(port, profile).
     (let param = takeWhile (\<lambda>c. c \<noteq> CHR '']'') (tl (dropWhile (\<lambda>c. c \<noteq> CHR ''['') line))
      in if strstr ''port'' param
         then (case section_number big param of None \<Rightarrow> (port, profile) | Some val \<Rightarrow> (val, profile))
         else if param = ''global'' then (- 1, - 1)
         else if strstr ''profile'' param
         then (case section_number big param of None \<Rightarrow> (port, profile) | Some val \<Rightarrow> (- 1, val))
         else (port, profile)))"

definition apply_param :: "int \<Rightarrow> int \<Rightarrow> string \<Rightarrow> int \<Rightarrow> config_store \<Rightarrow> config_store" where
  "apply_param port profile param val =
     (if 0 \<le> port then chk_port_param (of_int port) param val
      else if 0 \<le> profile then chk_profile_param (of_int profile) param val
      else chk_global_param param val)"

definition config_line :: "(int \<Rightarrow> int) \<Rightarrow> string \<Rightarrow> (int \<times> int) \<times> config_store \<Rightarrow> (int \<times> int) \<times> config_store" where
  "config_line big line = (\<lambda>(sec, s).
     if CHR ''['' \<in> set line then (config_section big line sec, s)
     else (case config_value big line of
             None \<Rightarrow> (sec, s)
           | Some (param, val) \<Rightarrow> (sec, apply_param (fst sec) (snd sec) param val s)))"

definition copy_first :: "config_store \<Rightarrow> config_store" where
  "copy_first s =
     s\<lparr>ptp_port_profiles := for_ports 1 MAX_CFG_PORTS (\<lambda>_. ptp_port_profiles s ! 0) (ptp_port_profiles s),
       ptp_settings := for_ports 1 MAX_CFG_PORTS (\<lambda>_. ptp_settings s ! 0) (ptp_settings s)\<rparr>"

text \<open>\<open>None\<close> is a file that cannot be opened.\<close>

definition init_config :: "(int \<Rightarrow> int) \<Rightarrow> string option \<Rightarrow> config_store \<Rightarrow> int \<times> config_store" where
  "init_config big file s =
     (case file of
        None \<Rightarrow> (- 1, copy_first s)
      | Some text \<Rightarrow>
          (0, snd (fold (\<lambda>line. config_line big (c_string line)) (file_lines text) ((- 1, - 1), copy_first s))))"

end
