(* ===== verification/Setup.thy ===== *)
theory Setup
  imports Works Config
begin

text \<open>
  Creating, starting and stopping clocks: \<^verbatim>\<open>ptp_config.c\<close> (the static variables and
  the default data set), \<^verbatim>\<open>ptp_clock.c\<close> (from \<open>setup_ptp_ports\<close> to \<open>clock_start\<close>),
  \<^verbatim>\<open>ptp_port.c\<close> (\<open>init_ptp_port_profile\<close> to \<open>init_ptp_port_hw\<close>), \<open>init_stack\<close> of
  \<^verbatim>\<open>ptp_main.c\<close> and \<open>setup_ptp_hw\<close> of \<^verbatim>\<open>ptp_stack.c\<close>.

  What is fixed during the set-up is the record \<open>setup_env\<close>: the saved
  configuration, the answers of the driver to \<open>get_freq\<close> and \<open>get_clk_domain\<close>, the
  memory \<open>mmedian_create\<close> gets, and the entries of \<open>ptp_hw_ports\<close>, which become
  ports of a clock when they are given to it.  \<open>c_portmap\<close> stands for \<open>c->ports\<close> as
  well: both are written by \<open>setup_ptp_ports\<close> alone, with the same value.  The
  members \<open>announceReceiptTimeout\<close> of a clock and \<open>delay_interval\<close> of a port are never
  read and left out.
\<close>

abbreviation (input) MAX_PTP_PORTS :: nat where "MAX_PTP_PORTS \<equiv> 13"
abbreviation (input) MAX_PTP_CLOCKS :: nat where "MAX_PTP_CLOCKS \<equiv> 3"

record setup_env =
  en_store :: config_store
  en_freq :: "u8 \<Rightarrow> int option"
  en_clk_domain :: "u8 \<times> byte_list"
  en_median :: "nat \<Rightarrow> mmedian_data list option"
  en_hw :: "ptp_port list"

subsection \<open>The static variables of the configuration\<close>

record stack_vars =
  ptp_stack_gptp :: u8
  ptp_stack_slave_port :: u8
  ptp_stack_gm_capable :: bool
  ptp_stack_2step :: bool
  ptp_stack_e2e :: bool
  ptp_stack_p2p :: bool

definition initial_vars :: stack_vars where
  "initial_vars =
     \<lparr>ptp_stack_gptp = 1, ptp_stack_slave_port = 0, ptp_stack_gm_capable = True, ptp_stack_2step = True,
      ptp_stack_e2e = False, ptp_stack_p2p = True\<rparr>"

definition ptp_config_get_gptp_mode :: "stack_vars \<Rightarrow> u8" where
  "ptp_config_get_gptp_mode v = ptp_stack_gptp v"

definition ptp_config_get_slave_port :: "stack_vars \<Rightarrow> u8" where
  "ptp_config_get_slave_port v = ptp_stack_slave_port v"

definition ptp_config_using_p2p :: "stack_vars \<Rightarrow> bool" where
  "ptp_config_using_p2p v = (if ptp_stack_gptp v > 0 then True else ptp_stack_p2p v)"

definition ptp_config_using_e2e :: "stack_vars \<Rightarrow> bool" where
  "ptp_config_using_e2e v = (if ptp_config_using_p2p v then False else ptp_stack_e2e v)"

definition ptp_config_using_two_step :: "stack_vars \<Rightarrow> bool" where
  "ptp_config_using_two_step v = (if ptp_stack_gptp v > 0 then True else ptp_stack_2step v)"

text \<open>The variable for the variance is 0 when nothing is saved, and overwrites the default.\<close>

definition ptp_init_config_ds :: "u8 \<Rightarrow> config_store \<Rightarrow> stack_vars \<Rightarrow> stack_vars \<times> ptp_default_ds" where
  "ptp_init_config_ds index st v =
     (let (cls, acc, var) = (case gptp_profile_get_clock_prop index st of None \<Rightarrow> (248, 0x21, 0) | Some q \<Rightarrow> q);
          (p1, p2) = (if ptp_stack_gptp v \<noteq> 0 then (246, 248) else (128, 128));
          (p1, p2) = (case gptp_profile_get_clock_prio index st of None \<Rightarrow> (p1, p2) | Some p \<Rightarrow> p);
          v = (if ptp_stack_gptp v \<noteq> 0 \<and> p1 = 255 then v\<lparr>ptp_stack_gm_capable := False\<rparr> else v);
          slave_only = (\<not> ptp_stack_gm_capable v)
      in (v, \<lparr>dd_slave_only = slave_only, dd_two_step = ptp_stack_2step v, dd_numberPorts = 0, dd_priority1 = p1,
             dd_quality = \<lparr>q_class = (if slave_only then 255 else cls), q_accuracy = acc, q_variance = var\<rparr>,
             dd_priority2 = p2, dd_clockIdentity = replicate 8 0, dd_domainNumber = 0\<rparr>))"

subsection \<open>The profile of a clock\<close>

definition read_profile :: "u8 \<Rightarrow> config_store \<Rightarrow> stack_vars \<Rightarrow> stack_vars" where
  "read_profile index st v =
     (let v = (case gptp_profile_get_profile index st of None \<Rightarrow> v | Some p \<Rightarrow> v\<lparr>ptp_stack_gptp := p\<rparr>);
          v = (case gptp_profile_get_e2e_p2p index st of
                 None \<Rightarrow> v | Some (e2e, p2p) \<Rightarrow> v\<lparr>ptp_stack_e2e := e2e, ptp_stack_p2p := p2p\<rparr>);
          v = (case gptp_profile_get_gm_capable index st of None \<Rightarrow> v | Some gm \<Rightarrow> v\<lparr>ptp_stack_gm_capable := gm\<rparr>)
      in case gptp_profile_get_two_step index st of None \<Rightarrow> v | Some ts \<Rightarrow> v\<lparr>ptp_stack_2step := ts\<rparr>)"

definition clock_init_profile :: "config_store \<Rightarrow> stack_vars \<times> world \<Rightarrow> stack_vars \<times> world" where
  "clock_init_profile st = (\<lambda>(v, w).
     let index = c_cfg_index (w_clock w);
         fup = gptp_get_follow_up_timeout st;
         v = read_profile index st v;
         gptp = (ptp_config_get_gptp_mode v > 0);
         sync = (case gptp_port_profile_get_sync index st of
                   None \<Rightarrow> if gptp then (- 3, 3) else (0, 0) | Some s \<Rightarrow> s);
         announce = (case gptp_port_profile_get_announce index st of
                       None \<Rightarrow> if gptp then 0 else 1 | Some (i, _) \<Rightarrow> i);
         specific = (case gptp_profile_get_sdoid index st of
                       None \<Rightarrow> if gptp then 1 else 0 | Some (major, _) \<Rightarrow> major);
         transport = (case gptp_profile_get_transport index st of None \<Rightarrow> 0 | Some t \<Rightarrow> t);
         automotive = (ptp_config_get_gptp_mode v > 1);
         w = upd_cmsgs (\<lambda>m. m\<lparr>cm_specific := specific, cm_transport := transport\<rparr>) w;
         w = upd_cflags (\<lambda>f. f\<lparr>cf_no_announce := automotive\<rparr>) w
     in (v, upd_clock (\<lambda>c. c\<lparr>c_logSyncInterval := fst sync, c_syncReceiptTimeout := snd sync,
              c_fupReceiptTimeout := (if fup > 25 then 25 else fup),
              c_logAnnounceInterval := (if automotive then 4 else announce),
              c_delay_mechanism := (if ptp_config_using_p2p v then DELAY_P2P
                                    else if ptp_config_using_e2e v then DELAY_E2E else c_delay_mechanism c)\<rparr>) w))"

definition clock_init_default_ds :: "config_store \<Rightarrow> stack_vars \<times> world \<Rightarrow> stack_vars \<times> world" where
  "clock_init_default_ds st = (\<lambda>(v, w).
     let (v, dds) = ptp_init_config_ds (c_cfg_index (w_clock w)) st v
     in (v, upd_clock (\<lambda>c. c\<lparr>c_dds := dds\<lparr>dd_clockIdentity := c_id c\<rparr>\<rparr>) w))"

subsection \<open>Ports\<close>

definition init_ptp_multi_pdelay :: "(nat \<Rightarrow> mmedian_data list option) \<Rightarrow> ptp_pdelay_info list \<Rightarrow> ptp_pdelay_info list" where
  "init_ptp_multi_pdelay mem is =
     map (\<lambda>(k, i). i\<lparr>dl_filter := init_ptp_filter mem (dl_filter i), dl_index := of_nat (k + 1)\<rparr>) (enumerate 0 is)"

definition init_info_filter :: "(nat \<Rightarrow> mmedian_data list option) \<Rightarrow> ptp_pdelay_info \<Rightarrow> ptp_pdelay_info" where
  "init_info_filter mem i = i\<lparr>dl_filter := init_ptp_filter mem (dl_filter i)\<rparr>"

definition init_ptp_port_hw :: "(nat \<Rightarrow> mmedian_data list option) \<Rightarrow> nat \<Rightarrow> nat \<Rightarrow> ptp_port \<Rightarrow> ptp_port" where
  "init_ptp_port_hw mem pid index p =
     (let ds = p_ds p;
          p = p\<lparr>p_ds := ds\<lparr>pds_portIdentity := (pds_portIdentity ds)\<lparr>pi_port := of_nat pid\<rparr>\<rparr>, p_id := of_nat pid,
                p_index := index, p_state := PTP_S_INIT, p_flags := (p_flags p)\<lparr>fl_no_link := True\<rparr>\<rparr>;
          p = (if index > 0 then p\<lparr>p_state := PTP_S_DISABLED, p_portmap := port_bit index\<rparr> else p)
      in p\<lparr>p_multi_pdelay := map_option (map (init_info_filter mem)) (p_multi_pdelay p),
           p_pdelay_info := init_info_filter mem (p_pdelay_info p)\<rparr>)"

text \<open>The ports of a mask, in ascending order.\<close>

definition mask_ports :: "u16 \<Rightarrow> nat list" where
  "mask_ports ports = filter (bit ports) [0..<MAX_PTP_PORTS]"

definition setup_ptp_ports :: "setup_env \<Rightarrow> u16 \<Rightarrow> world \<Rightarrow> world" where
  "setup_ptp_ports env ports w =
     (let is = mask_ports ports; cnt = length is;
          ps = map (\<lambda>(k, i). init_ptp_port_hw (en_median env) (k + 1) (i + 1) (en_hw env ! i)) (enumerate 0 is);
          host = init_ptp_port_hw (en_median env) (cnt + 1) 0 (c_ports (w_clock w) ! 0)
      in upd_clock (\<lambda>c. c\<lparr>c_ports := host\<lparr>p_portmap := ports\<rparr> # ps, c_portmap := ports, c_cnt := cnt\<rparr>) w)"

definition profile_flags :: "stack_vars \<Rightarrow> nat \<Rightarrow> port_flags \<Rightarrow> port_flags" where
  "profile_flags v index f =
     (let f = f\<lparr>fl_sync_two_step := ptp_config_using_two_step v, fl_p2p_two_step := ptp_config_using_two_step v,
                fl_gptp := False, fl_gptp_auto := False, fl_no_id_check := False, fl_no_id_replace := True,
                fl_path_trace := False, fl_follow_up_tlv := False, fl_as_capable := False, fl_as_capable_set := False,
                fl_no_capable := True, fl_use_delay := True, fl_gptp_slave := False\<rparr>;
          f = (if ptp_config_get_gptp_mode v > 0
               then f\<lparr>fl_gptp := True, fl_no_id_replace := False, fl_path_trace := True, fl_follow_up_tlv := True,
                      fl_no_capable := False\<rparr>
               else f)
      in if ptp_config_get_gptp_mode v > 1
         then f\<lparr>fl_gptp_auto := True, fl_no_id_check := True, fl_no_capable := True,
                fl_gptp_slave := (index \<noteq> 0 \<and> index = unat (ptp_config_get_slave_port v))\<rparr>
         else f)"

definition profile_timers :: "delay_mech \<Rightarrow> ticks \<Rightarrow> ptp_port \<Rightarrow> ptp_port" where
  "profile_timers mech ms p =
     p\<lparr>p_delay_timer_info := (if mech = DELAY_NONE then p_delay_timer_info p else ksz_init_timer (p_delay_timer_info p) ms False),
       p_ann_timeout_timer_info := ksz_init_timer (p_ann_timeout_timer_info p) ms False,
       p_qual_timeout_timer_info := ksz_init_timer (p_qual_timeout_timer_info p) ms False,
       p_fault_timeout_timer_info := ksz_init_timer (p_fault_timeout_timer_info p) 300000 False\<rparr>"

definition port_init_works :: "delay_mech \<Rightarrow> nat \<Rightarrow> world \<Rightarrow> world" where
  "port_init_works mech n w =
     w\<lparr>w_sched := init_work (W_fault_timeout n) (init_work (W_qual_timeout n) (init_work (W_ann_timeout n)
         (if mech = DELAY_NONE then w_sched w else init_work (W_delay_req n) (w_sched w))))\<rparr>"

definition init_ptp_port_profile ::
  "config_store \<Rightarrow> stack_vars \<Rightarrow> delay_mech \<Rightarrow> bool \<Rightarrow> int \<Rightarrow> nat \<Rightarrow> world \<Rightarrow> world" where
  "init_ptp_port_profile st v mech two_step delay n w =
     (let index = p_index (port n w);
          w = upd_pflags n (profile_flags v index) w;
          w = upd_port n (\<lambda>p. p\<lparr>p_logSyncInterval := c_logSyncInterval (w_clock w)\<rparr>) w;
          w = (if index \<noteq> 0
               then upd_port n (\<lambda>p. p\<lparr>p_logSyncInterval := pds_logSyncInterval (p_ds p)\<rparr>) (ptp_init_port_ds n w) else w);
          (initial, wait_sync, wait_pdelay) = gptp_get_initial_wait st;
          oper = gptp_port_profile_get_oper (c_cfg_index (w_clock w)) st;
          w = upd_port n (\<lambda>p. p\<lparr>p_initialSyncInterval := p_logSyncInterval p,
                p_operSyncInterval := (case oper of None \<Rightarrow> s8 (p_logSyncInterval p + 1) | Some (s, _) \<Rightarrow> s),
                p_ds := (p_ds p)\<lparr>pds_delayMechanism := mech\<rparr>,
                p_initialPdelayReqInterval := delay,
                p_operPdelayReqInterval := (case oper of None \<Rightarrow> s8 (delay + 1) | Some (_, d) \<Rightarrow> d),
                p_pdelay_req_interval := delay, p_initialSyncTimeout := ucast initial,
                p_waitSyncInterval := ucast wait_sync, p_waitPdelayReqInterval := ucast wait_pdelay\<rparr>) w;
          w = upd_port n (profile_timers mech (of_int (ptp_interval_to_ms delay))) (port_init_works mech n w)
      in if index > 0 then emit (E_set_2_domain_port_cfg index two_step (mech = DELAY_P2P)) w else w)"

text \<open>The first port whose saved setting is not master only is the slave port of the automotive profile.\<close>

definition choose_slave :: "config_store \<Rightarrow> nat \<Rightarrow> nat \<Rightarrow> stack_vars \<Rightarrow> stack_vars" where
  "choose_slave st i index v =
     (case gptp_port_get_master (of_nat index) st of
        None \<Rightarrow> v
      | Some master \<Rightarrow>
          (let v = (if i = 1 then v\<lparr>ptp_stack_slave_port := 0\<rparr> else v)
           in if master = 0 \<and> ptp_stack_slave_port v = 0 then v\<lparr>ptp_stack_slave_port := of_nat index\<rparr> else v))"

definition setup_port :: "config_store \<Rightarrow> bool \<Rightarrow> int \<Rightarrow> nat \<Rightarrow> stack_vars \<times> world \<Rightarrow> stack_vars \<times> world" where
  "setup_port st two_step delay i = (\<lambda>(v, w).
     let v = choose_slave st i (p_index (port i w)) v;
         w = init_ptp_port_profile st v (c_delay_mechanism (w_clock w)) two_step delay i w
     in (v, upd_pds i (\<lambda>d. d\<lparr>pds_portIdentity := (pds_portIdentity d)\<lparr>pi_clock := dd_clockIdentity (c_dds (w_clock w))\<rparr>\<rparr>) w))"

definition setup_ptp_port_profile :: "config_store \<Rightarrow> stack_vars \<times> world \<Rightarrow> stack_vars \<times> world" where
  "setup_ptp_port_profile st = (\<lambda>(v, w).
     let two_step = dd_two_step (c_dds (w_clock w)); index = c_cfg_index (w_clock w);
         w = clock_setup_ptp_msg w;
         delay = (case (if ptp_config_using_p2p v then gptp_port_profile_get_pdelay index st
                        else gptp_port_profile_get_delay index st) of None \<Rightarrow> 0 | Some d \<Rightarrow> d);
         w = init_ptp_port_profile st v DELAY_NONE two_step delay 0 w;
         (v, w) = fold (setup_port st two_step delay) [1..<Suc (c_cnt (w_clock w))] (v, w)
     in (v, if c_delay_mechanism (w_clock w) = DELAY_NONE
            then upd_port 0 (\<lambda>p. p\<lparr>p_pdelay_info := (p_pdelay_info p)\<lparr>dl_filter :=
                   (case filter_set_delay (dl_filter (p_pdelay_info p)) (Fin 0) of
                      None \<Rightarrow> dl_filter (p_pdelay_info p) | Some f \<Rightarrow> f)\<rparr>\<rparr>) w
            else w))"

subsection \<open>Setting up a clock\<close>

definition setup_ptp_hw_clock :: "setup_env \<Rightarrow> world \<Rightarrow> world" where
  "setup_ptp_hw_clock env w =
     (case en_freq env (c_index (w_clock w)) of
        None \<Rightarrow> w
      | Some drift \<Rightarrow> upd_clock (\<lambda>c. c\<lparr>c_servo := (c_servo c)\<lparr>sv_drift := s32 (drift * 1000)\<rparr>\<rparr>) w)"

definition setup_ptp_clock :: "setup_env \<Rightarrow> u16 \<Rightarrow> stack_vars \<times> world \<Rightarrow> stack_vars \<times> world" where
  "setup_ptp_clock env ports vw =
     (let st = en_store env;
          (v, w) = clock_init_default_ds st (clock_init_profile st vw);
          w = clock_update_grandmaster w;
          w = (if c_portmap (w_clock w) \<noteq> ports then setup_ptp_ports env ports w else w);
          (v, w) = setup_ptp_port_profile st (v, w);
          w = setup_ptp_hw_clock env w;
          w = upd_clock (\<lambda>c. c\<lparr>c_dds := (c_dds c)\<lparr>dd_numberPorts := of_nat (c_cnt c),
                dd_domainNumber := cm_domain (c_msgs c)\<rparr>\<rparr>) w;
          w = ptp_update_parent_ds None w
      in (v, upd_cflags (\<lambda>f. f\<lparr>cf_setup := True\<rparr>) w))"

text \<open>The dividers: the shorter of the two intervals drives the Sync timer.\<close>

definition start_intervals :: "ptp_clock \<Rightarrow> int \<times> u8 \<times> u8" where
  "start_intervals c =
     (if c_logSyncInterval c \<le> c_logAnnounceInterval c
      then (c_logSyncInterval c, shl1 (c_logAnnounceInterval c - c_logSyncInterval c) - 1, 0)
      else (c_logAnnounceInterval c, 0, shl1 (c_logSyncInterval c - c_logAnnounceInterval c) - 1))"

definition start_timers :: "ticks \<Rightarrow> ticks \<Rightarrow> clock_timers \<Rightarrow> clock_timers" where
  "start_timers ms fup t =
     \<lparr>ct_sync = ksz_init_timer (ct_sync t) ms True, ct_interval = ksz_init_timer (ct_interval t) (ms + 4) True,
      ct_sync_timeout = ksz_init_timer (ct_sync_timeout t) ms False,
      ct_fup_timeout = ksz_init_timer (ct_fup_timeout t) fup False,
      ct_signaling = ksz_init_timer (ct_signaling t) 1000 True\<rparr>"

definition start_port :: "nat \<Rightarrow> world \<Rightarrow> world" where
  "start_port i w = port_set_state i PTP_S_INITIALIZING (port_init i w)"

definition start_host :: "world \<Rightarrow> world" where
  "start_host w =
     (let state = (if clock_class (w_clock w) = 255 then PTP_S_PRE_MASTER else PTP_S_MASTER);
          state = (if \<exists>i \<in> set [1..<Suc (c_cnt (w_clock w))]. flag fl_gptp_slave i w then PTP_S_SLAVE else state)
      in port_set_state 0 state w)"

definition clock_start :: "setup_env \<Rightarrow> stack_vars \<times> world \<Rightarrow> stack_vars \<times> world" where
  "clock_start env = (\<lambda>(v, w).
     let (v, w) = (if cflag cf_stop w
                   then (let w = upd_cflags (\<lambda>f. f\<lparr>cf_stop := False\<rparr>) w
                         in if \<not> cflag cf_setup w then setup_ptp_clock env (c_portmap (w_clock w)) (v, w) else (v, w))
                   else (v, w));
         (delay, ann_max, sync_max) = start_intervals (w_clock w);
         w = upd_clock (\<lambda>c. c\<lparr>c_ann_max := ann_max, c_sync_max := sync_max, c_ann_cnt := ann_max, c_sync_cnt := 0\<rparr>) w;
         w = upd_timers (start_timers (of_int (ptp_interval_to_ms delay)) (ucast (c_fupReceiptTimeout (w_clock w)))) w;
         w = fold start_port [0..<Suc (c_cnt (w_clock w))] w;
         w = (if cflag cf_no_announce w then start_host w else w)
     in (v, handle_state_decision w))"

subsection \<open>Giving a clock up\<close>

definition exit_ptp_port_profile :: "ptp_port \<Rightarrow> ptp_port" where
  "exit_ptp_port_profile p =
     (let m = p_msgs p;
          m = m\<lparr>pm_tx_sync := msg_info_clear (pm_tx_sync m), pm_tx_delay_req := msg_info_clear (pm_tx_delay_req m),
                pm_tx_pdelay_resp := msg_info_clear (pm_tx_pdelay_resp m),
                pm_rx_delay_resp := msg_info_clear (pm_rx_delay_resp m),
                pm_rx_pdelay_fup := msg_info_clear (pm_rx_pdelay_fup m)\<rparr>;
          m = (if p_multi_pdelay p \<noteq> None
               then m\<lparr>pm_multi_resp := map msg_info_clear (pm_multi_resp m),
                      pm_multi_fup := map msg_info_clear (pm_multi_fup m)\<rparr>
               else m)
      in p\<lparr>p_msgs := m, p_delay_timer_info := ksz_exit_timer (p_delay_timer_info p),
           p_ann_timeout_timer_info := ksz_exit_timer (ksz_stop_timer (p_ann_timeout_timer_info p)),
           p_qual_timeout_timer_info := ksz_exit_timer (ksz_stop_timer (p_qual_timeout_timer_info p)),
           p_fault_timeout_timer_info := ksz_exit_timer (ksz_stop_timer (p_fault_timeout_timer_info p))\<rparr>)"

definition exit_ptp_port_hw :: "ptp_port \<Rightarrow> ptp_port" where
  "exit_ptp_port_hw p =
     (let p = (if p_multi_pdelay p \<noteq> None
               then p\<lparr>p_multi_pdelay := None, p_msgs := (p_msgs p)\<lparr>pm_multi_resp := [], pm_multi_fup := []\<rparr>\<rparr> else p);
          info = p_pdelay_info p
      in p\<lparr>p_pdelay_info := info\<lparr>dl_filter := exit_ptp_filter (dl_filter info)\<rparr>\<rparr>)"

definition delete_ptp_clock :: "world \<Rightarrow> world option" where
  "delete_ptp_clock w =
     do {
       w \<leftarrow> clock_delete_ptp_msg w;
       Some (fold (\<lambda>i. upd_port i (exit_ptp_port_hw \<circ> exit_ptp_port_profile)) [0..<Suc (c_cnt (w_clock w))] w) }"

definition reset_ptp_clock :: "world \<Rightarrow> world option" where
  "reset_ptp_clock w =
     do {
       w \<leftarrow> clock_delete_ptp_msg w;
       let w = fold (\<lambda>i. upd_port i exit_ptp_port_profile) [0..<Suc (c_cnt (w_clock w))] w;
       Some (upd_clock (\<lambda>c. c\<lparr>c_best_id := replicate 8 0\<rparr>) w) }"

subsection \<open>The clocks of the stack\<close>

text \<open>The carry goes from the third byte to the first.\<close>

definition inc_mac_id :: "byte_list \<Rightarrow> u8 \<Rightarrow> byte_list" where
  "inc_mac_id addr inc =
     (let prev = addr ! 2; addr = addr[2 := addr ! 2 + inc]
      in if addr ! 2 < prev
         then (let prev = addr ! 1; addr = addr[1 := addr ! 1 + 1]
               in if addr ! 1 < prev then addr[0 := addr ! 0 + 1] else addr)
         else addr)"

definition init_ptp_clock :: "config_store \<Rightarrow> byte_list \<Rightarrow> ptp_clock \<Rightarrow> ptp_clock" where
  "init_ptp_clock st macaddr c =
     c\<lparr>c_id := take 3 macaddr @ [0xFF, 0xFE] @ inc_mac_id (take 3 (drop 3 macaddr)) (c_index c),
       c_servo_state := SERVO_UNLOCKED, c_servo := init_ptp_servo (c_servo c), c_delay_mechanism := DELAY_NONE,
       c_msgs := (c_msgs c)\<lparr>cm_domain := 255, cm_utc_offset := uint (gptp_get_utc st), cm_time_source := 0xA0\<rparr>\<rparr>"

definition init_clock_works :: "world \<Rightarrow> world" where
  "init_clock_works w =
     w\<lparr>w_sched := fold init_work
         [W_sync, W_sync_timeout, W_fup_timeout, W_interval, W_signaling, W_update_interval, W_ethernet_ready] (w_sched w)\<rparr>"

text \<open>
  All of the stack: \<open>b_clocks\<close> are \<open>ptp_clocks\<close>, \<open>b_ptr\<close> the clocks that
  \<open>ptp_clock_ptr\<close> points to, \<open>b_world\<close> the rest of the state, with the clock that
  was worked on last.
\<close>

record boot =
  b_vars :: stack_vars
  b_clocks :: "ptp_clock list"
  b_ptr :: "nat list"
  b_world :: world

definition clock_world :: "nat \<Rightarrow> boot \<Rightarrow> world" where
  "clock_world i b = (b_world b)\<lparr>w_clock := b_clocks b ! i\<rparr>"

definition on_clock :: "nat \<Rightarrow> (stack_vars \<times> world \<Rightarrow> stack_vars \<times> world) \<Rightarrow> boot \<Rightarrow> boot" where
  "on_clock i f b =
     (let (v, w) = f (b_vars b, clock_world i b)
      in b\<lparr>b_vars := v, b_world := w, b_clocks := (b_clocks b)[i := w_clock w]\<rparr>)"

definition init_ptp_clocks :: "config_store \<Rightarrow> byte_list \<Rightarrow> boot \<Rightarrow> boot" where
  "init_ptp_clocks st macaddr =
     fold (\<lambda>i. on_clock i (\<lambda>(v, w). (v, init_clock_works (upd_clock (\<lambda>c. init_ptp_clock st macaddr (c\<lparr>c_index := of_nat i\<rparr>)) w))))
       [0..<MAX_PTP_CLOCKS]"

definition free_clock :: "nat \<Rightarrow> boot \<Rightarrow> bool" where
  "free_clock i b = (cm_domain (c_msgs (b_clocks b ! i)) = 255)"

definition create_ptp_clock :: "setup_env \<Rightarrow> nat \<Rightarrow> u8 \<Rightarrow> u16 \<Rightarrow> u16 \<Rightarrow> boot \<Rightarrow> nat option \<times> boot" where
  "create_ptp_clock env index domain ports vid b =
     (case List.find (\<lambda>i. free_clock i b) ((index - 1) # [0..<MAX_PTP_CLOCKS]) of
        None \<Rightarrow> (None, b)
      | Some i \<Rightarrow>
          (Some i, on_clock i (\<lambda>(v, w).
             setup_ptp_clock env ports (v, upd_clock (\<lambda>c. c\<lparr>c_cfg_index := of_nat index,
               c_msgs := (c_msgs c)\<lparr>cm_domain := domain, cm_vid := vid\<rparr>\<rparr>) w)) b))"

definition create_clock :: "setup_env \<Rightarrow> nat \<Rightarrow> u16 \<times> boot \<Rightarrow> u16 \<times> boot" where
  "create_clock env i = (\<lambda>(ports_left, b).
     case gptp_profile_get_domain (of_nat (i + 1)) (en_store env) of
       None \<Rightarrow> (ports_left, b)
     | Some (domain, ports, vid) \<Rightarrow>
         (let ports = ports AND ports_left
          in if ports = 0 then (ports_left, b)
             else (case create_ptp_clock env (i + 1) domain ports vid b of
                     (None, b) \<Rightarrow> (ports_left, b)
                   | (Some k, b) \<Rightarrow>
                       (ports_left AND NOT (c_portmap (b_clocks b ! k)),
                        on_clock k (\<lambda>(v, w). (v, upd_cflags (\<lambda>f. f\<lparr>cf_stop := True\<rparr>) w)) (b\<lparr>b_ptr := b_ptr b @ [k]\<rparr>)))))"

text \<open>What the accessors answer from now on, and the two counts that \<open>gptp_get_allowed\<close> reads.\<close>

definition store_config :: "config_store \<Rightarrow> ptp_config \<Rightarrow> ptp_config" where
  "store_config st cfg =
     cfg\<lparr>cfg_port_sync := (\<lambda>n. gptp_port_profile_get_sync (of_nat n) st),
         cfg_port_announce := (\<lambda>n. gptp_port_profile_get_announce (of_nat n) st),
         cfg_port_delay := (\<lambda>n. gptp_port_profile_get_delay (of_nat n) st),
         cfg_port_pdelay := (\<lambda>n. gptp_port_profile_get_pdelay (of_nat n) st),
         cfg_use_delay := (\<lambda>n. map_option (\<lambda>u. u \<noteq> 0) (gptp_port_get_use_delay (of_nat n) st)),
         cfg_latency := (\<lambda>n. gptp_port_get_latency (of_nat n) st),
         cfg_delay_thresh := (\<lambda>i. gptp_port_profile_get_delay_thresh i st),
         cfg_peer_delay := (\<lambda>n. gptp_port_get_peer_delay (of_nat n) st),
         cfg_allowed_lost := fst (gptp_get_allowed st), cfg_allowed_faults := snd (gptp_get_allowed st)\<rparr>"

text \<open>\<open>ports_left\<close> starts with a bit for each of the \<open>ptp_ports\<close> ports of the switch.\<close>

definition switch_ports :: "nat \<Rightarrow> u16" where
  "switch_ports ptp_ports = of_int (2 ^ ptp_ports - 1)"

definition init_stack :: "setup_env \<Rightarrow> nat \<Rightarrow> byte_list \<Rightarrow> boot \<Rightarrow> boot" where
  "init_stack env ptp_ports hwaddr b =
     (let b = init_ptp_clocks (en_store env) hwaddr b;
          b = b\<lparr>b_world := (b_world b)\<lparr>w_cfg := store_config (en_store env) (w_cfg (b_world b))\<rparr>, b_ptr := []\<rparr>
      in snd (fold (create_clock env) [0..<3] (switch_ports ptp_ports, b)))"

definition put_domain :: "nat \<Rightarrow> boot \<Rightarrow> byte_list \<Rightarrow> byte_list" where
  "put_domain i b d =
     (let c = b_clocks b ! i in if c_portmap c \<noteq> 0 then d[unat (c_index c) := cm_domain (c_msgs c)] else d)"

definition emit_all :: "effect list \<Rightarrow> boot \<Rightarrow> boot" where
  "emit_all es b = b\<lparr>b_world := fold emit es (b_world b)\<rparr>"

definition setup_ptp_hw :: "setup_env \<Rightarrow> boot \<Rightarrow> boot" where
  "setup_ptp_hw env b =
     (let (ptp_clk, ptp_domain) = en_clk_domain env;
          ptp_domain = ptp_domain[0 := 3, 1 := 5, 2 := 6];
          ptp_domain = fold (\<lambda>i. put_domain i b) (b_ptr b) ptp_domain;
          fs = filter (\<lambda>i. c_portmap (b_clocks b ! i) \<noteq> 0) (b_ptr b);
          cfg = (case fs of
                   [] \<Rightarrow> E_set_global_cfg False False True False
                 | i # _ \<Rightarrow>
                     (let c = b_clocks b ! i
                      in E_set_global_cfg False (dd_two_step (c_dds c)) (c_delay_mechanism c = DELAY_P2P)
                           (fl_gptp (p_flags (c_ports c ! 0)))));
          b = emit_all [E_set_clk_domain ptp_clk ptp_domain, E_set_2_domain_cfg (length fs > 1), cfg] b;
          b = fold (\<lambda>i b. if cf_stop (c_flags (b_clocks b ! i)) then on_clock i (clock_start env) b else b) (b_ptr b) b
      in emit_all [E_set_notify True] b)"

end
