(* ===== verification/Config_props.thy ===== *)
theory Config_props
  imports Config
begin

text \<open>
  The saved configuration keeps what is put into it: every pair of accessors is a
  map from index to value, and a file that lists a configuration, read by
  \<open>init_config\<close>, gives that configuration.
\<close>

subsection \<open>The accessors\<close>

definition config_ok :: "config_store \<Rightarrow> bool" where
  "config_ok s \<longleftrightarrow> length (ptp_profiles s) = MAX_PTP_PROFILES \<and> length (ptp_port_profiles s) = MAX_CFG_PORTS \<and>
     length (ptp_settings s) = MAX_CFG_PORTS"

text \<open>A value saved for each index, as its clients see it.\<close>

locale saved_value =
  fixes get :: "u8 \<Rightarrow> config_store \<Rightarrow> 'v option"
    and set :: "u8 \<Rightarrow> 'v \<Rightarrow> config_store \<Rightarrow> config_store option"
    and mx :: nat
  assumes get_index: "(get i s \<noteq> None) = (1 \<le> unat i \<and> unat i \<le> mx)"
    and set_index: "(set i v s \<noteq> None) = (1 \<le> unat i \<and> unat i \<le> mx)"
    and set_store: "config_ok s \<Longrightarrow> set i v s = Some t \<Longrightarrow> config_ok t"
    and set_get: "config_ok s \<Longrightarrow> set i v s = Some t \<Longrightarrow> get j t = (if j = i then Some v else get j s)"
begin

lemma set_returns: "get i s \<noteq> None \<Longrightarrow> \<exists>t. set i v s = Some t"
  using get_index [of i s] set_index [of i v s] by auto

lemma set_again:
  assumes "config_ok s" and "set i v s = Some t" and "set i u t = Some r"
  shows "get j r = (if j = i then Some u else get j s)"
  using set_get [OF set_store [OF assms(1,2)] assms(3)] set_get [OF assms(1,2)] by simp

text \<open>After any sequence of writes a read gives the last value written at its index.\<close>

lemma get_last:
  assumes "foldl (\<lambda>s' (i, v). Option.bind s' (set i v)) (Some s) ivs = Some t" and "config_ok s"
  shows "config_ok t \<and> get j t = (case map_of (rev ivs) j of Some v \<Rightarrow> Some v | None \<Rightarrow> get j s)"
  using assms
proof (induction ivs arbitrary: t rule: rev_induct)
  case (snoc iv ivs)
  obtain i v where iv: "iv = (i, v)" by (cases iv)
  obtain u where u: "foldl (\<lambda>s' (i, v). Option.bind s' (set i v)) (Some s) ivs = Some u" "set i v u = Some t"
    using snoc.prems(1) unfolding iv by (auto split: bind_splits)
  show ?case using snoc.IH [OF u(1) assms(2)] set_store [OF _ u(2)] set_get [OF _ u(2), of j] by (auto simp: iv)
qed simp

end

lemma chk_index_ok: "(fst (chk_index i mx) = 0) = (1 \<le> unat i \<and> unat i \<le> mx)"
proof (cases "i = 0")
  case False
  then have "unat (i - 1) = unat i - 1" "1 \<le> unat i"
    by (simp_all add: unat_minus_one) (simp add: Suc_le_eq unat_gt_0)
  then show ?thesis using False by (auto simp: chk_index_def)
qed (simp add: chk_index_def)

lemma chk_index_pos: "fst (chk_index i mx) = 0 \<Longrightarrow> unat (snd (chk_index i mx)) = unat i - 1"
  by (auto simp: chk_index_def unat_minus_one split: if_splits)

lemma get_at_some:
  "get_at mx table f i s = (if 1 \<le> unat i \<and> unat i \<le> mx then Some (f (table s ! (unat i - 1))) else None)"
  using chk_index_ok [of i mx] chk_index_pos [of i mx]
  by (auto simp: get_at_def split: prod.splits)

lemma set_at_some:
  "set_at mx upd g i v s =
     (if 1 \<le> unat i \<and> unat i \<le> mx then Some (upd (\<lambda>t. t[unat i - 1 := g v (t ! (unat i - 1))]) s) else None)"
  using chk_index_ok [of i mx] chk_index_pos [of i mx]
  by (auto simp: set_at_def split: prod.splits)

lemma saved_at:
  assumes "\<And>h s. table (upd h s) = h (table s)" and "\<And>s. config_ok s \<Longrightarrow> length (table s) = mx"
    and "\<And>v e. f (g v e) = v" and "\<And>h s. (\<And>t. length (h t) = length t) \<Longrightarrow> config_ok s \<Longrightarrow> config_ok (upd h s)"
  shows "saved_value (get_at mx table f) (set_at mx upd g) mx"
proof
  show "get_at mx table f j t = (if j = i then Some v else get_at mx table f j s)"
    if "config_ok s" "set_at mx upd g i v s = Some t" for s i v t j
  proof -
    have i: "1 \<le> unat i" "unat i \<le> mx" and t: "t = upd (\<lambda>t. t[unat i - 1 := g v (t ! (unat i - 1))]) s"
      using that(2) by (auto simp: set_at_some split: if_splits)
    have "unat j - 1 \<noteq> unat i - 1" if "j \<noteq> i" "1 \<le> unat j"
      using that i(1) word_unat_eq_iff [of j i] by linarith
    then show ?thesis using i assms(2) [OF that(1)] by (auto simp: get_at_some t assms(1,3))
  qed
qed (auto simp: get_at_some set_at_some assms(4) split: if_splits)

lemmas saved_profile = saved_at [where table = ptp_profiles and upd = ptp_profiles_update and mx = MAX_PTP_PROFILES]
lemmas saved_port_profile =
  saved_at [where table = ptp_port_profiles and upd = ptp_port_profiles_update and mx = MAX_CFG_PORTS]
lemmas saved_setting = saved_at [where table = ptp_settings and upd = ptp_settings_update and mx = MAX_CFG_PORTS]

interpretation cfg_sdoid: saved_value gptp_profile_get_sdoid gptp_profile_set_sdoid MAX_PTP_PROFILES
  unfolding gptp_profile_get_sdoid_def gptp_profile_set_sdoid_def
  by (rule saved_profile) (auto simp: config_ok_def)

interpretation cfg_clock_prio: saved_value gptp_profile_get_clock_prio gptp_profile_set_clock_prio MAX_PTP_PROFILES
  unfolding gptp_profile_get_clock_prio_def gptp_profile_set_clock_prio_def
  by (rule saved_profile) (auto simp: config_ok_def)

interpretation cfg_clock_prop: saved_value gptp_profile_get_clock_prop gptp_profile_set_clock_prop MAX_PTP_PROFILES
  unfolding gptp_profile_get_clock_prop_def gptp_profile_set_clock_prop_def
  by (rule saved_profile) (auto simp: config_ok_def)

interpretation cfg_domain: saved_value gptp_profile_get_domain gptp_profile_set_domain MAX_PTP_PROFILES
  unfolding gptp_profile_get_domain_def gptp_profile_set_domain_def
  by (rule saved_profile) (auto simp: config_ok_def)

interpretation cfg_oper: saved_value gptp_port_profile_get_oper gptp_port_profile_set_oper MAX_CFG_PORTS
  unfolding gptp_port_profile_get_oper_def gptp_port_profile_set_oper_def
  by (rule saved_port_profile) (auto simp: config_ok_def)

interpretation cfg_delay: saved_value gptp_port_profile_get_delay gptp_port_profile_set_delay MAX_CFG_PORTS
  unfolding gptp_port_profile_get_delay_def gptp_port_profile_set_delay_def
  by (rule saved_port_profile) (auto simp: config_ok_def)

interpretation cfg_pdelay: saved_value gptp_port_profile_get_pdelay gptp_port_profile_set_pdelay MAX_CFG_PORTS
  unfolding gptp_port_profile_get_pdelay_def gptp_port_profile_set_pdelay_def
  by (rule saved_port_profile) (auto simp: config_ok_def)

interpretation cfg_announce: saved_value gptp_port_profile_get_announce gptp_port_profile_set_announce MAX_CFG_PORTS
  unfolding gptp_port_profile_get_announce_def gptp_port_profile_set_announce_def
  by (rule saved_port_profile) (auto simp: config_ok_def)

interpretation cfg_sync: saved_value gptp_port_profile_get_sync gptp_port_profile_set_sync MAX_CFG_PORTS
  unfolding gptp_port_profile_get_sync_def gptp_port_profile_set_sync_def
  by (rule saved_port_profile) (auto simp: config_ok_def)

interpretation cfg_delay_thresh: saved_value gptp_port_profile_get_delay_thresh gptp_port_profile_set_delay_thresh MAX_CFG_PORTS
  unfolding gptp_port_profile_get_delay_thresh_def gptp_port_profile_set_delay_thresh_def
  by (rule saved_port_profile) (auto simp: config_ok_def)

interpretation cfg_latency: saved_value gptp_port_get_latency gptp_port_set_latency MAX_CFG_PORTS
  unfolding gptp_port_get_latency_def gptp_port_set_latency_def
  by (rule saved_setting) (auto simp: config_ok_def)

interpretation cfg_master: saved_value gptp_port_get_master gptp_port_set_master MAX_CFG_PORTS
  unfolding gptp_port_get_master_def gptp_port_set_master_def
  by (rule saved_setting) (auto simp: config_ok_def)

interpretation cfg_peer_delay: saved_value gptp_port_get_peer_delay gptp_port_set_peer_delay MAX_CFG_PORTS
  unfolding gptp_port_get_peer_delay_def gptp_port_set_peer_delay_def
  by (rule saved_setting) (auto simp: config_ok_def)

interpretation cfg_use_delay: saved_value gptp_port_get_use_delay gptp_port_set_use_delay MAX_CFG_PORTS
  unfolding gptp_port_get_use_delay_def gptp_port_set_use_delay_def
  by (rule saved_setting) (auto simp: config_ok_def)

subsection \<open>Writing a configuration\<close>

text \<open>A file that lists a configuration: a section for each index, a line for each parameter.\<close>

fun show_nat :: "nat \<Rightarrow> string" where
  "show_nat n = (if n < 10 then [] else show_nat (n div 10)) @ [char_of (48 + n mod 10)]"

declare show_nat.simps [simp del]

definition show_int :: "int \<Rightarrow> string" where
  "show_int v = (if v < 0 then ''-'' else []) @ show_nat (nat \<bar>v\<bar>)"

definition param_line :: "string \<times> int \<Rightarrow> string" where
  "param_line = (\<lambda>(name, v). name @ '' '' @ show_int v @ [CHR 0x0A])"

definition section_line :: "string \<Rightarrow> nat \<Rightarrow> string" where
  "section_line name n = ''['' @ name @ '' '' @ show_nat n @ '']'' @ [CHR 0x0A]"

definition global_params :: "config_store_ptp_global \<Rightarrow> (string \<times> int) list" where
  "global_params g =
     [(''utcOffset'', uint (g_utcOffset g)), (''maxAllowedMissedResponses'', uint (g_maxAllowedMissedResponses g)),
      (''maxAllowedDelayFaults'', uint (g_maxAllowedDelayFaults g)),
      (''followUpReceiptTimeout'', uint (g_followUpReceiptTimeout g)),
      (''initialSyncTimeout'', uint (g_initialSyncTimeout g)),
      (''waitPdelayReqInterval'', uint (g_waitPdelayReqInterval g)), (''waitSyncInterval'', uint (g_waitSyncInterval g))]"

definition profile_params :: "config_store_ptp_profile \<Rightarrow> (string \<times> int) list" where
  "profile_params f =
     [(''ports'', uint (f_ports f)), (''profile'', uint (f_profile f)),
      (''delayMechanism'', if bit (f_stackFlags f) PTP_FLAGS_E2E then 1 else if bit (f_stackFlags f) PTP_FLAGS_P2P then 2 else 0),
      (''two_step'', of_bool (bit (f_stackFlags f) PTP_FLAGS_2_STEP)),
      (''gm_capable'', of_bool (bit (f_stackFlags f) PTP_FLAGS_GM_CAPABLE)),
      (''cmlds'', of_bool (bit (f_stackFlags f) PTP_FLAGS_CMLDS)),
      (''transport'', uint (f_transport f)), (''domain'', uint (f_domain f)),
      (''priority1'', uint (f_priority1 f)), (''priority2'', uint (f_priority2 f)),
      (''offsetScaledLogVariance'', uint (f_offsetScaledLogVariance f)), (''clkClass'', uint (f_clkClass f)),
      (''clkAccuracy'', uint (f_clkAccuracy f)), (''majorSDOID'', uint (f_majorSDOID f)),
      (''minorSDOID'', uint (f_minorSDOID f)), (''vlan'', uint (f_vlan f))]"

definition port_params :: "config_store_ptp_port_profile \<Rightarrow> config_store_ptp_port_setting \<Rightarrow> (string \<times> int) list" where
  "port_params p e =
     [(''announceReceiptTimeout'', uint (o_announceReceiptTimeout p)), (''syncReceiptTimeout'', uint (o_syncReceiptTimeout p)),
      (''logSyncInterval'', o_logSyncInterval p), (''logAnnounceInterval'', o_logAnnounceInterval p),
      (''logMinDelayReqInterval'', o_logMinDelayReqInterval p), (''logMinPdelayReqInterval'', o_logMinPdelayReqInterval p),
      (''operLogSyncInterval'', o_operLogSyncInterval p),
      (''operLogMinPdelayReqInterval'', o_operLogMinPdelayReqInterval p),
      (''neighborPropDelayThresh'', uint (o_neighborPropDelayThresh p)), (''receiveLatency'', uint (e_receiveLatency e)),
      (''transmitLatency'', uint (e_transmitLatency e)), (''delayAsymmetry'', e_delayAsymmetry e),
      (''peerDelay'', uint (e_peerDelay e)), (''masterOnly'', uint (e_masterOnly e)), (''useDelayReq'', uint (e_useDelayReq e))]"

definition profile_section :: "config_store \<Rightarrow> nat \<Rightarrow> string list" where
  "profile_section s n = section_line ''profile'' (Suc n) # map param_line (profile_params (ptp_profiles s ! n))"

definition port_section :: "config_store \<Rightarrow> nat \<Rightarrow> string list" where
  "port_section s n =
     section_line ''port'' (Suc n) # map param_line (port_params (ptp_port_profiles s ! n) (ptp_settings s ! n))"

definition config_lines :: "config_store \<Rightarrow> string list" where
  "config_lines s =
     (''[global]'' @ [CHR 0x0A]) # map param_line (global_params (ptp_global s)) @
     concat (map (profile_section s) [0..<MAX_PTP_PROFILES]) @ concat (map (port_section s) [0..<MAX_CFG_PORTS])"

definition config_text :: "config_store \<Rightarrow> string" where
  "config_text s = concat (config_lines s)"

text \<open>What fits the tables: five flags of which one delay mechanism, and the signed values in range.\<close>

definition profile_fits :: "config_store_ptp_profile \<Rightarrow> bool" where
  "profile_fits f \<longleftrightarrow> f_stackFlags f < 32 \<and>
     \<not> (bit (f_stackFlags f) PTP_FLAGS_E2E \<and> bit (f_stackFlags f) PTP_FLAGS_P2P)"

definition port_fits :: "config_store_ptp_port_profile \<Rightarrow> bool" where
  "port_fits p \<longleftrightarrow> (\<forall>x \<in> {o_logSyncInterval p, o_logAnnounceInterval p, o_logMinDelayReqInterval p,
     o_logMinPdelayReqInterval p, o_operLogSyncInterval p, o_operLogMinPdelayReqInterval p}. fits 8 x)"

definition store_fits :: "config_store \<Rightarrow> bool" where
  "store_fits s \<longleftrightarrow> config_ok s \<and> (\<forall>f \<in> set (ptp_profiles s). profile_fits f) \<and>
     (\<forall>p \<in> set (ptp_port_profiles s). port_fits p) \<and> (\<forall>e \<in> set (ptp_settings s). fits 16 (e_delayAsymmetry e))"

subsection \<open>Reading numbers and lines\<close>

lemma of_char_small: "n < 128 \<Longrightarrow> of_char (char_of n :: char) = (n :: nat)"
  by (simp add: of_char_of)

lemma digit_char: "d < 10 \<Longrightarrow> digit_val (char_of (48 + d)) = d"
  by (simp add: digit_val_def Let_def of_char_small)

definition plain_char :: "char \<Rightarrow> bool" where
  "plain_char c \<longleftrightarrow> \<not> is_space c \<and> c \<noteq> CHR ''['' \<and> c \<noteq> CHR '']'' \<and> c \<noteq> CHR 0x00 \<and> c \<noteq> CHR 0x0A"

lemma digit_plain: "(d :: nat) < 10 \<Longrightarrow> plain_char (char_of (48 + d)) \<and> char_of (48 + d) \<notin> set ''-+x''"
proof -
  assume "d < 10"
  then have "d \<in> {0, 1, 2, 3, 4, 5, 6, 7, 8, 9}" by auto
  then show ?thesis by (elim insertE) (simp_all, code_simp+)
qed

lemma show_nat_chars: "c \<in> set (show_nat n) \<Longrightarrow> \<exists>d < (10 :: nat). c = char_of (48 + d)"
proof (induction n rule: show_nat.induct)
  case (1 n)
  have "n mod 10 < 10" by simp
  moreover have "c = char_of (48 + n mod 10) \<or> (\<not> n < 10 \<and> c \<in> set (show_nat (n div 10)))"
    using 1(2) by (subst (asm) show_nat.simps) (auto split: if_splits)
  ultimately show ?case using 1(1) by blast
qed

lemma show_nat_nonempty: "show_nat n \<noteq> []"
  by (subst show_nat.simps) simp

lemma show_nat_val: "digits_val 10 (show_nat n) = n"
proof (induction n rule: show_nat.induct)
  case (1 n)
  show ?case
  proof (cases "n < 10")
    case True
    then show ?thesis by (subst show_nat.simps) (simp add: digits_val_def digit_char)
  next
    case False
    then have "digits_val 10 (show_nat (n div 10)) = n div 10" by (rule 1)
    then show ?thesis using False by (subst show_nat.simps) (simp add: digits_val_def digit_char)
  qed
qed

lemma show_nat_length: "n < 10 ^ k \<Longrightarrow> 0 < k \<Longrightarrow> length (show_nat n) \<le> k"
proof (induction n arbitrary: k rule: show_nat.induct)
  case (1 n)
  show ?case
  proof (cases "n < 10")
    case True
    then show ?thesis using 1(3) by (subst show_nat.simps) simp
  next
    case False
    then obtain j where j: "k = Suc j" "0 < j" using 1(2,3) by (cases k; cases "k - 1") auto
    then have "n div 10 < 10 ^ j" using 1(2) by (simp add: less_mult_imp_div_less mult.commute)
    then show ?thesis using 1(1) [OF False _ j(2)] False j(1) by (subst show_nat.simps) simp
  qed
qed

lemma show_nat_plain: "c \<in> set (show_nat n) \<Longrightarrow> plain_char c \<and> c \<notin> set ''-+x'' \<and> digit_val c < 10"
  using show_nat_chars [of c n] digit_plain digit_char by fastforce

lemma show_int_plain: "c \<in> set (show_int v) \<Longrightarrow> plain_char c \<and> c \<noteq> CHR ''x''"
proof -
  have "plain_char (CHR ''-'')" by code_simp
  then show "c \<in> set (show_int v) \<Longrightarrow> ?thesis" using show_nat_plain by (auto simp: show_int_def split: if_splits)
qed

lemma show_int_nonempty: "show_int v \<noteq> []"
  by (simp add: show_int_def show_nat_nonempty)

lemma plain_skip: "s \<noteq> [] \<Longrightarrow> \<forall>c \<in> set s. plain_char c \<Longrightarrow> skip_space (s @ t) = s @ t"
  by (cases s) (auto simp: skip_space_def plain_char_def)

lemma space_skip: "skip_space (CHR '' '' # s) = skip_space s"
  by (simp add: skip_space_def is_space_def)

lemma scan_plain:
  assumes "s \<noteq> []" and "\<forall>c \<in> set s. plain_char c" and "is_space d"
  shows "scan_word (s @ d # t) = Some (s, d # t)"
proof -
  have "takeWhile (\<lambda>c. \<not> is_space c) (s @ d # t) = s" "dropWhile (\<lambda>c. \<not> is_space c) (s @ d # t) = d # t"
    using assms(2,3) by (auto simp: takeWhile_append2 dropWhile_append2 plain_char_def)
  then show ?thesis using assms(1) plain_skip [OF assms(1,2)] by (simp add: scan_word_def)
qed

lemma no_sign: "s \<noteq> [] \<Longrightarrow> \<forall>c \<in> set s. c \<notin> set ''-+x'' \<Longrightarrow> take 1 (s @ t) \<noteq> ''-'' \<and> take 1 (s @ t) \<noteq> ''+''"
  by (cases s) auto

lemma digits_show:
  assumes "t = [] \<or> \<not> digit_val (hd t) < 10"
  shows "takeWhile (\<lambda>c. digit_val c < 10) (show_nat n @ t) = show_nat n"
  using assms show_nat_plain by (cases t) (auto simp: takeWhile_append2 takeWhile_eq_all_conv)

lemma scan_show_nat:
  assumes "t = [] \<or> \<not> digit_val (hd t) < 10"
  shows "scan_number 10 (CHR '' '' # show_nat n @ t) = Some (int n)"
proof -
  have "skip_space (CHR '' '' # show_nat n @ t) = show_nat n @ t"
    using plain_skip [OF show_nat_nonempty, of n t] show_nat_plain by (simp add: space_skip)
  then show ?thesis
    using no_sign [OF show_nat_nonempty, of n t] show_nat_plain show_nat_nonempty digits_show [OF assms]
    by (simp add: scan_number_def show_nat_val)
qed

lemma scan_show_int:
  assumes "t = [] \<or> \<not> digit_val (hd t) < 10"
  shows "scan_number 10 (CHR '' '' # show_int v @ t) = Some v"
proof (cases "v < 0")
  case True
  have "skip_space (CHR '' '' # CHR ''-'' # show_nat n @ t) = CHR ''-'' # show_nat n @ t" for n
    by (simp add: skip_space_def is_space_def)
  then show ?thesis
    using True show_nat_nonempty digits_show [OF assms] by (simp add: scan_number_def show_nat_val show_int_def)
next
  case False
  then show ?thesis using scan_show_nat [OF assms] by (simp add: show_int_def)
qed

lemma no_hex: "scan_hex big (CHR '' '' # show_int v @ [CHR 0x0A]) = None"
proof -
  have k: "skip_space (CHR '' '' # show_int v @ [CHR 0x0A]) = show_int v @ [CHR 0x0A]"
    using plain_skip [OF show_int_nonempty] show_int_plain by (simp add: space_skip)
  have "CHR ''x'' \<notin> set (show_int v @ [CHR 0x0A])" using show_int_plain by auto
  moreover have "CHR ''x'' \<in> set s" if "take 2 s = ''0x''" for s using that in_set_takeD [of "CHR ''x''" 2 s] by simp
  ultimately have "take 2 (show_int v @ [CHR 0x0A]) \<noteq> ''0x''" by blast
  then show ?thesis by (simp add: scan_hex_def k)
qed

definition name_ok :: "string \<Rightarrow> bool" where
  "name_ok name \<longleftrightarrow> name \<noteq> [] \<and> (\<forall>c \<in> set name. plain_char c) \<and> length name \<le> 40"

lemma param_value:
  assumes "name_ok name" and "fits 32 v"
  shows "config_value big (param_line (name, v)) = Some (name, v)"
proof -
  have "scan_word (param_line (name, v)) = Some (name, CHR '' '' # show_int v @ [CHR 0x0A])"
    using scan_plain [of name "CHR '' ''" "show_int v @ [CHR 0x0A]"] assms(1)
    by (simp add: name_ok_def param_line_def is_space_def)
  moreover have "\<not> digit_val (CHR 0x0A) < 10" by code_simp
  ultimately show ?thesis
    using scan_show_int [of "[CHR 0x0A]" v] assms(2) by (simp add: config_value_def no_hex fit_int_def fits_def)
qed

lemma param_no_section: "name_ok name \<Longrightarrow> CHR ''['' \<notin> set (param_line (name, v))"
  using show_int_plain by (fastforce simp: name_ok_def param_line_def plain_char_def)

lemma config_param_line:
  "name_ok name \<Longrightarrow> fits 32 v \<Longrightarrow>
   config_line big (param_line (name, v)) (sec, s) = (sec, apply_param (fst sec) (snd sec) name v s)"
  using param_no_section by (simp add: config_line_def param_value)

subsection \<open>Sections\<close>

lemma strstr_chars: "strstr p s \<Longrightarrow> set p \<subseteq> set s"
proof (induction s)
  case (Cons c s)
  then show ?case using set_take_subset [of "length p" "c # s"] by auto
qed simp

lemma section_param:
  assumes "\<forall>c \<in> set name. plain_char c"
  shows "takeWhile (\<lambda>c. c \<noteq> CHR '']'') (tl (dropWhile (\<lambda>c. c \<noteq> CHR ''['') (section_line name n))) =
    name @ CHR '' '' # show_nat n"
  using assms show_nat_plain by (auto simp: section_line_def plain_char_def takeWhile_append2)

lemma section_number_show:
  assumes "name_ok name" and "n < 1000"
  shows "section_number big (name @ CHR '' '' # show_nat n) = Some (int n)"
proof -
  have "scan_word (name @ CHR '' '' # show_nat n) = Some (name, CHR '' '' # show_nat n)"
    using assms(1) by (intro scan_plain) (simp_all add: name_ok_def is_space_def)
  then show ?thesis
    using scan_show_nat [of "[]" n] assms(2) by (simp add: section_number_def fit_uint_def s32_id)
qed

lemma names_ok: "name_ok ''port''" "name_ok ''profile''" "name_ok ''global''"
  by code_simp+

lemma section_bracket: "CHR ''['' \<in> set (section_line name n)"
  by (simp add: section_line_def)

lemma config_port_section:
  "n < 1000 \<Longrightarrow> config_line big (section_line ''port'' n) ((pt, pf), s) = ((int n, pf), s)"
  using section_param [of "''port''" n] section_number_show [OF names_ok(1), of n big] names_ok(1)
  by (simp add: config_line_def config_section_def section_bracket name_ok_def)

lemma config_profile_section:
  assumes "n < 1000"
  shows "config_line big (section_line ''profile'' n) ((pt, pf), s) = ((- 1, int n), s)"
proof -
  have "\<not> digit_val (CHR ''t'') < 10" by code_simp
  then have "CHR ''t'' \<notin> set (''profile'' @ CHR '' '' # show_nat n)" using show_nat_plain by auto
  then have "\<not> strstr ''port'' (''profile'' @ CHR '' '' # show_nat n)" using strstr_chars by force
  then show ?thesis
    using section_param [of "''profile''" n] section_number_show [OF names_ok(2) assms, of big] names_ok(2)
    by (simp add: config_line_def config_section_def section_bracket name_ok_def)
qed

lemma config_global_section: "config_line big (''[global]'' @ [CHR 0x0A]) (sec, s) = ((- 1, - 1), s)"
  by (cases sec) (simp add: config_line_def config_section_def)

subsection \<open>Lines\<close>

definition line_ok :: "string \<Rightarrow> bool" where
  "line_ok l \<longleftrightarrow> (\<exists>b. l = b @ [CHR 0x0A] \<and> CHR 0x0A \<notin> set b \<and> CHR 0x00 \<notin> set b \<and> length b < 79)"

lemma fgets_line_ok: "CHR 0x0A \<notin> set b \<Longrightarrow> length b < n \<Longrightarrow> fgets_line n (b @ CHR 0x0A # s) = (b @ [CHR 0x0A], s)"
proof (induction b arbitrary: n)
  case Nil
  then show ?case by (cases n) simp_all
next
  case (Cons c b)
  then show ?case by (cases n) auto
qed

lemma file_lines_concat: "\<forall>l \<in> set ls. line_ok l \<Longrightarrow> file_lines (concat ls) = ls"
proof (induction ls)
  case Nil
  then show ?case by (simp add: file_lines.simps)
next
  case (Cons l ls)
  obtain b where b: "l = b @ [CHR 0x0A]" "CHR 0x0A \<notin> set b" "length b < 79"
    using Cons.prems by (auto simp: line_ok_def)
  have "fgets_line 79 (concat (l # ls)) = (l, concat ls)" using fgets_line_ok [OF b(2,3)] by (simp add: b(1))
  then show ?case using Cons b(1) by (subst file_lines.simps) simp
qed

lemma c_string_line: "line_ok l \<Longrightarrow> c_string l = l"
  by (auto simp: line_ok_def c_string_def takeWhile_eq_all_conv)

lemma show_int_length: "\<bar>v\<bar> < 100000 \<Longrightarrow> length (show_int v) \<le> 6"
  using show_nat_length [of "nat \<bar>v\<bar>" 5] by (cases "v < 0") (auto simp: show_int_def nat_less_iff)

lemma param_line_ok: "name_ok name \<Longrightarrow> \<bar>v\<bar> < 100000 \<Longrightarrow> line_ok (param_line (name, v))"
  using show_int_length [of v] show_int_plain [of _ v]
  by (auto simp: line_ok_def param_line_def name_ok_def plain_char_def intro!: exI [of _ "name @ '' '' @ show_int v"])

lemma section_line_ok: "name_ok name \<Longrightarrow> n < 1000 \<Longrightarrow> line_ok (section_line name n)"
  using show_nat_length [of n 3] show_nat_plain [of _ n]
  by (auto simp: line_ok_def section_line_def name_ok_def plain_char_def
      intro!: exI [of _ "''['' @ name @ '' '' @ show_nat n @ '']''"])

subsection \<open>Parameters\<close>

definition params_ok :: "(string \<times> int) list \<Rightarrow> bool" where
  "params_ok ps \<longleftrightarrow> (\<forall>(name, v) \<in> set ps. name_ok name \<and> \<bar>v\<bar> < 100000)"

abbreviation run_line :: "(int \<Rightarrow> int) \<Rightarrow> string \<Rightarrow> (int \<times> int) \<times> config_store \<Rightarrow> (int \<times> int) \<times> config_store" where
  "run_line big line \<equiv> config_line big (c_string line)"

lemma params_lines_ok: "params_ok ps \<Longrightarrow> l \<in> set (map param_line ps) \<Longrightarrow> line_ok l"
  unfolding params_ok_def using param_line_ok by fastforce

lemma run_params:
  "params_ok ps \<Longrightarrow> fold (run_line big) (map param_line ps) (sec, s) =
     (sec, fold (\<lambda>(name, v). apply_param (fst sec) (snd sec) name v) ps s)"
proof (induction ps arbitrary: s)
  case (Cons p ps)
  obtain name v where p: "p = (name, v)" by (cases p)
  have "name_ok name" "fits 32 v" using Cons.prems by (auto simp: params_ok_def p fits_def)
  moreover have "c_string (param_line p) = param_line p"
    using Cons.prems by (intro c_string_line) (auto simp: params_ok_def p intro: param_line_ok)
  ultimately show ?case using Cons by (simp add: config_param_line p params_ok_def)
qed simp

lemma port_range_one: "n < 8 \<Longrightarrow> port_range (of_nat (Suc n)) = Some (n, n + 1)"
proof -
  assume "n < 8"
  then have "n \<in> {0, 1, 2, 3, 4, 5, 6, 7}" by auto
  then show ?thesis by (elim insertE) (simp_all, code_simp+)
qed

lemma chk_index_one: "n < 3 \<Longrightarrow> chk_index (of_nat (Suc n)) MAX_PTP_PROFILES = (0, of_nat n)"
proof -
  assume "n < 3"
  then have "n \<in> {0, 1, 2}" by auto
  then show ?thesis by (elim insertE) (simp_all, code_simp+)
qed

lemma run_profile:
  assumes "n < 3" and "length (ptp_profiles s) = 3"
  shows "fold (\<lambda>(name, v). chk_profile_param (of_nat (Suc n)) name v) ps s =
    s\<lparr>ptp_profiles := (ptp_profiles s)[n := fold (\<lambda>(name, v). profile_param name v) ps (ptp_profiles s ! n)]\<rparr>"
  using assms(2)
proof (induction ps arbitrary: s)
  case (Cons p ps)
  have "unat (of_nat n :: u8) = n" using assms(1) by (simp add: unat_of_nat)
  then show ?case using Cons assms(1) by (cases p) (simp add: chk_profile_param_def chk_index_one del: of_nat_Suc)
qed simp

lemma run_port:
  assumes "n < 8" and "length (ptp_port_profiles s) = 8" "length (ptp_settings s) = 8"
  shows "fold (\<lambda>(name, v). chk_port_param (of_nat (Suc n)) name v) ps s =
    s\<lparr>ptp_port_profiles := (ptp_port_profiles s)[n := fold (\<lambda>(name, v). port_profile_param name v) ps (ptp_port_profiles s ! n)],
      ptp_settings := (ptp_settings s)[n := fold (\<lambda>(name, v). port_setting_param name v) ps (ptp_settings s ! n)]\<rparr>"
  using assms(2-)
proof (induction ps arbitrary: s)
  case (Cons p ps)
  then show ?case using assms(1) by (cases p) (simp add: chk_port_param_def port_range_one for_ports_def del: of_nat_Suc)
qed simp

lemma run_global:
  "fold (\<lambda>(name, v). chk_global_param name v) (global_params g) s = s\<lparr>ptp_global := g\<rparr>"
  by (simp add: global_params_def chk_global_param_def Let_def)

lemma port_profile_all:
  "port_fits p \<Longrightarrow> fold (\<lambda>(name, v). port_profile_param name v) (port_params p e) q = p"
  by (simp add: port_params_def port_profile_param_def port_fits_def wrap_id)

lemma port_setting_all:
  "fits 16 (e_delayAsymmetry e) \<Longrightarrow> fold (\<lambda>(name, v). port_setting_param name v) (port_params p e) q = e"
  by (simp add: port_params_def port_setting_param_def wrap_id)

lemma bit_put_bit: "n < 16 \<Longrightarrow> bit (put_bit n on x) k = (if k = n then on else bit x k)"
  by (auto simp: put_bit_def bit_simps)

lemma small_flags: "(x :: u16) < 32 \<Longrightarrow> bit x k \<Longrightarrow> k \<in> {0, 1, 2, 3, 4}"
proof -
  assume x: "x < 32" and b: "bit x k"
  have "take_bit 5 (uint x) = uint x" using x by (simp add: take_bit_int_eq_self_iff word_less_def)
  moreover have "bit (uint x) k" using b bit_imp_le_length [OF b] by (simp add: bit_uint_iff)
  ultimately have "k < 5" by (metis bit_take_bit_iff)
  then show ?thesis by auto
qed

lemma flags_all:
  assumes "(x :: u16) < 32" and "q < 32"
  shows "put_bit 2 (bit x 2) (put_bit 1 (bit x 1) (put_bit 0 (bit x 0) (put_bit 3 (bit x 3) (put_bit 4 (bit x 4) q)))) = x"
  using small_flags [OF assms(1)] small_flags [OF assms(2)] by (intro bit_eqI) (auto simp: bit_put_bit)

lemma mechanism_flags:
  assumes "\<not> (e \<and> p)"
  shows "profile_param ''delayMechanism'' (if e then 1 else if p then 2 else 0) f =
    f\<lparr>f_stackFlags := put_bit 3 e (put_bit 4 p (f_stackFlags f))\<rparr>"
proof -
  have "put_bit 3 True (put_bit 3 False x) = put_bit 3 True x" "put_bit 4 True (put_bit 3 False (put_bit 4 False x)) =
    put_bit 3 False (put_bit 4 True x)" for x by (rule bit_eqI; simp add: bit_put_bit)+
  then show ?thesis using assms by (auto simp: profile_param_def put_flag_def)
qed

lemma profile_all:
  assumes "profile_fits f" and "profile_fits q"
  shows "fold (\<lambda>(name, v). profile_param name v) (profile_params f) q = f"
proof -
  have m: "\<not> (bit (f_stackFlags f) 3 \<and> bit (f_stackFlags f) 4)" and s: "f_stackFlags f < 32" "f_stackFlags q < 32"
    using assms by (simp_all add: profile_fits_def)
  show ?thesis
    using flags_all [OF s]
    by (simp add: profile_params_def mechanism_flags [OF m] split del: if_split split_of_bool)
       (simp add: profile_param_def put_flag_def One_nat_def split del: split_of_bool)
qed

lemma params_fit:
  "params_ok (global_params g)" "params_ok (profile_params f)"
  "port_fits p \<Longrightarrow> fits 16 (e_delayAsymmetry e) \<Longrightarrow> params_ok (port_params p e)"
proof -
  have u: "\<bar>uint (x :: u16)\<bar> < 100000" "\<bar>uint (y :: u8)\<bar> < 100000" for x y
    using uint_lt2p [of x] uint_lt2p [of y] by simp_all
  have n: "list_all name_ok (map fst (global_params g))" "list_all name_ok (map fst (profile_params f))"
    "list_all name_ok (map fst (port_params p e))" for g f p e
    by (simp_all only: global_params_def profile_params_def port_params_def list.map fst_conv) code_simp+
  have v: "\<forall>x \<in> set (map snd (global_params g)). \<bar>x\<bar> < 100000" "\<forall>x \<in> set (map snd (profile_params f)). \<bar>x\<bar> < 100000" for g f
    using u by (simp_all add: global_params_def profile_params_def)
  have w: "\<forall>x \<in> set (map snd (port_params p e)). \<bar>x\<bar> < 100000" if "port_fits p" "fits 16 (e_delayAsymmetry e)" for p e
    using u that by (auto simp: port_params_def port_fits_def fits_def)
  show "params_ok (global_params g)" "params_ok (profile_params f)"
    "port_fits p \<Longrightarrow> fits 16 (e_delayAsymmetry e) \<Longrightarrow> params_ok (port_params p e)"
    unfolding params_ok_def using n v w by (fastforce simp: list_all_iff)+
qed

subsection \<open>The whole file\<close>

lemma run_profile_section:
  assumes "n < 3" and "store_fits s" and "length (ptp_profiles t) = 3" and "\<forall>f \<in> set (ptp_profiles t). profile_fits f"
  shows "fold (run_line big) (profile_section s n) (sec, t) =
    ((- 1, int (Suc n)), t\<lparr>ptp_profiles := (ptp_profiles t)[n := ptp_profiles s ! n]\<rparr>)"
proof -
  let ?f = "ptp_profiles s ! n"
  have f: "profile_fits ?f" "profile_fits (ptp_profiles t ! n)"
    using assms by (auto simp: store_fits_def config_ok_def)
  have "run_line big (section_line ''profile'' (Suc n)) (sec, t) = ((- 1, int (Suc n)), t)"
    using assms(1) c_string_line [OF section_line_ok [OF names_ok(2), of "Suc n"]]
    by (cases sec) (simp add: config_profile_section del: of_nat_Suc)
  then show ?thesis
    using run_profile [OF assms(1,3)] profile_all [OF f] params_fit(2)
    by (simp add: profile_section_def run_params apply_param_def del: of_nat_Suc)
qed

lemma run_port_section:
  assumes "n < 8" and "store_fits s" and "length (ptp_port_profiles t) = 8" "length (ptp_settings t) = 8"
  shows "fold (run_line big) (port_section s n) (sec, t) =
    ((int (Suc n), snd sec), t\<lparr>ptp_port_profiles := (ptp_port_profiles t)[n := ptp_port_profiles s ! n],
       ptp_settings := (ptp_settings t)[n := ptp_settings s ! n]\<rparr>)"
proof -
  let ?p = "ptp_port_profiles s ! n" and ?e = "ptp_settings s ! n"
  have f: "port_fits ?p" "fits 16 (e_delayAsymmetry ?e)"
    using assms by (auto simp: store_fits_def config_ok_def)
  have "run_line big (section_line ''port'' (Suc n)) (sec, t) = ((int (Suc n), snd sec), t)"
    using assms(1) c_string_line [OF section_line_ok [OF names_ok(1), of "Suc n"]]
    by (cases sec) (simp add: config_port_section del: of_nat_Suc)
  then show ?thesis
    using run_port [OF assms(1,3,4)] port_profile_all [OF f(1)] port_setting_all [OF f(2)] params_fit(3) [OF f]
    by (simp add: port_section_def run_params apply_param_def del: of_nat_Suc)
qed

lemma take_update: "k < length a \<Longrightarrow> length a = length b \<Longrightarrow>
    (take k a @ drop k b)[k := a ! k] = take (Suc k) a @ drop (Suc k) b"
  by (intro nth_equalityI) (auto simp: nth_append nth_list_update less_Suc_eq)

lemma run_profiles:
  assumes "store_fits s" and "length (ptp_profiles t) = 3" and "\<forall>f \<in> set (ptp_profiles t). profile_fits f" and "k \<le> 3"
  shows "snd (fold (run_line big) (concat (map (profile_section s) [0..<k])) (sec, t)) =
    t\<lparr>ptp_profiles := take k (ptp_profiles s) @ drop k (ptp_profiles t)\<rparr>"
  using assms(4)
proof (induction k)
  case (Suc k)
  let ?r = "fold (run_line big) (concat (map (profile_section s) [0..<k])) (sec, t)"
  have l: "length (ptp_profiles s) = 3" using assms(1) by (simp add: store_fits_def config_ok_def)
  have r: "?r = (fst ?r, t\<lparr>ptp_profiles := take k (ptp_profiles s) @ drop k (ptp_profiles t)\<rparr>)"
    using Suc by (simp add: prod_eq_iff)
  have "\<forall>f \<in> set (take k (ptp_profiles s) @ drop k (ptp_profiles t)). profile_fits f"
    using assms(1,3) by (auto simp: store_fits_def dest: in_set_takeD in_set_dropD)
  moreover have "length (take k (ptp_profiles s) @ drop k (ptp_profiles t)) = 3" using l assms(2) Suc.prems by simp
  ultimately show ?case
    using Suc.prems l assms(2) by (simp, subst r) (simp add: run_profile_section [OF _ assms(1)] take_update)
qed simp

lemma run_ports:
  assumes "store_fits s" and "length (ptp_port_profiles t) = 8" "length (ptp_settings t) = 8" and "k \<le> 8"
  shows "snd (fold (run_line big) (concat (map (port_section s) [0..<k])) (sec, t)) =
    t\<lparr>ptp_port_profiles := take k (ptp_port_profiles s) @ drop k (ptp_port_profiles t),
      ptp_settings := take k (ptp_settings s) @ drop k (ptp_settings t)\<rparr>"
  using assms(4)
proof (induction k)
  case (Suc k)
  let ?r = "fold (run_line big) (concat (map (port_section s) [0..<k])) (sec, t)"
  have l: "length (ptp_port_profiles s) = 8" "length (ptp_settings s) = 8"
    using assms(1) by (simp_all add: store_fits_def config_ok_def)
  have r: "?r = (fst ?r, t\<lparr>ptp_port_profiles := take k (ptp_port_profiles s) @ drop k (ptp_port_profiles t),
      ptp_settings := take k (ptp_settings s) @ drop k (ptp_settings t)\<rparr>)"
    using Suc by (simp add: prod_eq_iff)
  show ?case
    using Suc.prems l assms(2,3) by (simp, subst r) (simp add: run_port_section [OF _ assms(1)] take_update)
qed simp

lemma config_lines_ok: "store_fits s \<Longrightarrow> l \<in> set (config_lines s) \<Longrightarrow> line_ok l"
proof -
  assume s: "store_fits s" and l: "l \<in> set (config_lines s)"
  have g: "line_ok (''[global]'' @ [CHR 0x0A])" by (auto simp: line_ok_def intro!: exI [of _ "''[global]''"])
  have "line_ok l" if "l \<in> set (port_section s n)" "n < 8" for n
  proof -
    have "port_fits (ptp_port_profiles s ! n)" "fits 16 (e_delayAsymmetry (ptp_settings s ! n))"
      using s that(2) by (auto simp: store_fits_def config_ok_def)
    from params_lines_ok [OF params_fit(3) [OF this]] show ?thesis
      using that section_line_ok [OF names_ok(1), of "Suc n"] by (auto simp: port_section_def)
  qed
  moreover have "line_ok l" if "l \<in> set (profile_section s n)" "n < 3" for n
    using that section_line_ok [OF names_ok(2), of "Suc n"] params_lines_ok [OF params_fit(2)] by (auto simp: profile_section_def)
  moreover have "line_ok l" if "l \<in> set (map param_line (global_params (ptp_global s)))"
    using that by (rule params_lines_ok [OF params_fit(1)])
  ultimately show ?thesis using l g unfolding config_lines_def by auto
qed

lemma for_ports_length [simp]: "length (for_ports a b f t) = length t"
proof -
  have "length (fold (\<lambda>i t. t[i := f (t ! i)]) xs t) = length t" for xs by (induction xs arbitrary: t) simp_all
  then show ?thesis by (simp add: for_ports_def)
qed

text \<open>Reading the listing of a configuration gives the configuration, whatever was there before.\<close>

lemma init_config_text:
  assumes "store_fits s" and "store_fits t"
  shows "init_config big (Some (config_text s)) t = (0, s)"
proof -
  have l: "length (ptp_profiles s) = 3" "length (ptp_port_profiles s) = 8" "length (ptp_settings s) = 8"
    "length (ptp_profiles t) = 3" "length (ptp_port_profiles t) = 8" "length (ptp_settings t) = 8"
    "\<forall>f \<in> set (ptp_profiles t). profile_fits f"
    using assms by (simp_all add: store_fits_def config_ok_def)
  have g: "fold (run_line big) ((''[global]'' @ [CHR 0x0A]) # map param_line (global_params (ptp_global s))) (sec, u) =
      ((- 1, - 1), u\<lparr>ptp_global := ptp_global s\<rparr>)" for sec u
    using c_string_line [of "''[global]'' @ [CHR 0x0A]"] config_global_section [of big sec u]
    by (simp add: line_ok_def run_params [OF params_fit(1)] apply_param_def run_global)
  have e: "file_lines (config_text s) = config_lines s"
    unfolding config_text_def using config_lines_ok [OF assms(1)] by (intro file_lines_concat) blast
  have p: "fold (run_line big) (concat (map (profile_section s) [0..<3])) (sec, u) = (fst (fold (run_line big) (concat (map (profile_section s) [0..<3])) (sec, u)), u\<lparr>ptp_profiles := ptp_profiles s\<rparr>)"
    if "length (ptp_profiles u) = 3" "\<forall>f \<in> set (ptp_profiles u). profile_fits f" for sec u
    using run_profiles [OF assms(1) that, of 3 big sec] that l(1) by (simp add: prod_eq_iff)
  show ?thesis
    unfolding init_config_def option.case e config_lines_def
    using l by (simp only: append_Cons [symmetric] fold_append comp_apply g)
      (subst p, simp_all add: copy_first_def run_ports [OF assms(1)])
qed

end
