(* ===== verification/Msgref.thy ===== *)
theory Msgref
  imports Msginfo
begin

text \<open>
  The reference counts of the message buffers are exact: the count of a buffer
  is the number of pointers to it (the six of the clock, the entries of the
  queue and the ones the running code holds), and a buffer is there as long as
  there is one.  The contract of counting is a locale; the buffers of
  \<^verbatim>\<open>ptp_msg.c\<close> interpret it.
\<close>

subsection \<open>The contract of reference counting\<close>

locale refcounted =
  fixes acquire :: "'a \<Rightarrow> 'h \<Rightarrow> 'h option"
    and release :: "'a \<Rightarrow> 'h \<Rightarrow> 'h option"
    and counted :: "'h \<Rightarrow> ('a \<Rightarrow> nat) \<Rightarrow> bool"
    and cap :: nat
  assumes acquire_ok: "counted h r \<Longrightarrow> 0 < r a \<Longrightarrow> r a < cap \<Longrightarrow>
      \<exists>h'. acquire a h = Some h' \<and> counted h' (r(a := Suc (r a)))"
    and release_ok: "counted h r \<Longrightarrow> 0 < r a \<Longrightarrow>
      \<exists>h'. release a h = Some h' \<and> counted h' (r(a := r a - 1))"
    and acquire_dead: "counted h r \<Longrightarrow> r a = 0 \<Longrightarrow> acquire a h = None"
begin

text \<open>Replacing a pointer: the old reference is dropped before the new one is taken.\<close>

definition drop :: "'a option \<Rightarrow> 'h \<Rightarrow> 'h option" where
  "drop old h = (case old of None \<Rightarrow> Some h | Some b \<Rightarrow> release b h)"

definition without :: "'a option \<Rightarrow> ('a \<Rightarrow> nat) \<Rightarrow> 'a \<Rightarrow> nat" where
  "without old r = (case old of None \<Rightarrow> r | Some b \<Rightarrow> r(b := r b - 1))"

lemma drop_ok:
  assumes "counted h r" and "\<And>b. old = Some b \<Longrightarrow> 0 < r b"
  shows "\<exists>h'. drop old h = Some h' \<and> counted h' (without old r)"
proof (cases old)
  case (Some b)
  then show ?thesis using release_ok [OF assms(1) assms(2) [OF Some]] by (simp add: drop_def without_def)
qed (use assms in \<open>simp add: drop_def without_def\<close>)

lemma replace_ok:
  assumes "counted h r" and "\<And>b. old = Some b \<Longrightarrow> 0 < r b"
    and "0 < without old r a" and "without old r a < cap"
  shows "\<exists>h'. Option.bind (drop old h) (acquire a) = Some h' \<and>
      counted h' ((without old r)(a := Suc (without old r a)))"
proof -
  obtain h' where h: "drop old h = Some h'" "counted h' (without old r)" using drop_ok [OF assms(1,2)] by auto
  then show ?thesis using acquire_ok [OF h(2), of a] assms(3,4) by simp
qed

lemma replace_dead:
  assumes "counted h r" and "\<And>b. old = Some b \<Longrightarrow> 0 < r b" and "without old r a = 0"
  shows "Option.bind (drop old h) (acquire a) = None"
proof -
  obtain h' where h: "drop old h = Some h'" "counted h' (without old r)" using drop_ok [OF assms(1,2)] by auto
  then show ?thesis using acquire_dead [OF h(2), of a] assms(3) by simp
qed

end

subsection \<open>The buffers count\<close>

fun cell_ok :: "ptp_message option \<Rightarrow> nat \<Rightarrow> bool" where
  "cell_ok None n \<longleftrightarrow> n = 0"
| "cell_ok (Some m) n \<longleftrightarrow> unat (m_refcnt m) = n \<and> 0 < n"

definition counted :: "mheap \<Rightarrow> (nat \<Rightarrow> nat) \<Rightarrow> bool" where
  "counted h r \<longleftrightarrow>
     (\<forall>a. cell_ok (mh_msgs h a) (r a)) \<and>
     (\<forall>a \<ge> mh_next h. mh_msgs h a = None) \<and> finite (dom (mh_msgs h)) \<and> mh_cnt h = int (card (dom (mh_msgs h)))"

lemma counted_live: "counted h r \<Longrightarrow> 0 < r a \<Longrightarrow> \<exists>m. mh_msgs h a = Some m \<and> unat (m_refcnt m) = r a"
  by (cases "mh_msgs h a") (auto simp: counted_def dest: spec [of _ a])

lemma counted_dead: "counted h r \<Longrightarrow> r a = 0 \<longleftrightarrow> mh_msgs h a = None"
  by (cases "mh_msgs h a") (auto simp: counted_def dest: spec [of _ a])

lemma counted_update:
  assumes "counted h r" and "mh_msgs h a = Some m" and "unat (m_refcnt m') = n" and "0 < n"
  shows "counted (h\<lparr>mh_msgs := (mh_msgs h)(a \<mapsto> m')\<rparr>) (r(a := n))"
proof -
  have "a < mh_next h" using assms(1,2) by (auto simp: counted_def not_le [symmetric])
  moreover have "insert a (dom (mh_msgs h)) = dom (mh_msgs h)" using assms(2) by auto
  ultimately show ?thesis using assms by (simp add: counted_def)
qed

lemma counted_free:
  assumes "counted h r" and "mh_msgs h a = Some m"
  shows "counted (h\<lparr>mh_msgs := (mh_msgs h)(a := None), mh_cnt := mh_cnt h - 1\<rparr>) (r(a := 0))"
proof -
  have "a \<in> dom (mh_msgs h)" using assms(2) by auto
  then have "card (dom (mh_msgs h) - {a}) = card (dom (mh_msgs h)) - 1" and "0 < card (dom (mh_msgs h))"
    using assms by (auto simp: counted_def card_gt_0_iff)
  then show ?thesis using assms by (simp add: counted_def of_nat_diff)
qed

lemma counted_alloc:
  assumes "counted h r"
  shows "counted (h\<lparr>mh_next := Suc (mh_next h), mh_msgs := (mh_msgs h)(mh_next h \<mapsto> new_message rx b),
           mh_cnt := mh_cnt h + 1\<rparr>) (r(mh_next h := 1))"
proof -
  have "mh_msgs h (mh_next h) = None" using assms by (simp add: counted_def)
  then have "mh_next h \<notin> dom (mh_msgs h)" by auto
  then show ?thesis using assms by (auto simp: counted_def new_message_def)
qed

lemma counted_skip: "counted h r \<Longrightarrow> counted (h\<lparr>mh_next := Suc (mh_next h)\<rparr>) r"
  by (simp add: counted_def)

lemma word_dec: "unat (x :: u8) = n \<Longrightarrow> 0 < n \<Longrightarrow> unat (x - 1) = n - 1"
  by (metis unat_minus_one unsigned_0 less_irrefl)

lemma word_inc: "unat (x :: u8) = n \<Longrightarrow> n < 255 \<Longrightarrow> unat (x + 1) = Suc n"
  by (simp add: unat_word_ariths)

interpretation msgs: refcounted msg_get msg_put counted 255
proof
  fix h r a assume c: "counted h r" and r: "0 < r a"
  obtain m where m: "mh_msgs h a = Some m" "unat (m_refcnt m) = r a" using counted_live [OF c r] by auto
  show "\<exists>h'. msg_get a h = Some h' \<and> counted h' (r(a := Suc (r a)))" if "r a < 255"
    using counted_update [OF c m(1), of "m\<lparr>m_refcnt := m_refcnt m + 1\<rparr>" "Suc (r a)"] m word_inc [OF m(2) that]
    by (simp add: msg_get_def upd_msg_def)
  show "\<exists>h'. msg_put a h = Some h' \<and> counted h' (r(a := r a - 1))"
  proof (cases "r a = 1")
    case True
    let ?h = "h\<lparr>mh_msgs := (mh_msgs h)(a \<mapsto> m\<lparr>m_refcnt := 0\<rparr>)\<rparr>"
    have "m_refcnt m = 1" using m(2) True by (metis unat_1 word_unat_eq_iff)
    then show ?thesis
      using counted_free [OF c m(1)] m True by (simp add: msg_put_def upd_msg_def free_msg_def)
  next
    case False
    then have "unat (m_refcnt m - 1) = r a - 1" "0 < r a - 1" using word_dec [OF m(2) r] r by simp_all
    then show ?thesis
      using counted_update [OF c m(1), of "m\<lparr>m_refcnt := m_refcnt m - 1\<rparr>" "r a - 1"] m
      by (auto simp: msg_put_def upd_msg_def)
  qed
next
  fix h r a assume "counted h r" and "r a = (0::nat)"
  then show "msg_get a h = None" using counted_dead by (simp add: msg_get_def upd_msg_def)
qed

subsection \<open>All the pointers\<close>

definition all_slots :: "slot list" where
  "all_slots = [Last_ann, Last_sync, Last_fup, Last_rx_fup, Base_sync, Base_fup]"

definition slot_refs :: "(slot \<Rightarrow> nat option) \<Rightarrow> nat \<Rightarrow> nat" where
  "slot_refs f a = length (filter (\<lambda>s. f s = Some a) all_slots)"

text \<open>\<open>held\<close> are the references of the code that runs.\<close>

definition refs :: "mstore \<Rightarrow> nat list \<Rightarrow> nat \<Rightarrow> nat" where
  "refs st held a = slot_refs (st_slot st) a + count_list (st_queue st) a + count_list held a"

definition store_ok :: "mstore \<Rightarrow> nat list \<Rightarrow> bool" where
  "store_ok st held \<longleftrightarrow> counted (st_heap st) (refs st held)"

lemma slot_refs_none: "slot_refs (f(s := None)) = msgs.without (f s) (slot_refs f)"
  by (cases "f s"; cases s) (auto simp: slot_refs_def all_slots_def msgs.without_def)

lemma slot_refs_some: "slot_refs (f(s \<mapsto> a)) b = slot_refs (f(s := None)) b + of_bool (b = a)"
  by (cases s) (auto simp: slot_refs_def all_slots_def)

lemma slot_refs_pos: "f s = Some a \<Longrightarrow> 0 < slot_refs f a"
  by (cases s) (auto simp: slot_refs_def all_slots_def)

lemma slot_refs_le: "slot_refs f a \<le> 6"
proof -
  have "slot_refs f a \<le> length all_slots" unfolding slot_refs_def by (rule length_filter_le)
  then show ?thesis by (simp add: all_slots_def)
qed

lemma refs_none:
  "refs (st\<lparr>st_slot := (st_slot st)(s := None)\<rparr>) held = msgs.without (st_slot st s) (refs st held)"
  using slot_refs_pos [of "st_slot st" s]
  by (intro ext, cases "st_slot st s") (auto simp: refs_def slot_refs_none msgs.without_def)

lemma refs_heap [simp]: "refs (st\<lparr>st_heap := h\<rparr>) = refs st"
  by (intro ext) (simp add: refs_def)

lemma refs_heap_slot [simp]: "refs (st\<lparr>st_heap := h, st_slot := f\<rparr>) = refs (st\<lparr>st_slot := f\<rparr>)"
  by (intro ext) (simp add: refs_def)

lemma count_list_pos: "a \<in> set xs \<Longrightarrow> 0 < count_list xs a"
  by (metis count_list_0_iff gr0I)

lemma refs_pos: "st_slot st s = Some a \<Longrightarrow> 0 < refs st held a" "a \<in> set (st_queue st) \<Longrightarrow> 0 < refs st held a"
  "a \<in> set held \<Longrightarrow> 0 < refs st held a"
  using slot_refs_pos [of "st_slot st" s] by (auto simp: refs_def count_list_pos)

lemma put_slot_ok:
  assumes "store_ok st held"
  shows "\<exists>h. put_slot s st = Some (st\<lparr>st_heap := h\<rparr>) \<and>
    counted h (refs (st\<lparr>st_slot := (st_slot st)(s := None)\<rparr>) held)"
proof -
  obtain h where "msgs.drop (st_slot st s) (st_heap st) = Some h" "counted h (msgs.without (st_slot st s) (refs st held))"
    using msgs.drop_ok [of "st_heap st" "refs st held" "st_slot st s"] assms refs_pos(1)
    by (auto simp: store_ok_def)
  then show ?thesis
    by (intro exI [of _ h]) (auto simp: put_slot_def msgs.drop_def on_heap_def refs_none split: option.splits)
qed

lemma msg_clear_ok:
  assumes "store_ok st held"
  shows "\<exists>h. msg_clear s st = Some (st\<lparr>st_heap := h, st_slot := (st_slot st)(s := None)\<rparr>) \<and>
    store_ok (st\<lparr>st_heap := h, st_slot := (st_slot st)(s := None)\<rparr>) held"
proof -
  obtain h where "put_slot s st = Some (st\<lparr>st_heap := h\<rparr>)"
    "counted h (refs (st\<lparr>st_slot := (st_slot st)(s := None)\<rparr>) held)"
    using put_slot_ok [OF assms, of s] by auto
  then show ?thesis by (intro exI [of _ h]) (simp add: msg_clear_def store_ok_def)
qed

lemma msg_save_ok:
  assumes "store_ok st held" and "0 < refs (st\<lparr>st_slot := (st_slot st)(s := None)\<rparr>) held a"
    and "refs (st\<lparr>st_slot := (st_slot st)(s := None)\<rparr>) held a < 255"
  shows "\<exists>h. msg_save s a st = Some (st\<lparr>st_heap := h, st_slot := (st_slot st)(s \<mapsto> a)\<rparr>) \<and>
    store_ok (st\<lparr>st_heap := h, st_slot := (st_slot st)(s \<mapsto> a)\<rparr>) held"
proof -
  let ?r = "refs (st\<lparr>st_slot := (st_slot st)(s := None)\<rparr>) held"
  obtain h where h: "put_slot s st = Some (st\<lparr>st_heap := h\<rparr>)" "counted h ?r"
    using put_slot_ok [OF assms(1)] by auto
  obtain h' where h': "msg_get a h = Some h'" "counted h' (?r(a := Suc (?r a)))"
    using msgs.acquire_ok [OF h(2), of a] assms(2,3) by auto
  have "?r(a := Suc (?r a)) = refs (st\<lparr>st_heap := h', st_slot := (st_slot st)(s \<mapsto> a)\<rparr>) held"
    by (intro ext) (auto simp: refs_def slot_refs_some)
  then show ?thesis using h h' by (intro exI [of _ h']) (simp add: msg_save_def on_heap_def store_ok_def)
qed

text \<open>A message that only the overwritten pointer held is gone when its count is raised.\<close>

lemma msg_save_dead:
  assumes "store_ok st held" and "refs (st\<lparr>st_slot := (st_slot st)(s := None)\<rparr>) held a = 0"
  shows "msg_save s a st = None"
proof -
  obtain h where h: "put_slot s st = Some (st\<lparr>st_heap := h\<rparr>)"
    "counted h (refs (st\<lparr>st_slot := (st_slot st)(s := None)\<rparr>) held)"
    using put_slot_ok [OF assms(1)] by auto
  then show ?thesis using msgs.acquire_dead [OF h(2) assms(2)] by (simp add: msg_save_def on_heap_def)
qed

subsection \<open>References of the running code\<close>

lemma put_held:
  assumes "store_ok st (a # held)"
  shows "\<exists>h. on_heap (msg_put a) st = Some (st\<lparr>st_heap := h\<rparr>) \<and> store_ok (st\<lparr>st_heap := h\<rparr>) held"
proof -
  obtain h where h: "msg_put a (st_heap st) = Some h"
    "counted h ((refs st (a # held))(a := refs st (a # held) a - 1))"
    using msgs.release_ok [of "st_heap st" "refs st (a # held)" a] assms refs_pos(3) [of a "a # held"]
    by (auto simp: store_ok_def)
  moreover have "(refs st (a # held))(a := refs st (a # held) a - 1) = refs st held"
    by (intro ext) (auto simp: refs_def)
  ultimately show ?thesis by (intro exI [of _ h]) (simp add: on_heap_def store_ok_def)
qed

lemma counted_content:
  assumes "counted h r" and "0 < r a" and "\<And>m. m_refcnt (f m) = m_refcnt m"
  shows "\<exists>h'. upd_msg a f h = Some h' \<and> counted h' r"
proof -
  obtain m where "mh_msgs h a = Some m" "unat (m_refcnt m) = r a" using counted_live [OF assms(1,2)] by auto
  then show ?thesis
    using counted_update [OF assms(1), of a m "f m" "r a"] assms(2,3) by (simp add: upd_msg_def)
qed

lemma store_content:
  assumes "store_ok st held" and "0 < refs st held a" and "\<And>m. m_refcnt (f m) = m_refcnt m"
  shows "\<exists>h. on_heap (upd_msg a f) st = Some (st\<lparr>st_heap := h\<rparr>) \<and> store_ok (st\<lparr>st_heap := h\<rparr>) held"
  using counted_content [of "st_heap st" "refs st held" a f] assms by (auto simp: on_heap_def store_ok_def)

lemma save_rx_ok:
  assumes "store_ok st held" and "0 < refs st held a" and "refs st held a < 255"
  shows "\<exists>h. ptp_save_rx_msg a st = Some (st\<lparr>st_heap := h, st_queue := st_queue st @ [a]\<rparr>) \<and>
    store_ok (st\<lparr>st_heap := h, st_queue := st_queue st @ [a]\<rparr>) held"
proof -
  let ?f = "\<lambda>m. m\<lparr>m_save := (m_save m)\<lparr>sa_tx := False\<rparr>\<rparr>"
  obtain h where h: "on_heap (upd_msg a ?f) st = Some (st\<lparr>st_heap := h\<rparr>)" "store_ok (st\<lparr>st_heap := h\<rparr>) held"
    using store_content [OF assms(1,2), of ?f] by auto
  obtain h' where h': "msg_get a h = Some h'" "counted h' ((refs st held)(a := Suc (refs st held a)))"
    using msgs.acquire_ok [of h "refs st held" a] h(2) assms(2,3) by (auto simp: store_ok_def)
  have "(refs st held)(a := Suc (refs st held a)) = refs (st\<lparr>st_heap := h', st_queue := st_queue st @ [a]\<rparr>) held"
    by (intro ext) (auto simp: refs_def)
  then show ?thesis using h h' 
    by (intro exI [of _ h']) (simp add: ptp_save_rx_msg_def queue_send_def on_heap_def store_ok_def)
qed

text \<open>Sending through the queue passes the reference on.\<close>

lemma save_tx_ok:
  assumes "store_ok st (a # held)"
  shows "\<exists>h. ptp_save_tx_msg a index portmap queue udp vid sec nsec st =
      Some (st\<lparr>st_heap := h, st_queue := st_queue st @ [a]\<rparr>) \<and>
    store_ok (st\<lparr>st_heap := h, st_queue := st_queue st @ [a]\<rparr>) held"
proof -
  let ?f = "\<lambda>m. m\<lparr>m_save := (m_save m)\<lparr>sa_tx := True, sa_udp := udp, sa_index := index,
               sa_queue := queue, sa_portmap := portmap, sa_vid := vid, sa_sec := sec, sa_nsec := nsec\<rparr>\<rparr>"
  obtain h where h: "on_heap (upd_msg a ?f) st = Some (st\<lparr>st_heap := h\<rparr>)" "store_ok (st\<lparr>st_heap := h\<rparr>) (a # held)"
    using store_content [OF assms, of a ?f] refs_pos(3) [of a "a # held" st] by auto
  have "refs st (a # held) = refs (st\<lparr>st_heap := h, st_queue := st_queue st @ [a]\<rparr>) held"
    by (intro ext) (auto simp: refs_def)
  then show ?thesis using h 
    by (intro exI [of _ h]) (simp add: ptp_save_tx_msg_def queue_send_def store_ok_def)
qed

lemma dequeue_ok: "store_ok st held \<Longrightarrow> st_queue st = a # q \<Longrightarrow> store_ok (st\<lparr>st_queue := q\<rparr>) (a # held)"
proof -
  assume "store_ok st held" "st_queue st = a # q"
  moreover from this have "refs st held = refs (st\<lparr>st_queue := q\<rparr>) (a # held)"
    by (intro ext) (auto simp: refs_def)
  ultimately show ?thesis by (simp add: store_ok_def)
qed

lemma alloc_ok:
  assumes "store_ok st held" and "alloc_msg src len rx (st_heap st) = Some (r, h)"
  shows "store_ok (st\<lparr>st_heap := h\<rparr>) (case r of None \<Rightarrow> held | Some a \<Rightarrow> a # held) \<and>
    (\<forall>a. r = Some a \<longrightarrow> refs st held a = 0)"
proof -
  have c: "counted (st_heap st) (refs st held)" using assms(1) by (simp add: store_ok_def)
  have z: "refs st held (mh_next (st_heap st)) = 0" using counted_dead [OF c] c by (simp add: counted_def)
  have "refs st (mh_next (st_heap st) # held) = (refs st held)(mh_next (st_heap st) := 1)"
    using z by (intro ext) (auto simp: refs_def)
  then show ?thesis
    using assms(2) counted_alloc [OF c] counted_skip [OF c] z
    by (auto simp: alloc_msg_def Let_def store_ok_def split: option.splits bind_splits)
qed

text \<open>No leak: the counter of allocated messages counts the messages that are pointed to.\<close>

lemma store_cnt: "store_ok st held \<Longrightarrow> mh_cnt (st_heap st) = int (card {a. 0 < refs st held a})"
proof -
  assume c: "store_ok st held"
  then have "{a. 0 < refs st held a} = dom (mh_msgs (st_heap st))"
    using counted_dead [of "st_heap st" "refs st held"] by (auto simp: store_ok_def dom_def simp flip: neq0_conv)
  then show ?thesis using c by (simp add: store_ok_def counted_def)
qed

end
