(* ===== verification/Port_frame.thy ===== *)
theory Port_frame
  imports Port
begin

text \<open>
  What the operations of the clock and of the ports leave alone, and the effect
  of \<open>port_set_state\<close> on the states of the ports.  \<open>pstates\<close> is the state of
  each port beside the state its data set shows; \<open>masters\<close> is what the state
  decision reads: the best master, the tables of foreign masters and the
  default data set.
\<close>

definition pstate :: "ptp_port \<Rightarrow> ptp_state \<times> ptp_state" where
  "pstate p = (p_state p, pds_portState (p_ds p))"

definition pstates :: "world \<Rightarrow> (ptp_state \<times> ptp_state) list" where
  "pstates w = map pstate (c_ports (w_clock w))"

type_synonym port_view = "nat \<times> u16 \<times> foreign_dataset list \<times> nat option \<times> bool"

definition pview :: "ptp_port \<Rightarrow> port_view" where
  "pview p = (p_index p, p_id p, p_foreign_masters p, p_best p, fl_gptp (p_flags p))"

type_synonym master_view =
  "nat \<times> (nat \<times> nat) option \<times> ptp_default_ds \<times> byte_list \<times> bool \<times> port_view list"

definition masters :: "world \<Rightarrow> master_view" where
  "masters w =
     (c_cnt (w_clock w), c_best (w_clock w), c_dds (w_clock w), c_id (w_clock w), cflag cf_no_announce w,
      map pview (c_ports (w_clock w)))"

subsection \<open>Updates that keep a view\<close>

lemma map_update_same: "f y = f (xs ! n) \<Longrightarrow> map f (xs[n := y]) = map f xs"
  by (metis list_update_id map_update)

lemma pstates_upd_clock:
  "(\<And>c. c_ports (f c) = c_ports c) \<Longrightarrow> pstates (upd_clock f w) = pstates w"
  by (simp add: pstates_def upd_clock_def)

lemma pstates_upd_port:
  "(\<And>p. pstate (f p) = pstate p) \<Longrightarrow> pstates (upd_port n f w) = pstates w"
  by (simp add: pstates_def upd_port_def upd_clock_def map_update_same)

lemma masters_upd_clock:
  "(\<And>c. (c_cnt (f c), c_best (f c), c_dds (f c), c_id (f c), cf_no_announce (c_flags (f c)), c_ports (f c)) =
         (c_cnt c, c_best c, c_dds c, c_id c, cf_no_announce (c_flags c), c_ports c)) \<Longrightarrow>
   masters (upd_clock f w) = masters w"
  by (simp add: masters_def upd_clock_def)

lemma masters_upd_port:
  "(\<And>p. pview (f p) = pview p) \<Longrightarrow> masters (upd_port n f w) = masters w"
  by (simp add: masters_def upd_port_def upd_clock_def map_update_same)

lemma pstates_upd_misc [simp]:
  "pstates (upd_pflags n g w) = pstates w"
  "pstates (upd_cflags h w) = pstates w"
  "pstates (upd_timers k w) = pstates w"
  "pstates (emit e w) = pstates w"
  "pstates (sched_now d w) = pstates w"
  "pstates (sched_delayed d t w) = pstates w"
  by (simp_all add: upd_pflags_def upd_cflags_def upd_timers_def pstates_upd_port pstates_upd_clock pstate_def)
     (simp_all add: pstates_def emit_def sched_now_def sched_delayed_def)

lemma masters_upd_misc [simp]:
  "(\<And>f. fl_gptp (g f) = fl_gptp f) \<Longrightarrow> masters (upd_pflags n g w) = masters w"
  "(\<And>f. cf_no_announce (h f) = cf_no_announce f) \<Longrightarrow> masters (upd_cflags h w) = masters w"
  "masters (upd_timers k w) = masters w"
  "masters (emit e w) = masters w"
  "masters (sched_now d w) = masters w"
  "masters (sched_delayed d t w) = masters w"
  by (simp_all add: upd_pflags_def upd_cflags_def upd_timers_def masters_upd_port masters_upd_clock pview_def)
     (simp_all add: masters_def emit_def sched_now_def sched_delayed_def)

subsection \<open>The operations of the clock\<close>

lemmas clock_ops =
  clock_enable_port_def ptp_update_parent_ds_def clock_stop_sync_interval_def clock_stop_sync_timeout_def
  clock_stop_sync_timer_def clock_start_sync_timer_def clock_start_signaling_timer_def
  clock_stop_signaling_timer_def clock_set_initial_sync_timeout_def clock_set_slave_port_def

lemmas keep_views = pstates_upd_clock pstates_upd_port masters_upd_clock masters_upd_port

lemma clock_views [simp]:
  "pstates (clock_default_ds w) = pstates w" "masters (clock_default_ds w) = masters w"
  "pstates (clock_enable_port n e w) = pstates w" "masters (clock_enable_port n e w) = masters w"
  "pstates (ptp_update_parent_ds f w) = pstates w" "masters (ptp_update_parent_ds f w) = masters w"
  "pstates (clock_stop_sync_timer w) = pstates w" "masters (clock_stop_sync_timer w) = masters w"
  "pstates (clock_start_sync_timer w) = pstates w" "masters (clock_start_sync_timer w) = masters w"
  "pstates (clock_stop_signaling_timer w) = pstates w" "masters (clock_stop_signaling_timer w) = masters w"
  "pstates (clock_start_signaling_timer b w) = pstates w" "masters (clock_start_signaling_timer b w) = masters w"
  "pstates (clock_set_initial_sync_timeout d w) = pstates w" "masters (clock_set_initial_sync_timeout d w) = masters w"
  "pstates (clock_set_slave_port n w) = pstates w" "masters (clock_set_slave_port n w) = masters w"
  by (simp_all add: clock_default_ds_def clock_ops keep_views Let_def pstate_def pview_def split: option.split)

lemma setup_sync_views [simp]:
  "pstates (ptp_setup_sync_interval w) = pstates w" "masters (ptp_setup_sync_interval w) = masters w"
proof -
  have view: "pstate (setup_port_interval i p) = pstate p" "pview (setup_port_interval i p) = pview p" for i p
    by (simp_all add: setup_port_interval_def pstate_def pview_def Let_def)
  have same: "map f (take k ps) @ map f (drop k ps) = map f ps" for f :: "ptp_port \<Rightarrow> 'a" and k ps
    by (metis append_take_drop_id map_append)
  show "pstates (ptp_setup_sync_interval w) = pstates w" "masters (ptp_setup_sync_interval w) = masters w"
    by (auto simp: ptp_setup_sync_interval_def upd_clock_def pstates_def masters_def Let_def view comp_def same
        split: list.split)
qed

lemma change_slave_views [simp]:
  "pstates (ptp_change_slave_interval i b w) = pstates w" "masters (ptp_change_slave_interval i b w) = masters w"
  by (simp_all add: ptp_change_slave_interval_def clock_stop_sync_interval_def clock_stop_sync_timeout_def
      keep_views Let_def pstate_def pview_def split: option.split)

subsection \<open>The operations of the ports\<close>

lemma timeout_views [simp]:
  "pstates (port_set_announce_timeout n w) = pstates w" "masters (port_set_announce_timeout n w) = masters w"
  "pstates (port_set_qualification_timeout n w) = pstates w" "masters (port_set_qualification_timeout n w) = masters w"
  "pstates (port_announce_timeout n w) = pstates w"
  by (simp_all add: port_set_announce_timeout_def port_set_qualification_timeout_def port_announce_timeout_def
      keep_views Let_def pstate_def pview_def split: option.split)

lemma sync_timer_views [simp]:
  "pstates (port_start_sync_timer n w) = pstates w" "masters (port_start_sync_timer n w) = masters w"
  "pstates (port_stop_sync_timer n w) = pstates w" "masters (port_stop_sync_timer n w) = masters w"
  by (simp_all add: port_start_sync_timer_def port_stop_sync_timer_def port_global_cfg_def)

lemma p2p_views [simp]:
  "pstates (port_start_p2p n w) = pstates w" "masters (port_start_p2p n w) = masters w"
  "pstates (port_stop_p2p n w) = pstates w" "masters (port_stop_p2p n w) = masters w"
  by (simp_all add: port_start_p2p_def port_stop_p2p_def keep_views Let_def pstate_def pview_def)

lemma peer_delay_views [simp]:
  "pstates (clock_peer_delay i w) = pstates w" "masters (clock_peer_delay i w) = masters w"
  by (simp_all add: clock_peer_delay_def keep_views Let_def pstate_def pview_def)

lemma to_state_views [simp]:
  "pstates (port_to_master n w) = pstates w" "masters (port_to_master n w) = masters w"
  "pstates (port_to_slave n w) = pstates w" "masters (port_to_slave n w) = masters w"
  by (simp_all add: port_to_master_def port_to_slave_def keep_views Let_def)

lemma leave_views [simp]:
  "pstates (leave_state n s w) = pstates w" "masters (leave_state n s w) = masters w"
  by (simp_all add: leave_state_def leave_sync_def Let_def split: ptp_state.split)

lemma enter_views:
  assumes "s \<noteq> PTP_S_INITIALIZING"
  shows "pstates (enter_state h n m s w) = pstates w" "masters (enter_state h n m s w) = masters w"
  using assms
  by (simp_all add: enter_state_def keep_views Let_def pstate_def pview_def split: ptp_state.split)

subsection \<open>Setting a state\<close>

lemma pstates_upd: "pstates (upd_port n f w) = (pstates w)[n := pstate (f (port n w))]"
  by (simp add: pstates_def upd_port_def upd_clock_def map_update)

lemma pstates_length [simp]: "length (pstates w) = length (c_ports (w_clock w))"
  by (simp add: pstates_def)

lemma pstates_nth: "n < length (c_ports (w_clock w)) \<Longrightarrow> pstates w ! n = pstate (port n w)"
  by (simp add: pstates_def)

lemma length_of_pstates: "pstates v = pstates w \<Longrightarrow> length (c_ports (w_clock v)) = length (c_ports (w_clock w))"
  by (metis pstates_length)

lemma states_of_pstates:
  assumes "pstates v = (pstates w)[n := (s, t)]" "n < length (c_ports (w_clock w))"
  shows "p_state (port n v) = s"
  by (metis assms length_list_update nth_list_update_eq pstate_def prod.sel(1) pstates_length pstates_nth)

lemma set_state_with_states:
  assumes n: "n < length (c_ports (w_clock w))" and s: "s \<noteq> PTP_S_INITIALIZING"
  shows "pstates (set_state_with h n s w) = (if p_state (port n w) = s then pstates w else (pstates w)[n := (s, s)])"
proof -
  define v where "v = (if s = PTP_S_SLAVE \<and> p_index (port n w) = 0
      then upd_port n (\<lambda>p. p\<lparr>p_cnt_sync_rx := 20\<rparr>) w else w)"
  have v: "pstates v = pstates w"
    by (simp add: v_def pstates_upd_port pstate_def)
  then have pv: "p_state (port n v) = p_state (port n w)"
    by (metis length_of_pstates n pstate_def prod.inject pstates_nth)
  define u where "u = enter_state h n (p_state (port n v) = PTP_S_MASTER) s
      (upd_port n (\<lambda>p. p\<lparr>p_state := s\<rparr>) (leave_state n s v))"
  have u: "pstates u = (pstates w)[n := (s, snd (pstate (port n (leave_state n s v))))]"
    by (simp add: u_def enter_views s pstates_upd v) (simp add: pstate_def)
  have "p_state (port n u) = s" by (rule states_of_pstates [OF u n])
  then have "pstates (upd_port n (\<lambda>p. p\<lparr>p_ds := (p_ds p)\<lparr>pds_portState := p_state p\<rparr>, p_next_state := p_state p\<rparr>) u)
      = (pstates w)[n := (s, s)]"
    by (simp add: pstates_upd u pstate_def)
  then show ?thesis
    unfolding set_state_with_def v_def [symmetric] Let_def u_def [symmetric] using v pv by simp
qed

lemmas port_set_state_states = set_state_with_states [of _ _ _ host_to_slave, folded port_set_state_def]

lemma port_set_state_state:
  assumes "n < length (c_ports (w_clock w))" "s \<noteq> PTP_S_INITIALIZING"
  shows "p_state (port n (port_set_state n s w)) = s"
proof (cases "p_state (port n w) = s")
  case True
  then have "pstates (port_set_state n s w) = pstates w" using port_set_state_states [OF assms] by simp
  then show ?thesis using True assms(1)
    by (metis length_of_pstates pstate_def prod.inject pstates_nth)
next
  case False
  then have "pstates (port_set_state n s w) = (pstates w)[n := (s, s)]"
    using port_set_state_states [OF assms] by simp
  then show ?thesis by (rule states_of_pstates [OF _ assms(1)])
qed

lemma init_views:
  assumes "\<And>w. masters (h w) = masters w"
  shows "masters (port_initialize h n w) = masters w"
proof -
  have [simp]: "masters (ptp_init_port_ds n w) = masters w" for w
    by (simp add: ptp_init_port_ds_def masters_upd_port Let_def pview_def)
  have [simp]: "masters (port_initialize_data n w) = masters w" for w
    by (simp add: port_initialize_data_def keep_views Let_def pview_def split: option.split)
  have [simp]: "masters (port_to_sync h n w) = masters w" for w
    by (simp add: port_to_sync_def assms)
  have [simp]: "masters (port_initialize_slave n w) = masters w" for w
    by (simp add: port_initialize_slave_def Let_def)
  have [simp]: "masters (port_initialize_start n w) = masters w" for w
    by (simp add: port_initialize_start_def Let_def)
  have [simp]: "masters (port_initialize_state h n w) = masters w" for w
    by (simp add: port_initialize_state_def keep_views Let_def pview_def)
  show ?thesis by (simp add: port_initialize_def masters_upd_port Let_def pview_def)
qed

lemma set_state_with_masters:
  assumes "\<And>w. masters (h w) = masters w"
  shows "masters (set_state_with h n s w) = masters w"
proof -
  have [simp]: "masters (enter_state h n m s w) = masters w" for m w
    using enter_views(2) [of s] init_views [OF assms] by (cases "s = PTP_S_INITIALIZING") (simp_all add: enter_state_def)
  show ?thesis by (simp add: set_state_with_def masters_upd_port pview_def Let_def)
qed

lemma port_set_state_masters [simp]: "masters (port_set_state n s w) = masters w"
  unfolding port_set_state_def host_to_slave_def by (intro set_state_with_masters) simp

subsection \<open>What one port does to the others\<close>

text \<open>
  An operation of port \<open>n\<close> touches the state of no other port, except that it
  may make the host port a slave.
\<close>

definition confined :: "nat \<Rightarrow> world \<Rightarrow> world \<Rightarrow> bool" where
  "confined n w v \<longleftrightarrow>
     length (pstates v) = length (pstates w) \<and>
     (\<forall>j < length (pstates w). j \<noteq> n \<longrightarrow>
        pstates v ! j = pstates w ! j \<or> j = 0 \<and> pstates v ! 0 = (PTP_S_SLAVE, PTP_S_SLAVE))"

lemma confined_same: "pstates v = pstates w \<Longrightarrow> confined n w v"
  by (simp add: confined_def)

lemma confined_trans: "confined n u w \<Longrightarrow> confined n w v \<Longrightarrow> confined n u v"
  unfolding confined_def by metis

lemma confined_own: "pstates v = (pstates w)[n := x] \<Longrightarrow> confined n w v"
  by (simp add: confined_def)

lemma confined_upd: "confined n w (upd_port n f w)"
  by (rule confined_own) (rule pstates_upd)

lemma confined_host:
  assumes "0 < length (c_ports (w_clock w))"
  shows "confined n w (host_to_slave w)"
proof -
  have "pstates (host_to_slave w) = pstates w \<or>
      pstates (host_to_slave w) = (pstates w)[0 := (PTP_S_SLAVE, PTP_S_SLAVE)]"
    using set_state_with_states [OF assms, of PTP_S_SLAVE "\<lambda>w. w"] by (auto simp: host_to_slave_def)
  then show ?thesis
    using assms unfolding confined_def
    by (metis length_list_update nth_list_update_eq nth_list_update_neq pstates_length)
qed

lemma confined_length: "confined n w v \<Longrightarrow> length (c_ports (w_clock v)) = length (c_ports (w_clock w))"
  by (simp add: confined_def)

lemma confined_initialize:
  assumes n: "n < length (c_ports (w_clock w))"
  shows "confined n w (port_initialize host_to_slave n w)"
proof -
  have start: "pstates (port_initialize_slave n u) = pstates u" "pstates (port_initialize_start n u) = pstates u" for u
    by (simp_all add: port_initialize_slave_def port_initialize_start_def Let_def)
  have data: "pstates (port_initialize_data n u) = pstates u" for u
    by (simp add: port_initialize_data_def keep_views Let_def pstate_def split: option.split)
  have sync: "confined n u (port_to_sync host_to_slave n u)" if "0 < length (c_ports (w_clock u))" for u
  proof -
    let ?v = "ptp_change_slave_interval (p_logSyncInterval (port n u)) False (clock_peer_delay (first_info (port n u)) u)"
    have v: "pstates ?v = pstates u" by simp
    then have "confined n ?v (host_to_slave ?v)"
      using that length_of_pstates [OF v] by (intro confined_host) simp
    then show ?thesis unfolding port_to_sync_def by (rule confined_trans [OF confined_same [OF v]])
  qed
  have state: "confined n u (port_initialize_state host_to_slave n u)" if "0 < length (c_ports (w_clock u))" for u
  proof -
    let ?u = "upd_port n (\<lambda>p. p\<lparr>p_state := PTP_S_LISTENING\<rparr>) u"
    let ?r = "upd_pflags n (\<lambda>f. f\<lparr>fl_report_announce := True, fl_report_mismatched := 0, fl_report_pdelay := True\<rparr>) ?u"
    let ?s = "\<lambda>f st. upd_pflags n f (upd_port n (\<lambda>p. p\<lparr>p_state := st\<rparr>) ?r)"
    have u: "confined n u ?u" by (rule confined_upd)
    have s: "confined n u (?s f st)" for f st
      by (rule confined_trans [OF u]) (rule confined_own, simp add: pstates_upd)
    have l: "0 < length (c_ports (w_clock (?s f st)))" for f st
      using that confined_length [OF s] by simp
    have a: "confined n u (port_set_announce_timeout n ?u)"
      by (rule confined_trans [OF u confined_same]) simp
    show ?thesis
      unfolding port_initialize_state_def Let_def
      using u s a confined_trans [OF s sync [OF l]] by simp
  qed
  let ?v = "port_initialize_data n (ptp_init_port_ds n w)"
  have ds: "confined n w (ptp_init_port_ds n w)"
    unfolding ptp_init_port_ds_def by (rule confined_upd)
  have v: "confined n w ?v" by (rule confined_trans [OF ds confined_same [OF data]])
  have l: "0 < length (c_ports (w_clock ?v))" using n confined_length [OF v] by linarith
  have fin: "confined n w (port_initialize_slave n u)" if "confined n w u" for u
    using that start(1) [of u] by (simp add: confined_def)
  have starts: "confined n w (port_initialize_start n u)" if "confined n w u" for u
    using that start(2) [of u] by (simp add: confined_def)
  show ?thesis
    unfolding port_initialize_def Let_def
    using confined_trans [OF ds confined_upd]
      fin [OF confined_trans [OF v confined_upd]] fin [OF starts [OF confined_trans [OF v state [OF l]]]]
    by simp
qed

lemma confined_set_state:
  assumes n: "n < length (c_ports (w_clock w))"
  shows "confined n w (port_set_state n s w)"
proof (cases "s = PTP_S_INITIALIZING")
  case False
  then show ?thesis
    using port_set_state_states [OF n False] by (simp add: confined_same confined_own split: if_splits)
next
  case True
  let ?u = "upd_port n (\<lambda>p. p\<lparr>p_state := s\<rparr>) (leave_state n s w)"
  have u: "confined n w ?u" by (rule confined_own) (simp add: pstates_upd)
  have "confined n ?u (port_initialize host_to_slave n ?u)"
    by (rule confined_initialize) (simp add: confined_length [OF u] n)
  then have "confined n w (port_initialize host_to_slave n ?u)" by (rule confined_trans [OF u])
  then show ?thesis
    unfolding port_set_state_def set_state_with_def Let_def enter_state_def
    using True confined_same [of w w n] by (auto intro: confined_trans [OF _ confined_upd])
qed

text \<open>The state of each port is the state its data set shows.\<close>

definition shown :: "world \<Rightarrow> bool" where
  "shown w \<longleftrightarrow> (\<forall>n < length (c_ports (w_clock w)). pds_portState (p_ds (port n w)) = p_state (port n w))"

lemma shown_pstates: "shown w \<longleftrightarrow> (\<forall>n < length (pstates w). fst (pstates w ! n) = snd (pstates w ! n))"
  by (simp add: shown_def pstates_nth pstate_def eq_commute)

lemma shown_cong: "pstates v = pstates w \<Longrightarrow> shown v = shown w"
  by (simp add: shown_pstates del: pstates_length)

lemma port_set_state_same:
  assumes n: "n < length (c_ports (w_clock w))" and s: "p_state (port n w) = s"
  shows "pstates (port_set_state n s w) = pstates w"
proof -
  let ?v = "upd_port n (\<lambda>p. p\<lparr>p_cnt_sync_rx := 20\<rparr>) w"
  have v: "p_state (port n ?v) = s" using n s by (simp add: upd_port_def upd_clock_def)
  have "port_set_state n s w = w \<or> port_set_state n s w = ?v"
    unfolding port_set_state_def set_state_with_def Let_def by (simp add: s v)
  moreover have "pstates ?v = pstates w" by (rule pstates_upd_port) (simp add: pstate_def)
  ultimately show ?thesis by auto
qed

lemma port_set_state_last:
  assumes n: "n < length (c_ports (w_clock w))" and s: "p_state (port n w) \<noteq> s"
  obtains u where "port_set_state n s w =
    upd_port n (\<lambda>p. p\<lparr>p_ds := (p_ds p)\<lparr>pds_portState := p_state p\<rparr>, p_next_state := p_state p\<rparr>) u"
proof -
  define v where "v = (if s = PTP_S_SLAVE \<and> p_index (port n w) = 0
      then upd_port n (\<lambda>p. p\<lparr>p_cnt_sync_rx := 20\<rparr>) w else w)"
  have v: "p_state (port n v) \<noteq> s" using n s by (auto simp add: v_def upd_port_def upd_clock_def)
  show ?thesis
    by (rule that, unfold port_set_state_def set_state_with_def v_def [symmetric] Let_def if_not_P [OF v]) (rule refl)
qed

lemma port_set_state_shown:
  assumes n: "n < length (c_ports (w_clock w))" and w: "shown w"
  shows "shown (port_set_state n s w)"
proof (cases "p_state (port n w) = s")
  case True
  then show ?thesis using w shown_cong [OF port_set_state_same [OF n True]] by simp
next
  case False
  let ?v = "port_set_state n s w"
  have c: "confined n w ?v" by (rule confined_set_state [OF n])
  obtain u where u: "?v = upd_port n (\<lambda>p. p\<lparr>p_ds := (p_ds p)\<lparr>pds_portState := p_state p\<rparr>, p_next_state := p_state p\<rparr>) u"
    by (rule port_set_state_last [OF n False])
  have "fst (pstates ?v ! n) = snd (pstates ?v ! n)"
    using n confined_length [OF c] by (simp add: u pstates_nth) (simp add: upd_port_def upd_clock_def pstate_def)
  moreover have "fst (pstates ?v ! j) = snd (pstates ?v ! j)" if "j < length (pstates w)" "j \<noteq> n" for j
    using c that w by (auto simp: confined_def shown_pstates simp del: pstates_length)
  ultimately show ?thesis
    using confined_length [OF c] unfolding shown_pstates by (metis pstates_length)
qed

end
