(* ===== verification/Decision_props.thy ===== *)
theory Decision_props
  imports Decision Port_frame
begin

text \<open>
  The state decision is correct: it takes the best of all announced masters,
  makes a slave of at most the port that hears it, and keeps the tables of
  foreign masters consistent.
\<close>

subsection \<open>The scan over the ports\<close>

lemma port_upd_port:
  "port j (upd_port i f w) = (if j = i \<and> i < length (c_ports (w_clock w)) then f (port i w) else port j w)"
  by (simp add: upd_port_def upd_clock_def nth_list_update) (metis list_update_beyond not_less nth_list_update_neq)

text \<open>Each port gets the best of its own table, whatever the best so far.\<close>

lemma scan_world:
  "snd (scan_best is best w) = fold (\<lambda>i. upd_port i (\<lambda>p. p\<lparr>p_best := find_best_master (p_foreign_masters p)\<rparr>)) is w"
proof (induction "is" arbitrary: best w)
  case (Cons i "is")
  have "upd_port i (\<lambda>p. p\<lparr>p_best := find_best_master (p_foreign_masters (port i w))\<rparr>) w =
      upd_port i (\<lambda>p. p\<lparr>p_best := find_best_master (p_foreign_masters p)\<rparr>) w"
    by (simp add: upd_port_def upd_clock_def)
  then show ?case using Cons
    by (cases "find_best_master (p_foreign_masters (port i w))") (simp_all add: Let_def)
qed simp

lemma scan_tables: "p_foreign_masters (port j (snd (scan_best is best w))) = p_foreign_masters (port j w)"
  unfolding scan_world by (induction "is" arbitrary: w) (simp_all add: port_upd_port)

definition port_masters :: "nat list \<Rightarrow> world \<Rightarrow> bmc_dataset list" where
  "port_masters is w =
     concat (map (\<lambda>i. case find_best_master (p_foreign_masters (port i w)) of
                        None \<Rightarrow> [] | Some k \<Rightarrow> [master_ds (i, k) w]) is)"

lemma master_ds_upd: "master_ds r (upd_port i (\<lambda>p. p\<lparr>p_best := b\<rparr>) w) = master_ds r w"
  by (simp add: master_ds_def port_upd_port)

lemma port_masters_upd: "port_masters is (upd_port i (\<lambda>p. p\<lparr>p_best := b\<rparr>) w) = port_masters is w"
proof -
  have "p_foreign_masters (port j (upd_port i (\<lambda>p. p\<lparr>p_best := b\<rparr>) w)) = p_foreign_masters (port j w)" for j
    by (simp add: port_upd_port)
  moreover have "master_ds r (upd_port i (\<lambda>p. p\<lparr>p_best := b\<rparr>) w) = master_ds r w" for r by (rule master_ds_upd)
  ultimately show ?thesis by (simp only: port_masters_def)
qed

lemma scan_pick:
  "map_option (\<lambda>r. master_ds r w) (fst (scan_best is best w)) =
   best_choice.pick bmca_compare (port_masters is w) (map_option (\<lambda>r. master_ds r w) best)"
proof (induction "is" best w rule: scan_best.induct)
  case (2 i "is" best w)
  let ?b = "find_best_master (p_foreign_masters (port i w))"
  let ?w = "upd_port i (\<lambda>p. p\<lparr>p_best := ?b\<rparr>) w"
  have m: "port_masters (i # is) w =
      (case ?b of None \<Rightarrow> [] | Some k \<Rightarrow> [master_ds (i, k) w]) @ port_masters is w"
    by (simp add: port_masters_def)
  show ?case
  proof (cases ?b)
    case None
    then show ?thesis using "2.IH"(1) [OF refl refl None] by (simp add: m Let_def master_ds_upd port_masters_upd)
  next
    case (Some k)
    then show ?thesis using "2.IH"(2) [OF refl refl Some]
      by (cases best) (auto simp: m Let_def master_ds_upd port_masters_upd)
  qed
qed (simp add: port_masters_def)

lemma scan_member:
  "fst (scan_best is best w) = Some (n, k) \<Longrightarrow>
   best = Some (n, k) \<or> n \<in> set is \<and> find_best_master (p_foreign_masters (port n w)) = Some k"
proof (induction "is" best w rule: scan_best.induct)
  case (2 i "is" best w)
  then show ?case
    by (auto simp: Let_def port_upd_port split: option.splits if_splits)
qed simp

text \<open>The valid entries in the tables of the ports \<open>is\<close>.\<close>

definition candidates :: "nat list \<Rightarrow> world \<Rightarrow> bmc_dataset set" where
  "candidates is w = {fd_dataset f | i f. i \<in> set is \<and> f \<in> set (p_foreign_masters (port i w)) \<and> fd_valid f}"

lemma port_masters_candidates: 
  assumes "candidates is w \<subseteq> announced q"
  shows "set (port_masters is w) \<subseteq> candidates is w"
    "\<forall>d \<in> candidates is w. \<exists>x \<in> set (port_masters is w). ds_key x \<le> ds_key d"
proof -
  have least: "\<exists>k < length (p_foreign_masters (port i w)). find_best_master (p_foreign_masters (port i w)) = Some k \<and>
      fd_valid (p_foreign_masters (port i w) ! k) \<and>
      (\<forall>f \<in> set (p_foreign_masters (port i w)). fd_valid f \<longrightarrow>
         ds_key (fd_dataset (p_foreign_masters (port i w) ! k)) \<le> ds_key (fd_dataset f))"
    if "i \<in> set is" "f \<in> set (p_foreign_masters (port i w))" "fd_valid f" for i f
    using assms that by (intro find_best_master_least [where q = q]) (auto simp: candidates_def)
  show "set (port_masters is w) \<subseteq> candidates is w"
  proof
    fix d assume "d \<in> set (port_masters is w)"
    then obtain i where "i \<in> set is" "d \<in> set (case find_best_master (p_foreign_masters (port i w)) of
        None \<Rightarrow> [] | Some k \<Rightarrow> [master_ds (i, k) w])"
      unfolding port_masters_def set_concat set_map by blast
    then obtain k where i: "i \<in> set is" "find_best_master (p_foreign_masters (port i w)) = Some k" "d = master_ds (i, k) w"
      by (cases "find_best_master (p_foreign_masters (port i w))") auto
    then obtain f where "f \<in> set (p_foreign_masters (port i w))" "fd_valid f"
      using find_best_master_none [of "p_foreign_masters (port i w)"] by auto
    from least [OF i(1) this] i show "d \<in> candidates is w"
      unfolding candidates_def master_ds_def by (auto dest!: nth_mem)
  qed
  show "\<forall>d \<in> candidates is w. \<exists>x \<in> set (port_masters is w). ds_key x \<le> ds_key d"
  proof
    fix d assume "d \<in> candidates is w"
    then obtain i f where f: "i \<in> set is" "f \<in> set (p_foreign_masters (port i w))" "fd_valid f" "d = fd_dataset f"
      by (auto simp: candidates_def)
    from least [OF f(1-3)] f obtain k where "find_best_master (p_foreign_masters (port i w)) = Some k"
      "ds_key (master_ds (i, k) w) \<le> ds_key d" by (auto simp: master_ds_def)
    then show "\<exists>x \<in> set (port_masters is w). ds_key x \<le> ds_key d"
      using f(1) by (intro bexI [of _ "master_ds (i, k) w"]) (auto simp: port_masters_def intro!: bexI [of _ i])
  qed
qed

lemma scan_best_least:
  assumes "candidates is w \<subseteq> announced q"
  shows "case fst (scan_best is None w) of
      None \<Rightarrow> candidates is w = {}
    | Some r \<Rightarrow> fst r \<in> set is \<and> master_ds r w \<in> candidates is w \<and>
        (\<forall>d \<in> candidates is w. ds_key (master_ds r w) \<le> ds_key d)"
proof -
  note m = port_masters_candidates [OF assms]
  have pick: "map_option (\<lambda>r. master_ds r w) (fst (scan_best is None w)) = bmca.pick (port_masters is w) None"
    using scan_pick [of w "is" None] by simp
  show ?thesis
  proof (cases "port_masters is w = []")
    case True
    then show ?thesis using pick m(2) by (auto split: option.splits)
  next
    case False
    have "set (port_masters is w) \<subseteq> announced q" using m(1) assms by auto
    from bmca.pick_best [OF this False] obtain c where
      c: "bmca.pick (port_masters is w) None = Some c" "c \<in> set (port_masters is w)"
      "\<forall>x \<in> set (port_masters is w). ds_key c \<le> ds_key x" by blast
    then obtain r where r: "fst (scan_best is None w) = Some r" "master_ds r w = c"
      using pick by auto
    moreover have "fst r \<in> set is" using scan_member [of "is" None w "fst r" "snd r"] r(1) by simp
    moreover have "\<forall>d \<in> candidates is w. ds_key c \<le> ds_key d" using m(2) c(3) order_trans by blast
    ultimately show ?thesis using c(2) m(1) by auto
  qed
qed

subsection \<open>The best master of the clock\<close>

text \<open>Clocks of different identity are compared by their quality and identity alone.\<close>

definition clock_rank :: "bmc_dataset \<Rightarrow> nat list" where
  "clock_rank d = clock_key d @ map unat (ds_id d)"

lemma bmca_compare_rank:
  assumes l: "length (ds_id a) = length (ds_id b)" and d: "ds_id a \<noteq> ds_id b"
  shows "0 < bmca_compare a b \<longleftrightarrow> clock_rank a < clock_rank b"
proof -
  have "memcmp (ds_id a) (ds_id b) \<noteq> 0" using d memcmp_eq [OF l] by simp
  then show ?thesis
    using memcmp_less [OF l] list_less_append [of "clock_key a" "clock_key b"]
    by (auto simp: bmca_compare_def clock_rank_def Let_def clock_key_def word_less_nat_alt)
qed

lemma choose_best_masters:
  "masters (choose_best best w) =
   (c_cnt (w_clock w), 
    if (case best of None \<Rightarrow> False | Some r \<Rightarrow> 0 < bmca_compare (master_ds r w) (own_ds w)) then best else None,
    c_dds (w_clock w), c_id (w_clock w), cflag cf_no_announce w, map pview (c_ports (w_clock w)))"
proof -
  let ?b = "if (case best of None \<Rightarrow> False | Some r \<Rightarrow> 0 < bmca_compare (master_ds r w) (own_ds w)) then best else None"
  let ?u = "upd_clock (\<lambda>c. c\<lparr>c_best := ?b\<rparr>) w"
  have "masters (choose_best best w) = masters ?u"
    by (cases best) (simp_all add: choose_best_def Let_def masters_upd_clock)
  also have "\<dots> = (c_cnt (w_clock w), ?b, c_dds (w_clock w), c_id (w_clock w), cflag cf_no_announce w,
      map pview (c_ports (w_clock w)))"
    by (simp add: masters_def upd_clock_def)
  finally show ?thesis .
qed

lemma choose_best_states [simp]: "pstates (choose_best best w) = pstates w"
  by (simp add: choose_best_def Let_def pstates_upd_clock)

lemma scan_states: "pstates (snd (scan_best is best w)) = pstates w"
  unfolding scan_world by (induction "is" arbitrary: w) (simp_all add: pstates_upd_port pstate_def)

subsection \<open>One port\<close>

definition port_decision :: "nat \<Rightarrow> world \<Rightarrow> ptp_state" where
  "port_decision i w = fst (bmca_decision i w)"

definition port_decide :: "nat \<Rightarrow> world \<Rightarrow> world" where
  "port_decide i w =
     (let (state, w) = bmca_decision i w;
          w = upd_port i (\<lambda>p. p\<lparr>p_last_state := state\<rparr>) w
      in port_set_state i (port_event (w_clock w) (port i w) (decision_event state)) w)"

lemma decide_ports_Cons:
  "decide_ports (i # is) hs hm w =
     decide_ports is (hs \<or> port_decision i w = PTP_S_SLAVE)
       (hm \<or> port_decision i w = PTP_S_MASTER \<or> p_state (port i (port_decide i w)) = PTP_S_MASTER)
       (port_decide i w)"
  by (simp add: port_decide_def port_decision_def Let_def split_beta)

lemma bmca_decision_views [simp]:
  "masters (snd (bmca_decision i w)) = masters w" "pstates (snd (bmca_decision i w)) = pstates w"
  "c_ports (w_clock (snd (bmca_decision i w))) = c_ports (w_clock w)"
  "c_dds (w_clock (snd (bmca_decision i w))) = c_dds (w_clock w)"
  by (simp_all add: bmca_decision_def Let_def keep_views)
     (simp_all add: clock_default_ds_def upd_clock_def Let_def)

lemma decision_range:
  "port_decision i w \<in> {PTP_S_LISTENING, PTP_S_FAULTY, PTP_S_MASTER, PTP_S_PASSIVE, PTP_S_SLAVE, PTP_S_PRE_MASTER}"
  by (simp add: port_decision_def bmca_decision_def Let_def)

lemma default_ds_best:
  "clock_best (w_clock (clock_default_ds w)) = clock_best (w_clock w)"
  "clock_class (w_clock (clock_default_ds w)) = clock_class (w_clock w)"
  "c_ports (w_clock (clock_default_ds w)) = c_ports (w_clock w)"
  by (simp_all add: clock_best_def clock_class_def clock_default_ds_def upd_clock_def Let_def)

lemma best_upd_dataset [simp]:
  "clock_best (c\<lparr>c_dataset := d\<rparr>) = clock_best c" "clock_class (c\<lparr>c_dataset := d\<rparr>) = clock_class c"
  by (simp_all add: clock_best_def clock_class_def)

definition decision_own :: "nat \<Rightarrow> world \<Rightarrow> bmc_dataset" where
  "decision_own i w = own_ds (snd (bmca_decision i w))"

definition dds_rank :: "ptp_default_ds \<Rightarrow> nat list" where
  "dds_rank d =
     [unat (dd_priority1 d), unat (q_class (dd_quality d)), unat (q_accuracy (dd_quality d)),
      unat (q_variance (dd_quality d)), unat (dd_priority2 d)] @ map unat (dd_clockIdentity d)"

lemma decision_own_id: "ds_id (decision_own i w) = dd_clockIdentity (c_dds (w_clock w))"
  by (simp add: decision_own_def own_ds_def bmca_decision_def clock_default_ds_def upd_clock_def Let_def)

lemma decision_own_rank: "clock_rank (decision_own i w) = dds_rank (c_dds (w_clock w))"
  by (simp add: decision_own_def own_ds_def bmca_decision_def clock_default_ds_def upd_clock_def Let_def
      clock_rank_def clock_key_def dds_rank_def)

lemma port_decision_eq:
  "port_decision i w =
     (let own = decision_own i w; c = w_clock w; port_best = port_best_ds (port i w); state = p_state (port i w)
      in if port_best = None \<and> (state = PTP_S_LISTENING \<or> state = PTP_S_FAULTY) then state
         else if \<not> port_can_accept_announce c own port_best
         then (if bmca_better (Some own) port_best > 0 then PTP_S_MASTER else PTP_S_PASSIVE)
         else if clock_class c \<noteq> 255 \<and> bmca_better (Some own) (clock_best_ds c) > 0 then PTP_S_MASTER
         else if clock_best_port c = Some i then PTP_S_SLAVE
         else if clock_best_port c = None then (if state = PTP_S_FAULTY then state else PTP_S_LISTENING)
         else if bmca_better (clock_best_ds c) port_best = A_BETTER_PATH then PTP_S_PASSIVE
         else PTP_S_PRE_MASTER)"
proof -
  define v where "v = snd (bmca_decision i w)"
  have own: "decision_own i w = own_ds v" by (simp add: decision_own_def v_def)
  have b: "clock_best (w_clock v) = clock_best (w_clock w)" "clock_class (w_clock v) = clock_class (w_clock w)"
    by (simp_all add: v_def bmca_decision_def Let_def upd_clock_def default_ds_best)
  then have best: "clock_best_port (w_clock v) = clock_best_port (w_clock w)"
    "clock_best_ds (w_clock (clock_default_ds w)) = clock_best_ds (w_clock w)"
    "port_can_accept_announce (w_clock v) own pb = port_can_accept_announce (w_clock w) own pb" for own pb
    by (simp_all add: clock_best_port_def clock_best_ds_def default_ds_best port_can_accept_announce_def)
  show ?thesis
    unfolding own Let_def b(2) [symmetric] best(1) [symmetric] best(2) [symmetric] best(3) [symmetric]
      default_ds_best(3) [symmetric, of w]
    by (simp only: port_decision_def bmca_decision_def v_def Let_def fst_conv snd_conv)
qed

lemma decision_not_slave:
  assumes "clock_best_port (w_clock w) \<noteq> Some i" "clock_class (w_clock w) \<noteq> 255"
  shows "port_decision i w \<noteq> PTP_S_SLAVE"
    and "port_decision i w = PTP_S_LISTENING \<Longrightarrow> p_state (port i w) = PTP_S_LISTENING"
proof -
  show "port_decision i w \<noteq> PTP_S_SLAVE"
    using assms(1) by (simp add: port_decision_eq Let_def)
  show "p_state (port i w) = PTP_S_LISTENING" if "port_decision i w = PTP_S_LISTENING"
    using that assms(2)
    by (auto simp: port_decision_eq Let_def clock_best_port_def clock_best_ds_def split: if_splits)
qed

lemma port_event_cong:
  assumes "c_dds c = c_dds c'" "p_state p = p_state p'" "fl_gptp (p_flags p) = fl_gptp (p_flags p')"
  shows "port_event c p e = port_event c' p' e"
  unfolding port_event_def clock_class_def assms ..

lemma event_not_slave:
  assumes "d \<noteq> PTP_S_SLAVE" "d = PTP_S_LISTENING \<Longrightarrow> p_state p = PTP_S_LISTENING"
    and "d \<in> {PTP_S_LISTENING, PTP_S_FAULTY, PTP_S_MASTER, PTP_S_PASSIVE, PTP_S_SLAVE, PTP_S_PRE_MASTER}"
  shows "port_event c p (decision_event d) \<notin> {PTP_S_SLAVE, PTP_S_UNCALIBRATED}"
  using assms by (cases "p_state p") (auto simp: port_event_def decision_event_def Let_def)

lemma event_initializing:
  "port_event c p (decision_event d) = PTP_S_INITIALIZING \<Longrightarrow> p_state p = PTP_S_INITIALIZING"
  by (cases "p_state p"; cases d) (simp_all add: port_event_def decision_event_def Let_def split: if_splits)

text \<open>Deciding for port \<open>i\<close> moves it by its event and leaves the other ports alone.\<close>

lemma port_decide_states:
  assumes i: "i < length (c_ports (w_clock w))"
  defines "s \<equiv> port_event (w_clock w) (port i w) (decision_event (port_decision i w))"
  shows "pstates (port_decide i w) =
    (if p_state (port i w) = s then pstates w else (pstates w)[i := (s, s)])"
    and "masters (port_decide i w) = masters w"
    and "p_state (port i (port_decide i w)) = s"
proof -
  let ?d = "port_decision i w"
  let ?u = "upd_port i (\<lambda>p. p\<lparr>p_last_state := ?d\<rparr>) (snd (bmca_decision i w))"
  have pu: "pstates ?u = pstates w" by (simp add: pstates_upd_port pstate_def)
  have mu: "masters ?u = masters w" by (simp add: masters_upd_port pview_def)
  have l: "i < length (c_ports (w_clock ?u))" using i length_of_pstates [OF pu] by simp
  have p: "port i ?u = (port i w)\<lparr>p_last_state := ?d\<rparr>" using i by (simp add: port_upd_port)
  have "c_dds (w_clock ?u) = c_dds (w_clock w)" by (simp add: upd_port_def upd_clock_def)
  then have e: "port_event (w_clock ?u) (port i ?u) (decision_event ?d) = s"
    unfolding s_def by (rule port_event_cong) (simp_all add: p)
  have v: "port_decide i w = port_set_state i s ?u"
    unfolding port_decide_def Let_def split_beta e [symmetric] by (simp add: port_decision_def)
  have same: "p_state (port i ?u) = p_state (port i w)" by (simp add: p)
  show st: "pstates (port_decide i w) = (if p_state (port i w) = s then pstates w else (pstates w)[i := (s, s)])"
  proof (cases "p_state (port i w) = s")
    case True
    then show ?thesis using port_set_state_same [OF l] same pu by (simp add: v)
  next
    case False
    then have "s \<noteq> PTP_S_INITIALIZING" using event_initializing s_def by metis
    then show ?thesis using port_set_state_states [OF l] False same pu by (simp add: v)
  qed
  show "masters (port_decide i w) = masters w" by (simp add: v mu)
  show "p_state (port i (port_decide i w)) = s"
  proof (cases "p_state (port i w) = s")
    case True
    then show ?thesis using st i by (metis length_of_pstates pstate_def prod.inject pstates_nth)
  next
    case False
    then show ?thesis using st i by (intro states_of_pstates [of _ w i s s]) simp_all
  qed
qed

subsection \<open>All ports\<close>

text \<open>\<open>V i\<close> is the world in which port \<open>i\<close> is decided.\<close>

definition port_result :: "nat \<Rightarrow> world \<Rightarrow> ptp_state" where
  "port_result i w = port_event (w_clock w) (port i w) (decision_event (port_decision i w))"

lemma decide_ports_spec:
  assumes "distinct is" "\<forall>i \<in> set is. i < length (c_ports (w_clock w))" "decide_ports is hs hm w = (hs', hm', w')"
  shows "masters w' = masters w \<and> length (pstates w') = length (pstates w) \<and>
    (\<forall>j. j \<notin> set is \<longrightarrow> pstates w' ! j = pstates w ! j) \<and>
    (\<exists>V. (\<forall>i \<in> set is. masters (V i) = masters w \<and> pstates (V i) ! i = pstates w ! i \<and>
            length (pstates (V i)) = length (pstates w) \<and> fst (pstates w' ! i) = port_result i (V i)) \<and>
         (hs' \<longleftrightarrow> hs \<or> (\<exists>i \<in> set is. port_decision i (V i) = PTP_S_SLAVE)))"
  using assms
proof (induction "is" arbitrary: w hs hm)
  case (Cons i "is")
  let ?u = "port_decide i w"
  have i: "i < length (c_ports (w_clock w))" using Cons.prems by simp
  note d = port_decide_states [OF i, folded port_result_def]
  have l: "length (pstates ?u) = length (pstates w)" by (simp add: d(1) del: pstates_length)
  have other: "pstates ?u ! j = pstates w ! j" if "j \<noteq> i" for j using that by (simp add: d(1))
  have fin: "fst (pstates ?u ! i) = port_result i w"
    using d(3) i l by (simp add: pstates_nth pstate_def)
  let ?hs = "hs \<or> port_decision i w = PTP_S_SLAVE"
  obtain V where V: "masters w' = masters ?u" "length (pstates w') = length (pstates ?u)"
    "\<forall>j. j \<notin> set is \<longrightarrow> pstates w' ! j = pstates ?u ! j"
    "\<forall>j \<in> set is. masters (V j) = masters ?u \<and> pstates (V j) ! j = pstates ?u ! j \<and>
       length (pstates (V j)) = length (pstates ?u) \<and> fst (pstates w' ! j) = port_result j (V j)"
    "hs' \<longleftrightarrow> ?hs \<or> (\<exists>j \<in> set is. port_decision j (V j) = PTP_S_SLAVE)"
    using Cons.IH [of ?u ?hs] Cons.prems l by (auto simp: decide_ports_Cons simp del: decide_ports.simps)
  have ni: "i \<notin> set is" using Cons.prems by simp
  let ?V = "V(i := w)"
  have "\<forall>j \<in> set (i # is). masters (?V j) = masters w \<and> pstates (?V j) ! j = pstates w ! j \<and>
      length (pstates (?V j)) = length (pstates w) \<and> fst (pstates w' ! j) = port_result j (?V j)"
    using V(3,4) ni other l fin d(2) by (auto simp del: pstates_length)
  moreover have "hs' \<longleftrightarrow> hs \<or> (\<exists>j \<in> set (i # is). port_decision j (?V j) = PTP_S_SLAVE)"
    using V(5) ni by auto
  moreover have "\<forall>j. j \<notin> set (i # is) \<longrightarrow> pstates w' ! j = pstates w ! j" using V(3) other by simp
  ultimately show ?case using V(1,2) d(2) l by (intro conjI exI [of _ ?V]) simp_all
qed auto

subsection \<open>Tables of foreign masters\<close>

definition threshold :: "bool \<Rightarrow> nat" where
  "threshold gptp = (if gptp then 1 else FOREIGN_MASTER_THRESHOLD)"

text \<open>A master is valid exactly when it was heard as often as the profile asks.\<close>

definition foreign_ok :: "nat \<Rightarrow> bool \<Rightarrow> foreign_dataset \<Rightarrow> bool" where
  "foreign_ok n gptp f \<longleftrightarrow>
     (fd_cnt f \<noteq> 0 \<longrightarrow> fd_port f = n) \<and> unat (fd_cnt f) \<le> threshold gptp \<and>
     (fd_valid f \<longleftrightarrow> unat (fd_cnt f) = threshold gptp)"

definition view_ok :: "nat \<Rightarrow> port_view \<Rightarrow> bool" where
  "view_ok n v =
     (case v of (index, _, fs, best, gptp) \<Rightarrow>
        (index = 0) = (n = 0) \<and> (n \<noteq> 0 \<longrightarrow> list_all (foreign_ok n gptp) fs))"

definition tables_ok :: "world \<Rightarrow> bool" where
  "tables_ok w \<longleftrightarrow>
     length (c_ports (w_clock w)) = Suc (c_cnt (w_clock w)) \<and>
     (\<forall>n < length (c_ports (w_clock w)). view_ok n (pview (port n w)))"

lemma masters_port:
  assumes "masters v = masters w"
  shows "length (c_ports (w_clock v)) = length (c_ports (w_clock w))"
    and "n < length (c_ports (w_clock w)) \<Longrightarrow> pview (port n v) = pview (port n w)"
proof -
  have m: "map pview (c_ports (w_clock v)) = map pview (c_ports (w_clock w))" using assms by (simp add: masters_def)
  then show l: "length (c_ports (w_clock v)) = length (c_ports (w_clock w))" by (rule map_eq_imp_length_eq)
  show "pview (port n v) = pview (port n w)" if "n < length (c_ports (w_clock w))"
    using arg_cong [OF m, of "\<lambda>xs. xs ! n"] l that by simp
qed

lemma tables_ok_cong: "masters v = masters w \<Longrightarrow> tables_ok v = tables_ok w"
  using masters_port [of v w] by (auto simp: tables_ok_def) (auto simp: masters_def)

subsection \<open>The whole decision\<close>

abbreviation clock_ports :: "world \<Rightarrow> nat list" where
  "clock_ports w \<equiv> [1..<Suc (c_cnt (w_clock w))]"

declare upt_Suc [simp del]

definition decision_scan :: "world \<Rightarrow> world" where
  "decision_scan w =
     (let (best, w) = scan_best (clock_ports w) None (clock_default_ds w) in choose_best best w)"

lemma default_ds_fields [simp]:
  "c_cnt (w_clock (clock_default_ds w)) = c_cnt (w_clock w)" "c_ports (w_clock (clock_default_ds w)) = c_ports (w_clock w)"
  "cflag cf_no_announce (clock_default_ds w) = cflag cf_no_announce w" "c_dds (w_clock (clock_default_ds w)) = c_dds (w_clock w)"
  "c_id (w_clock (clock_default_ds w)) = c_id (w_clock w)"
  by (simp_all add: clock_default_ds_def upd_clock_def Let_def)

lemma host_event_initializing:
  "host_event c p e = PTP_S_INITIALIZING \<Longrightarrow> p_state p = PTP_S_INITIALIZING"
  by (cases "p_state p"; cases e) (simp_all add: host_event_def Let_def split: if_splits)

lemma scan_clock:
  "masters (snd (scan_best is best w)) =
     (c_cnt (w_clock w), c_best (w_clock w), c_dds (w_clock w), c_id (w_clock w), cflag cf_no_announce w,
      map pview (c_ports (w_clock (snd (scan_best is best w)))))"
  "own_ds (snd (scan_best is best w)) = own_ds w"
  unfolding scan_world
  by (induction "is" arbitrary: w) (simp_all add: masters_def own_ds_def upd_port_def upd_clock_def)

lemma scan_best_of:
  "i \<in> set is \<Longrightarrow> i < length (c_ports (w_clock w)) \<Longrightarrow>
   p_best (port i (snd (scan_best is best w))) = find_best_master (p_foreign_masters (port i w))"
proof -
  have keep: "p_best (port i (fold (\<lambda>i. upd_port i (\<lambda>p. p\<lparr>p_best := find_best_master (p_foreign_masters p)\<rparr>)) js v)) = b"
    if "p_best (port i v) = b" "find_best_master (p_foreign_masters (port i v)) = b" for js v b
    using that
  proof (induction js arbitrary: v)
    case (Cons j js)
    show ?case unfolding fold_Cons comp_def
      by (rule Cons.IH) (use Cons.prems in \<open>auto simp: port_upd_port\<close>)
  qed simp
  assume "i \<in> set is" "i < length (c_ports (w_clock w))"
  then show ?thesis unfolding scan_world
  proof (induction "is" arbitrary: w)
    case (Cons j "is")
    let ?v = "upd_port j (\<lambda>p. p\<lparr>p_best := find_best_master (p_foreign_masters p)\<rparr>) w"
    have f: "p_foreign_masters (port i ?v) = p_foreign_masters (port i w)" by (simp add: port_upd_port)
    show ?case
    proof (cases "i = j")
      case True
      then have "p_best (port i ?v) = find_best_master (p_foreign_masters (port i w))"
        using Cons.prems by (simp add: port_upd_port)
      then show ?thesis unfolding fold_Cons comp_def by (rule keep) (simp only: f)
    next
      case False
      then show ?thesis using Cons.IH [of ?v] Cons.prems f by (simp add: upd_port_def upd_clock_def)
    qed
  qed simp
qed

lemma scan_pview:
  "pview (port i (snd (scan_best is best w))) =
     (p_index (port i w), p_id (port i w), p_foreign_masters (port i w),
      p_best (port i (snd (scan_best is best w))), flag fl_gptp i w)"
  unfolding scan_world by (induction "is" arbitrary: w) (simp_all add: pview_def port_upd_port)

definition taken :: "(nat \<times> nat) option \<Rightarrow> world \<Rightarrow> (nat \<times> nat) option" where
  "taken best w =
     (if (case best of None \<Rightarrow> False | Some r \<Rightarrow> 0 < bmca_compare (master_ds r w) (own_ds (clock_default_ds w)))
      then best else None)"

lemma master_ds_cong: "(\<And>n. p_foreign_masters (port n v) = p_foreign_masters (port n w)) \<Longrightarrow> master_ds r v = master_ds r w"
  by (simp add: master_ds_def)

lemma decision_scan_masters:
  assumes l: "length (c_ports (w_clock w)) = Suc (c_cnt (w_clock w))"
  shows "masters (decision_scan w) =
    (c_cnt (w_clock w), taken (fst (scan_best (clock_ports w) None (clock_default_ds w))) w,
     c_dds (w_clock w), c_id (w_clock w), cflag cf_no_announce w,
     map pview (c_ports (w_clock (snd (scan_best (clock_ports w) None (clock_default_ds w))))))"
    and "pstates (decision_scan w) = pstates w"
proof -
  let ?s = "scan_best (clock_ports w) None (clock_default_ds w)"
  have d: "decision_scan w = choose_best (fst ?s) (snd ?s)"
    by (simp add: decision_scan_def split_beta)
  have m: "master_ds r (snd ?s) = master_ds r w" for r
    by (rule master_ds_cong) (simp add: scan_tables)
  have c: "c_cnt (w_clock (snd ?s)) = c_cnt (w_clock w)" "c_dds (w_clock (snd ?s)) = c_dds (w_clock w)"
    "c_id (w_clock (snd ?s)) = c_id (w_clock w)" "cflag cf_no_announce (snd ?s) = cflag cf_no_announce w"
    using scan_clock(1) [of "clock_ports w" None "clock_default_ds w"] by (simp_all add: masters_def)
  show "masters (decision_scan w) =
    (c_cnt (w_clock w), taken (fst ?s) w, c_dds (w_clock w), c_id (w_clock w), cflag cf_no_announce w,
     map pview (c_ports (w_clock (snd ?s))))"
    unfolding d choose_best_masters c m scan_clock(2) taken_def ..
  show "pstates (decision_scan w) = pstates w"
    unfolding d by (simp add: scan_states)
qed

text \<open>The decision, cut into the scan, the ports and the host port.\<close>

lemma handle_state_decision_run:
  assumes l: "length (c_ports (w_clock w)) = Suc (c_cnt (w_clock w))" and na: "\<not> cflag cf_no_announce w"
  obtains hs hm v where "decide_ports (clock_ports w) False False (decision_scan w) = (hs, hm, v)"
    and "handle_state_decision w = port_set_state 0 (host_event (w_clock v) (port 0 v)
      (if hs then EVENT_BECOME_SLAVE else if hm then EVENT_BECOME_MASTER else EVENT_BECOME_PASSIVE)) v"
  using na
  by (cases "decide_ports (clock_ports w) False False (decision_scan w)")
     (simp add: handle_state_decision_def Let_def split_beta decision_scan_def)

lemma handle_state_decision_spec:
  assumes l: "length (c_ports (w_clock w)) = Suc (c_cnt (w_clock w))" and na: "\<not> cflag cf_no_announce w"
  obtains V hs e where "masters (handle_state_decision w) = masters (decision_scan w)"
    and "\<forall>i \<in> set (clock_ports w). masters (V i) = masters (decision_scan w) \<and>
      pstates (V i) ! i = pstates w ! i \<and> length (pstates (V i)) = length (pstates w) \<and>
      p_state (port i (handle_state_decision w)) = port_result i (V i)"
    and "hs \<longleftrightarrow> (\<exists>i \<in> set (clock_ports w). port_decision i (V i) = PTP_S_SLAVE)"
    and "\<exists>v. masters v = masters (decision_scan w) \<and> p_state (port 0 v) = p_state (port 0 w) \<and>
      p_state (port 0 (handle_state_decision w)) = host_event (w_clock v) (port 0 v) e"
    and "hs \<longrightarrow> e = EVENT_BECOME_SLAVE"
    and "length (pstates (handle_state_decision w)) = length (pstates w)"
proof -
  obtain hs hm v where v: "decide_ports (clock_ports w) False False (decision_scan w) = (hs, hm, v)"
    and h: "handle_state_decision w = port_set_state 0 (host_event (w_clock v) (port 0 v)
      (if hs then EVENT_BECOME_SLAVE else if hm then EVENT_BECOME_MASTER else EVENT_BECOME_PASSIVE)) v"
    by (rule handle_state_decision_run [OF l na])
  let ?e = "if hs then EVENT_BECOME_SLAVE else if hm then EVENT_BECOME_MASTER else EVENT_BECOME_PASSIVE"
  let ?w = "handle_state_decision w"
  have ps: "pstates (decision_scan w) = pstates w" by (rule decision_scan_masters(2) [OF l])
  have ld: "length (c_ports (w_clock (decision_scan w))) = Suc (c_cnt (w_clock w))"
    using length_of_pstates [OF ps] l by simp
  have range: "\<forall>i \<in> set (clock_ports w). i < length (c_ports (w_clock (decision_scan w)))"
    unfolding ld by auto
  obtain V where V: "masters v = masters (decision_scan w)" "length (pstates v) = length (pstates w)"
    "\<forall>j. j \<notin> set (clock_ports w) \<longrightarrow> pstates v ! j = pstates w ! j"
    "\<forall>i \<in> set (clock_ports w). masters (V i) = masters (decision_scan w) \<and> pstates (V i) ! i = pstates w ! i \<and>
       length (pstates (V i)) = length (pstates w) \<and> fst (pstates v ! i) = port_result i (V i)"
    "hs \<longleftrightarrow> (\<exists>i \<in> set (clock_ports w). port_decision i (V i) = PTP_S_SLAVE)"
    using decide_ports_spec [OF distinct_upt range v, unfolded ps] by blast
  have l0: "0 < length (c_ports (w_clock v))" using V(2) l by simp
  have c: "confined 0 v ?w" unfolding h by (rule confined_set_state [OF l0])
  then have same: "pstates ?w ! j = pstates v ! j" if "j < length (pstates v)" "j \<noteq> 0" for j
    using that by (auto simp: confined_def)
  have lw: "length (pstates ?w) = length (pstates w)" using c V(2) by (simp add: confined_def)
  have host: "p_state (port 0 ?w) = host_event (w_clock v) (port 0 v) ?e"
  proof (cases "p_state (port 0 v) = host_event (w_clock v) (port 0 v) ?e")
    case True
    then have "pstates ?w = pstates v" unfolding h using port_set_state_same [OF l0] by simp
    then show ?thesis using True l0 by (metis length_of_pstates pstate_def prod.inject pstates_nth)
  next
    case False
    then have "host_event (w_clock v) (port 0 v) ?e \<noteq> PTP_S_INITIALIZING" using host_event_initializing by metis
    then show ?thesis unfolding h by (rule port_set_state_state [OF l0])
  qed
  have p0: "p_state (port 0 v) = p_state (port 0 w)"
    using V(3) [rule_format, of 0] l l0 by (simp add: pstates_nth pstate_def)
  have "\<forall>i \<in> set (clock_ports w). masters (V i) = masters (decision_scan w) \<and>
      pstates (V i) ! i = pstates w ! i \<and> length (pstates (V i)) = length (pstates w) \<and>
      p_state (port i ?w) = port_result i (V i)"
  proof
    fix i assume i: "i \<in> set (clock_ports w)"
    then have "i < length (pstates v)" "i \<noteq> 0" using V(2) l by auto
    then have "p_state (port i ?w) = fst (pstates v ! i)"
      using same [of i] lw V(2) by (simp add: pstates_nth pstate_def)
    then show "masters (V i) = masters (decision_scan w) \<and> pstates (V i) ! i = pstates w ! i \<and>
        length (pstates (V i)) = length (pstates w) \<and> p_state (port i ?w) = port_result i (V i)"
      using V(4) i by simp
  qed
  then show ?thesis
    by (rule that [where hs = hs and e = ?e, rotated]) (use V p0 host lw h in \<open>auto simp del: pstates_length\<close>)
qed

subsection \<open>One slave port, on the path of the best master\<close>

lemma clock_best_cong:
  assumes m: "masters v = masters w" and "c_best (w_clock w) = Some (n, k)" "n < length (c_ports (w_clock w))"
  shows "clock_best (w_clock v) = Some (p_foreign_masters (port n w) ! k)"
  using masters_port(2) [OF m assms(3)] m assms(2) by (simp add: masters_def clock_best_def pview_def)

lemma find_best_master_valid:
  "find_best_master ms = Some k \<Longrightarrow> k < length ms \<and> fd_valid (ms ! k)"
  using find_best_from_index [of ms 0 None] by (auto simp: find_best_master_def)

lemma best_master_port:
  assumes ok: "tables_ok w" and best: "c_best (w_clock (decision_scan w)) = Some (n, k)"
  shows "n \<in> set (clock_ports w)" "find_best_master (p_foreign_masters (port n w)) = Some k"
    and "fd_port (p_foreign_masters (port n w) ! k) = n"
proof -
  have l: "length (c_ports (w_clock w)) = Suc (c_cnt (w_clock w))" using ok by (simp add: tables_ok_def)
  have "fst (scan_best (clock_ports w) None (clock_default_ds w)) = Some (n, k)"
    using best decision_scan_masters(1) [OF l] by (simp add: masters_def taken_def split: if_splits)
  then show n: "n \<in> set (clock_ports w)" and f: "find_best_master (p_foreign_masters (port n w)) = Some k"
    using scan_member by fastforce+
  have "view_ok n (pview (port n w))" "n \<noteq> 0" using ok n l by (auto simp: tables_ok_def)
  then have "foreign_ok n (flag fl_gptp n w) (p_foreign_masters (port n w) ! k)"
    using find_best_master_valid [OF f] by (simp add: view_ok_def pview_def list_all_length)
  then show "fd_port (p_foreign_masters (port n w) ! k) = n"
    using find_best_master_valid [OF f] by (auto simp: foreign_ok_def threshold_def split: if_splits)
qed

lemma decision_scan_port:
  assumes l: "length (c_ports (w_clock w)) = Suc (c_cnt (w_clock w))" and n: "n < length (c_ports (w_clock w))"
  shows "p_foreign_masters (port n (decision_scan w)) = p_foreign_masters (port n w)"
    and "n \<in> set (clock_ports w) \<Longrightarrow> p_best (port n (decision_scan w)) = find_best_master (p_foreign_masters (port n w))"
proof -
  let ?s = "snd (scan_best (clock_ports w) None (clock_default_ds w))"
  have ls: "length (c_ports (w_clock ?s)) = length (c_ports (w_clock w))"
    using length_of_pstates [OF scan_states] by simp
  have m: "map pview (c_ports (w_clock (decision_scan w))) = map pview (c_ports (w_clock ?s))"
    using decision_scan_masters(1) [OF l] by (simp add: masters_def)
  have "pview (port n (decision_scan w)) = pview (port n ?s)"
    using arg_cong [OF m, of "\<lambda>xs. xs ! n"] n ls length_of_pstates [OF decision_scan_masters(2) [OF l]] by simp
  then show "p_foreign_masters (port n (decision_scan w)) = p_foreign_masters (port n w)"
    "n \<in> set (clock_ports w) \<Longrightarrow> p_best (port n (decision_scan w)) = find_best_master (p_foreign_masters (port n w))"
    using scan_tables [of "clock_ports w" None "clock_default_ds w" n] scan_best_of [of n "clock_ports w" "clock_default_ds w" None] n
    by (simp_all add: pview_def)
qed

lemma handle_best:
  assumes "length (c_ports (w_clock w)) = Suc (c_cnt (w_clock w))" "\<not> cflag cf_no_announce w"
  shows "c_best (w_clock (handle_state_decision w)) = c_best (w_clock (decision_scan w))"
    and "masters (handle_state_decision w) = masters (decision_scan w)"
  by (rule handle_state_decision_spec [OF assms]; simp add: masters_def)+

lemma only_best_port_slave:
  assumes ok: "tables_ok w" and na: "\<not> cflag cf_no_announce w" and cl: "clock_class (w_clock w) \<noteq> 255"
    and i: "i \<in> set (clock_ports w)"
    and st: "p_state (port i (handle_state_decision w)) \<in> {PTP_S_SLAVE, PTP_S_UNCALIBRATED}"
  shows "\<exists>k. c_best (w_clock (handle_state_decision w)) = Some (i, k)"
proof (rule ccontr)
  assume no: "\<not> ?thesis"
  have l: "length (c_ports (w_clock w)) = Suc (c_cnt (w_clock w))" using ok by (simp add: tables_ok_def)
  obtain V where V: "masters (V i) = masters (decision_scan w)"
    "p_state (port i (handle_state_decision w)) = port_result i (V i)"
    using handle_state_decision_spec [OF l na] i by metis
  have cd: "clock_class (w_clock (V i)) \<noteq> 255"
    using V(1) decision_scan_masters(1) [OF l] cl by (simp add: masters_def clock_class_def)
  have "clock_best_port (w_clock (V i)) \<noteq> Some i"
  proof (cases "c_best (w_clock (decision_scan w))")
    case None
    then show ?thesis using V(1) by (simp add: masters_def clock_best_port_def clock_best_def)
  next
    case (Some r)
    then obtain n k where r: "c_best (w_clock (decision_scan w)) = Some (n, k)" by (cases r) auto
    note b = best_master_port [OF ok r]
    have n: "n < length (c_ports (w_clock w))" using b(1) l by auto
    then have nd: "n < length (c_ports (w_clock (decision_scan w)))"
      using length_of_pstates [OF decision_scan_masters(2) [OF l]] by simp
    have "clock_best_port (w_clock (V i)) = Some n"
      using clock_best_cong [OF V(1) r nd] b(3) decision_scan_port(1) [OF l n] by (simp add: clock_best_port_def)
    then show ?thesis using no r handle_best(1) [OF l na] by auto
  qed
  from event_not_slave [OF decision_not_slave [OF this cd] decision_range] show False
    using V(2) st by (simp add: port_result_def)
qed

text \<open>
  What the decision needs of the announced masters: they are well formed,
  every clock is announced with one quality, and none of them is this clock.
\<close>

definition foreign_clocks :: "(byte_list \<Rightarrow> nat list) \<Rightarrow> world \<Rightarrow> bool" where
  "foreign_clocks q w \<longleftrightarrow>
     candidates (clock_ports w) w \<subseteq> announced q \<and> length (dd_clockIdentity (c_dds (w_clock w))) = 8 \<and>
     (\<forall>d \<in> candidates (clock_ports w) w. ds_id d \<noteq> dd_clockIdentity (c_dds (w_clock w)))"

lemma default_own:
  "ds_id (own_ds (clock_default_ds w)) = dd_clockIdentity (c_dds (w_clock w))"
  "clock_rank (own_ds (clock_default_ds w)) = dds_rank (c_dds (w_clock w))"
  by (simp_all add: own_ds_def clock_default_ds_def upd_clock_def Let_def clock_rank_def clock_key_def dds_rank_def)

lemma candidate_id:
  assumes "foreign_clocks q w" "d \<in> candidates (clock_ports w) w"
  shows "length (ds_id d) = 8" "ds_id d \<noteq> dd_clockIdentity (c_dds (w_clock w))"
    "length (dd_clockIdentity (c_dds (w_clock w))) = 8"
  using assms by (auto simp: foreign_clocks_def announced_def ds_wf_def)

lemma ds_key_rank: "length (ds_id a) = length (ds_id b) \<Longrightarrow> ds_key a \<le> ds_key b \<Longrightarrow> clock_rank a \<le> clock_rank b"
  using list_less_append [of "clock_rank b" "clock_rank a"]
  by (auto simp: ds_key_def clock_rank_def clock_key_def not_less [symmetric])

lemma candidates_default: "candidates is (clock_default_ds w) = candidates is w"
  by (simp add: candidates_def)

lemma best_master_least:
  assumes ok: "tables_ok w" and fc: "foreign_clocks q w"
  shows "case c_best (w_clock (decision_scan w)) of
      None \<Rightarrow> \<forall>d \<in> candidates (clock_ports w) w. dds_rank (c_dds (w_clock w)) < clock_rank d
    | Some r \<Rightarrow> master_ds r w \<in> candidates (clock_ports w) w \<and>
        (\<forall>d \<in> candidates (clock_ports w) w. ds_key (master_ds r w) \<le> ds_key d) \<and>
        clock_rank (master_ds r w) < dds_rank (c_dds (w_clock w))"
proof -
  let ?C = "candidates (clock_ports w) w" and ?s = "fst (scan_best (clock_ports w) None (clock_default_ds w))"
  have l: "length (c_ports (w_clock w)) = Suc (c_cnt (w_clock w))" using ok by (simp add: tables_ok_def)
  have best: "c_best (w_clock (decision_scan w)) = taken ?s w"
    using decision_scan_masters(1) [OF l] by (simp add: masters_def)
  have md: "master_ds r (clock_default_ds w) = master_ds r w" for r by (rule master_ds_cong) simp
  have cmp: "0 < bmca_compare d (own_ds (clock_default_ds w)) \<longleftrightarrow> clock_rank d < dds_rank (c_dds (w_clock w))"
    if "d \<in> ?C" for d
    using bmca_compare_rank [of d "own_ds (clock_default_ds w)"] candidate_id [OF fc that] by (simp add: default_own)
  have neq: "clock_rank d \<noteq> dds_rank (c_dds (w_clock w))" if "d \<in> ?C" for d
    using candidate_id [OF fc that] by (auto simp: clock_rank_def dds_rank_def clock_key_def)
  have scan: "case ?s of None \<Rightarrow> ?C = {}
      | Some r \<Rightarrow> fst r \<in> set (clock_ports w) \<and> master_ds r w \<in> ?C \<and> (\<forall>d \<in> ?C. ds_key (master_ds r w) \<le> ds_key d)"
    by (rule scan_best_least [of "clock_ports w" "clock_default_ds w" q, unfolded candidates_default md])
       (use fc in \<open>simp add: foreign_clocks_def\<close>)
  show ?thesis
  proof (cases ?s)
    case None
    then have "?C = {}" "taken ?s w = None" using scan by (simp_all add: taken_def)
    then show ?thesis unfolding best by simp
  next
    case (Some r)
    then have r: "master_ds r w \<in> ?C" "\<forall>d \<in> ?C. ds_key (master_ds r w) \<le> ds_key d" using scan by auto
    show ?thesis
    proof (cases "clock_rank (master_ds r w) < dds_rank (c_dds (w_clock w))")
      case True
      then have "taken ?s w = Some r" unfolding Some using cmp [OF r(1)] by (simp add: taken_def)
      then show ?thesis unfolding best using r True by simp
    next
      case False
      have "dds_rank (c_dds (w_clock w)) < clock_rank d" if "d \<in> ?C" for d
        using ds_key_rank [of "master_ds r w" d] r that False neq [OF that] candidate_id(1) [OF fc]
        by (metis leD le_less_linear less_le_trans neqE)
      moreover have "taken ?s w = None" unfolding Some using False cmp [OF r(1)] by (simp add: taken_def)
      ultimately show ?thesis unfolding best by simp
    qed
  qed
qed

definition active_states :: "ptp_state set" where
  "active_states = {PTP_S_LISTENING, PTP_S_PRE_MASTER, PTP_S_MASTER, PTP_S_PASSIVE, PTP_S_UNCALIBRATED, PTP_S_SLAVE}"

lemma best_port_decision:
  assumes ok: "tables_ok w" and fc: "foreign_clocks q w" and cl: "127 < clock_class (w_clock w)"
    and best: "c_best (w_clock (decision_scan w)) = Some (n, k)" and m: "masters v = masters (decision_scan w)"
  shows "port_decision n v = PTP_S_SLAVE"
proof -
  have l: "length (c_ports (w_clock w)) = Suc (c_cnt (w_clock w))" using ok by (simp add: tables_ok_def)
  note b = best_master_port [OF ok best]
  have n: "n < length (c_ports (w_clock w))" using b(1) l by auto
  then have nd: "n < length (c_ports (w_clock (decision_scan w)))"
    using length_of_pstates [OF decision_scan_masters(2) [OF l]] by simp
  let ?d = "master_ds (n, k) w"
  have d: "?d \<in> candidates (clock_ports w) w" "clock_rank ?d < dds_rank (c_dds (w_clock w))"
    using best_master_least [OF ok fc] best by auto
  note id = candidate_id [OF fc d(1)]
  have dds: "c_dds (w_clock v) = c_dds (w_clock w)"
    using m decision_scan_masters(1) [OF l] by (simp add: masters_def)
  have cb: "clock_best_ds (w_clock v) = Some ?d" "clock_best_port (w_clock v) = Some n"
    using clock_best_cong [OF m best nd] b(3) decision_scan_port(1) [OF l n]
    by (simp_all add: clock_best_ds_def clock_best_port_def master_ds_def)
  have pb: "port_best_ds (port n v) = Some ?d"
    using masters_port(2) [OF m nd] decision_scan_port [OF l n] b(1,2)
    by (simp add: pview_def port_best_ds_def port_best_def master_ds_def)
  have "\<not> 0 < bmca_compare (decision_own n v) ?d"
    using bmca_compare_rank [of "decision_own n v" ?d] id d(2)
    by (simp add: decision_own_id decision_own_rank dds)
  moreover have "memcmp (ds_id (decision_own n v)) (ds_id ?d) \<noteq> 0"
    using memcmp_eq [of "ds_id (decision_own n v)" "ds_id ?d"] id by (simp add: decision_own_id dds)
  ultimately show ?thesis
    using cb pb cl by (simp add: port_decision_eq Let_def port_can_accept_announce_def clock_class_def dds)
qed

lemma best_port_follows:
  assumes ok: "tables_ok w" and fc: "foreign_clocks q w" and cl: "127 < clock_class (w_clock w)"
    and na: "\<not> cflag cf_no_announce w"
    and best: "c_best (w_clock (handle_state_decision w)) = Some (n, k)"
  shows "p_state (port n w) \<in> active_states \<Longrightarrow>
      p_state (port n (handle_state_decision w)) \<in> {PTP_S_SLAVE, PTP_S_UNCALIBRATED}"
    and "p_state (port 0 w) \<in> {PTP_S_LISTENING, PTP_S_PASSIVE, PTP_S_MASTER, PTP_S_SLAVE} \<Longrightarrow>
      p_state (port 0 (handle_state_decision w)) = PTP_S_SLAVE"
proof -
  have l: "length (c_ports (w_clock w)) = Suc (c_cnt (w_clock w))" using ok by (simp add: tables_ok_def)
  have best': "c_best (w_clock (decision_scan w)) = Some (n, k)" using best handle_best(1) [OF l na] by simp
  note b = best_master_port [OF ok best']
  have n: "n < length (c_ports (w_clock w))" using b(1) l by auto
  obtain V hs e v where V: "masters (V n) = masters (decision_scan w)" "pstates (V n) ! n = pstates w ! n"
      "length (pstates (V n)) = length (pstates w)"
      "p_state (port n (handle_state_decision w)) = port_result n (V n)"
    and hs: "hs \<longleftrightarrow> (\<exists>i \<in> set (clock_ports w). port_decision i (V i) = PTP_S_SLAVE)" "hs \<longrightarrow> e = EVENT_BECOME_SLAVE"
    and v: "p_state (port 0 v) = p_state (port 0 w)"
      "p_state (port 0 (handle_state_decision w)) = host_event (w_clock v) (port 0 v) e"
    using handle_state_decision_spec [OF l na] b(1) by metis
  have d: "port_decision n (V n) = PTP_S_SLAVE" by (rule best_port_decision [OF ok fc cl best' V(1)])
  have "p_state (port n (V n)) = p_state (port n w)"
    using V(2,3) n by (simp add: pstates_nth pstate_def)
  then show "p_state (port n (handle_state_decision w)) \<in> {PTP_S_SLAVE, PTP_S_UNCALIBRATED}"
    if "p_state (port n w) \<in> active_states"
    using that V(4) d by (auto simp: port_result_def port_event_def decision_event_def Let_def active_states_def)
  have "e = EVENT_BECOME_SLAVE" using hs d b(1) by blast
  then show "p_state (port 0 (handle_state_decision w)) = PTP_S_SLAVE"
    if "p_state (port 0 w) \<in> {PTP_S_LISTENING, PTP_S_PASSIVE, PTP_S_MASTER, PTP_S_SLAVE}"
    using that v by (auto simp: host_event_def Let_def)
qed

subsection \<open>The tables stay consistent\<close>

lemma tables_ok_upd:
  assumes "tables_ok w" "view_ok n (pview (f (port n w)))"
  shows "tables_ok (upd_port n f w)"
  using assms by (simp add: tables_ok_def port_upd_port) (simp add: upd_port_def upd_clock_def)

lemma list_all_update: "list_all P xs \<Longrightarrow> P y \<Longrightarrow> list_all P (xs[i := y])"
  by (metis insertE list_all_iff set_update_subset_insert subsetD)

lemma foreign_ok_dataset [simp]: "foreign_ok n g (f\<lparr>fd_dataset := ds\<rparr>) = foreign_ok n g f"
  by (simp add: foreign_ok_def)

lemma find_foreign_master_table:
  assumes "find_foreign_master ms ds = (Some i, ms')"
  shows "i < length ms" and "ms' = ms \<and> fd_cnt (ms ! i) \<noteq> 0 \<and> same_port_id (ds_tx ds) (ds_tx (fd_dataset (ms ! i))) \<or>
    ms' = ms[i := (ms ! i)\<lparr>fd_dataset := ds\<rparr>] \<and> fd_cnt (ms ! i) = 0"
proof -
  obtain r b where rb: "find_foreign_from ms 0 None ds = (r, b)" by fastforce
  then have r: "r = Some i" using assms by (auto simp: find_foreign_master_def split: option.splits bool.splits)
  show "i < length ms" and "ms' = ms \<and> fd_cnt (ms ! i) \<noteq> 0 \<and> same_port_id (ds_tx ds) (ds_tx (fd_dataset (ms ! i))) \<or>
    ms' = ms[i := (ms ! i)\<lparr>fd_dataset := ds\<rparr>] \<and> fd_cnt (ms ! i) = 0"
    using rb r assms find_foreign_from_hit [of ms 0 None ds i] find_foreign_from_miss [of ms 0 None ds r]
    by (cases b; auto simp: find_foreign_master_def)+
qed

text \<open>One more Announce of a master, as \<open>add_foreign_master\<close> counts it.\<close>

definition heard :: "nat \<Rightarrow> bool \<Rightarrow> bmc_dataset \<Rightarrow> foreign_dataset \<Rightarrow> foreign_dataset" where
  "heard n gptp ds f =
     (let f = (if fd_cnt f = 0 then f\<lparr>fd_port := n\<rparr> else f);
          meet_threshold = (threshold gptp - 1 = unat (fd_cnt f));
          f = (if fd_cnt f > 1 \<and> dataset_cmp (fd_dataset f) ds \<noteq> 0 then f\<lparr>fd_dataset := ds\<rparr> else f);
          f = (if \<not> fd_valid f then f\<lparr>fd_cnt := fd_cnt f + 1\<rparr> else f)
      in if meet_threshold then f\<lparr>fd_valid := True\<rparr> else f)"

lemma heard_ok:
  assumes "foreign_ok n gptp f"
  shows "foreign_ok n gptp (heard n gptp ds f)"
proof -
  have "unat (fd_cnt f) \<le> 3" using assms by (auto simp: foreign_ok_def threshold_def split: if_splits)
  then have s: "unat (fd_cnt f + 1) = unat (fd_cnt f) + 1"
    by (simp add: unat_word_ariths)
  have z: "fd_cnt f + 1 \<noteq> 0" using s by (metis add_is_0 unat_0 zero_neq_one)
  have u: "unat (fd_cnt f) = 0 \<longleftrightarrow> fd_cnt f = 0" by (simp add: unat_eq_0)
  show ?thesis
    using assms s z u
    by (cases gptp; cases "fd_cnt f = 0"; cases "fd_valid f") (auto simp: heard_def foreign_ok_def threshold_def Let_def)
qed

lemma add_foreign_master_eq:
  "snd (add_foreign_master n ds w) =
     (case find_foreign_master (p_foreign_masters (port n w)) ds of
        (None, ms) \<Rightarrow> w
      | (Some i, ms) \<Rightarrow>
          upd_port n (\<lambda>p. p\<lparr>p_foreign_masters := ms[i := heard n (flag fl_gptp n w) ds (ms ! i)]\<rparr>)
            (port_set_announce_timeout n (upd_port n (\<lambda>p. p\<lparr>p_foreign_masters := ms\<rparr>) w)))"
  unfolding add_foreign_master_def heard_def threshold_def Let_def
  by (simp only: split: prod.split option.split) (simp cong: if_cong)

lemma add_foreign_master_ok:
  assumes ok: "tables_ok w" and n: "n < length (c_ports (w_clock w))"
  shows "tables_ok (snd (add_foreign_master n ds w))" and "pstates (snd (add_foreign_master n ds w)) = pstates w"
proof -
  have v: "view_ok n (pview (port n w))" using ok n by (simp add: tables_ok_def)
  obtain r ms where f: "find_foreign_master (p_foreign_masters (port n w)) ds = (r, ms)" by fastforce
  show "pstates (snd (add_foreign_master n ds w)) = pstates w"
    unfolding add_foreign_master_eq f by (cases r) (simp_all add: pstates_upd_port pstate_def)
  show "tables_ok (snd (add_foreign_master n ds w))"
  proof (cases r)
    case None
    then show ?thesis using ok by (simp add: add_foreign_master_eq f)
  next
    case (Some i)
    let ?u = "upd_port n (\<lambda>p. p\<lparr>p_foreign_masters := ms\<rparr>) w" and ?g = "flag fl_gptp n w"
    have ms: "list_all (foreign_ok n ?g) ms" if "n \<noteq> 0"
    proof -
      have "list_all (foreign_ok n ?g) (p_foreign_masters (port n w))"
        using v that by (simp add: view_ok_def pview_def)
      moreover from this have "foreign_ok n ?g ((p_foreign_masters (port n w) ! i)\<lparr>fd_dataset := ds\<rparr>)"
        using find_foreign_master_table(1) [OF f [unfolded Some]] by (simp add: list_all_length)
      ultimately show ?thesis using find_foreign_master_table(2) [OF f [unfolded Some]]
        by (auto intro: list_all_update)
    qed
    have i: "i < length ms" using find_foreign_master_table [OF f [unfolded Some]] by auto
    have hs: "n \<noteq> 0 \<Longrightarrow> list_all (foreign_ok n ?g) (ms[i := heard n ?g ds (ms ! i)])"
      using ms i by (intro list_all_update heard_ok) (simp_all add: list_all_length)
    have u: "tables_ok ?u"
      by (rule tables_ok_upd [OF ok]) (use v ms in \<open>simp add: view_ok_def pview_def\<close>)
    then have t: "tables_ok (port_set_announce_timeout n ?u)"
      using tables_ok_cong timeout_views(2) by blast
    have nu: "n < length (c_ports (w_clock ?u))" using n by (simp add: upd_port_def upd_clock_def)
    have pv: "pview (port n (port_set_announce_timeout n ?u)) = pview (port n ?u)"
      by (rule masters_port(2) [OF timeout_views(2) nu])
    have "tables_ok (upd_port n (\<lambda>p. p\<lparr>p_foreign_masters := ms[i := heard n ?g ds (ms ! i)]\<rparr>) (port_set_announce_timeout n ?u))"
      by (rule tables_ok_upd [OF t]) (use v hs pv n in \<open>simp add: view_ok_def pview_def port_upd_port\<close>)
    then show ?thesis by (simp add: add_foreign_master_eq f Some)
  qed
qed

lemma update_current_master_ok:
  assumes ok: "tables_ok w" and n: "n < length (c_ports (w_clock w))" and u: "update_current_master n ds w = Some (r, w')"
  shows "tables_ok w'" and "pstates w' = pstates w"
proof -
  obtain i where i: "p_best (port n w) = Some i" using u by (auto simp: update_current_master_def split: option.splits)
  let ?f = "p_foreign_masters (port n w) ! i"
  let ?t = "port_set_announce_timeout n w"
  let ?t' = "if p_state (port n ?t) \<noteq> PTP_S_PASSIVE then port_set_announce_timeout 0 ?t else ?t"
  let ?u = "upd_port n (\<lambda>p. p\<lparr>p_foreign_masters := (p_foreign_masters p)[i := ?f\<lparr>fd_dataset := ds\<rparr>]\<rparr>) ?t'"
  have m: "masters ?t' = masters w" and s: "pstates ?t' = pstates w" by simp_all
  have t: "tables_ok ?t'" using ok tables_ok_cong [OF m] by simp
  have v: "view_ok n (pview (port n w))" using ok n by (simp add: tables_ok_def)
  have pv: "pview (port n ?t') = pview (port n w)" by (rule masters_port(2) [OF m n])
  have "list_all (foreign_ok n (flag fl_gptp n w)) ((p_foreign_masters (port n w))[i := ?f\<lparr>fd_dataset := ds\<rparr>])" if "n \<noteq> 0"
  proof (cases "i < length (p_foreign_masters (port n w))")
    case True
    then show ?thesis using v that
      by (intro list_all_update) (simp_all add: view_ok_def pview_def list_all_length)
  next
    case False
    then show ?thesis using v that by (simp add: view_ok_def pview_def list_update_beyond)
  qed
  then have tu: "tables_ok ?u"
    using v pv by (intro tables_ok_upd [OF t]) (simp add: view_ok_def pview_def)
  have su: "pstates ?u = pstates w" unfolding s [symmetric] by (rule pstates_upd_port) (simp add: pstate_def)
  have "w' = snd (add_foreign_master n ds w) \<or> w' = ?t' \<or> w' = ptp_update_parent_ds (Some (?f\<lparr>fd_dataset := ds\<rparr>)) ?u"
    using u i by (auto simp: update_current_master_def Let_def split: if_splits)
  moreover have "tables_ok (ptp_update_parent_ds (Some (?f\<lparr>fd_dataset := ds\<rparr>)) ?u)"
    using tu tables_ok_cong [OF clock_views(6)] by simp
  ultimately show "tables_ok w'" "pstates w' = pstates w"
    using t s tu su add_foreign_master_ok [OF ok n] by auto
qed

lemma decision_scan_ok:
  assumes ok: "tables_ok w" shows "tables_ok (decision_scan w)"
proof -
  have l: "length (c_ports (w_clock w)) = Suc (c_cnt (w_clock w))" using ok by (simp add: tables_ok_def)
  let ?s = "snd (scan_best (clock_ports w) None (clock_default_ds w))"
  have ls: "length (c_ports (w_clock ?s)) = length (c_ports (w_clock w))"
    using length_of_pstates [OF scan_states] by simp
  have ld: "length (c_ports (w_clock (decision_scan w))) = length (c_ports (w_clock w))"
    by (rule length_of_pstates [OF decision_scan_masters(2) [OF l]])
  have m: "map pview (c_ports (w_clock (decision_scan w))) = map pview (c_ports (w_clock ?s))"
    "c_cnt (w_clock (decision_scan w)) = c_cnt (w_clock w)"
    using decision_scan_masters(1) [OF l] by (simp_all add: masters_def)
  have "pview (port n (decision_scan w)) = pview (port n ?s)" if "n < length (c_ports (w_clock w))" for n
    using arg_cong [OF m(1), of "\<lambda>xs. xs ! n"] that ls ld by simp
  then show ?thesis
    using ok l ls ld m(2) by (simp add: tables_ok_def scan_pview) (simp add: view_ok_def pview_def)
qed

lemma handle_state_decision_ok:
  assumes ok: "tables_ok w" shows "tables_ok (handle_state_decision w)"
proof (cases "cflag cf_no_announce w")
  case True
  then have "handle_state_decision w = clock_default_ds w" by (simp add: handle_state_decision_def)
  then show ?thesis using ok tables_ok_cong [OF clock_views(2)] by simp
next
  case False
  have l: "length (c_ports (w_clock w)) = Suc (c_cnt (w_clock w))" using ok by (simp add: tables_ok_def)
  show ?thesis using tables_ok_cong [OF handle_best(2) [OF l False]] decision_scan_ok [OF ok] by simp
qed

lemma pairs_update:
  "\<forall>n < length xs. fst (xs ! n) = snd (xs ! n) \<Longrightarrow> n < length xs \<Longrightarrow> fst (xs[i := (s, s)] ! n) = snd (xs[i := (s, s)] ! n)"
  by (cases "i = n") simp_all

lemma decide_ports_shown:
  assumes "shown w" "\<forall>i \<in> set is. i < length (c_ports (w_clock w))" "decide_ports is hs hm w = (hs', hm', w')"
  shows "shown w'"
  using assms
proof (induction "is" arbitrary: w hs hm)
  case (Cons i "is")
  have i: "i < length (c_ports (w_clock w))" using Cons.prems by simp
  note d = port_decide_states(1) [OF i]
  have "shown (port_decide i w)"
    using Cons.prems(1) pairs_update [of "pstates w"] by (simp add: shown_pstates d del: pstates_length)
  moreover have "length (c_ports (w_clock (port_decide i w))) = length (c_ports (w_clock w))"
    using arg_cong [OF d, of length] by (simp split: if_splits)
  ultimately show ?case
    using Cons.IH [of "port_decide i w"] Cons.prems(2,3)
    by (simp add: decide_ports_Cons del: decide_ports.simps)
qed simp

lemma handle_state_decision_shown:
  assumes l: "length (c_ports (w_clock w)) = Suc (c_cnt (w_clock w))" and s: "shown w"
  shows "shown (handle_state_decision w)"
proof (cases "cflag cf_no_announce w")
  case True
  then have "handle_state_decision w = clock_default_ds w" by (simp add: handle_state_decision_def)
  then show ?thesis using s shown_cong [OF clock_views(1)] by simp
next
  case False
  have ps: "pstates (decision_scan w) = pstates w" by (rule decision_scan_masters(2) [OF l])
  obtain hs hm v e where v: "decide_ports (clock_ports w) False False (decision_scan w) = (hs, hm, v)"
    and h: "handle_state_decision w = port_set_state 0 e v"
    by (rule handle_state_decision_run [OF l False])
  have range: "\<forall>i \<in> set (clock_ports w). i < length (c_ports (w_clock (decision_scan w)))"
    using length_of_pstates [OF ps] l by auto
  have "shown v" by (rule decide_ports_shown [OF _ range v]) (use s shown_cong [OF ps] in simp)
  moreover have "0 < length (c_ports (w_clock v))"
    using decide_ports_spec [OF distinct_upt range v] ps l by simp
  ultimately show ?thesis unfolding h using port_set_state_shown by blast
qed

subsection \<open>The protocol as a step relation\<close>

text \<open>
  What happens to a clock between its start and its end, as far as the states of
  its ports go: Announce messages, the three timeouts, faults and the events
  that the link and the servo raise.
\<close>

inductive step :: "world \<Rightarrow> world \<Rightarrow> bool" where
  announce: "n \<in> set (clock_ports w) \<Longrightarrow> proc_announce n msg w = Some w' \<Longrightarrow> step w w'"
| ann_timeout: "n \<le> c_cnt (w_clock w) \<Longrightarrow> step w (port_ann_timeout_work n w)"
| qual_timeout: "n \<le> c_cnt (w_clock w) \<Longrightarrow> step w (port_qual_timeout_work n w)"
| fault_timeout: "n \<le> c_cnt (w_clock w) \<Longrightarrow> step w (port_fault_timeout_work n w)"
| fault: "n \<in> set (clock_ports w) \<Longrightarrow> step w (port_set_fault_timeout n fault ms w)"
| event: "n \<in> set (clock_ports w) \<Longrightarrow> step w (port_set_state n (port_event (w_clock w) (port n w) e) w)"
| decide: "step w (handle_state_decision w)"

inductive_cases stepE: "step w w'"

inductive reachable :: "world \<Rightarrow> world \<Rightarrow> bool" where
  start: "reachable w w"
| more: "reachable w u \<Longrightarrow> step u v \<Longrightarrow> reachable w v"

definition clock_inv :: "world \<Rightarrow> bool" where
  "clock_inv w \<longleftrightarrow> tables_ok w \<and> shown w"

lemma clock_inv_decision: "clock_inv w \<Longrightarrow> clock_inv (handle_state_decision w)"
  using handle_state_decision_ok [of w] handle_state_decision_shown [of w]
  by (simp add: clock_inv_def) (simp add: tables_ok_def)

lemma clock_inv_set_state:
  "clock_inv w \<Longrightarrow> n < length (c_ports (w_clock w)) \<Longrightarrow> clock_inv (port_set_state n s w)"
  using tables_ok_cong [OF port_set_state_masters [of n s w]] port_set_state_shown [of n w s] by (simp add: clock_inv_def)

lemma clock_inv_same:
  "clock_inv w \<Longrightarrow> masters v = masters w \<Longrightarrow> pstates v = pstates w \<Longrightarrow> clock_inv v"
  using tables_ok_cong [of v w] shown_cong [of v w] by (simp add: clock_inv_def)

lemma clock_inv_length:
  "clock_inv w \<Longrightarrow> n \<le> c_cnt (w_clock w) \<Longrightarrow> n < length (c_ports (w_clock w))"
  by (simp add: clock_inv_def tables_ok_def)

lemma clock_inv_ann_timeout:
  assumes inv: "clock_inv w" and n: "n < length (c_ports (w_clock w))"
  shows "clock_inv (port_announce_timeout n w)"
proof -
  let ?f = "\<lambda>p. case p_best p of None \<Rightarrow> p
      | Some i \<Rightarrow> p\<lparr>p_foreign_masters := (p_foreign_masters p)[i := (p_foreign_masters p ! i)\<lparr>fd_valid := False, fd_cnt := 0\<rparr>],
                  p_best := None\<rparr>"
  have v: "view_ok n (pview (port n w))" using inv n by (simp add: clock_inv_def tables_ok_def)
  have z: "foreign_ok n g (x\<lparr>fd_valid := False, fd_cnt := 0\<rparr>)" for g x
    by (simp add: foreign_ok_def threshold_def)
  have "view_ok n (pview (?f (port n w)))"
    using v z by (auto simp: view_ok_def pview_def list_all_update split: option.split)
  then have "tables_ok (port_announce_timeout n w)"
    unfolding port_announce_timeout_def using inv by (intro tables_ok_upd) (simp_all add: clock_inv_def)
  then show ?thesis using inv shown_cong [OF timeout_views(5)] by (simp add: clock_inv_def)
qed

lemma clock_inv_proc_announce:
  assumes inv: "clock_inv w" and n: "n < length (c_ports (w_clock w))" and p: "proc_announce n msg w = Some w'"
  shows "clock_inv w'"
proof -
  let ?ds = "announce_to_dataset msg n w"
  obtain r u where u: "r = False \<and> u = w \<or> add_foreign_master n ?ds w = (r, u) \<or> update_current_master n ?ds w = Some (r, u)"
    and w': "w' = (if r then handle_state_decision u else u)"
    using p by (auto simp: proc_announce_def Let_def split: ptp_state.splits)
  have t: "tables_ok w" and s: "shown w" using inv by (simp_all add: clock_inv_def)
  have "clock_inv u"
    using u inv add_foreign_master_ok [OF t n, of ?ds] update_current_master_ok [OF t n, of ?ds r u] shown_cong [of u w] s
    by (auto simp: clock_inv_def)
  then show ?thesis using w' clock_inv_decision by simp
qed

lemma clock_inv_step: "step w w' \<Longrightarrow> clock_inv w \<Longrightarrow> clock_inv w'"
proof (induction rule: step.induct)
  case (announce n w msg w')
  then have "n < length (c_ports (w_clock w))" by (intro clock_inv_length) auto
  then show ?case by (rule clock_inv_proc_announce [OF announce(3) _ announce(2)])
next
  case (ann_timeout n w)
  then have n: "n < length (c_ports (w_clock w))" by (simp add: clock_inv_length)
  let ?v = "port_announce_timeout n w"
  have v: "clock_inv ?v" "n < length (c_ports (w_clock ?v))"
    using clock_inv_ann_timeout [OF ann_timeout(2) n] n length_of_pstates [OF timeout_views(5)] by simp_all
  have "clock_inv (upd_port n (\<lambda>p. p\<lparr>p_next_state := s p\<rparr>) ?v)" for s
    by (rule clock_inv_same [OF v(1)]) (simp_all add: masters_upd_port pstates_upd_port pview_def pstate_def)
  then show ?case
    unfolding port_ann_timeout_work_def Let_def using clock_inv_set_state [OF v] by (simp add: clock_inv_decision)
next
  case (qual_timeout n w)
  then show ?case
    using clock_inv_set_state clock_inv_length by (simp add: port_qual_timeout_work_def clock_inv_decision)
next
  case (fault_timeout n w)
  let ?v = "upd_port n (\<lambda>p. p\<lparr>p_last_fault := 0\<rparr>) w"
  have "clock_inv ?v" "n < length (c_ports (w_clock ?v))"
    using fault_timeout clock_inv_length [OF fault_timeout(2,1)]
    by (auto intro: clock_inv_same simp: masters_upd_port pstates_upd_port pview_def pstate_def)
       (simp add: upd_port_def upd_clock_def)
  then show ?case
    using clock_inv_set_state by (simp add: port_fault_timeout_work_def Let_def clock_inv_decision)
next
  case (fault n w f ms)
  then have n: "n < length (c_ports (w_clock w))" by (simp add: clock_inv_length)
  let ?v = "upd_port n (\<lambda>p. p\<lparr>p_last_fault := f, p_fault_timeout_timer_info := ksz_start_timer
      ((p_fault_timeout_timer_info p)\<lparr>t_period := of_int ms\<rparr>) (of_int ms)\<rparr>) w"
  have "clock_inv ?v"
    by (rule clock_inv_same [OF fault(2)]) (simp_all add: masters_upd_port pstates_upd_port pview_def pstate_def)
  moreover have "n < length (c_ports (w_clock ?v))" using n by (simp add: upd_port_def upd_clock_def)
  ultimately show ?case unfolding port_set_fault_timeout_def Let_def by (rule clock_inv_set_state)
next
  case (event n w e)
  then show ?case using clock_inv_set_state clock_inv_length by simp
next
  case (decide w)
  then show ?case by (rule clock_inv_decision)
qed

lemma clock_inv_reachable: "reachable w v \<Longrightarrow> clock_inv w \<Longrightarrow> clock_inv v"
  by (induction rule: reachable.induct) (auto dest: clock_inv_step)

subsection \<open>Qualification of a master\<close>

text \<open>The entry of a master after \<open>k\<close> Announce messages on port \<open>n\<close>.\<close>

definition heard_entry :: "nat \<Rightarrow> bool \<Rightarrow> bmc_dataset \<Rightarrow> nat \<Rightarrow> foreign_dataset" where
  "heard_entry n gptp ds k =
     empty_foreign\<lparr>fd_dataset := ds, fd_cnt := of_nat (min k (threshold gptp)), fd_valid := (threshold gptp \<le> k),
       fd_port := n\<rparr>"

lemma threshold_range: "threshold g = 1 \<or> threshold g = 3"
  by (simp add: threshold_def)

lemma heard_first: "heard n g ds (empty_foreign\<lparr>fd_dataset := ds\<rparr>) = heard_entry n g ds 1"
  using threshold_range [of g]
  by (auto simp: heard_def heard_entry_def empty_foreign_def Let_def)

lemma heard_next: "0 < k \<Longrightarrow> heard n g ds (heard_entry n g ds k) = heard_entry n g ds (Suc k)"
proof -
  assume k: "0 < k"
  consider "threshold g = 1" | "threshold g = 3" "k = 1" | "threshold g = 3" "k = 2" | "threshold g = 3" "3 \<le> k"
    using threshold_range [of g] k by fastforce
  then show ?thesis
    using k by cases (simp_all add: heard_def heard_entry_def empty_foreign_def Let_def dataset_cmp_def)
qed

lemma heard_entry_cnt: "0 < k \<Longrightarrow> fd_cnt (heard_entry n g ds k) \<noteq> 0"
proof -
  assume "0 < k"
  then have "0 < min k (threshold g)" "min k (threshold g) < 256" using threshold_range [of g] by auto
  then have "unat (of_nat (min k (threshold g)) :: u8) \<noteq> 0" by (simp add: unat_of_nat)
  then show ?thesis by (auto simp: heard_entry_def)
qed

lemma find_foreign_first:
  "find_foreign_master [empty_foreign, empty_foreign] ds = (Some 0, [empty_foreign\<lparr>fd_dataset := ds\<rparr>, empty_foreign])"
  by (simp add: find_foreign_master_def empty_foreign_def Let_def)

lemma find_foreign_next:
  "0 < k \<Longrightarrow> find_foreign_master [heard_entry n g ds k, empty_foreign] ds = (Some 0, [heard_entry n g ds k, empty_foreign])"
  using heard_entry_cnt [of k n g ds]
  by (simp add: find_foreign_master_def Let_def same_port_id_def) (simp add: heard_entry_def)

definition hear :: "nat \<Rightarrow> bmc_dataset \<Rightarrow> world \<Rightarrow> world" where
  "hear n ds w = snd (add_foreign_master n ds w)"

lemma hear_table:
  assumes n: "n < length (c_ports (w_clock w))" and f: "find_foreign_master (p_foreign_masters (port n w)) ds = (Some i, ms)"
  shows "p_foreign_masters (port n (hear n ds w)) = ms[i := heard n (flag fl_gptp n w) ds (ms ! i)]"
    and "flag fl_gptp n (hear n ds w) = flag fl_gptp n w" "length (c_ports (w_clock (hear n ds w))) = length (c_ports (w_clock w))"
proof -
  let ?u = "upd_port n (\<lambda>p. p\<lparr>p_foreign_masters := ms\<rparr>) w"
  have l: "n < length (c_ports (w_clock ?u))" using n by (simp add: upd_port_def upd_clock_def)
  have lt: "length (c_ports (w_clock (port_set_announce_timeout n ?u))) = length (c_ports (w_clock w))"
    using length_of_pstates [OF timeout_views(1)] by (simp add: upd_port_def upd_clock_def)
  have "pview (port n (port_set_announce_timeout n ?u)) = pview (port n ?u)"
    by (rule masters_port(2) [OF timeout_views(2) l])
  then show "p_foreign_masters (port n (hear n ds w)) = ms[i := heard n (flag fl_gptp n w) ds (ms ! i)]"
    "flag fl_gptp n (hear n ds w) = flag fl_gptp n w"
    using n lt by (simp_all add: hear_def add_foreign_master_eq f port_upd_port pview_def)
  show "length (c_ports (w_clock (hear n ds w))) = length (c_ports (w_clock w))"
    unfolding hear_def add_foreign_master_eq f using lt by (simp add: upd_port_def upd_clock_def)
qed

lemma hear_times:
  assumes n: "n < length (c_ports (w_clock w))" and t: "p_foreign_masters (port n w) = [empty_foreign, empty_foreign]"
  shows "p_foreign_masters (port n ((hear n ds ^^ Suc k) w)) = [heard_entry n (flag fl_gptp n w) ds (Suc k), empty_foreign] \<and>
    flag fl_gptp n ((hear n ds ^^ Suc k) w) = flag fl_gptp n w \<and> n < length (c_ports (w_clock ((hear n ds ^^ Suc k) w)))"
proof (induction k)
  case 0
  show ?case using hear_table [OF n, of ds 0] n by (simp add: t find_foreign_first heard_first)
next
  case (Suc k)
  let ?w = "(hear n ds ^^ Suc k) w"
  have f: "find_foreign_master (p_foreign_masters (port n ?w)) ds =
      (Some 0, [heard_entry n (flag fl_gptp n w) ds (Suc k), empty_foreign])"
    using Suc find_foreign_next [of "Suc k"] by simp
  show ?case
    using hear_table [OF conjunct2 [OF conjunct2 [OF Suc]] f] Suc heard_next [of "Suc k"]
    by simp
qed

lemma hear_decides:
  assumes n: "n < length (c_ports (w_clock w))" and t: "p_foreign_masters (port n w) = [empty_foreign, empty_foreign]"
  shows "fst (add_foreign_master n ds ((hear n ds ^^ k) w)) \<longleftrightarrow> Suc k = threshold (flag fl_gptp n w)"
proof (cases k)
  case 0
  then show ?thesis using t find_foreign_first threshold_range [of "flag fl_gptp n w"]
    by (auto simp: add_foreign_master_def threshold_def Let_def empty_foreign_def)
next
  case (Suc j)
  let ?w = "(hear n ds ^^ Suc j) w" and ?g = "flag fl_gptp n w"
  note h = hear_times [OF n t, where ds = ds and k = j]
  have e: "fst (add_foreign_master n ds ?w) \<longleftrightarrow>
      (threshold ?g - 1 = unat (fd_cnt (heard_entry n ?g ds (Suc j))) \<or>
       (fd_cnt (heard_entry n ?g ds (Suc j)) > 1 \<and> dataset_cmp (fd_dataset (heard_entry n ?g ds (Suc j))) ds \<noteq> 0))"
    using h find_foreign_next [of "Suc j" n ?g ds] heard_entry_cnt [of "Suc j" n ?g ds]
    by (simp add: add_foreign_master_def threshold_def Let_def del: funpow.simps)
  have c: "unat (fd_cnt (heard_entry n ?g ds (Suc j))) = min (Suc j) (threshold ?g)"
    using threshold_range [of ?g] by (auto simp: heard_entry_def unat_of_nat min_def)
  have d: "dataset_cmp (fd_dataset (heard_entry n ?g ds (Suc j))) ds = 0"
    by (simp add: heard_entry_def dataset_cmp_def)
  show ?thesis unfolding Suc e c d using threshold_range [of ?g] by auto
qed

end
