(* ===== verification/Msgframe.thy ===== *)
theory Msgframe
  imports Works Msgref Decision_props
begin

text \<open>
  What leaves the message buffers alone: none of the operations on the clock, the
  ports, the timers and the works touches \<open>w_msgs\<close>.
\<close>

lemma msgs_updates [simp]:
  "w_msgs (upd_clock f w) = w_msgs w"
  "w_msgs (upd_port n g w) = w_msgs w"
  "w_msgs (upd_pflags n h w) = w_msgs w"
  "w_msgs (upd_pmsgs n i w) = w_msgs w"
  "w_msgs (upd_cmsgs j w) = w_msgs w"
  "w_msgs (upd_pds n k w) = w_msgs w"
  "w_msgs (upd_cflags l w) = w_msgs w"
  "w_msgs (upd_timers m w) = w_msgs w"
  "w_msgs (emit e w) = w_msgs w"
  "w_msgs (sched_now d w) = w_msgs w"
  "w_msgs (sched_delayed d t w) = w_msgs w"
  by (simp_all add: world_upd)

lemma msgs_if [simp]: "w_msgs v = w_msgs w \<Longrightarrow> w_msgs (if b then v else w) = w_msgs w"
  by simp

lemma msgs_timers [simp]:
  "w_msgs (clock_stop_sync_interval w) = w_msgs w"
  "w_msgs (clock_stop_sync_timeout w) = w_msgs w"
  "w_msgs (clock_stop_fup_timeout w) = w_msgs w"
  "w_msgs (clock_set_initial_sync_timeout d w) = w_msgs w"
  "w_msgs (clock_stop_sync_timer w) = w_msgs w"
  "w_msgs (clock_start_sync_timer w) = w_msgs w"
  "w_msgs (clock_start_signaling_timer b w) = w_msgs w"
  "w_msgs (clock_stop_signaling_timer w) = w_msgs w"
  "w_msgs (clock_set_sync_timeout w) = w_msgs w"
  "w_msgs (clock_set_fup_timeout w) = w_msgs w"
  "w_msgs (clock_set_sync_interval w) = w_msgs w"
  "w_msgs (clock_change_sync_timer i w) = w_msgs w"
  by (simp_all add: clock_ops clock_start_signaling_timer_def clock_set_initial_sync_timeout_def Let_def
      clock_start_sync_timer_def clock_change_sync_timer_def clock_set_sync_interval_def clock_set_sync_timeout_def
      clock_set_fup_timeout_def clock_stop_fup_timeout_def split: option.split)

lemma msgs_clock [simp]:
  "w_msgs (clock_default_ds w) = w_msgs w"
  "w_msgs (clock_set_slave_port n w) = w_msgs w"
  "w_msgs (clock_enable_port n b w) = w_msgs w"
  "w_msgs (ptp_update_parent_ds f w) = w_msgs w"
  "w_msgs (clock_update_grandmaster w) = w_msgs w"
  "w_msgs (ptp_setup_sync_interval w) = w_msgs w"
  "w_msgs (ptp_change_slave_interval i b w) = w_msgs w"
  "w_msgs (ptp_change_master_interval n i w) = w_msgs w"
  by (simp_all add: clock_default_ds_def clock_set_slave_port_def clock_enable_port_def ptp_update_parent_ds_def
      clock_update_grandmaster_def ptp_setup_sync_interval_def ptp_change_slave_interval_def
      ptp_change_master_interval_def Let_def split: option.split)

lemma msgs_port [simp]:
  "w_msgs (port_announce_timeout n w) = w_msgs w"
  "w_msgs (port_set_announce_timeout n w) = w_msgs w"
  "w_msgs (port_set_qualification_timeout n w) = w_msgs w"
  "w_msgs (port_stop_qualification_timeout n w) = w_msgs w"
  "w_msgs (port_global_cfg b n w) = w_msgs w"
  "w_msgs (port_start_sync_timer n w) = w_msgs w"
  "w_msgs (port_stop_sync_timer n w) = w_msgs w"
  "w_msgs (port_set_capable n b w) = w_msgs w"
  "w_msgs (clock_peer_delay i w) = w_msgs w"
  "w_msgs (port_stop_fault_timeout n w) = w_msgs w"
  by (simp_all add: port_announce_timeout_def port_set_announce_timeout_def port_set_qualification_timeout_def
      port_stop_qualification_timeout_def port_global_cfg_def port_start_sync_timer_def port_stop_sync_timer_def
      port_set_capable_def clock_peer_delay_def port_stop_fault_timeout_def Let_def
      split: option.split)

lemma msgs_p2p [simp]:
  "w_msgs (port_start_p2p n w) = w_msgs w"
  "w_msgs (port_stop_p2p n w) = w_msgs w"
  "w_msgs (port_init n w) = w_msgs w"
  "w_msgs (port_to_master n w) = w_msgs w"
  "w_msgs (port_to_slave n w) = w_msgs w"
  "w_msgs (ptp_init_port_ds n w) = w_msgs w"
  by (simp_all add: port_start_p2p_def port_stop_p2p_def port_init_def port_to_master_def port_to_slave_def
      ptp_init_port_ds_def Let_def split: option.split)

lemma msgs_initialize:
  assumes "\<And>w. w_msgs (h w) = w_msgs w"
  shows "w_msgs (port_initialize h n w) = w_msgs w"
proof -
  have [simp]: "w_msgs (port_initialize_data n w) = w_msgs w" for w
    by (simp add: port_initialize_data_def Let_def split: option.split)
  have [simp]: "w_msgs (port_to_sync h n w) = w_msgs w" for w by (simp add: port_to_sync_def assms)
  have [simp]: "w_msgs (port_initialize_slave n w) = w_msgs w" for w
    by (simp add: port_initialize_slave_def Let_def)
  have [simp]: "w_msgs (port_initialize_start n w) = w_msgs w" for w
    by (simp add: port_initialize_start_def Let_def)
  have [simp]: "w_msgs (port_initialize_state h n w) = w_msgs w" for w
    by (simp add: port_initialize_state_def Let_def)
  show ?thesis by (simp add: port_initialize_def Let_def)
qed

lemma msgs_set_state_with:
  assumes "\<And>w. w_msgs (h w) = w_msgs w"
  shows "w_msgs (set_state_with h n s w) = w_msgs w"
proof -
  have [simp]: "w_msgs (leave_state n s w) = w_msgs w" for w
    by (simp add: leave_state_def leave_sync_def Let_def split: ptp_state.split)
  have [simp]: "w_msgs (enter_state h n m s w) = w_msgs w" for m w
    using msgs_initialize [OF assms] by (simp add: enter_state_def Let_def split: ptp_state.split)
  show ?thesis by (simp add: set_state_with_def Let_def)
qed

lemma msgs_set_state [simp]: "w_msgs (port_set_state n s w) = w_msgs w"
  unfolding port_set_state_def host_to_slave_def by (intro msgs_set_state_with) simp

lemma msgs_fault_timeout [simp]: "w_msgs (port_set_fault_timeout n x y w) = w_msgs w"
  by (simp add: port_set_fault_timeout_def Let_def)

lemma msgs_scan: "scan_best ns b w = (r, w') \<Longrightarrow> w_msgs w' = w_msgs w"
  by (induction ns b w rule: scan_best.induct) (simp_all add: Let_def split: option.splits)

lemma msgs_decide: "decide_ports ns a b w = (x, y, w') \<Longrightarrow> w_msgs w' = w_msgs w"
proof (induction ns arbitrary: a b w)
  case (Cons i ns)
  obtain s v where v: "bmca_decision i w = (s, v)" by (cases "bmca_decision i w")
  then have "w_msgs v = w_msgs w" by (auto simp: bmca_decision_def Let_def split: if_splits)
  then show ?case using Cons.IH Cons.prems v by (simp add: Let_def)
qed simp

lemma msgs_choose [simp]: "w_msgs (choose_best b w) = w_msgs w"
  by (simp add: choose_best_def Let_def)

lemma msgs_decision [simp]: "w_msgs (handle_state_decision w) = w_msgs w"
  by (auto simp: handle_state_decision_def Let_def split: prod.split dest!: msgs_scan msgs_decide)

lemma msgs_timeouts [simp]:
  "w_msgs (port_ann_timeout_work n w) = w_msgs w"
  "w_msgs (port_qual_timeout_work n w) = w_msgs w"
  "w_msgs (port_fault_timeout_work n w) = w_msgs w"
  "w_msgs (proc_link_status n s w) = w_msgs w"
  by (simp_all add: port_ann_timeout_work_def port_qual_timeout_work_def port_fault_timeout_work_def
      proc_link_status_def Let_def split: option.split)

lemma msgs_proc_announce: "proc_announce n msg w = Some w' \<Longrightarrow> w_msgs w' = w_msgs w"
  by (auto simp: proc_announce_def Let_def update_current_master_def add_foreign_master_def
      split: ptp_state.splits if_splits option.splits prod.splits)

end
