(* ===== verification/Memory.thy ===== *)
theory Memory
  imports Msgframe
begin

text \<open>
  The message buffers over the whole stack.  \<open>mem_ok\<close> says that the reference
  count of every buffer is the number of pointers to it and that no buffer is
  queued twice; \<open>held\<close> are the references of the code that runs.  A function
  that only changes contents and the six pointers of the clock is \<open>quiet\<close>; a
  function that may also send through the queue \<open>keeps\<close> the counts; a \<open>handle_\<close>
  function is quiet and may queue the message it was called with.
\<close>

definition mem_ok :: "mstore \<Rightarrow> nat list \<Rightarrow> bool" where
  "mem_ok st held \<longleftrightarrow> store_ok st held \<and> distinct (st_queue st) \<and> length held \<le> 2"

definition quiet :: "mstore \<Rightarrow> mstore \<Rightarrow> bool" where
  "quiet st st' \<longleftrightarrow> (\<forall>held. mem_ok st held \<longrightarrow> mem_ok st' held) \<and> st_queue st' = st_queue st"

definition keeps :: "mstore \<Rightarrow> mstore \<Rightarrow> bool" where
  "keeps st st' \<longleftrightarrow> (\<forall>held. mem_ok st held \<longrightarrow> length held \<le> 1 \<longrightarrow> mem_ok st' held)"

definition handled :: "nat \<Rightarrow> mstore \<Rightarrow> mstore \<Rightarrow> bool" where
  "handled a st st' \<longleftrightarrow> quiet st st' \<or> (\<exists>s. quiet st s \<and> ptp_save_rx_msg a s = Some st')"

text \<open>A buffer that is new, and one whose reference goes to the queue.\<close>

definition fresh :: "nat \<Rightarrow> mstore \<Rightarrow> mstore \<Rightarrow> bool" where
  "fresh a st st' \<longleftrightarrow>
     (\<forall>held. mem_ok st held \<longrightarrow> length held \<le> 1 \<longrightarrow> mem_ok st' (a # held) \<and> a \<notin> set (st_queue st'))"

definition sent :: "nat \<Rightarrow> mstore \<Rightarrow> mstore \<Rightarrow> bool" where
  "sent a st st' \<longleftrightarrow>
     (\<forall>held. mem_ok st (a # held) \<longrightarrow> a \<notin> set (st_queue st) \<longrightarrow> mem_ok st' held)"

lemma quiet_refl [simp, intro]: "quiet st st"
  by (simp add: quiet_def)

lemma quiet_trans [trans]: "quiet a b \<Longrightarrow> quiet b c \<Longrightarrow> quiet a c"
  by (simp add: quiet_def)

lemma keeps_refl [simp, intro]: "keeps st st"
  by (simp add: keeps_def)

lemma keeps_trans [trans]: "keeps a b \<Longrightarrow> keeps b c \<Longrightarrow> keeps a c"
  by (simp add: keeps_def)

lemma quiet_keeps: "quiet a b \<Longrightarrow> keeps a b"
  by (simp add: quiet_def keeps_def)

lemma fresh_sent: "fresh a st s \<Longrightarrow> quiet s s' \<Longrightarrow> sent a s' st' \<Longrightarrow> keeps st st'"
  by (simp add: fresh_def sent_def keeps_def quiet_def)

lemma handled_quiet: "quiet st st' \<Longrightarrow> handled a st st'"
  by (simp add: handled_def)

lemma quiet_handled: "quiet st s \<Longrightarrow> handled a s st' \<Longrightarrow> handled a st st'"
  by (auto simp: handled_def intro: quiet_trans)

subsection \<open>The operations on buffers\<close>

lemma mem_bound: "mem_ok st held \<Longrightarrow> refs st held a < 255"
proof -
  assume m: "mem_ok st held"
  have "count_list (st_queue st) a \<le> 1" using m distinct_count_atmost_1 [of "st_queue st"] 
    by (auto simp: mem_ok_def count_list_eq_length_filter distinct_length_filter card_le_Suc0_iff_eq)
  moreover have "count_list held a \<le> length held" by (rule count_le_length)
  ultimately show ?thesis using slot_refs_le [of "st_slot st" a] m by (auto simp: refs_def mem_ok_def)
qed

lemma quiet_content:
  assumes "on_heap (upd_msg a f) st = Some st'" and "\<And>m. m_refcnt (f m) = m_refcnt m"
  shows "quiet st st'"
proof -
  have q: "st_queue st' = st_queue st" using assms(1) by (auto simp: on_heap_def bind_eq_Some_conv)
  have "store_ok st' held" if "store_ok st held" for held
  proof -
    have "mh_msgs (st_heap st) a \<noteq> None"
      using assms(1) by (auto simp: on_heap_def upd_msg_def split: option.splits)
    then have "0 < refs st held a"
      using counted_dead [of "st_heap st" "refs st held" a] that by (cases "refs st held a") (simp_all add: store_ok_def)
    then show ?thesis using store_content [OF that _ assms(2), of a] assms(1) by auto
  qed
  then show ?thesis using q by (simp add: quiet_def mem_ok_def)
qed

lemma quiet_save:
  assumes "msg_save s a st = Some st'"
  shows "quiet st st'"
proof -
  have *: "mem_ok st' held \<and> st_queue st' = st_queue st" if m: "mem_ok st held" for held
  proof -
    let ?r = "refs (st\<lparr>st_slot := (st_slot st)(s := None)\<rparr>) held a"
    have "?r \<noteq> 0" using msg_save_dead [of st held s a] assms m by (auto simp: mem_ok_def)
    moreover have "?r \<le> refs st held a" by (cases "st_slot st s") (auto simp: refs_none msgs.without_def)
    ultimately show ?thesis
      using msg_save_ok [of st held s a] mem_bound [OF m, of a] m assms by (auto simp: mem_ok_def)
  qed
  moreover have "st_queue st' = st_queue st"
    using assms by (auto simp: msg_save_def on_heap_def put_slot_def bind_eq_Some_conv split: option.splits)
  ultimately show ?thesis by (simp add: quiet_def)
qed

lemma quiet_clear:
  assumes "msg_clear s st = Some st'"
  shows "quiet st st'"
proof -
  have "st_queue st' = st_queue st"
    using assms by (auto simp: msg_clear_def on_heap_def put_slot_def bind_eq_Some_conv split: option.splits)
  then show ?thesis using msg_clear_ok [of st _ s] assms by (fastforce simp: quiet_def mem_ok_def)
qed

lemma fresh_alloc:
  assumes "alloc_msg src len rx (st_heap st) = Some (Some a, h)"
  shows "fresh a st (st\<lparr>st_heap := h\<rparr>)"
proof -
  have "a \<notin> set (st_queue st)" if "store_ok st held" for held
    using alloc_ok [OF that assms] refs_pos(2) [of a st held] by auto
  then show ?thesis using alloc_ok [OF _ assms] by (auto simp: fresh_def mem_ok_def)
qed

lemma quiet_alloc:
  assumes "alloc_msg src len rx (st_heap st) = Some (None, h)"
  shows "quiet st (st\<lparr>st_heap := h\<rparr>)"
  using alloc_ok [OF _ assms] by (auto simp: quiet_def mem_ok_def)

lemma sent_save:
  assumes "ptp_save_tx_msg a index portmap queue udp vid sec nsec st = Some st'"
  shows "sent a st st'"
  using save_tx_ok [of st a _ index portmap queue udp vid sec nsec] assms by (fastforce simp: sent_def mem_ok_def)

text \<open>A message that is received: it is new, handled and released.\<close>

lemma received:
  assumes "fresh a st s" and "handled a s t" and "on_heap (msg_put a) t = Some st'" and "mem_ok st []"
  shows "mem_ok st' []"
proof -
  have s: "mem_ok s [a]" "a \<notin> set (st_queue s)" using assms(1,4) by (auto simp: fresh_def)
  have "store_ok t [a] \<and> distinct (st_queue t)"
    using assms(2) unfolding handled_def
  proof
    assume "\<exists>s'. quiet s s' \<and> ptp_save_rx_msg a s' = Some t"
    then obtain s' where q: "mem_ok s' [a]" "a \<notin> set (st_queue s')" "ptp_save_rx_msg a s' = Some t"
      using s by (auto simp: quiet_def)
    then show ?thesis
      using save_rx_ok [of s' "[a]" a] mem_bound [OF q(1), of a] refs_pos(3) [of a "[a]" s']
      by (auto simp: mem_ok_def)
  qed (use s in \<open>auto simp: quiet_def mem_ok_def\<close>)
  then show ?thesis using put_held [of t a "[]"] assms(3) by (auto simp: mem_ok_def)
qed

text \<open>A message that comes out of the queue: it is processed and released.\<close>

lemma processed:
  assumes "st_queue st = a # q" and "keeps (st\<lparr>st_queue := q\<rparr>) t" and "on_heap (msg_put a) t = Some st'"
    and "mem_ok st []"
  shows "mem_ok st' []"
proof -
  have "mem_ok (st\<lparr>st_queue := q\<rparr>) [a]" using dequeue_ok [of st "[]" a q] assms(1,4) by (simp add: mem_ok_def)
  then have "mem_ok t [a]" using assms(2) by (simp add: keeps_def)
  then show ?thesis using put_held [of t a "[]"] assms(3) by (auto simp: mem_ok_def)
qed

subsection \<open>The parts of the world\<close>

named_theorems contract \<open>what a function does to the buffers\<close>

lemma on_msgs_some: "on_msgs f w = Some w' \<Longrightarrow> f (w_msgs w) = Some (w_msgs w')"
  by (auto simp: on_msgs_def bind_eq_Some_conv)

lemma contract_content [contract]:
  "on_msgs (on_heap (upd_msg a (shift_rx u))) w = Some w' \<Longrightarrow> quiet (w_msgs w) (w_msgs w')"
  "on_msgs (on_heap (upd_msg a (stamp_msg src n d))) w = Some w' \<Longrightarrow> quiet (w_msgs w) (w_msgs w')"
  "set_msg a b w = Some w' \<Longrightarrow> quiet (w_msgs w) (w_msgs w')"
  "save_slot s a w = Some w' \<Longrightarrow> quiet (w_msgs w) (w_msgs w')"
  "clear_slot s w = Some w' \<Longrightarrow> quiet (w_msgs w) (w_msgs w')"
  by (auto simp: set_msg_def save_slot_def clear_slot_def shift_rx_def stamp_msg_def Let_def
      dest!: on_msgs_some intro: quiet_content quiet_save quiet_clear)

lemma contract_slot [contract]: "upd_slot s f w = Some w' \<Longrightarrow> quiet (w_msgs w) (w_msgs w')"
  by (auto simp: upd_slot_def bind_eq_Some_conv dest: contract)

lemma contract_save_rx [contract]: "save_rx a w = Some w' \<Longrightarrow> handled a (w_msgs w) (w_msgs w')"
  by (auto simp: save_rx_def handled_def dest!: on_msgs_some)

lemma contract_alloc [contract]:
  "alloc_new len w = Some (Some a, w') \<Longrightarrow> fresh a (w_msgs w) (w_msgs w')"
  "alloc_new len w = Some (None, w') \<Longrightarrow> quiet (w_msgs w) (w_msgs w')"
  by (auto simp: alloc_new_def bind_eq_Some_conv intro: fresh_alloc quiet_alloc)

lemma contract_finish [contract]: "finish_tx a b i p w = Some w' \<Longrightarrow> sent a (w_msgs w) (w_msgs w')"
proof -
  assume "finish_tx a b i p w = Some w'"
  then obtain b' v where "set_msg a b' w = Some v" "save_tx a i p v = Some w'"
    by (auto simp: finish_tx_def bind_eq_Some_conv)
  then have "quiet (w_msgs w) (w_msgs v)" "sent a (w_msgs v) (w_msgs w')"
    by (auto simp: save_tx_def dest: contract dest!: on_msgs_some intro: sent_save)
  then show ?thesis by (simp add: quiet_def sent_def)
qed

lemma contract_tx [simp]:
  "w_msgs (ptp_tx_msg b i p s x d w) = w_msgs w" "w_msgs (upd_tx_sync n f w) = w_msgs w"
  "w_msgs (upd_req n g w) = w_msgs w" "w_msgs (put_rsp k r n w) = w_msgs w" "w_msgs (put_fup k r n w) = w_msgs w"
  by (simp_all add: ptp_tx_msg_def upd_tx_sync_def upd_req_def put_rsp_def put_fup_def emit_def)

end
