(* ===== verification/Memory_ops.thy ===== *)
theory Memory_ops
  imports Memory
begin

text \<open>
  The contract of every function that sends, receives, forwards or works: what
  it does to the message buffers.
\<close>

text \<open>A run of a function that returned, taken apart.\<close>

lemma bind_runE: "Option.bind x f = Some y \<Longrightarrow> (\<And>z. x = Some z \<Longrightarrow> f z = Some y \<Longrightarrow> P) \<Longrightarrow> P"
  by (auto simp: bind_eq_Some_conv)

lemma if_runE:
  "(if b then x else y) = Some z \<Longrightarrow> (b \<Longrightarrow> x = Some z \<Longrightarrow> P) \<Longrightarrow> (\<not> b \<Longrightarrow> y = Some z \<Longrightarrow> P) \<Longrightarrow> P"
  by (auto split: if_splits)

lemma option_runE:
  "(case x of None \<Rightarrow> f | Some a \<Rightarrow> g a) = Some z \<Longrightarrow> (x = None \<Longrightarrow> f = Some z \<Longrightarrow> P) \<Longrightarrow>
   (\<And>a. x = Some a \<Longrightarrow> g a = Some z \<Longrightarrow> P) \<Longrightarrow> P"
  by (auto split: option.splits)

lemma prod_runE:
  "(case p of (a, b) \<Rightarrow> f a b) = Some z \<Longrightarrow> (\<And>a b. p = (a, b) \<Longrightarrow> f a b = Some z \<Longrightarrow> P) \<Longrightarrow> P"
  by (auto split: prod.splits)

lemma sum_runE:
  "(case x of Inl a \<Rightarrow> f a | Inr b \<Rightarrow> g b) = Some z \<Longrightarrow> (\<And>a. x = Inl a \<Longrightarrow> f a = Some z \<Longrightarrow> P) \<Longrightarrow>
   (\<And>b. x = Inr b \<Longrightarrow> g b = Some z \<Longrightarrow> P) \<Longrightarrow> P"
  by (auto split: sum.splits)

lemma let_runE: "Let x f = Some z \<Longrightarrow> (f x = Some z \<Longrightarrow> P) \<Longrightarrow> P"
  by simp

lemma read_runE:
  "if_read b x y = Some z \<Longrightarrow> (x = Some z \<Longrightarrow> P) \<Longrightarrow> (y = Some z \<Longrightarrow> P) \<Longrightarrow> P"
  by (cases b) (auto split: if_splits)

lemmas runE = read_runE bind_runE if_runE option_runE prod_runE sum_runE let_runE

subsection \<open>The clock and the delays\<close>

lemma msgs_sync [simp]:
  "w_msgs (clock_set_freq f w) = w_msgs w"
  "w_msgs (clock_adj u w) = w_msgs w"
  "w_msgs (upd_hinfo g w) = w_msgs w"
  "w_msgs (upd_hfilter h w) = w_msgs w"
  "w_msgs (upd_first_info n i w) = w_msgs w"
  "w_msgs (report_synced n w) = w_msgs w"
  "w_msgs (port_assign_peer_delay n j w) = w_msgs w"
  by (simp_all add: clock_set_freq_def clock_adj_def upd_hinfo_def upd_hfilter_def upd_first_info_def
      report_synced_def port_assign_peer_delay_def Let_def)

lemma msgs_synced [simp]: "w_msgs (port_synced n s w) = w_msgs w"
  by (simp add: port_synced_def Let_def split: servo_state.split)

lemma contract_adj_freq [contract]: "clock_adj_freq u f w = Some w' \<Longrightarrow> quiet (w_msgs w) (w_msgs w')"
  unfolding clock_adj_freq_def by (auto elim!: runE dest!: contract intro: quiet_trans)

lemma contract_path_delay [contract]: "clock_path_delay u v w = Some w' \<Longrightarrow> quiet (w_msgs w) (w_msgs w')"
  unfolding clock_path_delay_def by (auto elim!: runE)

lemma contract_clock_act [contract]: "clock_act a s w = Some (s', w') \<Longrightarrow> quiet (w_msgs w) (w_msgs w')"
  unfolding clock_act_def by (auto elim!: runE dest!: contract)

lemma contract_clock_sync [contract]: "clock_sync u v w = Some (s, w') \<Longrightarrow> quiet (w_msgs w) (w_msgs w')"
  unfolding clock_sync_def by (auto elim!: runE dest!: contract)

lemma contract_port_sync [contract]:
  "port_sync n i t c f w = Some w' \<Longrightarrow> quiet (w_msgs w) (w_msgs w')"
  "port_path_delay n i t c w = Some w' \<Longrightarrow> quiet (w_msgs w) (w_msgs w')"
  unfolding port_sync_def port_path_delay_def by (auto elim!: runE dest!: contract)

lemma contract_peer_delay [contract]:
  "port_peer_delay n k e i r c t w = Some w' \<Longrightarrow> w_msgs w' = w_msgs w"
  unfolding port_peer_delay_def
  by (auto elim!: runE)

subsection \<open>Sending\<close>

lemma contract_send_queue [contract]:
  "port_tx_announce n w = Some w' \<Longrightarrow> keeps (w_msgs w) (w_msgs w')"
  "port_tx_fup n m w = Some w' \<Longrightarrow> keeps (w_msgs w) (w_msgs w')"
  "port_tx_delay_req n w = Some w' \<Longrightarrow> keeps (w_msgs w) (w_msgs w')"
  unfolding port_tx_announce_def port_tx_fup_def port_tx_delay_req_def
  by (auto elim!: runE
      dest!: contract intro: quiet_keeps fresh_sent [OF _ quiet_refl])

lemma contract_tx_sync [contract]: "port_tx_sync n w = Some w' \<Longrightarrow> keeps (w_msgs w) (w_msgs w')"
  unfolding port_tx_sync_def
  by (auto elim!: runE
      dest!: contract intro: quiet_keeps fresh_sent [OF _ quiet_refl])

lemma contract_send_now [contract]:
  "port_fwd_announce n b w = Some w' \<Longrightarrow> w_msgs w' = w_msgs w"
  "port_fwd_sync n b w = Some w' \<Longrightarrow> w_msgs w' = w_msgs w"
  "port_fwd_fup n b r w = Some w' \<Longrightarrow> w_msgs w' = w_msgs w"
  "port_tx_delay_resp n m w = Some w' \<Longrightarrow> w_msgs w' = w_msgs w"
  "port_tx_pdelay_resp n m w = Some w' \<Longrightarrow> w_msgs w' = w_msgs w"
  "proc_delayed_pdelay_resp n m w = Some w' \<Longrightarrow> w_msgs w' = w_msgs w"
  "port_tx_signal n i b w = Some (c, w') \<Longrightarrow> w_msgs w' = w_msgs w"
  unfolding port_fwd_announce_def port_fwd_sync_def port_fwd_fup_def port_tx_delay_resp_def port_tx_pdelay_resp_def proc_delayed_pdelay_resp_def port_tx_signal_def
  by (auto elim!: runE)

lemma contract_signal_interval [contract]:
  "port_tx_signal_interval n d s an (Some a) w = Some w' \<Longrightarrow> sent a (w_msgs w) (w_msgs w')"
  unfolding port_tx_signal_interval_def by (auto elim!: runE dest!: contract)

lemma contract_request_interval [contract]: "request_interval n i w = Some w' \<Longrightarrow> keeps (w_msgs w) (w_msgs w')"
  unfolding request_interval_def
  by (auto elim!: runE dest!: contract
      intro: quiet_keeps fresh_sent [OF _ quiet_refl])

subsection \<open>Delays\<close>

lemma msgs_delay [simp]:
  "w_msgs (clear_pdelay_req n w) = w_msgs w"
  "w_msgs (count_responses n w) = w_msgs w"
  "w_msgs (remember_peer n d w) = w_msgs w"
  by (simp_all add: clear_pdelay_req_def count_responses_def remember_peer_def Let_def)

lemma msgs_mult_resp: "mult_resp_check n f l w = (b, w') \<Longrightarrow> w_msgs w' = w_msgs w"
  by (auto simp: mult_resp_check_def Let_def split: if_splits)

lemma contract_set_peer [contract]: "set_peer n c k m s w = Some w' \<Longrightarrow> w_msgs w' = w_msgs w"
  unfolding set_peer_def by (auto elim!: runE)

lemma contract_check_peer [contract]: "check_peer_info n m s w = Some w' \<Longrightarrow> w_msgs w' = w_msgs w"
  unfolding check_peer_info_def by (auto elim!: runE split: tlv_result.splits dest!: contract)

lemma contract_pdelay_req [contract]: "port_tx_pdelay_req n w = Some w' \<Longrightarrow> keeps (w_msgs w) (w_msgs w')"
  unfolding port_tx_pdelay_req_def
  by (auto elim!: runE dest!: contract intro: quiet_keeps fresh_sent [OF _ quiet_refl])

lemma contract_each_response [contract]:
  "proc_each_pdelay_response n k w = Some w' \<Longrightarrow> w_msgs w' = w_msgs w"
  "proc_delay_response n w = Some w' \<Longrightarrow> quiet (w_msgs w) (w_msgs w')"
  unfolding proc_each_pdelay_response_def proc_delay_response_def by (auto elim!: runE dest!: contract)

lemma contract_responses [contract]: "proc_responses n i k w = Some w' \<Longrightarrow> w_msgs w' = w_msgs w"
proof (induction k arbitrary: i w)
  case (Suc k)
  from Suc.prems show ?case by (auto elim!: runE dest!: contract Suc.IH)
qed simp

lemma contract_pdelay_response [contract]: "proc_pdelay_response n k w = Some w' \<Longrightarrow> w_msgs w' = w_msgs w"
  unfolding proc_pdelay_response_def by (auto elim!: runE dest!: contract)

lemma contract_handle_delay [contract]:
  "handle_delay_req n a w = Some w' \<Longrightarrow> handled a (w_msgs w) (w_msgs w')"
  "handle_delay_resp n a w = Some w' \<Longrightarrow> handled a (w_msgs w) (w_msgs w')"
  "handle_delayed_delay_req n a w = Some w' \<Longrightarrow> handled a (w_msgs w) (w_msgs w')"
  "handle_delayed_pdelay_resp n a w = Some w' \<Longrightarrow> handled a (w_msgs w) (w_msgs w')"
  "handle_pdelay_req n a w = Some w' \<Longrightarrow> handled a (w_msgs w) (w_msgs w')"
  "handle_delayed_pdelay_req n a w = Some w' \<Longrightarrow> handled a (w_msgs w) (w_msgs w')"
  unfolding handle_delay_req_def handle_delay_resp_def handle_delayed_delay_req_def handle_delayed_pdelay_resp_def
    handle_pdelay_req_def handle_delayed_pdelay_req_def
  by (auto elim!: runE dest!: contract simp: handled_quiet)

lemma contract_handle_resp [contract]:
  "handle_pdelay_resp n a w = Some w' \<Longrightarrow> handled a (w_msgs w) (w_msgs w')"
  unfolding handle_pdelay_resp_def
  by (auto elim!: runE dest!: contract msgs_mult_resp simp: handled_quiet split: if_splits)

lemma contract_handle_resp_fup [contract]:
  "handle_pdelay_resp_fup n a w = Some w' \<Longrightarrow> handled a (w_msgs w) (w_msgs w')"
  unfolding handle_pdelay_resp_fup_def
  by (auto elim!: runE dest!: contract msgs_mult_resp simp: handled_quiet split: if_splits)

lemma contract_proc_delay [contract]:
  "proc_delay_req n m w = Some w' \<Longrightarrow> keeps (w_msgs w) (w_msgs w')"
  "proc_delay_resp n w = Some w' \<Longrightarrow> keeps (w_msgs w) (w_msgs w')"
  "proc_delayed_delay_req n w = Some w' \<Longrightarrow> keeps (w_msgs w) (w_msgs w')"
  "proc_pdelay_req n m w = Some w' \<Longrightarrow> keeps (w_msgs w) (w_msgs w')"
  "proc_pdelay_resp n m w = Some w' \<Longrightarrow> keeps (w_msgs w) (w_msgs w')"
  "proc_pdelay_resp_fup n m w = Some w' \<Longrightarrow> keeps (w_msgs w) (w_msgs w')"
  "proc_delayed_pdelay_req n w = Some w' \<Longrightarrow> keeps (w_msgs w) (w_msgs w')"
  unfolding proc_delay_req_def proc_delay_resp_def proc_delayed_delay_req_def proc_pdelay_req_def proc_pdelay_resp_def
    proc_pdelay_resp_fup_def proc_delayed_pdelay_req_def
  by (auto elim!: runE dest!: contract intro: quiet_keeps)

subsection \<open>Forwarding\<close>

lemma contract_residence [contract]:
  "refresh_kept w = Some w' \<Longrightarrow> quiet (w_msgs w) (w_msgs w')"
  unfolding refresh_kept_def by (auto elim!: runE dest!: contract; meson quiet_trans)

lemma contract_check_residence [contract]:
  "ptp_check_residence w = Some w' \<Longrightarrow> quiet (w_msgs w) (w_msgs w')"
  unfolding ptp_check_residence_def by (auto elim!: runE dest!: contract; meson quiet_trans)

lemma contract_first_forward [contract]: "first_forward n w = Some (b, w') \<Longrightarrow> quiet (w_msgs w) (w_msgs w')"
  unfolding first_forward_def by (auto elim!: runE dest!: contract)

lemma contract_fwd_fup [contract]: "ptp_fwd_fup n w = Some w' \<Longrightarrow> quiet (w_msgs w) (w_msgs w')"
  unfolding ptp_fwd_fup_def by (auto elim!: runE dest!: contract)

lemma contract_forward_keep [contract]: "forward_keep t a w = Some w' \<Longrightarrow> quiet (w_msgs w) (w_msgs w')"
  unfolding forward_keep_def by (auto elim!: runE dest!: contract intro: quiet_trans)

lemma contract_forward_port [contract]: "forward_port t a n w = Some w' \<Longrightarrow> quiet (w_msgs w) (w_msgs w')"
  unfolding forward_port_def by (auto elim!: runE dest!: contract)

lemma each_port_quiet:
  assumes "each_port f ns w = Some w'" and "\<And>n w w'. f n w = Some w' \<Longrightarrow> quiet (w_msgs w) (w_msgs w')"
  shows "quiet (w_msgs w) (w_msgs w')"
  using assms(1) by (induction ns arbitrary: w) (auto elim!: runE dest!: assms(2) intro: quiet_trans)

lemma each_port_keeps:
  assumes "each_port f ns w = Some w'" and "\<And>n w w'. f n w = Some w' \<Longrightarrow> keeps (w_msgs w) (w_msgs w')"
  shows "keeps (w_msgs w) (w_msgs w')"
  using assms(1) by (induction ns arbitrary: w) (auto elim!: runE dest!: assms(2) intro: keeps_trans)

lemma contract_forward_ports [contract]:
  "each_port (forward_port t a) ns w = Some w' \<Longrightarrow> quiet (w_msgs w) (w_msgs w')"
  by (rule each_port_quiet, assumption, rule contract_forward_port)

lemma contract_forward [contract]: "ptp_forward a w = Some w' \<Longrightarrow> quiet (w_msgs w) (w_msgs w')"
  unfolding ptp_forward_def by (auto elim!: runE dest!: contract intro: quiet_trans)

lemma contract_save_slots [contract]:
  "ptp_save_sync a w = Some w' \<Longrightarrow> quiet (w_msgs w) (w_msgs w')"
  "ptp_save_fup a w = Some w' \<Longrightarrow> quiet (w_msgs w) (w_msgs w')"
  by (auto simp: ptp_save_sync_def ptp_save_fup_def dest: contract)

lemma contract_change_interval [contract]:
  "change_interval i w = Some (b, w') \<Longrightarrow> keeps (w_msgs w) (w_msgs w')"
  unfolding change_interval_def by (auto elim!: runE dest!: contract)

lemma contract_set_interval [contract]: "ptp_set_sync_interval w = Some w' \<Longrightarrow> keeps (w_msgs w) (w_msgs w')"
  unfolding ptp_set_sync_interval_def
  by (auto elim!: runE dest!: contract intro: keeps_trans)

subsection \<open>Receiving\<close>

lemma msgs_receive [simp]:
  "w_msgs (port_rx_sync n w) = w_msgs w"
  by (simp add: port_rx_sync_def)

lemma msgs_receive_pair:
  "sync_timers msg w = (b, w') \<Longrightarrow> w_msgs w' = w_msgs w"
  "measure_interval n i w = (j, w') \<Longrightarrow> w_msgs w' = w_msgs w"
  "fup_forward n msg w = (b, w') \<Longrightarrow> w_msgs w' = w_msgs w"
  by (auto simp: sync_timers_def measure_interval_def fup_forward_def Let_def split: if_splits)

lemma msgs_sync_interval [simp]: "w_msgs (proc_sync_interval n msg w) = w_msgs w"
  by (auto simp: proc_sync_interval_def Let_def split: prod.split dest!: msgs_receive_pair)

lemma contract_handle_sync [contract]:
  "handle_sync n a w = Some w' \<Longrightarrow> handled a (w_msgs w) (w_msgs w')"
  unfolding handle_sync_def
  by (auto elim!: runE dest!: contract msgs_receive_pair simp: handled_quiet; meson quiet_handled quiet_trans)

lemma msgs_fup_pair: "(if g then fup_forward n msg w else (False, w)) = (b, w') \<Longrightarrow> w_msgs w' = w_msgs w"
  by (auto split: if_splits dest: msgs_receive_pair)

lemma contract_handle_fup [contract]:
  "handle_fup n a w = Some w' \<Longrightarrow> handled a (w_msgs w) (w_msgs w')"
  unfolding handle_fup_def
  by (auto elim!: runE dest!: contract msgs_fup_pair simp: handled_quiet; meson quiet_handled quiet_trans)

lemma contract_handle_rest [contract]:
  "handle_delayed_sync n a w = Some w' \<Longrightarrow> handled a (w_msgs w) (w_msgs w')"
  "handle_announce n a w = Some w' \<Longrightarrow> handled a (w_msgs w) (w_msgs w')"
  "handle_signaling n a w = Some w' \<Longrightarrow> handled a (w_msgs w) (w_msgs w')"
  "handle_management n a w = Some w' \<Longrightarrow> handled a (w_msgs w) (w_msgs w')"
  unfolding handle_delayed_sync_def handle_announce_def handle_signaling_def handle_management_def
  by (auto elim!: runE dest!: contract simp: handled_quiet intro: quiet_handled)

lemma contract_proc_sync [contract]:
  "proc_sync n m w = Some w' \<Longrightarrow> keeps (w_msgs w) (w_msgs w')"
  "proc_fup n m w = Some w' \<Longrightarrow> keeps (w_msgs w) (w_msgs w')"
  "proc_delayed_sync n m w = Some w' \<Longrightarrow> keeps (w_msgs w) (w_msgs w')"
  unfolding proc_sync_def proc_fup_def proc_delayed_sync_def
  by (auto elim!: runE dest!: contract intro: quiet_keeps)

lemma contract_signal_tlv [contract]: "ptp_signal_interval n k msg w = Some w' \<Longrightarrow> w_msgs w' = w_msgs w"
  unfolding ptp_signal_interval_def by (auto elim!: runE)

lemma contract_signal_tlvs [contract]: "signal_tlvs n d l msg w = Some w' \<Longrightarrow> w_msgs w' = w_msgs w"
proof (erule signal_tlvs.raw_induct [where P = "\<lambda>n d l msg w w'. w_msgs w' = w_msgs w", rotated])
  fix f n d l msg w w'
  assume IH: "\<And>n d l msg w w'. f n d l msg w = Some w' \<Longrightarrow> w_msgs w' = w_msgs w"
    and run: "Option.bind (ptp_next_tlv d l msg) (\<lambda>(tlv, d, l). case tlv of None \<Rightarrow> Some w
      | Some k \<Rightarrow> Option.bind (if rd (k, 2) msg = TLV_ORGANIZATION_EXTENSION then ptp_signal_interval n k msg w else Some w)
          (f n d l msg)) = Some w'"
  from run show "w_msgs w' = w_msgs w" by (auto elim!: runE dest!: contract IH)
qed

lemma contract_manage [contract]:
  "manage_send n b t e l w = Some w' \<Longrightarrow> w_msgs w' = w_msgs w"
  unfolding manage_send_def by (auto elim!: runE)

lemma contract_manage_tx [contract]:
  "port_tx_manage_error n m a i e w = Some w' \<Longrightarrow> w_msgs w' = w_msgs w"
  "port_tx_manage n m a i dat q w = Some w' \<Longrightarrow> w_msgs w' = w_msgs w"
  unfolding port_tx_manage_error_def port_tx_manage_def by (auto elim!: runE dest!: contract)

lemma contract_answer [contract]:
  "each_port (answer_port n m r i f t) qs w = Some w' \<Longrightarrow> w_msgs w' = w_msgs w"
  by (induction qs arbitrary: w) (auto simp: answer_port_def elim!: runE dest!: contract)

lemma contract_manage_tlv [contract]: "manage_tlv n m k w = Some w' \<Longrightarrow> w_msgs w' = w_msgs w"
  unfolding manage_tlv_def
  by (auto elim!: runE split: request.splits simp: ptp_manage_set_def dest!: contract)

lemma contract_manage_tlvs [contract]: "manage_tlvs n m d l w = Some w' \<Longrightarrow> w_msgs w' = w_msgs w"
proof (erule manage_tlvs.raw_induct [where P = "\<lambda>n m d l w w'. w_msgs w' = w_msgs w", rotated])
  fix f n m d l w w'
  assume IH: "\<And>n m d l w w'. f n m d l w = Some w' \<Longrightarrow> w_msgs w' = w_msgs w"
    and run: "Option.bind (ptp_next_tlv d l (m_msg m)) (\<lambda>(tlv, d, l). case tlv of None \<Rightarrow> Some w
      | Some k \<Rightarrow> Option.bind (if rd (k, 2) (m_msg m) = TLV_MANAGEMENT then manage_tlv n m k w else Some w)
          (f n m d l)) = Some w'"
  from run show "w_msgs w' = w_msgs w" by (auto elim!: runE dest!: contract IH)
qed

lemma contract_proc_rest [contract]:
  "proc_signaling n m w = Some w' \<Longrightarrow> w_msgs w' = w_msgs w"
  "proc_management n m w = Some w' \<Longrightarrow> w_msgs w' = w_msgs w"
  by (auto simp: proc_signaling_def proc_management_def dest: contract)

lemma contract_handle_msg [contract]:
  "handle_msg d t n a w = Some w' \<Longrightarrow> handled a (w_msgs w) (w_msgs w')"
  unfolding handle_msg_def by (auto elim!: if_runE dest: contract simp: handled_quiet)

lemma contract_proc_rx [contract]: "ptp_proc_rx m w = Some w' \<Longrightarrow> keeps (w_msgs w) (w_msgs w')"
  unfolding ptp_proc_rx_def Let_def
  by (auto elim!: if_runE dest!: contract msgs_proc_announce)

subsection \<open>The works of the clock\<close>

lemma on_master_quiet:
  assumes "\<And>n w w'. f n w = Some w' \<Longrightarrow> quiet (w_msgs w) (w_msgs w')"
  shows "each_port (on_master f) ns w = Some w' \<Longrightarrow> quiet (w_msgs w) (w_msgs w')"
    "each_port (on_capable f) ns w = Some w' \<Longrightarrow> quiet (w_msgs w) (w_msgs w')"
  by (erule each_port_quiet, auto simp: on_master_def on_capable_def elim!: if_runE dest: assms)+

lemma on_master_keeps:
  assumes "\<And>n w w'. f n w = Some w' \<Longrightarrow> keeps (w_msgs w) (w_msgs w')"
  shows "each_port (on_master f) ns w = Some w' \<Longrightarrow> keeps (w_msgs w) (w_msgs w')"
  by (erule each_port_keeps) (auto simp: on_master_def elim!: if_runE dest: assms)

lemma contract_fwd_last:
  "fwd_last_sync n w = Some w' \<Longrightarrow> quiet (w_msgs w) (w_msgs w')"
  "fwd_last_fup n w = Some w' \<Longrightarrow> quiet (w_msgs w) (w_msgs w')"
  "port_fwd_announce n b w = Some w' \<Longrightarrow> quiet (w_msgs w) (w_msgs w')"
  by (auto simp: fwd_last_sync_def fwd_last_fup_def elim!: runE dest!: contract)

lemma contract_announce_ports [contract]:
  "each_port (on_master port_tx_announce) ns w = Some w' \<Longrightarrow> keeps (w_msgs w) (w_msgs w')"
  by (erule on_master_keeps [rotated], erule contract_send_queue(1))

lemma contract_sync_ports [contract]:
  "each_port (on_master port_tx_sync) ns w = Some w' \<Longrightarrow> keeps (w_msgs w) (w_msgs w')"
  by (erule on_master_keeps [rotated], erule contract_tx_sync)

lemma contract_fwd_sync_ports [contract]:
  "each_port (on_capable fwd_last_sync) ns w = Some w' \<Longrightarrow> quiet (w_msgs w) (w_msgs w')"
  by (erule on_master_quiet(2) [rotated], erule contract_fwd_last(1))

lemma contract_fwd_fup_ports [contract]:
  "each_port (on_capable fwd_last_fup) ns w = Some w' \<Longrightarrow> quiet (w_msgs w) (w_msgs w')"
  by (erule on_master_quiet(2) [rotated], erule contract_fwd_last(2))

lemma contract_fwd_announce_ports [contract]:
  "each_port (on_capable (\<lambda>n. port_fwd_announce n b)) ns w = Some w' \<Longrightarrow> quiet (w_msgs w) (w_msgs w')"
  by (erule on_master_quiet(2) [rotated], erule contract_fwd_last(3))

lemma contract_tx_announce [contract]: "clock_tx_announce w = Some w' \<Longrightarrow> keeps (w_msgs w) (w_msgs w')"
  unfolding clock_tx_announce_def by (auto elim!: runE dest!: contract intro: quiet_keeps quiet_trans)

lemma contract_clock_tx_sync [contract]: "clock_tx_sync w = Some w' \<Longrightarrow> keeps (w_msgs w) (w_msgs w')"
  unfolding clock_tx_sync_def by (auto elim!: runE dest!: contract; meson quiet_keeps quiet_trans)

lemma contract_sync_work [contract]: "clock_sync_work w = Some w' \<Longrightarrow> keeps (w_msgs w) (w_msgs w')"
  unfolding clock_sync_work_def by (auto elim!: runE dest!: contract intro: keeps_trans)

lemma contract_align [contract]: "align_rx_fup w = Some w' \<Longrightarrow> quiet (w_msgs w) (w_msgs w')"
  unfolding align_rx_fup_def by (auto elim!: runE dest!: contract)

text \<open>A pointer that was null takes over the reference of a new buffer.\<close>

lemma taken_slot:
  assumes "fresh a (w_msgs v) (w_msgs w)" and "slot_of s w = None"
  shows "keeps (w_msgs v) (w_msgs (set_slot s a w))"
  unfolding keeps_def
proof (intro allI impI)
  fix held assume "mem_ok (w_msgs v) held" and "length held \<le> 1"
  then have m: "mem_ok (w_msgs w) (a # held)" "length held \<le> 1" using assms(1) by (auto simp: fresh_def)
  have "refs ((w_msgs w)\<lparr>st_slot := (st_slot (w_msgs w))(s \<mapsto> a)\<rparr>) held = refs (w_msgs w) (a # held)"
    using assms(2) by (intro ext) (auto simp: refs_def slot_refs_some fun_upd_idem)
  then show "mem_ok (w_msgs (set_slot s a w)) held" using m by (simp add: mem_ok_def store_ok_def set_slot_def)
qed

lemma fresh_quiet: "fresh a st s \<Longrightarrow> quiet s t \<Longrightarrow> fresh a st t"
  by (simp add: fresh_def quiet_def)

text \<open>What leaves a pointer of the clock alone.\<close>

lemma slot_content:
  "set_msg a b w = Some w' \<Longrightarrow> slot_of s w' = slot_of s w"
  "alloc_new len w = Some (r, w') \<Longrightarrow> slot_of s w' = slot_of s w"
  "own_source a w = Some w' \<Longrightarrow> slot_of s w' = slot_of s w"
  by (auto simp: set_msg_def on_msgs_def on_heap_def alloc_new_def own_source_def elim!: runE)

lemma slot_save: "save_slot t a w = Some w' \<Longrightarrow> slot_of s w' = (if s = t then Some a else slot_of s w)"
  by (auto simp: save_slot_def on_msgs_def on_heap_def msg_save_def put_slot_def elim!: runE)

lemma slot_clear: "clear_slot t w = Some w' \<Longrightarrow> slot_of s w' = (if s = t then None else slot_of s w)"
  by (auto simp: clear_slot_def on_msgs_def on_heap_def msg_clear_def put_slot_def elim!: runE)

lemma slot_set: "slot_of s (set_slot t a w) = (if s = t then Some a else slot_of s w)"
  by (simp add: set_slot_def)

lemma contract_own_source [contract]: "own_source a w = Some w' \<Longrightarrow> quiet (w_msgs w) (w_msgs w')"
  unfolding own_source_def by (auto elim!: runE dest!: contract)

lemma contract_have_rx_fup [contract]: "have_rx_fup w = Some (b, w') \<Longrightarrow> keeps (w_msgs w) (w_msgs w')"
  unfolding have_rx_fup_def
  by (auto elim!: runE intro!: taken_slot intro: fresh_quiet contract quiet_keeps simp: slot_content)

lemma contract_fup_timeout [contract]: "clock_fup_timeout w = Some w' \<Longrightarrow> keeps (w_msgs w) (w_msgs w')"
  unfolding clock_fup_timeout_def
  by (auto elim!: runE dest!: contract; meson quiet_keeps keeps_trans)

lemma contract_made_sync:
  assumes "made_sync w = Some (b, w')" and "slot_of Last_sync w = None"
  shows "keeps (w_msgs w) (w_msgs w')" "s \<noteq> Last_sync \<Longrightarrow> s \<noteq> Base_sync \<Longrightarrow> slot_of s w' = slot_of s w"
proof -
  consider v where "alloc_new (rd F_messageLength (cmsgs cm_sync_template w)) w = Some (None, v)" "w' = v"
    | a x y z u b' b'' where "alloc_new (rd F_messageLength (cmsgs cm_sync_template w)) w = Some (Some a, x)"
      "set_msg a b' x = Some y" "own_source a y = Some z" "set_msg a b'' z = Some u"
      "save_slot Base_sync a (set_slot Last_sync a u) = Some w'"
    using assms(1) unfolding made_sync_def by (auto elim!: runE)
  then have "keeps (w_msgs w) (w_msgs w') \<and> (s \<noteq> Last_sync \<longrightarrow> s \<noteq> Base_sync \<longrightarrow> slot_of s w' = slot_of s w)" for s
  proof cases
    case (2 a x y z u b' b'')
    have "fresh a (w_msgs w) (w_msgs u)" using 2 by (meson contract fresh_quiet)
    moreover have "slot_of Last_sync u = None" using 2 assms(2) by (simp add: slot_content)
    ultimately have "keeps (w_msgs w) (w_msgs (set_slot Last_sync a u))" by (rule taken_slot)
    then have "keeps (w_msgs w) (w_msgs w')" using 2(5) by (meson contract quiet_keeps keeps_trans)
    then show ?thesis using 2 by (simp add: slot_save slot_set slot_content)
  qed (auto dest: contract slot_content intro: quiet_keeps)
  then show "keeps (w_msgs w) (w_msgs w')" "s \<noteq> Last_sync \<Longrightarrow> s \<noteq> Base_sync \<Longrightarrow> slot_of s w' = slot_of s w"
    by auto
qed

lemma contract_made_fup:
  assumes "made_fup w = Some w'" and "slot_of Last_fup w = None"
  shows "keeps (w_msgs w) (w_msgs w')"
proof -
  consider v where "alloc_new (rd F_messageLength (cmsgs cm_fup_template w) + 32) w = Some (None, v)" "w' = v"
    | a x y z u v b' b'' where "alloc_new (rd F_messageLength (cmsgs cm_fup_template w) + 32) w = Some (Some a, x)"
      "set_msg a b' x = Some y" "own_source a y = Some z" "set_msg a b'' z = Some u"
      "save_slot Last_rx_fup a (set_slot Last_fup a u) = Some v" "save_slot Base_fup a v = Some w'"
    using assms(1) unfolding made_fup_def by (auto elim!: runE)
  then show ?thesis
  proof cases
    case (2 a x y z u v b' b'')
    have "fresh a (w_msgs w) (w_msgs u)" using 2 by (meson contract fresh_quiet)
    moreover have "slot_of Last_fup u = None" using 2 assms(2) by (simp add: slot_content)
    ultimately have "keeps (w_msgs w) (w_msgs (set_slot Last_fup a u))" by (rule taken_slot)
    then show ?thesis using 2(5,6) by (meson contract quiet_keeps keeps_trans)
  qed (auto dest: contract intro: quiet_keeps)
qed

lemma contract_made_pair:
  assumes "made_sync e = Some (ok, v)" and "slot_of Last_sync e = None" and "slot_of Last_fup e = None"
  shows "made_fup v = Some w' \<Longrightarrow> keeps (w_msgs e) (w_msgs w')" "keeps (w_msgs e) (w_msgs v)"
  using contract_made_sync [OF assms(1,2)] contract_made_fup [of v w'] assms(3) keeps_trans by auto

lemma cleared_slots:
  assumes "clear_slot Last_sync w = Some a" and "clear_slot Last_fup a = Some b" and "clear_slot Last_rx_fup b = Some c"
    and "clear_slot Base_sync c = Some d" and "clear_slot Base_fup d = Some e"
  shows "slot_of Last_sync e = None" "slot_of Last_fup e = None" "keeps (w_msgs w) (w_msgs e)"
  using assms by (simp_all add: slot_clear) (meson contract quiet_keeps keeps_trans)

lemma contract_sync_timeout [contract]: "clock_sync_timeout w = Some w' \<Longrightarrow> keeps (w_msgs w) (w_msgs w')"
  unfolding clock_sync_timeout_def Let_def
proof (elim if_runE bind_runE prod_runE, goal_cases)
  case 1
  then show ?case by (auto dest!: contract) (meson quiet_keeps quiet_trans)
next
  case (3 a b c d e p ok v)
  then show ?case using cleared_slots [OF 3(3-7)] contract_made_pair(1) [of e ok v w'] keeps_trans by auto
next
  case (4 a b c d e p ok v)
  then show ?case using cleared_slots [OF 4(3-7)] contract_made_pair(2) [of e ok v] keeps_trans by auto
qed auto

lemma contract_timeout_works [contract]:
  "clock_fup_timeout_work w = Some w' \<Longrightarrow> keeps (w_msgs w) (w_msgs w')"
  "clock_sync_timeout_work w = Some w' \<Longrightarrow> keeps (w_msgs w) (w_msgs w')"
  unfolding clock_fup_timeout_work_def clock_sync_timeout_work_def
  by (auto elim!: runE dest!: contract intro: keeps_trans)

lemma msgs_works [simp]:
  "w_msgs (clock_interval_work w) = w_msgs w"
  "w_msgs (oper_interval n w) = w_msgs w"
  "w_msgs (report_ready n w) = w_msgs w"
  by (simp_all add: clock_interval_work_def oper_interval_def report_ready_def Let_def)

lemma contract_signaling_work [contract]: "clock_signaling_work w = Some w' \<Longrightarrow> keeps (w_msgs w) (w_msgs w')"
  unfolding clock_signaling_work_def
  by (auto elim!: runE dest!: contract intro: quiet_keeps fresh_sent [OF _ quiet_refl])

lemma contract_delete [contract]:
  "clock_delete_ptp_msg w = Some w' \<Longrightarrow> keeps (w_msgs w) (w_msgs w')"
  "clock_delete_ptp_msg w = Some w' \<Longrightarrow> slot_of s w' = None"
  unfolding clock_delete_ptp_msg_def
   apply (elim bind_runE, meson contract quiet_keeps keeps_trans)
  by (cases s) (auto elim!: bind_runE simp: slot_clear)

lemma msgs_stop [simp]: "w_msgs (clock_stop w) = w_msgs w" "w_msgs (clock_ethernet_ready_work w) = w_msgs w"
proof -
  have "w_msgs (fold (\<lambda>n. port_set_state n s) ns v) = w_msgs v" for s ns v
    by (induction ns arbitrary: v) simp_all
  then show "w_msgs (clock_stop w) = w_msgs w" by (simp add: clock_stop_def Let_def del: upt_Suc)
  have "w_msgs (fold report_ready ns v) = w_msgs v" for ns v by (induction ns arbitrary: v) simp_all
  then show "w_msgs (clock_ethernet_ready_work w) = w_msgs w" by (simp add: clock_ethernet_ready_work_def)
qed

end
