(* ===== verification/Stack.thy ===== *)
theory Stack
  imports Memory_ops
begin

text \<open>
  The stack as a whole: what the tasks may do, in any order.  A message or a
  transmit timestamp comes in, the process task takes a message out of the
  queue, a work runs, a link changes, time passes, the clock stops.  The works
  are run by \<open>ScheduleTask\<close> (\<open>Sched\<close>); here any work may run at any time, which
  includes every order the scheduler can give them.
\<close>

fun run_work :: "work \<Rightarrow> world \<Rightarrow> world option" where
  "run_work (W_delay_req n) w =
     (if pds_delayMechanism (p_ds (port n w)) = DELAY_P2P then port_pdelay_req_work n w else port_delay_req_work n w)"
| "run_work (W_ann_timeout n) w = Some (port_ann_timeout_work n w)"
| "run_work (W_qual_timeout n) w = Some (port_qual_timeout_work n w)"
| "run_work (W_fault_timeout n) w = Some (port_fault_timeout_work n w)"
| "run_work W_update_interval w = clock_update_interval_work w"
| "run_work W_ethernet_ready w = Some (clock_ethernet_ready_work w)"
| "run_work W_sync w = clock_sync_work w"
| "run_work W_interval w = Some (clock_interval_work w)"
| "run_work W_sync_timeout w = clock_sync_timeout_work w"
| "run_work W_fup_timeout w = clock_fup_timeout_work w"
| "run_work W_signaling w = clock_signaling_work w"

inductive stack_step :: "world \<Rightarrow> world \<Rightarrow> bool" where
  step_rx: "ptp_setup_rx msg index sec nsec False src raw vid w = Some w' \<Longrightarrow> stack_step w w'"
| step_timestamp: "proc_tx_timestamp opts junk w = Some w' \<Longrightarrow> stack_step w w'"
| step_process: "process_msg w = Some w' \<Longrightarrow> stack_step w w'"
| step_work: "run_work k w = Some w' \<Longrightarrow> stack_step w w'"
| step_link: "stack_step w (proc_link_status index status w)"
| step_time: "stack_step w (w\<lparr>w_jiffies := t\<rparr>)"
| step_stop: "stack_step w (clock_stop w)"
| step_delete: "clock_delete_ptp_msg w = Some w' \<Longrightarrow> stack_step w w'"

definition stack_run :: "world \<Rightarrow> world \<Rightarrow> bool" where
  "stack_run = stack_step\<^sup>*\<^sup>*"

subsection \<open>The buffers in every reachable state\<close>

lemma release_some: "release a w = Some w' \<Longrightarrow> on_heap (msg_put a) (w_msgs w) = Some (w_msgs w')"
  by (auto simp: release_def dest: on_msgs_some)

lemma rx_refused:
  "alloc_msg (Some msg) len rx (st_heap st) = Some (None, h) \<Longrightarrow> mem_ok st [] \<Longrightarrow> mem_ok (st\<lparr>st_heap := h\<rparr>) []"
  using quiet_alloc by (auto simp: quiet_def)

lemma rx_taken:
  assumes "alloc_msg (Some msg) len rx (st_heap (w_msgs w)) = Some (Some a, h)"
    and "on_msgs (on_heap (upd_msg a (stamp_msg src n d))) (w\<lparr>w_msgs := (w_msgs w)\<lparr>st_heap := h\<rparr>\<rparr>) = Some x"
    and "handle_msg d t n a x = Some y" and "release a y = Some w'" and "mem_ok (w_msgs w) []"
  shows "mem_ok (w_msgs w') []"
proof -
  have "handled a ((w_msgs w)\<lparr>st_heap := h\<rparr>) (w_msgs y)"
    using contract_content(2) [OF assms(2)] contract_handle_msg [OF assms(3)] by (auto intro: quiet_handled)
  then show ?thesis using received [OF fresh_alloc [OF assms(1)] _ release_some [OF assms(4)] assms(5)] by blast
qed

lemma mem_rx: "ptp_rx n msg rx d src w = Some w' \<Longrightarrow> mem_ok (w_msgs w) [] \<Longrightarrow> mem_ok (w_msgs w') []"
  unfolding ptp_rx_def by (auto elim!: runE dest: rx_refused rx_taken)

lemma mem_setup_rx:
  "ptp_setup_rx msg i s ns d src raw vid w = Some w' \<Longrightarrow> mem_ok (w_msgs w) [] \<Longrightarrow> mem_ok (w_msgs w') []"
  unfolding ptp_setup_rx_def by (auto elim!: runE dest!: mem_rx)

lemma mem_process:
  assumes "process_msg w = Some w'" and "mem_ok (w_msgs w) []"
  shows "mem_ok (w_msgs w') []"
proof (cases "st_queue (w_msgs w)")
  case (Cons a q)
  let ?w = "w\<lparr>w_msgs := (w_msgs w)\<lparr>st_queue := q\<rparr>\<rparr>"
  obtain m y where "get_msg a ?w = Some m" and rel: "release a y = Some w'"
    and "w_msgs y = w_msgs ?w \<or> ptp_proc_rx m ?w = Some y"
    using assms(1) Cons unfolding process_msg_def by (auto elim!: bind_runE let_runE if_runE)
  then have "keeps ((w_msgs w)\<lparr>st_queue := q\<rparr>) (w_msgs y)" using contract_proc_rx [of m ?w y] by auto
  then show ?thesis by (rule processed [OF Cons _ release_some [OF rel] assms(2)])
qed (use assms in \<open>simp add: process_msg_def\<close>)

lemma mem_work: "run_work k w = Some w' \<Longrightarrow> keeps (w_msgs w) (w_msgs w')"
  by (cases k) (auto simp: port_pdelay_req_work_def port_delay_req_work_def clock_update_interval_work_def
      split: if_splits dest: contract)

lemma mem_step: "stack_step w w' \<Longrightarrow> mem_ok (w_msgs w) [] \<Longrightarrow> mem_ok (w_msgs w') []"
  by (induction rule: stack_step.induct)
     (auto simp: proc_tx_timestamp_def keeps_def elim!: bind_runE
       dest!: mem_setup_rx mem_process mem_work contract_delete(1))

lemma mem_run: "stack_run w w' \<Longrightarrow> mem_ok (w_msgs w) [] \<Longrightarrow> mem_ok (w_msgs w') []"
  unfolding stack_run_def by (induction rule: rtranclp_induct) (auto dest: mem_step)

lemma clear_returns: "mem_ok (w_msgs w) held \<Longrightarrow> \<exists>w'. clear_slot s w = Some w'"
  using msg_clear_ok [of "w_msgs w" held s] by (auto simp: clear_slot_def on_msgs_def mem_ok_def)

lemma clear_keeps: "mem_ok (w_msgs w) held \<Longrightarrow> clear_slot s w = Some w' \<Longrightarrow> mem_ok (w_msgs w') held"
  using contract_content(5) [of s w w'] by (simp add: quiet_def)

lemma clear_then:
  "mem_ok (w_msgs w) held \<Longrightarrow> (\<And>v. mem_ok (w_msgs v) held \<Longrightarrow> \<exists>w'. f v = Some w') \<Longrightarrow>
   \<exists>w'. Option.bind (clear_slot s w) f = Some w'"
  using clear_returns [of w held s] clear_keeps by fastforce

lemma delete_returns: "mem_ok (w_msgs w) held \<Longrightarrow> \<exists>w'. clock_delete_ptp_msg w = Some w'"
  unfolding clock_delete_ptp_msg_def by (intro clear_then [where held = held] clear_returns)

lemma no_pointers: "(\<And>s. st_slot st s = None) \<Longrightarrow> st_queue st = [] \<Longrightarrow> refs st [] a = 0"
  by (simp add: refs_def slot_refs_def)

end
