(* ===== verification/Setup_props.thy ===== *)
theory Setup_props
  imports Setup Config_props Stack
begin

text \<open>
  What the set-up of the stack establishes: every clock it creates has the ports
  of its mask in order, no port belongs to two clocks, and a clock that was
  started is in the state the invariants of the protocol and of the message
  buffers start from.
\<close>

subsection \<open>The shape of a clock\<close>

definition port_shape :: "ptp_port \<Rightarrow> nat \<times> ptp_state" where
  "port_shape p = (p_index p, p_state p)"

definition shape :: "world \<Rightarrow> nat \<times> u16 \<times> (bool \<times> u8) \<times> (nat \<times> ptp_state) list" where
  "shape w = (c_cnt (w_clock w), c_portmap (w_clock w), (cflag cf_setup w, cmsgs cm_domain w),
     map port_shape (c_ports (w_clock w)))"

lemma shape_upd_clock:
  "(\<And>c. c_cnt (f c) = c_cnt c \<and> c_portmap (f c) = c_portmap c \<and> c_ports (f c) = c_ports c \<and>
      cf_setup (c_flags (f c)) = cf_setup (c_flags c) \<and> cm_domain (c_msgs (f c)) = cm_domain (c_msgs c)) \<Longrightarrow>
   shape (upd_clock f w) = shape w"
  by (simp add: shape_def upd_clock_def)

lemma shape_upd_port: "(\<And>p. port_shape (f p) = port_shape p) \<Longrightarrow> shape (upd_port n f w) = shape w"
  by (simp add: shape_def upd_port_def upd_clock_def map_update_same)

lemma shape_misc [simp]:
  "shape (upd_pflags n g w) = shape w"
  "shape (upd_pds n d w) = shape w"
  "shape (upd_timers t w) = shape w"
  "shape (emit e w) = shape w"
  "shape (port_init_works mech n w) = shape w"
  "shape (init_clock_works w) = shape w"
  by (simp_all add: upd_pflags_def upd_pds_def upd_timers_def shape_upd_port shape_upd_clock port_shape_def)
     (simp_all add: shape_def emit_def port_init_works_def init_clock_works_def)

lemma shape_port_ds [simp]: "shape (ptp_init_port_ds n w) = shape w"
  by (simp add: ptp_init_port_ds_def shape_upd_port port_shape_def Let_def)

lemma shape_profile [simp]: "shape (init_ptp_port_profile st v mech ts delay n w) = shape w"
  by (simp add: init_ptp_port_profile_def shape_upd_port port_shape_def profile_timers_def Let_def split: prod.split)

lemma shape_setup_port: "shape (snd (setup_port st ts delay i vw)) = shape (snd vw)"
  by (simp add: setup_port_def Let_def split: prod.split)

lemma shape_setup_ports: "shape (snd (fold (setup_port st ts delay) is vw)) = shape (snd vw)"
  by (induction "is" arbitrary: vw) (simp_all add: shape_setup_port)

lemma shape_setup_msg [simp]: "shape (clock_setup_ptp_msg w) = shape w"
  by (simp add: clock_setup_ptp_msg_def upd_cmsgs_def shape_upd_clock Let_def)

lemma shape_port_profile: "shape (snd (setup_ptp_port_profile st vw)) = shape (snd vw)"
  by (simp add: setup_ptp_port_profile_def Let_def split_beta shape_upd_port port_shape_def shape_setup_ports
      del: upt_Suc)

lemma shape_clock_profile [simp]: "shape (snd (clock_init_profile st vw)) = shape (snd vw)"
  by (simp add: clock_init_profile_def Let_def split_beta shape_upd_clock upd_cflags_def upd_cmsgs_def)

lemma shape_default_ds [simp]: "shape (snd (clock_init_default_ds st vw)) = shape (snd vw)"
  by (simp add: clock_init_default_ds_def Let_def split_beta shape_upd_clock)

lemma shape_parent [simp]:
  "shape (ptp_update_parent_ds f w) = shape w" "shape (clock_update_grandmaster w) = shape w"
  "shape (setup_ptp_hw_clock env w) = shape w"
  by (simp_all add: ptp_update_parent_ds_def clock_update_grandmaster_def setup_ptp_hw_clock_def shape_upd_clock
      split: option.split)

text \<open>A clock with the ports of its mask, none of them half initialised.\<close>

definition ready_clock :: "ptp_clock \<Rightarrow> bool" where
  "ready_clock c \<longleftrightarrow> c_cnt c = length (mask_ports (c_portmap c)) \<and>
     map p_index (c_ports c) = 0 # map Suc (mask_ports (c_portmap c)) \<and>
     (\<forall>p \<in> set (c_ports c). p_state p \<noteq> PTP_S_INITIALIZING)"

abbreviation clock_ready :: "world \<Rightarrow> bool" where
  "clock_ready w \<equiv> ready_clock (w_clock w)"

lemma clock_ready_shape:
  "clock_ready w \<longleftrightarrow> (case shape w of (cnt, pm, _, ps) \<Rightarrow> cnt = length (mask_ports pm) \<and>
     map fst ps = 0 # map Suc (mask_ports pm) \<and> PTP_S_INITIALIZING \<notin> snd ` set ps)"
  by (auto simp: ready_clock_def shape_def port_shape_def comp_def image_iff)

lemma ready_cong:
  assumes "shape v = shape w"
  shows "clock_ready v = clock_ready w" and "c_portmap (w_clock v) = c_portmap (w_clock w)"
    and "cflag cf_setup v = cflag cf_setup w" and "cmsgs cm_domain v = cmsgs cm_domain w"
proof -
  show "clock_ready v = clock_ready w" by (simp add: clock_ready_shape assms)
  show "c_portmap (w_clock v) = c_portmap (w_clock w)" "cflag cf_setup v = cflag cf_setup w"
    "cmsgs cm_domain v = cmsgs cm_domain w"
    using assms by (simp_all add: shape_def)
qed

lemma port_hw_simps [simp]:
  "p_index (init_ptp_port_hw m k i p) = i" "p_state (init_ptp_port_hw m k i p) \<noteq> PTP_S_INITIALIZING"
  by (simp_all add: init_ptp_port_hw_def Let_def)

lemma setup_ports_ready: "clock_ready (setup_ptp_ports env ports w) \<and> c_portmap (w_clock (setup_ptp_ports env ports w)) = ports \<and>
    cmsgs cm_domain (setup_ptp_ports env ports w) = cmsgs cm_domain w"
proof -
  have "map p_index (map (\<lambda>(k, i). init_ptp_port_hw m (k + 1) (i + 1) (h i)) (enumerate j xs)) = map Suc xs" for m h j xs
    by (induction xs arbitrary: j) simp_all
  then show ?thesis by (auto simp: ready_clock_def setup_ptp_ports_def upd_clock_def Let_def)
qed

lemma shape_setup:
  "shape (upd_cflags (\<lambda>f. f\<lparr>cf_setup := True\<rparr>) w) = (case shape w of (cnt, pm, (_, d), ps) \<Rightarrow> (cnt, pm, (True, d), ps))"
  by (simp add: shape_def upd_cflags_def upd_clock_def)

text \<open>\<open>setup_ptp_clock\<close> on a clock without ports, and again on one that has them.\<close>

lemma setup_ptp_clock_ready:
  assumes "c_portmap (w_clock w) \<noteq> ports \<or> clock_ready w"
  shows "clock_ready (snd (setup_ptp_clock env ports (v, w))) \<and>
    c_portmap (w_clock (snd (setup_ptp_clock env ports (v, w)))) = ports \<and>
    cflag cf_setup (snd (setup_ptp_clock env ports (v, w))) \<and>
    cmsgs cm_domain (snd (setup_ptp_clock env ports (v, w))) = cmsgs cm_domain w"
proof -
  let ?u = "clock_update_grandmaster (snd (clock_init_default_ds (en_store env) (clock_init_profile (en_store env) (v, w))))"
  let ?p = "if c_portmap (w_clock ?u) \<noteq> ports then setup_ptp_ports env ports ?u else ?u"
  have u: "shape ?u = shape w" by simp
  then have p: "clock_ready ?p \<and> c_portmap (w_clock ?p) = ports \<and> cmsgs cm_domain ?p = cmsgs cm_domain w"
    using assms setup_ports_ready [of env ports ?u] ready_cong(1,2,4) [OF u] by auto
  let ?q = "snd (setup_ptp_port_profile (en_store env) (fst (clock_init_default_ds (en_store env) (clock_init_profile (en_store env) (v, w))), ?p))"
  let ?r = "snd (setup_ptp_clock env ports (v, w))"
  have q: "shape ?q = shape ?p" by (simp add: shape_port_profile)
  have "shape ?r = (case shape ?q of (cnt, pm, (_, d), ps) \<Rightarrow> (cnt, pm, (True, d), ps))"
    unfolding setup_ptp_clock_def Let_def split_beta fst_conv snd_conv
    by (subst shape_setup) (simp add: shape_upd_clock split_beta)
  then show ?thesis using p ready_cong [OF q] by (auto simp: clock_ready_shape) (simp_all add: shape_def)
qed

subsection \<open>Starting a clock\<close>

abbreviation indices :: "world \<Rightarrow> nat list" where
  "indices w \<equiv> map p_index (c_ports (w_clock w))"

lemma masters_indices: "masters v = masters w \<Longrightarrow> indices v = indices w"
proof -
  assume "masters v = masters w"
  then have "map fst (map pview (c_ports (w_clock v))) = map fst (map pview (c_ports (w_clock w)))" by (simp add: masters_def)
  then show ?thesis by (simp add: pview_def comp_def)
qed

lemma decision_indices:
  assumes l: "length (c_ports (w_clock w)) = Suc (c_cnt (w_clock w))"
  shows "indices (handle_state_decision w) = indices w"
proof (cases "cflag cf_no_announce w")
  case True
  then have "handle_state_decision w = clock_default_ds w" by (simp add: handle_state_decision_def)
  then show ?thesis using masters_indices [OF clock_views(2)] by simp
next
  case False
  let ?s = "snd (scan_best (clock_ports w) None (clock_default_ds w))"
  have "masters (handle_state_decision w) = masters (decision_scan w)" by (rule handle_best(2) [OF l False])
  then have "map pview (c_ports (w_clock (handle_state_decision w))) = map pview (c_ports (w_clock ?s))"
    using decision_scan_masters(1) [OF l] by (simp add: masters_def)
  then have "map fst (map pview (c_ports (w_clock (handle_state_decision w)))) = map fst (map pview (c_ports (w_clock ?s)))"
    by simp
  moreover have "length (c_ports (w_clock ?s)) = length (c_ports (w_clock w))"
    using length_of_pstates [OF scan_states] by simp
  moreover have "p_index (port i ?s) = p_index (port i w)" for i
    using scan_pview [of "clock_ports w" None "clock_default_ds w" i]
    by (simp add: pview_def)
  ultimately show ?thesis by (intro nth_equalityI) (auto simp: pview_def comp_def dest: map_eq_imp_length_eq arg_cong [of _ _ "\<lambda>xs. xs ! _"])
qed

text \<open>The state in the loop of \<open>clock_start\<close>: the first \<open>k\<close> ports are started.\<close>

definition started :: "nat \<Rightarrow> world \<Rightarrow> bool" where
  "started k w \<longleftrightarrow> length (c_ports (w_clock w)) = Suc (c_cnt (w_clock w)) \<and>
     (\<forall>n < length (c_ports (w_clock w)). (p_index (port n w) = 0) = (n = 0) \<and>
        (n < k \<longrightarrow> fst (pstates w ! n) = snd (pstates w ! n) \<and>
           (n \<noteq> 0 \<longrightarrow> p_foreign_masters (port n w) = replicate MAX_FOREIGN_MASTERS empty_foreign)) \<and>
        (k \<le> n \<longrightarrow> p_state (port n w) \<noteq> PTP_S_INITIALIZING))"

lemma start_port_step:
  assumes st: "started k w" and k: "k < length (c_ports (w_clock w))"
  shows "started (Suc k) (start_port k w)" and "c_cnt (w_clock (start_port k w)) = c_cnt (w_clock w)"
    and "indices (start_port k w) = indices w"
proof -
  let ?u = "port_init k w" and ?v = "start_port k w"
  have m: "masters ?v = masters ?u" by (simp add: start_port_def)
  have pu: "port n ?u = (if n = k \<and> p_index (port k w) \<noteq> 0
      then (port n w)\<lparr>p_foreign_masters := replicate MAX_FOREIGN_MASTERS empty_foreign, p_best := None\<rparr> else port n w)" for n
    using k by (auto simp: port_init_def port_upd_port)
  have lu: "length (c_ports (w_clock ?u)) = length (c_ports (w_clock w))" "c_cnt (w_clock ?u) = c_cnt (w_clock w)"
    by (simp_all add: port_init_def upd_port_def upd_clock_def)
  have lv: "length (c_ports (w_clock ?v)) = length (c_ports (w_clock w))" "c_cnt (w_clock ?v) = c_cnt (w_clock w)"
    using masters_port(1) [OF m] m lu by (simp_all add: masters_def)
  show "c_cnt (w_clock ?v) = c_cnt (w_clock w)" by (rule lv(2))
  have iu: "indices ?u = indices w" using lu(1) by (intro nth_equalityI) (simp_all add: pu)
  then show "indices ?v = indices w" using masters_indices [OF m] by simp
  have pv: "p_index (port n ?v) = p_index (port n ?u) \<and> p_foreign_masters (port n ?v) = p_foreign_masters (port n ?u)"
    if "n < length (c_ports (w_clock w))" for n
    using masters_port(2) [OF m, of n] that lu by (simp add: pview_def)
  have su: "pstates ?u = pstates w" unfolding port_init_def by (rule pstates_upd_port) (simp add: pstate_def)
  have c: "confined k ?u ?v" unfolding start_port_def using confined_set_state k lu by simp
  have ne: "p_state (port k ?u) \<noteq> PTP_S_INITIALIZING" using st k pu by (simp add: started_def)
  obtain x where x: "?v = upd_port k (\<lambda>p. p\<lparr>p_ds := (p_ds p)\<lparr>pds_portState := p_state p\<rparr>, p_next_state := p_state p\<rparr>) x"
    unfolding start_port_def using port_set_state_last [OF _ ne] k lu by metis
  have sk: "fst (pstates ?v ! k) = snd (pstates ?v ! k)"
    using k lv(1) by (simp add: x pstates_nth) (simp add: upd_port_def upd_clock_def pstate_def)
  have so: "pstates ?v ! n = pstates w ! n \<or> n = 0 \<and> pstates ?v ! n = (PTP_S_SLAVE, PTP_S_SLAVE)"
    if "n < length (c_ports (w_clock w))" "n \<noteq> k" for n
    using c that unfolding confined_def su by auto
  have st_n: "p_state (port n ?v) = fst (pstates ?v ! n)" "p_state (port n w) = fst (pstates w ! n)"
    if "n < length (c_ports (w_clock w))" for n using that lv(1) by (simp_all add: pstates_nth pstate_def)
  show "started (Suc k) ?v"
    unfolding started_def lv
  proof (intro conjI allI impI)
    show "length (c_ports (w_clock w)) = Suc (c_cnt (w_clock w))" using st by (simp add: started_def)
    fix n assume n: "n < length (c_ports (w_clock w))"
    show "(p_index (port n ?v) = 0) = (n = 0)" using st n pv [OF n] pu by (simp add: started_def)
    show "fst (pstates ?v ! n) = snd (pstates ?v ! n)" if "n < Suc k"
      using that sk so [OF n] st n by (cases "n = k") (auto simp: started_def less_Suc_eq)
    show "p_foreign_masters (port n ?v) = replicate MAX_FOREIGN_MASTERS empty_foreign" if "n < Suc k" "n \<noteq> 0"
      using that pv [OF n] pu st n by (cases "n = k") (auto simp: started_def less_Suc_eq)
    show "p_state (port n ?v) \<noteq> PTP_S_INITIALIZING" if "Suc k \<le> n"
      using that so [OF n] st n st_n [OF n] by (auto simp: started_def)
  qed
qed

lemma start_ports:
  assumes "started 0 w" and "k \<le> length (c_ports (w_clock w))"
  shows "started k (fold start_port [0..<k] w) \<and> c_cnt (w_clock (fold start_port [0..<k] w)) = c_cnt (w_clock w) \<and>
    indices (fold start_port [0..<k] w) = indices w"
  using assms(2)
proof (induction k)
  case (Suc k)
  let ?v = "fold start_port [0..<k] w"
  have v: "started k ?v" "c_cnt (w_clock ?v) = c_cnt (w_clock w)" "indices ?v = indices w" using Suc by simp_all
  then have "k < length (c_ports (w_clock ?v))" using Suc.prems by (metis Suc_le_eq length_map)
  from start_port_step [OF v(1) this] show ?case using v by simp
qed (use assms in simp)

lemma started_inv: "started (length (c_ports (w_clock w))) w \<Longrightarrow> clock_inv w"
proof -
  have "foreign_ok n g empty_foreign" for n g
    by (simp add: foreign_ok_def empty_foreign_def threshold_def)
  then show "started (length (c_ports (w_clock w))) w \<Longrightarrow> ?thesis"
    by (auto simp: started_def clock_inv_def tables_ok_def view_ok_def pview_def shown_pstates list_all_iff)
qed

lemma ready_started:
  assumes "clock_ready w"
  shows "started 0 w"
proof -
  have l: "length (c_ports (w_clock w)) = Suc (c_cnt (w_clock w))"
    using assms by (metis ready_clock_def length_map length_Cons)
  have i: "(p_index (port n w) = 0) = (n = 0)" if "n < length (c_ports (w_clock w))" for n
  proof -
    have "p_index (port n w) = (0 # map Suc (mask_ports (c_portmap (w_clock w)))) ! n"
      using assms that by (metis ready_clock_def nth_map)
    then show ?thesis using that l assms by (cases n) (simp_all add: ready_clock_def)
  qed
  have "p_state (port n w) \<noteq> PTP_S_INITIALIZING" if "n < length (c_ports (w_clock w))" for n
    using assms that by (auto simp: ready_clock_def)
  then show ?thesis using l i by (simp add: started_def)
qed

lemma clock_start_ready:
  assumes "clock_ready w" and "cflag cf_setup w \<or> \<not> cflag cf_stop w"
  shows "clock_inv (snd (clock_start env (v, w))) \<and> indices (snd (clock_start env (v, w))) = indices w \<and>
    fst (clock_start env (v, w)) = v"
proof -
  define u where "u = (if cflag cf_stop w then upd_cflags (\<lambda>f. f\<lparr>cf_stop := False\<rparr>) w else w)"
  have u: "shape u = shape w" "indices u = indices w"
    by (simp_all add: u_def) (simp_all add: shape_def upd_cflags_def upd_clock_def)
  have s: "cf_setup (c_flags (w_clock (upd_cflags (\<lambda>f. f\<lparr>cf_stop := False\<rparr>) w))) = cflag cf_setup w"
    by (simp add: upd_cflags_def upd_clock_def)
  define x where "x = (case start_intervals (w_clock u) of (delay, am, sm) \<Rightarrow>
      (let w = upd_clock (\<lambda>c. c\<lparr>c_ann_max := am, c_sync_max := sm, c_ann_cnt := am, c_sync_cnt := 0\<rparr>) u
       in upd_timers (start_timers (of_int (ptp_interval_to_ms delay)) (ucast (c_fupReceiptTimeout (w_clock w)))) w))"
  have x: "shape x = shape u" "indices x = indices u"
    by (simp_all add: x_def shape_upd_clock Let_def split: prod.split) (simp add: upd_timers_def upd_clock_def)
  define y where "y = fold start_port [0..<Suc (c_cnt (w_clock x))] x"
  have st: "started 0 x" using ready_started ready_cong(1) [OF x(1)] ready_cong(1) [OF u(1)] assms(1) by simp
  then have l: "length (c_ports (w_clock x)) = Suc (c_cnt (w_clock x))" by (simp add: started_def)
  have y: "started (Suc (c_cnt (w_clock x))) y" "indices y = indices x"
    using start_ports [OF st, of "Suc (c_cnt (w_clock x))"] l by (simp_all add: y_def)
  then have yi: "clock_inv y" using l by (intro started_inv) (metis length_map)
  define z where "z = (if cflag cf_no_announce y then start_host y else y)"
  have ly: "0 < length (c_ports (w_clock y))" using y(2) l by (metis length_map zero_less_Suc)
  have z: "clock_inv z \<and> indices z = indices y"
    unfolding z_def start_host_def Let_def using clock_inv_set_state [OF yi ly] yi masters_indices [OF port_set_state_masters] by simp
  have "clock_start env (v, w) = (v, handle_state_decision z)"
    unfolding clock_start_def z_def y_def x_def u_def using assms(2) s by (auto simp: Let_def split: prod.split)
  then show ?thesis
    using z clock_inv_decision [of z] decision_indices [of z] y(2) x(2) u(2) by (simp add: clock_inv_def tables_ok_def)
qed

subsection \<open>The set-up leaves the message buffers alone\<close>

lemma msgs_set_up_works [simp]:
  "w_msgs (port_init_works mech n w) = w_msgs w" "w_msgs (init_clock_works w) = w_msgs w"
  by (simp_all add: port_init_works_def init_clock_works_def)

lemma msgs_port_profile [simp]: "w_msgs (init_ptp_port_profile st v mech ts delay n w) = w_msgs w"
  by (simp add: init_ptp_port_profile_def Let_def split_beta)

lemma msgs_setup_ports: "w_msgs (snd (fold (setup_port st ts delay) is vw)) = w_msgs (snd vw)"
  by (induction "is" arbitrary: vw) (simp_all add: setup_port_def Let_def split_beta)

lemma msgs_setup: "w_msgs (snd (setup_ptp_clock env ports vw)) = w_msgs (snd vw)"
proof -
  have "w_msgs (snd (setup_ptp_port_profile st vw)) = w_msgs (snd vw)" for st vw
    by (simp add: setup_ptp_port_profile_def Let_def split_beta msgs_setup_ports clock_setup_ptp_msg_def del: upt_Suc)
  moreover have "w_msgs (setup_ptp_hw_clock env w) = w_msgs w" "w_msgs (setup_ptp_ports env ports w) = w_msgs w" for w
    by (simp_all add: setup_ptp_hw_clock_def setup_ptp_ports_def Let_def split: option.split)
  ultimately show ?thesis
    by (simp add: setup_ptp_clock_def clock_init_default_ds_def clock_init_profile_def Let_def split_beta)
qed

lemma msgs_start: "w_msgs (snd (clock_start env vw)) = w_msgs (snd vw)"
proof -
  have "w_msgs (fold start_port is w) = w_msgs w" for "is" w
    by (induction "is" arbitrary: w) (simp_all add: start_port_def)
  moreover have "w_msgs (start_host w) = w_msgs w" for w by (simp add: start_host_def Let_def)
  ultimately show ?thesis by (simp add: clock_start_def Let_def split_beta msgs_setup del: upt_Suc)
qed

subsection \<open>Creating the clocks\<close>

definition fresh_boot :: "boot \<Rightarrow> bool" where
  "fresh_boot b \<longleftrightarrow> length (b_clocks b) = MAX_PTP_CLOCKS \<and> (\<forall>c \<in> set (b_clocks b). c_portmap c = 0)"

text \<open>
  In the loop of \<open>init_stack\<close>: the clocks created are ready, own ports of the
  switch that are neither left nor owned by another clock, and are not free.
\<close>

definition created :: "u16 \<Rightarrow> u16 \<Rightarrow> boot \<Rightarrow> bool" where
  "created all left b \<longleftrightarrow> length (b_clocks b) = MAX_PTP_CLOCKS \<and> distinct (b_ptr b) \<and> set (b_ptr b) \<subseteq> {0..<MAX_PTP_CLOCKS} \<and>
     (\<forall>n. bit left n \<longrightarrow> bit all n) \<and>
     (\<forall>i < MAX_PTP_CLOCKS. i \<notin> set (b_ptr b) \<longrightarrow> c_portmap (b_clocks b ! i) = 0) \<and>
     (\<forall>i \<in> set (b_ptr b). ready_clock (b_clocks b ! i) \<and> cf_setup (c_flags (b_clocks b ! i)) \<and>
        cf_stop (c_flags (b_clocks b ! i)) \<and> \<not> free_clock i b \<and>
        (\<forall>n. bit (c_portmap (b_clocks b ! i)) n \<longrightarrow> bit all n \<and> \<not> bit left n)) \<and>
     (\<forall>i \<in> set (b_ptr b). \<forall>j \<in> set (b_ptr b). i \<noteq> j \<longrightarrow>
        (\<forall>n. \<not> (bit (c_portmap (b_clocks b ! i)) n \<and> bit (c_portmap (b_clocks b ! j)) n)))"

lemma on_clock_simps [simp]:
  "b_clocks (on_clock i f b) = (b_clocks b)[i := w_clock (snd (f (b_vars b, clock_world i b)))]"
  "b_ptr (on_clock i f b) = b_ptr b" "b_world (on_clock i f b) = snd (f (b_vars b, clock_world i b))"
  "w_clock (clock_world i b) = b_clocks b ! i" "w_msgs (clock_world i b) = w_msgs (b_world b)"
  by (simp_all add: on_clock_def clock_world_def split: prod.split)

lemma find_some: "List.find P xs = Some x \<Longrightarrow> x \<in> set xs \<and> P x"
  by (auto simp: find_Some_iff)

lemma created_add:
  assumes c: "created all left b" and k: "k < 3" "k \<notin> set (b_ptr b)"
    and x: "ready_clock x" "cf_setup (c_flags x)" "cf_stop (c_flags x)" "cm_domain (c_msgs x) \<noteq> 255"
      "\<forall>n. bit (c_portmap x) n \<longrightarrow> bit left n"
    and b2: "b_clocks b2 = (b_clocks b)[k := x]" "b_ptr b2 = b_ptr b @ [k]"
  shows "created all (left AND NOT (c_portmap x)) b2"
  unfolding created_def
proof (intro conjI)
  have l: "length (b_clocks b) = 3" using c by (simp add: created_def)
  have nth: "b_clocks b2 ! j = (if j = k then x else b_clocks b ! j)" for j using k l by (simp add: b2)
  have f: "free_clock j b2 = (if j = k then False else free_clock j b)" for j using x(4) by (simp add: free_clock_def nth)
  show "length (b_clocks b2) = 3" "distinct (b_ptr b2)" "set (b_ptr b2) \<subseteq> {0..<3}"
    using c k l by (auto simp: created_def b2)
  show "\<forall>n. bit (left AND NOT (c_portmap x)) n \<longrightarrow> bit all n" using c by (simp add: created_def bit_and_iff)
  show "\<forall>i<3. i \<notin> set (b_ptr b2) \<longrightarrow> c_portmap (b_clocks b2 ! i) = 0" using c by (simp add: created_def b2(2) nth)
  show "\<forall>i\<in>set (b_ptr b2). ready_clock (b_clocks b2 ! i) \<and> cf_setup (c_flags (b_clocks b2 ! i)) \<and>
      cf_stop (c_flags (b_clocks b2 ! i)) \<and> \<not> free_clock i b2 \<and>
      (\<forall>n. bit (c_portmap (b_clocks b2 ! i)) n \<longrightarrow> bit all n \<and> \<not> bit (left AND NOT (c_portmap x)) n)"
    using c x k unfolding created_def b2(2) nth f by (auto simp: bit_and_iff bit_not_iff)
  have out: "\<not> (bit (c_portmap (b_clocks b ! h)) n \<and> bit (c_portmap x) n)" if "h \<in> set (b_ptr b)" for h n
    using c that x(5) unfolding created_def by metis
  have "\<not> (bit (c_portmap (b_clocks b ! i)) n \<and> bit (c_portmap (b_clocks b ! j)) n)"
    if "i \<in> set (b_ptr b)" "j \<in> set (b_ptr b)" "i \<noteq> j" for i j n using c that by (simp add: created_def)
  then show "\<forall>i\<in>set (b_ptr b2). \<forall>j\<in>set (b_ptr b2). i \<noteq> j \<longrightarrow>
      (\<forall>n. \<not> (bit (c_portmap (b_clocks b2 ! i)) n \<and> bit (c_portmap (b_clocks b2 ! j)) n))"
    using out k(2) unfolding nth b2(2) by auto
qed

lemma saved_domain:
  assumes "i < 3"
  shows "gptp_profile_get_domain (of_nat (i + 1)) s =
    Some (f_domain (ptp_profiles s ! i), f_ports (ptp_profiles s ! i), f_vlan (ptp_profiles s ! i))"
proof -
  have "unat (of_nat (i + 1) :: u8) = i + 1" using assms by (simp add: unat_of_nat del: of_nat_add of_nat_Suc)
  then show ?thesis using assms by (simp add: gptp_profile_get_domain_def get_at_some del: of_nat_add of_nat_Suc)
qed

lemma create_clock_inv:
  assumes c: "created all left b" and i: "i < 3" and d: "\<forall>f \<in> set (ptp_profiles (en_store env)). f_domain f \<noteq> 255"
    and st: "config_ok (en_store env)"
  shows "created all (fst (create_clock env i (left, b))) (snd (create_clock env i (left, b)))"
proof -
  define p where "p = ptp_profiles (en_store env) ! i"
  define m where "m = f_ports p AND left"
  note g = saved_domain [OF i, of "en_store env", folded p_def]
  have d: "f_domain p \<noteq> 255" using d st i by (simp add: p_def config_ok_def)
  show ?thesis
  proof (cases "m = 0 \<or> List.find (\<lambda>i. free_clock i b) (i # [0..<3]) = None")
    case True
    then have "create_clock env i (left, b) = (left, b)"
      using g by (auto simp: create_clock_def create_ptp_clock_def m_def [symmetric] Let_def)
    then show ?thesis using c by simp
  next
    case False
    then obtain k where m: "m \<noteq> 0" and k: "List.find (\<lambda>i. free_clock i b) (i # [0..<3]) = Some k" by auto
    then have k3: "k < 3" and "free_clock k b" using find_some [OF k] i by auto
    then have new: "k \<notin> set (b_ptr b)" and pm: "c_portmap (b_clocks b ! k) = 0" using c by (auto simp: created_def)
    define u where "u = upd_clock (\<lambda>c. c\<lparr>c_cfg_index := of_nat (i + 1),
      c_msgs := (c_msgs c)\<lparr>cm_domain := f_domain p, cm_vid := f_vlan p\<rparr>\<rparr>) (clock_world k b)"
    define w where "w = snd (setup_ptp_clock env m (b_vars b, u))"
    define x where "x = w_clock (upd_cflags (\<lambda>f. f\<lparr>cf_stop := True\<rparr>) w)"
    have "c_portmap (w_clock u) \<noteq> m" using pm m by (simp add: u_def upd_clock_def)
    then have w: "ready_clock (w_clock w)" "c_portmap (w_clock w) = m" "cflag cf_setup w" "cmsgs cm_domain w = f_domain p"
      using setup_ptp_clock_ready [of u m env "b_vars b"] by (simp_all add: w_def) (simp add: u_def upd_clock_def)
    then have x: "ready_clock x" "cf_setup (c_flags x)" "cf_stop (c_flags x)" "cm_domain (c_msgs x) \<noteq> 255"
        "\<forall>n. bit (c_portmap x) n \<longrightarrow> bit left n" and xm: "c_portmap x = m"
      using d by (simp_all add: x_def upd_cflags_def upd_clock_def ready_clock_def) (simp add: m_def bit_and_iff)
    define b1 where "b1 = snd (create_ptp_clock env (i + 1) (f_domain p) m (f_vlan p) b)"
    have l: "length (b_clocks b) = 3" using c by (simp add: created_def)
    have b1: "create_ptp_clock env (i + 1) (f_domain p) m (f_vlan p) b = (Some k, b1)"
      "b_clocks b1 = (b_clocks b)[k := w_clock w]" "b_ptr b1 = b_ptr b"
      using k by (simp_all add: b1_def create_ptp_clock_def w_def u_def)
    have r: "create_clock env i (left, b) = (left AND NOT m,
        on_clock k (\<lambda>(v, w). (v, upd_cflags (\<lambda>f. f\<lparr>cf_stop := True\<rparr>) w)) (b1\<lparr>b_ptr := b_ptr b @ [k]\<rparr>))"
      using g m b1 k3 l w(2) by (simp add: create_clock_def m_def [symmetric])
    have "b_clocks (snd (create_clock env i (left, b))) = (b_clocks b)[k := x]"
      "b_ptr (snd (create_clock env i (left, b))) = b_ptr b @ [k]"
      using k3 l by (simp_all add: r b1) (simp add: x_def upd_cflags_def upd_clock_def clock_world_def b1)
    from created_add [OF c k3 new x this] show ?thesis unfolding xm by (simp add: r)
  qed
qed

lemma create_clock_skip:
  assumes "i < 3" and "f_ports (ptp_profiles (en_store env) ! i) AND left = 0"
  shows "create_clock env i (left, b) = (left, b)"
  using saved_domain [OF assms(1), of "en_store env"] assms(2) by (simp add: create_clock_def)

lemma create_clock_takes:
  assumes "i < 3" and "f_ports (ptp_profiles (en_store env) ! i) AND left \<noteq> 0" and "free_clock i b"
  shows "b_ptr (snd (create_clock env i (left, b))) = b_ptr b @ [i]"
  using saved_domain [OF assms(1), of "en_store env"] assms(2,3) by (simp add: create_clock_def create_ptp_clock_def)

lemma init_clocks_free:
  assumes "length (b_clocks b) = 3" and "i < 3"
  shows "free_clock i (init_ptp_clocks st mac b)"
proof -
  have "[0..<3] = [0, 1, 2 :: nat]" "i \<in> {0, 1, 2}" using assms(2) by (auto simp: upt_rec)
  then show ?thesis
    using assms(1) by (auto simp: init_ptp_clocks_def free_clock_def init_clock_works_def upd_clock_def init_ptp_clock_def)
qed

lemma init_clocks_fresh:
  assumes "fresh_boot b"
  shows "fresh_boot (init_ptp_clocks st mac b)" and "w_msgs (b_world (init_ptp_clocks st mac b)) = w_msgs (b_world b)"
proof -
  let ?f = "\<lambda>i. on_clock i (\<lambda>(v, w). (v, init_clock_works (upd_clock (\<lambda>c. init_ptp_clock st mac (c\<lparr>c_index := of_nat i\<rparr>)) w)))"
  have w: "w_clock (init_clock_works w) = w_clock w" for w by (simp add: init_clock_works_def)
  have "fresh_boot (?f i b) \<and> w_msgs (b_world (?f i b)) = w_msgs (b_world b)" if "fresh_boot b" "i < 3" for i b
    using that by (auto simp: fresh_boot_def w upd_clock_def init_ptp_clock_def dest!: set_update_subset_insert [THEN subsetD])
  then have "fresh_boot (fold ?f is b) \<and> w_msgs (b_world (fold ?f is b)) = w_msgs (b_world b)" if "set is \<subseteq> {0..<3}" for "is"
    using that assms by (induction "is" arbitrary: b) simp_all
  then show "fresh_boot (init_ptp_clocks st mac b)" "w_msgs (b_world (init_ptp_clocks st mac b)) = w_msgs (b_world b)"
    unfolding init_ptp_clocks_def by simp_all
qed

lemma create_clock_msgs: "w_msgs (b_world (snd (create_clock env i (left, b)))) = w_msgs (b_world b)"
  by (auto simp: create_clock_def create_ptp_clock_def Let_def msgs_setup split: option.split prod.split)

lemma init_stack_created:
  assumes "fresh_boot b" and "\<forall>f \<in> set (ptp_profiles (en_store env)). f_domain f \<noteq> 255" and "config_ok (en_store env)"
  shows "\<exists>left. created (switch_ports ptp_ports) left (init_stack env ptp_ports mac b)"
    and "w_msgs (b_world (init_stack env ptp_ports mac b)) = w_msgs (b_world b)"
proof -
  let ?all = "switch_ports ptp_ports"
  define b0 where "b0 = (let b = init_ptp_clocks (en_store env) mac b
     in b\<lparr>b_world := (b_world b)\<lparr>w_cfg := store_config (en_store env) (w_cfg (b_world b))\<rparr>, b_ptr := []\<rparr>)"
  have b0: "created ?all ?all b0" "w_msgs (b_world b0) = w_msgs (b_world b)"
    using init_clocks_fresh [OF assms(1), of "en_store env" mac] nth_mem [of _ "b_clocks (init_ptp_clocks (en_store env) mac b)"]
    by (simp_all add: b0_def created_def fresh_boot_def Let_def)
  have step: "created ?all l b \<Longrightarrow> set is \<subseteq> {0..<3} \<Longrightarrow>
      created ?all (fst (fold (create_clock env) is (l, b))) (snd (fold (create_clock env) is (l, b))) \<and>
      w_msgs (b_world (snd (fold (create_clock env) is (l, b)))) = w_msgs (b_world b)" for "is" l b
  proof (induction "is" arbitrary: l b)
    case (Cons i "is")
    obtain l' b' where c: "create_clock env i (l, b) = (l', b')" by fastforce
    have "created ?all l' b'" "w_msgs (b_world b') = w_msgs (b_world b)"
      using create_clock_inv [OF Cons.prems(1) _ assms(2,3), of i] create_clock_msgs [of env i l b] Cons.prems(2) c by simp_all
    then show ?case using Cons.IH [of l' b'] Cons.prems(2) c by simp
  qed simp
  show "\<exists>left. created ?all left (init_stack env ptp_ports mac b)"
    "w_msgs (b_world (init_stack env ptp_ports mac b)) = w_msgs (b_world b)"
    using step [OF b0(1), of "[0..<3]"] b0(2)
    by (auto simp: init_stack_def b0_def Let_def)
qed

subsection \<open>Starting the clocks\<close>

abbreviation start_step :: "setup_env \<Rightarrow> nat \<Rightarrow> boot \<Rightarrow> boot" where
  "start_step env \<equiv> (\<lambda>i b. if cf_stop (c_flags (b_clocks b ! i)) then on_clock i (clock_start env) b else b)"

lemma clock_inv_clock: "w_clock v = w_clock w \<Longrightarrow> clock_inv v = clock_inv w"
  by (simp add: clock_inv_def tables_ok_def shown_def)

lemma start_all:
  assumes "distinct is" and "set is \<subseteq> {0..<length (b_clocks b)}"
    and "\<forall>i \<in> set is. ready_clock (b_clocks b ! i) \<and> cf_setup (c_flags (b_clocks b ! i)) \<and> cf_stop (c_flags (b_clocks b ! i))"
  shows "(\<forall>i \<in> set is. clock_inv (clock_world i (fold (start_step env) is b)) \<and>
      indices (clock_world i (fold (start_step env) is b)) = indices (clock_world i b)) \<and>
    (\<forall>j. j \<notin> set is \<longrightarrow> b_clocks (fold (start_step env) is b) ! j = b_clocks b ! j) \<and>
    w_msgs (b_world (fold (start_step env) is b)) = w_msgs (b_world b) \<and>
    b_ptr (fold (start_step env) is b) = b_ptr b"
  using assms
proof (induction "is" arbitrary: b)
  case (Cons i "is")
  define b1 where "b1 = on_clock i (clock_start env) b"
  have s: "start_step env i b = b1" using Cons.prems by (simp add: b1_def)
  have i: "i < length (b_clocks b)" using Cons.prems by simp
  have nth: "b_clocks b1 ! j = (if j = i then w_clock (snd (clock_start env (b_vars b, clock_world i b))) else b_clocks b ! j)" for j
    using i by (simp add: b1_def)
  have w: "clock_inv (snd (clock_start env (b_vars b, clock_world i b)))"
    "indices (snd (clock_start env (b_vars b, clock_world i b))) = indices (clock_world i b)"
    using clock_start_ready [of "clock_world i b" env "b_vars b"] Cons.prems(3) by simp_all
  have ih: "(\<forall>j \<in> set is. clock_inv (clock_world j (fold (start_step env) is b1)) \<and>
      indices (clock_world j (fold (start_step env) is b1)) = indices (clock_world j b1)) \<and>
    (\<forall>j. j \<notin> set is \<longrightarrow> b_clocks (fold (start_step env) is b1) ! j = b_clocks b1 ! j) \<and>
    w_msgs (b_world (fold (start_step env) is b1)) = w_msgs (b_world b1) \<and> b_ptr (fold (start_step env) is b1) = b_ptr b1"
    using Cons.prems by (intro Cons.IH) (auto simp: nth, auto simp: b1_def)
  have m: "w_msgs (b_world b1) = w_msgs (b_world b)" "b_ptr b1 = b_ptr b" by (simp_all add: b1_def msgs_start)
  have "clock_inv (clock_world i (fold (start_step env) is b1)) \<and>
      indices (clock_world i (fold (start_step env) is b1)) = indices (clock_world i b)"
    using ih Cons.prems(1) w nth [of i] clock_inv_clock [of "clock_world i (fold (start_step env) is b1)"] by simp
  moreover have "indices (clock_world j b1) = indices (clock_world j b)" if "j \<in> set is" for j
    using that Cons.prems(1) by (auto simp: nth)
  ultimately show ?case using ih m nth unfolding fold_Cons comp_def s by auto
qed simp

lemma switch_ports_bit: "bit (switch_ports k) n \<Longrightarrow> n < k"
proof -
  have "switch_ports k = mask k" by (simp add: switch_ports_def mask_eq_exp_minus_1)
  then show "bit (switch_ports k) n \<Longrightarrow> ?thesis" by (simp add: bit_mask_iff)
qed

text \<open>The ports of a clock are the ports of its mask, which are ports of the switch.\<close>

lemma created_indices:
  assumes "created all left b" and "i \<in> set (b_ptr b)"
  shows "set (tl (indices (clock_world i b))) = {Suc n |n. n < MAX_PTP_PORTS \<and> bit (c_portmap (b_clocks b ! i)) n}"
    and "sorted_wrt (<) (indices (clock_world i b))"
proof -
  have r: "indices (clock_world i b) = 0 # map Suc (mask_ports (c_portmap (b_clocks b ! i)))"
    using assms by (simp add: created_def ready_clock_def)
  show "set (tl (indices (clock_world i b))) = {Suc n |n. n < MAX_PTP_PORTS \<and> bit (c_portmap (b_clocks b ! i)) n}"
    unfolding r by (auto simp: mask_ports_def)
  have "sorted_wrt (<) (mask_ports m)" for m unfolding mask_ports_def by (rule sorted_wrt_filter) simp
  then show "sorted_wrt (<) (indices (clock_world i b))" unfolding r by (simp add: sorted_wrt_map)
qed

lemma created_range:
  assumes "created (switch_ports k) left b" and "i \<in> set (b_ptr b)"
  shows "set (tl (indices (clock_world i b))) \<subseteq> {1..k}"
proof -
  have "\<forall>n. bit (c_portmap (b_clocks b ! i)) n \<longrightarrow> bit (switch_ports k) n" using assms by (simp add: created_def)
  then show ?thesis unfolding created_indices(1) [OF assms] using switch_ports_bit by (auto simp: Suc_le_eq)
qed

lemma created_disjoint:
  assumes "created all left b" and "i \<in> set (b_ptr b)" "j \<in> set (b_ptr b)" and "i \<noteq> j"
  shows "set (tl (indices (clock_world i b))) \<inter> set (tl (indices (clock_world j b))) = {}"
proof -
  have "\<not> (bit (c_portmap (b_clocks b ! i)) n \<and> bit (c_portmap (b_clocks b ! j)) n)" for n
    using assms by (simp add: created_def)
  then show ?thesis
    unfolding created_indices(1) [OF assms(1,2)] created_indices(1) [OF assms(1,3)] by auto
qed

lemma emit_all_simps [simp]:
  "b_clocks (emit_all es b) = b_clocks b" "b_ptr (emit_all es b) = b_ptr b"
  "w_msgs (b_world (emit_all es b)) = w_msgs (b_world b)"
proof -
  have "w_msgs (fold emit es w) = w_msgs w" for w by (induction es arbitrary: w) simp_all
  then show "w_msgs (b_world (emit_all es b)) = w_msgs (b_world b)" by (simp add: emit_all_def)
qed (simp_all add: emit_all_def)

lemma setup_hw_start:
  "\<exists>es. setup_ptp_hw env b = emit_all [E_set_notify True] (fold (start_step env) (b_ptr b) (emit_all es b))"
  unfolding setup_ptp_hw_def Let_def split_beta emit_all_simps(2) by (rule exI, rule refl)

text \<open>Starting the clocks that were created.\<close>

lemma setup_hw_ok:
  assumes c: "created all left b"
  shows "b_ptr (setup_ptp_hw env b) = b_ptr b"
    and "i \<in> set (b_ptr b) \<Longrightarrow> clock_inv (clock_world i (setup_ptp_hw env b))"
    and "i \<in> set (b_ptr b) \<Longrightarrow> indices (clock_world i (setup_ptp_hw env b)) = indices (clock_world i b)"
    and "w_msgs (clock_world i (setup_ptp_hw env b)) = w_msgs (b_world b)"
proof -
  let ?b' = "setup_ptp_hw env b"
  obtain es where b': "?b' = emit_all [E_set_notify True] (fold (start_step env) (b_ptr b) (emit_all es b))"
    using setup_hw_start [of env b] by blast
  have "distinct (b_ptr b)" "set (b_ptr b) \<subseteq> {0..<length (b_clocks (emit_all es b))}"
    "\<forall>i \<in> set (b_ptr b). ready_clock (b_clocks (emit_all es b) ! i) \<and> cf_setup (c_flags (b_clocks (emit_all es b) ! i)) \<and>
       cf_stop (c_flags (b_clocks (emit_all es b) ! i))"
    using c by (auto simp: created_def)
  note a = start_all [OF this, of env]
  show "b_ptr ?b' = b_ptr b" "w_msgs (clock_world i ?b') = w_msgs (b_world b)" using a by (simp_all add: b')
  show "clock_inv (clock_world i ?b')" "indices (clock_world i ?b') = indices (clock_world i b)" if "i \<in> set (b_ptr b)"
    using a that clock_inv_clock [of "clock_world i ?b'" "clock_world i (fold (start_step env) (b_ptr b) (emit_all es b))"]
    by (simp_all add: b')
qed

end
