(* ===== verification/Sample.thy ===== *)
theory Sample
  imports Decision_props
begin

text \<open>
  A concrete clock for the examples: a host port and two ports.  Port 1 hears a
  good master, port 2 a worse one; the clock itself is worse than both.
\<close>

definition sample_timer :: ksz_timer_info where
  "sample_timer = \<lparr>t_callback = True, t_repeat = True, t_max = 0, t_period = 1000, t_armed = None, t_poll = False\<rparr>"

definition sample_id :: "nat \<Rightarrow> byte_list" where
  "sample_id n = replicate 7 0 @ [of_nat n]"

definition sample_ds :: "nat \<Rightarrow> u8 \<Rightarrow> nat \<Rightarrow> bmc_dataset" where
  "sample_ds gm class n =
     \<lparr>ds_prio_1 = 128, ds_prio_2 = 128, ds_steps_removed = 0, ds_id = sample_id gm,
      ds_quality = \<lparr>q_class = class, q_accuracy = 0x20, q_variance = 0x4000\<rparr>,
      ds_rx = \<lparr>pi_clock = sample_id 9, pi_port = of_nat n\<rparr>, ds_tx = \<lparr>pi_clock = sample_id gm, pi_port = 1\<rparr>\<rparr>"

definition sample_master :: "nat \<Rightarrow> u8 \<Rightarrow> nat \<Rightarrow> foreign_dataset" where
  "sample_master gm class n =
     \<lparr>fd_prec = 0, fd_dataset = sample_ds gm class n, fd_cnt = 3, fd_valid = True, fd_bad_cnt = 0,
      fd_good_cnt = 0, fd_bad_master = 0, fd_port = n\<rparr>"

definition sample_filter :: ptp_filter where
  "sample_filter =
     \<lparr>f_t1 = ptu_zero, f_t2 = ptu_zero, f_t3 = ptu_zero, f_t4 = ptu_zero, f_clock_ratio = Fin 1, f_delay = 0,
      f_delay_valid = False, f_median = \<lparr>mm_len = 2, mm_cnt = 0, mm_index = 0, mm_data = [\<lparr>md_order = 0, md_delays = 0\<rparr>, \<lparr>md_order = 0, md_delays = 0\<rparr>]\<rparr>\<rparr>"

definition sample_info :: ptp_pdelay_info where
  "sample_info =
     \<lparr>dl_index = 0, dl_delay = 100, dl_raw_delay = 100,
      dl_nrate = \<lparr>nr_ratio = Fin 1, nr_tx1 = ptu_zero, nr_tx2 = ptu_zero, nr_rx1 = ptu_zero, nr_rx2 = ptu_zero, nr_ratio_valid = True\<rparr>,
      dl_filter = sample_filter, dl_id = \<lparr>pi_clock = sample_id 0, pi_port = 0\<rparr>\<rparr>"

definition sample_flags :: port_flags where
  "sample_flags =
     \<lparr>fl_gptp = False, fl_gptp_auto = False, fl_gptp_slave = False, fl_peer_resp = False, fl_peer_valid = False,
      fl_report_announce = False, fl_report_mismatched = 0, fl_report_pdelay = False, fl_report_resp = False,
      fl_report_signal = False, fl_report_sync = False, fl_as_capable = False, fl_as_capable_set = False,
      fl_no_capable = True, fl_no_link = False, fl_p2p = False, fl_use_delay = True, fl_use_one_way_resp = False,
      fl_allow_multi_resp = False, fl_mult_resp = False, fl_p2p_two_step = True, fl_sync_two_step = True,
      fl_path_trace = True, fl_follow_up_tlv = True, fl_no_id_check = False, fl_no_id_replace = False,
      fl_report_ready = False, fl_report_ready_done = False\<rparr>"

definition sample_info_msg :: ptp_msg_info where
  "sample_info_msg =
     \<lparr>mi_valid = False, mi_two_step = False, mi_resp = False, mi_correction = 0, mi_seqid = 0, mi_domain = 0, mi_msg = 0,
      mi_id = \<lparr>pi_clock = sample_id 0, pi_port = 0\<rparr>, mi_ptp_time = \<lparr>ts_hi = 0, ts_lo = 0, ts_nsec = 0\<rparr>, mi_hw_time = utime_zero\<rparr>"

definition sample_port_msgs :: port_msgs where
  "sample_port_msgs =
     \<lparr>pm_tx_sync = sample_info_msg, pm_tx_delay_req = sample_info_msg, pm_tx_pdelay_resp = sample_info_msg,
      pm_rx_delay_resp = sample_info_msg, pm_rx_pdelay_fup = sample_info_msg, pm_multi_resp = [], pm_multi_fup = [],
      pm_seqid_ann = 0, pm_seqid_delay_req = 0, pm_seqid_sync = 0, pm_seqid_manage = 0, pm_seqid_signal = 0,
      pm_resp_cnt = 0, pm_resp_fup_cnt = 0, pm_mult_resp_cnt = 0, pm_mult_resp_fup_cnt = 0,
      pm_peer_id = \<lparr>pi_clock = sample_id 0, pi_port = 0\<rparr>, pm_peer_addr = [], pm_peer_index = 0, pm_last_tx_sync_jiffies = 0\<rparr>"

definition sample_clock_msgs :: clock_msgs where
  "sample_clock_msgs =
     \<lparr>cm_domain = 0, cm_specific = 0, cm_transport = 0, cm_vid = 0, cm_tx_fup_seqid = 0, cm_tx_sync_seqid = 0,
      cm_utc_offset = 37, cm_residence = 0, cm_time_source = 0xA0, cm_first_sync_tx = utime_zero,
      cm_last_sync_rx = utime_zero, cm_rx_sync = sample_info_msg, cm_rx_fup = sample_info_msg,
      cm_ann_template = replicate 64 0, cm_sync_template = replicate 44 0, cm_fup_template = replicate 44 0,
      cm_delay_req_template = replicate 44 0, cm_delay_resp_template = replicate 54 0,
      cm_pdelay_req_template = replicate 54 0, cm_manage_template = replicate 72 0, cm_signal_template = replicate 44 0,
      cm_time_cnt = 0, cm_prev_sync_jiffies = 0\<rparr>"

definition sample_pds :: "nat \<Rightarrow> ptp_port_ds" where
  "sample_pds n =
     \<lparr>pds_portIdentity = \<lparr>pi_clock = sample_id 9, pi_port = of_nat n\<rparr>, pds_portState = PTP_S_LISTENING,
      pds_logMinDelayReqInterval = 0, pds_peerMeanPathDelay = 0, pds_logAnnounceInterval = 1,
      pds_announceReceiptTimeout = 3, pds_logSyncInterval = 0, pds_delayMechanism = DELAY_E2E,
      pds_logMinPdelayReqInterval = 0, pds_versionNumber = 2\<rparr>"

definition sample_port :: "nat \<Rightarrow> foreign_dataset list \<Rightarrow> ptp_port" where
  "sample_port n fs =
     \<lparr>p_index = n, p_portmap = 0, p_id = of_nat n, p_state = PTP_S_LISTENING, p_last_state = PTP_S_LISTENING,
      p_next_state = PTP_S_LISTENING, p_flags = sample_flags, p_neighborDelayThresh = 800, p_ds = sample_pds n,
      p_initialPdelayReqInterval = 0, p_operPdelayReqInterval = 0, p_initialSyncInterval = 0, p_operSyncInterval = 0,
      p_pdelay_req_interval = 0, p_logSyncInterval = 0, p_rx_latency = 0, p_tx_latency = 0, p_asym_delay = 0,
      p_initialSyncTimeout = 2, p_waitPdelayReqInterval = 10, p_waitSyncInterval = 5, p_best = None,
      p_foreign_masters = fs, p_pdelay_info = sample_info, p_multi_pdelay = None, p_as_capable_err = 0,
      p_resp_missing = 0, p_cnt_delay_req = 0, p_cnt_sync_rx = 0, p_cnt_delay_resp = 0, p_cnt_sync_tx = 0,
      p_cnt_fup_tx = 0, p_max_sync_tx = 1, p_last_fault = 0, p_delay_timer_info = sample_timer,
      p_ann_timeout_timer_info = sample_timer, p_qual_timeout_timer_info = sample_timer,
      p_fault_timeout_timer_info = sample_timer, p_msgs = sample_port_msgs\<rparr>"

definition sample_cflags :: clock_flags where
  "sample_cflags =
     \<lparr>cf_no_announce = False, cf_sync_timeout = False, cf_sync_timeout_ready = False, cf_tx_sync = False,
      cf_miss_sync = False, cf_miss_fup = False, cf_signaling = False, cf_first_sync = False, cf_report_sync = False,
      cf_req_interval = False, cf_set_interval_force = False, cf_report_link = False,
      cf_stop = False, cf_setup = True\<rparr>"

definition sample_clock :: ptp_clock where
  "sample_clock =
     \<lparr>c_cfg_index = 0, c_cnt = 2, c_index = 0, c_delay_mechanism = DELAY_E2E,
      c_ports = [sample_port 0 [], sample_port 1 [sample_master 1 6 1, empty_foreign], sample_port 2 [empty_foreign, sample_master 2 7 2]],
      c_slave_port = None, c_live_ports = 3, c_portmap = 3, c_logAnnounceInterval = 1, c_logSyncInterval = 0,
      c_syncReceiptTimeout = 3, c_fupReceiptTimeout = 20, c_rx_fup_seqid = 0, c_rx_sync_seqid = 0, c_id = sample_id 9,
      c_dataset = empty_dataset, c_best = None, c_best_id = sample_id 9,
      c_dds = \<lparr>dd_slave_only = False, dd_two_step = True, dd_numberPorts = 2, dd_priority1 = 128,
        dd_quality = \<lparr>q_class = 248, q_accuracy = 0xFE, q_variance = 0x4000\<rparr>, dd_priority2 = 128,
        dd_clockIdentity = sample_id 9, dd_domainNumber = 0\<rparr>,
      c_cur = \<lparr>cd_stepsRemoved = 0, cd_offsetFromMaster = 0, cd_meanPathDelay = 0\<rparr>,
      c_pds = \<lparr>pr_parentPortIdentity = \<lparr>pi_clock = sample_id 9, pi_port = 0\<rparr>, pr_grandmasterPriority1 = 128,
        pr_grandmasterClockQuality = \<lparr>q_class = 248, q_accuracy = 0xFE, q_variance = 0x4000\<rparr>,
        pr_grandmasterPriority2 = 128, pr_grandmasterIdentity = sample_id 9\<rparr>,
      c_servo_state = SERVO_UNLOCKED, c_offset = ptu_zero,
      c_servo = \<lparr>sv_last_offset = ptu_zero, sv_last_ingress = ptu_zero, sv_last_interval = ptu_zero,
        sv_last_dbg_ingress = ptu_zero, sv_kp = 700, sv_ki = 300, sv_drift = 0, sv_freq_diff = 0, sv_last_freq = 0, sv_drift_valid = False\<rparr>,
      c_ann_max = 1, c_sync_max = 0, c_ann_cnt = 0, c_sync_cnt = 0, c_flags = sample_cflags, c_last_sync_jiffies = 0,
      c_last_sync_time_jiffies = 0, c_oper_sync_jiffies = 0, c_set_sync_timeout_jiffies = 0,
      c_timers = \<lparr>ct_sync = sample_timer, ct_interval = sample_timer, ct_sync_timeout = sample_timer,
        ct_fup_timeout = sample_timer, ct_signaling = sample_timer\<rparr>,
      c_msgs = sample_clock_msgs\<rparr>"

definition sample_config :: ptp_config where
  "sample_config =
     \<lparr>cfg_port_sync = (\<lambda>_. None), cfg_port_announce = (\<lambda>_. None), cfg_port_delay = (\<lambda>_. None),
      cfg_port_pdelay = (\<lambda>_. None), cfg_use_delay = (\<lambda>_. None), cfg_latency = (\<lambda>_. None),
      cfg_delay_thresh = (\<lambda>_. None), cfg_peer_delay = (\<lambda>_. None), cfg_two_domain = Some False,
      cfg_automotive_test = False, cfg_adj_rc = 0, cfg_allowed_lost = 3, cfg_allowed_faults = 5\<rparr>"

text \<open>\<open>malloc\<close> always succeeds with cleared memory.\<close>

definition sample_store :: mstore where
  "sample_store =
     \<lparr>st_heap = \<lparr>mh_msgs = (\<lambda>_. None), mh_next = 0, mh_cnt = 0, mh_malloc = (\<lambda>_ len. Some (replicate len 0))\<rparr>,
      st_slot = (\<lambda>_. None), st_queue = []\<rparr>"

definition sample_world :: world where
  "sample_world =
     \<lparr>w_clock = sample_clock,
      w_sched = \<lparr>si_works = (\<lambda>_. \<lparr>wk_ticks = 0, wk_attach = False\<rparr>), si_queue = [], si_timer = sample_timer,
        si_pause = False, si_signal = False\<rparr>,
      w_jiffies = 5000, w_cfg = sample_config, w_out = [], w_msgs = sample_store, w_tx = [], w_spec = 1\<rparr>"

lemmas sample_defs =
  sample_world_def sample_clock_def sample_port_def sample_master_def sample_ds_def sample_id_def sample_pds_def
  sample_flags_def sample_cflags_def empty_foreign_def empty_dataset_def

declare One_nat_def [simp del]

lemma sample_tables: "tables_ok sample_world"
  by code_simp

lemma sample_shown: "shown sample_world"
  by code_simp

lemma sample_best: "c_best (w_clock (handle_state_decision sample_world)) = Some (1, 0)"
proof -
  have l: "length (c_ports (w_clock sample_world)) = Suc (c_cnt (w_clock sample_world))"
    and a: "\<not> cflag cf_no_announce sample_world" by code_simp+
  have "taken (fst (scan_best [1..<Suc 2] None (clock_default_ds sample_world))) sample_world = Some (1, 0)"
    by code_simp
  then show ?thesis
    using handle_best(1) [OF l a] decision_scan_masters(1) [OF l]
    by (simp add: masters_def sample_world_def sample_clock_def)
qed

text \<open>The clock before it has heard anything, and a clock whose second port detected a loop.\<close>

definition silent_world :: world where
  "silent_world = upd_port 1 (\<lambda>p. p\<lparr>p_foreign_masters := [empty_foreign, empty_foreign]\<rparr>)
     (upd_port 2 (\<lambda>p. p\<lparr>p_foreign_masters := [empty_foreign, empty_foreign]\<rparr>) sample_world)"

definition looped_world :: world where
  "looped_world = port_set_state 2 PTP_S_PASSIVE silent_world"

definition sample_quality :: "byte_list \<Rightarrow> nat list" where
  "sample_quality i = (if i = sample_id 1 then [128, 6, 0x20, 0x4000, 128] else [128, 7, 0x20, 0x4000, 128])"

lemma sample_announced:
  "sample_ds 1 6 1 \<in> announced sample_quality" "sample_ds 2 7 2 \<in> announced sample_quality"
  by (simp_all add: announced_def) code_simp+

lemma sample_port_nth:
  "port 1 sample_world = sample_port 1 [sample_master 1 6 1, empty_foreign]"
  "port (Suc 0) sample_world = sample_port 1 [sample_master 1 6 1, empty_foreign]"
  "port 2 sample_world = sample_port 2 [empty_foreign, sample_master 2 7 2]"
  "port 0 sample_world = sample_port 0 []"
  by (simp_all add: sample_world_def sample_clock_def)

lemma sample_clock_ports: "set (clock_ports sample_world) = {1, 2}"
  by code_simp

lemma sample_candidates: "candidates (clock_ports sample_world) sample_world = {sample_ds 1 6 1, sample_ds 2 7 2}"
  unfolding candidates_def sample_clock_ports
proof -
  have t: "{f \<in> set (p_foreign_masters (port 1 sample_world)). fd_valid f} = {sample_master 1 6 1}"
    "{f \<in> set (p_foreign_masters (port 2 sample_world)). fd_valid f} = {sample_master 2 7 2}"
    unfolding sample_port_nth by (auto simp: sample_port_def sample_master_def empty_foreign_def)
  have "{fd_dataset f | i f. i \<in> {1, 2} \<and> f \<in> set (p_foreign_masters (port i sample_world)) \<and> fd_valid f} =
      fd_dataset ` ({f \<in> set (p_foreign_masters (port 1 sample_world)). fd_valid f} \<union>
        {f \<in> set (p_foreign_masters (port 2 sample_world)). fd_valid f})"
    by blast
  then show "{fd_dataset f | i f. i \<in> {1, 2} \<and> f \<in> set (p_foreign_masters (port i sample_world)) \<and> fd_valid f} =
      {sample_ds 1 6 1, sample_ds 2 7 2}"
    unfolding t by (simp add: sample_master_def insert_commute)
qed

lemma sample_foreign_clocks: "foreign_clocks sample_quality sample_world"
proof -
  have "length (dd_clockIdentity (c_dds (w_clock sample_world))) = 8"
    "ds_id (sample_ds 1 6 1) \<noteq> dd_clockIdentity (c_dds (w_clock sample_world))"
    "ds_id (sample_ds 2 7 2) \<noteq> dd_clockIdentity (c_dds (w_clock sample_world))" by code_simp+
  then show ?thesis using sample_announced by (simp add: foreign_clocks_def sample_candidates)
qed

lemma sample_class: "127 < clock_class (w_clock sample_world) \<and> clock_class (w_clock sample_world) \<noteq> 255"
  by code_simp

lemma sample_announce: "\<not> cflag cf_no_announce sample_world"
  by code_simp

lemma sample_active:
  "\<forall>n \<in> set (clock_ports sample_world). p_state (port n sample_world) \<in> active_states"
  "p_state (port 0 sample_world) \<in> {PTP_S_LISTENING, PTP_S_PASSIVE, PTP_S_MASTER, PTP_S_SLAVE}"
  unfolding active_states_def by code_simp+

lemma sample_inv: "clock_inv sample_world"
  using sample_tables sample_shown by (simp add: clock_inv_def)

end
