(* ===== verification/Stack_props.thy ===== *)
theory Stack_props
  imports Stack Sample
begin

text \<open>
  Facts about received messages that go through several parts of the stack: the
  Announce that is never done with, messages that are shorter than their type
  needs, and the pairing of Sync and Follow_Up.
\<close>

subsection \<open>The Announce that is never done with\<close>

text \<open>A message that fills its buffer.\<close>

lemma alloc_exact:
  assumes "mh_malloc (st_heap st) (mh_next (st_heap st)) (length msg) = Some mem" and "length mem = length msg"
    and "ptp_msg_rx msg = Some b"
  shows "alloc_msg (Some msg) (length msg) rx (st_heap st) =
    Some (Some (mh_next (st_heap st)),
      (st_heap st)\<lparr>mh_next := Suc (mh_next (st_heap st)),
        mh_msgs := (mh_msgs (st_heap st))(mh_next (st_heap st) \<mapsto> new_message rx b), mh_cnt := mh_cnt (st_heap st) + 1\<rparr>)"
  using assms by (simp add: alloc_msg_def Let_def fill_msg_def)

lemma bad_announce_facts:
  "length bad_announce = 76" "wire_length bad_announce = Some 76" "messageType bad_announce = ANNOUNCE_MSG"
  "transportSpecific bad_announce = 1" "rd F_domainNumber bad_announce = 0"
  by (simp_all add: bad_announce_def announce_head_def wire_length_def messageType_def transportSpecific_def rd.simps
      get_bytes_def le_val.simps)

lemma bad_received_facts:
  "check_path_trace own bad_received = None" "rdo F_stepsRemoved bad_received = Some 0"
  "get_bytes 20 8 bad_received = [1, 2, 3, 4, 5, 6, 7, 8]"
proof -
  have "messageLength bad_received = 76" by (simp add: messageLength_def bad_received_def rd.simps)
  then show "check_path_trace own bad_received = None"
    using find_stuck [OF bad_announce_stuck] by (simp add: check_path_trace_def)
  show "rdo F_stepsRemoved bad_received = Some 0" "get_bytes 20 8 bad_received = [1, 2, 3, 4, 5, 6, 7, 8]"
    by (simp_all add: rdo_def bad_received_def rd.simps get_bytes_def)
qed

lemma rx_bad_announce:
  assumes "rx_accepted n bad_announce w" and "\<not> port_is_aed (port n w)"
    and "memcmp (c_id (w_clock w)) [1, 2, 3, 4, 5, 6, 7, 8] \<noteq> 0"
    and "mh_malloc (st_heap (w_msgs w)) (mh_next (st_heap (w_msgs w))) 76 = Some mem" and "length mem = 76"
  shows "ptp_rx n bad_announce rx False src w = None"
proof -
  have "handle_announce n (mh_next (st_heap (w_msgs w))) v = None"
    if "get_msg (mh_next (st_heap (w_msgs w))) v = Some m" "m_msg m = bad_received" "w_clock v = w_clock w" for v m
    using that assms(2,3) by (simp add: handle_announce_def Let_def bad_received_facts same_clock_id_def)
  then show ?thesis
    using assms(1,4,5) alloc_exact [of "w_msgs w" bad_announce mem bad_received rx] bad_announce_rx
    by (simp add: ptp_rx_def bad_announce_facts on_msgs_def on_heap_def upd_msg_def handle_msg_def get_msg_def
        stamp_msg_def new_message_def)
qed

subsection \<open>Messages shorter than their type\<close>

lemma rd_swap: "k + n \<le> length m \<Longrightarrow> rd (k, n) (swap (k, n) m) = le_val (rev (get_bytes k n m))"
  by (simp add: get_bytes_def rd.simps swap.simps)

text \<open>The header in host order.\<close>

lemma hdr_received:
  assumes "34 \<le> length m"
  obtains h where "ptp_hdr_rx m = Some h" "length h = length m" "messageType h = messageType m"
    "wire_length m = Some (rd F_messageLength h)"
proof -
  let ?h = "swap F_sequenceId (swap F_sourcePort (swap F_messageLength (swap F_correctionField m)))"
  have "ptp_hdr_rx m = Some ?h" using assms by (simp add: ptp_hdr_rx_def)
  moreover have "messageType ?h = messageType m" using assms by (simp add: messageType_def)
  moreover have "get_bytes 2 2 (swap F_correctionField m) = get_bytes 2 2 m"
    using assms by (simp add: get_bytes_def swap.simps drop_append take_append take_drop_take)
  then have "wire_length m = Some (rd F_messageLength ?h)"
    using assms rd_swap [of 2 2 "swap F_correctionField m"] by (simp add: wire_length_def del: swap.simps rd.simps)
  ultimately show ?thesis using that by simp
qed

definition converted_types :: "nat set" where
  "converted_types =
     {SYNC_MSG, FOLLOW_UP_MSG, DELAY_RESP_MSG, PDELAY_REQ_MSG, PDELAY_RESP_MSG, PDELAY_RESP_FOLLOW_UP_MSG,
      ANNOUNCE_MSG, SIGNALING_MSG, MANAGEMENT_MSG}"

lemma short_overrun:
  assumes "messageType m \<in> converted_types" and "wire_length m = Some (length m)"
    and "34 < length m" and "length m < 44"
  shows "ptp_msg_rx m = None"
proof -
  obtain h where h: "ptp_hdr_rx m = Some h" "length h = length m" "messageType h = messageType m"
    "wire_length m = Some (rd F_messageLength h)" using hdr_received assms(3) by (metis less_imp_le)
  have l: "rd F_messageLength h = length m" using h(4) assms(2) by simp
  have "unat (of_nat (length m) :: u16) = length m" using assms(4) by (simp add: unat_of_nat)
  then have n: "(of_nat (rd F_messageLength h) :: u16) \<noteq> 34" using assms(3) l by auto
  obtain fs sz where fs: "msg_part_rx (messageType m) (of_nat (rd F_messageLength h)) = (fs, sz)" by fastforce
  have "\<exists>f \<in> set fs. \<not> inb f h"
    using assms(1,4) fs h(2) unfolding converted_types_def by (auto simp: msg_part_rx_def)
  then have "swaps fs h = None" using swaps_some [of fs h] by auto
  then show ?thesis using h fs n by (simp add: ptp_msg_rx_def)
qed

lemma rx_short:
  assumes "rx_accepted n msg w" and "flag fl_gptp n w \<longrightarrow> transportSpecific msg = 1"
    and "messageType msg \<in> converted_types" and "wire_length msg = Some len" and "34 < len" and "len < 44"
    and "len \<le> length msg"
    and "mh_malloc (st_heap (w_msgs w)) (mh_next (st_heap (w_msgs w))) len = Some mem" and "length mem = len"
  shows "ptp_rx n msg rx d src w = None"
proof -
  have "messageType (take len msg) = messageType msg"
    using assms(5,7) rd_append [of "(0, 1)" "take len msg" "drop len msg"] by (simp add: messageType_def)
  moreover have "wire_length (take len msg) = Some len"
    using assms(4,5,7) by (simp add: wire_length_def get_bytes_def take_drop_take split: if_splits)
  ultimately have "ptp_msg_rx (take len msg) = None" using assms(3,5,6,7) by (intro short_overrun) simp_all
  then have "alloc_msg (Some msg) len rx (st_heap (w_msgs w)) = None"
    using assms(7-9) by (simp add: alloc_msg_def Let_def fill_msg_def)
  then show ?thesis using assms(1,2,4,5,7) by (simp add: ptp_rx_def)
qed

subsection \<open>Sequence ids\<close>

lemma accept_window:
  assumes "0 \<le> s" and "s \<le> 0xFFFF"
  shows "accept_seqid s m \<longleftrightarrow> (\<exists>d \<in> {1..0xFFF0}. uint (sequenceId m) = (s + d) mod 65536)"
proof -
  let ?u = "uint (sequenceId m)"
  have u: "0 \<le> ?u" "?u < 65536" "int (unat (sequenceId m)) = ?u"
    using unsigned_less [of "sequenceId m", where 'a = int] by simp_all
  have "(\<exists>d \<in> {1..0xFFF0}. ?u = (s + d) mod 65536) \<longleftrightarrow> (?u - s) mod 65536 \<in> {1..0xFFF0}"
  proof
    assume "\<exists>d \<in> {1..0xFFF0}. ?u = (s + d) mod 65536"
    then obtain d where d: "1 \<le> d" "d \<le> 0xFFF0" "?u = (s + d) mod 65536" by auto
    then have "(?u - s) mod 65536 = d" by (simp add: mod_diff_left_eq)
    then show "(?u - s) mod 65536 \<in> {1..0xFFF0}" using d by simp
  next
    assume "(?u - s) mod 65536 \<in> {1..0xFFF0}"
    moreover have "?u = (s + (?u - s) mod 65536) mod 65536" using u by (simp add: mod_add_right_eq)
    ultimately show "\<exists>d \<in> {1..0xFFF0}. ?u = (s + d) mod 65536" by blast
  qed
  moreover have "0 \<le> (?u - s) mod 65536" by simp
  ultimately show ?thesis using assms u(3) by (auto simp: accept_seqid_def Let_def)
qed

subsection \<open>Sync and Follow_Up\<close>

text \<open>What a Sync and its Follow_Up do to the clock, with the values of both.\<close>

definition sync_pair :: "nat \<Rightarrow> ptp_message \<Rightarrow> ptp_message \<Rightarrow> ptp_timestamp \<Rightarrow> world \<Rightarrow> world option" where
  "sync_pair n s f t w =
     map_option (port_rx_sync n) (port_sync n (m_rx s) t (correctionField (m_msg s)) (correctionField (m_msg f)) w)"

lemma info_saved:
  assumes "messageType m \<in> {SYNC_MSG, FOLLOW_UP_MSG}" and "get_timestamp 34 m = Some t"
  shows "\<exists>i'. msg_info_save m hw i = Some i' \<and> msg_info_valid i' \<and> mi_seqid i' = sequenceId m \<and>
    mi_correction i' = correctionField m \<and> mi_ptp_time i' = t \<and>
    mi_hw_time i' = (case hw of None \<Rightarrow> utime_zero | Some u \<Rightarrow> u)"
proof -
  have l: "44 \<le> length m" using assms(2) by (simp add: get_timestamp_def split: if_splits)
  then show ?thesis
    using assms by (auto simp: msg_info_save_def get_port_id_def rdo_def info_body_def msg_info_valid_def)
qed

lemma sync_first:
  assumes "twoStepFlag (m_msg s)" and "\<not> port_is_aed (port n w)" and "messageType (m_msg s) = SYNC_MSG"
    and "get_timestamp 34 (m_msg s) = Some t'" and "\<not> msg_info_valid (cmsgs cm_rx_fup w)"
  shows "\<exists>i. proc_sync n s w = Some (upd_cmsgs (\<lambda>c. c\<lparr>cm_rx_sync := i\<rparr>) w) \<and> msg_info_valid i \<and>
    mi_seqid i = sequenceId (m_msg s) \<and> mi_correction i = correctionField (m_msg s) \<and> mi_hw_time i = m_rx s"
proof -
  obtain i where "msg_info_save (m_msg s) (Some (m_rx s)) (cmsgs cm_rx_sync w) = Some i" "msg_info_valid i"
    "mi_seqid i = sequenceId (m_msg s)" "mi_correction i = correctionField (m_msg s)" "mi_hw_time i = m_rx s"
    using info_saved [OF _ assms(4), of "Some (m_rx s)" "cmsgs cm_rx_sync w"] assms(3) by auto
  then show ?thesis using assms by (intro exI [of _ i]) (simp add: proc_sync_def Let_def)
qed

lemma fup_second:
  assumes "msg_info_valid i" and "mi_seqid i = sequenceId (m_msg f)" and "mi_correction i = correctionField (m_msg s)"
    and "mi_hw_time i = m_rx s" and "cmsgs cm_rx_sync v = i" and "get_timestamp 34 (m_msg f) = Some t"
  shows "proc_fup n f v =
    map_option (upd_cmsgs (\<lambda>c. c\<lparr>cm_rx_sync := msg_info_clear (cm_rx_sync c)\<rparr>)) (sync_pair n s f t v)"
  using assms by (cases "port_sync n (m_rx s) t (correctionField (m_msg s)) (correctionField (m_msg f)) v")
    (simp_all add: proc_fup_def Let_def sync_pair_def)

lemma fup_first:
  assumes "msg_info_valid i" and "mi_seqid i = sequenceId (m_msg s)" and "mi_correction i = correctionField (m_msg f)"
    and "mi_ptp_time i = t" and "cmsgs cm_rx_fup v = i" and "twoStepFlag (m_msg s)" and "\<not> port_is_aed (port n v)"
  shows "proc_sync n s v =
    map_option (upd_cmsgs (\<lambda>c. c\<lparr>cm_rx_fup := msg_info_clear (cm_rx_fup c)\<rparr>)) (sync_pair n s f t v)"
  using assms by (cases "port_sync n (m_rx s) t (correctionField (m_msg s)) (correctionField (m_msg f)) v")
    (simp_all add: proc_sync_def Let_def sync_pair_def)

subsection \<open>The divider of the Sync interval\<close>

text \<open>How many of the next \<open>k\<close> Syncs are sent, from a count.\<close>

fun syncs_sent :: "nat \<Rightarrow> u8 \<Rightarrow> u8 \<Rightarrow> nat" where
  "syncs_sent 0 cnt mx = 0"
| "syncs_sent (Suc k) cnt mx =
     (let (cnt, send) = sync_divider cnt mx in of_bool send + syncs_sent k cnt mx)"

lemma divider_step:
  assumes "c \<noteq> 0" and "c \<le> mx"
  shows "sync_divider c mx = (if c = 1 then (mx, True) else (c - 1, False))"
proof (cases "c = 1")
  case False
  then have "c - 1 \<noteq> 0" by simp
  moreover have "c - 1 < c" using assms(1) by (simp add: word_less_nat_alt unat_minus_one unat_gt_0)
  then have "c - 1 \<noteq> mx" using assms(2) by auto
  ultimately show ?thesis using assms(1) False by (simp add: sync_divider_def Let_def)
qed (simp add: sync_divider_def)

lemma syncs_sent_count:
  "c \<noteq> 0 \<Longrightarrow> c \<le> mx \<Longrightarrow> syncs_sent k c mx = (k + (unat mx - unat c)) div unat mx"
proof (induction k arbitrary: c)
  case 0
  have "0 < unat c" "unat c \<le> unat mx" using 0 by (simp_all add: word_le_nat_alt unat_gt_0)
  then have "unat mx - unat c < unat mx" by linarith
  then show ?case by simp
next
  case (Suc k)
  have u: "0 < unat c" "unat c \<le> unat mx" using Suc.prems by (simp_all add: word_le_nat_alt unat_gt_0)
  show ?case
  proof (cases "c = 1")
    case True
    have "mx \<noteq> 0" using Suc.prems by auto
    then have "syncs_sent (Suc k) c mx = 1 + k div unat mx"
      using Suc.IH [of mx] divider_step [OF Suc.prems] True by simp
    also have "\<dots> = (k + unat mx) div unat mx" using u by simp
    finally show ?thesis using True u by (simp add: add.commute)
  next
    case False
    have c: "c - 1 \<noteq> 0" using False by simp
    have "unat (c - 1) = unat c - 1" using Suc.prems(1) by (simp add: unat_minus_one)
    moreover from this have "c - 1 \<le> mx" using u by (simp add: word_le_nat_alt)
    ultimately have "syncs_sent (Suc k) c mx = (k + (unat mx - (unat c - 1))) div unat mx"
      using Suc.IH [OF c] divider_step [OF Suc.prems] False by simp
    then show ?thesis using u by (simp add: Suc_diff_le)
  qed
qed

subsection \<open>Several responders\<close>

abbreviation (input) answering :: "ptp_pdelay_info \<Rightarrow> bool" where
  "answering info \<equiv> pi_port (dl_id info) \<noteq> 0"

definition ids_8 :: "ptp_pdelay_info list \<Rightarrow> bool" where
  "ids_8 infos \<longleftrightarrow> list_all (\<lambda>i. length (pi_clock (dl_id i)) = 8) infos"

lemma put_peer_length:
  "put_peer k info b = Some b' \<Longrightarrow> length (pi_clock (dl_id info)) = 8 \<Longrightarrow> length b' = length b \<and> k + 18 \<le> length b"
  by (auto simp: put_peer_def put_port_id_def wro_def bind_eq_Some_conv split: if_splits)

text \<open>Each responder that answered takes 18 bytes.\<close>

lemma put_peers_room:
  "put_peers k infos b = Some (e, b') \<Longrightarrow> ids_8 infos \<Longrightarrow> e = k + 18 * length (filter answering infos) \<and> length b' = length b \<and>
     (filter answering infos \<noteq> [] \<longrightarrow> e \<le> length b)"
proof (induction k infos b rule: put_peers.induct)
  case (2 k info infos b)
  show ?case
  proof (cases "answering info")
    case True
    then obtain c where c: "put_peer k info b = Some c" "put_peers (k + 18) infos c = Some (e, b')"
      using 2(3) by (auto simp: bind_eq_Some_conv)
    then show ?thesis using 2(2) [OF _ c(1)] 2(4) put_peer_length [OF c(1)] True by (fastforce simp: ids_8_def)
  qed (use 2 in \<open>auto simp: ids_8_def\<close>)
qed simp

lemma peer_info_room:
  assumes "length b = 100" and "2 < length (filter answering infos)" and "ids_8 infos"
  shows "port_add_peer_info infos b = None"
proof -
  let ?b = "put_bytes 58 [0x00, 0x10, 0xA1, 0, 0, 1] b"
  have "length ?b = 100" using assms(1) by simp
  then have "put_peers 64 infos ?b = None"
    using put_peers_room [of 64 infos ?b] assms(2,3) by (cases "put_peers 64 infos ?b") (fastforce, auto)
  then show ?thesis using assms(1) by (simp add: port_add_peer_info_def Let_def)
qed

text \<open>The request that asks for all the responses looks at one entry behind the last.\<close>

lemma all_responses_overrun:
  assumes "is_multi n w" and "length (pmsgs pm_multi_resp n w) = MAX_PDELAY_RESP"
    and "response_complete n w = Some True"
  shows "proc_delayed_pdelay_req n w = None"
  using assms
  by (simp add: proc_delayed_pdelay_req_def proc_pdelay_response_def get_rsp_def get_entry_def One_nat_def)

subsection \<open>Management\<close>

text \<open>Nothing but the message that is sent changes.\<close>

definition only_sends :: "world \<Rightarrow> world \<Rightarrow> bool" where
  "only_sends w w' \<longleftrightarrow> (\<exists>out tx. w' = w\<lparr>w_out := w_out w @ out, w_tx := tx\<rparr>)"

lemma only_sends_refl [simp]: "only_sends w w"
  unfolding only_sends_def by (rule exI [of _ "[]"], rule exI [of _ "w_tx w"]) simp

lemma only_sends_trans: "only_sends u v \<Longrightarrow> only_sends v w \<Longrightarrow> only_sends u w"
  by (force simp: only_sends_def)

lemma tx_only_sends: "only_sends w (ptp_tx_msg b i p s ns d w)"
proof -
  have "ptp_tx_msg b i p s ns d w = w\<lparr>w_out := w_out w @
      [E_tx_msg b i p 7 (cmsgs cm_transport w \<noteq> 0) (cmsgs cm_vid w) s ns d], w_tx := b\<rparr>"
    by (simp add: ptp_tx_msg_def emit_def)
  then show ?thesis unfolding only_sends_def by blast
qed

lemma manage_only_sends:
  "manage_send n b t e l w = Some w' \<Longrightarrow> only_sends w w'"
  "port_tx_manage_error n m a i err w = Some w' \<Longrightarrow> only_sends w w'"
  "port_tx_manage n m a i dat q w = Some w' \<Longrightarrow> only_sends w w'"
  unfolding port_tx_manage_error_def port_tx_manage_def manage_send_def
  by (auto elim!: runE simp: tx_only_sends)

lemma answers_only_send:
  "each_port (answer_port n m r i f t) qs w = Some w' \<Longrightarrow> only_sends w w'"
  by (induction qs arbitrary: w)
     (auto simp: answer_port_def elim!: runE dest!: manage_only_sends intro: only_sends_trans)

lemma manage_tlv_only_sends: "manage_tlv n m k w = Some w' \<Longrightarrow> only_sends w w'"
  unfolding manage_tlv_def
  by (auto elim!: runE split: request.splits simp: ptp_manage_set_def
      dest!: manage_only_sends answers_only_send intro: only_sends_trans)

lemma manage_tlvs_only_send: "manage_tlvs n m d l w = Some w' \<Longrightarrow> only_sends w w'"
proof (erule manage_tlvs.raw_induct [where P = "\<lambda>n m d l w w'. only_sends w w'", rotated])
  fix f n m d l w w'
  assume IH: "\<And>n m d l w w'. f n m d l w = Some w' \<Longrightarrow> only_sends w w'"
    and run: "Option.bind (ptp_next_tlv d l (m_msg m)) (\<lambda>(tlv, d, l). case tlv of None \<Rightarrow> Some w
      | Some k \<Rightarrow> Option.bind (if rd (k, 2) (m_msg m) = TLV_MANAGEMENT then manage_tlv n m k w else Some w)
          (f n m d l)) = Some w'"
  from run show "only_sends w w'"
    by (auto elim!: runE dest!: IH manage_tlv_only_sends intro: only_sends_trans)
qed

end
