(* ===== verification/Sync_props.thy ===== *)
theory Sync_props
  imports Stack_props
begin

text \<open>
  The times of a Sync, exact: the conversion of timestamps and corrections, the
  time a Sync left the master, and the offset the clock is adjusted by.  And the
  Follow_Up that a bridge sends on: its correction grows by the time the Sync
  spent in the bridge and on the link.
\<close>

subsection \<open>Conversions\<close>

text \<open>The value of a timestamp and of a hardware time in units of \<open>2\<^sup>-\<^sup>1\<^sup>6\<close> nanoseconds.\<close>

definition timestamp_val :: "ptp_timestamp \<Rightarrow> int" where
  "timestamp_val t = ((uint (ts_hi t) * 2 ^ 32 + uint (ts_lo t)) * 1000000000 + uint (ts_nsec t)) * 2 ^ 16"

definition utime_val :: "ptp_utime \<Rightarrow> int" where
  "utime_val u = (uint (ut_sec u) * 1000000000 + uint (ut_nsec u)) * 2 ^ 16"

lemma u16_range: "0 \<le> uint (x :: u16)" "uint (x :: u16) < 65536"
  and u32_range: "0 \<le> uint (y :: u32)" "uint (y :: u32) < 4294967296"
  using unsigned_less [of x, where 'a = int] unsigned_less [of y, where 'a = int] by simp_all

lemma canon_nonneg:
  "0 \<le> a \<Longrightarrow> 0 \<le> b \<Longrightarrow> b < SCALED_NANOSEC_IN_SEC \<Longrightarrow> ptu_canon \<lparr>u_sec = a, u_nsec = b\<rparr>"
  by (simp add: ptu_canon_def)

lemma timestamp_exact:
  assumes "ts_nsec t < 1000000000"
  shows "ptu_canon (ptp_timestamp_to_scaled t)" "ptu_val (ptp_timestamp_to_scaled t) = timestamp_val t"
    "0 \<le> timestamp_val t" "timestamp_val t < 2 ^ 49 * SCALED_NANOSEC_IN_SEC"
proof -
  have n: "uint (ts_nsec t) < 1000000000" using assms by (simp add: word_less_def)
  have s: "s64 (uint (ts_hi t) * 4294967296 + uint (ts_lo t)) = uint (ts_hi t) * 4294967296 + uint (ts_lo t)"
    "s64 (uint (ts_nsec t) * 65536) = uint (ts_nsec t) * 65536"
    using u16_range [of "ts_hi t"] u32_range [of "ts_lo t"] u32_range [of "ts_nsec t"]
    by - (rule s64_id; linarith)+
  have e: "ptp_timestamp_to_scaled t =
      \<lparr>u_sec = uint (ts_hi t) * 4294967296 + uint (ts_lo t), u_nsec = uint (ts_nsec t) * 65536\<rparr>"
    by (simp add: ptp_timestamp_to_scaled_def s)
  show "ptu_canon (ptp_timestamp_to_scaled t)" unfolding e
    using n u16_range [of "ts_hi t"] u32_range [of "ts_lo t"] u32_range [of "ts_nsec t"]
    by - (rule canon_nonneg; linarith)
  show "ptu_val (ptp_timestamp_to_scaled t) = timestamp_val t" by (simp add: e ptu_val_def timestamp_val_def)
  show "0 \<le> timestamp_val t" "timestamp_val t < 2 ^ 49 * SCALED_NANOSEC_IN_SEC"
    using n u16_range [of "ts_hi t"] u32_range [of "ts_lo t"] u32_range [of "ts_nsec t"]
    unfolding timestamp_val_def by auto
qed

lemma utime_exact:
  assumes "ut_nsec u < 1000000000"
  shows "ptu_canon (ptp_utime_to_scaled u)" "ptu_val (ptp_utime_to_scaled u) = utime_val u"
    "\<bar>u_sec (ptp_utime_to_scaled u)\<bar> \<le> 2 ^ 32"
proof -
  have n: "uint (ut_nsec u) < 1000000000" using assms by (simp add: word_less_def)
  have s: "s64 (uint (ut_nsec u) * 65536) = uint (ut_nsec u) * 65536"
    using u32_range [of "ut_nsec u"] by - (rule s64_id; linarith)
  have e: "ptp_utime_to_scaled u = \<lparr>u_sec = uint (ut_sec u), u_nsec = uint (ut_nsec u) * 65536\<rparr>"
    by (simp add: ptp_utime_to_scaled_def s)
  show "ptu_canon (ptp_utime_to_scaled u)" unfolding e
    using n u32_range [of "ut_sec u"] u32_range [of "ut_nsec u"] by - (rule canon_nonneg; linarith)
  show "ptu_val (ptp_utime_to_scaled u) = utime_val u" by (simp add: e ptu_val_def utime_val_def)
  show "\<bar>u_sec (ptp_utime_to_scaled u)\<bar> \<le> 2 ^ 32" using u32_range [of "ut_sec u"] by (simp add: e)
qed

lemma correction_exact: "ptu_canon (ptp_correction_to_scaled s)" "ptu_val (ptp_correction_to_scaled s) = s"
proof -
  let ?B = "SCALED_NANOSEC_IN_SEC"
  have eq: "s = s sdiv ?B * ?B + s smod ?B" by (rule sdiv_smod_eq)
  have b: "\<bar>s smod ?B\<bar> < ?B" using smod_bound [of ?B s] by simp
  note sign = smod_sign(1) [of s ?B] smod_sign(2) [of s ?B]
  have "0 \<le> s smod ?B" if "0 < s sdiv ?B" using that eq sign b by linarith
  moreover have "s smod ?B \<le> 0" if "s sdiv ?B < 0" using that eq sign b by linarith
  ultimately show "ptu_canon (ptp_correction_to_scaled s)"
    using b by (simp add: ptu_canon_def ptp_correction_to_scaled_def)
  show "ptu_val (ptp_correction_to_scaled s) = s"
    using eq by (simp add: ptu_val_def ptp_correction_to_scaled_def)
qed

lemma origin_exact:
  assumes "ts_nsec t < 1000000000" and "\<bar>a\<bar> \<le> 2 ^ 63" and "\<bar>b\<bar> \<le> 2 ^ 63"
  shows "ptu_canon (origin_time t a b)" "ptu_val (origin_time t a b) = timestamp_val t + a + b"
proof -
  let ?c = "if b \<noteq> 0 then ptp_correction_to_scaled b else ptu_zero"
  have c: "ptu_canon ?c" "ptu_val ?c = b" using correction_exact [of b] by auto
  have s: "ptu_canon (ptu_add (ptp_correction_to_scaled a) ?c) \<and> ptu_val (ptu_add (ptp_correction_to_scaled a) ?c) = a + b"
    using ptu_add_exact [OF correction_exact(1) c(1)] correction_exact(2) c(2) assms(2,3) by (simp add: ptu_lim_def)
  have l: "\<bar>timestamp_val t\<bar> \<le> ptu_lim" using timestamp_exact(3,4) [OF assms(1)] by (simp add: ptu_lim_def)
  have m: "\<bar>a + b\<bar> \<le> ptu_lim" using assms(2,3) by (simp add: ptu_lim_def)
  show "ptu_canon (origin_time t a b)" "ptu_val (origin_time t a b) = timestamp_val t + a + b"
    using ptu_add_exact [of "ptp_timestamp_to_scaled t" "ptu_add (ptp_correction_to_scaled a) ?c"]
      timestamp_exact [OF assms(1)] s l m unfolding origin_time_def Let_def by simp_all
qed

subsection \<open>The offset\<close>

lemma offset_kept [simp]:
  "c_offset (w_clock (upd_hfilter f w)) = c_offset (w_clock w)"
  "c_offset (w_clock (upd_cmsgs g w)) = c_offset (w_clock w)"
  "c_offset (w_clock (emit e w)) = c_offset (w_clock w)"
  by (simp_all add: upd_hfilter_def upd_hinfo_def world_upd)

lemma offset_on_msgs: "on_msgs f w = Some w' \<Longrightarrow> w_clock w' = w_clock w"
  by (auto simp: on_msgs_def elim!: bind_runE)

lemma offset_adj: "clock_adj_freq u f w = Some w' \<Longrightarrow> c_offset (w_clock w') = c_offset (w_clock w)"
  unfolding clock_adj_freq_def by (auto elim!: runE dest!: offset_on_msgs simp: upd_clock_def)

lemma offset_act: "clock_act a s w = Some (s', w') \<Longrightarrow> c_offset (w_clock w') = c_offset (w_clock w)"
  unfolding clock_act_def by (auto elim!: runE dest!: offset_adj simp: upd_clock_def clock_set_freq_def)

text \<open>The offset of a Sync is what the filter makes of its two times.\<close>

lemma clock_sync_offset:
  assumes "clock_sync t2 t1 w = Some (s, w')" and "0 < length (c_ports (w_clock w))"
    and "filter_update_offset (filter_set_t1_t2 (dl_filter (hinfo w)) t1 t2) = Inr u"
  shows "c_offset (w_clock w') = u"
proof -
  have "dl_filter (hinfo (upd_hfilter (\<lambda>f. filter_set_t1_t2 f t1 t2) w)) = filter_set_t1_t2 (dl_filter (hinfo w)) t1 t2"
    using assms(2) by (simp add: upd_hfilter_def upd_hinfo_def upd_port_def upd_clock_def)
  then show ?thesis
    using assms(1,3) unfolding clock_sync_def by (auto elim!: runE dest!: offset_act simp: upd_clock_def)
qed

lemma small_secs: "ptu_canon u \<Longrightarrow> 0 \<le> ptu_val u \<Longrightarrow> ptu_val u < 2 ^ 32 * SCALED_NANOSEC_IN_SEC \<Longrightarrow> \<bar>u_sec u\<bar> \<le> 2 ^ 32"
  by (auto simp: ptu_canon_def ptu_val_def)

text \<open>It returns as long as the kept messages are there.\<close>

lemma shift_returns:
  assumes "store_ok (w_msgs w) held" and "slot_of s w = Some a"
  shows "\<exists>w'. on_msgs (on_heap (upd_msg a (shift_rx u))) w = Some w' \<and> store_ok (w_msgs w') held \<and>
    st_slot (w_msgs w') = st_slot (w_msgs w)"
  using store_content [OF assms(1) refs_pos(1) [OF assms(2)], of "shift_rx u"]
  by (auto simp: shift_rx_def Let_def on_msgs_def)

lemma slot_live: "store_ok (w_msgs w) held \<Longrightarrow> slot_of s w = Some a \<Longrightarrow> \<exists>m. get_msg a w = Some m"
  using counted_live [of "st_heap (w_msgs w)" "refs (w_msgs w) held" a] refs_pos(1) [of "w_msgs w" s a held]
  by (auto simp: store_ok_def get_msg_def)

lemma kept_shifted:
  assumes "store_ok (w_msgs v) held"
  shows "\<exists>w'. do {
    w \<leftarrow> (case slot_of Last_sync v of None \<Rightarrow> Some v | Some a \<Rightarrow> on_msgs (on_heap (upd_msg a (shift_rx u))) v);
    (case slot_of Base_sync w of
       None \<Rightarrow> Some w
     | Some b \<Rightarrow>
         do {
           w \<leftarrow> (if slot_of Last_sync w \<noteq> Some b then on_msgs (on_heap (upd_msg b (shift_rx u))) w else Some w);
           m \<leftarrow> get_msg b w;
           Some (upd_cmsgs (\<lambda>c. c\<lparr>cm_last_sync_rx := m_rx m\<rparr>) w) }) } = Some w'"
proof -
  obtain x where x: "(case slot_of Last_sync v of None \<Rightarrow> Some v
      | Some a \<Rightarrow> on_msgs (on_heap (upd_msg a (shift_rx u))) v) = Some x" "store_ok (w_msgs x) held"
    using shift_returns [OF assms, of Last_sync] assms by (cases "slot_of Last_sync v") auto
  show ?thesis
  proof (cases "slot_of Base_sync x")
    case (Some b)
    obtain y where y: "(if slot_of Last_sync x \<noteq> Some b then on_msgs (on_heap (upd_msg b (shift_rx u))) x else Some x) = Some y"
      "store_ok (w_msgs y) held" "st_slot (w_msgs y) = st_slot (w_msgs x)"
      using shift_returns [OF x(2) Some, of u] x(2) by (cases "slot_of Last_sync x = Some b") auto
    then obtain m where "get_msg b y = Some m" using slot_live [of y held Base_sync b] Some by auto
    then show ?thesis using x(1) y(1) Some by simp
  qed (use x(1) in simp)
qed

lemma adj_returns: "store_ok (w_msgs w) held \<Longrightarrow> \<exists>w'. clock_adj_freq u f w = Some w'"
  unfolding clock_adj_freq_def Let_def by (simp only: split: if_split) (intro conjI impI kept_shifted; simp add: world_upd emit_def)

lemma sync_returns:
  assumes "store_ok (w_msgs w) held"
  shows "\<exists>r. clock_sync t2 t1 w = Some r"
proof -
  have act: "\<exists>r. clock_act adj st v = Some r" if "w_msgs v = w_msgs w" for adj st v
  proof -
    obtain v' where "clock_adj_freq (c_offset (w_clock v)) adj v = Some v'"
      using adj_returns [of v held] assms \<open>w_msgs v = w_msgs w\<close> by auto
    moreover have "filter_set_delay g (Fin 0) = Some (g\<lparr>f_delay := 0, f_delay_valid := True\<rparr>)" for g
      by (simp add: filter_set_delay_def rat_trunc_def fits_def)
    ultimately show ?thesis by (simp add: clock_act_def Let_def)
  qed
  show ?thesis
  proof (cases "filter_update_offset (dl_filter (hinfo (upd_hfilter (\<lambda>f. filter_set_t1_t2 f t1 t2) w)))")
    case (Inr u)
    let ?v = "upd_clock (\<lambda>c. c\<lparr>c_offset := u,
      c_cur := (c_cur c)\<lparr>cd_offsetFromMaster := s64 (ptu_get_nsec u * 2 ^ 16)\<rparr>\<rparr>) (upd_hfilter (\<lambda>f. filter_set_t1_t2 f t1 t2) w)"
    obtain rc sv adj st where s: "servo_sample (c_servo (w_clock ?v)) u t2 0 (c_servo_state (w_clock w)) = Some (rc, sv, adj, st)"
      using servo_sample_returns [of "c_servo (w_clock ?v)" u t2 0 "c_servo_state (w_clock w)"]
      by (cases "servo_sample (c_servo (w_clock ?v)) u t2 0 (c_servo_state (w_clock w))") auto
    have "w_msgs (upd_clock (\<lambda>c. c\<lparr>c_servo := sv\<rparr>) ?v) = w_msgs w" by (simp add: upd_hfilter_def upd_hinfo_def world_upd)
    then obtain r where "clock_act adj st (upd_clock (\<lambda>c. c\<lparr>c_servo := sv\<rparr>) ?v) = Some r" using act by blast
    then show ?thesis using Inr s unfolding clock_sync_def Let_def by simp
  qed (simp add: clock_sync_def Let_def)
qed

lemma sync_offset_exact:
  fixes a b :: int
  assumes "clock_sync (ptp_utime_to_scaled i) (origin_time t a b) w = Some (s, w')"
    and "0 < length (c_ports (w_clock w))" and "ut_nsec i < 1000000000" and "ts_nsec t < 1000000000"
    and "\<bar>a\<bar> \<le> 2 ^ 63" and "\<bar>b\<bar> \<le> 2 ^ 63" and "0 < utime_val i"
    and "0 < timestamp_val t + a + b" and "timestamp_val t + a + b < 2 ^ 32 * SCALED_NANOSEC_IN_SEC"
    and "f_delay_valid (dl_filter (hinfo w)) \<longrightarrow> 0 \<le> f_delay (dl_filter (hinfo w)) \<and> f_delay (dl_filter (hinfo w)) \<le> 10000"
  shows "ptu_val (c_offset (w_clock w')) = utime_val i - (timestamp_val t + a + b) -
    (if f_delay_valid (dl_filter (hinfo w)) then f_delay (dl_filter (hinfo w)) * 2 ^ 16 else 0)"
proof -
  let ?f = "filter_set_t1_t2 (dl_filter (hinfo w)) (origin_time t a b) (ptp_utime_to_scaled i)"
  note o = origin_exact [OF assms(4-6)] and u = utime_exact [OF assms(3)]
  have f: "f_t1 ?f = origin_time t a b" "f_t2 ?f = ptp_utime_to_scaled i"
    "f_delay_valid ?f = f_delay_valid (dl_filter (hinfo w))" "f_delay ?f = f_delay (dl_filter (hinfo w))"
    by (simp_all add: filter_set_t1_t2_def)
  obtain v where "filter_update_offset ?f = Inr v"
    "ptu_val v = ptu_val (f_t2 ?f) - ptu_val (f_t1 ?f) - (if f_delay_valid ?f then f_delay ?f * 2 ^ 16 else 0)"
  proof (rule filter_update_offset_exact [of ?f])
    show "ts_ok (f_t1 ?f)" unfolding f using o(1) small_secs [OF o(1)] o(2) assms(8,9) by (simp add: ts_ok_def)
    show "ts_ok (f_t2 ?f)" unfolding f using u by (simp add: ts_ok_def)
    show "\<not> ptu_empty (f_t1 ?f)" "\<not> ptu_empty (f_t2 ?f)"
      unfolding f using o u assms(7,8) by (simp_all add: ptu_empty_val)
  qed (use assms(10) f that in auto)
  then show ?thesis using clock_sync_offset [OF assms(1,2)] f o u by simp
qed

subsection \<open>The Follow_Up sent on\<close>

lemma wr_append: "inb f h \<Longrightarrow> wr f v (h @ t) = wr f v h @ t"
  by (cases f) (simp add: wr.simps)

lemma correction_wr: "inb F_correctionField b \<Longrightarrow> correctionField (set_correctionField c b) = s64 c"
proof -
  have "nat (c mod 2 ^ 64) mod 256 ^ 8 = nat (c mod 2 ^ 64)"
    using nat_less_iff [of "c mod 2 ^ 64" "2 ^ 64"] by (intro mod_less) simp
  moreover assume "inb F_correctionField b"
  ultimately show ?thesis by (simp add: correctionField_def set_correctionField_def wrap_def mod_add_left_eq mod_diff_left_eq)
qed

text \<open>The message \<open>port_fwd_fup\<close> builds on a received one; only header members change.\<close>

definition fwd_head :: "u16 \<Rightarrow> int \<Rightarrow> int \<Rightarrow> byte_list \<Rightarrow> byte_list" where
  "fwd_head pid interval c h = set_sourcePort pid (set_logMessageInterval interval (set_correctionField c h))"

lemmas fwd_head_unfold = fwd_head_def set_sourcePort_def set_logMessageInterval_def set_correctionField_def

lemma fwd_head_append: "34 \<le> length h \<Longrightarrow> fwd_head p i c (h @ t) = fwd_head p i c h @ t"
  by (simp add: fwd_head_unfold wr_append)

lemma fwd_head_facts:
  assumes "34 \<le> length h"
  shows "length (fwd_head p i c h) = length h" "messageType (fwd_head p i c h) = messageType h"
    "rd F_messageLength (fwd_head p i c h) = rd F_messageLength h" "sequenceId (fwd_head p i c h) = sequenceId h"
    "rd F_sourcePort (fwd_head p i c h) = unat p" "correctionField (fwd_head p i c h) = s64 c"
    "get_timestamp 34 (fwd_head p i c h) = get_timestamp 34 h"
proof -
  show "correctionField (fwd_head p i c h) = s64 c"
    using correction_wr [of h c] assms
    by (simp add: correctionField_def fwd_head_def set_sourcePort_def set_logMessageInterval_def set_correctionField_def)
  show "rd F_sourcePort (fwd_head p i c h) = unat p"
    using assms unsigned_less [of p, where 'a = nat] by (simp add: fwd_head_unfold)
qed (use assms in \<open>simp_all add: fwd_head_unfold messageType_def sequenceId_def get_timestamp_def\<close>)

lemma update_nth_same: "(xs[n := y]) ! n = (if n < length xs then y else xs ! n)"
  by (simp add: list_update_beyond not_less)

lemma port_upd_pmsgs: "p_id (port n (upd_pmsgs n f w)) = p_id (port n w)" "p_index (port n (upd_pmsgs n f w)) = p_index (port n w)"
  by (simp_all add: upd_pmsgs_def upd_port_def upd_clock_def update_nth_same)

lemma head_append:
  assumes "44 \<le> length h"
  shows "correctionField (h @ t) = correctionField h" "sequenceId (h @ t) = sequenceId h"
    "get_timestamp 34 (h @ t) = get_timestamp 34 h" "rd F_sourcePort (h @ t) = rd F_sourcePort h"
    "rd F_messageLength (h @ t) = rd F_messageLength h"
  using assms by (simp_all add: rd_append correctionField_def sequenceId_def get_timestamp_def)

lemma fwd_fup_sent:
  assumes "msg_wf head hs t" and "messageType head = FOLLOW_UP_MSG" and "m = head @ concat hs @ t"
    and "rd F_messageLength head \<le> length m" and "rd F_messageLength head \<le> length (w_tx w)"
  shows "\<exists>b net w'. port_fwd_fup n m r w = Some w' \<and> ptp_msg_rx net = Some b \<and>
    w_out w' = w_out w @ [E_tx_msg net (p_index (port n w)) (port_bit (p_index (port n w))) 7
      (cmsgs cm_transport w \<noteq> 0) (cmsgs cm_vid w) 0 0 None] \<and>
    correctionField b = s64 (correctionField m + r) \<and> sequenceId b = sequenceId m \<and>
    get_timestamp 34 b = get_timestamp 34 m \<and> rd F_sourcePort b = unat (p_id (port n w))"
proof -
  let ?L = "rd F_messageLength head" and ?c = "s64 (correctionField m + r)"
  obtain d where wf: "length head = 44" "?L = 44 + length (concat hs) + d"
    using assms(1,2) by (auto simp: msg_wf_def body_size_def)
  have m: "rd F_messageLength m = ?L" "correctionField m = correctionField head" "sequenceId m = sequenceId head"
    "get_timestamp 34 m = get_timestamp 34 head" "inb F_messageLength m"
    using wf assms(3) by (simp_all add: head_append)
  define t' where "t' = take d t @ drop ?L (w_tx w)"
  have copy: "clock_get_msg m (w_tx w) = Some (head @ concat hs @ t')"
    using m wf assms(3-5) by (simp add: clock_get_msg_def copy_msg_def Let_def t'_def)
  let ?h = "fwd_head (p_id (port n w)) (p_logSyncInterval (port n w)) ?c head"
  note h = fwd_head_facts [of head "p_id (port n w)" "p_logSyncInterval (port n w)" ?c]
  have wf': "msg_wf ?h hs t'" using assms(1) wf h by (simp add: msg_wf_def)
  obtain net where net: "ptp_msg_tx (?h @ concat hs @ t') = Some net" "ptp_msg_rx net = Some (?h @ concat hs @ t')"
    using ptp_msg_round_trip [OF wf'] by auto
  have b: "fwd_head (p_id (port n w)) (p_logSyncInterval (port n w)) ?c (head @ concat hs @ t') = ?h @ concat hs @ t'"
    using wf by (simp add: fwd_head_append)
  have cf: "correctionField (head @ concat hs @ t') = correctionField m"
    using wf by (simp add: assms(3) head_append)
  let ?v = "upd_tx_sync n msg_info_clear w"
  have v: "p_id (port n ?v) = p_id (port n w)" "p_index (port n ?v) = p_index (port n w)" "cmsgs f ?v = cmsgs f w"
    "w_out ?v = w_out w" for f
    by (simp_all add: upd_tx_sync_def port_upd_pmsgs) (simp_all add: world_upd)
  let ?w = "ptp_tx_msg net (p_index (port n ?v)) (port_bit (p_index (port n ?v))) 0 0 None ?v"
  have run: "port_fwd_fup n m r w = Some ?w"
    using copy b net(1) cf by (simp add: port_fwd_fup_def Let_def fwd_head_def)
  have "w_out ?w = w_out w @ [E_tx_msg net (p_index (port n w)) (port_bit (p_index (port n w))) 7
      (cmsgs cm_transport w \<noteq> 0) (cmsgs cm_vid w) 0 0 None]"
    by (simp add: ptp_tx_msg_def emit_def v)
  moreover have "correctionField (?h @ concat hs @ t') = ?c" "sequenceId (?h @ concat hs @ t') = sequenceId m"
    "get_timestamp 34 (?h @ concat hs @ t') = get_timestamp 34 m" "rd F_sourcePort (?h @ concat hs @ t') = unat (p_id (port n w))"
    using h wf m(2-4) by (simp_all add: head_append)
  ultimately show ?thesis using run net(2) by blast
qed

text \<open>The residence time, in nanoseconds: what \<open>ptp_fwd_fup\<close> adds to the correction.\<close>

definition residence_ns :: "nat \<Rightarrow> world \<Rightarrow> int" where
  "residence_ns n w =
     (utime_val (mi_hw_time (pmsgs pm_tx_sync n w)) - utime_val (cmsgs cm_last_sync_rx w)) div 2 ^ 16 +
     cd_meanPathDelay (c_cur (w_clock w)) div 2 ^ 16"

lemma utime_nsec_exact: "utime_nsec u = uint (ut_sec u) * 1000000000 + uint (ut_nsec u)"
proof -
  note r = u32_range [of "ut_sec u"] u32_range [of "ut_nsec u"]
  have "s64 (uint (ut_sec u) * 1000000000) = uint (ut_sec u) * 1000000000" using r by - (rule s64_id; linarith)
  moreover have "s64 (uint (ut_sec u) * 1000000000 + uint (ut_nsec u)) = uint (ut_sec u) * 1000000000 + uint (ut_nsec u)"
    using r by - (rule s64_id; linarith)
  ultimately show ?thesis by (simp add: utime_nsec_def)
qed

lemma first_forward_known:
  assumes "ut_sec (cmsgs cm_last_sync_rx w) \<noteq> 0"
  shows "\<exists>b x. first_forward n w = Some (b, upd_cmsgs (\<lambda>c. c\<lparr>cm_first_sync_tx := x\<rparr>) w)"
proof (cases "ut_sec (cmsgs cm_first_sync_tx w) = 0")
  case True
  have "first_forward n w =
      Some (True, upd_cmsgs (\<lambda>c. c\<lparr>cm_first_sync_tx := mi_hw_time (pmsgs pm_tx_sync n w)\<rparr>) w)"
    using assms True by (simp add: first_forward_def Let_def world_upd)
  then show ?thesis by blast
next
  case False
  have "first_forward n w = Some (False, upd_cmsgs (\<lambda>c. c\<lparr>cm_first_sync_tx := cmsgs cm_first_sync_tx w\<rparr>) w)"
    using False by (simp add: first_forward_def Let_def world_upd)
  then show ?thesis by blast
qed

definition same_but_msgs :: "world \<Rightarrow> world \<Rightarrow> bool" where
  "same_but_msgs v w \<longleftrightarrow> w_tx v = w_tx w \<and> w_out v = w_out w \<and> w_msgs v = w_msgs w \<and>
     c_ports (w_clock v) = c_ports (w_clock w) \<and> c_cur (w_clock v) = c_cur (w_clock w) \<and>
     cmsgs cm_transport v = cmsgs cm_transport w \<and> cmsgs cm_vid v = cmsgs cm_vid w \<and>
     cmsgs cm_last_sync_rx v = cmsgs cm_last_sync_rx w"

lemma fwd_fup_residence:
  assumes "ut_sec (cmsgs cm_last_sync_rx w) \<noteq> 0"
    and "utime_val (cmsgs cm_last_sync_rx w) \<le> utime_val (mi_hw_time (pmsgs pm_tx_sync n w))"
    and "slot_msg Last_fup w = Some (a, m)" and "\<bar>cd_meanPathDelay (c_cur (w_clock w))\<bar> < 2 ^ 62"
    and "\<bar>residence_ns n w\<bar> < 2 ^ 46"
  shows "\<exists>v. ptp_fwd_fup n w = port_fwd_fup n (m_msg m) (residence_ns n w * 2 ^ 16) v \<and> same_but_msgs v w"
proof -
  obtain b x where ff: "first_forward n w = Some (b, upd_cmsgs (\<lambda>c. c\<lparr>cm_first_sync_tx := x\<rparr>) w)"
    using first_forward_known [OF assms(1)] by blast
  let ?v = "upd_cmsgs (\<lambda>c. c\<lparr>cm_first_sync_tx := x\<rparr>) w"
  have v: "same_but_msgs ?v w" by (simp add: same_but_msgs_def world_upd)
  let ?rx = "cmsgs cm_last_sync_rx w" and ?tx = "mi_hw_time (pmsgs pm_tx_sync n w)"
  note r = u32_range [of "ut_sec ?rx"] u32_range [of "ut_nsec ?rx"] u32_range [of "ut_sec ?tx"] u32_range [of "ut_nsec ?tx"]
  have ord: "utime_nsec ?rx \<le> utime_nsec ?tx" using assms(2) by (simp add: utime_nsec_exact utime_val_def)
  have d: "s64 (utime_nsec ?tx - utime_nsec ?rx) = utime_nsec ?tx - utime_nsec ?rx"
    unfolding utime_nsec_exact using r by - (rule s64_id; linarith)
  have "utime_val ?tx - utime_val ?rx = (utime_nsec ?tx - utime_nsec ?rx) * 2 ^ 16"
    by (simp add: utime_val_def utime_nsec_exact)
  then have res: "residence_ns n w = utime_nsec ?tx - utime_nsec ?rx + cd_meanPathDelay (c_cur (w_clock w)) div 2 ^ 16"
    unfolding residence_ns_def by simp
  have sl: "slot_of Last_fup w = Some a" "mh_msgs (st_heap (w_msgs w)) a = Some m"
    using assms(3) by (auto simp: slot_msg_def get_msg_def elim!: bind_runE)
  have "s64 (residence_ns n w) = residence_ns n w" "s64 (residence_ns n w * 2 ^ 16) = residence_ns n w * 2 ^ 16"
    using assms(5) by (auto intro!: s64_id)
  then have "ptp_fwd_fup n w = port_fwd_fup n (m_msg m) (residence_ns n w * 2 ^ 16)
      (if b then upd_cmsgs (\<lambda>c. c\<lparr>cm_residence := residence_ns n w\<rparr>) ?v else ?v)"
    using v ord d sl unfolding ptp_fwd_fup_def ff
    by (simp add: same_but_msgs_def slot_msg_def get_msg_def res Let_def)
  moreover have "same_but_msgs (upd_cmsgs (\<lambda>c. c\<lparr>cm_residence := residence_ns n w\<rparr>) ?v) w"
    by (simp add: same_but_msgs_def world_upd)
  ultimately show ?thesis using v by (metis (full_types))
qed

end
