(* ===== verification/Announce_props.thy ===== *)
theory Announce_props
  imports Sync_props
begin

text \<open>
  The Announce a master builds says what its parent data set says, and a
  receiver reads just that out of it.
\<close>

lemma rd_put_disj:
  "k + length bs \<le> length m \<Longrightarrow> disj (k, length bs) g \<Longrightarrow> rd g (put_bytes k bs m) = rd g m"
  by (cases g) (auto simp: put_bytes_def rd.simps drop_append take_append take_drop_take)

lemma get_wr_disj: "inb f m \<Longrightarrow> disj f (k, n) \<Longrightarrow> get_bytes k n (wr f v m) = get_bytes k n m"
  by (cases f) (auto simp: get_bytes_def wr.simps drop_append take_append take_drop_take)

lemma get_put_disj:
  "j + length bs \<le> length m \<Longrightarrow> disj (j, length bs) (k, n) \<Longrightarrow> get_bytes k n (put_bytes j bs m) = get_bytes k n m"
  by (auto simp: get_bytes_def put_bytes_def drop_append take_append take_drop_take)

lemma length_memset [simp]: "k + n \<le> length m \<Longrightarrow> length (memset k b n m) = length m"
  by (simp add: memset_def)

lemma rd_memset: "k + n \<le> length m \<Longrightarrow> disj (k, n) g \<Longrightarrow> rd g (memset k b n m) = rd g m"
  using rd_put_disj [of k "replicate n b" m g] by (simp add: memset_def)

lemma get_memset: "j + i \<le> length m \<Longrightarrow> disj (j, i) (k, n) \<Longrightarrow> get_bytes k n (memset j b i m) = get_bytes k n m"
  using get_put_disj [of j "replicate i b" m k n] by (simp add: memset_def)

lemma set_bit_facts:
  assumes "7 < length m"
  shows "length (set_bit_of 7 i m) = length m" "disj (7, 1) g \<Longrightarrow> rd g (set_bit_of 7 i m) = rd g m"
    "disj (7, 1) (k, n) \<Longrightarrow> get_bytes k n (set_bit_of 7 i m) = get_bytes k n m"
  using assms by (auto simp: set_bit_of_def get_wr_disj)

text \<open>The header: its type, length, domain and clock.\<close>

lemma prep_facts:
  assumes "34 \<le> length m" and "length cid = 8" and "message < 16" and "len + 34 < 65536"
  shows "length (ptp_prep_hdr tr message len dm ctrl iv cid m) = length m"
    "messageType (ptp_prep_hdr tr message len dm ctrl iv cid m) = message"
    "rd F_messageLength (ptp_prep_hdr tr message len dm ctrl iv cid m) = len + 34"
    "get_bytes 20 8 (ptp_prep_hdr tr message len dm ctrl iv cid m) = cid"
proof -
  have l: "length (memset 0 0 34 m) = length m" using assms(1) by simp
  show "length (ptp_prep_hdr tr message len dm ctrl iv cid m) = length m"
    using assms l by (simp add: ptp_prep_hdr_def Let_def)
  have "unat tr mod 16 < 16" by simp
  then have "message mod 16 + 16 * (unat tr mod 16) < 256" using assms(3) by linarith
  then show "messageType (ptp_prep_hdr tr message len dm ctrl iv cid m) = message"
    using assms l by (simp add: ptp_prep_hdr_def Let_def messageType_def rd_put_disj)
  show "rd F_messageLength (ptp_prep_hdr tr message len dm ctrl iv cid m) = len + 34"
    using assms l by (simp add: ptp_prep_hdr_def Let_def rd_put_disj)
  have "get_bytes 20 8 (put_bytes 20 cid x) = cid" if "length x = length m" for x
    using assms that by (simp add: get_bytes_def put_bytes_def)
  then show "get_bytes 20 8 (ptp_prep_hdr tr message len dm ctrl iv cid m) = cid"
    using assms l by (simp add: ptp_prep_hdr_def Let_def get_wr_disj)
qed


text \<open>The body: the grandmaster of the parent data set.\<close>

lemma get_put_same: "k + length bs \<le> length m \<Longrightarrow> n = length bs \<Longrightarrow> get_bytes k n (put_bytes k bs m) = bs"
  by (simp add: get_put_bytes)

lemma unat8_less: "unat (v :: u8) < 256"
  using unsigned_less [of v, where 'a = nat] by simp

lemma unat16_less: "unat (v :: u16) < 65536"
  using unsigned_less [of v, where 'a = nat] by simp

lemmas field_rules = rd_put_disj rd_memset get_wr_disj get_put_disj get_memset get_put_same set_bit_facts

lemma announce_first_half:
  assumes "64 \<le> length x" and "b < 256" and "d < 256" and "e < 256"
    and y: "y = wr (49, 1) e (wr (48, 1) d (wr (47, 1) b (wr (46, 1) 0 (wr (44, 2) a x))))"
  shows "length y = length x" "fst g + snd g \<le> 44 \<Longrightarrow> rd g y = rd g x" "k + n \<le> 44 \<Longrightarrow> get_bytes k n y = get_bytes k n x"
    "rd (47, 1) y = b" "rd (48, 1) y = d" "rd (49, 1) y = e"
  unfolding y using assms(1-4) by (cases g; simp add: get_wr_disj; fail)+

lemma announce_second_half:
  assumes "64 \<le> length x" and "a < 65536" and "b < 256" and "length i = 8"
    and y: "y = wr (63, 1) e (wr (61, 2) 0 (put_bytes 53 i (wr (52, 1) b (wr (50, 2) a x))))"
  shows "length y = length x" "fst g + snd g \<le> 50 \<Longrightarrow> rd g y = rd g x" "k + n \<le> 50 \<Longrightarrow> get_bytes k n y = get_bytes k n x"
    "rd (50, 2) y = a" "rd (52, 1) y = b" "get_bytes 53 8 y = i" "rd (61, 2) y = 0"
  unfolding y using assms(1-4) by (cases g; simp add: field_rules; fail)+

lemma announce_facts:
  assumes "64 \<le> length t" and "length (c_id c) = 8" and "length (pr_grandmasterIdentity (c_pds c)) = 8"
  defines "m \<equiv> ptp_init_announce c t"
  shows "length m = length t" "messageType m = ANNOUNCE_MSG" "rd F_messageLength m = 64" "get_bytes 20 8 m = c_id c"
    "rd F_grandmasterPriority1 m = unat (pr_grandmasterPriority1 (c_pds c))"
    "rd F_grandmasterPriority2 m = unat (pr_grandmasterPriority2 (c_pds c))" "rd F_stepsRemoved m = 0"
    "get_bytes 53 8 m = pr_grandmasterIdentity (c_pds c)"
    "rd F_clockClass m = unat (q_class (pr_grandmasterClockQuality (c_pds c)))"
    "rd F_clockAccuracy m = unat (q_accuracy (pr_grandmasterClockQuality (c_pds c)))"
    "rd F_clockVariance m = unat (q_variance (pr_grandmasterClockQuality (c_pds c)))"
proof -
  let ?h = "prep c ANNOUNCE_MSG 30 CTL_OTHER (c_logAnnounceInterval c) t"
  define h where "h = (if cm_utc_offset (c_msgs c) \<noteq> 0 then set_bit_of 7 2 ?h else ?h)"
  define x where "x = memset 34 0 10 (wr F_sourcePort (c_cnt c + 1) h)"
  define y where "y = wr (49, 1) (unat (q_accuracy (pr_grandmasterClockQuality (c_pds c))))
    (wr (48, 1) (unat (q_class (pr_grandmasterClockQuality (c_pds c))))
    (wr (47, 1) (unat (pr_grandmasterPriority1 (c_pds c)))
    (wr (46, 1) 0 (wr (44, 2) (nat (cm_utc_offset (c_msgs c) mod 65536)) x))))"
  have m: "m = wr (63, 1) (unat (cm_time_source (c_msgs c))) (wr (61, 2) 0
    (put_bytes 53 (pr_grandmasterIdentity (c_pds c)) (wr (52, 1) (unat (pr_grandmasterPriority2 (c_pds c)))
    (wr (50, 2) (unat (q_variance (pr_grandmasterClockQuality (c_pds c)))) y))))"
    unfolding m_def ptp_init_announce_def Let_def y_def x_def h_def ..
  note p = prep_facts [of t "c_id c" ANNOUNCE_MSG 30]
  have lp: "length ?h = length t" using assms(1,2) by (simp add: p)
  have h: "length h = length t" "messageType h = ANNOUNCE_MSG" "rd F_messageLength h = 64" "get_bytes 20 8 h = c_id c"
    using assms(1,2) lp p unfolding h_def by (auto simp: set_bit_facts messageType_def)
  have x: "length x = length t" "messageType x = ANNOUNCE_MSG" "rd F_messageLength x = 64" "get_bytes 20 8 x = c_id c"
    using h assms(1) unfolding x_def by (simp_all add: field_rules messageType_def)
  note y = announce_first_half [OF _ unat8_less unat8_less unat8_less y_def, unfolded x(1), OF assms(1)]
  note z = announce_second_half [OF _ unat16_less unat8_less assms(3) m, unfolded y(1), OF assms(1)]
  show "length m = length t" "messageType m = ANNOUNCE_MSG" "rd F_messageLength m = 64" "get_bytes 20 8 m = c_id c"
    using x y(2,3) z(1-3) by (simp_all add: messageType_def)
  show "rd F_grandmasterPriority1 m = unat (pr_grandmasterPriority1 (c_pds c))"
    "rd F_clockClass m = unat (q_class (pr_grandmasterClockQuality (c_pds c)))"
    "rd F_clockAccuracy m = unat (q_accuracy (pr_grandmasterClockQuality (c_pds c)))"
    using y(4-6) z(2) by simp_all
  show "rd F_grandmasterPriority2 m = unat (pr_grandmasterPriority2 (c_pds c))" "rd F_stepsRemoved m = 0"
    "get_bytes 53 8 m = pr_grandmasterIdentity (c_pds c)"
    "rd F_clockVariance m = unat (q_variance (pr_grandmasterClockQuality (c_pds c)))"
    using z(4-7) by simp_all
qed

text \<open>What a receiver makes of it.\<close>

definition announced_ds :: "ptp_clock \<Rightarrow> u16 \<Rightarrow> nat \<Rightarrow> world \<Rightarrow> bmc_dataset" where
  "announced_ds c pid n w =
     \<lparr>ds_prio_1 = pr_grandmasterPriority1 (c_pds c), ds_prio_2 = pr_grandmasterPriority2 (c_pds c), ds_steps_removed = 0,
      ds_id = pr_grandmasterIdentity (c_pds c), ds_quality = pr_grandmasterClockQuality (c_pds c),
      ds_rx = \<lparr>pi_clock = c_id (w_clock w), pi_port = p_id (port n w)\<rparr>,
      ds_tx = \<lparr>pi_clock = c_id c, pi_port = pid\<rparr>\<rparr>"

lemma rd_take: "fst g + snd g \<le> k \<Longrightarrow> rd g (take k m) = rd g m"
  by (cases g) (simp add: rd.simps get_bytes_def drop_take min_def)

lemma get_take: "j + n \<le> k \<Longrightarrow> get_bytes j n (take k m) = get_bytes j n m"
  by (simp add: get_bytes_def drop_take min_def)

definition announce_of :: "ptp_clock \<Rightarrow> byte_list \<Rightarrow> u16 \<Rightarrow> u16 \<Rightarrow> byte_list" where
  "announce_of c t sq pid = set_sourcePort pid (set_sequenceId sq (take 64 (ptp_init_announce c t)))"

lemma announce_of_facts:
  assumes "64 \<le> length t" and "length (c_id c) = 8" and "length (pr_grandmasterIdentity (c_pds c)) = 8"
    and h_def: "h = announce_of c t sq pid"
  shows "msg_wf h [] r" "length h = 64" "sequenceId (h @ r) = sq" "announce_to_dataset (h @ r) n w = announced_ds c pid n w"
proof -
  define x where "x = take 64 (ptp_init_announce c t)"
  note f = announce_facts [OF assms(1-3)]
  have l: "length x = 64" using f(1) assms(1) by (simp add: x_def)
  have h: "h = wr F_sourcePort (unat pid) (wr F_sequenceId (unat sq) x)"
    by (simp add: h_def announce_of_def set_sourcePort_def set_sequenceId_def x_def)
  show lh: "length h = 64" using l by (simp add: h)
  have x: "messageType x = ANNOUNCE_MSG" "rd F_messageLength x = 64" "get_bytes 20 8 x = c_id c" "get_bytes 53 8 x = pr_grandmasterIdentity (c_pds c)"
    using f by (simp_all add: x_def messageType_def rd_take get_take)
  have "messageType h = ANNOUNCE_MSG" "rd F_messageLength h = 64"
    using x(1,2) l by (simp_all add: h messageType_def)
  then show "msg_wf h [] r" using lh by (simp add: msg_wf_def body_size_def fixed_types_def)
  show "sequenceId (h @ r) = sq" using l lh by (simp add: sequenceId_def rd_append h unat16_less)
  have "get_bytes 20 8 (h @ r) = c_id c" "get_bytes 53 8 (h @ r) = pr_grandmasterIdentity (c_pds c)"
    using x l lh get_take [of 20 8 64 "h @ r"] get_take [of 53 8 64 "h @ r"] by (simp_all add: h get_wr_disj)
  moreover have "rd F_sourcePort (h @ r) = unat pid" using l lh by (simp add: rd_append h unat16_less)
  moreover have "rd g (h @ r) = rd g (ptp_init_announce c t)" if "34 \<le> fst g" "fst g + snd g \<le> 64" for g
  proof -
    have "rd g h = rd g x" using that l unfolding h by (cases g) simp
    then show ?thesis using that lh by (cases g) (simp add: rd_append x_def rd_take)
  qed
  ultimately show "announce_to_dataset (h @ r) n w = announced_ds c pid n w"
    using f by (simp add: announce_to_dataset_def announced_ds_def)
qed

lemma port_upd_pmsgs_rest:
  "p_flags (port n (upd_pmsgs n f w)) = p_flags (port n w)" "p_portmap (port n (upd_pmsgs n f w)) = p_portmap (port n w)"
  "w_msgs (upd_pmsgs n f w) = w_msgs w" "w_out (upd_pmsgs n f w) = w_out w"
  by (simp_all add: upd_pmsgs_def upd_port_def upd_clock_def update_nth_same)

lemma finish_sent:
  assumes "get_msg a w = Some m" and "ptp_msg_tx b = Some net"
  shows "\<exists>w' m'. finish_tx a b i p w = Some w' \<and> st_queue (w_msgs w') = st_queue (w_msgs w) @ [a] \<and>
    get_msg a w' = Some m' \<and> sa_tx (m_save m') \<and> sa_portmap (m_save m') = p \<and> m_msg m' = net \<and>
    m_refcnt m' = m_refcnt m \<and> w_out w' = w_out w"
  using assms by (simp add: finish_tx_def get_msg_def set_msg_def on_msgs_def on_heap_def upd_msg_def save_tx_def
      ptp_save_tx_msg_def queue_send_def)

lemma announce_sent:
  assumes "64 \<le> length t" and "length (c_id c) = 8" and "length (pr_grandmasterIdentity (c_pds c)) = 8"
    and "cm_ann_template (c_msgs (w_clock w)) = ptp_init_announce c t"
    and "p_state (port n w) = PTP_S_MASTER" and "port_capable (port n w)"
    and "\<not> flag fl_no_id_replace n w" and "\<not> flag fl_path_trace n w"
    and "mh_malloc (st_heap (w_msgs w)) (mh_next (st_heap (w_msgs w))) 100 = Some mem" and "length mem = 100"
  shows "\<exists>w' m b. port_tx_announce n w = Some w' \<and>
    st_queue (w_msgs w') = st_queue (w_msgs w) @ [mh_next (st_heap (w_msgs w))] \<and>
    get_msg (mh_next (st_heap (w_msgs w))) w' = Some m \<and> sa_tx (m_save m) \<and> sa_portmap (m_save m) = p_portmap (port n w) \<and>
    m_refcnt m = 1 \<and> w_out w' = w_out w \<and>
    ptp_msg_rx (m_msg m) = Some b \<and> sequenceId b = pmsgs pm_seqid_ann n w \<and>
    (\<forall>k v. announce_to_dataset b k v = announced_ds c (p_id (port n w)) k v)"
proof -
  let ?sq = "pmsgs pm_seqid_ann n w" and ?r = "drop 64 mem" and ?pid = "p_id (port n w)"
  note f = announce_facts [OF assms(1-3)] and h = announce_of_facts [OF assms(1-3) refl, of ?sq ?pid]
  let ?b = "announce_of c t ?sq ?pid @ ?r"
  obtain net where net: "ptp_msg_tx ?b = Some net" "ptp_msg_rx net = Some ?b"
    using ptp_msg_round_trip [OF h(1)] by auto
  have copy: "clock_new_msg (w_clock v) ANNOUNCE_MSG mem = Some (take 64 (ptp_init_announce c t) @ ?r)"
    if "c_msgs (w_clock v) = c_msgs (w_clock w)" for v
    using that f assms(1,4,10) by (simp add: clock_new_msg_def copy_msg_def Let_def)
  have b: "set_sourcePort ?pid (set_sequenceId ?sq (take 64 (ptp_init_announce c t) @ ?r)) = ?b"
    using f(1) assms(1) by (simp add: set_sourcePort_def set_sequenceId_def announce_of_def wr_append)
  let ?a = "mh_next (st_heap (w_msgs w))"
  obtain v where v: "alloc_new 100 w = Some (Some ?a, v)" "w_clock v = w_clock w" "get_msg ?a v = Some (new_message None mem)"
    "st_queue (w_msgs v) = st_queue (w_msgs w)" "w_out v = w_out w"
    using assms(9) by (simp add: alloc_new_def alloc_msg_def Let_def fill_msg_def get_msg_def)
  let ?u = "upd_pmsgs n (\<lambda>m. m\<lparr>pm_seqid_ann := pm_seqid_ann m + 1\<rparr>) v"
  have run: "port_tx_announce n w = finish_tx ?a ?b (p_index (port n ?u)) (p_portmap (port n w)) ?u"
    using assms(5-8) v copy [of v] b
    by (simp add: port_tx_announce_def new_in_def new_message_def Let_def port_upd_pmsgs port_upd_pmsgs_rest)
  have u: "get_msg ?a ?u = Some (new_message None mem)" "st_queue (w_msgs ?u) = st_queue (w_msgs w)" "w_out ?u = w_out w"
    using v by (simp_all add: get_msg_def port_upd_pmsgs_rest)
  obtain w' m where "port_tx_announce n w = Some w'" "st_queue (w_msgs w') = st_queue (w_msgs w) @ [?a]"
      "get_msg ?a w' = Some m" "sa_tx (m_save m)" "sa_portmap (m_save m) = p_portmap (port n w)" "m_msg m = net"
      "m_refcnt m = 1" "w_out w' = w_out w"
    using finish_sent [OF u(1) net(1), of "p_index (port n ?u)" "p_portmap (port n w)"]
    unfolding run u(2,3) by (auto simp: new_message_def)
  then show ?thesis using net(2) h(3,4) by blast
qed

text \<open>The process task sends a queued message and gives its buffer back.\<close>

lemma process_sends:
  assumes "st_queue (w_msgs w) = a # q" and "get_msg a w = Some m" and "sa_tx (m_save m)" and "m_refcnt m = 1"
  shows "\<exists>w'. process_msg w = Some w' \<and> get_msg a w' = None \<and> st_queue (w_msgs w') = q \<and>
    w_out w' = w_out w @ [E_tx_msg (m_msg m) (sa_index (m_save m)) (sa_portmap (m_save m)) (sa_queue (m_save m))
      (sa_udp (m_save m)) (sa_vid (m_save m)) (sa_sec (m_save m)) (sa_nsec (m_save m)) None]"
  using assms by (simp add: process_msg_def get_msg_def emit_def release_def on_msgs_def on_heap_def msg_put_def
      upd_msg_def free_msg_def Let_def)

end
