(* ===== verification/Sample_stack.thy ===== *)
theory Sample_stack
  imports Announce_props
begin

text \<open>
  Concrete messages and clocks for the examples on whole messages: a gPTP clock,
  a master about to send an Announce, a bridge that holds a Follow_Up, a port
  with several responders, and messages of the network.
\<close>

declare One_nat_def [simp del]

lemma sample_mem: "mem_ok (w_msgs sample_world) []"
  by (simp add: sample_world_def sample_store_def mem_ok_def store_ok_def counted_def refs_def slot_refs_def)

lemma run_refl: "stack_run w w"
  by (simp add: stack_run_def)

lemma run_step: "stack_run u v \<Longrightarrow> stack_step v w \<Longrightarrow> stack_run u w"
  unfolding stack_run_def by (rule rtranclp.rtrancl_into_rtrancl)

lemma delete_queue: "clock_delete_ptp_msg w = Some w' \<Longrightarrow> st_queue (w_msgs w') = st_queue (w_msgs w)"
  unfolding clock_delete_ptp_msg_def by (auto elim!: bind_runE dest!: contract_content(5) simp: quiet_def)

definition traced_sample :: byte_list where
  "traced_sample = wr F_messageLength 64 (replicate 100 0)"

lemma traced_sample_facts: "messageLength traced_sample = 64" "length traced_sample = 100"
  by (simp_all add: traced_sample_def messageLength_def)

definition gptp_world :: world where
  "gptp_world = upd_cmsgs (\<lambda>c. c\<lparr>cm_specific := 1\<rparr>) sample_world"

lemma gptp_world_facts:
  "port n gptp_world = port n sample_world" "c_id (w_clock gptp_world) = sample_id 9"
  "w_msgs gptp_world = sample_store" "cmsgs cm_specific gptp_world = 1" "cmsgs cm_domain gptp_world = 0"
  by (simp_all add: gptp_world_def upd_cmsgs_def upd_clock_def sample_world_def sample_clock_def sample_clock_msgs_def)

definition master_world :: world where
  "master_world =
     upd_port 1 (\<lambda>p. p\<lparr>p_state := PTP_S_MASTER, p_flags := (p_flags p)\<lparr>fl_path_trace := False\<rparr>\<rparr>)
       (upd_cmsgs (\<lambda>c. c\<lparr>cm_ann_template := ptp_init_announce sample_clock (replicate 64 0)\<rparr>) sample_world)"

lemma master_world_facts:
  "cm_ann_template (c_msgs (w_clock master_world)) = ptp_init_announce sample_clock (replicate 64 0)"
  "p_state (port 1 master_world) = PTP_S_MASTER" "p_flags (port 1 master_world) = sample_flags\<lparr>fl_path_trace := False\<rparr>"
  "w_msgs master_world = sample_store" "p_id (port 1 master_world) = 1"
proof -
  let ?u = "upd_cmsgs (\<lambda>c. c\<lparr>cm_ann_template := ptp_init_announce sample_clock (replicate 64 0)\<rparr>) sample_world"
  have "port 1 ?u = sample_port 1 [sample_master 1 6 1, empty_foreign]" "1 < length (c_ports (w_clock ?u))"
    by (simp_all add: world_upd sample_port_nth) (simp add: sample_world_def sample_clock_def)
  then have p: "port 1 master_world = (sample_port 1 [sample_master 1 6 1, empty_foreign])
      \<lparr>p_state := PTP_S_MASTER, p_flags := sample_flags\<lparr>fl_path_trace := False\<rparr>\<rparr>"
    by (simp add: master_world_def port_upd_port) (simp add: sample_port_def)
  show "p_state (port 1 master_world) = PTP_S_MASTER" "p_flags (port 1 master_world) = sample_flags\<lparr>fl_path_trace := False\<rparr>"
    "p_id (port 1 master_world) = 1"
    by (simp_all add: p) (simp add: sample_port_def)
qed (simp_all add: master_world_def world_upd sample_world_def)

definition sample_head :: "nat \<Rightarrow> byte_list" where
  "sample_head type = wr F_messageLength 44 (set_twoStepFlag (wr (0, 1) type (replicate 44 0)))"

definition sample_message :: "nat \<Rightarrow> ptp_message" where
  "sample_message type = new_message (Some \<lparr>ut_sec = 10, ut_nsec = 250\<rparr>) (sample_head type)"

lemma le_val_zero: "le_val (replicate n 0) = 0"
  by (induction n) simp_all

lemma sample_head_facts:
  assumes "type < 16"
  shows "length (sample_head type) = 44" "messageType (sample_head type) = type" "rd F_messageLength (sample_head type) = 44"
    "sequenceId (sample_head type) = 0" "correctionField (sample_head type) = 0" "twoStepFlag (sample_head type)"
    "get_timestamp 34 (sample_head type) = Some \<lparr>ts_hi = 0, ts_lo = 0, ts_nsec = 0\<rparr>"
proof -
  have z: "rd (k, n) (replicate 44 0) = 0" for k n
    by (simp add: rd.simps get_bytes_def le_val_zero)
  show "length (sample_head type) = 44" "messageType (sample_head type) = type" "rd F_messageLength (sample_head type) = 44"
    "sequenceId (sample_head type) = 0" "correctionField (sample_head type) = 0" "twoStepFlag (sample_head type)"
    "get_timestamp 34 (sample_head type) = Some \<lparr>ts_hi = 0, ts_lo = 0, ts_nsec = 0\<rparr>"
    using assms by (simp_all add: sample_head_def set_bit_of_def messageType_def sequenceId_def correctionField_def
        bit_of_def get_timestamp_def z s64_id)
qed

definition bridge_world :: world where
  "bridge_world =
     upd_pmsgs 1 (\<lambda>m. m\<lparr>pm_tx_sync := (pm_tx_sync m)\<lparr>mi_hw_time := \<lparr>ut_sec = 10, ut_nsec = 1250\<rparr>\<rparr>\<rparr>)
       (upd_cmsgs (\<lambda>c. c\<lparr>cm_last_sync_rx := \<lparr>ut_sec = 10, ut_nsec = 250\<rparr>\<rparr>)
         (sample_world\<lparr>w_tx := replicate 100 0,
            w_msgs := sample_store\<lparr>st_heap := (st_heap sample_store)\<lparr>mh_msgs := [0 \<mapsto> sample_message 8], mh_next := 1, mh_cnt := 1\<rparr>,
                                   st_slot := [Last_fup \<mapsto> 0]\<rparr>\<rparr>))"

lemma bridge_world_facts:
  "cmsgs cm_last_sync_rx bridge_world = \<lparr>ut_sec = 10, ut_nsec = 250\<rparr>"
  "mi_hw_time (pmsgs pm_tx_sync 1 bridge_world) = \<lparr>ut_sec = 10, ut_nsec = 1250\<rparr>"
  "slot_msg Last_fup bridge_world = Some (0, sample_message 8)" "cd_meanPathDelay (c_cur (w_clock bridge_world)) = 0"
  "w_tx bridge_world = replicate 100 0"
proof -
  let ?u = "upd_cmsgs (\<lambda>c. c\<lparr>cm_last_sync_rx := \<lparr>ut_sec = 10, ut_nsec = 250\<rparr>\<rparr>)
         (sample_world\<lparr>w_tx := replicate 100 0,
            w_msgs := sample_store\<lparr>st_heap := (st_heap sample_store)\<lparr>mh_msgs := [0 \<mapsto> sample_message 8], mh_next := 1, mh_cnt := 1\<rparr>,
                                   st_slot := [Last_fup \<mapsto> 0]\<rparr>\<rparr>)"
  have "1 < length (c_ports (w_clock ?u))" by (simp add: world_upd) (simp add: sample_world_def sample_clock_def)
  then show "mi_hw_time (pmsgs pm_tx_sync 1 bridge_world) = \<lparr>ut_sec = 10, ut_nsec = 1250\<rparr>"
    by (simp add: bridge_world_def upd_pmsgs_def port_upd_port)
  show "slot_msg Last_fup bridge_world = Some (0, sample_message 8)"
    by (simp add: bridge_world_def world_upd slot_msg_def get_msg_def)
  show "cd_meanPathDelay (c_cur (w_clock bridge_world)) = 0"
    by (simp add: bridge_world_def world_upd) (simp add: sample_world_def sample_clock_def)
qed (simp_all add: bridge_world_def world_upd)

definition short_sync :: byte_list where
  "short_sync =
     [0x10, 2, 0, 36, 0, 0, 0, 0, 0, 0, 0, 0, 0, 0, 0, 0, 0, 0, 0, 0, 1, 2, 3, 4, 5, 6, 7, 8, 0, 1, 0, 0, 0, 0,
      0, 0, 0, 0, 0, 0, 0, 0, 0, 0]"

definition answering_info :: ptp_pdelay_info where
  "answering_info = sample_info\<lparr>dl_id := \<lparr>pi_clock = sample_id 5, pi_port = 1\<rparr>\<rparr>"

definition multi_world :: world where
  "multi_world =
     upd_port 1 (\<lambda>p. p\<lparr>p_multi_pdelay := Some (replicate 4 sample_info),
       p_msgs := (p_msgs p)\<lparr>pm_multi_resp := replicate 4 (sample_info_msg\<lparr>mi_valid := True\<rparr>), pm_multi_fup := replicate 4 sample_info_msg\<rparr>\<rparr>)
     sample_world"

text \<open>A message whose TLV is an error status: it is passed over.\<close>

definition status_message :: byte_list where
  "status_message =
     [0x1D, 2, 56, 0, 0, 0, 0, 0, 0, 0, 0, 0, 0, 0, 0, 0, 0, 0, 0, 0, 1, 2, 3, 4, 5, 6, 7, 8, 1, 0, 0, 0, 0, 0,
      0, 0, 0, 0, 0, 0, 0, 9, 1, 0, 0, 0, 1, 0, 2, 0, 4, 0, 5, 0x20, 7, 0]"

end
