(* ===== verification/Sample_boot.thy ===== *)
theory Sample_boot
  imports Setup_props Sample_stack
begin

text \<open>
  A switch with five ports whose stack is set up from the built-in configuration,
  for the examples.
\<close>

definition blank_clock :: ptp_clock where
  "blank_clock = sample_clock\<lparr>c_cnt := 0, c_portmap := 0, c_ports := [sample_port 0 []]\<rparr>"

definition blank_boot :: boot where
  "blank_boot = \<lparr>b_vars = initial_vars, b_clocks = replicate 3 blank_clock, b_ptr = [], b_world = sample_world\<rparr>"

definition default_env :: setup_env where
  "default_env =
     \<lparr>en_store = default_store, en_freq = (\<lambda>_. None), en_clk_domain = (3, replicate 8 0), en_median = (\<lambda>_. None),
      en_hw = replicate MAX_PTP_PORTS (sample_port 0 [])\<rparr>"

abbreviation (input) sample_mac :: byte_list where "sample_mac \<equiv> [0x00, 0x10, 0xA1, 0x94, 0x77, 0x01]"

lemma blank_fresh: "fresh_boot blank_boot"
  by (simp add: fresh_boot_def blank_boot_def blank_clock_def)

lemma default_ok: "config_ok default_store" "\<forall>f \<in> set (ptp_profiles default_store). f_domain f \<noteq> 255" "store_fits default_store"
  by code_simp+

lemma default_ptr: "b_ptr (init_stack default_env 5 sample_mac blank_boot) = [0]"
proof -
  define b0 where "b0 = (init_ptp_clocks default_store sample_mac blank_boot)\<lparr>b_world :=
     (b_world (init_ptp_clocks default_store sample_mac blank_boot))\<lparr>w_cfg := store_config default_store
       (w_cfg (b_world (init_ptp_clocks default_store sample_mac blank_boot)))\<rparr>, b_ptr := []\<rparr>"
  have f: "free_clock 0 b0" "b_ptr b0 = []"
    using init_clocks_free [of blank_boot 0 default_store sample_mac]
    by (simp_all add: b0_def free_clock_def) (simp add: blank_boot_def)
  have m: "f_ports (ptp_profiles default_store ! 0) AND switch_ports 5 \<noteq> 0" "f_ports (ptp_profiles default_store ! 1) = 0"
    "f_ports (ptp_profiles default_store ! 2) = 0" by code_simp+
  have "b_ptr (snd (create_clock default_env 0 (switch_ports 5, b0))) = [0]"
    using create_clock_takes [of 0 default_env "switch_ports 5" b0] f m by (simp add: default_env_def)
  moreover have "create_clock default_env i lb = lb" if "i = 1 \<or> i = 2" for i lb
    using create_clock_skip [of i default_env "fst lb" "snd lb"] that m by (auto simp: default_env_def)
  moreover have "[0..<3] = [0, 1, 2 :: nat]" by (simp add: upt_rec)
  moreover have "en_store default_env = default_store" by (simp add: default_env_def)
  ultimately show ?thesis by (simp add: init_stack_def Let_def b0_def)
qed

end
