(* ===== verification/Sock.thy ===== *)
theory Sock
  imports Dispatch Config
begin

text \<open>
  Frames and packets (\<^verbatim>\<open>ptp_sock.c\<close>): the two Ethernet headers that \<open>create_raw\<close>
  prepares, \<open>send_msg\<close>, which puts a message behind one of them or chooses a socket
  and an address of UDP, and the body of the loop of \<open>ReceiveTask\<close> for one packet.
  The sockets themselves, \<open>Sendto\<close> and \<open>Recvfrom\<close> are the operating system: a call
  of \<open>send_msg\<close> gives the socket, the address and the bytes that it passes to
  \<open>Sendto\<close>, a packet is a source address with the bytes received.  A copy outside
  a buffer is \<open>None\<close>.
\<close>

abbreviation (input) ETH_ALEN :: nat where "ETH_ALEN \<equiv> 6"

datatype sock_family = AF_INET | AF_INET6 | AF_PACKET

datatype sock_fd = Eth_fd | Event_fd | General_fd | Management4_fd

datatype send_addr =
    Eth_pdelay_addr | Eth_others_addr
  | Event_addr | Event_addr6 | P2p_event_addr | P2p_event_addr6
  | General_addr | General_addr6 | P2p_general_addr | P2p_general_addr6
  | Management_addr | Management_addr6

text \<open>
  A source address, with all that is compared of it: port and address, or the
  members of \<open>sockaddr_ll\<close>.  \<open>SA_unspec\<close> is a cleared one.
\<close>

datatype sockaddr =
    SA_unspec
  | SA_in u16 byte_list
  | SA_in6 u16 u32 byte_list u32
  | SA_ll u16 int u16 u8 u8 byte_list

record ip_info =
  ip_addr :: byte_list
  ip_addr6 :: byte_list
  ip_hwaddr :: byte_list
  ip_plen :: int
  ip_if_idx :: int

record sock_vars =
  so_family :: sock_family
  so_unicast :: bool
  so_eth_others :: byte_list
  so_pdelay_addr :: byte_list
  so_others_addr :: byte_list
  so_if_idx :: int
  so_pdelay_buf :: byte_list
  so_others_buf :: byte_list
  so_hw_addr :: byte_list
  so_host_addr :: byte_list
  so_host_addr6 :: byte_list
  so_self :: byte_list

subsection \<open>Addresses\<close>

text \<open>
  \<open>char\<close> is signed on some targets (x86) and unsigned on others (ARM): the first
  argument.  The byte is compared as a \<open>char\<close> with the old value in a \<open>u8\<close>.
\<close>

definition char_val :: "bool \<Rightarrow> u8 \<Rightarrow> int" where
  "char_val schar b = (if schar then sint b else uint b)"

definition inc_mac_addr :: "bool \<Rightarrow> byte_list \<Rightarrow> u8 \<Rightarrow> byte_list" where
  "inc_mac_addr schar addr inc =
     (let prev = addr ! 2; addr = addr[2 := addr ! 2 + inc]
      in if char_val schar (addr ! 2) < uint prev
         then (let prev = addr ! 1; addr = addr[1 := addr ! 1 + 1]
               in if char_val schar (addr ! 1) < uint prev then addr[0 := addr ! 0 + 1] else addr)
         else addr)"

definition eth_pdelay :: byte_list where
  "eth_pdelay = [0x01, 0x80, 0xC2, 0x00, 0x00, 0x0E]"

text \<open>\<open>main\<close> clears the first byte of the multicast address when the first profile has a major SDO id.\<close>

definition eth_others :: "config_store \<Rightarrow> byte_list" where
  "eth_others st =
     (let a = [0x01, 0x1B, 0x19, 0x00, 0x00, 0x00]
      in case gptp_profile_get_sdoid 1 st of
           None \<Rightarrow> a
         | Some (major, _) \<Rightarrow> if major \<noteq> 0 then a[0 := 0] else a)"

text \<open>The own addresses, when the device has an IP address.\<close>

definition own_addresses :: "ip_info \<Rightarrow> sock_vars \<Rightarrow> sock_vars" where
  "own_addresses info v =
     v\<lparr>so_host_addr := ip_addr info,
       so_host_addr6 := (if ip_plen info \<noteq> 0 then ip_addr6 info else so_host_addr6 v),
       so_hw_addr := take ETH_ALEN (ip_hwaddr info),
       so_self := take 3 (ip_hwaddr info) @ [0xFF, 0xFE] @ get_bytes 3 3 (ip_hwaddr info)\<rparr>"

text \<open>
  \<open>dest\<close> are the six numbers of a destination address, when the string has them.
  \<open>m1\<close> and \<open>m2\<close> are what \<open>malloc\<close> gives.
\<close>

definition eth_header :: "byte_list \<Rightarrow> byte_list \<Rightarrow> byte_list \<Rightarrow> byte_list" where
  "eth_header addr hwaddr m =
     put_bytes 12 [0x88, 0xF7] (put_bytes ETH_ALEN (take ETH_ALEN hwaddr) (put_bytes 0 (take ETH_ALEN addr) m))"

definition create_raw :: "ip_info \<Rightarrow> byte_list option \<Rightarrow> byte_list \<Rightarrow> byte_list \<Rightarrow> sock_vars \<Rightarrow> sock_vars" where
  "create_raw info dest m1 m2 v =
     (let pdelay = (case dest of Some a \<Rightarrow> a | None \<Rightarrow> eth_pdelay) @ [0, 0];
          others = (case dest of Some a \<Rightarrow> a
                    | None \<Rightarrow> if so_eth_others v ! 0 \<noteq> 0 then so_eth_others v else eth_pdelay) @ [0, 0]
      in v\<lparr>so_if_idx := ip_if_idx info, so_pdelay_addr := pdelay, so_others_addr := others,
           so_pdelay_buf := eth_header pdelay (ip_hwaddr info) m1,
           so_others_buf := eth_header others (ip_hwaddr info) m2\<rparr>)"

subsection \<open>Sending\<close>

definition is_pdelay :: "nat \<Rightarrow> bool" where
  "is_pdelay type \<longleftrightarrow> type \<in> {PDELAY_REQ_MSG, PDELAY_RESP_MSG, PDELAY_RESP_FOLLOW_UP_MSG}"

definition put_frame :: "bool \<Rightarrow> byte_list \<Rightarrow> nat \<Rightarrow> u8 \<Rightarrow> byte_list \<Rightarrow> byte_list \<Rightarrow> byte_list option" where
  "put_frame schar msg len index self buf =
     (if length msg < len \<or> length buf < 14 + len then None
      else Some (put_bytes 14 (take len msg) (put_bytes (ETH_ALEN + 3) (inc_mac_addr schar (get_bytes 5 3 self) index) buf)))"

definition udp_target :: "sock_family \<Rightarrow> nat \<Rightarrow> sock_vars \<Rightarrow> sock_fd \<times> send_addr" where
  "udp_target family type v =
     (let six = (family = AF_INET6)
      in if type = SYNC_MSG \<or> type = DELAY_REQ_MSG then (Event_fd, if six then Event_addr6 else Event_addr)
         else if type = PDELAY_REQ_MSG \<or> type = PDELAY_RESP_MSG then (Event_fd, if six then P2p_event_addr6 else P2p_event_addr)
         else if type = PDELAY_RESP_FOLLOW_UP_MSG then (General_fd, if six then P2p_general_addr6 else P2p_general_addr)
         else if type = MANAGEMENT_MSG
         then (if six then (General_fd, if so_unicast v then General_addr6 else Management_addr6)
               else (Management4_fd, if so_unicast v \<and> so_family v = AF_INET then General_addr else Management_addr))
         else (General_fd, if six then General_addr6 else General_addr))"

text \<open>
  The message is in network order.  Two bytes follow it over IPv6.  The length is
  that of its header when \<open>len\<close> is 0; \<open>vid\<close> and \<open>dest\<close> of the code are not used.
\<close>

definition send_msg ::
  "bool \<Rightarrow> byte_list \<Rightarrow> sock_family \<Rightarrow> nat \<Rightarrow> u8 \<Rightarrow> sock_vars \<Rightarrow> ((sock_fd \<times> send_addr \<times> byte_list) \<times> byte_list \<times> sock_vars) option" where
  "send_msg schar msg family len index v =
     do {
       len \<leftarrow> (if len = 0 then wire_length msg else Some len);
       (msg, len) \<leftarrow> (if family \<noteq> AF_INET6 then Some (msg, len)
                      else if length msg < len + 2 then None
                      else Some (put_bytes len [0x15, 0x88] msg, len + 2));
       if family = AF_PACKET
       then (if is_pdelay (messageType msg)
             then do {
               buf \<leftarrow> put_frame schar msg len index (so_self v) (so_pdelay_buf v);
               Some ((Eth_fd, Eth_pdelay_addr, take (len + 14) buf), msg, v\<lparr>so_pdelay_buf := buf\<rparr>) }
             else do {
               buf \<leftarrow> put_frame schar msg len index (so_self v) (so_others_buf v);
               Some ((Eth_fd, Eth_others_addr, take (len + 14) buf), msg, v\<lparr>so_others_buf := buf\<rparr>) })
       else if length msg < len then None
       else (let (fd, addr) = udp_target family (messageType msg) v in Some ((fd, addr, take len msg), msg, v)) }"

subsection \<open>Receiving\<close>

record sock_buf =
  sb_from :: sockaddr
  sb_buf :: byte_list
  sb_len :: nat

text \<open>The buffer of this packet and of the last one taken; the last timestamp; whether a raw packet was received.\<close>

record rx_task =
  rt_cur :: sock_buf
  rt_last :: sock_buf
  rt_raw :: bool
  rt_port :: nat
  rt_sec :: u32
  rt_nsec :: u32

definition check_loop :: "sock_vars \<Rightarrow> sockaddr \<Rightarrow> nat" where
  "check_loop v sa =
     (case sa of
        SA_in6 _ _ a _ \<Rightarrow>
          if a = so_host_addr6 v then 1 else if get_bytes 12 4 a = take 4 (so_host_addr v) then 2 else 0
      | SA_in _ a \<Rightarrow> if a = take 4 (so_host_addr v) then 1 else 0
      | SA_ll _ ifindex _ _ _ a \<Rightarrow>
          if ifindex \<noteq> so_if_idx v then 2 else if take ETH_ALEN a = so_hw_addr v then 1 else 0
      | SA_unspec \<Rightarrow> 0)"

definition check_dup :: "sock_buf \<Rightarrow> sock_buf \<Rightarrow> bool" where
  "check_dup cur prev \<longleftrightarrow>
     sb_len cur = sb_len prev \<and> sb_from cur = sb_from prev \<and> take (sb_len cur) (sb_buf cur) = take (sb_len cur) (sb_buf prev)"

definition versionPTP :: "byte_list \<Rightarrow> nat" where
  "versionPTP m = rd (1, 1) m mod 16"

text \<open>\<open>ts\<close> is the answer of the driver for the header of the message: port and time.\<close>

definition get_rx_timestamp :: "(byte_list \<Rightarrow> (nat \<times> u32 \<times> u32) option) \<Rightarrow> byte_list \<Rightarrow> rx_task \<Rightarrow> rx_task" where
  "get_rx_timestamp ts hdr t =
     (case ts hdr of
        None \<Rightarrow> t
      | Some (p, sec, nsec) \<Rightarrow> t\<lparr>rt_port := p, rt_sec := sec, rt_nsec := nsec\<rparr>)"

text \<open>
  One packet.  The message is all of the buffer from its place on: behind a short
  packet there are bytes of older ones.
\<close>

definition receive_packet ::
  "u8 \<Rightarrow> bool \<Rightarrow> (byte_list \<Rightarrow> (nat \<times> u32 \<times> u32) option) \<Rightarrow> sock_vars \<Rightarrow> sockaddr \<Rightarrow> byte_list \<Rightarrow> rx_task \<times> world \<Rightarrow> (rx_task \<times> world) option" where
  "receive_packet ptp_version stack_running ts v sa data = (\<lambda>(t, w).
     let cur = \<lparr>sb_from = sa, sb_buf = put_bytes 0 data (sb_buf (rt_cur t)), sb_len = length data\<rparr>;
         raw_addr = (case sa of SA_ll _ _ _ _ _ a \<Rightarrow> Some a | _ \<Rightarrow> None);
         t = t\<lparr>rt_cur := cur, rt_raw := (raw_addr \<noteq> None \<or> rt_raw t)\<rparr>;
         msg = (if raw_addr \<noteq> None then drop 14 (sb_buf cur) else sb_buf cur);
         looped = check_loop v sa
     in if versionPTP msg < 2 then Some (t, w)
        else if looped \<noteq> 0 \<and> \<not> (messageType msg = MANAGEMENT_MSG \<and> looped = 1) then Some (t, w)
        else if check_dup cur (rt_last t) then Some (t, w)
        else
          (let t = t\<lparr>rt_cur := rt_last t, rt_last := cur\<rparr>
           in if \<not> stack_running then Some (t, w)
              else
                (let t = (if ptp_version \<ge> 2 then get_rx_timestamp ts (take 34 msg) (t\<lparr>rt_port := 0\<rparr>) else t)
                 in map_option (Pair t)
                      (ptp_setup_rx msg (rt_port t mod 256) (rt_sec t) (rt_nsec t) False (map_option (take ETH_ALEN) raw_addr) (rt_raw t) 0 w))))"

end
