(* ===== verification/Avtp.thy ===== *)
theory Avtp
  imports Sock Announce_props
begin

text \<open>
  The status packets of the automotive test mode (\<^verbatim>\<open>avtpdu_1722.c\<close>): one buffer with
  an Ethernet header and a \<open>struct aed_test_status\<close> behind it, filled once and
  updated before each packet.  Members are offsets into the buffer; \<open>htons\<close>,
  \<open>htonl\<close> and \<open>htobe64\<close> store big endian.  The effect \<open>E_aed_status\<close> of the clock
  model is one call of \<open>aed_report\<close>.
\<close>

record avtpdu =
  eth_avtpdu_buf :: byte_list
  avtpdu_src :: byte_list
  avtpdu_id :: byte_list
  avtpdu_seqid :: u16

abbreviation (input) avtpdu_dst :: byte_list where "avtpdu_dst \<equiv> [0x01, 0x1B, 0xC5, 0x0A, 0xC0, 0x00]"
abbreviation (input) AED_STATE_ETHERNET_READY :: nat where "AED_STATE_ETHERNET_READY \<equiv> 1"
abbreviation (input) AED_STATE_AVB_SYNC :: nat where "AED_STATE_AVB_SYNC \<equiv> 2"
abbreviation (input) AED_DESC_TYPE_AVB_INTERFACE :: nat where "AED_DESC_TYPE_AVB_INTERFACE \<equiv> 9"

definition be_bytes :: "nat \<Rightarrow> nat \<Rightarrow> byte_list" where
  "be_bytes n v = rev (le_bytes n v)"

text \<open>The buffer has \<open>sizeof (struct aed_test_status)\<close>, which is 160, and 20 more bytes.\<close>

definition create_avtpdu :: "ip_info \<Rightarrow> avtpdu \<Rightarrow> avtpdu" where
  "create_avtpdu info a =
     (let mac = take ETH_ALEN (ip_hwaddr info)
      in a\<lparr>eth_avtpdu_buf := put_bytes 12 [0x22, 0xF0] (put_bytes ETH_ALEN mac (put_bytes 0 avtpdu_dst (replicate 180 0))),
           avtpdu_src := mac, avtpdu_id := mac @ [0x93, 0x83]\<rparr>)"

text \<open>Several stores, one after the other.\<close>

definition put_all :: "(nat \<times> byte_list) list \<Rightarrow> byte_list \<Rightarrow> byte_list" where
  "put_all ps m = fold (\<lambda>(k, bs). put_bytes k bs) ps m"

definition init_aed_test_status :: "byte_list \<Rightarrow> byte_list \<Rightarrow> byte_list" where
  "init_aed_test_status id' =
     put_all [(14, [0xFB, 0x01]), (16, be_bytes 2 148), (18, id'), (26, replicate 8 0), (36, be_bytes 2 0x8029),
       (38, be_bytes 2 AED_DESC_TYPE_AVB_INTERFACE), (40, be_bytes 2 1), (42, be_bytes 4 (7 * 2 ^ 24)),
       (142, replicate 8 0), (150, [1]), (151, replicate 3 0)]"

definition init_aed :: "avtpdu \<Rightarrow> avtpdu" where
  "init_aed a = a\<lparr>eth_avtpdu_buf := init_aed_test_status (avtpdu_id a) (eth_avtpdu_buf a)\<rparr>"

definition update_aed_test_status ::
  "bool \<Rightarrow> u16 \<Rightarrow> nat \<Rightarrow> u16 \<Rightarrow> u64 \<Rightarrow> nat \<Rightarrow> avtpdu \<Rightarrow> avtpdu" where
  "update_aed_test_status schar seqid type index timestamp state a =
     (let b = put_bytes ETH_ALEN (avtpdu_src a) (eth_avtpdu_buf a);
          b = put_bytes (ETH_ALEN + 3) (inc_mac_addr schar (get_bytes (ETH_ALEN + 3) 3 b) (ucast (index + 1))) b
      in a\<lparr>eth_avtpdu_buf :=
           put_all [(34, be_bytes 2 (unat seqid)), (38, be_bytes 2 type), (40, be_bytes 2 (unat index)),
             (142, be_bytes 8 (unat timestamp)), (150, [of_nat state])] b\<rparr>)"

text \<open>
  What \<open>send_aed\<close> tells the driver (the ports, and the identity and the sequence id
  in network order of a made-up message header of type 5) and what it sends.
\<close>

definition send_aed :: "u16 \<Rightarrow> avtpdu \<Rightarrow> (u16 \<times> byte_list \<times> byte_list) \<times> byte_list" where
  "send_aed portmap a =
     ((portmap, avtpdu_id a, get_bytes 34 2 (eth_avtpdu_buf a)), take 174 (eth_avtpdu_buf a))"

definition aed_report :: "bool \<Rightarrow> nat \<Rightarrow> u64 \<Rightarrow> nat \<Rightarrow> avtpdu \<Rightarrow> ((u16 \<times> byte_list \<times> byte_list) \<times> byte_list) \<times> avtpdu" where
  "aed_report schar index timestamp state a =
     (let a = update_aed_test_status schar (avtpdu_seqid a) AED_DESC_TYPE_AVB_INTERFACE (of_nat (index - 1)) timestamp state
                (a\<lparr>avtpdu_seqid := avtpdu_seqid a + 1\<rparr>)
      in (send_aed (port_bit index) a, a))"

text \<open>The time of a Sync, from the seconds and nanoseconds of the clock.\<close>

definition sync_timestamp :: "u32 \<Rightarrow> u32 \<Rightarrow> u64" where
  "sync_timestamp sec nsec = ucast sec * 1000000000 + ucast nsec"

definition test_aed :: "bool \<Rightarrow> u8 \<Rightarrow> u8 \<Rightarrow> avtpdu \<Rightarrow> ((u16 \<times> byte_list \<times> byte_list) \<times> byte_list) \<times> avtpdu" where
  "test_aed schar type index a =
     (let next = a\<lparr>avtpdu_seqid := avtpdu_seqid a + 1\<rparr>;
          upd = update_aed_test_status schar (avtpdu_seqid a) AED_DESC_TYPE_AVB_INTERFACE (ucast index);
          a = (if type = 0 then upd 0 AED_STATE_ETHERNET_READY next
               else if type = 1 then upd 1234567890 AED_STATE_AVB_SYNC next else a)
      in (send_aed (port_bit (unat index)) a, a))"

subsection \<open>The packets\<close>

text \<open>What is the same in all of them.\<close>

definition aed_fixed :: "byte_list \<Rightarrow> (nat \<times> nat \<times> byte_list) list" where
  "aed_fixed mac =
     [(0, 6, avtpdu_dst), (12, 2, [0x22, 0xF0]), (14, 2, [0xFB, 0x01]), (16, 2, [0x00, 0x94]),
      (18, 8, mac @ [0x93, 0x83]), (26, 8, replicate 8 0), (36, 2, [0x80, 0x29]), (42, 4, [7, 0, 0, 0])]"

definition has_fields :: "(nat \<times> nat \<times> byte_list) list \<Rightarrow> byte_list \<Rightarrow> bool" where
  "has_fields fs m \<longleftrightarrow> (\<forall>(k, n, v) \<in> set fs. get_bytes k n m = v)"

definition aed_ok :: "byte_list \<Rightarrow> avtpdu \<Rightarrow> bool" where
  "aed_ok mac a \<longleftrightarrow> length mac = 6 \<and> length (eth_avtpdu_buf a) = 180 \<and> avtpdu_src a = mac \<and>
     avtpdu_id a = mac @ [0x93, 0x83] \<and> has_fields (aed_fixed mac) (eth_avtpdu_buf a)"

lemma be_bytes_length [simp]: "length (be_bytes n v) = n"
  by (simp add: be_bytes_def)

lemma be_bytes_value: "le_val (rev (be_bytes n v)) = v mod 256 ^ n"
  by (simp add: be_bytes_def)

lemma inc_mac_length [simp]: "length (inc_mac_addr schar a i) = length a"
  by (simp add: inc_mac_addr_def Let_def)

lemma get_take_bytes: "k + n \<le> j \<Longrightarrow> get_bytes k n (take j m) = get_bytes k n m"
  by (simp add: get_bytes_def drop_take min_def)

lemmas put_rules = get_put_same get_put_disj put_bytes_length

fun apart :: "(nat \<times> byte_list) list \<Rightarrow> bool" where
  "apart [] = True"
| "apart ((k, bs) # ps) \<longleftrightarrow> (\<forall>(j, cs) \<in> set ps. disj (k, length bs) (j, length cs)) \<and> apart ps"

definition all_inside :: "(nat \<times> byte_list) list \<Rightarrow> nat \<Rightarrow> bool" where
  "all_inside ps l \<longleftrightarrow> (\<forall>(k, bs) \<in> set ps. k + length bs \<le> l)"

lemma put_all_other:
  assumes "all_inside ps (length m)"
  shows "length (put_all ps m) = length m"
    "\<forall>(j, cs) \<in> set ps. disj (k, n) (j, length cs) \<Longrightarrow> get_bytes k n (put_all ps m) = get_bytes k n m"
  using assms
  by (induction ps arbitrary: m) (auto simp: put_all_def all_inside_def put_rules disj_sym)

lemma put_all_same:
  "all_inside ps (length m) \<Longrightarrow> apart ps \<Longrightarrow> (k, bs) \<in> set ps \<Longrightarrow> n = length bs \<Longrightarrow> get_bytes k n (put_all ps m) = bs"
proof (induction ps arbitrary: m)
  case (Cons p ps)
  have i: "all_inside ps (length (put_bytes (fst p) (snd p) m))" "fst p + length (snd p) \<le> length m"
    using Cons.prems(1) by (auto simp: all_inside_def put_bytes_length split: prod.splits)
  have c: "put_all (p # ps) m = put_all ps (put_bytes (fst p) (snd p) m)" by (simp add: put_all_def case_prod_beta)
  show ?case
  proof (cases "p = (k, bs)")
    case True
    then show ?thesis unfolding c using Cons.prems put_all_other(2) [OF i(1), of k n] i(2) by (simp add: get_put_same)
  next
    case False
    then show ?thesis unfolding c using Cons.prems Cons.IH [OF i(1)] by (cases p) auto
  qed
qed simp

lemma le_bytes_numeral: "le_bytes (numeral k) v = of_nat (v mod 256) # le_bytes (pred_numeral k) (v div 256)"
  unfolding numeral_eq_Suc [of k] by (rule le_bytes.simps(2))

lemma aed_constants:
  "be_bytes 2 148 = [0x00, 0x94]" "be_bytes 2 0x8029 = [0x80, 0x29]" "be_bytes 4 (7 * 2 ^ 24) = [7, 0, 0, 0]"
  by (simp_all add: be_bytes_def le_bytes_numeral)

lemma aed_init_fields:
  assumes "length b = 180" and "length mac = 6" and "get_bytes 0 6 b = avtpdu_dst" and "get_bytes 12 2 b = [0x22, 0xF0]"
  shows "has_fields (aed_fixed mac) (init_aed_test_status (mac @ [0x93, 0x83]) b)"
    and "length (init_aed_test_status (mac @ [0x93, 0x83]) b) = 180"
  using assms unfolding init_aed_test_status_def aed_constants
  by (simp_all add: has_fields_def aed_fixed_def put_all_other put_all_same all_inside_def)

lemma aed_init:
  assumes "6 \<le> length (ip_hwaddr info)"
  shows "aed_ok (take 6 (ip_hwaddr info)) (init_aed (create_avtpdu info a))"
proof -
  define z where "z = replicate 180 (0 :: u8)"
  have "length z = 180" by (simp add: z_def)
  then show ?thesis
    using assms unfolding init_aed_def create_avtpdu_def z_def [symmetric]
    by (simp add: aed_ok_def Let_def put_rules aed_init_fields min_def)
qed

text \<open>
  Each packet: its fixed part, the source address of its port, the next sequence
  id, and index, time and state.
\<close>

lemma source_bytes:
  assumes "length mac = 6" and "12 \<le> length m"
  shows "get_bytes 9 3 (put_bytes 6 mac m) = drop 3 mac"
    "length x = 3 \<Longrightarrow> get_bytes 6 6 (put_bytes 9 x (put_bytes 6 mac m)) = take 3 mac @ x"
  using assms by (simp_all add: get_bytes_def put_bytes_def drop_append take_append min_def)

lemma aed_update:
  assumes "aed_ok mac a" and "b = update_aed_test_status schar seqid type index timestamp state a"
  shows "aed_ok mac b"
    and "get_bytes 6 6 (eth_avtpdu_buf b) = take 3 mac @ inc_mac_addr schar (drop 3 mac) (ucast (index + 1))"
    and "get_bytes 34 2 (eth_avtpdu_buf b) = be_bytes 2 (unat seqid)"
    and "get_bytes 38 2 (eth_avtpdu_buf b) = be_bytes 2 type"
    and "get_bytes 40 2 (eth_avtpdu_buf b) = be_bytes 2 (unat index)"
    and "get_bytes 142 8 (eth_avtpdu_buf b) = be_bytes 8 (unat timestamp)"
    and "get_bytes 150 1 (eth_avtpdu_buf b) = [of_nat state]"
    and "avtpdu_seqid b = avtpdu_seqid a"
proof -
  let ?h = "put_bytes 9 (inc_mac_addr schar (drop 3 mac) (ucast (index + 1))) (put_bytes 6 mac (eth_avtpdu_buf a))"
  note ok = assms(1) [unfolded aed_ok_def]
  have l: "length ?h = 180" using ok by simp
  define ps where "ps = [(34 :: nat, be_bytes 2 (unat seqid)), (38, be_bytes 2 type), (40, be_bytes 2 (unat index)),
    (142, be_bytes 8 (unat timestamp)), (150, [of_nat state])]"
  have b: "eth_avtpdu_buf b = put_all ps ?h" "avtpdu_src b = mac" "avtpdu_id b = avtpdu_id a" "avtpdu_seqid b = avtpdu_seqid a"
    using ok by (simp_all add: assms(2) update_aed_test_status_def Let_def source_bytes ps_def)
  have i: "all_inside ps (length ?h)" "apart ps" using l by (simp_all add: ps_def all_inside_def)
  note put = put_all_other [OF i(1)] put_all_same [OF i]
  have "get_bytes 6 6 ?h = take 3 mac @ inc_mac_addr schar (drop 3 mac) (ucast (index + 1))"
    using ok by (simp add: source_bytes)
  then show "get_bytes 6 6 (eth_avtpdu_buf b) = take 3 mac @ inc_mac_addr schar (drop 3 mac) (ucast (index + 1))"
    unfolding b using put(2) [of 6 6] by (simp add: ps_def)
  show "get_bytes 34 2 (eth_avtpdu_buf b) = be_bytes 2 (unat seqid)" "get_bytes 38 2 (eth_avtpdu_buf b) = be_bytes 2 type"
    "get_bytes 40 2 (eth_avtpdu_buf b) = be_bytes 2 (unat index)"
    "get_bytes 142 8 (eth_avtpdu_buf b) = be_bytes 8 (unat timestamp)" "get_bytes 150 1 (eth_avtpdu_buf b) = [of_nat state]"
    unfolding b by (rule put(3); simp add: ps_def)+
  have "has_fields (aed_fixed mac) ?h"
    using ok by (simp add: has_fields_def aed_fixed_def put_rules)
  then have "has_fields (aed_fixed mac) (eth_avtpdu_buf b)"
    unfolding b(1) has_fields_def aed_fixed_def using put(2) by (simp add: ps_def)
  then show "aed_ok mac b" "avtpdu_seqid b = avtpdu_seqid a" using ok b put(1) l by (simp_all add: aed_ok_def)
qed

end
