(* ===== verification/Sock_props.thy ===== *)
theory Sock_props
  imports Sock Setup Avtp
begin

text \<open>
  Addresses of ports and clocks as numbers, what \<open>send_msg\<close> puts on the wire, and
  what \<open>ReceiveTask\<close> gives to the stack for it.
\<close>

subsection \<open>Addresses\<close>

definition mac_val :: "byte_list \<Rightarrow> nat" where
  "mac_val a = unat (a ! 0) * 65536 + unat (a ! 1) * 256 + unat (a ! 2)"

lemma inc_mac_same: "inc_mac_id a i = inc_mac_addr False a i"
  by (simp add: inc_mac_id_def inc_mac_addr_def char_val_def word_less_def Let_def)

lemma byte_add:
  fixes c i :: u8
  shows "unat (c + i) = (if unat c + unat i < 256 then unat c + unat i else unat c + unat i - 256)"
    and "c + i < c \<longleftrightarrow> 256 \<le> unat c + unat i"
proof -
  have l: "unat c < 256" "unat i < 256" using unat8_less by auto
  show u: "unat (c + i) = (if unat c + unat i < 256 then unat c + unat i else unat c + unat i - 256)"
    using l by (simp add: unat_word_ariths mod_if)
  show "c + i < c \<longleftrightarrow> 256 \<le> unat c + unat i" using l by (auto simp: word_less_nat_alt u)
qed

lemma inc_mac_exact: "mac_val (inc_mac_addr False [a, b, c] i) = (mac_val [a, b, c] + unat i) mod 2 ^ 24"
proof -
  have l: "unat a < 256" "unat b < 256" "unat c < 256" "unat i < 256" using unat8_less by auto
  have m: "unat (a + 1) = (if unat a = 255 then 0 else unat a + 1)" "unat (b + 1) = (if unat b = 255 then 0 else unat b + 1)"
    "b + 1 < b \<longleftrightarrow> unat b = 255"
    using byte_add [of a 1] byte_add [of b 1] l by auto
  show ?thesis
    unfolding inc_mac_same [symmetric] inc_mac_id_def
    using l by (cases "unat a = 255"; cases "unat b = 255"; cases "unat c + unat i < 256")
      (simp_all add: mac_val_def Let_def m byte_add mod_if)
qed

text \<open>With a signed \<open>char\<close> a byte from \<open>0x80\<close> on is below every old value, and carries.\<close>

lemma signed_byte: "char_val True x = (if uint x < 128 then uint x else uint x - 256)"
proof -
  have "sint x = (uint x + 128) mod 256 - 128"
    by (simp add: sint_uint signed_take_bit_eq_take_bit_shift take_bit_eq_mod)
  moreover have "(n + 128) mod 256 = n - 128" if "\<not> n < 128" "n < 256" for n :: int
    using that mod_pos_pos_trivial [of "n - 128" 256] mod_add_self2 [of "n - 128" 256] by (simp add: add.commute)
  moreover have "uint x < 256" "0 \<le> uint x" using unsigned_less [of x, where 'a = int] by simp_all
  ultimately show ?thesis by (simp add: char_val_def)
qed

lemma inc_mac_signed:
  assumes "128 \<le> unat c + unat i" and "unat c + unat i < 256" and "unat b < 127"
  shows "mac_val (inc_mac_addr True [a, b, c] i) = mac_val [a, b, c] + unat i + 256"
proof -
  have c: "unat (c + i) = unat c + unat i" using assms(2) by (simp add: byte_add)
  have b: "unat (b + 1) = unat b + 1" using assms(3) byte_add(1) [of b 1] by simp
  have "int (unat (c + i)) = int (unat c + unat i)" "int (unat (b + 1)) = int (unat b + 1)"
    "int 128 \<le> int (unat c + unat i)" "int (unat c + unat i) < int 256" "int (unat b) < int 127"
    using assms by (simp_all only: c b of_nat_le_iff of_nat_less_iff)
  then have u: "uint (c + i) = uint c + uint i" "uint (b + 1) = uint b + 1" "128 \<le> uint c + uint i"
    "uint c + uint i < 256" "uint b < 127" by simp_all
  have "char_val True (c + i) < 0" unfolding signed_byte u(1) using u(3,4) by simp
  then have "char_val True (c + i) < uint c" by (rule less_le_trans) simp
  moreover have "\<not> char_val True (b + 1) < uint b" unfolding signed_byte u(2) using u(5) by simp
  ultimately have "inc_mac_addr True [a, b, c] i = [a, b + 1, c + i]" by (simp add: inc_mac_addr_def)
  then show ?thesis by (simp add: mac_val_def c b)
qed

subsection \<open>Frames\<close>

text \<open>The bytes behind a message do not matter: the stack copies as many as the header says.\<close>

lemma wire_length_append: "34 \<le> length m \<Longrightarrow> wire_length (m @ z) = wire_length m"
  by (simp add: wire_length_def get_bytes_def)

lemma header_append:
  assumes "34 \<le> length m"
  shows "transportSpecific (m @ z) = transportSpecific m" "messageType (m @ z) = messageType m"
    "own_domain (m @ z) w = own_domain m w" "versionPTP (m @ z) = versionPTP m" "take 34 (m @ z) = take 34 m"
  using assms by (simp_all add: transportSpecific_def messageType_def own_domain_def versionPTP_def rd_append)

lemma alloc_append: "len \<le> length m \<Longrightarrow> alloc_msg (Some (m @ z)) len rx h = alloc_msg (Some m) len rx h"
proof -
  assume "len \<le> length m"
  then have e: "fill_msg (Some (m @ z)) len mem = fill_msg (Some m) len mem" for mem by (simp add: fill_msg_def)
  show ?thesis unfolding alloc_msg_def e by (rule refl)
qed

lemma setup_rx_append:
  assumes "34 \<le> length m" and "wire_length m = Some (length m)"
  shows "ptp_setup_rx (m @ z) i sec ns d src raw vid w = ptp_setup_rx m i sec ns d src raw vid w"
proof -
  note same = header_append [OF assms(1)] wire_length_append [OF assms(1)] alloc_append [OF order.refl]
  have "length (m @ z) < 34 \<longleftrightarrow> length m < 34" using assms(1) by simp
  then have rx: "ptp_rx n (m @ z) rx d src w = ptp_rx n m rx d src w" for n rx w
    unfolding ptp_rx_def rx_accepted_def same assms(2) bind.bind_lunit same by (simp only:)
  show ?thesis unfolding ptp_setup_rx_def rx by (rule refl)
qed

text \<open>The header before each frame, and the frame.\<close>

lemma put_split: "length b = length x \<Longrightarrow> put_bytes (length a) x (a @ b @ c) = a @ x @ c"
  by (simp add: put_bytes_def)

lemma header_bytes:
  assumes "length m = 4018" and "length addr = 6" and "length hw = 6"
  shows "eth_header addr hw m = addr @ hw @ [0x88, 0xF7] @ drop 14 m"
  using assms by (simp add: eth_header_def put_bytes_def)

lemma frame_bytes:
  assumes "length addr = 6" and "length hw = 6" and "14 + len \<le> length (addr @ hw @ [0x88, 0xF7] @ r)" and "len \<le> length msg"
    and "length self = 8"
  shows "\<exists>z. put_frame schar msg len index self (addr @ hw @ [0x88, 0xF7] @ r) =
    Some (addr @ take 3 hw @ inc_mac_addr schar (drop 5 self) index @ [0x88, 0xF7] @ take len msg @ z)"
proof -
  obtain h1 h2 where hw: "hw = h1 @ h2" "length h1 = 3" "length h2 = 3"
    using assms(2) by (auto intro!: that [of "take 3 hw" "drop 3 hw"])
  obtain p q where r: "r = p @ q" "length p = len"
    using assms(1,2,3) by (auto intro!: that [of "take len r" "drop len r"])
  let ?y = "inc_mac_addr schar (drop 5 self) index"
  have y: "length ?y = 3" "get_bytes 5 3 self = drop 5 self" using assms(5) by (simp_all add: get_bytes_def)
  have "put_bytes 9 ?y (addr @ hw @ [0x88, 0xF7] @ r) = addr @ h1 @ ?y @ [0x88, 0xF7] @ p @ q"
    using put_split [of h2 ?y "addr @ h1" "[0x88, 0xF7] @ r"] assms(1) y hw r by simp
  moreover have "put_bytes 14 (take len msg) (addr @ h1 @ ?y @ [0x88, 0xF7] @ p @ q) =
      addr @ h1 @ ?y @ [0x88, 0xF7] @ take len msg @ q"
    using put_split [of p "take len msg" "addr @ h1 @ ?y @ [0x88, 0xF7]" q] assms(1,4) y hw r by simp
  ultimately show ?thesis using assms hw r by (simp add: put_frame_def y)
qed

lemma eth_pdelay_length [simp]: "length eth_pdelay = 6"
  by (simp add: eth_pdelay_def)

lemma send_raw:
  fixes info
  defines "mac \<equiv> take 6 (ip_hwaddr info)"
  assumes "6 \<le> length (ip_hwaddr info)" and "length m1 = 4018" and "length m2 = 4018" and "length (so_eth_others v) = 6"
    and "wire_length net = Some len" and "len \<le> 4004" and "len \<le> length net"
  shows "\<exists>addr v'. send_msg schar net AF_PACKET 0 index (create_raw info None m1 m2 (own_addresses info v)) =
    Some ((Eth_fd, addr,
      (if is_pdelay (messageType net) \<or> so_eth_others v ! 0 = 0 then eth_pdelay else so_eth_others v) @
      take 3 mac @ inc_mac_addr schar (drop 3 mac) index @ [0x88, 0xF7] @ take len net), net, v')"
proof -
  let ?v = "create_raw info None m1 m2 (own_addresses info v)"
  let ?others = "if so_eth_others v ! 0 \<noteq> 0 then so_eth_others v else eth_pdelay"
  have m: "length mac = 6" "take 3 (ip_hwaddr info) = take 3 mac" "get_bytes 3 3 (ip_hwaddr info) = drop 3 mac"
    using assms(2) by (simp_all add: mac_def get_bytes_def drop_take min_def)
  have self: "length (so_self ?v) = 8" "drop 5 (so_self ?v) = drop 3 mac"
    using m by (simp_all add: create_raw_def own_addresses_def Let_def)
  have h: "eth_header (addr @ [0, 0]) (ip_hwaddr info) x = addr @ mac @ [0x88, 0xF7] @ drop 14 x"
    if "length x = 4018" "length addr = 6" for addr x
    using header_bytes [OF that m(1)] that(2) by (simp add: eth_header_def mac_def)
  have b: "so_pdelay_buf ?v = eth_pdelay @ mac @ [0x88, 0xF7] @ drop 14 m1"
    "so_others_buf ?v = ?others @ mac @ [0x88, 0xF7] @ drop 14 m2"
    using h [OF assms(3), of eth_pdelay] h [OF assms(4), of eth_pdelay] h [OF assms(4,5)] assms(5)
    by (simp_all add: create_raw_def own_addresses_def Let_def)
  have f: "\<exists>z. put_frame schar net len index (so_self ?v) (a @ mac @ [0x88, 0xF7] @ drop 14 x) =
      Some (a @ take 3 mac @ inc_mac_addr schar (drop 3 mac) index @ [0x88, 0xF7] @ take len net @ z)"
    if "length x = 4018" "length a = 6" for a x
    using frame_bytes [OF that(2) m(1) _ assms(8) self(1), of "drop 14 x"] that assms(7) m(1) self(2) by simp
  have t: "take (len + 14) (a @ take 3 mac @ inc_mac_addr schar (drop 3 mac) index @ [0x88, 0xF7] @ take len net @ z) =
      a @ take 3 mac @ inc_mac_addr schar (drop 3 mac) index @ [0x88, 0xF7] @ take len net" if "length a = 6" for a z
    using that m(1) assms(8) by simp
  show ?thesis
  proof (cases "is_pdelay (messageType net)")
    case True
    then show ?thesis using f [OF assms(3), of eth_pdelay] t [of eth_pdelay]
      by (auto simp: send_msg_def assms(6) b)
  next
    case False
    have "length ?others = 6" using assms(5) by simp
    then show ?thesis using f [OF assms(4), of ?others] t [of ?others] False
      by (auto simp: send_msg_def assms(6) b)
  qed
qed

text \<open>A raw frame that is neither looped nor a copy of the last one goes to the stack, once.\<close>

lemma receive_raw:
  fixes h m
  defines "frame \<equiv> h @ m"
  assumes "length h = 14" and "34 \<le> length m" and "wire_length m = Some (length m)" and "2 \<le> versionPTP m"
    and "check_loop u (SA_ll pr ifx ht pt hl a) = 0" and "get_bytes 14 (length m) (sb_buf (rt_last t)) \<noteq> m"
    and "2 \<le> ver" and "ts (take 34 m) = r"
  shows "\<exists>t'. receive_packet ver True ts u (SA_ll pr ifx ht pt hl a) frame (t, w) =
      (case r of
         None \<Rightarrow> map_option (Pair t') (ptp_setup_rx m 0 (rt_sec t) (rt_nsec t) False (Some (take 6 a)) True 0 w)
       | Some (p, sec, ns) \<Rightarrow> map_option (Pair t') (ptp_setup_rx m (p mod 256) sec ns False (Some (take 6 a)) True 0 w)) \<and>
    (\<forall>x. \<exists>t''. receive_packet ver True ts u (SA_ll pr ifx ht pt hl a) frame (t', x) = Some (t'', x))"
proof -
  let ?sa = "SA_ll pr ifx ht pt hl a"
  define buf where "buf t = put_bytes 0 frame (sb_buf (rt_cur t))" for t :: rx_task
  define cur where "cur t = \<lparr>sb_from = ?sa, sb_buf = buf t, sb_len = length frame\<rparr>" for t :: rx_task
  have msg: "\<exists>z. drop 14 (buf t) = m @ z" for t using assms(2) by (simp add: buf_def frame_def put_bytes_def)
  have b: "take (length frame) (buf t) = frame" for t by (simp add: buf_def put_bytes_def)
  have "take (length frame) (sb_buf (rt_last t)) \<noteq> frame"
  proof
    assume e: "take (length frame) (sb_buf (rt_last t)) = frame"
    then have "drop 14 (take (length frame) (sb_buf (rt_last t))) = m" using assms(2) by (simp add: frame_def)
    then show False using assms(2,7) by (simp add: frame_def get_bytes_def drop_take)
  qed
  then have d: "\<not> check_dup (cur t) (rt_last t)" by (simp add: check_dup_def cur_def b)
  have dup: "check_dup (cur t') (cur t)" for t t' by (simp add: check_dup_def cur_def b)
  obtain z where z: "drop 14 (buf t) = m @ z" using msg by blast
  note app = header_append [OF assms(3)] setup_rx_append [OF assms(3,4)]
  let ?t = "t\<lparr>rt_raw := True, rt_cur := rt_last t, rt_last := cur t, rt_port := 0\<rparr>"
  have step: "receive_packet ver True ts u ?sa frame (t, w) =
      (let t' = get_rx_timestamp ts (take 34 m) ?t
       in map_option (Pair t') (ptp_setup_rx m (rt_port t' mod 256) (rt_sec t') (rt_nsec t') False (Some (take 6 a)) (rt_raw t') 0 w))"
    using assms(3,5,6,8) d z unfolding receive_packet_def buf_def [symmetric] cur_def [symmetric, of t]
    by (simp add: Let_def app cur_def)
  have again: "\<exists>t''. receive_packet ver True ts u ?sa frame (t', x) = Some (t'', x)" if "rt_last t' = cur t" for t' x
    using dup [of t' t] that assms(6) unfolding receive_packet_def buf_def [symmetric] cur_def [symmetric]
    by (simp add: Let_def cur_def)
  let ?t' = "get_rx_timestamp ts (take 34 m) ?t"
  have "rt_last ?t' = cur t" by (simp add: get_rx_timestamp_def split: option.split)
  then have "\<forall>x. \<exists>t''. receive_packet ver True ts u ?sa frame (?t', x) = Some (t'', x)" using again by blast
  moreover have "receive_packet ver True ts u ?sa frame (t, w) =
      (case r of
         None \<Rightarrow> map_option (Pair ?t') (ptp_setup_rx m 0 (rt_sec t) (rt_nsec t) False (Some (take 6 a)) True 0 w)
       | Some (p, sec, ns) \<Rightarrow> map_option (Pair ?t') (ptp_setup_rx m (p mod 256) sec ns False (Some (take 6 a)) True 0 w))"
    unfolding step Let_def by (simp add: get_rx_timestamp_def assms(9) split: option.split)
  ultimately show ?thesis by blast
qed

lemma unowned_fails: "c_cnt (w_clock w) < 13 \<Longrightarrow> ptp_setup_rx m 0 sec ns d src raw vid w = None"
  by (simp add: ptp_setup_rx_def unowned_port_def)

end
