(* ===== verification/Sample_sock.thy ===== *)
theory Sample_sock
  imports Sock_props Sample
begin

text \<open>A message, a station and its receive task, for the examples.\<close>

definition sample_net :: byte_list where
  "sample_net = [0x00, 0x02, 0x00, 44] @ replicate 40 0"

definition sample_info :: ip_info where
  "sample_info =
     \<lparr>ip_addr = [192, 168, 0, 20], ip_addr6 = replicate 16 0, ip_hwaddr = [0, 1, 2, 3, 4, 5], ip_plen = 0, ip_if_idx = 3\<rparr>"

definition sample_sock :: sock_vars where
  "sample_sock =
     \<lparr>so_family = AF_PACKET, so_unicast = False, so_eth_others = [0x01, 0x1B, 0x19, 0, 0, 0],
      so_pdelay_addr = replicate 8 0, so_others_addr = replicate 8 0, so_if_idx = 3, so_pdelay_buf = [], so_others_buf = [],
      so_hw_addr = [0, 1, 2, 3, 4, 5], so_host_addr = [192, 168, 0, 20], so_host_addr6 = replicate 16 0,
      so_self = [0, 1, 2, 0xFF, 0xFE, 3, 4, 5]\<rparr>"

definition sample_buf :: sock_buf where
  "sample_buf = \<lparr>sb_from = SA_unspec, sb_buf = replicate 100 0, sb_len = 0\<rparr>"

definition sample_task :: rx_task where
  "sample_task =
     \<lparr>rt_cur = sample_buf, rt_last = sample_buf, rt_raw = False, rt_port = 0, rt_sec = 0, rt_nsec = 0\<rparr>"

end
