(* ===== verification/Driver.thy ===== *)
theory Driver
  imports Bytes
begin

text \<open>
  The requests of the PTP device driver, \<^verbatim>\<open>lan937x_ptp_api.c\<close> with
  \<^verbatim>\<open>lan937x_req.h\<close>: the function that fills in each request, the call that sends
  it with \<open>file_dev_ioctl\<close>, and what the call hands back.

  A request is \<open>struct ksz_request_actual\<close>: five integers and a parameter area of
  \<open>MAX_REQUEST_SIZE\<close> bytes.  The code declares it as an automatic variable without an
  initial value, so every call takes the bytes that happen to be there (\<open>r0\<close>) as an
  argument.  The parameter structures are packed; their members are fields of the area in
  the byte order of the target, bit members are counted from the least significant bit, and
  a pointer of the 32-bit target has four bytes.  The driver behind \<open>ioctl\<close> is a parameter
  \<open>dev\<close>: it takes its state and the request and gives the return code, the answered request
  and the new state.  Results that the code stores through pointers are an option: \<open>None\<close>
  when the variables of the caller are left alone.
\<close>

record ksz_request =
  rq_size :: int
  rq_cmd :: int
  rq_subcmd :: int
  rq_output :: int
  rq_result :: int
  rq_param :: byte_list

type_synonym 'd device = "'d \<Rightarrow> ksz_request \<Rightarrow> int \<times> ksz_request \<times> 'd"

text \<open>The static variables \<open>_ptp_version\<close>, \<open>_ptp_ports\<close> and \<open>_ptp_host_port\<close>.\<close>

record ptp_api =
  ap_version :: u8
  ap_ports :: u8
  ap_host_port :: u8

abbreviation (input) MAX_REQUEST_SIZE :: nat where "MAX_REQUEST_SIZE \<equiv> 200"
abbreviation (input) SIZEOF_ksz_request :: int where "SIZEOF_ksz_request \<equiv> 20"
abbreviation (input) DEV_IOC_INVALID_SIZE :: int where "DEV_IOC_INVALID_SIZE \<equiv> 1"
abbreviation (input) DEV_IOC_INVALID_CMD :: int where "DEV_IOC_INVALID_CMD \<equiv> 2"
abbreviation (input) DEV_IOC_INVALID_LEN :: int where "DEV_IOC_INVALID_LEN \<equiv> 3"
abbreviation (input) DEV_CMD_INFO :: int where "DEV_CMD_INFO \<equiv> 0"
abbreviation (input) DEV_CMD_GET :: int where "DEV_CMD_GET \<equiv> 1"
abbreviation (input) DEV_CMD_PUT :: int where "DEV_CMD_PUT \<equiv> 2"
abbreviation (input) DEV_INFO_INIT :: int where "DEV_INFO_INIT \<equiv> 0"
abbreviation (input) DEV_INFO_EXIT :: int where "DEV_INFO_EXIT \<equiv> 1"
abbreviation (input) DEV_INFO_NOTIFY :: int where "DEV_INFO_NOTIFY \<equiv> 3"
abbreviation (input) DEV_INFO_PORT :: int where "DEV_INFO_PORT \<equiv> 4"
abbreviation (input) DEV_PTP_CFG :: int where "DEV_PTP_CFG \<equiv> 0"
abbreviation (input) DEV_PTP_TEVT :: int where "DEV_PTP_TEVT \<equiv> 1"
abbreviation (input) DEV_PTP_TOUT :: int where "DEV_PTP_TOUT \<equiv> 2"
abbreviation (input) DEV_PTP_CLK :: int where "DEV_PTP_CLK \<equiv> 3"
abbreviation (input) DEV_PTP_CASCADE :: int where "DEV_PTP_CASCADE \<equiv> 4"
abbreviation (input) DEV_PTP_DELAY :: int where "DEV_PTP_DELAY \<equiv> 5"
abbreviation (input) DEV_PTP_REG :: int where "DEV_PTP_REG \<equiv> 6"
abbreviation (input) DEV_PTP_IDENTITY :: int where "DEV_PTP_IDENTITY \<equiv> 7"
abbreviation (input) DEV_PTP_PEER_DELAY :: int where "DEV_PTP_PEER_DELAY \<equiv> 8"
abbreviation (input) DEV_PTP_UTC_OFFSET :: int where "DEV_PTP_UTC_OFFSET \<equiv> 9"
abbreviation (input) DEV_PTP_TIMESTAMP :: int where "DEV_PTP_TIMESTAMP \<equiv> 10"
abbreviation (input) DEV_PTP_MSG :: int where "DEV_PTP_MSG \<equiv> 11"
abbreviation (input) DEV_PTP_PORT_CFG :: int where "DEV_PTP_PORT_CFG \<equiv> 12"
abbreviation (input) DEV_PTP_CLK_DOMAIN :: int where "DEV_PTP_CLK_DOMAIN \<equiv> 13"
abbreviation (input) DEV_PTP_TAG :: int where "DEV_PTP_TAG \<equiv> 14"

subsection \<open>Stores into the parameter area\<close>

text \<open>An assignment to an integer member keeps the low bits that fit.\<close>

fun store_fields :: "(field \<times> int) list \<Rightarrow> byte_list \<Rightarrow> byte_list" where
  "store_fields [] m = m"
| "store_fields (((k, n), v) # fs) m = store_fields fs (wr (k, n) (nat (v mod 256 ^ n)) m)"

definition rdi :: "field \<Rightarrow> byte_list \<Rightarrow> int" where
  "rdi f m = int (rd f m)"

text \<open>Bit \<open>i\<close> of a structure of bit members.\<close>

definition put_cfg_flag :: "nat \<Rightarrow> bool \<Rightarrow> byte_list \<Rightarrow> byte_list" where
  "put_cfg_flag i b m =
     m[i div 8 := (if b then set_bit (i mod 8) (m ! (i div 8)) else unset_bit (i mod 8) (m ! (i div 8)))]"

definition get_cfg_flag :: "nat \<Rightarrow> byte_list \<Rightarrow> bool" where
  "get_cfg_flag i m = bit (m ! (i div 8)) (i mod 8)"

definition zero_param :: "nat \<Rightarrow> byte_list \<Rightarrow> byte_list" where
  "zero_param n m = put_bytes 0 (replicate n 0) m"

definition req_head :: "int \<Rightarrow> int \<Rightarrow> nat \<Rightarrow> ksz_request \<Rightarrow> ksz_request" where
  "req_head cmd subcmd n r =
     r\<lparr>rq_size := SIZEOF_ksz_request + int n, rq_cmd := cmd, rq_subcmd := subcmd\<rparr>"

definition set_output :: "int \<Rightarrow> ksz_request \<Rightarrow> ksz_request" where
  "set_output v r = r\<lparr>rq_output := v\<rparr>"

definition req_param :: "(byte_list \<Rightarrow> byte_list) \<Rightarrow> ksz_request \<Rightarrow> ksz_request" where
  "req_param f r = r\<lparr>rq_param := f (rq_param r)\<rparr>"

text \<open>\<open>x | (clk_id << 16)\<close> in \<open>int\<close>.\<close>

definition with_clk :: "int \<Rightarrow> int \<Rightarrow> int" where
  "with_clk x clk_id = x OR s32 (clk_id * 2 ^ 16)"

subsection \<open>Members of the parameter structures\<close>

abbreviation (input) clk_sec :: field where "clk_sec \<equiv> (0, 4)"
abbreviation (input) clk_nsec :: field where "clk_nsec \<equiv> (4, 4)"
abbreviation (input) clk_drift :: field where "clk_drift \<equiv> (8, 4)"
abbreviation (input) clk_interval :: field where "clk_interval \<equiv> (12, 4)"
abbreviation (input) dv_rx_latency :: field where "dv_rx_latency \<equiv> (0, 2)"
abbreviation (input) dv_tx_latency :: field where "dv_tx_latency \<equiv> (2, 2)"
abbreviation (input) dv_asym_delay :: field where "dv_asym_delay \<equiv> (4, 2)"
abbreviation (input) dv_reserved :: field where "dv_reserved \<equiv> (6, 2)"

text \<open>The bits of \<open>struct ptp_cfg_options\<close>; \<open>x_set\<close> is 16 bits above \<open>x\<close>.\<close>

abbreviation (input) co_master :: nat where "co_master \<equiv> 0"
abbreviation (input) co_two_step :: nat where "co_two_step \<equiv> 1"
abbreviation (input) co_p2p :: nat where "co_p2p \<equiv> 2"
abbreviation (input) co_as :: nat where "co_as \<equiv> 3"
abbreviation (input) co_domain_check :: nat where "co_domain_check \<equiv> 4"
abbreviation (input) co_udp_csum :: nat where "co_udp_csum \<equiv> 5"
abbreviation (input) co_unicast :: nat where "co_unicast \<equiv> 6"
abbreviation (input) co_alternate :: nat where "co_alternate \<equiv> 7"
abbreviation (input) co_delay_assoc :: nat where "co_delay_assoc \<equiv> 8"
abbreviation (input) co_pdelay_assoc :: nat where "co_pdelay_assoc \<equiv> 9"
abbreviation (input) co_sync_assoc :: nat where "co_sync_assoc \<equiv> 10"
abbreviation (input) co_drop_sync :: nat where "co_drop_sync \<equiv> 11"
abbreviation (input) co_priority :: nat where "co_priority \<equiv> 12"
abbreviation (input) co_domain_set :: nat where "co_domain_set \<equiv> 31"

subsection \<open>Filling in the requests\<close>

definition exit_req :: "ksz_request \<Rightarrow> ksz_request" where
  "exit_req r = set_output 0 (req_head DEV_CMD_INFO DEV_INFO_EXIT 0 r)"

definition init_req :: "int \<Rightarrow> ksz_request \<Rightarrow> ksz_request" where
  "init_req capability r =
     req_param (put_bytes 0 [0x31, 0x35, 0x38, 0x38, 0x76, 0x32])
       (set_output capability (req_head DEV_CMD_INFO DEV_INFO_INIT 8 r))"

definition get_freq_req :: "int \<Rightarrow> ksz_request \<Rightarrow> ksz_request" where
  "get_freq_req clk_id r = set_output (with_clk 1 clk_id) (req_head DEV_CMD_GET DEV_PTP_CLK 16 r)"

definition adj_freq_req :: "int \<Rightarrow> int \<Rightarrow> int \<Rightarrow> int \<Rightarrow> u32 \<Rightarrow> int \<Rightarrow> ksz_request \<Rightarrow> ksz_request" where
  "adj_freq_req sign sec nsec drift interval clk_id r =
     req_param (store_fields [(clk_sec, sec), (clk_nsec, nsec), (clk_drift, drift), (clk_interval, uint interval)])
       (set_output (with_clk sign clk_id) (req_head DEV_CMD_PUT DEV_PTP_CLK 16 r))"

definition get_clock_req :: "int \<Rightarrow> ksz_request \<Rightarrow> ksz_request" where
  "get_clock_req clk_id r = set_output (with_clk 0 clk_id) (req_head DEV_CMD_GET DEV_PTP_CLK 16 r)"

definition set_clock_req :: "u32 \<Rightarrow> u32 \<Rightarrow> int \<Rightarrow> ksz_request \<Rightarrow> ksz_request" where
  "set_clock_req sec nsec clk_id r =
     req_param (store_fields [(clk_sec, uint sec), (clk_nsec, uint nsec)])
       (set_output (with_clk 0 clk_id) (req_head DEV_CMD_PUT DEV_PTP_CLK 16 r))"

definition get_hw_cfg_req :: "ksz_request \<Rightarrow> ksz_request" where
  "get_hw_cfg_req r = set_output 0 (req_head DEV_CMD_GET DEV_PTP_CFG 10 (req_param (zero_param 10) r))"

text \<open>\<open>param->x_set = 1; param->x = v ? 1 : 0\<close>\<close>

definition set_cfg_bit :: "nat \<Rightarrow> int \<Rightarrow> byte_list \<Rightarrow> byte_list" where
  "set_cfg_bit i v m = put_cfg_flag i (v \<noteq> 0) (put_cfg_flag (i + 16) True m)"

definition set_param_master :: "int \<Rightarrow> byte_list \<Rightarrow> byte_list" where
  "set_param_master = set_cfg_bit co_master"

definition set_param_2_step :: "int \<Rightarrow> byte_list \<Rightarrow> byte_list" where
  "set_param_2_step = set_cfg_bit co_two_step"

definition set_param_p2p :: "int \<Rightarrow> byte_list \<Rightarrow> byte_list" where
  "set_param_p2p = set_cfg_bit co_p2p"

definition set_param_as :: "int \<Rightarrow> byte_list \<Rightarrow> byte_list" where
  "set_param_as = set_cfg_bit co_as"

definition set_param_domain_check :: "int \<Rightarrow> byte_list \<Rightarrow> byte_list" where
  "set_param_domain_check = set_cfg_bit co_domain_check"

definition set_param_csum :: "int \<Rightarrow> byte_list \<Rightarrow> byte_list" where
  "set_param_csum = set_cfg_bit co_udp_csum"

definition set_param_unicast :: "int \<Rightarrow> byte_list \<Rightarrow> byte_list" where
  "set_param_unicast = set_cfg_bit co_unicast"

definition set_param_alternate :: "int \<Rightarrow> byte_list \<Rightarrow> byte_list" where
  "set_param_alternate = set_cfg_bit co_alternate"

definition set_param_delay_assoc :: "int \<Rightarrow> byte_list \<Rightarrow> byte_list" where
  "set_param_delay_assoc = set_cfg_bit co_delay_assoc"

definition set_param_pdelay_assoc :: "int \<Rightarrow> byte_list \<Rightarrow> byte_list" where
  "set_param_pdelay_assoc = set_cfg_bit co_pdelay_assoc"

definition set_param_sync_assoc :: "int \<Rightarrow> byte_list \<Rightarrow> byte_list" where
  "set_param_sync_assoc = set_cfg_bit co_sync_assoc"

definition set_param_drop_sync :: "int \<Rightarrow> byte_list \<Rightarrow> byte_list" where
  "set_param_drop_sync = set_cfg_bit co_drop_sync"

definition set_param_priority :: "int \<Rightarrow> byte_list \<Rightarrow> byte_list" where
  "set_param_priority = set_cfg_bit co_priority"

definition set_param_domain :: "int \<Rightarrow> byte_list \<Rightarrow> byte_list" where
  "set_param_domain domain m = store_fields [((4, 1), domain)] (put_cfg_flag co_domain_set True m)"

definition set_hw_cfg_req :: "(int \<Rightarrow> byte_list \<Rightarrow> byte_list) \<Rightarrow> int \<Rightarrow> ksz_request \<Rightarrow> ksz_request" where
  "set_hw_cfg_req set_param v r =
     req_param (set_param v) (set_output 0 (req_head DEV_CMD_PUT DEV_PTP_CFG 10 (req_param (zero_param 10) r)))"

definition set_cfg_req :: "int \<Rightarrow> int \<Rightarrow> int \<Rightarrow> int \<Rightarrow> ksz_request \<Rightarrow> ksz_request" where
  "set_cfg_req master two_step p2p as r =
     req_param (\<lambda>m. set_param_as as (set_param_p2p p2p (set_param_2_step two_step (set_param_master master m))))
       (set_output 0 (req_head DEV_CMD_PUT DEV_PTP_CFG 10 (req_param (zero_param 10) r)))"

definition get_2_domain_cfg_req :: "int \<Rightarrow> ksz_request \<Rightarrow> ksz_request" where
  "get_2_domain_cfg_req port r =
     set_output port (req_head DEV_CMD_GET DEV_PTP_CFG 10 (req_param (zero_param 10) r))"

definition set_2_domain_cfg_req :: "int \<Rightarrow> ksz_request \<Rightarrow> ksz_request" where
  "set_2_domain_cfg_req domain r =
     req_param (set_param_domain_check domain)
       (set_output (-1) (req_head DEV_CMD_PUT DEV_PTP_CFG 10 (req_param (zero_param 10) r)))"

definition set_2_domain_port_cfg_req :: "int \<Rightarrow> int \<Rightarrow> int \<Rightarrow> ksz_request \<Rightarrow> ksz_request" where
  "set_2_domain_port_cfg_req port two_step p2p r =
     req_param (\<lambda>m. set_param_p2p p2p (set_param_2_step two_step m))
       (set_output port (req_head DEV_CMD_PUT DEV_PTP_CFG 10 (req_param (zero_param 10) r)))"

definition get_delays_req :: "int \<Rightarrow> ksz_request \<Rightarrow> ksz_request" where
  "get_delays_req port r = set_output port (req_head DEV_CMD_GET DEV_PTP_DELAY 8 r)"

definition set_delays_req :: "int \<Rightarrow> int \<Rightarrow> int \<Rightarrow> int \<Rightarrow> ksz_request \<Rightarrow> ksz_request" where
  "set_delays_req port rx tx asym_delay r =
     req_param (store_fields [(dv_rx_latency, rx), (dv_tx_latency, tx), (dv_asym_delay, asym_delay), (dv_reserved, 0)])
       (set_output port (req_head DEV_CMD_PUT DEV_PTP_DELAY 8 r))"

definition get_reg_req :: "ptp_api \<Rightarrow> nat \<Rightarrow> u32 \<Rightarrow> ksz_request \<Rightarrow> ksz_request" where
  "get_reg_req api width reg r =
     (if ap_version api \<ge> 2
      then req_param (store_fields [((0, 4), int width), ((4, 4), uint reg)])
             (set_output 0 (req_head DEV_CMD_GET DEV_PTP_REG 12 r))
      else set_output (sint reg) (req_head DEV_CMD_GET DEV_PTP_REG 0 r))"

definition set_reg_req :: "ptp_api \<Rightarrow> nat \<Rightarrow> u32 \<Rightarrow> u32 \<Rightarrow> ksz_request \<Rightarrow> ksz_request" where
  "set_reg_req api width reg val r =
     (if ap_version api \<ge> 2
      then req_param (store_fields [((0, 4), int width), ((4, 4), uint reg), ((8, 4), uint val)])
             (set_output 0 (req_head DEV_CMD_PUT DEV_PTP_REG 12 r))
      else set_output (sint ((reg AND 0xffff) OR push_bit 16 val)) (req_head DEV_CMD_PUT DEV_PTP_REG 0 r))"

definition ident_output :: "ptp_api \<Rightarrow> int \<Rightarrow> int" where
  "ident_output api master = (if ap_version api \<ge> 2 then master else 0)"

definition get_clock_ident_req :: "ptp_api \<Rightarrow> int \<Rightarrow> ksz_request \<Rightarrow> ksz_request" where
  "get_clock_ident_req api master r =
     set_output (ident_output api master) (req_head DEV_CMD_GET DEV_PTP_IDENTITY 8 r)"

definition set_clock_ident_req :: "ptp_api \<Rightarrow> int \<Rightarrow> byte_list \<Rightarrow> ksz_request \<Rightarrow> ksz_request" where
  "set_clock_ident_req api master ident r =
     req_param (put_bytes 0 (take 8 ident))
       (set_output (ident_output api master) (req_head DEV_CMD_PUT DEV_PTP_IDENTITY 8 r))"

definition get_peer_delay_req :: "int \<Rightarrow> ksz_request \<Rightarrow> ksz_request" where
  "get_peer_delay_req port r = set_output port (req_head DEV_CMD_GET DEV_PTP_PEER_DELAY 8 r)"

definition set_peer_delay_req :: "ptp_api \<Rightarrow> int \<Rightarrow> int \<Rightarrow> ksz_request \<Rightarrow> ksz_request" where
  "set_peer_delay_req api port delay r =
     req_param (\<lambda>m.
       (let m = store_fields [(dv_rx_latency, 0), (dv_tx_latency, 0), (dv_asym_delay, 0), (dv_reserved, delay)] m
        in if ap_version api \<ge> 2 then store_fields [(dv_rx_latency, delay div 2 ^ 16)] m else m))
       (set_output port (req_head DEV_CMD_PUT DEV_PTP_PEER_DELAY 8 r))"

definition get_port_cfg_req :: "int \<Rightarrow> ksz_request \<Rightarrow> ksz_request" where
  "get_port_cfg_req port r = set_output port (req_head DEV_CMD_GET DEV_PTP_PORT_CFG 8 r)"

definition set_port_cfg_req :: "int \<Rightarrow> int \<Rightarrow> int \<Rightarrow> ksz_request \<Rightarrow> ksz_request" where
  "set_port_cfg_req port enable asCapable r =
     req_param (store_fields [(dv_reserved, (if enable \<noteq> 0 then 1 else 0) OR (if asCapable \<noteq> 0 then 2 else 0))])
       (set_output port (req_head DEV_CMD_PUT DEV_PTP_PORT_CFG 8 r))"

definition get_utc_offset_req :: "ksz_request \<Rightarrow> ksz_request" where
  "get_utc_offset_req r = set_output 0 (req_head DEV_CMD_GET DEV_PTP_UTC_OFFSET 0 r)"

definition set_utc_offset_req :: "int \<Rightarrow> ksz_request \<Rightarrow> ksz_request" where
  "set_utc_offset_req offset r = set_output offset (req_head DEV_CMD_PUT DEV_PTP_UTC_OFFSET 0 r)"

definition get_clk_domain_req :: "ksz_request \<Rightarrow> ksz_request" where
  "get_clk_domain_req r = set_output 0 (req_head DEV_CMD_GET DEV_PTP_CLK_DOMAIN 8 r)"

text \<open>
  The loop copies \<open>clk\<close> entries from the array of the caller.  Reading past the array or
  writing past the request is \<open>None\<close>.
\<close>

definition store_domains :: "int \<Rightarrow> byte_list \<Rightarrow> byte_list \<Rightarrow> byte_list option" where
  "store_domains clk domains m =
     (if nat clk \<le> length domains \<and> nat clk < length m
      then Some (put_bytes 1 (take (nat clk) domains) (store_fields [((0, 1), clk)] m)) else None)"

definition param_opt :: "(byte_list \<Rightarrow> byte_list option) \<Rightarrow> ksz_request \<Rightarrow> ksz_request option" where
  "param_opt f r = map_option (\<lambda>m. r\<lparr>rq_param := m\<rparr>) (f (rq_param r))"

definition set_clk_domain_req :: "int \<Rightarrow> byte_list \<Rightarrow> ksz_request \<Rightarrow> ksz_request option" where
  "set_clk_domain_req clk domains r =
     param_opt (store_domains clk domains) (set_output 0 (req_head DEV_CMD_PUT DEV_PTP_CLK_DOMAIN 8 r))"

definition get_clk_domain_ports_req :: "ksz_request \<Rightarrow> ksz_request" where
  "get_clk_domain_ports_req r = set_output 1 (req_head DEV_CMD_GET DEV_PTP_CLK_DOMAIN 8 r)"

definition set_clk_domain_ports_req :: "int \<Rightarrow> byte_list \<Rightarrow> ksz_request \<Rightarrow> ksz_request option" where
  "set_clk_domain_ports_req clk ports r =
     param_opt (store_domains clk ports) (set_output 1 (req_head DEV_CMD_PUT DEV_PTP_CLK_DOMAIN 8 r))"

definition get_timestamp_req :: "u8 \<Rightarrow> u8 \<Rightarrow> u16 \<Rightarrow> u8 \<times> u8 \<Rightarrow> u32 \<Rightarrow> ksz_request \<Rightarrow> ksz_request" where
  "get_timestamp_req msg port seqid mac timestamp r =
     req_param (store_fields [((0, 4), uint timestamp), ((12, 1), uint msg), ((13, 1), uint port),
                   ((14, 2), uint seqid), ((16, 1), uint (fst mac)), ((17, 1), uint (snd mac))])
       (set_output 0 (req_head DEV_CMD_GET DEV_PTP_TIMESTAMP 18 r))"

text \<open>
  The header of a message is 34 bytes: the message type is the low half of byte 0, the domain
  is byte 4, the source port identity bytes 20 to 29, the sequence number bytes 30 and 31.
\<close>

definition msg_options :: "byte_list \<Rightarrow> byte_list \<Rightarrow> byte_list" where
  "msg_options hdr m =
     store_fields [((13, 1), rdi (0, 1) hdr mod 16), ((10, 2), rdi (30, 2) hdr), ((12, 1), rdi (4, 1) hdr)]
       (put_bytes 0 (get_bytes 20 10 hdr) m)"

definition get_msg_info_req :: "byte_list \<Rightarrow> int \<Rightarrow> ksz_request \<Rightarrow> ksz_request" where
  "get_msg_info_req hdr tx r =
     req_param (msg_options hdr) (set_output tx (req_head DEV_CMD_GET DEV_PTP_MSG 40 r))"

definition set_msg_info_req :: "byte_list \<Rightarrow> u32 \<Rightarrow> u32 \<Rightarrow> u32 \<Rightarrow> ksz_request \<Rightarrow> ksz_request" where
  "set_msg_info_req hdr port sec nsec r =
     req_param (\<lambda>m. store_fields [((16, 4), uint port), ((36, 4), uint (push_bit 30 sec OR nsec)),
                       ((28, 4), uint sec), ((32, 4), uint nsec)] (msg_options hdr m))
       (set_output 0 (req_head DEV_CMD_PUT DEV_PTP_MSG 40 r))"

definition get_tail_tag_req :: "u32 \<Rightarrow> int \<Rightarrow> u32 \<Rightarrow> int \<Rightarrow> ksz_request \<Rightarrow> ksz_request" where
  "get_tail_tag_req buf len tag tag_len r =
     req_param (store_fields [((0, 2), len), ((2, 2), tag_len), ((4, 4), 0), ((8, 4), uint buf), ((12, 4), uint tag)])
       (req_head DEV_CMD_PUT DEV_PTP_TAG 21 r)"

definition set_tail_tag_req ::
  "u32 \<Rightarrow> u32 \<Rightarrow> int \<Rightarrow> u32 \<Rightarrow> u8 \<Rightarrow> int \<Rightarrow> ksz_request \<Rightarrow> ksz_request" where
  "set_tail_tag_req dst buf len ports queue tag_len r =
     req_param (store_fields [((0, 2), len), ((2, 2), tag_len), ((4, 4), uint dst), ((8, 4), uint buf),
                   ((16, 4), uint ports), ((20, 1), uint queue)])
       (req_head DEV_CMD_GET DEV_PTP_TAG 21 r)"

definition rx_event_req :: "u8 \<Rightarrow> u8 \<Rightarrow> u8 \<Rightarrow> u8 \<Rightarrow> u8 \<Rightarrow> u32 \<Rightarrow> ksz_request \<Rightarrow> ksz_request" where
  "rx_event_req tsi gpi event cnt_total flags timeout r =
     req_param (store_fields [((0, 1), uint tsi), ((1, 1), uint gpi), ((2, 1), uint event), ((3, 1), uint flags),
                   ((4, 1), uint cnt_total), ((8, 4), uint timeout)])
       (req_head DEV_CMD_PUT DEV_PTP_TEVT 12 (req_param (zero_param 12) r))"

definition rx_get_clock_req :: "u8 \<Rightarrow> ksz_request \<Rightarrow> ksz_request" where
  "rx_get_clock_req tsi r =
     req_param (store_fields [((0, 1), uint tsi)])
       (set_output 8 (req_head DEV_CMD_GET DEV_PTP_TEVT 12 (req_param (zero_param 12) r)))"

definition rx_set_clock_req :: "u8 \<Rightarrow> int \<Rightarrow> ksz_request \<Rightarrow> ksz_request" where
  "rx_set_clock_req tsi clk_id r =
     req_param (store_fields [((0, 1), uint tsi)])
       (set_output (with_clk 8 clk_id) (req_head DEV_CMD_PUT DEV_PTP_TEVT 12 (req_param (zero_param 12) r)))"

definition tx_event_req ::
  "u8 \<Rightarrow> u8 \<Rightarrow> u8 \<Rightarrow> u32 \<Rightarrow> u32 \<Rightarrow> u16 \<Rightarrow> u32 \<Rightarrow> u32 \<Rightarrow> u32 \<Rightarrow> u8 \<Rightarrow> ksz_request \<Rightarrow> ksz_request" where
  "tx_event_req tso gpo event pulse cycle cnt iterate sec nsec flags r =
     req_param (store_fields [((0, 1), uint tso), ((1, 1), uint gpo), ((2, 1), uint event), ((3, 1), uint flags),
                   ((8, 4), uint pulse), ((12, 4), uint cycle), ((6, 2), uint cnt), ((16, 4), uint sec),
                   ((20, 4), uint nsec), ((24, 4), uint iterate)])
       (req_head DEV_CMD_PUT DEV_PTP_TOUT 28 (req_param (zero_param 28) r))"

definition tx_cascade_req :: "u8 \<Rightarrow> u8 \<Rightarrow> u8 \<Rightarrow> u16 \<Rightarrow> u8 \<Rightarrow> ksz_request \<Rightarrow> ksz_request" where
  "tx_cascade_req tso gpo cnt_total cnt flags r =
     req_param (store_fields [((0, 1), uint tso), ((1, 1), uint gpo), ((4, 1), uint cnt_total), ((3, 1), uint flags),
                   ((6, 2), uint cnt)])
       (set_output 1 (req_head DEV_CMD_PUT DEV_PTP_CASCADE 28 (req_param (zero_param 28) r)))"

definition tx_cascade_init_req :: "u8 \<Rightarrow> u8 \<Rightarrow> u8 \<Rightarrow> u8 \<Rightarrow> ksz_request \<Rightarrow> ksz_request" where
  "tx_cascade_init_req tso gpo cnt_total flags r =
     req_param (store_fields [((0, 1), uint tso), ((1, 1), uint gpo), ((4, 1), uint cnt_total), ((3, 1), uint flags)])
       (set_output 0 (req_head DEV_CMD_PUT DEV_PTP_CASCADE 28 (req_param (zero_param 28) r)))"

definition tx_get_output_req :: "u8 \<Rightarrow> ksz_request \<Rightarrow> ksz_request" where
  "tx_get_output_req gpo r =
     req_param (store_fields [((1, 1), uint gpo)])
       (set_output 0 (req_head DEV_CMD_GET DEV_PTP_TOUT 28 (req_param (zero_param 28) r)))"

definition tx_get_clock_req :: "u8 \<Rightarrow> ksz_request \<Rightarrow> ksz_request" where
  "tx_get_clock_req tso r =
     req_param (store_fields [((0, 1), uint tso)])
       (set_output 8 (req_head DEV_CMD_GET DEV_PTP_TOUT 28 (req_param (zero_param 28) r)))"

definition tx_set_clock_req :: "u8 \<Rightarrow> int \<Rightarrow> ksz_request \<Rightarrow> ksz_request" where
  "tx_set_clock_req tso clk_id r =
     req_param (store_fields [((0, 1), uint tso)])
       (set_output (with_clk 8 clk_id) (req_head DEV_CMD_PUT DEV_PTP_TOUT 28 (req_param (zero_param 28) r)))"

text \<open>\<open>PTP_CMD_GET_EVENT\<close> is \<open>0xF0\<close>.\<close>

definition get_rx_event_req :: "u8 \<Rightarrow> ksz_request \<Rightarrow> ksz_request" where
  "get_rx_event_req tsi r =
     req_param (store_fields [((0, 1), 0xF0), ((1, 1), uint tsi)]) (set_output 0 (req_head DEV_CMD_GET DEV_PTP_TEVT 8 r))"

definition poll_rx_event_req :: "u8 \<Rightarrow> ksz_request \<Rightarrow> ksz_request" where
  "poll_rx_event_req tsi r =
     req_param (store_fields [((0, 1), 0xF0), ((1, 1), uint tsi)]) (set_output 1 (req_head DEV_CMD_GET DEV_PTP_TEVT 8 r))"

definition get_rx_event_info_req :: "ksz_request \<Rightarrow> ksz_request" where
  "get_rx_event_info_req r =
     req_param (store_fields [((0, 1), 0xF0), ((1, 1), - 1)]) (set_output 2 (req_head DEV_CMD_GET DEV_PTP_TEVT 8 r))"

subsection \<open>Sending a request\<close>

text \<open>
  \<open>rc = file_dev_ioctl(fd, &req); if (!rc) rc = req.result;\<close> The return code of the call is
  that of \<open>ioctl\<close> or, when it is zero, the result the driver put into the request.
\<close>

definition send_req :: "'d device \<Rightarrow> ksz_request \<Rightarrow> 'd \<Rightarrow> int \<times> ksz_request \<times> 'd" where
  "send_req dev r d = (let (rc, a, d) = dev d r in (if rc = 0 then rq_result a else rc, a, d))"

definition put_call :: "'d device \<Rightarrow> ksz_request \<Rightarrow> 'd \<Rightarrow> int \<times> 'd" where
  "put_call dev r d = (let (rc, a, d) = send_req dev r d in (rc, d))"

definition get_call :: "'d device \<Rightarrow> ksz_request \<Rightarrow> (ksz_request \<Rightarrow> 'a) \<Rightarrow> 'd \<Rightarrow> int \<times> 'a option \<times> 'd" where
  "get_call dev r f d =
     (let (rc, a, d) = send_req dev r d in (rc, if rc = 0 then Some (f a) else None, d))"

subsection \<open>Opening the device\<close>

definition ptp_dev_exit :: "'d device \<Rightarrow> ksz_request \<Rightarrow> 'd \<Rightarrow> int \<times> 'd" where
  "ptp_dev_exit dev r0 d = (let (rc, a, d) = dev d (exit_req r0) in (rc, d))"

text \<open>The answer of a driver of this family starts with \<open>Micr\<close>.\<close>

definition is_micr :: "byte_list \<Rightarrow> bool" where
  "is_micr m \<longleftrightarrow> take 4 m = [0x4D, 0x69, 0x63, 0x72]"

text \<open>
  \<open>api\<close> holds the static variables and \<open>host_port\<close> what the variable of the caller holds; the
  answer is the new static variables (which are also the caller's) and the drift.
\<close>

definition ptp_dev_init ::
  "'d device \<Rightarrow> ksz_request \<Rightarrow> int \<Rightarrow> u8 \<Rightarrow> ptp_api \<Rightarrow> 'd \<Rightarrow> int \<times> int option \<times> ptp_api \<times> 'd" where
  "ptp_dev_init dev r0 capability host_port api d =
     (let (rc, a, d) = dev d (init_req capability r0); p = rq_param a
      in if rc = 0
         then (rc, Some (rq_output a),
               if is_micr p
               then (let version = p ! 4; ports = p ! 5;
                         host = (if version \<ge> 2 then p ! 6 else host_port);
                         ports = (if version \<ge> 2 \<and> host \<noteq> 0 then ports - 1 else ports)
                     in \<lparr>ap_version = version, ap_ports = ports, ap_host_port = host\<rparr>)
               else api, d)
         else (rc, None, api, d))"

definition ptp_set_notify :: "'d device \<Rightarrow> ksz_request \<Rightarrow> u32 \<Rightarrow> 'd \<Rightarrow> int \<times> 'd" where
  "ptp_set_notify dev r0 notify =
     put_call dev (req_param (store_fields [((0, 4), uint notify)])
       (set_output 0 (req_head DEV_CMD_INFO DEV_INFO_NOTIFY 4 r0)))"

text \<open>
  \<open>name\<close> is the name without its final zero.  The request holds the name and its zero; a longer
  name than the parameter area is \<open>None\<close>.  The return code is that of \<open>ioctl\<close> alone.
\<close>

definition ptp_port_info ::
  "'d device \<Rightarrow> ksz_request \<Rightarrow> byte_list \<Rightarrow> 'd \<Rightarrow> (int \<times> (u8 \<times> u32) option \<times> 'd) option" where
  "ptp_port_info dev r0 name d =
     (if length name < length (rq_param r0)
      then (let r = req_param (put_bytes 0 (name @ [0])) (req_head DEV_CMD_INFO DEV_INFO_PORT (length name + 2) r0);
                (rc, a, d) = dev d r
            in Some (rc, if rc = 0 \<and> is_micr (rq_param a)
                         then Some (rq_param a ! 4, of_int (rq_output a)) else None, d))
      else None)"

subsection \<open>The clock\<close>

definition get_freq :: "'d device \<Rightarrow> ksz_request \<Rightarrow> ptp_api \<Rightarrow> int \<Rightarrow> 'd \<Rightarrow> int \<times> int option \<times> 'd" where
  "get_freq dev r0 api clk_id d =
     (if ap_version api < 2 then (DEV_IOC_INVALID_CMD, None, d)
      else get_call dev (get_freq_req clk_id r0) rq_output d)"

text \<open>\<open>sign\<close> 1 asks the driver to subtract the time, 2 to add it.\<close>

definition adj_freq_args :: "int \<Rightarrow> int \<Rightarrow> int \<times> int \<times> int" where
  "adj_freq_args sec nsec =
     (if nsec < 0 \<or> sec < 0 then (1, s32 (- sec), s32 (- nsec)) else (2, sec, nsec))"

definition adj_freq ::
  "'d device \<Rightarrow> ksz_request \<Rightarrow> int \<Rightarrow> int \<Rightarrow> int \<Rightarrow> u32 \<Rightarrow> int \<Rightarrow> 'd \<Rightarrow> int \<times> 'd" where
  "adj_freq dev r0 sec nsec drift interval clk_id =
     (let (sign, sec, nsec) = adj_freq_args sec nsec
      in put_call dev (adj_freq_req sign sec nsec drift interval clk_id r0))"

definition get_clock :: "'d device \<Rightarrow> ksz_request \<Rightarrow> int \<Rightarrow> 'd \<Rightarrow> int \<times> (int \<times> int) option \<times> 'd" where
  "get_clock dev r0 clk_id =
     get_call dev (get_clock_req clk_id r0) (\<lambda>a. (rdi clk_sec (rq_param a), rdi clk_nsec (rq_param a)))"

definition set_clock :: "'d device \<Rightarrow> ksz_request \<Rightarrow> u32 \<Rightarrow> u32 \<Rightarrow> int \<Rightarrow> 'd \<Rightarrow> int \<times> 'd" where
  "set_clock dev r0 sec nsec clk_id = put_call dev (set_clock_req sec nsec clk_id r0)"

subsection \<open>The configuration\<close>

text \<open>
  \<open>get_global_cfg\<close> stores each member whose pointer is not null: the bits in the order of its
  arguments, the domain, the access delay and the three reserved bits.
\<close>

record global_cfg =
  gc_flags :: "bool list"
  gc_domain :: int
  gc_delay :: int
  gc_started :: int

definition read_global_cfg :: "byte_list \<Rightarrow> global_cfg" where
  "read_global_cfg m =
     \<lparr>gc_flags = map (\<lambda>i. get_cfg_flag i m)
        [co_master, co_two_step, co_p2p, co_as, co_unicast, co_alternate, co_udp_csum, co_domain_check,
         co_delay_assoc, co_pdelay_assoc, co_sync_assoc, co_drop_sync, co_priority],
      gc_domain = rdi (4, 1) m, gc_delay = rdi (6, 4) m, gc_started = rdi (1, 1) m div 2 ^ 5\<rparr>"

definition get_global_cfg :: "'d device \<Rightarrow> ksz_request \<Rightarrow> 'd \<Rightarrow> int \<times> global_cfg option \<times> 'd" where
  "get_global_cfg dev r0 = get_call dev (get_hw_cfg_req r0) (\<lambda>a. read_global_cfg (rq_param a))"

definition set_hw_cfg ::
  "'d device \<Rightarrow> ksz_request \<Rightarrow> (int \<Rightarrow> byte_list \<Rightarrow> byte_list) \<Rightarrow> int \<Rightarrow> 'd \<Rightarrow> int \<times> 'd" where
  "set_hw_cfg dev r0 set_param v = put_call dev (set_hw_cfg_req set_param v r0)"

definition set_hw_domain :: "'d device \<Rightarrow> ksz_request \<Rightarrow> u8 \<Rightarrow> 'd \<Rightarrow> int \<times> 'd" where
  "set_hw_domain dev r0 domain = set_hw_cfg dev r0 set_param_domain (uint domain)"

definition set_hw_master :: "'d device \<Rightarrow> ksz_request \<Rightarrow> int \<Rightarrow> 'd \<Rightarrow> int \<times> 'd" where
  "set_hw_master dev r0 = set_hw_cfg dev r0 set_param_master"

definition set_hw_2_step :: "'d device \<Rightarrow> ksz_request \<Rightarrow> int \<Rightarrow> 'd \<Rightarrow> int \<times> 'd" where
  "set_hw_2_step dev r0 = set_hw_cfg dev r0 set_param_2_step"

definition set_hw_p2p :: "'d device \<Rightarrow> ksz_request \<Rightarrow> int \<Rightarrow> 'd \<Rightarrow> int \<times> 'd" where
  "set_hw_p2p dev r0 = set_hw_cfg dev r0 set_param_p2p"

definition set_hw_as :: "'d device \<Rightarrow> ksz_request \<Rightarrow> int \<Rightarrow> 'd \<Rightarrow> int \<times> 'd" where
  "set_hw_as dev r0 = set_hw_cfg dev r0 set_param_as"

definition set_hw_unicast :: "'d device \<Rightarrow> ksz_request \<Rightarrow> int \<Rightarrow> 'd \<Rightarrow> int \<times> 'd" where
  "set_hw_unicast dev r0 = set_hw_cfg dev r0 set_param_unicast"

definition set_hw_alternate :: "'d device \<Rightarrow> ksz_request \<Rightarrow> int \<Rightarrow> 'd \<Rightarrow> int \<times> 'd" where
  "set_hw_alternate dev r0 = set_hw_cfg dev r0 set_param_alternate"

definition set_hw_domain_check :: "'d device \<Rightarrow> ksz_request \<Rightarrow> int \<Rightarrow> 'd \<Rightarrow> int \<times> 'd" where
  "set_hw_domain_check dev r0 = set_hw_cfg dev r0 set_param_domain_check"

definition set_hw_csum :: "'d device \<Rightarrow> ksz_request \<Rightarrow> int \<Rightarrow> 'd \<Rightarrow> int \<times> 'd" where
  "set_hw_csum dev r0 = set_hw_cfg dev r0 set_param_csum"

definition set_hw_delay_assoc :: "'d device \<Rightarrow> ksz_request \<Rightarrow> int \<Rightarrow> 'd \<Rightarrow> int \<times> 'd" where
  "set_hw_delay_assoc dev r0 = set_hw_cfg dev r0 set_param_delay_assoc"

definition set_hw_pdelay_assoc :: "'d device \<Rightarrow> ksz_request \<Rightarrow> int \<Rightarrow> 'd \<Rightarrow> int \<times> 'd" where
  "set_hw_pdelay_assoc dev r0 = set_hw_cfg dev r0 set_param_pdelay_assoc"

definition set_hw_sync_assoc :: "'d device \<Rightarrow> ksz_request \<Rightarrow> int \<Rightarrow> 'd \<Rightarrow> int \<times> 'd" where
  "set_hw_sync_assoc dev r0 = set_hw_cfg dev r0 set_param_sync_assoc"

definition set_hw_drop_sync :: "'d device \<Rightarrow> ksz_request \<Rightarrow> int \<Rightarrow> 'd \<Rightarrow> int \<times> 'd" where
  "set_hw_drop_sync dev r0 = set_hw_cfg dev r0 set_param_drop_sync"

definition set_hw_priority :: "'d device \<Rightarrow> ksz_request \<Rightarrow> int \<Rightarrow> 'd \<Rightarrow> int \<times> 'd" where
  "set_hw_priority dev r0 = set_hw_cfg dev r0 set_param_priority"

definition set_global_cfg ::
  "'d device \<Rightarrow> ksz_request \<Rightarrow> int \<Rightarrow> int \<Rightarrow> int \<Rightarrow> int \<Rightarrow> 'd \<Rightarrow> int \<times> 'd" where
  "set_global_cfg dev r0 master two_step p2p as = put_call dev (set_cfg_req master two_step p2p as r0)"

definition get_2_domain_cfg :: "'d device \<Rightarrow> ksz_request \<Rightarrow> 'd \<Rightarrow> int \<times> bool option \<times> 'd" where
  "get_2_domain_cfg dev r0 =
     get_call dev (get_2_domain_cfg_req (-1) r0) (\<lambda>a. get_cfg_flag co_domain_check (rq_param a))"

definition set_2_domain_cfg :: "'d device \<Rightarrow> ksz_request \<Rightarrow> int \<Rightarrow> 'd \<Rightarrow> int \<times> 'd" where
  "set_2_domain_cfg dev r0 domain = put_call dev (set_2_domain_cfg_req domain r0)"

definition get_2_domain_port_cfg ::
  "'d device \<Rightarrow> ksz_request \<Rightarrow> int \<Rightarrow> 'd \<Rightarrow> int \<times> (bool \<times> bool) option \<times> 'd" where
  "get_2_domain_port_cfg dev r0 port =
     get_call dev (get_2_domain_cfg_req (s32 (port + 1)) r0)
       (\<lambda>a. (get_cfg_flag co_two_step (rq_param a), get_cfg_flag co_p2p (rq_param a)))"

definition set_2_domain_port_cfg ::
  "'d device \<Rightarrow> ksz_request \<Rightarrow> int \<Rightarrow> int \<Rightarrow> int \<Rightarrow> 'd \<Rightarrow> int \<times> 'd" where
  "set_2_domain_port_cfg dev r0 port two_step p2p =
     put_call dev (set_2_domain_port_cfg_req (s32 (port + 1)) two_step p2p r0)"

subsection \<open>Delays, registers, identities and port settings\<close>

definition get_delays :: "'d device \<Rightarrow> ksz_request \<Rightarrow> int \<Rightarrow> 'd \<Rightarrow> int \<times> (int \<times> int \<times> int) option \<times> 'd" where
  "get_delays dev r0 port =
     get_call dev (get_delays_req port r0)
       (\<lambda>a. (rdi dv_rx_latency (rq_param a), rdi dv_tx_latency (rq_param a),
             s16 (rdi dv_asym_delay (rq_param a))))"

definition set_delays :: "'d device \<Rightarrow> ksz_request \<Rightarrow> int \<Rightarrow> int \<Rightarrow> int \<Rightarrow> int \<Rightarrow> 'd \<Rightarrow> int \<times> 'd" where
  "set_delays dev r0 port rx tx asym_delay = put_call dev (set_delays_req port rx tx asym_delay r0)"

definition get_reg :: "'d device \<Rightarrow> ksz_request \<Rightarrow> ptp_api \<Rightarrow> nat \<Rightarrow> u32 \<Rightarrow> 'd \<Rightarrow> int \<times> u32 option \<times> 'd" where
  "get_reg dev r0 api width reg d =
     (if ap_version api < 2 \<and> width \<noteq> 2 then (DEV_IOC_INVALID_CMD, None, d)
      else get_call dev (get_reg_req api width reg r0) (\<lambda>a. of_int (rq_output a)) d)"

definition set_reg :: "'d device \<Rightarrow> ksz_request \<Rightarrow> ptp_api \<Rightarrow> nat \<Rightarrow> u32 \<Rightarrow> u32 \<Rightarrow> 'd \<Rightarrow> int \<times> 'd" where
  "set_reg dev r0 api width reg val d =
     (if ap_version api < 2 \<and> width \<noteq> 2 then (DEV_IOC_INVALID_CMD, d)
      else put_call dev (set_reg_req api width reg val r0) d)"

definition get_clock_ident ::
  "'d device \<Rightarrow> ksz_request \<Rightarrow> ptp_api \<Rightarrow> int \<Rightarrow> 'd \<Rightarrow> int \<times> byte_list option \<times> 'd" where
  "get_clock_ident dev r0 api master d =
     (if ap_version api < 2 \<and> master \<noteq> 0 then (DEV_IOC_INVALID_CMD, None, d)
      else get_call dev (get_clock_ident_req api master r0) (\<lambda>a. take 8 (rq_param a)) d)"

definition set_clock_ident ::
  "'d device \<Rightarrow> ksz_request \<Rightarrow> ptp_api \<Rightarrow> int \<Rightarrow> byte_list \<Rightarrow> 'd \<Rightarrow> int \<times> 'd" where
  "set_clock_ident dev r0 api master ident d =
     (if ap_version api < 2 \<and> master \<noteq> 0 then (DEV_IOC_INVALID_CMD, d)
      else put_call dev (set_clock_ident_req api master ident r0) d)"

definition get_peer_delay :: "'d device \<Rightarrow> ksz_request \<Rightarrow> int \<Rightarrow> 'd \<Rightarrow> int \<times> int option \<times> 'd" where
  "get_peer_delay dev r0 port =
     get_call dev (get_peer_delay_req port r0)
       (\<lambda>a. s32 (rdi dv_rx_latency (rq_param a) * 2 ^ 16) OR rdi dv_reserved (rq_param a))"

definition set_peer_delay :: "'d device \<Rightarrow> ksz_request \<Rightarrow> ptp_api \<Rightarrow> int \<Rightarrow> int \<Rightarrow> 'd \<Rightarrow> int \<times> 'd" where
  "set_peer_delay dev r0 api port delay d =
     (if ap_version api < 2 \<and> delay \<ge> 0x10000 then (DEV_IOC_INVALID_CMD, d)
      else put_call dev (set_peer_delay_req api port delay r0) d)"

definition get_port_cfg :: "'d device \<Rightarrow> ksz_request \<Rightarrow> int \<Rightarrow> 'd \<Rightarrow> int \<times> (bool \<times> bool) option \<times> 'd" where
  "get_port_cfg dev r0 port =
     get_call dev (get_port_cfg_req port r0)
       (\<lambda>a. (bit (rdi dv_reserved (rq_param a)) 0, bit (rdi dv_reserved (rq_param a)) 1))"

definition set_port_cfg :: "'d device \<Rightarrow> ksz_request \<Rightarrow> int \<Rightarrow> int \<Rightarrow> int \<Rightarrow> 'd \<Rightarrow> int \<times> 'd" where
  "set_port_cfg dev r0 port enable asCapable = put_call dev (set_port_cfg_req port enable asCapable r0)"

definition get_utc_offset :: "'d device \<Rightarrow> ksz_request \<Rightarrow> 'd \<Rightarrow> int \<times> int option \<times> 'd" where
  "get_utc_offset dev r0 = get_call dev (get_utc_offset_req r0) rq_output"

definition set_utc_offset :: "'d device \<Rightarrow> ksz_request \<Rightarrow> int \<Rightarrow> 'd \<Rightarrow> int \<times> 'd" where
  "set_utc_offset dev r0 offset = put_call dev (set_utc_offset_req offset r0)"

text \<open>
  \<open>get_clk_domain\<close> copies as many entries as the answer says into the array \<open>domains\<close> of
  the caller.  A count beyond that array or beyond the request is \<open>None\<close>.
\<close>

definition read_domains :: "byte_list \<Rightarrow> byte_list \<Rightarrow> (u8 \<times> byte_list) option" where
  "read_domains domains m =
     (let clk = hd m
      in if unat clk \<le> length domains \<and> unat clk < length m
         then Some (clk, put_bytes 0 (get_bytes 1 (unat clk) m) domains) else None)"

definition domain_call ::
  "'d device \<Rightarrow> ksz_request \<Rightarrow> byte_list \<Rightarrow> 'd \<Rightarrow> (int \<times> (u8 \<times> byte_list) option \<times> 'd) option" where
  "domain_call dev r domains d =
     (let (rc, a, d) = send_req dev r d
      in if rc = 0 then map_option (\<lambda>v. (rc, Some v, d)) (read_domains domains (rq_param a))
         else Some (rc, None, d))"

definition get_clk_domain ::
  "'d device \<Rightarrow> ksz_request \<Rightarrow> byte_list \<Rightarrow> 'd \<Rightarrow> (int \<times> (u8 \<times> byte_list) option \<times> 'd) option" where
  "get_clk_domain dev r0 = domain_call dev (get_clk_domain_req r0)"

definition set_clk_domain :: "'d device \<Rightarrow> ksz_request \<Rightarrow> u8 \<Rightarrow> byte_list \<Rightarrow> 'd \<Rightarrow> (int \<times> 'd) option" where
  "set_clk_domain dev r0 clk domains d =
     map_option (\<lambda>r. put_call dev r d) (set_clk_domain_req (uint clk) domains r0)"

definition get_clk_domain_ports ::
  "'d device \<Rightarrow> ksz_request \<Rightarrow> byte_list \<Rightarrow> 'd \<Rightarrow> (int \<times> (u8 \<times> byte_list) option \<times> 'd) option" where
  "get_clk_domain_ports dev r0 = domain_call dev (get_clk_domain_ports_req r0)"

definition set_clk_domain_ports ::
  "'d device \<Rightarrow> ksz_request \<Rightarrow> u8 \<Rightarrow> byte_list \<Rightarrow> 'd \<Rightarrow> (int \<times> 'd) option" where
  "set_clk_domain_ports dev r0 clk ports d =
     map_option (\<lambda>r. put_call dev r d) (set_clk_domain_ports_req (uint clk) ports r0)"

subsection \<open>Time stamps and messages\<close>

definition dev_get_timestamp ::
  "'d device \<Rightarrow> ksz_request \<Rightarrow> u8 \<Rightarrow> u8 \<Rightarrow> u16 \<Rightarrow> u8 \<times> u8 \<Rightarrow> u32 \<Rightarrow> 'd \<Rightarrow> int \<times> (int \<times> int) option \<times> 'd" where
  "dev_get_timestamp dev r0 msg port seqid mac timestamp =
     get_call dev (get_timestamp_req msg port seqid mac timestamp r0)
       (\<lambda>a. (rdi (4, 4) (rq_param a), rdi (8, 4) (rq_param a)))"

text \<open>
  \<open>get_msg_info\<close> also takes the result of a request whose \<open>ioctl\<close> failed with -1, and always
  stores the output of the request into \<open>tx\<close>, the second value of the answer.
\<close>

definition get_msg_info ::
  "'d device \<Rightarrow> ksz_request \<Rightarrow> byte_list \<Rightarrow> int \<Rightarrow> 'd \<Rightarrow> int \<times> int \<times> (int \<times> int \<times> int) option \<times> 'd" where
  "get_msg_info dev r0 hdr tx d =
     (let (rc, a, d) = dev d (get_msg_info_req hdr tx r0);
          rc = (if rc = 0 \<or> rc = -1 then rq_result a else rc); p = rq_param a
      in (rc, rq_output a,
          if rc = 0 then Some (rdi (16, 4) p, rdi (28, 4) p, rdi (32, 4) p) else None, d))"

definition set_msg_info ::
  "'d device \<Rightarrow> ksz_request \<Rightarrow> byte_list \<Rightarrow> u32 \<Rightarrow> u32 \<Rightarrow> u32 \<Rightarrow> 'd \<Rightarrow> int \<times> 'd" where
  "set_msg_info dev r0 hdr port sec nsec = put_call dev (set_msg_info_req hdr port sec nsec r0)"

definition get_tail_tag ::
  "'d device \<Rightarrow> ksz_request \<Rightarrow> u32 \<Rightarrow> int \<Rightarrow> u32 \<Rightarrow> int \<Rightarrow> 'd \<Rightarrow> int \<times> (int \<times> int) option \<times> 'd" where
  "get_tail_tag dev r0 msg len tag tag_len =
     get_call dev (get_tail_tag_req msg len tag tag_len r0) (\<lambda>a. (rdi (16, 4) (rq_param a), rq_output a))"

text \<open>
  \<open>have_tag\<close> says that \<open>tag_len\<close> is not null, \<open>tag\<close> is the buffer of the caller or \<open>None\<close> for a
  null pointer.  A tag longer than the buffer or than the request is \<open>None\<close>.
\<close>

definition set_tail_tag ::
  "'d device \<Rightarrow> ksz_request \<Rightarrow> u32 \<Rightarrow> u32 \<Rightarrow> int \<Rightarrow> u32 \<Rightarrow> u8 \<Rightarrow> byte_list option \<Rightarrow> bool \<Rightarrow> 'd
    \<Rightarrow> (int \<times> (int \<times> byte_list option) option \<times> 'd) option" where
  "set_tail_tag dev r0 dst msg len ports queue tag have_tag d =
     (let (rc, a, d) =
            send_req dev (set_tail_tag_req dst msg len ports queue (if have_tag then 1 else 0) r0) d;
          n = rq_output a
      in if rc = 0 \<and> have_tag
         then (case tag of
                 None \<Rightarrow> Some (rc, Some (n, None), d)
               | Some b \<Rightarrow>
                   if 0 \<le> n \<and> nat n \<le> length b \<and> nat n \<le> length (rq_param a)
                   then Some (rc, Some (n, Some (put_bytes 0 (take (nat n) (rq_param a)) b)), d)
                   else None)
         else Some (rc, None, d))"

subsection \<open>Events and triggers\<close>

definition rx_event ::
  "'d device \<Rightarrow> ksz_request \<Rightarrow> u8 \<Rightarrow> u8 \<Rightarrow> u8 \<Rightarrow> u8 \<Rightarrow> u8 \<Rightarrow> u32 \<Rightarrow> 'd \<Rightarrow> int \<times> int option \<times> 'd" where
  "rx_event dev r0 tsi gpi event cnt_total flags timeout =
     get_call dev (rx_event_req tsi gpi event cnt_total flags timeout r0) rq_output"

definition tx_event ::
  "'d device \<Rightarrow> ksz_request \<Rightarrow> u8 \<Rightarrow> u8 \<Rightarrow> u8 \<Rightarrow> u32 \<Rightarrow> u32 \<Rightarrow> u16 \<Rightarrow> u32 \<Rightarrow> u32 \<Rightarrow> u32 \<Rightarrow> u8 \<Rightarrow> 'd
    \<Rightarrow> int \<times> int option \<times> 'd" where
  "tx_event dev r0 tso gpo event pulse cycle cnt iterate sec nsec flags =
     get_call dev (tx_event_req tso gpo event pulse cycle cnt iterate sec nsec flags r0) rq_output"

definition tx_cascade :: "'d device \<Rightarrow> ksz_request \<Rightarrow> u8 \<Rightarrow> u8 \<Rightarrow> u8 \<Rightarrow> u16 \<Rightarrow> u8 \<Rightarrow> 'd \<Rightarrow> int \<times> 'd" where
  "tx_cascade dev r0 tso gpo cnt_total cnt flags = put_call dev (tx_cascade_req tso gpo cnt_total cnt flags r0)"

definition tx_cascade_init ::
  "'d device \<Rightarrow> ksz_request \<Rightarrow> u8 \<Rightarrow> u8 \<Rightarrow> u8 \<Rightarrow> u8 \<Rightarrow> 'd \<Rightarrow> int \<times> int option \<times> 'd" where
  "tx_cascade_init dev r0 tso gpo cnt_total flags =
     get_call dev (tx_cascade_init_req tso gpo cnt_total flags r0) rq_output"

definition tx_get_output :: "'d device \<Rightarrow> ksz_request \<Rightarrow> u8 \<Rightarrow> 'd \<Rightarrow> int \<times> int option \<times> 'd" where
  "tx_get_output dev r0 gpo = get_call dev (tx_get_output_req gpo r0) rq_output"

definition get_rx_event :: "'d device \<Rightarrow> ksz_request \<Rightarrow> u8 \<Rightarrow> 'd \<Rightarrow> int \<times> 'd" where
  "get_rx_event dev r0 tsi = put_call dev (get_rx_event_req tsi r0)"

definition poll_rx_event :: "'d device \<Rightarrow> ksz_request \<Rightarrow> u8 \<Rightarrow> 'd \<Rightarrow> int \<times> 'd" where
  "poll_rx_event dev r0 tsi = put_call dev (poll_rx_event_req tsi r0)"

definition get_rx_event_info ::
  "'d device \<Rightarrow> ksz_request \<Rightarrow> 'd \<Rightarrow> int \<times> (int \<times> int \<times> int) option \<times> 'd" where
  "get_rx_event_info dev r0 =
     get_call dev (get_rx_event_info_req r0)
       (\<lambda>a. (rdi (1, 1) (rq_param a), rdi (2, 1) (rq_param a), rdi (3, 1) (rq_param a)))"

definition rx_get_clock :: "'d device \<Rightarrow> ksz_request \<Rightarrow> u8 \<Rightarrow> 'd \<Rightarrow> int \<times> int option \<times> 'd" where
  "rx_get_clock dev r0 tsi = get_call dev (rx_get_clock_req tsi r0) rq_output"

definition rx_set_clock :: "'d device \<Rightarrow> ksz_request \<Rightarrow> u8 \<Rightarrow> int \<Rightarrow> 'd \<Rightarrow> int \<times> 'd" where
  "rx_set_clock dev r0 tsi clk_id = put_call dev (rx_set_clock_req tsi clk_id r0)"

definition tx_get_clock :: "'d device \<Rightarrow> ksz_request \<Rightarrow> u8 \<Rightarrow> 'd \<Rightarrow> int \<times> int option \<times> 'd" where
  "tx_get_clock dev r0 tso = get_call dev (tx_get_clock_req tso r0) rq_output"

definition tx_set_clock :: "'d device \<Rightarrow> ksz_request \<Rightarrow> u8 \<Rightarrow> int \<Rightarrow> 'd \<Rightarrow> int \<times> 'd" where
  "tx_set_clock dev r0 tso clk_id = put_call dev (tx_set_clock_req tso clk_id r0)"

end
