(* ===== verification/Driver_props.thy ===== *)
theory Driver_props
  imports Driver Sync_props
begin

text \<open>
  What the requests of \<^verbatim>\<open>lan937x_ptp_api.c\<close> guarantee: each fits the size it announces, a
  setting reads back as it was written when the driver keeps what it is given, and the time
  a clock adjustment asks for is the offset the servo computed.
\<close>

named_theorems driver_req \<open>definitions of the requests\<close>

subsection \<open>Stores\<close>

lemma store_length [simp]: "\<forall>(f, v) \<in> set fs. inb f m \<Longrightarrow> length (store_fields fs m) = length m"
  by (induction fs m rule: store_fields.induct) auto

lemma put_bytes_len [simp]: "k + length bs \<le> length m \<Longrightarrow> length (put_bytes k bs m) = length m"
  by (simp add: put_bytes_def)

lemma put_bytes_drop: "k + length bs \<le> n \<Longrightarrow> n \<le> length m \<Longrightarrow> drop n (put_bytes k bs m) = drop n m"
proof -
  assume "k + length bs \<le> n" "n \<le> length m"
  moreover from this have "length (take k m) = k" by simp
  ultimately show ?thesis by (simp only: put_bytes_def drop_append) simp
qed

lemma wr_drop: "k + p \<le> n \<Longrightarrow> n \<le> length m \<Longrightarrow> drop n (wr (k, p) v m) = drop n m"
  using put_bytes_drop [of k "le_bytes p v" n m] by (simp add: wr.simps put_bytes_def)

lemma store_drop:
  "\<forall>((k, p), v) \<in> set fs. k + p \<le> n \<Longrightarrow> n \<le> length m \<Longrightarrow> drop n (store_fields fs m) = drop n m"
  by (induction fs m rule: store_fields.induct) (auto simp: wr_drop)

lemma zero_param_length [simp]: "n \<le> length m \<Longrightarrow> length (zero_param n m) = length m"
  by (simp add: zero_param_def)

lemma zero_param_drop [simp]: "n \<le> length m \<Longrightarrow> drop n (zero_param n m) = drop n m"
  by (simp add: zero_param_def put_bytes_drop)

lemma put_cfg_flag_length [simp]: "length (put_cfg_flag i b m) = length m"
  by (simp add: put_cfg_flag_def)

lemma put_cfg_flag_drop [simp]: "i div 8 < n \<Longrightarrow> drop n (put_cfg_flag i b m) = drop n m"
  by (simp add: put_cfg_flag_def)

lemma set_cfg_bit_length [simp]: "length (set_cfg_bit i v m) = length m"
  by (simp add: set_cfg_bit_def)

lemma set_cfg_bit_drop [simp]: "(i + 16) div 8 < n \<Longrightarrow> drop n (set_cfg_bit i v m) = drop n m"
  by (simp add: set_cfg_bit_def div_le_mono le_less_trans [of "i div 8"])


declare store_fields.simps [simp del]

subsection \<open>Every request fits its size\<close>

text \<open>
  \<open>framed n cmd subcmd r0 r\<close>: the request announces a parameter of \<open>n\<close> bytes and the command,
  and no byte beyond the parameter was written.
\<close>

definition framed :: "nat \<Rightarrow> int \<Rightarrow> int \<Rightarrow> ksz_request \<Rightarrow> ksz_request \<Rightarrow> bool" where
  "framed n cmd subcmd r0 r \<longleftrightarrow>
     rq_size r = SIZEOF_ksz_request + int n \<and> rq_cmd r = cmd \<and> rq_subcmd r = subcmd \<and>
     length (rq_param r) = length (rq_param r0) \<and> drop n (rq_param r) = drop n (rq_param r0)"

lemmas framed_simps = framed_def req_head_def set_output_def req_param_def store_drop put_bytes_drop

lemmas [driver_req] = exit_req_def init_req_def get_freq_req_def adj_freq_req_def get_clock_req_def
  set_clock_req_def get_hw_cfg_req_def set_hw_cfg_req_def set_cfg_req_def get_2_domain_cfg_req_def
  set_2_domain_cfg_req_def set_2_domain_port_cfg_req_def get_delays_req_def set_delays_req_def
  get_reg_req_def set_reg_req_def get_clock_ident_req_def set_clock_ident_req_def get_peer_delay_req_def
  set_peer_delay_req_def get_port_cfg_req_def set_port_cfg_req_def get_utc_offset_req_def
  set_utc_offset_req_def get_clk_domain_req_def get_clk_domain_ports_req_def get_timestamp_req_def
  get_msg_info_req_def set_msg_info_req_def msg_options_def get_tail_tag_req_def set_tail_tag_req_def
  rx_event_req_def rx_get_clock_req_def rx_set_clock_req_def tx_event_req_def tx_cascade_req_def
  tx_cascade_init_req_def tx_get_output_req_def tx_get_clock_req_def tx_set_clock_req_def
  get_rx_event_req_def poll_rx_event_req_def get_rx_event_info_req_def
  set_param_master_def set_param_2_step_def set_param_p2p_def set_param_as_def set_param_domain_check_def
  set_param_csum_def set_param_unicast_def set_param_alternate_def set_param_delay_assoc_def
  set_param_pdelay_assoc_def set_param_sync_assoc_def set_param_drop_sync_def set_param_priority_def
  set_param_domain_def

lemma framed_clock:
  assumes "length (rq_param r) = MAX_REQUEST_SIZE"
  shows "framed 16 DEV_CMD_GET DEV_PTP_CLK r (get_freq_req clk_id r)"
    and "framed 16 DEV_CMD_PUT DEV_PTP_CLK r (adj_freq_req sign sec nsec drift interval clk_id r)"
    and "framed 16 DEV_CMD_GET DEV_PTP_CLK r (get_clock_req clk_id r)"
    and "framed 16 DEV_CMD_PUT DEV_PTP_CLK r (set_clock_req usec unsec clk_id r)"
  using assms by (simp_all add: driver_req framed_simps)

lemma framed_config:
  assumes "length (rq_param r) = MAX_REQUEST_SIZE"
  shows "framed 10 DEV_CMD_GET DEV_PTP_CFG r (get_hw_cfg_req r)"
    and "framed 10 DEV_CMD_PUT DEV_PTP_CFG r (set_cfg_req master two_step p2p as r)"
    and "framed 10 DEV_CMD_GET DEV_PTP_CFG r (get_2_domain_cfg_req k r)"
    and "framed 10 DEV_CMD_PUT DEV_PTP_CFG r (set_2_domain_cfg_req domain r)"
    and "framed 10 DEV_CMD_PUT DEV_PTP_CFG r (set_2_domain_port_cfg_req k two_step p2p r)"
    and "f \<in> {set_param_master, set_param_2_step, set_param_p2p, set_param_as, set_param_domain_check,
        set_param_csum, set_param_unicast, set_param_alternate, set_param_delay_assoc,
        set_param_pdelay_assoc, set_param_sync_assoc, set_param_drop_sync, set_param_priority,
        set_param_domain} \<Longrightarrow> framed 10 DEV_CMD_PUT DEV_PTP_CFG r (set_hw_cfg_req f v r)"
  using assms by (auto simp: driver_req framed_simps)


lemma framed_ports:
  assumes "length (rq_param r) = MAX_REQUEST_SIZE"
  shows "framed 8 DEV_CMD_GET DEV_PTP_DELAY r (get_delays_req k r)"
    and "framed 8 DEV_CMD_PUT DEV_PTP_DELAY r (set_delays_req k rx tx asym_delay r)"
    and "framed 8 DEV_CMD_GET DEV_PTP_IDENTITY r (get_clock_ident_req api master r)"
    and "framed 8 DEV_CMD_PUT DEV_PTP_IDENTITY r (set_clock_ident_req api master ident r)"
    and "framed 8 DEV_CMD_GET DEV_PTP_PEER_DELAY r (get_peer_delay_req k r)"
    and "framed 8 DEV_CMD_PUT DEV_PTP_PEER_DELAY r (set_peer_delay_req api k delay r)"
    and "framed 8 DEV_CMD_GET DEV_PTP_PORT_CFG r (get_port_cfg_req k r)"
    and "framed 8 DEV_CMD_PUT DEV_PTP_PORT_CFG r (set_port_cfg_req k enable asCapable r)"
    and "framed 0 DEV_CMD_GET DEV_PTP_UTC_OFFSET r (get_utc_offset_req r)"
    and "framed 0 DEV_CMD_PUT DEV_PTP_UTC_OFFSET r (set_utc_offset_req offset r)"
    and "framed 8 DEV_CMD_GET DEV_PTP_CLK_DOMAIN r (get_clk_domain_req r)"
    and "framed 8 DEV_CMD_GET DEV_PTP_CLK_DOMAIN r (get_clk_domain_ports_req r)"
  using assms by (simp_all add: driver_req framed_simps Let_def)

lemma framed_register:
  assumes "length (rq_param r) = MAX_REQUEST_SIZE"
  shows "framed (if ap_version api \<ge> 2 then 12 else 0) DEV_CMD_GET DEV_PTP_REG r (get_reg_req api width reg r)"
    and "framed (if ap_version api \<ge> 2 then 12 else 0) DEV_CMD_PUT DEV_PTP_REG r (set_reg_req api width reg val r)"
  using assms by (simp_all add: driver_req framed_simps)

lemma framed_message:
  assumes "length (rq_param r) = MAX_REQUEST_SIZE"
  shows "framed 18 DEV_CMD_GET DEV_PTP_TIMESTAMP r (get_timestamp_req msg pn seqid mac timestamp r)"
    and "framed 40 DEV_CMD_GET DEV_PTP_MSG r (get_msg_info_req hdr tx r)"
    and "framed 40 DEV_CMD_PUT DEV_PTP_MSG r (set_msg_info_req hdr uport usec unsec r)"
    and "framed 21 DEV_CMD_PUT DEV_PTP_TAG r (get_tail_tag_req buf len tag tag_len r)"
    and "framed 21 DEV_CMD_GET DEV_PTP_TAG r (set_tail_tag_req dst buf len ports queue tag_len r)"
  using assms by (simp_all add: driver_req framed_simps get_bytes_def)

lemma framed_event:
  assumes "length (rq_param r) = MAX_REQUEST_SIZE"
  shows "framed 12 DEV_CMD_PUT DEV_PTP_TEVT r (rx_event_req tsi gpi event n flags timeout r)"
    and "framed 12 DEV_CMD_GET DEV_PTP_TEVT r (rx_get_clock_req tsi r)"
    and "framed 12 DEV_CMD_PUT DEV_PTP_TEVT r (rx_set_clock_req tsi clk_id r)"
    and "framed 28 DEV_CMD_PUT DEV_PTP_TOUT r (tx_event_req tso gpo event pulse cycle cnt iterate usec unsec flags r)"
    and "framed 28 DEV_CMD_PUT DEV_PTP_CASCADE r (tx_cascade_req tso gpo n cnt flags r)"
    and "framed 28 DEV_CMD_PUT DEV_PTP_CASCADE r (tx_cascade_init_req tso gpo n flags r)"
    and "framed 28 DEV_CMD_GET DEV_PTP_TOUT r (tx_get_output_req gpo r)"
    and "framed 28 DEV_CMD_GET DEV_PTP_TOUT r (tx_get_clock_req tso r)"
    and "framed 28 DEV_CMD_PUT DEV_PTP_TOUT r (tx_set_clock_req tso clk_id r)"
    and "framed 8 DEV_CMD_GET DEV_PTP_TEVT r (get_rx_event_req tsi r)"
    and "framed 8 DEV_CMD_GET DEV_PTP_TEVT r (poll_rx_event_req tsi r)"
    and "framed 8 DEV_CMD_GET DEV_PTP_TEVT r (get_rx_event_info_req r)"
  using assms by (simp_all add: driver_req framed_simps)

lemma framed_info:
  assumes "length (rq_param r) = MAX_REQUEST_SIZE"
  shows "framed 0 DEV_CMD_INFO DEV_INFO_EXIT r (exit_req r)"
    and "framed 8 DEV_CMD_INFO DEV_INFO_INIT r (init_req capability r)"
  using assms by (simp_all add: driver_req framed_simps)

text \<open>The list of domains fits as long as there are at most seven clocks.\<close>

lemma framed_domains:
  assumes "length (rq_param r) = MAX_REQUEST_SIZE" and "0 \<le> clk" "clk \<le> int (length ds)" "clk < 200"
  shows "\<exists>q. set_clk_domain_req clk ds r = Some q \<and>
           (clk \<le> 7 \<longrightarrow> framed 8 DEV_CMD_PUT DEV_PTP_CLK_DOMAIN r q)"
    and "\<exists>q. set_clk_domain_ports_req clk ds r = Some q \<and>
           (clk \<le> 7 \<longrightarrow> framed 8 DEV_CMD_PUT DEV_PTP_CLK_DOMAIN r q)"
proof -
  obtain n where n: "clk = int n" using assms(2) by (rule nonneg_int_cases)
  show "\<exists>q. set_clk_domain_req clk ds r = Some q \<and> (clk \<le> 7 \<longrightarrow> framed 8 DEV_CMD_PUT DEV_PTP_CLK_DOMAIN r q)"
    "\<exists>q. set_clk_domain_ports_req clk ds r = Some q \<and> (clk \<le> 7 \<longrightarrow> framed 8 DEV_CMD_PUT DEV_PTP_CLK_DOMAIN r q)"
    using assms unfolding n
    by (simp_all add: set_clk_domain_req_def set_clk_domain_ports_req_def param_opt_def store_domains_def
        framed_simps)
qed


subsection \<open>Settings read back\<close>

text \<open>
  A driver keeps the parameter of a command when a \<open>GET\<close> that succeeds a successful \<open>PUT\<close> of the
  same size and selector succeeds with the bytes of the \<open>PUT\<close>.
\<close>

definition param_kept :: "'d device \<Rightarrow> int \<Rightarrow> nat \<Rightarrow> bool" where
  "param_kept dev subcmd n \<longleftrightarrow>
     (\<forall>d r a d1 q. framed n DEV_CMD_PUT subcmd r r \<longrightarrow> framed n DEV_CMD_GET subcmd q q \<longrightarrow>
        length (rq_param r) = MAX_REQUEST_SIZE \<longrightarrow> length (rq_param q) = MAX_REQUEST_SIZE \<longrightarrow>
        rq_output q = rq_output r \<longrightarrow> dev d r = (0, a, d1) \<longrightarrow> rq_result a = 0 \<longrightarrow>
        (\<exists>b d2. dev d1 q = (0, b, d2) \<and> rq_result b = 0 \<and> length (rq_param b) = MAX_REQUEST_SIZE \<and>
           take n (rq_param b) = take n (rq_param r)))"

lemma framed_self: "framed n cmd subcmd r0 r \<Longrightarrow> framed n cmd subcmd r r"
  by (simp add: framed_def)

locale setting =
  fixes put_req :: "'a \<Rightarrow> ksz_request \<Rightarrow> ksz_request"
    and get_req :: "ksz_request \<Rightarrow> ksz_request"
    and value_of :: "byte_list \<Rightarrow> 'b"
    and meaning :: "'a \<Rightarrow> 'b"
    and ok :: "'a \<Rightarrow> bool"
    and subcmd :: int
    and size :: nat
  assumes put_framed: "length (rq_param r) = MAX_REQUEST_SIZE \<Longrightarrow> framed size DEV_CMD_PUT subcmd r (put_req x r)"
    and get_framed: "length (rq_param r) = MAX_REQUEST_SIZE \<Longrightarrow> framed size DEV_CMD_GET subcmd r (get_req r)"
    and selector: "rq_output (get_req q) = rq_output (put_req x r)"
    and value_put: "length (rq_param r) = MAX_REQUEST_SIZE \<Longrightarrow> ok x \<Longrightarrow> value_of (rq_param (put_req x r)) = meaning x"
    and value_local: "take size m = take size m' \<Longrightarrow> length m = length m' \<Longrightarrow> value_of m = value_of m'"
begin

lemma read_back:
  assumes "param_kept dev subcmd size"
    and l: "length (rq_param r) = MAX_REQUEST_SIZE" "length (rq_param q) = MAX_REQUEST_SIZE"
    and "put_call dev (put_req x r) d = (0, d1)" and ok: "ok x"
  shows "\<exists>d2. get_call dev (get_req q) (\<lambda>a. value_of (rq_param a)) d1 = (0, Some (meaning x), d2)"
proof -
  obtain a where a: "dev d (put_req x r) = (0, a, d1)" "rq_result a = 0"
    using assms(4) by (auto simp: put_call_def send_req_def Let_def split: prod.splits if_splits)
  note put = put_framed [OF l(1), of x] and get = get_framed [OF l(2)]
  have m: "length (rq_param (put_req x r)) = MAX_REQUEST_SIZE" "length (rq_param (get_req q)) = MAX_REQUEST_SIZE"
    using put get l by (simp_all add: framed_def)
  obtain b d2 where b: "dev d1 (get_req q) = (0, b, d2)" "rq_result b = 0"
      "length (rq_param b) = MAX_REQUEST_SIZE" "take size (rq_param b) = take size (rq_param (put_req x r))"
    using assms(1) framed_self [OF put] framed_self [OF get] m selector a
    unfolding param_kept_def by blast
  have "length (rq_param b) = length (rq_param (put_req x r))" using b(3) m by simp
  then have "value_of (rq_param b) = meaning x"
    using value_local [OF b(4)] value_put [OF l(1) ok] by simp
  then show ?thesis using b by (simp add: get_call_def send_req_def)
qed

end


lemma take_drop_agree:
  "k + n \<le> s \<Longrightarrow> take s m = take s m' \<Longrightarrow> take n (drop k m) = take n (drop k m')"
  by (metis add.commute min.absorb1 take_drop take_take)

lemma rdi_agree: "k + n \<le> s \<Longrightarrow> take s m = take s m' \<Longrightarrow> rdi (k, n) m = rdi (k, n) m'"
  using take_drop_agree [of k n s m m'] by (simp add: rdi_def rd.simps)

lemma wrap_mod: "wrap w (x mod 2 ^ w) = wrap w x"
  by (simp add: wrap_def mod_add_left_eq)

lemma or_low: "0 \<le> b \<Longrightarrow> b < 2 ^ n \<Longrightarrow> (a * 2 ^ n) OR b = a * 2 ^ n + (b::int)"
proof -
  assume "0 \<le> b" "b < 2 ^ n"
  then have b: "b = take_bit n b" by (simp add: take_bit_int_eq_self)
  have "push_bit n a AND b = 0"
    by (subst b, rule bit_eqI) (auto simp: bit_simps)
  then show ?thesis using disjunctive_add_eq_or [of "push_bit n a" b] by (simp add: push_bit_eq_mult)
qed

lemma wrap_split: "s32 d = s16 (d div 2 ^ 16) * 2 ^ 16 + d mod 2 ^ 16"
proof -
  have "(d + 2147483648) mod (65536 * 65536) = 65536 * ((d + 2147483648) div 65536 mod 65536) + (d + 2147483648) mod 65536"
    by (rule zmod_zmult2_eq) simp
  moreover have "(d + 2147483648) div 65536 = d div 65536 + 32768" "(d + 2147483648) mod 65536 = d mod 65536"
    using div_mult_self1 [of "65536::int" d 32768] mod_mult_self1 [of d 32768 "65536::int"] by simp_all
  ultimately show ?thesis by (simp add: wrap_def)
qed

text \<open>The four members of \<open>struct ptp_delay_values\<close> lie in its eight bytes.\<close>

lemma delay_values_local:
  assumes "take 8 m = take 8 m'"
  shows "rdi dv_rx_latency m = rdi dv_rx_latency m'" "rdi dv_tx_latency m = rdi dv_tx_latency m'"
    "rdi dv_asym_delay m = rdi dv_asym_delay m'" "rdi dv_reserved m = rdi dv_reserved m'"
  using assms by (auto intro: rdi_agree [where s = 8])

lemma delay_values_store:
  assumes "length m = MAX_REQUEST_SIZE"
  shows "rdi dv_rx_latency (store_fields [(dv_rx_latency, a), (dv_tx_latency, b), (dv_asym_delay, c), (dv_reserved, e)] m) = a mod 65536"
    "rdi dv_tx_latency (store_fields [(dv_rx_latency, a), (dv_tx_latency, b), (dv_asym_delay, c), (dv_reserved, e)] m) = b mod 65536"
    "rdi dv_asym_delay (store_fields [(dv_rx_latency, a), (dv_tx_latency, b), (dv_asym_delay, c), (dv_reserved, e)] m) = c mod 65536"
    "rdi dv_reserved (store_fields [(dv_rx_latency, a), (dv_tx_latency, b), (dv_asym_delay, c), (dv_reserved, e)] m) = e mod 65536"
    "rdi dv_reserved (store_fields [(dv_reserved, e)] m) = e mod 65536"
    "rdi dv_rx_latency (store_fields [(dv_rx_latency, a)] m) = a mod 65536"
    "rdi dv_reserved (store_fields [(dv_rx_latency, a)] m) = rdi dv_reserved m"
  using assms by (simp_all add: rdi_def store_fields.simps)

lemma req_param_simps [simp]:
  "rq_param (req_param f r) = f (rq_param r)" "rq_param (set_output v r) = rq_param r"
  "rq_param (req_head c u n r) = rq_param r" "rq_output (req_param f r) = rq_output r"
  "rq_output (set_output v r) = v"
  by (simp_all add: req_param_def set_output_def req_head_def)

lemmas s16_mod = wrap_mod [of 16, simplified]

interpretation delays: setting "\<lambda>(rx, tx, asym_delay). set_delays_req k rx tx asym_delay" "get_delays_req k"
    "\<lambda>m. (rdi dv_rx_latency m, rdi dv_tx_latency m, s16 (rdi dv_asym_delay m))"
    "\<lambda>(rx, tx, asym_delay). (rx mod 65536, tx mod 65536, s16 asym_delay)" "\<lambda>_. True" DEV_PTP_DELAY 8
  by unfold_locales
    (auto simp: framed_ports get_delays_req_def [THEN arg_cong, of rq_output]
      set_delays_req_def [THEN arg_cong, of rq_output] set_delays_req_def [THEN arg_cong, of rq_param]
      delay_values_store s16_mod dest: delay_values_local)


text \<open>A driver of version 2 gets all 32 bits of a peer delay, one of version 1 the low 16.\<close>

definition kept_peer_delay :: "ptp_api \<Rightarrow> int \<Rightarrow> int" where
  "kept_peer_delay api delay = (if ap_version api \<ge> 2 then s32 delay else delay mod 65536)"

lemma peer_delay_halves: "s32 (d div 65536 mod 65536 * 65536) OR (d mod 65536) = s32 d"
proof -
  have "s32 (d div 65536 mod 65536 * 65536) = s16 (d div 65536) * 65536"
    using wrap_split [of "d div 65536 mod 65536 * 65536"] by (simp add: s16_mod)
  moreover have "(s16 (d div 65536) * 65536) OR (d mod 65536) = s16 (d div 65536) * 65536 + d mod 65536"
    using or_low [of "d mod 65536" 16 "s16 (d div 65536)"] by simp
  ultimately show ?thesis using wrap_split [of d] by simp
qed

interpretation peer_delay: setting "\<lambda>delay. set_peer_delay_req api k delay" "get_peer_delay_req k"
    "\<lambda>m. s32 (rdi dv_rx_latency m * 2 ^ 16) OR rdi dv_reserved m"
    "kept_peer_delay api" "\<lambda>_. True" DEV_PTP_PEER_DELAY 8
proof unfold_locales
  fix r :: ksz_request and x :: int assume l: "length (rq_param r) = MAX_REQUEST_SIZE"
  show "s32 (rdi dv_rx_latency (rq_param (set_peer_delay_req api k x r)) * 2 ^ 16) OR
      rdi dv_reserved (rq_param (set_peer_delay_req api k x r)) = kept_peer_delay api x"
    using l by (simp add: set_peer_delay_req_def [THEN arg_cong, of rq_param] Let_def delay_values_store
        kept_peer_delay_def peer_delay_halves s32_id)
next
  fix m m' :: byte_list assume "take 8 m = take 8 m'"
  then show "s32 (rdi dv_rx_latency m * 2 ^ 16) OR rdi dv_reserved m =
      s32 (rdi dv_rx_latency m' * 2 ^ 16) OR rdi dv_reserved m'"
    using delay_values_local [of m m'] by simp
qed (auto simp: framed_ports get_peer_delay_req_def [THEN arg_cong, of rq_output]
      set_peer_delay_req_def [THEN arg_cong, of rq_output])

interpretation port_cfg: setting "\<lambda>(enable, asCapable). set_port_cfg_req k enable asCapable" "get_port_cfg_req k"
    "\<lambda>m. (bit (rdi dv_reserved m) 0, bit (rdi dv_reserved m) 1)"
    "\<lambda>(enable, asCapable). (enable \<noteq> 0, asCapable \<noteq> 0)" "\<lambda>_. True" DEV_PTP_PORT_CFG 8
  by unfold_locales
    (auto simp: framed_ports get_port_cfg_req_def [THEN arg_cong, of rq_output]
      set_port_cfg_req_def [THEN arg_cong, of rq_output] set_port_cfg_req_def [THEN arg_cong, of rq_param]
      delay_values_store split: if_splits dest: delay_values_local)

interpretation identity: setting "set_clock_ident_req api master" "get_clock_ident_req api master"
    "take 8" "\<lambda>ident. ident" "\<lambda>ident. length ident = 8" DEV_PTP_IDENTITY 8
  by unfold_locales
    (auto simp: framed_ports get_clock_ident_req_def [THEN arg_cong, of rq_output]
      set_clock_ident_req_def [THEN arg_cong, of rq_output] set_clock_ident_req_def [THEN arg_cong, of rq_param]
      put_bytes_def)

text \<open>The list of domains: the entries before \<open>clk\<close> are those that were put.\<close>

lemma read_domains_store:
  assumes "length m = MAX_REQUEST_SIZE" "unat clk \<le> length ds" "unat clk \<le> length cs" "clk < 200"
  shows "\<exists>q. store_domains (uint clk) ds m = Some q \<and>
    read_domains cs q = Some (clk, take (unat clk) ds @ drop (unat clk) cs)"
proof -
  have c: "unat clk < 200" using assms(4) by (simp add: word_less_nat_alt)
  obtain x xs where m: "m = x # xs" "length xs = 199" using assms(1) by (cases m) auto
  have "store_fields [((0, 1), uint clk)] m = clk # xs"
    using m unsigned_less [where 'a = nat, of clk] unsigned_less [where 'a = int, of clk] by (simp add: store_fields.simps wr.simps nat_uint_eq)
  then show ?thesis
    using assms(1-3) c m by (simp add: store_domains_def read_domains_def put_bytes_def get_bytes_def min_def
        nat_uint_eq)
qed


subsection \<open>Adjusting the clock\<close>

text \<open>The time in nanoseconds that a request for an adjustment adds to the clock.\<close>

definition adj_ns :: "ksz_request \<Rightarrow> int" where
  "adj_ns r =
     (if rq_output r mod 2 ^ 16 = 1 then - 1 else 1) *
     (rdi clk_sec (rq_param r) * NANOSEC_IN_SEC + rdi clk_nsec (rq_param r))"

definition adj_freq_request :: "int \<Rightarrow> int \<Rightarrow> int \<Rightarrow> u32 \<Rightarrow> int \<Rightarrow> ksz_request \<Rightarrow> ksz_request" where
  "adj_freq_request sec nsec drift interval clk_id r =
     (let (sign, sec, nsec) = adj_freq_args sec nsec in adj_freq_req sign sec nsec drift interval clk_id r)"

lemma adj_freq_sends: "adj_freq dev r0 sec nsec drift interval clk_id =
    put_call dev (adj_freq_request sec nsec drift interval clk_id r0)"
  by (simp add: adj_freq_def adj_freq_request_def split: prod.split)

lemma with_clk_low:
  assumes "0 \<le> x" "x < 65536"
  shows "with_clk x clk_id mod 65536 = x"
proof -
  have "s32 (clk_id * 2 ^ 16) = s16 clk_id * 2 ^ 16"
    using wrap_split [of "clk_id * 2 ^ 16"] by simp
  then have "with_clk x clk_id = s16 clk_id * 2 ^ 16 + x"
    using or_low [of x 16 "s16 clk_id"] assms by (simp add: with_clk_def or.commute)
  then show ?thesis using assms by simp
qed

lemma adj_freq_req_param:
  assumes "length (rq_param r) = MAX_REQUEST_SIZE"
  shows "rdi clk_sec (rq_param (adj_freq_req sign sec nsec drift interval clk_id r)) = sec mod 2 ^ 32"
    "rdi clk_nsec (rq_param (adj_freq_req sign sec nsec drift interval clk_id r)) = nsec mod 2 ^ 32"
    "rdi clk_drift (rq_param (adj_freq_req sign sec nsec drift interval clk_id r)) = drift mod 2 ^ 32"
    "rdi clk_interval (rq_param (adj_freq_req sign sec nsec drift interval clk_id r)) = uint interval mod 2 ^ 32"
    "rq_output (adj_freq_req sign sec nsec drift interval clk_id r) = with_clk sign clk_id"
  using assms by (simp_all add: adj_freq_req_def rdi_def store_fields.simps)

text \<open>Seconds and nanoseconds of one sign within 31 bits ask for exactly their sum.\<close>

lemma adj_freq_request_ns:
  assumes l: "length (rq_param r) = MAX_REQUEST_SIZE"
    and b: "\<bar>sec\<bar> < 2147483648" "\<bar>nsec\<bar> < 2147483648"
    and s: "0 \<le> sec \<and> 0 \<le> nsec \<or> sec \<le> 0 \<and> nsec \<le> 0"
  shows "adj_ns (adj_freq_request sec nsec drift interval clk_id r) = sec * NANOSEC_IN_SEC + nsec"
proof (cases "nsec < 0 \<or> sec < 0")
  case True
  then have "s32 (- sec) = - sec" "s32 (- nsec) = - nsec" "- sec mod 4294967296 = - sec" "- nsec mod 4294967296 = - nsec"
    using b s by (auto simp: c_int mod_pos_pos_trivial)
  then show ?thesis
    using True l by (simp add: adj_ns_def adj_freq_request_def adj_freq_args_def adj_freq_req_param with_clk_low)
next
  case False
  then have "sec mod 4294967296 = sec" "nsec mod 4294967296 = nsec"
    using b by (auto simp: mod_pos_pos_trivial)
  then show ?thesis
    using False l by (simp add: adj_ns_def adj_freq_request_def adj_freq_args_def adj_freq_req_param with_clk_low)
qed

text \<open>Signs that differ ask for something else.\<close>

lemma adj_freq_mixed:
  assumes "length (rq_param r) = MAX_REQUEST_SIZE"
  shows "adj_ns (adj_freq_request 1 (- 1) drift interval clk_id r) = - (4294967295 * NANOSEC_IN_SEC + 1)"
  using assms by (simp add: adj_ns_def adj_freq_request_def adj_freq_args_def adj_freq_req_param with_clk_low c_int)

text \<open>What the calls recorded in \<open>w_out\<close> ask of the driver.\<close>

fun effect_request :: "ptp_api \<Rightarrow> int \<Rightarrow> effect \<Rightarrow> ksz_request \<Rightarrow> ksz_request option" where
  "effect_request api clk (E_adj_freq sec nsec drift interval) r =
     Some (adj_freq_request sec nsec drift (of_int interval) clk r)"
| "effect_request api clk (E_set_delays n rx tx a) r = Some (set_delays_req (int n) (uint rx) (uint tx) a r)"
| "effect_request api clk (E_set_peer_delay n delay) r =
     (if ap_version api < 2 \<and> delay \<ge> 0x10000 then None else Some (set_peer_delay_req api (int n) delay r))"
| "effect_request api clk (E_set_global_cfg a b c e) r =
     Some (set_cfg_req (of_bool a) (of_bool b) (of_bool c) (of_bool e) r)"
| "effect_request api clk (E_set_2_domain_port_cfg n a b) r =
     Some (set_2_domain_port_cfg_req (s32 (int n + 1)) (of_bool a) (of_bool b) r)"
| "effect_request api clk (E_set_clk_domain c ds) r = set_clk_domain_req (uint c) ds r"
| "effect_request api clk (E_set_2_domain_cfg b) r = Some (set_2_domain_cfg_req (of_bool b) r)"
| "effect_request api clk _ r = None"

lemma offset_halves:
  assumes "ptu_canon u" "\<bar>u_sec u\<bar> < 2147483648"
  shows "\<bar>u_nsec u div 2 ^ 16\<bar> \<le> 1000000000"
    "0 \<le> u_sec u \<and> 0 \<le> u_nsec u div 2 ^ 16 \<or> u_sec u \<le> 0 \<and> u_nsec u div 2 ^ 16 \<le> 0"
    "u_sec u * NANOSEC_IN_SEC + u_nsec u div 2 ^ 16 = ptu_val u div 2 ^ 16"
  using assms by (auto simp: ptu_canon_def ptu_val_def)


lemma s32_neg: "\<bar>x\<bar> < 2147483648 \<Longrightarrow> s32 x = x \<and> s32 (- x) = - x"
  by (auto simp: c_int)

text \<open>The request for the adjustment that \<open>clock_adj\<close> and \<open>clock_adj_freq\<close> record.\<close>

lemma offset_request:
  assumes "length (rq_param r) = MAX_REQUEST_SIZE" "ptu_canon u" "\<bar>u_sec u\<bar> < 2147483648"
  shows "adj_ns (adj_freq_request (s32 (- s32 (u_sec u))) (s32 (- s32 (u_nsec u div 2 ^ 16))) drift interval clk_id r) =
    - (ptu_val u div 2 ^ 16)"
proof -
  note h = offset_halves [OF assms(2,3)]
  have "s32 (- s32 (u_sec u)) = - u_sec u" "s32 (- s32 (u_nsec u div 2 ^ 16)) = - (u_nsec u div 2 ^ 16)"
    using s32_neg [of "u_sec u"] s32_neg [of "u_nsec u div 2 ^ 16"] assms(3) h(1) by simp_all
  moreover have "adj_ns (adj_freq_request (- u_sec u) (- (u_nsec u div 2 ^ 16)) drift interval clk_id r) =
      - u_sec u * NANOSEC_IN_SEC + - (u_nsec u div 2 ^ 16)"
    using assms(1,3) h(1,2) by (intro adj_freq_request_ns) auto
  ultimately show ?thesis using h(3) by simp
qed

lemma on_msgs_out: "on_msgs f w = Some w' \<Longrightarrow> w_out w' = w_out w"
  by (auto simp: on_msgs_def split: Option.bind_splits)

lemma clock_adj_out:
  "w_out (clock_adj u w) =
     w_out w @ [E_adj_freq (s32 (- s32 (u_sec u))) (s32 (- s32 (u_nsec u div 2 ^ 16))) 0 0]"
  by (simp add: clock_adj_def Let_def emit_def upd_clock_def)

lemma clock_adj_freq_out:
  assumes "clock_adj_freq u freq w = Some w'"
  shows "w_out w' =
     w_out w @ [E_adj_freq (s32 (- s32 (u_sec u))) (s32 (- s32 (u_nsec u div 2 ^ 16))) freq NANOSEC_IN_SEC]"
  using assms
  by (auto simp: clock_adj_freq_def Let_def emit_def upd_clock_def upd_cmsgs_def dest!: on_msgs_out
      split: if_splits option.splits Option.bind_splits)

lemma rd_zero_param: "k + n \<le> s \<Longrightarrow> s \<le> length m \<Longrightarrow> rd (k, n) (zero_param s m) = 0"
proof -
  have "le_val (replicate n 0) = 0" for n by (induction n) simp_all
  moreover assume "k + n \<le> s" "s \<le> length m"
  ultimately show ?thesis by (simp add: rd.simps zero_param_def put_bytes_def min_def)
qed

lemma wr_zero: "inb f m \<Longrightarrow> rd f m = 0 \<Longrightarrow> wr f 0 m = m"
  using wr_rd [of f m] by simp

text \<open>
  An event request leaves the output of the request as it was found, and the driver tells it
  from the request that attaches the unit to a clock by that output alone.
\<close>

lemma rx_event_taken_for_clock:
  assumes "rq_output r = with_clk 8 clk_id" "length (rq_param r) = MAX_REQUEST_SIZE"
  shows "rx_event_req tsi 0 0 0 0 0 r = rx_set_clock_req tsi clk_id r"
  using assms
  by (simp add: rx_event_req_def rx_set_clock_req_def store_fields.simps req_param_def req_head_def set_output_def wr_zero
      rd_zero_param)


subsection \<open>The properties\<close>


definition blank_req :: ksz_request where
  "blank_req = \<lparr>rq_size = 7, rq_cmd = 7, rq_subcmd = 7, rq_output = 7, rq_result = 7,
     rq_param = replicate 200 7\<rparr>"

lemma blank_req_length: "length (rq_param blank_req) = MAX_REQUEST_SIZE"
  by (simp add: blank_req_def)




text \<open>A driver that keeps every parameter it is given by subcommand and selector.\<close>

definition keep_dev :: "(int \<times> int \<Rightarrow> byte_list) device" where
  "keep_dev d r =
     (let key = (rq_subcmd r, rq_output r)
      in if rq_cmd r = DEV_CMD_PUT
         then (0, r\<lparr>rq_result := 0\<rparr>, d(key := take (nat (rq_size r - SIZEOF_ksz_request)) (rq_param r)))
         else (0, r\<lparr>rq_result := 0, rq_param := take 200 (put_bytes 0 (d key) (rq_param r))\<rparr>, d))"

lemma keep_dev_kept: "n \<le> 200 \<Longrightarrow> param_kept keep_dev subcmd n"
  by (auto simp: param_kept_def keep_dev_def framed_def Let_def put_bytes_def)


text \<open>
  C34. The time the servo corrects is the time the driver is asked to add: for every canonical
  offset of less than \<open>2 ^ 31\<close> seconds \<open>clock_adj\<close> and, on a sound message store,
  \<open>clock_adj_freq\<close> return and record one call whose request is a well-formed adjustment of
  minus the offset in whole nanoseconds; that of \<open>clock_adj_freq\<close> also carries the frequency.
\<close>

theorem adjustment_request:
  assumes l: "length (rq_param r) = MAX_REQUEST_SIZE"
    and c: "ptu_canon offset" "\<bar>u_sec offset\<bar> < 2147483648"
    and st: "store_ok (w_msgs w) held"
  shows "(\<exists>e q. w_out (clock_adj offset w) = w_out w @ [e] \<and> effect_request api clk e r = Some q \<and>
      framed 16 DEV_CMD_PUT DEV_PTP_CLK r q \<and> adj_ns q = - (ptu_val offset div 2 ^ 16) \<and>
      rdi clk_interval (rq_param q) = 0) \<and>
    (\<exists>w' e q. clock_adj_freq offset freq w = Some w' \<and>
      w_out w' = w_out w @ [e] \<and> effect_request api clk e r = Some q \<and>
      framed 16 DEV_CMD_PUT DEV_PTP_CLK r q \<and> adj_ns q = - (ptu_val offset div 2 ^ 16) \<and>
      rdi clk_drift (rq_param q) = freq mod 2 ^ 32 \<and> rdi clk_interval (rq_param q) = NANOSEC_IN_SEC)"
proof -
  have "framed 16 DEV_CMD_PUT DEV_PTP_CLK r (adj_freq_request sec nsec drift interval clk r)" for sec nsec drift interval
    by (simp add: adj_freq_request_def framed_clock l split: prod.split)
  moreover have "rdi clk_drift (rq_param (adj_freq_request sec nsec drift interval clk r)) = drift mod 2 ^ 32"
    "rdi clk_interval (rq_param (adj_freq_request sec nsec drift interval clk r)) = uint interval mod 2 ^ 32"
    for sec nsec drift interval
    by (simp_all add: adj_freq_request_def adj_freq_req_param l split: prod.split)
  moreover obtain w' where w': "clock_adj_freq offset freq w = Some w'" using adj_returns [OF st] by blast
  ultimately show ?thesis
    using clock_adj_out [of offset w] clock_adj_freq_out [OF w'] offset_request [OF l c]
    by simp
qed

end
