(* ===== verification/Sample_driver.thy ===== *)
theory Sample_driver
  imports Driver_props Sample_stack
begin

text \<open>The request that follows from an adjustment of the sample clock.\<close>

theorem adjustment_request_witness:
  "\<exists>w' e q. clock_adj_freq \<lparr>u_sec = - 1, u_nsec = - 131072\<rparr> 25 sample_world = Some w' \<and>
    w_out w' = w_out sample_world @ [e] \<and>
    effect_request \<lparr>ap_version = 2, ap_ports = 3, ap_host_port = 0\<rparr> 0 e blank_req = Some q \<and>
    adj_ns q = 1000000002"
proof -
  have st: "store_ok (w_msgs sample_world) []"
    by (simp add: sample_world_def sample_store_def store_ok_def counted_def refs_def slot_refs_def)
  have c: "ptu_canon \<lparr>u_sec = - 1, u_nsec = - 131072\<rparr>" by (simp add: ptu_canon_def)
  show ?thesis
    using adjustment_request [OF blank_req_length c _ st, of "\<lparr>ap_version = 2, ap_ports = 3, ap_host_port = 0\<rparr>" 0 25]
    by (auto simp: ptu_val_def)
qed

end
