(* ===== verification/Devread.thy ===== *)
theory Devread
  imports Driver Stack
begin

text \<open>
  The messages the driver sends back: \<open>ptp_recv\<close> of \<^verbatim>\<open>lan937x_ptp_api.c\<close>, which cuts
  what \<open>read\<close> delivers into messages (\<open>sw_recv\<close> of \<^verbatim>\<open>ksz_sw_api.c\<close> is the same code
  on a larger buffer), and the body of the loop of \<open>ptp_notify_task\<close> in
  \<^verbatim>\<open>ptp_stack.c\<close> that acts on them.

  A message is \<open>struct ksz_read_msg\<close>: a 16-bit length that counts itself, and the data.
  \<open>read\<close> is a parameter: from a state and a number of bytes to the bytes it delivers, or
  \<open>None\<close> for an error, and the next state.  The program can stop with \<open>exit(1)\<close>, reach
  outside its buffer (\<open>Fault\<close>), or wait forever (\<open>None\<close> of \<open>partial_function\<close>).
\<close>

record dev_info =
  di_buf :: byte_list
  di_len :: int
  di_index :: int
  di_left :: int

datatype recv_err = Exited | Fault

type_synonym 's reader = "'s \<Rightarrow> nat \<Rightarrow> byte_list option \<times> 's"

definition msg_len :: "dev_info \<Rightarrow> int option" where
  "msg_len info =
     (if 0 \<le> di_index info \<and> nat (di_index info) + 2 \<le> length (di_buf info)
      then Some (rdi (nat (di_index info), 2) (di_buf info)) else None)"

text \<open>
  The first part of \<open>ptp_recv\<close>: a message that is not complete moves to the start of the buffer.
  The two areas of the \<open>memcpy\<close> may overlap; the bytes move as they are.
\<close>

definition recv_keep :: "dev_info \<Rightarrow> dev_info option" where
  "recv_keep info =
     (if di_left info \<noteq> 0
      then (case msg_len info of
              None \<Rightarrow> None
            | Some n \<Rightarrow>
                if di_left info < n
                then (if 0 \<le> di_left info \<and> nat (di_index info) + nat (di_left info) \<le> length (di_buf info)
                      then Some (info\<lparr>di_buf := put_bytes 0 (get_bytes (nat (di_index info)) (nat (di_left info)) (di_buf info)) (di_buf info),
                                      di_index := di_left info, di_left := 0\<rparr>)
                      else None)
                else Some info)
      else Some (info\<lparr>di_index := 0\<rparr>))"

text \<open>The loop \<open>do ... while (!n && !info->index)\<close>.\<close>

partial_function (option) read_device :: "'s reader \<Rightarrow> dev_info \<Rightarrow> 's \<Rightarrow> (recv_err + dev_info \<times> 's) option" where
  "read_device rdev info s =
     (case rdev s (nat (di_len info - di_index info)) of
        (None, s) \<Rightarrow> Some (Inl Exited)
      | (Some bs, s) \<Rightarrow>
          (let i = di_index info + int (length bs);
               info = info\<lparr>di_buf := put_bytes (nat (di_index info)) bs (di_buf info), di_index := i\<rparr>
           in if bs = [] \<and> i = 0 then read_device rdev info s else Some (Inr (info, s))))"

definition recv_fill :: "'s reader \<Rightarrow> dev_info \<Rightarrow> 's \<Rightarrow> (recv_err + dev_info \<times> 's) option" where
  "recv_fill rdev info s =
     (if di_left info = 0
      then map_option (map_sum id (\<lambda>(info, s). (info\<lparr>di_left := di_index info, di_index := 0\<rparr>, s)))
             (read_device rdev info s)
      else Some (Inr (info, s)))"

text \<open>The last part: one message is taken off and its data is copied to the caller.\<close>

definition recv_take :: "int \<Rightarrow> dev_info \<Rightarrow> recv_err + byte_list \<times> dev_info" where
  "recv_take len info =
     (case msg_len info of
        None \<Rightarrow> Inl Fault
      | Some n \<Rightarrow>
          if n > len then Inl Exited
          else
            (let i = nat (di_index info); m = (n - 2) mod 2 ^ 16; cnt = nat (min len m);
                 info = info\<lparr>di_buf := wr (i, 2) (nat m) (di_buf info),
                             di_index := di_index info + n, di_left := di_left info - n\<rparr>
             in if i + 2 + cnt \<le> length (di_buf info) then Inr (get_bytes (i + 2) cnt (di_buf info), info)
                else Inl Fault))"

definition ptp_recv :: "'s reader \<Rightarrow> dev_info \<Rightarrow> int \<Rightarrow> 's \<Rightarrow> (recv_err + byte_list \<times> dev_info \<times> 's) option" where
  "ptp_recv rdev info len s =
     (case recv_keep info of
        None \<Rightarrow> Some (Inl Fault)
      | Some info \<Rightarrow>
          (case recv_fill rdev info s of
             None \<Rightarrow> None
           | Some (Inl e) \<Rightarrow> Some (Inl e)
           | Some (Inr (info, s)) \<Rightarrow>
               Some (map_sum id (\<lambda>(bs, info). (bs, info, s)) (recv_take len info))))"

definition sw_recv :: "'s reader \<Rightarrow> dev_info \<Rightarrow> int \<Rightarrow> 's \<Rightarrow> (recv_err + byte_list \<times> dev_info \<times> 's) option" where
  "sw_recv = ptp_recv"

text \<open>\<open>ptp_api_init\<close> and \<open>sw_init\<close> after a successful \<open>open\<close>; \<open>junk\<close> is what \<open>malloc\<close> gives.\<close>

definition ptp_api_init :: "byte_list \<Rightarrow> dev_info" where
  "ptp_api_init junk = \<lparr>di_buf = take MAX_REQUEST_SIZE junk, di_len = 200, di_index = 0, di_left = 0\<rparr>"

definition sw_init :: "byte_list \<Rightarrow> dev_info" where
  "sw_init junk = \<lparr>di_buf = take 2000 junk, di_len = 2000, di_index = 0, di_left = 0\<rparr>"

subsection \<open>Acting on a message of the driver\<close>

definition read_msg_options :: "byte_list \<Rightarrow> ptp_msg_options" where
  "read_msg_options d =
     \<lparr>mo_id = \<lparr>pi_clock = get_bytes 0 8 d, pi_port = of_nat (rd (8, 2) d)\<rparr>,
      mo_seqid = of_nat (rd (10, 2) d), mo_domain = of_nat (rd (12, 1) d), mo_msg = rd (13, 1) d,
      mo_specific = rd (14, 1) d, mo_port = rd (16, 4) d, mo_sec = of_nat (rd (28, 4) d),
      mo_nsec = of_nat (rd (32, 4) d)\<rparr>"

text \<open>
  \<open>data\<close> is the static buffer of 2000 bytes whose first \<open>len\<close> bytes were received.  The size
  handed to \<open>proc_tx_timestamp\<close> is \<open>len - 2\<close> as an unsigned number, so that a message of one byte
  passes its test.
\<close>

definition notify_msg :: "byte_list \<Rightarrow> byte_list \<Rightarrow> nat \<Rightarrow> world \<Rightarrow> world option" where
  "notify_msg junk data len w =
     (let cmd = hd data
      in if len > 0 \<and> cmd AND 0x0f = 1
         then (if cmd AND 0xf0 = 0
               then (if 2 \<le> len \<and> len - 2 < 40 then Some w
                     else proc_tx_timestamp (read_msg_options (drop 2 data)) junk w)
               else if cmd AND 0xf0 = 0x10 then Some (proc_link_status (unat (data ! 2)) (data ! 3) w)
               else Some w)
         else Some w)"

definition notify_turn ::
  "'s reader \<Rightarrow> byte_list \<Rightarrow> dev_info \<times> byte_list \<times> 's \<times> world \<Rightarrow> (dev_info \<times> byte_list \<times> 's \<times> world) option" where
  "notify_turn rdev junk = (\<lambda>(info, data, s, w).
     (case ptp_recv rdev info 2000 s of
        Some (Inr (bs, info, s)) \<Rightarrow>
          (let data = put_bytes 0 bs data
           in map_option (\<lambda>w. (info, data, s, w)) (notify_msg junk data (length bs) w))
      | _ \<Rightarrow> None))"

end
