(* ===== verification/Devread_props.thy ===== *)
theory Devread_props
  imports Devread Driver_props
begin

text \<open>
  \<open>ptp_recv\<close> as a queue of messages: what is left in its buffer followed by what the device
  still has is a sequence of messages, and each call takes off the first.
\<close>

definition read_frame :: "byte_list \<Rightarrow> byte_list" where
  "read_frame p = le_bytes 2 (length p + 2) @ p"

text \<open>The device delivers a stream of bytes, as many as are asked for and there are.\<close>

definition streams :: "'s reader \<Rightarrow> ('s \<Rightarrow> byte_list) \<Rightarrow> bool" where
  "streams rdev content \<longleftrightarrow>
     (\<forall>s n. content s \<noteq> [] \<longrightarrow> (\<exists>s'. rdev s n = (Some (take n (content s)), s') \<and> content s' = drop n (content s)))"

definition unread :: "dev_info \<Rightarrow> byte_list" where
  "unread info = get_bytes (nat (di_index info)) (nat (di_left info)) (di_buf info)"

text \<open>The invariant of the buffer: its bounds, and whole 16-bit words in it.\<close>

definition info_ok :: "dev_info \<Rightarrow> bool" where
  "info_ok info \<longleftrightarrow>
     di_len info = 200 \<and> length (di_buf info) = 200 \<and> 0 \<le> di_index info \<and> 0 \<le> di_left info \<and>
     di_index info + di_left info \<le> 200 \<and> even (di_left info)"

lemma frame_length [simp]: "length (read_frame p) = length p + 2"
  by (simp add: read_frame_def)

lemma info_ok_init: "200 \<le> length junk \<Longrightarrow> info_ok (ptp_api_init junk) \<and> unread (ptp_api_init junk) = []"
  by (simp add: info_ok_def ptp_api_init_def unread_def get_bytes_def)

lemma unread_length: "info_ok info \<Longrightarrow> int (length (unread info)) = di_left info"
  by (auto simp: info_ok_def unread_def get_bytes_def nat_le_iff)

text \<open>The length of the first message is in the first two bytes.\<close>

lemma msg_len_frame:
  assumes "info_ok info" "unread info @ ys = read_frame p @ rest" "di_left info \<noteq> 0" "length p \<le> 198"
  shows "msg_len info = Some (int (length p) + 2)"
proof -
  have l: "2 \<le> nat (di_left info)" "nat (di_index info) + nat (di_left info) \<le> 200"
    using assms(1,3) by (auto simp: info_ok_def)
  have "take 2 (unread info) = le_bytes 2 (length p + 2)"
  proof -
    have "take 2 (unread info @ ys) = take 2 (read_frame p @ rest)" using assms(2) by simp
    then show ?thesis using l unread_length [OF assms(1)] by (simp add: read_frame_def)
  qed
  then have "rd (nat (di_index info), 2) (di_buf info) = length p + 2"
    using l assms(4) by (simp add: rd.simps unread_def get_bytes_def min_def)
  then show ?thesis using l assms(1) by (simp add: msg_len_def info_ok_def rdi_def)
qed

lemma recv_take_frame:
  assumes ok: "info_ok info" and u: "unread info = read_frame p @ rest" and p: "length p \<le> 198" "even (length p)"
  shows "\<exists>info'. recv_take 2000 info = Inr (p, info') \<and> info_ok info' \<and> unread info' = rest"
proof -
  define i L where "i = nat (di_index info)" and "L = nat (di_left info)"
  have b: "i + L \<le> 200" "length (di_buf info) = 200" "di_index info = int i" "di_left info = int L"
    using ok by (auto simp: info_ok_def i_def L_def)
  have g: "take L (drop i (di_buf info)) = read_frame p @ rest"
    using u by (simp add: unread_def get_bytes_def i_def L_def)
  have L: "L = length p + 2 + length rest"
    using arg_cong [OF g, of length] b by simp
  have n: "msg_len info = Some (int (length p) + 2)"
    using msg_len_frame [OF ok, of "[]" p rest] u p b L by simp
  have w: "drop (i + 2) (wr (i, 2) v (di_buf info)) = drop (i + 2) (di_buf info)" for v
    using b L by (intro wr_drop) auto
  have d: "take (length p + length rest) (drop (i + 2) (di_buf info)) = p @ rest"
    using arg_cong [OF g, of "drop 2"] L by (simp add: drop_take read_frame_def)
  define buf where "buf = wr (i, 2) (length p) (di_buf info)"
  have buf: "length buf = 200" "drop (i + 2) buf = drop (i + 2) (di_buf info)"
    using b L w by (simp_all add: buf_def)
  have p': "get_bytes (i + 2) (length p) buf = p"
    using arg_cong [OF d, of "take (length p)"] buf(2) by (simp add: get_bytes_def)
  have r': "take (length rest) (drop (i + length p + 2) buf) = rest"
    using arg_cong [OF d, of "drop (length p)"] arg_cong [OF buf(2), of "drop (length p)"]
    by (simp add: drop_take add.commute add.left_commute)
  define info' where "info' = info\<lparr>di_buf := buf, di_index := int i + (int (length p) + 2), di_left := int (length rest)\<rparr>"
  have "recv_take 2000 info = Inr (p, info')"
    using n b(3,4) p(1) L p' buf(1) b(1) unfolding recv_take_def info'_def
    by (simp add: Let_def mod_pos_pos_trivial nat_add_distrib buf_def)
  moreover have "info_ok info'"
    using ok b L p(2) buf(1) by (auto simp: info_ok_def info'_def)
  moreover have "unread info' = rest"
    using r' by (simp add: unread_def info'_def get_bytes_def nat_add_distrib add.assoc)
  ultimately show ?thesis by blast
qed


text \<open>Reading more behind the \<open>k\<close> bytes \<open>u\<close> that are kept.\<close>

lemma recv_fill_stream:
  assumes st: "streams rdev content" "content s \<noteq> []"
    and i: "di_len info = 200" "length (di_buf info) = 200" "di_index info = int (length u)" "di_left info = 0"
    and u: "take (length u) (di_buf info) = u" "length u < 200" "even (length u)" "even (length (content s))"
  shows "\<exists>info' s'. recv_fill rdev info s = Some (Inr (info', s')) \<and> info_ok info' \<and>
    unread info' = take 200 (u @ content s) \<and> unread info' @ content s' = u @ content s"
proof -
  define bs where "bs = take (200 - length u) (content s)"
  obtain s' where s': "rdev s (200 - length u) = (Some bs, s')" "content s' = drop (200 - length u) (content s)"
    using st unfolding streams_def bs_def by blast
  have bs: "bs \<noteq> []" "length u + length bs \<le> 200" "even (length bs)"
    using st(2) u by (auto simp: bs_def min_def)
  define info1 where "info1 = info\<lparr>di_buf := put_bytes (length u) bs (di_buf info), di_index := int (length u) + int (length bs)\<rparr>"
  have "nat (200 - int (length u)) = 200 - length u" by simp
  then have "read_device rdev info s = Some (Inr (info1, s'))"
    using s'(1) i bs(1) by (subst read_device.simps) (simp add: info1_def)
  then have f: "recv_fill rdev info s = Some (Inr (info1\<lparr>di_left := di_index info1, di_index := 0\<rparr>, s'))"
    using i(4) by (simp add: recv_fill_def)
  have b: "take (length u + length bs) (put_bytes (length u) bs (di_buf info)) = u @ bs"
    using u(1) i(2) bs(2) by (simp add: put_bytes_def min_def)
  have ok: "info_ok (info1\<lparr>di_left := di_index info1, di_index := 0\<rparr>)"
    using i bs u(3) by (simp add: info_ok_def info1_def)
  have un: "unread (info1\<lparr>di_left := di_index info1, di_index := 0\<rparr>) = u @ bs"
    using b by (simp add: unread_def get_bytes_def info1_def nat_add_distrib)
  show ?thesis
    using f ok un s'(2) u(2) by (auto simp: bs_def)
qed

lemma recv_ready:
  assumes ok: "info_ok info" and st: "streams rdev content"
    and u: "unread info @ content s = read_frame p @ rest" and p: "length p \<le> 198" "even (length p)" "even (length rest)"
  shows "\<exists>info1 info2 s2. recv_keep info = Some info1 \<and> recv_fill rdev info1 s = Some (Inr (info2, s2)) \<and>
    info_ok info2 \<and> unread info2 @ content s2 = read_frame p @ rest \<and> length p + 2 \<le> length (unread info2)"
proof -
  have l: "length (unread info) = nat (di_left info)" using unread_length [OF ok] by simp
  have ev: "even (length (unread info))" using ok l by (auto simp: info_ok_def even_nat_iff)
  have total: "length (unread info) + length (content s) = length p + 2 + length rest"
    using arg_cong [OF u, of length] by simp
  have ec: "even (length (content s))"
  proof -
    have "even (length (unread info) + length (content s))" unfolding total using p by simp
    then show ?thesis using ev by simp
  qed
  show ?thesis
  proof (cases "length p + 2 \<le> length (unread info)")
    case True
    then have "recv_keep info = Some info" "recv_fill rdev info s = Some (Inr (info, s))"
      using msg_len_frame [OF ok u] p l by (auto simp: recv_keep_def recv_fill_def)
    then show ?thesis using True ok u by blast
  next
    case False
    then have c: "content s \<noteq> []" using total by auto
    define info1 where "info1 = info\<lparr>di_buf := put_bytes 0 (unread info) (di_buf info), di_index := di_left info, di_left := 0\<rparr>"
    have k: "recv_keep info = Some (if di_left info = 0 then info\<lparr>di_index := 0\<rparr> else info1)"
      using msg_len_frame [OF ok u] p False l ok
      by (auto simp: recv_keep_def info1_def unread_def info_ok_def)
    have b: "di_len info1 = 200" "length (di_buf info1) = 200" "di_index info1 = int (length (unread info))"
        "di_left info1 = 0" "take (length (unread info)) (di_buf info1) = unread info" "length (unread info) < 200"
      using ok l False p by (auto simp: info_ok_def info1_def put_bytes_def)
    have "(if di_left info = 0 then info\<lparr>di_index := 0\<rparr> else info1) = info1"
      using l ok by (auto simp: info1_def put_bytes_def info_ok_def)
    then show ?thesis
      using recv_fill_stream [OF st c b(1-6) ev ec] k u False total p(1)
      by (auto simp: min_def)
  qed
qed

lemma recv_next:
  assumes "info_ok info" "streams rdev content"
    and "unread info @ content s = read_frame p @ rest" and p: "length p \<le> 198" "even (length p)" "even (length rest)"
  shows "\<exists>info' s'. ptp_recv rdev info 2000 s = Some (Inr (p, info', s')) \<and> info_ok info' \<and>
    unread info' @ content s' = rest"
proof -
  obtain info1 info2 s2 where r: "recv_keep info = Some info1" "recv_fill rdev info1 s = Some (Inr (info2, s2))"
      "info_ok info2" "unread info2 @ content s2 = read_frame p @ rest" "length p + 2 \<le> length (unread info2)"
    using recv_ready [OF assms] by blast
  define rest2 where "rest2 = drop (length p + 2) (unread info2)"
  have "take (length p + 2) (unread info2) = read_frame p"
    using arg_cong [OF r(4), of "take (length p + 2)"] r(5) by simp
  then have u: "unread info2 = read_frame p @ rest2"
    using append_take_drop_id [of "length p + 2" "unread info2"] by (simp add: rest2_def)
  obtain info' where "recv_take 2000 info2 = Inr (p, info')" "info_ok info'" "unread info' = rest2"
    using recv_take_frame [OF r(3) u p(1,2)] by blast
  then show ?thesis using r(1,2,4) u by (simp add: ptp_recv_def)
qed


text \<open>Receiving several messages in turn.\<close>

fun recv_many :: "'s reader \<Rightarrow> nat \<Rightarrow> dev_info \<Rightarrow> 's \<Rightarrow> (byte_list list \<times> dev_info \<times> 's) option" where
  "recv_many rdev 0 info s = Some ([], info, s)"
| "recv_many rdev (Suc n) info s =
     (case ptp_recv rdev info 2000 s of
        Some (Inr (p, info, s)) \<Rightarrow> map_option (\<lambda>(ps, r). (p # ps, r)) (recv_many rdev n info s)
      | _ \<Rightarrow> None)"

definition sendable :: "byte_list \<Rightarrow> bool" where
  "sendable p \<longleftrightarrow> length p \<le> 198 \<and> even (length p)"

lemma frames_even: "list_all sendable ps \<Longrightarrow> even (length (concat (map read_frame ps)))"
  by (induction ps) (auto simp: sendable_def)


definition list_reader :: "byte_list reader" where
  "list_reader s n = (Some (take n s), drop n s)"


text \<open>
  A message that ends one byte before the end of the buffer makes the next call read the byte
  behind the buffer.
\<close>

lemma odd_message_fault:
  assumes "length (di_buf info) = 200" "di_index info = 199" "di_left info = 1"
  shows "ptp_recv rdev info len s = Some (Inl Fault)"
  using assms by (simp add: ptp_recv_def recv_keep_def msg_len_def)

text \<open>
  When \<open>read\<close> delivers only part of a message the call hands out what is in the buffer, and the
  next one reaches outside it.
\<close>

lemma short_read:
  assumes "msg_len info = Some n" "di_left info < n" "recv_take len info = Inr (bs, info')"
  shows "di_left info' < 0 \<and> ptp_recv rdev info' len' s = Some (Inl Fault)"
proof -
  have "di_left info' < 0" using assms by (auto simp: recv_take_def Let_def split: if_splits)
  moreover have "recv_keep info' = None"
  proof (cases "msg_len info'")
    case (Some k)
    then have "0 \<le> k" by (auto simp: msg_len_def rdi_def split: if_splits)
    then show ?thesis using Some calculation by (simp add: recv_keep_def)
  qed (use calculation in \<open>simp add: recv_keep_def\<close>)
  ultimately show ?thesis by (simp add: ptp_recv_def)
qed

subsection \<open>The notification task\<close>

text \<open>Whatever the driver sends, a turn of the task is at most one step of the stack.\<close>

lemma notify_step: "notify_msg junk data len w = Some w' \<Longrightarrow> w' = w \<or> stack_step w w'"
  by (auto simp: notify_msg_def Let_def split: if_splits intro: stack_step.intros)

end
