(* ===== verification/Switch.thy ===== *)
theory Switch
  imports Driver_props
begin

text \<open>
  The requests to the switch driver, \<^verbatim>\<open>ksz_sw_api.c\<close>: opening it, the settings of a port
  (receiving, sending, learning, power) and the state of its link.  They use the request
  structure of the PTP driver; \<open>DEV_MOD_BASE\<close> is 0, so \<open>cmd |= DEV_MOD_BASE << 16\<close> changes
  nothing.  \<open>struct ksz_info_opt\<close> is 10 bytes: a number, a port, and either the two masks
  \<open>set\<close> and \<open>on_off\<close> or the speed of a link.
\<close>

abbreviation (input) DEV_SW_CFG :: int where "DEV_SW_CFG \<equiv> 0"
abbreviation (input) DEV_INFO_SW_LINK :: int where "DEV_INFO_SW_LINK \<equiv> 5"
abbreviation (input) opt_num :: field where "opt_num \<equiv> (0, 1)"
abbreviation (input) opt_port :: field where "opt_port \<equiv> (1, 1)"
abbreviation (input) opt_set :: field where "opt_set \<equiv> (2, 4)"
abbreviation (input) opt_on_off :: field where "opt_on_off \<equiv> (6, 4)"
abbreviation (input) SP_RX :: u32 where "SP_RX \<equiv> 1"
abbreviation (input) SP_TX :: u32 where "SP_TX \<equiv> 2"
abbreviation (input) SP_LEARN :: u32 where "SP_LEARN \<equiv> 4"
abbreviation (input) SP_PHY_POWER :: u32 where "SP_PHY_POWER \<equiv> 64"

definition sw_exit_req :: "ksz_request \<Rightarrow> ksz_request" where
  "sw_exit_req r = set_output 0 (req_head DEV_CMD_INFO DEV_INFO_EXIT 0 r)"

definition sw_init_req :: "int \<Rightarrow> ksz_request \<Rightarrow> ksz_request" where
  "sw_init_req capability r =
     req_param (put_bytes 0 [0x4B, 0x53, 0x5A, 0x41, 0x50, 0x49])
       (set_output capability (req_head DEV_CMD_INFO DEV_INFO_INIT 8 r))"

definition sw_dev_exit :: "'d device \<Rightarrow> ksz_request \<Rightarrow> 'd \<Rightarrow> int \<times> 'd" where
  "sw_dev_exit dev r0 = put_call dev (sw_exit_req r0)"

text \<open>The version and the number of ports, unless the driver is of another family.\<close>

definition sw_dev_init :: "'d device \<Rightarrow> ksz_request \<Rightarrow> int \<Rightarrow> 'd \<Rightarrow> int \<times> (int \<times> int) option \<times> 'd" where
  "sw_dev_init dev r0 capability d =
     (let (rc, v, d) =
            get_call dev (sw_init_req capability r0)
              (\<lambda>a. if is_micr (rq_param a) then Some (uint (rq_param a ! 4), uint (rq_param a ! 5)) else None) d
      in (rc, Option.bind v id, d))"

text \<open>
  \<open>data\<close> is the object the request copies from, \<open>data_size\<close> the number of bytes it copies.
  Reading past the object is \<open>None\<close>.
\<close>

definition set_sw_req :: "int \<Rightarrow> int \<Rightarrow> byte_list \<Rightarrow> nat \<Rightarrow> ksz_request \<Rightarrow> ksz_request option" where
  "set_sw_req cmd subcmd data data_size r =
     (if data_size \<le> length data \<and> data_size \<le> length (rq_param r)
      then Some (req_param (put_bytes 0 (take data_size data))
             (set_output 0 (req_head cmd subcmd data_size (req_param (zero_param 10) r))))
      else None)"

definition set_sw_notify :: "'d device \<Rightarrow> ksz_request \<Rightarrow> u32 \<Rightarrow> 'd \<Rightarrow> (int \<times> 'd) option" where
  "set_sw_notify dev r0 notify d =
     map_option (\<lambda>r. put_call dev r d)
       (set_sw_req DEV_CMD_INFO DEV_INFO_NOTIFY (le_bytes 4 (unat notify)) 4 r0)"

definition port_cfg_req :: "int \<Rightarrow> int \<Rightarrow> u32 \<Rightarrow> byte_list \<Rightarrow> byte_list" where
  "port_cfg_req pn v cfg opt =
     (let opt = store_fields [(opt_num, 1), (opt_port, pn),
                       (opt_set, rdi opt_set opt OR uint cfg)] opt
      in if v \<noteq> 0 then store_fields [(opt_on_off, rdi opt_on_off opt OR uint cfg)] opt else opt)"

definition sw_get_port_cfg ::
  "'d device \<Rightarrow> ksz_request \<Rightarrow> int \<Rightarrow> u32 \<Rightarrow> 'd \<Rightarrow> (int \<times> bool option \<times> 'd) option" where
  "sw_get_port_cfg dev r0 pn cfg d =
     map_option (\<lambda>r. get_call dev r (\<lambda>a. rdi opt_on_off (rq_param a) AND uint cfg \<noteq> 0) d)
       (set_sw_req DEV_CMD_GET DEV_SW_CFG (port_cfg_req pn 0 cfg (replicate 10 0)) 10 r0)"

definition sw_set_port_cfg :: "'d device \<Rightarrow> ksz_request \<Rightarrow> int \<Rightarrow> int \<Rightarrow> u32 \<Rightarrow> 'd \<Rightarrow> (int \<times> 'd) option" where
  "sw_set_port_cfg dev r0 pn v cfg d =
     map_option (\<lambda>r. put_call dev r d)
       (set_sw_req DEV_CMD_PUT DEV_SW_CFG (port_cfg_req pn v cfg (replicate 10 0)) 10 r0)"

definition get_port_learn :: "'d device \<Rightarrow> ksz_request \<Rightarrow> int \<Rightarrow> 'd \<Rightarrow> (int \<times> bool option \<times> 'd) option" where
  "get_port_learn dev r0 pn = sw_get_port_cfg dev r0 pn SP_LEARN"

definition set_port_learn :: "'d device \<Rightarrow> ksz_request \<Rightarrow> int \<Rightarrow> int \<Rightarrow> 'd \<Rightarrow> (int \<times> 'd) option" where
  "set_port_learn dev r0 pn v = sw_set_port_cfg dev r0 pn v SP_LEARN"

definition get_port_rx :: "'d device \<Rightarrow> ksz_request \<Rightarrow> int \<Rightarrow> 'd \<Rightarrow> (int \<times> bool option \<times> 'd) option" where
  "get_port_rx dev r0 pn = sw_get_port_cfg dev r0 pn SP_RX"

definition set_port_rx :: "'d device \<Rightarrow> ksz_request \<Rightarrow> int \<Rightarrow> int \<Rightarrow> 'd \<Rightarrow> (int \<times> 'd) option" where
  "set_port_rx dev r0 pn v = sw_set_port_cfg dev r0 pn v SP_RX"

definition get_port_tx :: "'d device \<Rightarrow> ksz_request \<Rightarrow> int \<Rightarrow> 'd \<Rightarrow> (int \<times> bool option \<times> 'd) option" where
  "get_port_tx dev r0 pn = sw_get_port_cfg dev r0 pn SP_TX"

definition set_port_tx :: "'d device \<Rightarrow> ksz_request \<Rightarrow> int \<Rightarrow> int \<Rightarrow> 'd \<Rightarrow> (int \<times> 'd) option" where
  "set_port_tx dev r0 pn v = sw_set_port_cfg dev r0 pn v SP_TX"

definition get_port_power :: "'d device \<Rightarrow> ksz_request \<Rightarrow> int \<Rightarrow> 'd \<Rightarrow> (int \<times> bool option \<times> 'd) option" where
  "get_port_power dev r0 pn = sw_get_port_cfg dev r0 pn SP_PHY_POWER"

definition set_port_power :: "'d device \<Rightarrow> ksz_request \<Rightarrow> int \<Rightarrow> int \<Rightarrow> 'd \<Rightarrow> (int \<times> 'd) option" where
  "set_port_power dev r0 pn v = sw_set_port_cfg dev r0 pn v SP_PHY_POWER"

text \<open>
  The speeds of \<open>num\<close> ports from \<open>port\<close>, each of 6 bytes, into a buffer of \<open>len\<close> bytes.  The
  request copies as many bytes as the answer will have from an object of 10 bytes.
\<close>

definition get_port_link ::
  "'d device \<Rightarrow> ksz_request \<Rightarrow> nat \<Rightarrow> int \<Rightarrow> nat \<Rightarrow> 'd \<Rightarrow> (int \<times> byte_list option \<times> 'd) option" where
  "get_port_link dev r0 num pn len d =
     (let data_size = 6 * num + 2
      in map_option (\<lambda>r.
           (let (rc, v, d) = get_call dev r (\<lambda>a. get_bytes 2 (6 * num) (rq_param a)) d
            in if rc = 0 \<and> len < 6 * num then (DEV_IOC_INVALID_LEN, None, d) else (rc, v, d)))
         (set_sw_req DEV_CMD_INFO DEV_INFO_SW_LINK
           (store_fields [(opt_num, int num), (opt_port, pn)] (replicate 10 0)) data_size r0))"

subsection \<open>Properties\<close>

lemma set_sw_req_framed:
  assumes "length (rq_param r) = MAX_REQUEST_SIZE" "10 \<le> n" "n \<le> MAX_REQUEST_SIZE" "set_sw_req cmd subcmd data n r = Some q"
  shows "framed n cmd subcmd r q"
proof -
  have "drop n (zero_param 10 m) = drop n m" if "n \<le> length m" for m
    using that assms(2) by (simp add: zero_param_def put_bytes_drop)
  then show ?thesis using assms by (auto simp: set_sw_req_def framed_simps split: if_splits)
qed

lemma port_cfg_req_bytes:
  "length (port_cfg_req k v cfg (replicate 10 0)) = 10"
  "rdi opt_num (port_cfg_req k v cfg (replicate 10 0)) = 1"
  "rdi opt_port (port_cfg_req k v cfg (replicate 10 0)) = k mod 256"
  "rdi opt_set (port_cfg_req k v cfg (replicate 10 0)) = uint cfg"
  "rdi opt_on_off (port_cfg_req k v cfg (replicate 10 0)) = (if v \<noteq> 0 then uint cfg else 0)"
proof -
  have z: "rd (j, n) (replicate 10 0) = 0" if "j + n \<le> 10" for j n
    using rd_zero_param [of j n 10 "replicate 10 0"] that by (simp add: zero_param_def put_bytes_def)
  have m: "int (unat cfg mod 4294967296) = uint cfg" "uint cfg mod 4294967296 = uint cfg"
    using unsigned_less [where 'a = nat, of cfg] unsigned_less [where 'a = int, of cfg] by simp_all
  show "length (port_cfg_req k v cfg (replicate 10 0)) = 10"
    "rdi opt_num (port_cfg_req k v cfg (replicate 10 0)) = 1"
    "rdi opt_port (port_cfg_req k v cfg (replicate 10 0)) = k mod 256"
    "rdi opt_set (port_cfg_req k v cfg (replicate 10 0)) = uint cfg"
    "rdi opt_on_off (port_cfg_req k v cfg (replicate 10 0)) = (if v \<noteq> 0 then uint cfg else 0)"
    by (simp_all add: port_cfg_req_def Let_def rdi_def store_fields.simps z m)
qed


text \<open>
  A driver keeps the settings of a port when the bits of a mask that were put for a port read
  back for that port and mask.
\<close>

definition port_bits_kept :: "'d device \<Rightarrow> bool" where
  "port_bits_kept dev \<longleftrightarrow>
     (\<forall>d r a d1 q. framed 10 DEV_CMD_PUT DEV_SW_CFG r r \<longrightarrow> framed 10 DEV_CMD_GET DEV_SW_CFG q q \<longrightarrow>
        rdi opt_port (rq_param q) = rdi opt_port (rq_param r) \<longrightarrow>
        rdi opt_set (rq_param q) = rdi opt_set (rq_param r) \<longrightarrow> dev d r = (0, a, d1) \<longrightarrow> rq_result a = 0 \<longrightarrow>
        (\<exists>b d2. dev d1 q = (0, b, d2) \<and> rq_result b = 0 \<and>
           rdi opt_on_off (rq_param b) AND rdi opt_set (rq_param r) =
           rdi opt_on_off (rq_param r) AND rdi opt_set (rq_param r)))"

lemma port_cfg_request:
  assumes "length (rq_param r) = MAX_REQUEST_SIZE"
  shows "\<exists>q. set_sw_req cmd DEV_SW_CFG (port_cfg_req k v cfg (replicate 10 0)) 10 r = Some q \<and>
    framed 10 cmd DEV_SW_CFG r q \<and> rdi opt_port (rq_param q) = k mod 256 \<and>
    rdi opt_set (rq_param q) = uint cfg \<and> rdi opt_on_off (rq_param q) = (if v \<noteq> 0 then uint cfg else 0)"
proof -
  let ?o = "port_cfg_req k v cfg (replicate 10 0)"
  obtain q where q: "set_sw_req cmd DEV_SW_CFG ?o 10 r = Some q" "take 10 (rq_param q) = ?o"
    using assms by (auto simp: set_sw_req_def port_cfg_req_bytes put_bytes_def)
  have "take 10 (rq_param q) = take 10 ?o" using q(2) by (simp add: port_cfg_req_bytes)
  then have "rdi opt_port (rq_param q) = rdi opt_port ?o" "rdi opt_set (rq_param q) = rdi opt_set ?o"
      "rdi opt_on_off (rq_param q) = rdi opt_on_off ?o"
    by (auto intro: rdi_agree [where s = 10])
  then show ?thesis using q set_sw_req_framed [OF assms _ _ q(1)] by (simp add: port_cfg_req_bytes del: One_nat_def)
qed

theorem port_setting_read_back:
  assumes "port_bits_kept dev" "cfg \<noteq> 0"
    and l: "length (rq_param r) = MAX_REQUEST_SIZE" "length (rq_param q) = MAX_REQUEST_SIZE"
    and s: "sw_set_port_cfg dev r k v cfg d = Some (0, d1)"
  shows "\<exists>d2. sw_get_port_cfg dev q k cfg d1 = Some (0, Some (v \<noteq> 0), d2)"
proof -
  obtain r' where r': "set_sw_req DEV_CMD_PUT DEV_SW_CFG (port_cfg_req k v cfg (replicate 10 0)) 10 r = Some r'"
      "framed 10 DEV_CMD_PUT DEV_SW_CFG r r'" "rdi opt_port (rq_param r') = k mod 256"
      "rdi opt_set (rq_param r') = uint cfg" "rdi opt_on_off (rq_param r') = (if v \<noteq> 0 then uint cfg else 0)"
    using port_cfg_request [OF l(1), of DEV_CMD_PUT k v cfg] by blast
  obtain q' where q': "set_sw_req DEV_CMD_GET DEV_SW_CFG (port_cfg_req k 0 cfg (replicate 10 0)) 10 q = Some q'"
      "framed 10 DEV_CMD_GET DEV_SW_CFG q q'" "rdi opt_port (rq_param q') = k mod 256"
      "rdi opt_set (rq_param q') = uint cfg"
    using port_cfg_request [OF l(2), of DEV_CMD_GET k 0 cfg] by blast
  obtain a where "dev d r' = (0, a, d1)" "rq_result a = 0"
    using s r'(1) by (auto simp: sw_set_port_cfg_def put_call_def send_req_def Let_def split: prod.splits if_splits)
  then obtain b d2 where b: "dev d1 q' = (0, b, d2)" "rq_result b = 0"
      "rdi opt_on_off (rq_param b) AND uint cfg = rdi opt_on_off (rq_param r') AND uint cfg"
    using assms(1) framed_self [OF r'(2)] framed_self [OF q'(2)] r'(3,4) q'(3,4)
    unfolding port_bits_kept_def by metis
  then have "(rdi opt_on_off (rq_param b) AND uint cfg \<noteq> 0) = (v \<noteq> 0)"
    using r'(5) assms(2) by (simp add: uint_0_iff)
  then show ?thesis using q'(1) b(1,2) by (simp add: sw_get_port_cfg_def get_call_def send_req_def)
qed

text \<open>Asking for the links of two ports or more reads past the object the request is filled from.\<close>

lemma get_port_link_many: "2 \<le> num \<Longrightarrow> get_port_link dev r0 num pn len d = None"
  by (simp add: get_port_link_def set_sw_req_def Let_def)

end
