(* ===== verification/Timers.thy ===== *)
theory Timers
  imports Sched
begin

text \<open>
  The table of timers of \<^verbatim>\<open>os/sw_support.c\<close>: the arrays \<open>Timers\<close> and \<open>pollfd\<close> of
  \<open>MAX_TIMERS\<close> entries, their fill level \<open>pollcnt\<close>, and the task that polls the timer
  descriptors.  The structure of a timer itself is in \<open>Sched\<close>; here it also has its
  descriptor \<open>xTimer\<close> and its place \<open>index\<close> in the table.  A timer is a value of the type
  \<open>'i\<close>, which stands for its address.  An access outside the table or through an empty entry is
  \<open>None\<close>.
\<close>

record 'i timer_sys =
  ts_info :: "'i \<Rightarrow> ksz_timer_info"
  ts_fd :: "'i \<Rightarrow> int"
  ts_index :: "'i \<Rightarrow> nat"
  ts_timers :: "'i option list"
  ts_pollfd :: "int list"
  ts_pollcnt :: nat

abbreviation (input) MAX_TIMERS :: nat where "MAX_TIMERS \<equiv> 80"

abbreviation timer_live :: "'i timer_sys \<Rightarrow> 'i \<Rightarrow> bool" where
  "timer_live s i \<equiv> t_callback (ts_info s i)"

definition set_info :: "'i \<Rightarrow> (ksz_timer_info \<Rightarrow> ksz_timer_info) \<Rightarrow> 'i timer_sys \<Rightarrow> 'i timer_sys" where
  "set_info i f s = s\<lparr>ts_info := (ts_info s)(i := f (ts_info s i))\<rparr>"

definition set_poll :: "nat \<Rightarrow> int \<Rightarrow> 'i timer_sys \<Rightarrow> 'i timer_sys option" where
  "set_poll k fd s =
     (if k < length (ts_pollfd s) then Some (s\<lparr>ts_pollfd := (ts_pollfd s)[k := fd]\<rparr>) else None)"

text \<open>\<open>ksz_init_timer\<close>; \<open>fd\<close> is what \<open>timerfd_create\<close> returns.\<close>

definition table_init :: "'i \<Rightarrow> ticks \<Rightarrow> bool \<Rightarrow> int \<Rightarrow> 'i timer_sys \<Rightarrow> 'i timer_sys option" where
  "table_init i xTicks repeat fd s =
     (let active = timer_live s i; s = set_info i (\<lambda>t. ksz_init_timer t xTicks repeat) s; k = ts_pollcnt s
      in if active then Some s
         else if k < length (ts_timers s)
         then set_poll k fd (s\<lparr>ts_fd := (ts_fd s)(i := fd), ts_index := (ts_index s)(i := k),
                ts_pollcnt := k + 1, ts_timers := (ts_timers s)[k := Some i]\<rparr>)
         else None)"

definition table_exit :: "'i \<Rightarrow> 'i timer_sys \<Rightarrow> 'i timer_sys" where
  "table_exit i s =
     (if \<not> timer_live s i then s else set_info i ksz_exit_timer (s\<lparr>ts_fd := (ts_fd s)(i := - 1)\<rparr>))"

definition table_start :: "'i \<Rightarrow> ticks \<Rightarrow> 'i timer_sys \<Rightarrow> 'i timer_sys option" where
  "table_start i xTicks s = set_poll (ts_index s i) (ts_fd s i) (set_info i (\<lambda>t. ksz_start_timer t xTicks) s)"

definition table_stop :: "'i \<Rightarrow> 'i timer_sys \<Rightarrow> 'i timer_sys option" where
  "table_stop i s =
     (if t_max (ts_info s i) = 0 then Some s else set_poll (ts_index s i) (- 1) (set_info i ksz_stop_timer s))"

text \<open>The search stops the program at an empty entry; otherwise it gives the place, or \<open>None\<close> for -1.\<close>

fun get_index_from :: "'i timer_sys \<Rightarrow> int \<Rightarrow> nat list \<Rightarrow> nat option option" where
  "get_index_from s fd [] = Some None"
| "get_index_from s fd (k # ks) =
     (case ts_timers s ! k of
        None \<Rightarrow> None
      | Some i \<Rightarrow> if ts_fd s i = - 1 then get_index_from s fd ks
                 else if ts_fd s i = fd then Some (Some k) else get_index_from s fd ks)"

definition TimerGetIndex :: "int \<Rightarrow> 'i timer_sys \<Rightarrow> nat option option" where
  "TimerGetIndex fd s = get_index_from s fd [0..<ts_pollcnt s]"

definition pcTimerGetName :: "int \<Rightarrow> 'i timer_sys \<Rightarrow> 'i option option" where
  "pcTimerGetName fd s =
     map_option (\<lambda>k. Option.bind k (\<lambda>k. ts_timers s ! k)) (TimerGetIndex fd s)"

text \<open>
  One pass of the loop of \<open>TimerTask\<close> over the answer of \<open>poll\<close>: for each place, whether its
  descriptor is invalid and whether it is ready.  The result is the list of timers whose callback is
  called; a callback only signals works and leaves the table alone.
\<close>

fun timer_calls :: "(nat \<Rightarrow> bool \<times> bool) \<Rightarrow> 'i timer_sys \<Rightarrow> nat list \<Rightarrow> 'i list option" where
  "timer_calls revents s [] = Some []"
| "timer_calls revents s (k # ks) =
     (if fst (revents k) \<or> \<not> snd (revents k) then timer_calls revents s ks
      else (case ts_timers s ! k of
              None \<Rightarrow> None
            | Some i \<Rightarrow> map_option (\<lambda>is. if timer_live s i then i # is else is) (timer_calls revents s ks)))"

definition TimerTask_pass :: "(nat \<Rightarrow> bool \<times> bool) \<Rightarrow> 'i timer_sys \<Rightarrow> 'i list option" where
  "TimerTask_pass revents s = timer_calls revents s [0..<ts_pollcnt s]"

text \<open>The loop of \<open>ksz_cleanup_timers\<close> goes down from \<open>pollcnt\<close>.\<close>

definition clean_slot :: "nat \<Rightarrow> 'i timer_sys \<Rightarrow> 'i timer_sys" where
  "clean_slot k s =
     (case ts_timers s ! k of
        None \<Rightarrow> s
      | Some i \<Rightarrow>
          if ts_fd s i = - 1
          then s\<lparr>ts_timers := (ts_timers s)[k := None],
                 ts_pollcnt := (if ts_pollcnt s = Suc k then k else ts_pollcnt s)\<rparr>
          else s)"

primrec cleanup_from :: "nat \<Rightarrow> 'i timer_sys \<Rightarrow> 'i timer_sys" where
  "cleanup_from 0 s = s"
| "cleanup_from (Suc k) s = cleanup_from k (clean_slot k s)"

definition ksz_cleanup_timers :: "'i timer_sys \<Rightarrow> 'i timer_sys" where
  "ksz_cleanup_timers s = cleanup_from (ts_pollcnt s) s"

text \<open>\<open>init_timer_sys\<close>: two cleared arrays; no timer has a callback yet.\<close>

definition init_timer_sys :: "('i \<Rightarrow> ksz_timer_info) \<Rightarrow> ('i \<Rightarrow> int) \<Rightarrow> ('i \<Rightarrow> nat) \<Rightarrow> 'i timer_sys" where
  "init_timer_sys info fd index =
     \<lparr>ts_info = (\<lambda>i. (info i)\<lparr>t_callback := False\<rparr>), ts_fd = fd, ts_index = index,
      ts_timers = replicate MAX_TIMERS None, ts_pollfd = replicate MAX_TIMERS 0, ts_pollcnt = 0\<rparr>"

subsection \<open>Steps\<close>

text \<open>
  A timer is started and stopped while it is set up; stopping an idle one does nothing.  A new
  descriptor is not negative and not that of a timer in use.
\<close>

inductive timer_step :: "'i timer_sys \<Rightarrow> 'i timer_sys \<Rightarrow> bool" where
  tstep_init: "0 \<le> fd \<Longrightarrow> (\<forall>j. timer_live s j \<longrightarrow> ts_fd s j \<noteq> fd) \<Longrightarrow> table_init i xTicks repeat fd s = Some s' \<Longrightarrow> timer_step s s'"
| tstep_exit: "timer_step s (table_exit i s)"
| tstep_start: "timer_live s i \<Longrightarrow> table_start i xTicks s = Some s' \<Longrightarrow> timer_step s s'"
| tstep_stop: "timer_live s i \<or> t_max (ts_info s i) = 0 \<Longrightarrow> table_stop i s = Some s' \<Longrightarrow> timer_step s s'"
| tstep_cleanup: "timer_step s (ksz_cleanup_timers s)"

inductive_cases timer_stepE: "timer_step s s'"

text \<open>
  The invariant: the arrays keep their size, every timer that is set up is in the table at its
  index with its own descriptor (or none while it is stopped), and no two have the same.
\<close>

definition slot_ok :: "'i timer_sys \<Rightarrow> 'i \<Rightarrow> bool" where
  "slot_ok s i \<longleftrightarrow>
     ts_index s i < ts_pollcnt s \<and> ts_timers s ! ts_index s i = Some i \<and> 0 \<le> ts_fd s i \<and>
     ts_pollfd s ! ts_index s i \<in> {ts_fd s i, - 1}"

definition table_ok :: "'i timer_sys \<Rightarrow> bool" where
  "table_ok s \<longleftrightarrow>
     length (ts_timers s) = MAX_TIMERS \<and> length (ts_pollfd s) = MAX_TIMERS \<and> ts_pollcnt s \<le> MAX_TIMERS \<and>
     (\<forall>i. timer_live s i \<longrightarrow> slot_ok s i) \<and>
     (\<forall>i j. timer_live s i \<longrightarrow> timer_live s j \<longrightarrow> ts_fd s i = ts_fd s j \<longrightarrow> i = j)"

lemma live_simps [simp]:
  "t_callback (ksz_init_timer t x r)" "\<not> t_callback (ksz_exit_timer t)"
  "t_callback (ksz_start_timer t x) = t_callback t" "t_callback (ksz_stop_timer t) = t_callback t"
  by (simp_all add: ksz_init_timer_def ksz_exit_timer_def ksz_start_timer_def ksz_stop_timer_def
      timerfd_settime_def Let_def)

lemma table_ok_init: "table_ok (init_timer_sys info fd index)"
  by (simp add: table_ok_def init_timer_sys_def)

lemma table_okD:
  assumes "table_ok s"
  shows "length (ts_timers s) = MAX_TIMERS" "length (ts_pollfd s) = MAX_TIMERS" "ts_pollcnt s \<le> MAX_TIMERS"
    "timer_live s i \<Longrightarrow> slot_ok s i"
    "timer_live s i \<Longrightarrow> timer_live s j \<Longrightarrow> ts_fd s i = ts_fd s j \<Longrightarrow> i = j"
    "timer_live s i \<Longrightarrow> timer_live s j \<Longrightarrow> ts_index s i = ts_index s j \<Longrightarrow> i = j"
proof -
  have slot: "timer_live s i \<longrightarrow> slot_ok s i" for i using assms by (simp add: table_ok_def)
  then show "timer_live s i \<Longrightarrow> slot_ok s i" by simp
  show "timer_live s i \<Longrightarrow> timer_live s j \<Longrightarrow> ts_index s i = ts_index s j \<Longrightarrow> i = j"
    using slot [of i] slot [of j] by (simp add: slot_ok_def)
qed (use assms in \<open>auto simp: table_ok_def\<close>)

lemma table_okI:
  assumes "table_ok s" "length (ts_timers s') = MAX_TIMERS" "length (ts_pollfd s') = MAX_TIMERS"
    and "ts_pollcnt s' \<le> MAX_TIMERS" "\<And>i. timer_live s' i \<Longrightarrow> slot_ok s' i"
    and "\<And>i j. timer_live s' i \<Longrightarrow> timer_live s' j \<Longrightarrow> ts_fd s' i = ts_fd s' j \<Longrightarrow> i = j"
  shows "table_ok s'"
  using assms by (auto simp: table_ok_def)

text \<open>Changing the poll entry of a timer to its descriptor or to none.\<close>

lemma ok_poll:
  assumes ok: "table_ok s" and i: "timer_live s i" "fd \<in> {ts_fd s i, - 1}"
    and s': "ts_pollfd s' = (ts_pollfd s)[ts_index s i := fd]" "ts_timers s' = ts_timers s" "ts_pollcnt s' = ts_pollcnt s"
      "ts_fd s' = ts_fd s" "ts_index s' = ts_index s" "\<And>j. timer_live s' j = timer_live s j"
  shows "table_ok s'"
proof (rule table_okI [OF ok])
  fix j assume j: "timer_live s' j"
  have sj: "slot_ok s j" using table_okD(4) [OF ok] j s'(6) by simp
  show "slot_ok s' j"
  proof (cases "j = i")
    case True
    then show ?thesis using sj i(2) s' table_okD(2,3) [OF ok] by (auto simp: slot_ok_def)
  next
    case False
    then have "ts_index s j \<noteq> ts_index s i" using table_okD(6) [OF ok] i(1) j s'(6) by auto
    then show ?thesis using sj s' by (simp add: slot_ok_def)
  qed
qed (use s' table_okD [OF ok] in auto)

lemma ok_start: "table_ok s \<Longrightarrow> timer_live s i \<Longrightarrow> table_start i x s = Some s' \<Longrightarrow> table_ok s'"
  by (rule ok_poll [of s i "ts_fd s i"])
    (auto simp: table_start_def set_poll_def set_info_def split: if_splits)

lemma ok_stop: "table_ok s \<Longrightarrow> timer_live s i \<or> t_max (ts_info s i) = 0 \<Longrightarrow> table_stop i s = Some s' \<Longrightarrow> table_ok s'"
  by (cases "t_max (ts_info s i) = 0", simp add: table_stop_def)
    (rule ok_poll [of s i "- 1"]; auto simp: table_stop_def set_poll_def set_info_def split: if_splits)

lemma ok_exit:
  assumes ok: "table_ok s"
  shows "table_ok (table_exit i s)"
proof (cases "timer_live s i")
  case True
  show ?thesis
  proof (rule table_okI [OF ok])
    fix j assume "timer_live (table_exit i s) j"
    then have "j \<noteq> i" "timer_live s j" using True by (auto simp: table_exit_def set_info_def split: if_splits)
    then show "slot_ok (table_exit i s) j"
      using table_okD(4) [OF ok, of j] True by (simp add: slot_ok_def table_exit_def set_info_def)
  qed (use True table_okD [OF ok] in \<open>auto simp: table_exit_def set_info_def split: if_splits\<close>)
qed (simp add: table_exit_def ok)

lemma table_init_new:
  assumes "\<not> timer_live s i" "table_init i x r fd s = Some s'"
  shows "ts_timers s' = (ts_timers s)[ts_pollcnt s := Some i]" "ts_pollfd s' = (ts_pollfd s)[ts_pollcnt s := fd]"
    "ts_pollcnt s' = Suc (ts_pollcnt s)" "ts_fd s' = (ts_fd s)(i := fd)" "ts_index s' = (ts_index s)(i := ts_pollcnt s)"
    "timer_live s' j = (j = i \<or> timer_live s j)" "ts_pollcnt s < length (ts_timers s)"
  using assms by (auto simp: table_init_def Let_def set_info_def set_poll_def split: if_splits)

lemma ok_init:
  assumes ok: "table_ok s" and "0 \<le> fd" and fresh: "\<forall>j. timer_live s j \<longrightarrow> ts_fd s j \<noteq> fd"
    and t: "table_init i x r fd s = Some s'"
  shows "table_ok s'"
proof (cases "timer_live s i")
  case True
  then have s': "s' = set_info i (\<lambda>t. ksz_init_timer t x r) s" using t by (simp add: table_init_def Let_def)
  then have l: "timer_live s' j = timer_live s j" for j using True by (simp add: set_info_def)
  have "slot_ok s' j = slot_ok s j" "ts_fd s' = ts_fd s" for j by (simp_all add: s' set_info_def slot_ok_def)
  with l show ?thesis
    using ok s' by (intro table_okI [OF ok]) (auto simp: table_okD set_info_def)
next
  case False
  note n = table_init_new [OF False t]
  show ?thesis
  proof (rule table_okI [OF ok])
    fix j assume "timer_live s' j"
    then consider "j = i" | "j \<noteq> i" "timer_live s j" using n(6) by blast
    then show "slot_ok s' j"
    proof cases
      case 1
      then show ?thesis using n table_okD(1,2) [OF ok] \<open>0 \<le> fd\<close> by (simp add: slot_ok_def)
    next
      case 2
      then show ?thesis using n table_okD(4) [OF ok, of j] by (auto simp: slot_ok_def)
    qed
  next
    fix j k assume "timer_live s' j" "timer_live s' k" "ts_fd s' j = ts_fd s' k"
    then show "j = k" using n(4,6) fresh table_okD(5) [OF ok] by (auto split: if_splits)
  qed (use n table_okD [OF ok] in auto)
qed

text \<open>Cleaning up leaves the timers that are set up alone.\<close>

lemma ok_clean_slot:
  assumes ok: "table_ok s" and k: "k < MAX_TIMERS"
  shows "table_ok (clean_slot k s) \<and> ts_info (clean_slot k s) = ts_info s \<and> ts_fd (clean_slot k s) = ts_fd s \<and>
    ts_index (clean_slot k s) = ts_index s \<and> ts_pollfd (clean_slot k s) = ts_pollfd s"
proof (cases "\<exists>i. ts_timers s ! k = Some i \<and> ts_fd s i = - 1")
  case True
  then obtain i where i: "ts_timers s ! k = Some i" "ts_fd s i = - 1" by blast
  define s' where "s' = clean_slot k s"
  have c: "ts_timers s' = (ts_timers s)[k := None]" "ts_pollcnt s' = (if ts_pollcnt s = Suc k then k else ts_pollcnt s)"
      "ts_info s' = ts_info s" "ts_fd s' = ts_fd s" "ts_index s' = ts_index s" "ts_pollfd s' = ts_pollfd s"
    using i by (simp_all add: s'_def clean_slot_def)
  have "table_ok s'"
  proof (rule table_okI [OF ok])
    fix j assume "timer_live s' j"
    then have j: "slot_ok s j" using table_okD(4) [OF ok] c(3) by simp
    then have "ts_index s j \<noteq> k" using i by (auto simp: slot_ok_def)
    then show "slot_ok s' j" using j c by (auto simp: slot_ok_def)
  qed (use c table_okD [OF ok] in auto)
  then show ?thesis using c by (simp add: s'_def)
next
  case False
  then have "clean_slot k s = s" by (auto simp: clean_slot_def split: option.split)
  then show ?thesis using ok by simp
qed

lemma ok_cleanup_from:
  "table_ok s \<Longrightarrow> k \<le> MAX_TIMERS \<Longrightarrow>
   table_ok (cleanup_from k s) \<and> ts_info (cleanup_from k s) = ts_info s \<and> ts_fd (cleanup_from k s) = ts_fd s \<and>
   ts_index (cleanup_from k s) = ts_index s \<and> ts_pollfd (cleanup_from k s) = ts_pollfd s"
proof (induction k arbitrary: s)
  case (Suc k)
  then show ?case using ok_clean_slot [OF Suc.prems(1), of k] Suc.IH [of "clean_slot k s"] by simp
qed simp

lemma ok_cleanup: "table_ok s \<Longrightarrow> table_ok (ksz_cleanup_timers s) \<and> ts_info (ksz_cleanup_timers s) = ts_info s"
  using ok_cleanup_from [of s "ts_pollcnt s"] table_okD(3) [of s] by (simp add: ksz_cleanup_timers_def)

lemma ok_step: "timer_step s s' \<Longrightarrow> table_ok s \<Longrightarrow> table_ok s'"
  by (erule timer_step.cases) (auto intro: ok_init ok_exit ok_start ok_stop simp: ok_cleanup)


subsection \<open>Delivery of expiries\<close>

text \<open>A timer is found by its descriptor as long as no entry before it is empty.\<close>

definition no_holes :: "'i timer_sys \<Rightarrow> bool" where
  "no_holes s \<longleftrightarrow> (\<forall>k < ts_pollcnt s. \<exists>i. ts_timers s ! k = Some i \<and> timer_live s i \<and> ts_index s i = k)"

lemma get_index_miss:
  "\<forall>k \<in> set ks. \<exists>i. ts_timers s ! k = Some i \<and> ts_fd s i \<noteq> fd \<Longrightarrow> get_index_from s fd ks = Some None"
  by (induction ks) auto

lemma get_index_append:
  "get_index_from s fd ks = Some None \<Longrightarrow> get_index_from s fd (ks @ ls) = get_index_from s fd ls"
  by (induction ks) (auto split: option.splits if_splits)

lemma timer_found:
  assumes ok: "table_ok s" and h: "no_holes s" and i: "timer_live s i"
  shows "pcTimerGetName (ts_fd s i) s = Some (Some i)"
proof -
  let ?k = "ts_index s i"
  have k: "?k < ts_pollcnt s" "ts_timers s ! ?k = Some i" "0 \<le> ts_fd s i"
    using table_okD(4) [OF ok i] by (auto simp: slot_ok_def)
  have "get_index_from s (ts_fd s i) [0..<?k] = Some None"
  proof (rule get_index_miss, rule ballI)
    fix k assume k': "k \<in> set [0..<?k]"
    then have "k < ts_pollcnt s" using k(1) by simp
    then obtain j where j: "ts_timers s ! k = Some j" "timer_live s j" "ts_index s j = k"
      using h unfolding no_holes_def by blast
    then have "j \<noteq> i" using k' by auto
    then show "\<exists>j. ts_timers s ! k = Some j \<and> ts_fd s j \<noteq> ts_fd s i"
      using j table_okD(5) [OF ok j(2) i] by auto
  qed
  moreover have "[0..<ts_pollcnt s] = [0..<?k] @ ?k # [Suc ?k..<ts_pollcnt s]"
  proof -
    obtain d where "ts_pollcnt s = ?k + Suc d" using k(1) less_imp_Suc_add by fastforce
    then show ?thesis using upt_add_eq_append [of 0 ?k "Suc d"] by (simp add: upt_conv_Cons del: upt_Suc)
  qed
  ultimately show ?thesis
    using k by (simp add: pcTimerGetName_def TimerGetIndex_def get_index_append)
qed

text \<open>The places that \<open>poll\<close> reports ready.\<close>

definition poll_ready :: "(nat \<Rightarrow> bool \<times> bool) \<Rightarrow> nat \<Rightarrow> bool" where
  "poll_ready revents k \<longleftrightarrow> \<not> fst (revents k) \<and> snd (revents k)"

lemma timer_calls_filled:
  "\<forall>k \<in> set ks. \<exists>i. ts_timers s ! k = Some i \<and> timer_live s i \<Longrightarrow>
   timer_calls revents s ks = Some (map (\<lambda>k. the (ts_timers s ! k)) (filter (poll_ready revents) ks))"
  by (induction ks) (auto simp: poll_ready_def)

text \<open>The table fills from the front, and cleaning up takes away what was exited at its end.\<close>

lemma cleanup_tail:
  assumes "n \<le> m" "m = ts_pollcnt s" "m \<le> length (ts_timers s)"
    and "\<forall>k. n \<le> k \<and> k < m \<longrightarrow> (\<exists>i. ts_timers s ! k = Some i \<and> ts_fd s i = - 1)"
    and "\<forall>k < n. \<exists>i. ts_timers s ! k = Some i \<and> ts_fd s i \<noteq> - 1"
  shows "ts_pollcnt (cleanup_from m s) = n \<and> (\<forall>k < n. ts_timers (cleanup_from m s) ! k = ts_timers s ! k)"
  using assms
proof (induction m arbitrary: s)
  case (Suc m)
  note slots = Suc.prems(5)
  show ?case
  proof (cases "n = Suc m")
    case True
    have keep: "cleanup_from k s = s" if "k \<le> n" for k
      using that
    proof (induction k)
      case (Suc k)
      have "k < n" using Suc.prems by simp
      then obtain i where "ts_timers s ! k = Some i" "ts_fd s i \<noteq> - 1" using slots by blast
      then have "clean_slot k s = s" by (simp add: clean_slot_def)
      then show ?case using Suc by simp
    qed simp
    show ?thesis using keep [of "Suc m"] True Suc.prems(2) by simp
  next
    case False
    then have "n \<le> m \<and> m < Suc m" using Suc.prems(1) by simp
    then obtain i where i: "ts_timers s ! m = Some i" "ts_fd s i = - 1" using Suc.prems(4) by blast
    define s' where "s' = clean_slot m s"
    have c: "ts_pollcnt s' = m" "ts_timers s' = (ts_timers s)[m := None]" "ts_fd s' = ts_fd s"
      using i Suc.prems(2) by (simp_all add: s'_def clean_slot_def)
    have "ts_pollcnt (cleanup_from m s') = n \<and> (\<forall>k < n. ts_timers (cleanup_from m s') ! k = ts_timers s' ! k)"
      using Suc.prems False c by (intro Suc.IH) auto
    then show ?thesis using False Suc.prems(1) c by (simp add: s'_def)
  qed
qed auto


lemma exit_all:
  "ts_timers (fold table_exit js s) = ts_timers s \<and> ts_pollcnt (fold table_exit js s) = ts_pollcnt s \<and>
   ts_index (fold table_exit js s) = ts_index s \<and>
   (\<forall>j. timer_live (fold table_exit js s) j = (timer_live s j \<and> j \<notin> set js)) \<and>
   (\<forall>j. ts_fd (fold table_exit js s) j = (if timer_live s j \<and> j \<in> set js then - 1 else ts_fd s j))"
proof (induction js arbitrary: s)
  case (Cons i js)
  have "ts_timers (table_exit i s) = ts_timers s" "ts_pollcnt (table_exit i s) = ts_pollcnt s"
    "ts_index (table_exit i s) = ts_index s" "timer_live (table_exit i s) j = (timer_live s j \<and> j \<noteq> i)"
    "ts_fd (table_exit i s) j = (if timer_live s j \<and> j = i then - 1 else ts_fd s j)" for j
    by (auto simp: table_exit_def set_info_def)
  then show ?case using Cons [of "table_exit i s"] by auto
qed simp

definition exit_from :: "nat \<Rightarrow> 'i timer_sys \<Rightarrow> 'i timer_sys" where
  "exit_from n s = fold table_exit (map (\<lambda>k. the (ts_timers s ! k)) [n..<ts_pollcnt s]) s"

lemma restart_ready:
  assumes ok: "table_ok s" and h: "no_holes s" and n: "n \<le> ts_pollcnt s"
  shows "no_holes (ksz_cleanup_timers (exit_from n s)) \<and> ts_pollcnt (ksz_cleanup_timers (exit_from n s)) = n"
proof -
  define s' where "s' = exit_from n s"
  let ?is = "map (\<lambda>k. the (ts_timers s ! k)) [n..<ts_pollcnt s]"
  have e: "ts_timers s' = ts_timers s" "ts_pollcnt s' = ts_pollcnt s" "ts_index s' = ts_index s"
      "timer_live s' j = (timer_live s j \<and> j \<notin> set ?is)" "ts_fd s' j = (if timer_live s j \<and> j \<in> set ?is then - 1 else ts_fd s j)" for j
    using exit_all [of ?is s] by (simp_all add: s'_def exit_from_def)
  have slot: "\<exists>i. ts_timers s ! k = Some i \<and> timer_live s i \<and> ts_index s i = k \<and> (i \<in> set ?is \<longleftrightarrow> n \<le> k)"
    if k: "k < ts_pollcnt s" for k
  proof -
    obtain i where i: "ts_timers s ! k = Some i" "timer_live s i" "ts_index s i = k" using h k by (auto simp: no_holes_def)
    have "n \<le> k" if "i \<in> set ?is"
    proof -
      obtain l where l: "n \<le> l" "l < ts_pollcnt s" "i = the (ts_timers s ! l)" using \<open>i \<in> set ?is\<close> by auto
      then show ?thesis using h i(3) unfolding no_holes_def by force
    qed
    moreover have "i \<in> set ?is" if "n \<le> k" using that k i(1) by (force simp: image_iff)
    ultimately show ?thesis using i by blast
  qed
  have pos: "timer_live s i \<Longrightarrow> ts_fd s i \<noteq> - 1" for i using table_okD(4) [OF ok] by (force simp: slot_ok_def)
  have dead: "\<forall>k. n \<le> k \<and> k < ts_pollcnt s \<longrightarrow> (\<exists>i. ts_timers s' ! k = Some i \<and> ts_fd s' i = - 1)"
  proof (intro allI impI)
    fix k assume "n \<le> k \<and> k < ts_pollcnt s"
    then show "\<exists>i. ts_timers s' ! k = Some i \<and> ts_fd s' i = - 1" using slot [of k] e(1,5) by auto
  qed
  have kept: "\<forall>k < n. \<exists>i. ts_timers s ! k = Some i \<and> timer_live s' i \<and> ts_index s i = k \<and> ts_fd s' i \<noteq> - 1"
  proof (intro allI impI)
    fix k assume "k < n"
    then show "\<exists>i. ts_timers s ! k = Some i \<and> timer_live s' i \<and> ts_index s i = k \<and> ts_fd s' i \<noteq> - 1"
      using slot [of k] n e(4,5) pos by auto
  qed
  have c: "ts_pollcnt (ksz_cleanup_timers s') = n" "\<And>k. k < n \<Longrightarrow> ts_timers (ksz_cleanup_timers s') ! k = ts_timers s ! k"
    using cleanup_tail [of n "ts_pollcnt s" s', OF n _ _ dead] e(1,2) table_okD(1,3) [OF ok] kept
    by (auto simp: ksz_cleanup_timers_def)
  have ok': "table_ok s'" unfolding s'_def exit_from_def by (rule fold_invariant [where Q = "\<lambda>_. True"]) (auto simp: ok ok_exit)
  have "ts_info (ksz_cleanup_timers s') = ts_info s'" "ts_index (ksz_cleanup_timers s') = ts_index s"
    using ok_cleanup_from [OF ok', of "ts_pollcnt s'"] table_okD(3) [OF ok'] e(3) by (simp_all add: ksz_cleanup_timers_def)
  then have "no_holes (ksz_cleanup_timers s')"
    unfolding no_holes_def c(1) using c(2) kept by fastforce
  then show ?thesis using c(1) by (simp add: s'_def)
qed


lemma ok_reachable: "timer_step\<^sup>*\<^sup>* (init_timer_sys info fd index) s \<Longrightarrow> table_ok s"
  by (induction rule: rtranclp_induct) (auto simp: table_ok_init intro: ok_step)

text \<open>
  C20. The table of timers serves its timers: in every state reached by setting up, starting,
  stopping, exiting and cleaning up, if no entry is empty, every timer that is set up is found by
  its descriptor, a pass of the timer task returns and calls exactly the timers whose entries
  \<open>poll\<close> reports ready, in their order, and exiting the timers from the \<open>n\<close>-th on and cleaning
  up gives their entries back and leaves no empty one, so that a restart needs no more room.
\<close>

theorem timer_table_serves:
  assumes r: "timer_step\<^sup>*\<^sup>* (init_timer_sys info fd index) s" and h: "no_holes s" and n: "n \<le> ts_pollcnt s"
  shows "(timer_live s i \<longrightarrow> pcTimerGetName (ts_fd s i) s = Some (Some i)) \<and>
    TimerTask_pass revents s =
      Some (map (\<lambda>k. the (ts_timers s ! k)) (filter (poll_ready revents) [0..<ts_pollcnt s])) \<and>
    no_holes (ksz_cleanup_timers (exit_from n s)) \<and> ts_pollcnt (ksz_cleanup_timers (exit_from n s)) = n"
proof -
  have ok: "table_ok s" using r by (rule ok_reachable)
  have "\<forall>k \<in> set [0..<ts_pollcnt s]. \<exists>i. ts_timers s ! k = Some i \<and> timer_live s i"
    using h by (auto simp: no_holes_def)
  then have "TimerTask_pass revents s =
      Some (map (\<lambda>k. the (ts_timers s ! k)) (filter (poll_ready revents) [0..<ts_pollcnt s]))"
    unfolding TimerTask_pass_def by (rule timer_calls_filled)
  then show ?thesis using timer_found [OF ok h] restart_ready [OF ok h n] by blast
qed

definition idle_timer :: ksz_timer_info where
  "idle_timer = \<lparr>t_callback = False, t_repeat = False, t_max = 0, t_period = 0, t_armed = None, t_poll = False\<rparr>"

definition fresh_sys :: "nat timer_sys" where
  "fresh_sys = init_timer_sys (\<lambda>_. idle_timer) (\<lambda>_. 0) (\<lambda>_. 0)"

definition two_timers :: "nat timer_sys" where
  "two_timers = the (Option.bind (table_init 7 10 True 3 fresh_sys) (table_init 8 20 False 4))"

lemma two_timers_facts:
  "Option.bind (table_init 7 10 True 3 fresh_sys) (table_init 8 20 False 4) = Some two_timers"
  "ts_pollcnt two_timers = 2" "ts_timers two_timers ! 0 = Some 7" "ts_timers two_timers ! 1 = Some 8"
  "ts_fd two_timers 8 = 4" "timer_live two_timers 7" "timer_live two_timers 8"
  "ts_index two_timers 7 = 0" "ts_index two_timers 8 = 1"
  by (simp_all add: two_timers_def fresh_sys_def init_timer_sys_def idle_timer_def table_init_def set_info_def
      set_poll_def Let_def ksz_init_timer_def)

theorem timer_table_serves_witness:
  "pcTimerGetName 4 two_timers = Some (Some 8) \<and>
   TimerTask_pass (\<lambda>k. (False, k = 1)) two_timers = Some [8] \<and>
   ts_pollcnt (ksz_cleanup_timers (exit_from 1 two_timers)) = 1"
proof -
  obtain s where s: "table_init 7 10 True 3 fresh_sys = Some s" "table_init 8 20 False 4 s = Some two_timers"
    using two_timers_facts(1) by (auto split: Option.bind_splits)
  have l: "\<not> timer_live fresh_sys j" for j by (simp add: fresh_sys_def init_timer_sys_def)
  have "\<forall>j. timer_live s j \<longrightarrow> ts_fd s j \<noteq> 4"
    using table_init_new(4,6) [OF l s(1)] l by auto
  then have "timer_step s two_timers" using tstep_init [OF _ _ s(2)] by simp
  moreover have "timer_step fresh_sys s" using tstep_init [OF _ _ s(1)] l by simp
  ultimately have "timer_step\<^sup>*\<^sup>* fresh_sys two_timers" by (meson converse_rtranclp_into_rtranclp r_into_rtranclp)
  moreover have "no_holes two_timers"
    using two_timers_facts by (auto simp: no_holes_def less_2_cases_iff)
  ultimately show ?thesis
    using timer_table_serves [of "\<lambda>_. idle_timer" "\<lambda>_. 0" "\<lambda>_. 0" two_timers 1 8 "\<lambda>k. (False, k = 1)"] two_timers_facts
    by (simp add: fresh_sys_def poll_ready_def upt_rec numeral_2_eq_2)
qed

text \<open>An entry that was emptied in the middle keeps its descriptor, and a ready one stops the task.\<close>

lemma hole_stops_task:
  assumes "ts_timers s ! k = None" "k < ts_pollcnt s" "poll_ready revents k" "\<forall>l < k. \<not> poll_ready revents l"
  shows "TimerTask_pass revents s = None"
proof -
  have skip: "\<forall>l \<in> set ls. \<not> poll_ready revents l \<Longrightarrow> timer_calls revents s (ls @ k # ks) = None" for ls ks
    using assms(1,3) by (induction ls) (auto simp: poll_ready_def)
  obtain d where d: "ts_pollcnt s = k + Suc d" using assms(2) less_imp_Suc_add by fastforce
  have "[0..<ts_pollcnt s] = [0..<k] @ k # [Suc k..<ts_pollcnt s]"
    using upt_add_eq_append [of 0 k "Suc d"] d by (simp add: upt_conv_Cons del: upt_Suc)
  then show ?thesis using skip [of "[0..<k]"] assms(4) by (simp add: TimerTask_pass_def)
qed

lemma cleanup_leaves_descriptor:
  assumes "table_ok s"
  shows "ts_pollfd (ksz_cleanup_timers s) = ts_pollfd s"
  using ok_cleanup_from [OF assms, of "ts_pollcnt s"] table_okD(3) [OF assms] by (simp add: ksz_cleanup_timers_def)

end
