(* ===== verification/Command.thy ===== *)
theory Command
  imports Config_props
begin

text \<open>
  The command line, \<open>get_ptp_cmd\<close> of \<^verbatim>\<open>ptp_sock.c\<close>: a line is read twice with
  \<open>sscanf\<close>, as a word and up to four decimal and up to four hexadecimal numbers, and the
  word selects what is done with the saved configuration.  What a command prints, and the calls
  into other parts (starting and stopping the clocks, sending a status packet, the power of a
  port), are the list \<open>cs_acts\<close>.  A word of 40 characters or more does not fit the array
  \<open>p1\<close>: the result is \<open>None\<close>.
\<close>

datatype cmd_action =
    Start_clock
  | Stop_clock
  | Show "int list"
  | Show_unset
  | Test_aed u8 u8
  | Set_port_power int int
  | Need_index
  | Need_port
  | Help

record cmd_state =
  cs_store :: config_store
  cs_dbg :: bool
  cs_log :: bool
  cs_autotest :: bool
  cs_index :: u8
  cs_acts :: "cmd_action list"

record command =
  cm_name :: string
  cm_count :: int
  cm_hcount :: int
  cm_v1 :: int
  cm_v2 :: int
  cm_v3 :: int
  cm_v4 :: int

subsection \<open>Reading a line\<close>

text \<open>\<open>%d\<close> and \<open>%x\<close> with the rest of the text.\<close>

definition scan_num :: "nat \<Rightarrow> string \<Rightarrow> (int \<times> string) option" where
  "scan_num base s =
     (let s = skip_space s;
          neg = (take 1 s = ''-'');
          s = (if take 1 s = ''-'' \<or> take 1 s = ''+'' then drop 1 s else s);
          s = (if base = 16 \<and> (take 2 s = ''0x'' \<or> take 2 s = ''0X'') then drop 2 s else s);
          ds = takeWhile (\<lambda>c. digit_val c < base) s;
          v = int (digits_val base ds)
      in if ds = [] then None else Some (if neg then - v else v, dropWhile (\<lambda>c. digit_val c < base) s))"

fun scan_nums :: "nat \<Rightarrow> (int \<Rightarrow> int) \<Rightarrow> nat \<Rightarrow> string \<Rightarrow> int list" where
  "scan_nums base fit 0 s = []"
| "scan_nums base fit (Suc n) s =
     (case scan_num base s of None \<Rightarrow> [] | Some (v, r) \<Rightarrow> fit v # scan_nums base fit n r)"

definition arg_at :: "nat \<Rightarrow> int list \<Rightarrow> int" where
  "arg_at i vs = (if i < length vs then vs ! i else 0)"

text \<open>\<open>if (!v1 && h1) v1 = h1\<close>\<close>

definition pick_arg :: "nat \<Rightarrow> int list \<Rightarrow> int list \<Rightarrow> int" where
  "pick_arg i ds hs = (if arg_at i ds = 0 \<and> arg_at i hs \<noteq> 0 then arg_at i hs else arg_at i ds)"

definition parse_cmd :: "(int \<Rightarrow> int) \<Rightarrow> string \<Rightarrow> command" where
  "parse_cmd big line =
     (case scan_word line of
        None \<Rightarrow> \<lparr>cm_name = [], cm_count = - 1, cm_hcount = - 1, cm_v1 = 0, cm_v2 = 0, cm_v3 = 0, cm_v4 = 0\<rparr>
      | Some (w, r) \<Rightarrow>
          (let ds = scan_nums 10 (fit_int big) 4 r; hs = scan_nums 16 (fit_uint big) 4 r
           in \<lparr>cm_name = w, cm_count = 1 + int (length ds), cm_hcount = 1 + int (length hs),
               cm_v1 = pick_arg 0 ds hs, cm_v2 = pick_arg 1 ds hs, cm_v3 = pick_arg 2 ds hs,
               cm_v4 = pick_arg 3 ds hs\<rparr>))"

subsection \<open>Carrying it out\<close>

definition act :: "cmd_action \<Rightarrow> cmd_state \<Rightarrow> cmd_state" where
  "act a s = s\<lparr>cs_acts := cs_acts s @ [a]\<rparr>"

text \<open>A value of the saved configuration is shown, or it is written; errors leave it alone.\<close>

definition show_value :: "'v option \<Rightarrow> ('v \<Rightarrow> int list) \<Rightarrow> cmd_state \<Rightarrow> cmd_state" where
  "show_value v f s = act (case v of None \<Rightarrow> Show_unset | Some v \<Rightarrow> Show (f v)) s"

definition write_value :: "config_store option \<Rightarrow> cmd_state \<Rightarrow> cmd_state" where
  "write_value t s = (case t of None \<Rightarrow> s | Some t \<Rightarrow> s\<lparr>cs_store := t\<rparr>)"

text \<open>
  Read the value \<open>get\<close>; with a further argument change it by \<open>f\<close> and write it back with
  \<open>put\<close>, else show it.  A value that could not be read is whatever the variables held
  (\<open>junk\<close>).
\<close>

definition get_or_set ::
  "bool \<Rightarrow> 'v \<Rightarrow> (u8 \<Rightarrow> config_store \<Rightarrow> 'v option) \<Rightarrow> (u8 \<Rightarrow> 'v \<Rightarrow> config_store \<Rightarrow> config_store option)
    \<Rightarrow> ('v \<Rightarrow> 'v) \<Rightarrow> ('v \<Rightarrow> int list) \<Rightarrow> int \<Rightarrow> cmd_state \<Rightarrow> cmd_state" where
  "get_or_set more_args junk get put f view index s =
     (let i = of_int index; v = get i (cs_store s)
      in if more_args then write_value (put i (f (case v of None \<Rightarrow> junk | Some v \<Rightarrow> v)) (cs_store s)) s
         else show_value v view s)"

definition show_only :: "bool \<Rightarrow> 'v option \<Rightarrow> ('v \<Rightarrow> int list) \<Rightarrow> cmd_state \<Rightarrow> cmd_state" where
  "show_only more_args v view s = (if more_args then s else show_value v view s)"

definition cmd_general :: "command \<Rightarrow> cmd_state \<Rightarrow> cmd_state" where
  "cmd_general c s =
     (let n = cm_name c; set_arg = cm_count c \<ge> 2; v1 = cm_v1 c; v2 = cm_v2 c; v3 = cm_v3 c
      in if n = ''c'' then act (if v1 = 1 then Start_clock else Stop_clock) s
         else if n = ''dbg'' then (if set_arg then s\<lparr>cs_dbg := (v1 \<noteq> 0)\<rparr> else act (Show [of_bool (cs_dbg s)]) s)
         else if n = ''log'' then (if set_arg then s\<lparr>cs_log := (v1 \<noteq> 0)\<rparr> else act (Show [of_bool (cs_log s)]) s)
         else if n = ''autotest''
         then (if set_arg
               then (if gptp_profile_get_profile 1 (cs_store s) = Some 2 then s\<lparr>cs_autotest := (v1 \<noteq> 0)\<rparr> else s)
               else act (Show [of_bool (cs_autotest s)]) s)
         else if n = ''power'' then (if set_arg then act (if v1 = 0 then Stop_clock else Start_clock) s else s)
         else if n = ''avb'' then act (Test_aed (of_int v1) (of_int v2)) s
         else if n = ''faults'' then show_only set_arg (Some (fst (gptp_get_allowed (cs_store s)))) (\<lambda>v. [uint v]) s
         else if n = ''missed'' then show_only set_arg (Some (snd (gptp_get_allowed (cs_store s)))) (\<lambda>v. [uint v]) s
         else if n = ''follow_up'' then show_only set_arg (Some (gptp_get_follow_up_timeout (cs_store s))) (\<lambda>v. [uint v]) s
         else if n = ''wait''
         then (let (a, b, e) = gptp_get_initial_wait (cs_store s)
               in if set_arg
                  then s\<lparr>cs_store := gptp_set_initial_wait (of_int v1) (if cm_count c \<ge> 3 then of_int v2 else b)
                         (if cm_count c \<ge> 4 then of_int v3 else e) (cs_store s)\<rparr>
                  else act (Show [uint a, uint b, uint e]) s)
         else s)"

definition cmd_index :: "command \<Rightarrow> cmd_state \<Rightarrow> cmd_state" where
  "cmd_index c s =
     (if cm_name c = ''index''
      then (if cm_count c \<ge> 2 \<and> 1 \<le> cm_v1 c \<and> cm_v1 c \<le> 3
            then act Start_clock (act Stop_clock (s\<lparr>cs_index := of_int (cm_v1 c)\<rparr>))
            else act (Show [uint (cs_index s)]) s)
      else s)"

definition indexed_commands :: "string list" where
  "indexed_commands =
     [''profile'', ''transport'', ''sdoid'', ''e2e'', ''p2p'', ''gm_capable'', ''two_step'', ''cmlds'', ''clk'',
      ''prio'', ''domain'', ''ports'', ''pdelay'', ''announce'', ''sync'', ''oper'', ''thresh'']"

definition port_commands :: "string list" where
  "port_commands = [''latency'', ''master'', ''use_delay'']"

definition needs_index :: "command \<Rightarrow> bool" where
  "needs_index c \<longleftrightarrow> cm_name c \<in> set indexed_commands \<and> (cm_count c < 2 \<or> cm_v1 c < 1 \<or> cm_v1 c > 3)"

definition needs_port :: "command \<Rightarrow> bool" where
  "needs_port c \<longleftrightarrow> cm_name c \<in> set port_commands \<and> (cm_count c < 2 \<or> cm_v1 c < 1 \<or> cm_v1 c > 8)"

text \<open>The commands on a profile.\<close>

definition cmd_profile :: "command \<Rightarrow> cmd_state \<Rightarrow> cmd_state" where
  "cmd_profile c s =
     (let n = cm_name c; more_args = cm_count c \<ge> 3; v1 = cm_v1 c; v2 = cm_v2 c; v3 = cm_v3 c; v4 = cm_v4 c;
          i = of_int v1; st = cs_store s
      in if n = ''profile'' then show_only more_args (gptp_profile_get_profile i st) (\<lambda>v. [uint v]) s
         else if n = ''transport'' then show_only more_args (gptp_profile_get_transport i st) (\<lambda>v. [uint v]) s
         else if n = ''sdoid''
         then get_or_set more_args (0, 0) gptp_profile_get_sdoid gptp_profile_set_sdoid
                (\<lambda>(a, b). (of_int v2, if cm_count c \<ge> 4 then of_int v3 else b)) (\<lambda>(a, b). [uint a, uint b]) v1 s
         else if n = ''e2e'' then show_only more_args (gptp_profile_get_e2e_p2p i st) (\<lambda>(a, b). [of_bool a]) s
         else if n = ''p2p'' then show_only more_args (gptp_profile_get_e2e_p2p i st) (\<lambda>(a, b). [of_bool b]) s
         else if n = ''gm_capable'' then show_only more_args (gptp_profile_get_gm_capable i st) (\<lambda>a. [of_bool a]) s
         else if n = ''two_step'' then show_only more_args (gptp_profile_get_two_step i st) (\<lambda>a. [of_bool a]) s
         else if n = ''cmlds'' then show_only more_args (Some ()) (\<lambda>_. [0]) s
         else if n = ''clk''
         then get_or_set more_args (0, 0, 0) gptp_profile_get_clock_prop gptp_profile_set_clock_prop
                (\<lambda>(a, b, e). (of_int v2, if cm_count c \<ge> 4 then of_int v3 else b, if cm_count c \<ge> 5 then of_int v4 else e))
                (\<lambda>(a, b, e). [uint a, uint b, uint e]) v1 s
         else if n = ''prio''
         then get_or_set more_args (0, 0) gptp_profile_get_clock_prio gptp_profile_set_clock_prio
                (\<lambda>(a, b). (of_int v2, if cm_count c \<ge> 4 then of_int v3 else b)) (\<lambda>(a, b). [uint a, uint b]) v1 s
         else if n = ''domain''
         then get_or_set more_args (0, 0, 0) gptp_profile_get_domain gptp_profile_set_domain
                (\<lambda>(a, r). (of_int v2, r)) (\<lambda>(a, b, e). [uint a]) v1 s
         else if n = ''ports''
         then get_or_set (cm_hcount c \<ge> 3) (0, 0, 0) gptp_profile_get_domain gptp_profile_set_domain
                (\<lambda>(a, b, e). (a, of_int v2, e)) (\<lambda>(a, b, e). [uint b]) v1 s
         else s)"

text \<open>The commands on the profile of a port; they take the index 1 to 3.\<close>

definition cmd_port_profile :: "command \<Rightarrow> cmd_state \<Rightarrow> cmd_state" where
  "cmd_port_profile c s =
     (let n = cm_name c; more_args = cm_count c \<ge> 3; v1 = cm_v1 c; v2 = cm_v2 c; v3 = cm_v3 c
      in if n = ''pdelay''
         then get_or_set more_args 0 gptp_port_profile_get_delay gptp_port_profile_set_delay (\<lambda>_. s8 v2) (\<lambda>v. [v]) v1 s
         else if n = ''announce''
         then get_or_set more_args (0, 0) gptp_port_profile_get_announce gptp_port_profile_set_announce
                (\<lambda>(a, b). (s8 v2, if cm_count c \<ge> 4 then of_int v3 else b)) (\<lambda>(a, b). [a, uint b]) v1 s
         else if n = ''sync''
         then get_or_set more_args (0, 0) gptp_port_profile_get_sync gptp_port_profile_set_sync
                (\<lambda>(a, b). (s8 v2, if cm_count c \<ge> 4 then of_int v3 else b)) (\<lambda>(a, b). [a, uint b]) v1 s
         else if n = ''oper''
         then get_or_set more_args (0, 0) gptp_port_profile_get_oper gptp_port_profile_set_oper
                (\<lambda>(a, b). (s8 v2, if cm_count c \<ge> 4 then s8 v3 else b)) (\<lambda>(a, b). [a, b]) v1 s
         else if n = ''thresh''
         then get_or_set more_args 0 gptp_port_profile_get_delay_thresh gptp_port_profile_set_delay_thresh
                (\<lambda>_. of_int v2) (\<lambda>v. [uint v]) v1 s
         else s)"

text \<open>The commands on the settings of a port.\<close>

definition cmd_port :: "u16 \<Rightarrow> command \<Rightarrow> cmd_state \<Rightarrow> cmd_state" where
  "cmd_port junk c s =
     (let n = cm_name c; more_args = cm_count c \<ge> 3; v1 = cm_v1 c; v2 = cm_v2 c; v3 = cm_v3 c; v4 = cm_v4 c
      in if n = ''latency''
         then get_or_set more_args (0, 0, 0) gptp_port_get_latency gptp_port_set_latency
                (\<lambda>(a, b, e). (of_int v2, if cm_count c \<ge> 4 then of_int v3 else b, if cm_count c \<ge> 5 then s16 v4 else e))
                (\<lambda>(a, b, e). [uint a, uint b, e]) v1 s
         else if n = ''peer_delay''
         then get_or_set more_args junk gptp_port_get_peer_delay gptp_port_set_peer_delay (\<lambda>_. of_int v2) (\<lambda>v. [uint v]) v1 s
         else if n = ''master''
         then get_or_set more_args 0 gptp_port_get_master gptp_port_set_master (\<lambda>_. of_bool (v2 \<noteq> 0)) (\<lambda>v. [uint v]) v1 s
         else if n = ''use_delay''
         then get_or_set more_args 0 gptp_port_get_use_delay gptp_port_set_use_delay (\<lambda>_. of_bool (v2 \<noteq> 0)) (\<lambda>v. [uint v]) v1 s
         else s)"

text \<open>The arguments of \<open>slave\<close>: of those that are given only the first that is not zero counts.\<close>

definition slave_args :: "command \<Rightarrow> u16 \<times> int \<times> int \<times> int" where
  "slave_args c =
     (let v1 = cm_v1 c; v2 = cm_v2 c; v3 = cm_v3 c; one_slave = False; ports = (0 :: u16);
          (one_slave, ports) = (if cm_count c \<ge> 2 then (v1 \<noteq> 0, ports OR 1) else (one_slave, ports));
          (one_slave, v2, ports) =
            (if cm_count c \<ge> 3 then (if v2 \<noteq> 0 \<and> \<not> one_slave then (True, v2, ports OR 2) else (one_slave, 0, ports OR 2))
             else (one_slave, v2, ports));
          (one_slave, v3, ports) =
            (if cm_count c \<ge> 4 then (if v3 \<noteq> 0 \<and> \<not> one_slave then (True, v3, ports OR 4) else (one_slave, 0, ports OR 4))
             else (one_slave, v3, ports))
      in (ports, v1, v2, v3))"

definition put_masters :: "int \<Rightarrow> int \<Rightarrow> int \<Rightarrow> cmd_state \<Rightarrow> cmd_state" where
  "put_masters v1 v2 v3 s =
     (let s = write_value (gptp_port_set_master 1 (of_bool (v1 = 0)) (cs_store s)) s;
          s = write_value (gptp_port_set_master 2 (of_bool (v2 = 0)) (cs_store s)) s
      in write_value (gptp_port_set_master 3 (of_bool (v3 = 0)) (cs_store s)) s)"

definition cmd_slave :: "command \<Rightarrow> cmd_state \<Rightarrow> cmd_state" where
  "cmd_slave c s =
     (let (ports, v1, v2, v3) = slave_args c
      in if cm_name c = ''slave'' \<and> ports \<noteq> 0
         then put_masters v1 v2 v3
                (case gptp_profile_get_domain 1 (cs_store s) of
                   None \<Rightarrow> s
                 | Some (a, b, e) \<Rightarrow> write_value (gptp_profile_set_domain 1 (a, ports, e) (cs_store s)) s)
         else s)"

definition cmd_names :: "string list" where
  "cmd_names = indexed_commands @ port_commands @ [''peer_delay'', ''slave'', ''phy'']"

text \<open>The last part of the chain; \<open>False\<close> ends the loop.\<close>

definition cmd_rest :: "command \<Rightarrow> cmd_state \<Rightarrow> cmd_state \<times> bool" where
  "cmd_rest c s =
     (if cm_name c = ''phy''
      then (if cm_count c \<ge> 3 then act (Set_port_power (cm_v1 c) (cm_v2 c)) s else s, True)
      else if cm_name c \<in> set cmd_names then (s, True)
      else if take 1 (cm_name c) = ''h'' then (act Help s, True)
      else (s, take 1 (cm_name c) \<noteq> ''q''))"

definition run_cmd :: "u16 \<Rightarrow> command \<Rightarrow> cmd_state \<Rightarrow> cmd_state \<times> bool" where
  "run_cmd junk c s =
     (let s = cmd_index c (cmd_general c s)
      in if needs_index c then (act Need_index s, True)
         else if needs_port c then (act Need_port s, True)
         else cmd_rest c (cmd_slave c (cmd_port junk c (cmd_port_profile c (cmd_profile c s)))))"

text \<open>One pass of the loop over what \<open>fgets\<close> left in \<open>line\<close>.\<close>

definition cmd_line :: "(int \<Rightarrow> int) \<Rightarrow> u16 \<Rightarrow> string \<Rightarrow> cmd_state \<Rightarrow> (cmd_state \<times> bool) option" where
  "cmd_line big junk line s =
     (let line = c_string line; c = parse_cmd big line
      in if line = [] then Some (s, True)
         else if length (cm_name c) \<ge> 40 then None
         else Some (run_cmd junk c s))"

fun cmd_lines :: "(int \<Rightarrow> int) \<Rightarrow> u16 \<Rightarrow> string list \<Rightarrow> cmd_state \<Rightarrow> cmd_state option" where
  "cmd_lines big junk [] s = Some s"
| "cmd_lines big junk (l # ls) s =
     (case cmd_line big junk l s of
        None \<Rightarrow> None
      | Some (s, cont) \<Rightarrow> if cont then cmd_lines big junk ls s else Some s)"

definition get_ptp_cmd :: "(int \<Rightarrow> int) \<Rightarrow> u16 \<Rightarrow> string \<Rightarrow> cmd_state \<Rightarrow> cmd_state option" where
  "get_ptp_cmd big junk fp s = cmd_lines big junk (file_lines fp) s"

end
