(* ===== verification/Command_props.thy ===== *)
theory Command_props
  imports Command
begin

text \<open>
  The command line: a line of decimal numbers is understood as those numbers, the commands keep
  the tables of the configuration whole, a value that is set is the value shown afterwards, a
  command whose index is refused changes nothing, and \<open>slave\<close> leaves one slave at most.
\<close>

subsection \<open>Reading a line of numbers\<close>

definition command_line :: "string \<Rightarrow> int list \<Rightarrow> string" where
  "command_line name vs = name @ concat (map (\<lambda>v. CHR '' '' # show_int v) vs) @ [CHR 0x0A]"

lemma space_no_digit: "is_space d \<Longrightarrow> digit_val d = 16"
  by (auto simp: is_space_def digit_val_def Let_def)

lemma scan_num_digits:
  assumes "10 \<le> base" "base \<le> 16" "is_space d"
  shows "takeWhile (\<lambda>c. digit_val c < base) (show_nat n @ d # t) = show_nat n"
    and "dropWhile (\<lambda>c. digit_val c < base) (show_nat n @ d # t) = d # t"
proof -
  have "digit_val c < base" if "c \<in> set (show_nat n)" for c using show_nat_plain [OF that] assms(1) by simp
  then show "takeWhile (\<lambda>c. digit_val c < base) (show_nat n @ d # t) = show_nat n"
    and "dropWhile (\<lambda>c. digit_val c < base) (show_nat n @ d # t) = d # t"
    using space_no_digit [OF assms(3)] assms(2) by (simp_all add: takeWhile_append2 dropWhile_append2)
qed

lemma show_nat_no_x: "is_space d \<Longrightarrow> take 2 (show_nat n @ d # t) \<noteq> ''0x'' \<and> take 2 (show_nat n @ d # t) \<noteq> ''0X''"
proof -
  assume d: "is_space d"
  have X: "\<not> is_space (CHR ''x'')" "\<not> is_space (CHR ''X'')" "digit_val (CHR ''x'') = 16" "digit_val (CHR ''X'') = 16"
    by code_simp+
  obtain a r where n: "show_nat n = a # r" using show_nat_nonempty by (cases "show_nat n") auto
  show ?thesis
  proof (cases r)
    case Nil
    then show ?thesis using d X by (auto simp: n numeral_2_eq_2)
  next
    case (Cons b q)
    then have "digit_val b < 10" using show_nat_plain [of b n] by (simp add: n)
    then show ?thesis using X by (auto simp: n Cons numeral_2_eq_2)
  qed
qed

definition as_read :: "nat \<Rightarrow> int \<Rightarrow> int" where
  "as_read base v = (if v < 0 then - 1 else 1) * int (digits_val base (show_nat (nat \<bar>v\<bar>)))"

lemma as_read_decimal [simp]: "as_read 10 v = v"
  by (simp add: as_read_def show_nat_val)

lemma as_read_zero [simp]: "as_read base 0 = 0"
  by (simp add: as_read_def show_nat.simps digits_val_def digit_val_def)

lemma scan_num_show:
  assumes "10 \<le> base" "base \<le> 16" "is_space d"
  shows "scan_num base (CHR '' '' # show_int v @ d # t) = Some (as_read base v, d # t)"
proof -
  let ?n = "show_nat (nat \<bar>v\<bar>)"
  have k: "skip_space (CHR '' '' # show_int v @ d # t) = show_int v @ d # t"
    using plain_skip [OF show_int_nonempty] show_int_plain by (simp add: space_skip)
  note facts = scan_num_digits [OF assms] show_nat_no_x [OF assms(3)] show_nat_nonempty
  show ?thesis
  proof (cases "v < 0")
    case True
    then have "show_int v = CHR ''-'' # ?n" by (simp add: show_int_def)
    then show ?thesis unfolding scan_num_def Let_def k using True facts by (simp add: as_read_def)
  next
    case False
    then have "show_int v = ?n" by (simp add: show_int_def)
    then show ?thesis
      unfolding scan_num_def Let_def k using False facts no_sign [OF show_nat_nonempty] show_nat_plain
      by (simp add: as_read_def)
  qed
qed

lemma scan_nums_show:
  assumes "10 \<le> base" "base \<le> 16"
  shows "scan_nums base fit n (concat (map (\<lambda>v. CHR '' '' # show_int v) vs) @ [CHR 0x0A]) =
     map (\<lambda>v. fit (as_read base v)) (take n vs)"
proof (induction n arbitrary: vs)
  case (Suc n)
  have nl: "is_space (CHR 0x0A)" "is_space (CHR '' '')" by (code_simp)+
  show ?case
  proof (cases vs)
    case Nil
    have "scan_num base [CHR 0x0A] = None" by (simp add: scan_num_def skip_space_def nl)
    then show ?thesis by (simp add: Nil)
  next
    case (Cons v ws)
    obtain d t where t: "concat (map (\<lambda>v. CHR '' '' # show_int v) ws) @ [CHR 0x0A] = d # t" "is_space d"
      by (cases ws) (auto simp: nl)
    then show ?thesis using scan_num_show [OF assms t(2)] Suc [of ws] by (simp add: Cons)
  qed
qed simp

definition arg_ok :: "int \<Rightarrow> bool" where
  "arg_ok v \<longleftrightarrow> - (2 ^ 31) \<le> v \<and> v < 2 ^ 31"

lemma pick_decimal:
  assumes "\<forall>v \<in> set vs. arg_ok v"
  shows "pick_arg i (map (\<lambda>v. fit_int big v) vs) (map (\<lambda>v. fit_uint big (as_read 16 v)) vs) = arg_at i vs"
proof -
  have "s32 0 = 0" by (simp add: s32_id)
  then show ?thesis using assms by (auto simp: pick_arg_def arg_at_def arg_ok_def fit_int_def fit_uint_def)
qed

theorem command_understood:
  assumes "name_ok name" and "\<forall>v \<in> set vs. arg_ok v"
  shows "parse_cmd big (command_line name vs) =
    \<lparr>cm_name = name, cm_count = 1 + int (min 4 (length vs)), cm_hcount = 1 + int (min 4 (length vs)),
     cm_v1 = arg_at 0 (take 4 vs), cm_v2 = arg_at 1 (take 4 vs), cm_v3 = arg_at 2 (take 4 vs), cm_v4 = arg_at 3 (take 4 vs)\<rparr>"
proof -
  have nl: "is_space (CHR 0x0A)" "is_space (CHR '' '')" by (code_simp)+
  obtain d t where t: "concat (map (\<lambda>v. CHR '' '' # show_int v) vs) @ [CHR 0x0A] = d # t" "is_space d"
    by (cases vs) (auto simp: nl)
  have w: "scan_word (command_line name vs) = Some (name, concat (map (\<lambda>v. CHR '' '' # show_int v) vs) @ [CHR 0x0A])"
    using scan_plain [OF _ _ t(2), of name t] assms(1) by (simp add: command_line_def t(1) name_ok_def)
  have "\<forall>v \<in> set (take 4 vs). arg_ok v" using assms(2) in_set_takeD by fast
  then show ?thesis
    using pick_decimal [of "take 4 vs"]
    by (simp add: parse_cmd_def w scan_nums_show Let_def)
qed

subsection \<open>What the commands do to the configuration\<close>

context saved_value
begin

lemma get_or_set_keeps:
  "config_ok (cs_store s) \<Longrightarrow> config_ok (cs_store (get_or_set m j get set f view k s))"
  using set_store
  by (auto simp: get_or_set_def write_value_def show_value_def act_def Let_def split: option.splits)

lemma set_then_shown:
  assumes "config_ok (cs_store s)" and "get (of_int k) (cs_store s) = Some v"
  shows "get_or_set False j get set f view k (get_or_set True j get set h view k s) =
    act (Show (view (h v))) (get_or_set True j get set h view k s)"
proof -
  obtain t where t: "set (of_int k) (h v) (cs_store s) = Some t" using set_returns assms(2) by fast
  then show ?thesis
    using set_get [OF assms(1) t, of "of_int k"] assms(2)
    by (simp add: get_or_set_def write_value_def show_value_def)
qed

end

lemma act_store [simp]: "cs_store (act a s) = cs_store s"
  by (simp add: act_def)

lemma show_only_store [simp]: "cs_store (show_only m v view s) = cs_store s"
  by (simp add: show_only_def show_value_def)

lemma cmd_rest_store [simp]: "cs_store (fst (cmd_rest c s)) = cs_store s"
  by (simp add: cmd_rest_def)

lemma initial_wait_keeps: "config_ok s \<Longrightarrow> config_ok (gptp_set_initial_wait a b e s)"
  by (simp add: gptp_set_initial_wait_def config_ok_def)

lemma cmd_general_keeps: "config_ok (cs_store s) \<Longrightarrow> config_ok (cs_store (cmd_general c s))"
  by (auto simp: cmd_general_def Let_def initial_wait_keeps split: prod.splits)

lemma cmd_index_store [simp]: "cs_store (cmd_index c s) = cs_store s"
  by (simp add: cmd_index_def)

lemmas keeps = cfg_sdoid.get_or_set_keeps cfg_clock_prio.get_or_set_keeps cfg_clock_prop.get_or_set_keeps
  cfg_domain.get_or_set_keeps cfg_oper.get_or_set_keeps cfg_delay.get_or_set_keeps cfg_announce.get_or_set_keeps
  cfg_sync.get_or_set_keeps cfg_delay_thresh.get_or_set_keeps cfg_latency.get_or_set_keeps
  cfg_master.get_or_set_keeps cfg_peer_delay.get_or_set_keeps cfg_use_delay.get_or_set_keeps

lemma cmd_profile_keeps: "config_ok (cs_store s) \<Longrightarrow> config_ok (cs_store (cmd_profile c s))"
  by (simp add: cmd_profile_def Let_def keeps)

lemma cmd_port_profile_keeps: "config_ok (cs_store s) \<Longrightarrow> config_ok (cs_store (cmd_port_profile c s))"
  by (simp add: cmd_port_profile_def Let_def keeps)

lemma cmd_port_keeps: "config_ok (cs_store s) \<Longrightarrow> config_ok (cs_store (cmd_port junk c s))"
  by (simp add: cmd_port_def Let_def keeps)

lemma write_master_keeps:
  "config_ok (cs_store s) \<Longrightarrow> config_ok (cs_store (write_value (gptp_port_set_master i v (cs_store s)) s))"
  using cfg_master.set_store by (auto simp: write_value_def split: option.splits)

lemma write_domain_keeps:
  "config_ok (cs_store s) \<Longrightarrow> config_ok (cs_store (write_value (gptp_profile_set_domain i v (cs_store s)) s))"
  using cfg_domain.set_store by (auto simp: write_value_def split: option.splits)

lemma cmd_slave_keeps: "config_ok (cs_store s) \<Longrightarrow> config_ok (cs_store (cmd_slave c s))"
  by (auto simp: cmd_slave_def put_masters_def Let_def intro!: write_master_keeps write_domain_keeps split: prod.splits option.splits)

text \<open>Every command line keeps the sizes of the tables, whatever is typed.\<close>

theorem commands_keep_tables:
  assumes "get_ptp_cmd big junk fp s = Some t" and "config_ok (cs_store s)"
  shows "config_ok (cs_store t)"
proof -
  have run: "config_ok (cs_store (fst (run_cmd junk c s)))" if "config_ok (cs_store s)" for c s
    using that
    by (simp add: run_cmd_def Let_def cmd_slave_keeps cmd_port_keeps cmd_port_profile_keeps cmd_profile_keeps
        cmd_general_keeps)
  have "cmd_lines big junk ls s = Some t \<Longrightarrow> config_ok (cs_store s) \<Longrightarrow> config_ok (cs_store t)" for ls s
  proof (induction ls arbitrary: s)
    case (Cons l ls)
    obtain u b where u: "cmd_line big junk l s = Some (u, b)" "(if b then cmd_lines big junk ls u else Some u) = Some t"
      using Cons.prems(1) by (auto split: option.splits)
    have "config_ok (cs_store u)"
      using u(1) run [OF Cons.prems(2), of "parse_cmd big (c_string l)"] Cons.prems(2)
      by (auto simp: cmd_line_def Let_def split: if_splits)
    then show ?case using u(2) Cons.IH by (auto split: if_splits)
  qed simp
  then show ?thesis using assms unfolding get_ptp_cmd_def by blast
qed

text \<open>A command whose index or port is refused leaves the configuration as it is.\<close>

theorem refused_changes_nothing:
  assumes "needs_index c \<or> needs_port c"
  shows "cs_store (fst (run_cmd junk c s)) = cs_store s"
proof -
  have "cm_name c \<in> set (indexed_commands @ port_commands)" using assms by (auto simp: needs_index_def needs_port_def)
  then have "cs_store (cmd_general c s) = cs_store s"
    unfolding indexed_commands_def port_commands_def cmd_general_def Let_def by (auto split: prod.splits)
  then show ?thesis using assms by (auto simp: run_cmd_def Let_def)
qed

text \<open>A pair of priorities that is typed is the pair shown afterwards, for each index.\<close>

lemma prio_command:
  "run_cmd junk \<lparr>cm_name = ''prio'', cm_count = n, cm_hcount = h, cm_v1 = k, cm_v2 = a, cm_v3 = b, cm_v4 = e\<rparr> s =
     (if n < 2 \<or> k < 1 \<or> k > 3 then act Need_index s
      else get_or_set (n \<ge> 3) (0, 0) gptp_profile_get_clock_prio gptp_profile_set_clock_prio
             (\<lambda>(x, y). (of_int a, if n \<ge> 4 then of_int b else y)) (\<lambda>(x, y). [uint x, uint y]) k s, True)"
  by (simp add: run_cmd_def Let_def cmd_general_def cmd_index_def needs_index_def needs_port_def indexed_commands_def
      port_commands_def cmd_profile_def cmd_port_profile_def cmd_port_def cmd_slave_def cmd_rest_def cmd_names_def
      split: prod.splits)

lemma command_line_ok:
  assumes "name_ok name" and "length name \<le> 10" and "length vs \<le> 4" and "\<forall>v \<in> set vs. \<bar>v\<bar> < 100000"
  shows "line_ok (command_line name vs)"
proof -
  let ?b = "name @ concat (map (\<lambda>v. CHR '' '' # show_int v) vs)"
  have "length (concat (map (\<lambda>v. CHR '' '' # show_int v) ws)) \<le> 7 * length ws" if "set ws \<subseteq> set vs" for ws
    using that assms(4) show_int_length by (induction ws) fastforce+
  then have "length (concat (map (\<lambda>v. CHR '' '' # show_int v) vs)) \<le> 7 * length vs" by blast
  then have "length ?b < 79" using assms(2,3) by simp
  moreover have "plain_char c \<or> c = CHR '' ''" if "c \<in> set ?b" for c
    using that assms(1) show_int_plain by (auto simp: name_ok_def split: if_splits)
  then have "CHR 0x0A \<notin> set ?b \<and> CHR 0x00 \<notin> set ?b" unfolding plain_char_def by fastforce
  ultimately show ?thesis unfolding line_ok_def command_line_def by (intro exI [of _ ?b]) simp
qed

lemma cmd_line_run:
  assumes "name_ok name" and "length name \<le> 10" and "length vs \<le> 4" and "\<forall>v \<in> set vs. \<bar>v\<bar> < 100000"
  shows "cmd_line big junk (command_line name vs) s = Some (run_cmd junk (parse_cmd big (command_line name vs)) s)"
proof -
  have "command_line name vs \<noteq> []" by (simp add: command_line_def)
  moreover have "\<forall>v \<in> set vs. arg_ok v" using assms(4) by (force simp: arg_ok_def)
  ultimately show ?thesis
    using c_string_line [OF command_line_ok [OF assms]] command_understood [OF assms(1)] assms(2)
    by (simp add: cmd_line_def)
qed

theorem priorities_read_back:
  assumes "config_ok (cs_store s)" and "1 \<le> k" "k \<le> 3" and "0 \<le> a" "a < 256" and "0 \<le> b" "b < 256"
  shows "\<exists>t. get_ptp_cmd big junk (command_line ''prio'' [k, a, b] @ command_line ''prio'' [k]) s = Some t \<and>
    cs_acts t = cs_acts s @ [Show [a, b]] \<and> gptp_profile_get_clock_prio (of_int k) (cs_store t) = Some (of_int a, of_int b)"
proof -
  let ?l = "command_line ''prio'' [k, a, b]" and ?r = "command_line ''prio'' [k]"
  let ?f = "\<lambda>(x, y :: u8). (of_int a :: u8, of_int b :: u8)" and ?view = "\<lambda>(x :: u8, y :: u8). [uint x, uint y]"
  let ?g = "\<lambda>m. get_or_set m (0, 0) gptp_profile_get_clock_prio gptp_profile_set_clock_prio"
  have n: "name_ok ''prio''" by code_simp
  have ok: "line_ok ?l" "line_ok ?r" using assms by (auto intro!: command_line_ok n)
  have "file_lines (?l @ ?r) = [?l, ?r]" using file_lines_concat [of "[?l, ?r]"] ok by simp
  moreover have "cmd_line big junk ?l u = Some (?g True ?f ?view k u, True)" for u
    using assms cmd_line_run [OF n, of "[k, a, b]"] command_understood [OF n, of "[k, a, b]"]
    by (simp add: arg_ok_def arg_at_def prio_command case_prod_unfold)
  moreover have "cmd_line big junk ?r u =
      Some (?g False (\<lambda>(x, y). (0, y)) ?view k u, True)" for u
    using assms cmd_line_run [OF n, of "[k]"] command_understood [OF n, of "[k]"]
    by (simp add: arg_ok_def arg_at_def prio_command case_prod_unfold)
  moreover have "unat (of_int k :: u8) = nat k" 
  proof -
    have "k = 1 \<or> k = 2 \<or> k = 3" using assms(2,3) by linarith
    then show ?thesis by auto
  qed
  then obtain v where v: "gptp_profile_get_clock_prio (of_int k) (cs_store s) = Some v"
    using assms(2,3) cfg_clock_prio.get_index [of "of_int k" "cs_store s"] by force
  moreover obtain t where t: "gptp_profile_set_clock_prio (of_int k) (of_int a, of_int b) (cs_store s) = Some t"
    using cfg_clock_prio.set_returns v by blast
  moreover have "?g True ?f ?view k s = s\<lparr>cs_store := t\<rparr>"
    by (simp add: get_or_set_def write_value_def v t case_prod_unfold)
  ultimately show ?thesis
    using cfg_clock_prio.set_then_shown [OF assms(1) v, of "(0, 0)" "\<lambda>(x, y). (0, y)" ?view ?f]
      cfg_clock_prio.set_get [OF assms(1) t, of "of_int k"] assms
    by (simp add: get_ptp_cmd_def act_def case_prod_unfold uint_word_of_int)
qed

subsection \<open>The slave port\<close>

definition slaves :: "config_store \<Rightarrow> u8 list" where
  "slaves s = filter (\<lambda>p. gptp_port_get_master p s = Some 0) [1, 2, 3]"

text \<open>
  When the arguments that are missing are zero, \<open>slave\<close> leaves at most one of the first three
  ports that is not master only.
\<close>

lemma put_masters_done:
  assumes "config_ok (cs_store s)"
  shows "gptp_port_get_master 1 (cs_store (put_masters v1 v2 v3 s)) = Some (of_bool (v1 = 0))"
    and "gptp_port_get_master 2 (cs_store (put_masters v1 v2 v3 s)) = Some (of_bool (v2 = 0))"
    and "gptp_port_get_master 3 (cs_store (put_masters v1 v2 v3 s)) = Some (of_bool (v3 = 0))"
proof -
  have i: "gptp_port_set_master 1 v r \<noteq> None" "gptp_port_set_master 2 v r \<noteq> None" "gptp_port_set_master 3 v r \<noteq> None" for v r
    by (simp_all only: cfg_master.set_index, simp_all)
  obtain t1 where t1: "gptp_port_set_master 1 (of_bool (v1 = 0)) (cs_store s) = Some t1" using i(1) by fast
  obtain t2 where t2: "gptp_port_set_master 2 (of_bool (v2 = 0)) t1 = Some t2" using i(2) by fast
  obtain t3 where t3: "gptp_port_set_master 3 (of_bool (v3 = 0)) t2 = Some t3" using i(3) by fast
  have k: "config_ok t1" using cfg_master.set_store [OF assms t1] .
  have k2: "config_ok t2" using cfg_master.set_store [OF k t2] .
  have "cs_store (put_masters v1 v2 v3 s) = t3" by (simp add: put_masters_def Let_def write_value_def t1 t2 t3)
  then show "gptp_port_get_master 1 (cs_store (put_masters v1 v2 v3 s)) = Some (of_bool (v1 = 0))"
    and "gptp_port_get_master 2 (cs_store (put_masters v1 v2 v3 s)) = Some (of_bool (v2 = 0))"
    and "gptp_port_get_master 3 (cs_store (put_masters v1 v2 v3 s)) = Some (of_bool (v3 = 0))"
    using cfg_master.set_get [OF k2 t3] cfg_master.set_get [OF k t2] cfg_master.set_get [OF assms t1] by simp_all
qed

lemma slave_store:
  assumes "config_ok (cs_store s)" and "slave_args c = (p, v1, v2, v3)" and "p \<noteq> 0" and "cm_name c = ''slave''"
  shows "slaves (cs_store (cmd_slave c s)) =
    (if v1 \<noteq> 0 then [1] else []) @ (if v2 \<noteq> 0 then [2] else []) @ (if v3 \<noteq> 0 then [3] else [])"
proof -
  define u where "u = (case gptp_profile_get_domain 1 (cs_store s) of None \<Rightarrow> s
      | Some (a, b, e) \<Rightarrow> write_value (gptp_profile_set_domain 1 (a, p, e) (cs_store s)) s)"
  have u: "config_ok (cs_store u)" using assms(1) by (auto simp: u_def intro: write_domain_keeps split: option.splits)
  have "cmd_slave c s = put_masters v1 v2 v3 u" using assms(2-4) by (simp add: cmd_slave_def u_def)
  then show ?thesis by (simp add: slaves_def put_masters_done [OF u])
qed

theorem one_slave_at_most:
  assumes "cm_name c = ''slave''" and "config_ok (cs_store s)" and "2 \<le> cm_count c"
    and "cm_count c < 3 \<Longrightarrow> cm_v2 c = 0" and "cm_count c < 4 \<Longrightarrow> cm_v3 c = 0"
  shows "length (slaves (cs_store (cmd_slave c s))) \<le> 1"
proof -
  obtain p v1 v2 v3 where a: "slave_args c = (p, v1, v2, v3)" by (cases "slave_args c")
  have "p \<noteq> 0" "(v1 = 0 \<or> v2 = 0) \<and> (v1 = 0 \<or> v3 = 0) \<and> (v2 = 0 \<or> v3 = 0)"
    using a assms(3-5) by (auto simp: slave_args_def Let_def split: if_splits)
  then show ?thesis using slave_store [OF assms(2) a _ assms(1)] by auto
qed

text \<open>
  The reading as hexadecimal fills an argument the decimal reading does not have:
  of \<open>slave 1 a\<close> the second argument is 10 but not counted, and two ports become slaves.
\<close>

lemma slave_letters_read: "parse_cmd big (''slave 1 a'' @ [CHR 0x0A]) =
    \<lparr>cm_name = ''slave'', cm_count = 2, cm_hcount = 3, cm_v1 = 1, cm_v2 = 10, cm_v3 = 0, cm_v4 = 0\<rparr>"
proof -
  have n: "scan_word (''slave 1 a'' @ [CHR 0x0A]) = Some (''slave'', '' 1 a'' @ [CHR 0x0A])" by code_simp
  have d: "scan_num 10 ('' 1 a'' @ [CHR 0x0A]) = Some (1, '' a'' @ [CHR 0x0A])" "scan_num 10 ('' a'' @ [CHR 0x0A]) = None"
    "scan_num 16 ('' 1 a'' @ [CHR 0x0A]) = Some (1, '' a'' @ [CHR 0x0A])"
    "scan_num 16 ('' a'' @ [CHR 0x0A]) = Some (10, [CHR 0x0A])" "scan_num 16 [CHR 0x0A] = None" by code_simp+
  have n4: "(4 :: nat) = Suc (Suc (Suc (Suc 0)))" by simp
  show ?thesis
    unfolding parse_cmd_def n using d
    by (simp add: fit_int_def fit_uint_def s32_id pick_arg_def arg_at_def n4)
qed

theorem two_slaves_by_letters:
  assumes "config_ok (cs_store s)"
  shows "map_option (\<lambda>t. slaves (cs_store t)) (get_ptp_cmd big junk (''slave 1 a'' @ [CHR 0x0A]) s) = Some [1, 2]"
proof -
  let ?l = "''slave 1 a'' @ [CHR 0x0A]"
  let ?c = "\<lparr>cm_name = ''slave'', cm_count = 2, cm_hcount = 3, cm_v1 = 1, cm_v2 = 10, cm_v3 = 0, cm_v4 = 0\<rparr>"
  have "line_ok ?l" unfolding line_ok_def by (intro exI [of _ "''slave 1 a''"]) simp
  then have l: "file_lines ?l = [?l]" "c_string ?l = ?l" using file_lines_concat [of "[?l]"] c_string_line by simp_all
  have "run_cmd junk ?c s = (cmd_slave ?c s, True)"
    by (simp add: run_cmd_def Let_def cmd_general_def cmd_index_def needs_index_def needs_port_def indexed_commands_def
        port_commands_def cmd_profile_def cmd_port_profile_def cmd_port_def cmd_rest_def cmd_names_def)
  moreover have "slave_args ?c = (1, 1, 10, 0)" by (simp add: slave_args_def)
  ultimately show ?thesis
    using slave_store [OF assms, of ?c 1 1 10 0] slave_letters_read
    by (simp add: get_ptp_cmd_def l [unfolded append.simps] cmd_line_def)
qed

end
