(* ===== verification/Logbuf.thy ===== *)
theory Logbuf
  imports Config_props
begin

text \<open>
  The two text buffers of \<^verbatim>\<open>ptp_main.c\<close>: debug messages gathered during a pass of a handler,
  \<open>dbg_msg\<close> and \<open>print_dbg_msg\<close>, and the log of exceptions with their time, \<open>exception_log\<close> and
  \<open>print_log\<close>.  A buffer is the text up to its terminating null with the count of characters
  taken; the formatted message is an argument, and the standard output is \<open>ls_out\<close>.
\<close>

abbreviation (input) PRINT_MSG_SIZE :: nat where "PRINT_MSG_SIZE \<equiv> 800"
abbreviation (input) LOG_MSG_SIZE :: nat where "LOG_MSG_SIZE \<equiv> 400"

record msg_buf =
  mb_text :: string
  mb_cnt :: nat

record log_state =
  ls_buf :: msg_buf
  ls_out :: string

text \<open>\<open>vsnprintf\<close> of \<open>t\<close> at position \<open>cnt\<close> into the \<open>left\<close> bytes that remain.\<close>

definition print_at :: "nat \<Rightarrow> nat \<Rightarrow> string \<Rightarrow> string \<Rightarrow> string" where
  "print_at cnt left t text = take cnt text @ take (left - 1) t"

definition dbg_msg :: "string \<Rightarrow> log_state \<Rightarrow> log_state" where
  "dbg_msg t s =
     (let b = ls_buf s; left = PRINT_MSG_SIZE - mb_cnt b
      in if left \<le> 4 then s
         else s\<lparr>ls_buf := \<lparr>mb_text = print_at (mb_cnt b) left t (mb_text b),
                          mb_cnt = mb_cnt b + (if left > length t then length t else left)\<rparr>\<rparr>)"

definition print_dbg_msg :: "bool \<Rightarrow> log_state \<Rightarrow> log_state" where
  "print_dbg_msg on s =
     (let b = ls_buf s
      in \<lparr>ls_buf = b\<lparr>mb_cnt := 0\<rparr>, ls_out = ls_out s @ (if on \<and> mb_cnt b \<noteq> 0 then mb_text b else [])\<rparr>)"

definition print_log :: "bool \<Rightarrow> log_state \<Rightarrow> log_state" where
  "print_log on s =
     (let b = ls_buf s
      in \<lparr>ls_buf = b\<lparr>mb_cnt := 0\<rparr>, ls_out = ls_out s @ (if on \<and> mb_cnt b \<noteq> 0 then mb_text b else [])\<rparr>)"

text \<open>\<open>"%u:%9u> "\<close>\<close>

definition time_log :: "u32 \<Rightarrow> u32 \<Rightarrow> string" where
  "time_log sec nsec =
     show_nat (unat sec) @ '':'' @ replicate (9 - length (show_nat (unat nsec))) (CHR '' '') @ show_nat (unat nsec) @ ''> ''"

text \<open>The time of an entry; \<open>clk\<close> is what the driver returns for the hardware clock.\<close>

definition log_time :: "bool \<Rightarrow> (u32 \<times> u32) option \<Rightarrow> u32 \<Rightarrow> u32 \<Rightarrow> u32 \<times> u32" where
  "log_time ptp_hw clk sec nsec =
     (if sec = 0 \<and> nsec = 0 \<and> ptp_hw then (case clk of None \<Rightarrow> (100, 100) | Some t \<Rightarrow> t) else (sec, nsec))"

definition exception_log ::
  "bool \<Rightarrow> bool \<Rightarrow> (u32 \<times> u32) option \<Rightarrow> u32 \<times> u32 \<times> string \<Rightarrow> log_state \<Rightarrow> log_state" where
  "exception_log on ptp_hw clk e s =
     (if \<not> on then s
      else let (sec, nsec, t) = e; left = LOG_MSG_SIZE - mb_cnt (ls_buf s);
               (s, left) = (if left \<le> 40 then (print_log on s, LOG_MSG_SIZE) else (s, left));
               (sec, nsec) = log_time ptp_hw clk sec nsec; stamp = time_log sec nsec;
               log = take (left - length stamp - 1 - 1) t; line = stamp @ log @ [CHR 0x0A]; b = ls_buf s
           in if t = [] then s
              else s\<lparr>ls_buf := \<lparr>mb_text = print_at (mb_cnt b) left line (mb_text b), mb_cnt = mb_cnt b + length line\<rparr>\<rparr>)"

subsection \<open>The buffers hold\<close>

text \<open>
  What is printed always ends inside the array: the text with its null is no longer than the
  buffer, and the next position is inside it or the buffer is full.
\<close>

definition buf_ok :: "nat \<Rightarrow> msg_buf \<Rightarrow> bool" where
  "buf_ok n b \<longleftrightarrow> length (mb_text b) < n \<and> (mb_cnt b \<le> length (mb_text b) \<or> mb_cnt b = n)"

lemma print_at_length: "cnt \<le> length text \<Longrightarrow> length (print_at cnt left t text) = cnt + min (length t) (left - 1)"
  by (simp add: print_at_def)

theorem dbg_msg_fits: "buf_ok PRINT_MSG_SIZE (ls_buf s) \<Longrightarrow> buf_ok PRINT_MSG_SIZE (ls_buf (dbg_msg t s))"
  by (auto simp: dbg_msg_def buf_ok_def Let_def print_at_length)

text \<open>Between two prints the messages are gathered in order, as far as they fit.\<close>

theorem dbg_msgs_gathered:
  assumes "length (concat ts) < PRINT_MSG_SIZE - 4" and "mb_cnt (ls_buf s) = 0" and "ts \<noteq> []"
  shows "mb_text (ls_buf (fold dbg_msg ts s)) = concat ts \<and> mb_cnt (ls_buf (fold dbg_msg ts s)) = length (concat ts)"
  using assms(3,1)
proof (induction ts rule: rev_nonempty_induct)
  case (single t)
  then show ?case using assms(2) by (simp add: dbg_msg_def print_at_def)
next
  case (snoc t ts)
  then have "length (concat ts) + length t < 796" by simp
  then have "length t < 800 - length (concat ts)" "\<not> 800 - length (concat ts) \<le> 4" by linarith+
  then show ?case using snoc by (simp add: dbg_msg_def [of t] Let_def print_at_def del: length_concat)
qed

subsection \<open>The log keeps every entry\<close>

lemma time_log_length: "length (time_log sec nsec) \<le> 23"
proof -
  have n: "length (show_nat (unat x)) \<le> 10" for x :: u32
    using unsigned_less [of x, where ?'a = nat] by (intro show_nat_length) auto
  show ?thesis using n [of sec] n [of nsec] by (simp add: time_log_def)
qed

definition log_entry :: "bool \<Rightarrow> (u32 \<times> u32) option \<Rightarrow> u32 \<times> u32 \<times> string \<Rightarrow> string" where
  "log_entry ptp_hw clk e =
     (let (sec, nsec, t) = e; (sec, nsec) = log_time ptp_hw clk sec nsec
      in if t = [] then [] else time_log sec nsec @ t @ [CHR 0x0A])"

definition log_ok :: "log_state \<Rightarrow> bool" where
  "log_ok s \<longleftrightarrow> buf_ok LOG_MSG_SIZE (ls_buf s) \<and>
     (mb_cnt (ls_buf s) = 0 \<or> mb_cnt (ls_buf s) = length (mb_text (ls_buf s)))"

definition logged :: "log_state \<Rightarrow> string" where
  "logged s = ls_out s @ take (mb_cnt (ls_buf s)) (mb_text (ls_buf s))"

lemma log_room:
  assumes "log_ok s"
  shows "\<exists>u left. (if LOG_MSG_SIZE - mb_cnt (ls_buf s) \<le> 40 then (print_log True s, LOG_MSG_SIZE)
      else (s, LOG_MSG_SIZE - mb_cnt (ls_buf s))) = (u, left) \<and>
    40 < left \<and> left = LOG_MSG_SIZE - mb_cnt (ls_buf u) \<and> log_ok u \<and> logged u = logged s"
  using assms by (auto simp: print_log_def log_ok_def logged_def buf_ok_def Let_def)

lemma log_added:
  assumes "log_ok u" and "left = LOG_MSG_SIZE - mb_cnt (ls_buf u)" and "length line < left" and "line \<noteq> []"
    and "t = u\<lparr>ls_buf := \<lparr>mb_text = print_at (mb_cnt (ls_buf u)) left line (mb_text (ls_buf u)),
                        mb_cnt = mb_cnt (ls_buf u) + length line\<rparr>\<rparr>"
  shows "log_ok t \<and> logged t = logged u @ line"
  using assms by (auto simp: log_ok_def logged_def buf_ok_def print_at_def)

text \<open>Every call stays inside the buffer, and an entry of up to 16 characters is kept whole.\<close>

lemma exception_log_step:
  assumes "log_ok s"
  shows "log_ok (exception_log on ptp_hw clk e s)"
    and "on \<Longrightarrow> length (snd (snd e)) \<le> 16 \<Longrightarrow>
      logged (exception_log on ptp_hw clk e s) = logged s @ log_entry ptp_hw clk e"
proof -
  obtain sec nsec t where e: "e = (sec, nsec, t)" by (cases e)
  obtain a b where ab: "log_time ptp_hw clk sec nsec = (a, b)" by (cases "log_time ptp_hw clk sec nsec")
  obtain u left where u: "(if LOG_MSG_SIZE - mb_cnt (ls_buf s) \<le> 40 then (print_log True s, LOG_MSG_SIZE)
      else (s, LOG_MSG_SIZE - mb_cnt (ls_buf s))) = (u, left)"
    "40 < left" "left = LOG_MSG_SIZE - mb_cnt (ls_buf u)" "log_ok u" "logged u = logged s"
    using log_room [OF assms] by blast
  let ?line = "time_log a b @ take (left - length (time_log a b) - 1 - 1) t @ [CHR 0x0A]"
  have r: "exception_log True ptp_hw clk e s =
      (if t = [] then u else u\<lparr>ls_buf := \<lparr>mb_text = print_at (mb_cnt (ls_buf u)) left ?line (mb_text (ls_buf u)),
                                       mb_cnt = mb_cnt (ls_buf u) + length ?line\<rparr>\<rparr>)"
    using u(1) by (simp add: exception_log_def e ab Let_def)
  have l: "length ?line < left" "?line \<noteq> []" using time_log_length [of a b] u(2) by auto
  have short: "take (left - length (time_log a b) - 1 - 1) t = t" if "length t \<le> 16"
    using that time_log_length [of a b] u(2) by simp
  show "log_ok (exception_log on ptp_hw clk e s)"
    using log_added [OF u(4,3) l refl] u(4) r assms by (cases on) (auto simp: exception_log_def)
  show "logged (exception_log on ptp_hw clk e s) = logged s @ log_entry ptp_hw clk e"
    if "on" "length (snd (snd e)) \<le> 16"
    using log_added [OF u(4,3) l refl] r short u(5) that by (auto simp: e log_entry_def ab)
qed

text \<open>
  Over any number of entries of up to 16 characters nothing of the log is lost or reordered:
  what \<open>print_log\<close> has printed at the end are the entries, one to a line.
\<close>

theorem log_complete:
  assumes "log_ok s" and "\<forall>e \<in> set es. length (snd (snd e)) \<le> 16"
  shows "ls_out (print_log True (fold (exception_log True ptp_hw clk) es s)) =
    logged s @ concat (map (log_entry ptp_hw clk) es)"
proof -
  have "log_ok (fold (exception_log True ptp_hw clk) es s) \<and>
      logged (fold (exception_log True ptp_hw clk) es s) = logged s @ concat (map (log_entry ptp_hw clk) es)"
    using assms by (induction es arbitrary: s) (simp_all add: exception_log_step)
  then show ?thesis by (auto simp: print_log_def log_ok_def logged_def Let_def)
qed

end
