(* ===== verification/Query.thy ===== *)
theory Query
  imports Dispatch
begin

text \<open>
  The queries other programs make, \<open>ptp_get_port_ds\<close> to \<open>ptp_get_curr_ds\<close> of
  \<^verbatim>\<open>ptp_port.c\<close>.  Each gives a return code and a data set; a data set of zeros, which
  \<open>memset\<close> leaves when nothing is copied, is \<open>None\<close>.  The number of the port has 16 bits and
  is cut to the 8 bits that \<open>get_ptp_port\<close> takes.  For an entry that no clock has the three
  queries of a clock follow a null pointer: they have no result.
\<close>

definition query_index :: "u16 \<Rightarrow> nat" where
  "query_index index = unat (ucast index :: u8)"

definition ptp_get_port_ds :: "u16 \<Rightarrow> world \<Rightarrow> int \<times> ptp_port_ds option" where
  "ptp_get_port_ds index w =
     (if unowned_port (query_index index) w then (0, None)
      else case get_ptp_port (query_index index) w of
        None \<Rightarrow> (- 1, None)
      | Some n \<Rightarrow> (0, Some (p_ds (port n w))))"

definition ptp_get_port_ds_np :: "u16 \<Rightarrow> world \<Rightarrow> int \<times> int \<times> bool" where
  "ptp_get_port_ds_np index w =
     (if unowned_port (query_index index) w then (0, 0, False)
      else case get_ptp_port (query_index index) w of
        None \<Rightarrow> (- 1, 0, False)
      | Some n \<Rightarrow>
          (0, p_neighborDelayThresh (port n w),
           if \<not> flag fl_no_capable n w \<and> \<not> flag fl_as_capable_set n w then flag fl_as_capable n w else True))"

text \<open>The three queries of the clock of a port differ in what they copy.\<close>

definition clock_query :: "(ptp_clock \<Rightarrow> 'd) \<Rightarrow> u16 \<Rightarrow> byte_list \<Rightarrow> world \<Rightarrow> (int \<times> 'd option) option" where
  "clock_query ds index clk_id w =
     (if unowned_port (query_index index) w then None
      else case get_ptp_port (query_index index) w of
        None \<Rightarrow> Some (- 1, None)
      | Some n \<Rightarrow>
          Some (0, if same_clock_id (c_id (w_clock w)) clk_id \<or> broadcast_clock_id clk_id
                   then Some (ds (w_clock w)) else None))"

definition ptp_get_parent_ds :: "u16 \<Rightarrow> byte_list \<Rightarrow> world \<Rightarrow> (int \<times> ptp_parent_ds option) option" where
  "ptp_get_parent_ds = clock_query c_pds"

definition ptp_get_def_ds :: "u16 \<Rightarrow> byte_list \<Rightarrow> world \<Rightarrow> (int \<times> ptp_default_ds option) option" where
  "ptp_get_def_ds = clock_query c_dds"

definition ptp_get_curr_ds :: "u16 \<Rightarrow> byte_list \<Rightarrow> world \<Rightarrow> (int \<times> ptp_current_ds option) option" where
  "ptp_get_curr_ds = clock_query c_cur"

lemma found_port:
  "get_ptp_port index w = Some n \<Longrightarrow> 1 \<le> n \<and> n \<le> c_cnt (w_clock w) \<and> p_index (port n w) = index"
  by (auto simp: get_ptp_port_def find_Some_iff nth_upt simp del: upt_Suc)

text \<open>
  What a client is told is the data set of the port it named, and the capability it is told is
  the one the port acts on.
\<close>

theorem port_query:
  "ptp_get_port_ds index w = (0, Some d) \<Longrightarrow> \<exists>n. 1 \<le> n \<and> n \<le> c_cnt (w_clock w) \<and>
     p_index (port n w) = query_index index \<and> d = p_ds (port n w) \<and>
     ptp_get_port_ds_np index w = (0, p_neighborDelayThresh (port n w), port_capable (port n w))"
  using found_port
  by (auto simp: ptp_get_port_ds_def ptp_get_port_ds_np_def port_capable_def split: option.splits if_splits)

text \<open>Numbers that agree in their low 8 bits name the same port.\<close>

theorem query_alias:
  "ptp_get_port_ds (index + 256) w = ptp_get_port_ds index w"
proof -
  have q: "query_index i = unat i mod 256" for i
    by (simp add: query_index_def unsigned_ucast_eq take_bit_eq_mod)
  have "unat (index + 256) = (unat index + 256) mod 65536" by (simp add: unat_word_ariths take_bit_eq_mod)
  then have "query_index (index + 256) = query_index index"
    by (simp add: q mod_mod_cancel [of 256 65536 "unat index + 256"])
  then show ?thesis by (simp add: ptp_get_port_ds_def)
qed

text \<open>
  The return code of the other queries tells only whether the port exists: for a clock identity that
  is not this clock's they report success and a data set of zeros.
\<close>

theorem clock_query_code:
  "clock_query ds index clk_id w = Some (rc, d) \<Longrightarrow> rc = fst (ptp_get_port_ds index w)"
  by (auto simp: clock_query_def ptp_get_port_ds_def split: option.splits if_splits)

theorem clock_query_answer:
  assumes "snd (ptp_get_port_ds index w) \<noteq> None"
  shows "clock_query ds index (replicate 8 0xFF) w = Some (0, Some (ds (w_clock w)))"
    and "\<not> same_clock_id (c_id (w_clock w)) clk_id \<Longrightarrow> \<not> broadcast_clock_id clk_id \<Longrightarrow>
      clock_query ds index clk_id w = Some (0, None)"
proof -
  have "memcmp (replicate 8 0xFF) (replicate 8 0xFF) = 0" by code_simp
  then show "clock_query ds index (replicate 8 0xFF) w = Some (0, Some (ds (w_clock w)))"
    and "\<not> same_clock_id (c_id (w_clock w)) clk_id \<Longrightarrow> \<not> broadcast_clock_id clk_id \<Longrightarrow>
      clock_query ds index clk_id w = Some (0, None)"
    using assms
    by (auto simp: clock_query_def ptp_get_port_ds_def broadcast_clock_id_def split: option.splits if_splits)
qed

end
