(* ===== verification/Spec2Isabelle.thy ===== *)
theory Spec2Isabelle
  imports Sample_boot Sample_sock Sample_driver Devread_props Switch Timers Command_props Logbuf Query
begin

text \<open>
  The PTP stack of the EVB-LAN9646 software, \<^verbatim>\<open>src/ung_apps_external/app_utils/ptp_stack\<close>:
  an implementation of IEEE 1588 and IEEE 802.1AS (gPTP) that runs beside the
  Ethernet switch.  The rest of the repository is third-party software (linuxptp,
  Open-AVB), the kernel and boot loader configuration, and test programs around
  driver calls; none of it is modelled.

  \<^bold>\<open>The program.\<close>  A clock (\<^verbatim>\<open>ptp_clock.c\<close>) has a host port and the ports of the
  switch (\<^verbatim>\<open>ptp_port.c\<close>).  A receive task gives each message of the network to
  \<open>ptp_rx\<close>, which copies it into a reference counted buffer (\<^verbatim>\<open>ptp_msg.c\<close>) and runs
  the \<open>handle_\<close> function of its type (\<^verbatim>\<open>ptp_protocol.c\<close>, \<^verbatim>\<open>ptp_signal.c\<close>,
  \<^verbatim>\<open>ptp_manage.c\<close>); what takes longer goes through a queue to the process task, which
  runs the \<open>proc_\<close> function.  Messages that are sent from timers go through the
  same queue.  Announce messages fill tables of foreign masters, from which the
  best master clock algorithm (\<^verbatim>\<open>ptp_bmca.c\<close>) and the state decision choose the
  state of each port.  A slave port feeds the times of Sync and Follow_Up and of
  the delay messages into a filter (\<^verbatim>\<open>ptp_filter.c\<close>) and a servo (\<^verbatim>\<open>ptp_servo.c\<close>)
  that adjusts the hardware clock (\<^verbatim>\<open>ptp_sync.c\<close>).  A gPTP bridge sends the Sync,
  Follow_Up and Announce of its slave port on (\<^verbatim>\<open>ptp_forward.c\<close>).  Timers and works
  run in a scheduler task (\<^verbatim>\<open>os/sw_support.c\<close>).  At the start the configuration file
  is read (\<^verbatim>\<open>os/config_store.c\<close>), \<open>init_stack\<close> creates a clock for each profile that
  has ports, and \<open>setup_ptp_hw\<close> starts the clocks.  Frames are built and packets
  taken in \<^verbatim>\<open>ptp_sock.c\<close>; a test mode sends status packets (\<^verbatim>\<open>avtpdu_1722.c\<close>).

  \<^bold>\<open>The theories, in the order of the code.\<close>

  \<^item> \<open>Prelude\<close>, \<open>Bytes\<close>: C integers with their wrap-around, packed structures as
    byte lists with loads, stores and byte swaps of fields.
  \<^item> \<open>Ptu\<close>, \<open>Dbl\<close> (\<^verbatim>\<open>ptp_ptu.c\<close>): scaled time and its arithmetic, exact up to the
    stated bounds; the doubles used for clock ratios.
  \<^item> \<open>Median\<close>, \<open>Ptp_filter\<close> (\<^verbatim>\<open>ptp_filter.c\<close>): the moving median with its order
    array is the median of the last samples (a refinement of a window of
    samples); path delay and offset.
  \<^item> \<open>Servo\<close> (\<^verbatim>\<open>ptp_servo.c\<close>): ranges and the control law.
  \<^item> \<open>Ptp_interval\<close> (\<^verbatim>\<open>ptp_protocol.c\<close>): logarithmic intervals.
  \<^item> \<open>Bmca\<close>, \<open>Decision\<close>, \<open>Decision_props\<close> (\<^verbatim>\<open>ptp_bmca.c\<close>, \<^verbatim>\<open>ptp_protocol.c\<close>): the
    comparison is a lexicographic order; the state decision takes the best of all
    masters and makes at most one port a slave; the tables stay consistent.
  \<^item> \<open>Sched\<close> (\<^verbatim>\<open>os/sw_support.c\<close>): timers, the queue of works, one pass of
    \<open>ScheduleTask\<close>.
  \<^item> \<open>State\<close>, \<open>Clock\<close>, \<open>Port\<close>, \<open>Port_frame\<close> (\<^verbatim>\<open>ptp_clock.c\<close>, \<^verbatim>\<open>ptp_port.c\<close>,
    \<^verbatim>\<open>ptp_config.c\<close>): the records of the code, the state machines of the ports, and
    what each operation leaves alone.
  \<^item> \<open>Msg\<close>, \<open>Msginfo\<close>, \<open>Msgref\<close> (\<^verbatim>\<open>ptp_msg.c\<close>): byte order of messages and TLVs,
    what is remembered of a message, the buffers and their reference counts.
  \<^item> \<open>Tlv\<close>, \<open>Tlv_props\<close>, \<open>Template\<close>, \<open>Send\<close>, \<open>Delay\<close>, \<open>Receive\<close>
    (\<^verbatim>\<open>ptp_protocol.c\<close>, \<^verbatim>\<open>ptp_signal.c\<close>), \<open>Sync\<close> (\<^verbatim>\<open>ptp_sync.c\<close>), \<open>Forward\<close>
    (\<^verbatim>\<open>ptp_forward.c\<close>), \<open>Manage\<close> (\<^verbatim>\<open>ptp_manage.c\<close>): every message the stack builds,
    receives, answers and forwards.
  \<^item> \<open>Dispatch\<close> (\<open>ptp_rx\<close>, \<open>ptp_proc_rx\<close>, the body of \<open>ptp_process_task\<close>), \<open>Works\<close>
    (the works and timer callbacks of the clock), \<open>Stack\<close> (all of it as one step
    relation).
  \<^item> \<open>Msgframe\<close>, \<open>Memory\<close>, \<open>Memory_ops\<close>: what each function does to the message
    buffers, as a contract; from it the invariant of \<open>Stack\<close>.
  \<^item> \<open>Stack_props\<close>, \<open>Sync_props\<close>, \<open>Announce_props\<close>: facts that go through several
    parts; \<open>Sample\<close>, \<open>Sample_stack\<close>: concrete clocks and messages for the examples.
  \<^item> \<open>Config\<close>, \<open>Config_props\<close> (\<^verbatim>\<open>os/config_store.c\<close>): the tables of the saved
    configuration, their accessors and the reader of the file; each pair of
    accessors is a saved value (a locale), and a listed configuration is read back.
  \<^item> \<open>Setup\<close>, \<open>Setup_props\<close> (\<^verbatim>\<open>ptp_config.c\<close>, \<^verbatim>\<open>ptp_clock.c\<close>, \<^verbatim>\<open>ptp_port.c\<close>,
    \<open>init_stack\<close> of \<^verbatim>\<open>ptp_main.c\<close>, \<open>setup_ptp_hw\<close> of \<^verbatim>\<open>ptp_stack.c\<close>): creating and
    starting clocks; what has been created is fit to run.  \<open>Sample_boot\<close>: the
    built-in configuration.
  \<^item> \<open>Sock\<close>, \<open>Sock_props\<close> (\<^verbatim>\<open>ptp_sock.c\<close>), \<open>Avtp\<close> (\<^verbatim>\<open>avtpdu_1722.c\<close>): addresses, the
    frames \<open>send_msg\<close> builds, one packet in \<open>ReceiveTask\<close>, the status packets with
    their fixed and changing fields; \<open>Sample_sock\<close>: a station and a message.
  \<^item> \<open>Driver\<close>, \<open>Driver_props\<close> (\<^verbatim>\<open>lan937x_ptp_api.c\<close>): every request to the PTP driver
    as the bytes that are sent, and every call with what it hands back; a pair of
    calls that sets and gets a value is a setting (a locale).  \<open>effect_request\<close> is
    the request behind each driver call in the effects of a \<open>world\<close>.
    \<open>Sample_driver\<close>: an adjustment of the sample clock.
  \<^item> \<open>Devread\<close>, \<open>Devread_props\<close>: the messages the driver sends back, cut out of what
    \<open>read\<close> delivers by \<open>ptp_recv\<close>, and what \<open>ptp_notify_task\<close> does with them;
    \<open>Switch\<close> (\<^verbatim>\<open>ksz_sw_api.c\<close>): the requests to the switch driver.
  \<^item> \<open>Timers\<close> (\<^verbatim>\<open>os/sw_support.c\<close>): the table of timers, the pass of \<open>TimerTask\<close> over
    what \<open>poll\<close> reports, cleaning up.
  \<^item> \<open>Command\<close>, \<open>Command_props\<close> (\<open>get_ptp_cmd\<close> of \<^verbatim>\<open>ptp_sock.c\<close>): reading a command and
    carrying it out on the saved configuration; the commands keep its tables, and a
    value that is typed is shown.
  \<^item> \<open>Logbuf\<close> (\<^verbatim>\<open>ptp_main.c\<close>): the buffers of debug messages and of the log.
  \<^item> \<open>Query\<close> (end of \<^verbatim>\<open>ptp_port.c\<close>): what other programs are told of a port and its clock.

  \<^bold>\<open>Reading the model.\<close>  The state is the record \<open>world\<close>: the clock, the message
  buffers, the scheduler, the tick counter, the saved configuration and the list
  of effects (calls into the driver and messages sent).  A pointer to a port is
  its position in \<open>c_ports\<close>, a pointer to a message buffer an address that is never
  reused.  The result \<open>None\<close> is an access that C leaves undefined (a null or stale
  pointer, a byte outside a buffer, a double out of range) or a loop that does not
  end (\<open>ptp_find_tlv\<close>, \<open>manage_tlvs\<close>, \<open>signal_tlvs\<close> and \<open>read_device\<close> are
  \<open>partial_function (option)\<close>);
  no fuel is used, every other loop is structural or has a termination proof.
  \<open>malloc\<close> (\<open>mh_malloc\<close>), \<open>rand\<close>, the answers of the driver and what \<open>sscanf\<close> makes of a
  number beyond \<open>int\<close> (\<open>big\<close>), and whether \<open>char\<close> is signed (\<open>schar\<close>), are parameters;
  so are the driver behind \<open>ioctl\<close> (\<open>dev\<close>) and what \<open>read\<close> delivers (\<open>rdev\<close>).  \<open>w_cfg\<close> holds what the accessors of the
  saved configuration answer; \<open>init_stack\<close> fills it from the tables
  (\<open>store_config\<close>).  A \<open>world\<close> has one clock; the set-up works on the list of clocks
  (\<open>boot\<close>), one at a time.  Steps of different tasks are atomic: \<open>rx_lock\<close>
  and \<open>tx_msg_lock\<close> serialise the handlers, and \<open>stack_step\<close> allows every order.
  The handlers' log output has no counterpart in \<open>world\<close>; the flags it depends on have.

  \<^bold>\<open>What is shown.\<close>  C1 to C7 and C9: the state decision and the best master clock
  algorithm.  C8, C10, C31 and C34: the driver interface (well-formed requests,
  settings that read back, messages of the driver, and from the servo to the
  request for an adjustment).  C11: messages survive the byte order conversions.
  C12 to C18: filter, servo and time arithmetic.  C19 and C20: the scheduler and
  the table of timers.  C21 to C23: frames, addresses and a packet without a
  timestamp.  C24: the configuration file.  C25 and C26: the reference counts over
  every run of the stack.  C27 to C39: TLVs, Announce, Sync and Follow_Up from one
  clock to the next, and four places where the code leaves its buffers or its loop.
  C40: the clocks that come out of the set-up.  Theorems without a number: timers,
  intervals, sequence numbers, the divider of forwarded Syncs, the works of the
  scheduler, the table of foreign masters, the command line, the log, the queries.

  \<^bold>\<open>Not modelled.\<close>  Runs of several clocks that share the message buffers, and with
  them \<open>exit_stack\<close> and the restart of clocks by command (\<open>Command\<close> records that it is
  asked for): the pointers to messages that \<open>world\<close> counts are those of one clock.
  Opening sockets and devices and the threads (the rest of \<^verbatim>\<open>ptp_sock.c\<close> and
  \<^verbatim>\<open>ptp_main.c\<close>), which are operating system calls; a queue that is full, where
  \<open>mq_send\<close> blocks.
\<close>

declare One_nat_def [simp del] upt_Suc [simp del]

subsection \<open>The state decision\<close>

text \<open>
  C1.  Whatever the ports were doing, after \<open>handle_state_decision\<close> of a clock
  that may be a master the only port in a slave state is the one that hears the
  best master, and there is none when the clock itself is the best.
\<close>

theorem decision_one_slave:
  assumes "tables_ok w" and "\<not> cflag cf_no_announce w" and "clock_class (w_clock w) \<noteq> 255"
  shows "{n. 1 \<le> n \<and> n \<le> c_cnt (w_clock w) \<and>
            p_state (port n (handle_state_decision w)) \<in> {PTP_S_SLAVE, PTP_S_UNCALIBRATED}} \<subseteq>
         (case c_best (w_clock (handle_state_decision w)) of None \<Rightarrow> {} | Some (n, k) \<Rightarrow> {n})"
proof
  fix n assume "n \<in> {n. 1 \<le> n \<and> n \<le> c_cnt (w_clock w) \<and>
      p_state (port n (handle_state_decision w)) \<in> {PTP_S_SLAVE, PTP_S_UNCALIBRATED}}"
  then have "\<exists>k. c_best (w_clock (handle_state_decision w)) = Some (n, k)"
    using only_best_port_slave [OF assms, of n] by auto
  then show "n \<in> (case c_best (w_clock (handle_state_decision w)) of None \<Rightarrow> {} | Some (n, k) \<Rightarrow> {n})" by auto
qed

theorem decision_one_slave_witness:
  "{n. 1 \<le> n \<and> n \<le> 2 \<and> p_state (port n (handle_state_decision sample_world)) \<in> {PTP_S_SLAVE, PTP_S_UNCALIBRATED}} \<subseteq> {1}"
  using decision_one_slave [OF sample_tables sample_announce] sample_class
  by (simp add: sample_best) (simp add: sample_world_def sample_clock_def)





text \<open>
  C4.  In every state a clock reaches from a consistent start by Announce
  messages, timeouts, faults and port events, the tables of foreign masters are
  consistent (a master is valid exactly when it was heard as often as the
  profile asks, and knows its port), and each port data set shows the state of
  its port.
\<close>

theorem protocol_invariant:
  assumes "reachable w v" and "clock_inv w"
  shows "clock_inv v"
  using assms by (rule clock_inv_reachable)

theorem protocol_invariant_witness:
  "clock_inv (handle_state_decision sample_world)"
  by (rule protocol_invariant [OF reachable.more [OF reachable.start step.decide] sample_inv])



text \<open>
  C6.  \<open>port_set_state\<close> puts the port in the state it is given, and its data
  set with it, and changes the state of no other port, for every state but the
  initial one, which \<open>port_initialize\<close> replaces.
\<close>

theorem set_state_effect:
  assumes "n < length (c_ports (w_clock w))" and "s \<noteq> PTP_S_INITIALIZING" and "p_state (port n w) \<noteq> s"
  shows "map (\<lambda>p. (p_state p, pds_portState (p_ds p))) (c_ports (w_clock (port_set_state n s w))) =
    (map (\<lambda>p. (p_state p, pds_portState (p_ds p))) (c_ports (w_clock w)))[n := (s, s)]"
  using port_set_state_states [OF assms(1,2)] assms(3) by (simp add: pstates_def pstate_def [abs_def])

theorem set_state_effect_witness:
  "map (\<lambda>p. (p_state p, pds_portState (p_ds p))) (c_ports (w_clock (port_set_state 2 PTP_S_MASTER sample_world))) =
   [(PTP_S_LISTENING, PTP_S_LISTENING), (PTP_S_LISTENING, PTP_S_LISTENING), (PTP_S_MASTER, PTP_S_MASTER)]"
proof -
  have "2 < length (c_ports (w_clock sample_world))" "p_state (port 2 sample_world) \<noteq> PTP_S_MASTER" by code_simp+
  then show ?thesis using set_state_effect [of 2 sample_world PTP_S_MASTER]
    by (simp add: sample_world_def sample_clock_def sample_port_def sample_pds_def One_nat_def)
qed



text \<open>
  Nothing one port does touches the state of another, in any state,
  initialisation included; only the host port may become a slave by it.
\<close>

theorem set_state_confined:
  assumes "n < length (c_ports (w_clock w))" and "j < length (c_ports (w_clock w))" and "j \<noteq> n" and "j \<noteq> 0"
  shows "p_state (port j (port_set_state n s w)) = p_state (port j w) \<and>
    pds_portState (p_ds (port j (port_set_state n s w))) = pds_portState (p_ds (port j w))"
  using confined_set_state [OF assms(1), of s] assms(2-) confined_length [OF confined_set_state [OF assms(1), of s]]
  by (auto simp: confined_def pstates_nth pstate_def)

theorem set_state_confined_witness:
  "p_state (port 2 (port_set_state 1 PTP_S_INITIALIZING sample_world)) = PTP_S_LISTENING"
proof -
  have "1 < length (c_ports (w_clock sample_world))" "2 < length (c_ports (w_clock sample_world))"
    "p_state (port 2 sample_world) = PTP_S_LISTENING" by code_simp+
  then show ?thesis using set_state_confined [of 1 sample_world 2 PTP_S_INITIALIZING] by simp
qed

subsection \<open>The comparison of masters\<close>



text \<open>
  \<open>find_best_master\<close> returns a valid entry of least key, and \<open>NULL\<close> only
  when no entry is valid.
\<close>

theorem best_of_table:
  assumes "\<forall>f \<in> set ms. fd_valid f \<longrightarrow> fd_dataset f \<in> announced q"
  shows "case find_best_master ms of
      None \<Rightarrow> \<forall>f \<in> set ms. \<not> fd_valid f
    | Some i \<Rightarrow> i < length ms \<and> fd_valid (ms ! i) \<and>
        (\<forall>f \<in> set ms. fd_valid f \<longrightarrow> ds_key (fd_dataset (ms ! i)) \<le> ds_key (fd_dataset f))"
proof (cases "\<exists>f \<in> set ms. fd_valid f")
  case True
  then show ?thesis using find_best_master_least [OF assms] by auto
next
  case False
  then have "find_best_master ms = None" using find_best_master_none by blast
  then show ?thesis using False by simp
qed

theorem best_of_table_witness:
  "ds_key (sample_ds 1 6 1) \<le> ds_key (sample_ds 2 7 2) \<and>
   find_best_master [sample_master 2 7 2, sample_master 1 6 1] = Some 1"
proof -
  have b: "find_best_master [sample_master 2 7 2, sample_master 1 6 1] = Some 1" by code_simp
  show ?thesis
    using best_of_table [of "[sample_master 2 7 2, sample_master 1 6 1]" sample_quality] sample_announced
    by (simp add: b sample_master_def One_nat_def) (use b in \<open>simp add: sample_master_def One_nat_def\<close>)
qed

subsection \<open>Messages\<close>



subsection \<open>The delay filter and the servo\<close>

text \<open>
  C12.  However many samples it was fed, the moving median returns the median
  of the last \<open>len\<close> of them.
\<close>

theorem moving_median_correct:
  assumes "mm_inv m" and "mm_window m = []" and "\<forall>y \<in> set (xs @ [x]). \<bar>y\<bar> < 2 ^ 62"
  shows "fst (filter_sample (filter_samples m xs) x) = median_of (last_n (mm_len m) (xs @ [x]))"
  unfolding filter_samples_feed by (rule delay_filter.feed_median [OF assms])

theorem moving_median_correct_witness:
  "fst (filter_sample (filter_samples (f_median sample_filter) [700, 300, 500]) 900) = 700"
proof -
  have i: "mm_inv (f_median sample_filter)" "mm_window (f_median sample_filter) = []" by code_simp+
  have "median_of (last_n (mm_len (f_median sample_filter)) ([700, 300, 500] @ [900])) = 700" by code_simp
  then show ?thesis using moving_median_correct [OF i, of "[700, 300, 500]" 900] by simp
qed

text \<open>
  C13.  With equal rates the computed delay is half the round trip, to within
  the rounding of half a nanosecond, and 1 when it is not plausible.
\<close>

theorem path_delay_exact:
  assumes "ts_ok (f_t1 f)" "ts_ok (f_t2 f)" "ts_ok (f_t3 f)" "ts_ok (f_t4 f)" and "f_clock_ratio f = Fin 1"
  shows "\<exists>d. calc_delay f = Some (if d < 0 \<or> d > 10000 then 1 else d) \<and>
    \<bar>d * 2 ^ 17 + 2 ^ 16 - ((ptu_val (f_t2 f) - ptu_val (f_t3 f)) + (ptu_val (f_t4 f) - ptu_val (f_t1 f)))\<bar> \<le> 2 ^ 16 + 2"
  using calc_delay_exact [OF assms] unfolding half_round_trip_def by metis

theorem path_delay_exact_witness:
  "\<exists>d. calc_delay (sample_filter\<lparr>f_t2 := \<lparr>u_sec = 0, u_nsec = 65536000\<rparr>\<rparr>) = Some (if d < 0 \<or> d > 10000 then 1 else d) \<and>
    \<bar>d * 2 ^ 17 + 2 ^ 16 - 65536000\<bar> \<le> 2 ^ 16 + 2"
  using path_delay_exact [of "sample_filter\<lparr>f_t2 := \<lparr>u_sec = 0, u_nsec = 65536000\<rparr>\<rparr>"]
  by (simp add: sample_filter_def ts_ok_def ptu_canon_def ptu_zero_def ptu_val_def)

text \<open>
  C14.  The filter stays consistent and only hands out plausible delays.
\<close>

theorem filter_delay_plausible:
  assumes "filter_inv f" and "filter_update_delay f = Some (res, f')"
  shows "filter_inv f' \<and> (case res of Inl _ \<Rightarrow> True | Inr (d, raw) \<Rightarrow> 0 \<le> d \<and> d \<le> 10000 \<and> f_delay_valid f')"
  using filter_update_delay_inv [OF assms] by (auto split: sum.split)

theorem filter_delay_plausible_witness:
  "filter_inv (snd (the (filter_update_delay (sample_filter\<lparr>f_t2 := \<lparr>u_sec = 0, u_nsec = 65536000\<rparr>, f_t3 := \<lparr>u_sec = 0, u_nsec = 65536\<rparr>\<rparr>))))"
proof -
  let ?f = "sample_filter\<lparr>f_t2 := \<lparr>u_sec = 0, u_nsec = 65536000\<rparr>, f_t3 := \<lparr>u_sec = 0, u_nsec = 65536\<rparr>\<rparr>"
  have i: "filter_inv ?f" by code_simp
  have "calc_delay ?f \<noteq> None" "\<not> (ptu_empty (f_t2 ?f) \<or> ptu_empty (f_t3 ?f))" by code_simp+
  then obtain r where r: "filter_update_delay ?f = Some r"
    by (auto simp: filter_update_delay_def Let_def split: prod.splits)
  then show ?thesis using filter_delay_plausible [OF i, of "fst r" "snd r"] by simp
qed

text \<open>
  C15.  The offset from the master is the exact difference of the timestamps
  less the path delay.
\<close>

theorem offset_exact:
  assumes "ts_ok (f_t1 f)" "ts_ok (f_t2 f)" and "\<not> ptu_empty (f_t1 f)" "\<not> ptu_empty (f_t2 f)"
    and "f_delay_valid f \<longrightarrow> 0 \<le> f_delay f \<and> f_delay f \<le> 10000"
  shows "\<exists>u. filter_update_offset f = Inr u \<and> ptu_canon u \<and>
    ptu_val u = ptu_val (f_t2 f) - ptu_val (f_t1 f) - (if f_delay_valid f then f_delay f * 2 ^ 16 else 0)"
  using filter_update_offset_exact [OF assms] by metis

theorem offset_exact_witness:
  "\<exists>u. filter_update_offset (sample_filter\<lparr>f_t1 := \<lparr>u_sec = 1, u_nsec = 0\<rparr>, f_t2 := \<lparr>u_sec = 1, u_nsec = 65536\<rparr>\<rparr>) = Inr u \<and>
    ptu_canon u \<and> ptu_val u = 65536"
  using offset_exact [of "sample_filter\<lparr>f_t1 := \<lparr>u_sec = 1, u_nsec = 0\<rparr>, f_t2 := \<lparr>u_sec = 1, u_nsec = 65536\<rparr>\<rparr>"]
  by (simp add: sample_filter_def ts_ok_def ptu_canon_def ptu_empty_def ptu_val_def)

text \<open>
  C16.  The servo never divides by zero and every adjustment it accepts is in
  the range of the hardware.
\<close>

theorem servo_in_range:
  "\<exists>rc s' adj' state'. servo_sample s offset ingress adj state = Some (rc, s', adj', state') \<and>
    (rc = 0 \<longrightarrow> \<bar>adj'\<bar> \<le> MAX_DRIFT_CORR \<and> sv_last_freq s' = adj')"
proof -
  obtain rc s' adj' state' where r: "servo_sample s offset ingress adj state = Some (rc, s', adj', state')"
    using servo_sample_returns [of s offset ingress adj state] by (cases "servo_sample s offset ingress adj state") auto
  then show ?thesis using servo_sample_adj [of s offset ingress adj state s' adj' state'] by blast
qed

theorem servo_in_range_witness:
  "\<exists>rc s' adj' state'. servo_sample (c_servo sample_clock) ptu_zero ptu_zero 0 SERVO_UNLOCKED = Some (rc, s', adj', state') \<and>
    (rc \<noteq> 0 \<or> \<bar>adj'\<bar> \<le> 6250000 \<and> sv_last_freq s' = adj')"
  using servo_in_range [of "c_servo sample_clock" ptu_zero ptu_zero 0 SERVO_UNLOCKED] by auto

text \<open>
  C17.  Once locked the servo is a proportional-integral controller: the output
  is the rounded, limited sum of both terms and the integral only moves while
  the output is not limited.
\<close>

theorem servo_control_law:
  assumes "sv_drift_valid s" and "\<bar>n\<bar> < MAX_OFFSET_ADJ_ALLOWED"
    and "\<bar>sv_kp s\<bar> \<le> 1000000" "\<bar>sv_ki s\<bar> \<le> 1000000" "\<bar>sv_drift s\<bar> \<le> 1000000000000"
  shows "servo_pi s n adj state =
    (let u = round_thousandth (sv_kp s * n + sv_ki s * n + sv_drift s)
     in (if \<bar>u\<bar> \<le> MAX_DRIFT_CORR then s\<lparr>sv_drift := sv_drift s + sv_ki s * n\<rparr> else s,
         max (- MAX_DRIFT_CORR) (min MAX_DRIFT_CORR u), SERVO_LOCKED))"
  using servo_pi_law [OF assms] by (simp add: Let_def)

theorem servo_control_law_witness:
  "fst (snd (servo_pi ((c_servo sample_clock)\<lparr>sv_drift_valid := True\<rparr>) 40 0 SERVO_LOCKING)) = 40"
  using servo_control_law [of "(c_servo sample_clock)\<lparr>sv_drift_valid := True\<rparr>" 40 0 SERVO_LOCKING]
  by (simp add: sample_clock_def round_thousandth_def Let_def)

text \<open>
  C18.  Addition and subtraction of scaled times are exact below \<open>2 ^ 61\<close>
  seconds and keep the canonical form; comparison is the order of the values.
\<close>

theorem time_arithmetic_exact:
  assumes "ptu_canon x" "ptu_canon y" and "\<bar>ptu_val x\<bar> \<le> ptu_lim" "\<bar>ptu_val y\<bar> \<le> ptu_lim"
  shows "ptu_canon (ptu_add x y) \<and> ptu_val (ptu_add x y) = ptu_val x + ptu_val y \<and>
    ptu_canon (ptu_sub x y) \<and> ptu_val (ptu_sub x y) = ptu_val x - ptu_val y \<and>
    ptu_after x y = (ptu_val y < ptu_val x)"
  using ptu_add_exact [OF assms] ptu_sub_exact [OF assms] ptu_after_val [OF assms(1,2)] by simp

theorem time_arithmetic_exact_witness:
  "ptu_val (ptu_sub \<lparr>u_sec = 1, u_nsec = 5\<rparr> \<lparr>u_sec = 0, u_nsec = 7\<rparr>) = 65536000000000 - 2"
  using time_arithmetic_exact [of "\<lparr>u_sec = 1, u_nsec = 5\<rparr>" "\<lparr>u_sec = 0, u_nsec = 7\<rparr>"]
  by (simp add: ptu_canon_def ptu_val_def ptu_lim_def)

subsection \<open>Timers and works\<close>



text \<open>
  Scheduling works, in any sequence and however often, queues each once,
  behind what was queued before.
\<close>

theorem schedule_works_once:
  assumes "sched_inv s"
  shows "sched_inv (fold schedule_work ws s) \<and> distinct (si_queue (fold schedule_work ws s)) \<and>
    set (si_queue (fold schedule_work ws s)) = set (si_queue s) \<union> set ws \<and>
    take (length (si_queue s)) (si_queue (fold schedule_work ws s)) = si_queue s"
proof -
  have f: "fold schedule_work ws q = immediate.sched_all ws q" for ws and q :: "'a ksz_schedule_info"
    by (induction ws arbitrary: q) simp_all
  obtain new where "si_queue (immediate.sched_all ws s) = si_queue s @ new"
    using immediate.sched_all_prefix [OF assms] by blast
  then show ?thesis
    using immediate.sched_all_inv [OF assms, of ws] immediate.sched_all_set [OF assms, of ws]
    by (auto simp: f sched_inv_def)
qed

theorem schedule_works_once_witness:
  "set (si_queue (fold schedule_work [W_sync, W_signaling, W_sync] (w_sched sample_world))) = {W_sync, W_signaling}"
  using schedule_works_once [of "w_sched sample_world" "[W_sync, W_signaling, W_sync]"]
  by (simp add: sched_inv_def sample_world_def insert_commute)

text \<open>
  A started timer is armed for its ticks, a stopped one is not armed, and
  the conversion of ticks for the kernel is exact.
\<close>

theorem timer_start_stop:
  assumes "xTicks \<noteq> 0" and "t_period t \<noteq> 0"
  shows "t_armed (ksz_start_timer t xTicks) = Some (xTicks, if t_repeat t then t_period t else 0) \<and>
    t_armed (ksz_stop_timer (ksz_start_timer t xTicks)) = None \<and> t_max (ksz_stop_timer (ksz_start_timer t xTicks)) = 0 \<and>
    (\<exists>s n. convert_ticks_to_ns xTicks = (s, n) \<and> 0 \<le> n \<and> n < 1000000000 \<and> s * 1000000000 + n = uint xTicks * 1000000)"
  using start_timer_armed [OF assms] stop_timer_disarms [of "ksz_start_timer t xTicks"] convert_ticks_exact [of xTicks]
  by fastforce

theorem timer_start_stop_witness: "t_armed (ksz_start_timer sample_timer 250) = Some (250, 1000)"
  using timer_start_stop [of 250 sample_timer] by (simp add: sample_timer_def)

subsection \<open>Message intervals\<close>

text \<open>
  An interval in milliseconds grows with its logarithm and stays between
  1 ms and 256 s.
\<close>

theorem interval_bounds:
  assumes "i \<le> j"
  shows "1 \<le> ptp_interval_to_ms i \<and> ptp_interval_to_ms i \<le> ptp_interval_to_ms j \<and> ptp_interval_to_ms j \<le> 256000"
  using ptp_interval_to_ms_bounds [of i] ptp_interval_to_ms_bounds [of j] ptp_interval_to_ms_mono [OF assms] by simp

theorem interval_bounds_witness: "ptp_interval_to_ms (- 3) \<le> ptp_interval_to_ms 0"
  using interval_bounds [of "- 3" 0] by simp

text \<open>
  The interval chosen for a time below one second is the least power of
  two that is not shorter.
\<close>

theorem interval_least:
  assumes "us < 1000000"
  shows "\<exists>n. us_to_ptp_interval us = - 4 + int n \<and> us \<le> 62500 * 2 ^ n \<and> (\<forall>j < n. 62500 * 2 ^ j < us) \<and> n \<le> 4"
  using assms by (rule us_to_ptp_interval_micros)

theorem interval_least_witness: "\<exists>n. us_to_ptp_interval 125000 = - 4 + int n \<and> 125000 \<le> 62500 * (2::int) ^ n"
  using interval_least [of 125000] by auto

text \<open>
  A randomised interval differs from the interval by less than the given
  share of it, whatever the random number.
\<close>

theorem random_interval_spread:
  assumes "0 < ms" "ms \<le> 256000" "0 < percent" "percent \<le> 100" "0 \<le> rand" "100 \<le> ms * percent"
  shows "\<exists>r. ptp_random_ms rand ms percent = Some r \<and> \<bar>r - ms\<bar> < ms * percent div 100"
  using ptp_random_ms_spread [OF assms] by metis

theorem random_interval_spread_witness: "\<exists>r. ptp_random_ms 65599 1000 10 = Some r \<and> \<bar>r - 1000\<bar> < 100"
  using random_interval_spread [of 1000 10 65599] by simp

subsection \<open>Frames\<close>

text \<open>
  C21.  Over Ethernet \<open>send_msg\<close> returns, and the frame is the multicast address,
  the own address increased by the index of the port, the protocol and the
  message.  A station of another address that receives the frame hands exactly the
  message to its stack, with the port and the time of the driver, whatever older
  packets left in its buffer; a second copy of the frame is dropped.
\<close>

theorem frame_delivered:
  assumes "6 \<le> length (ip_hwaddr info)" and "length m1 = 4018" and "length m2 = 4018" and "length (so_eth_others v) = 6"
    and "wire_length net = Some len" and "34 \<le> len" and "len \<le> 4004" and "len \<le> length net" and "2 \<le> versionPTP net"
    and "check_loop u (SA_ll pr ifx ht pt hl a) = 0" and "get_bytes 14 len (sb_buf (rt_last t)) \<noteq> take len net"
    and "2 \<le> ver" and "ts (take 34 net) = Some (p, sec, ns)" and "p < 256"
  shows "\<exists>addr frame v' t'.
    send_msg schar net AF_PACKET 0 index (create_raw info None m1 m2 (own_addresses info v)) = Some ((Eth_fd, addr, frame), net, v') \<and>
    frame = (if is_pdelay (messageType net) \<or> so_eth_others v ! 0 = 0 then eth_pdelay else so_eth_others v) @
      take 3 (ip_hwaddr info) @ inc_mac_addr schar (get_bytes 3 3 (ip_hwaddr info)) index @ [0x88, 0xF7] @ take len net \<and>
    receive_packet ver True ts u (SA_ll pr ifx ht pt hl a) frame (t, w) =
      map_option (Pair t') (ptp_setup_rx (take len net) p sec ns False (Some (take 6 a)) True 0 w) \<and>
    (\<forall>x. \<exists>t''. receive_packet ver True ts u (SA_ll pr ifx ht pt hl a) frame (t', x) = Some (t'', x))"
proof -
  let ?h = "(if is_pdelay (messageType net) \<or> so_eth_others v ! 0 = 0 then eth_pdelay else so_eth_others v) @
      take 3 (ip_hwaddr info) @ inc_mac_addr schar (get_bytes 3 3 (ip_hwaddr info)) index @ [0x88, 0xF7]"
  have h: "length ?h = 14" using assms(1,4) by (simp add: get_bytes_def)
  have m: "length (take len net) = len" "34 \<le> length (take len net)" using assms(6,8) by simp_all
  note whole = header_append [OF m(2), of "drop len net"] wire_length_append [OF m(2), of "drop len net"]
  have n: "wire_length (take len net) = Some len" "2 \<le> versionPTP (take len net)" "take 34 (take len net) = take 34 net"
    using assms(5,6,9) whole by simp_all
  have "take 3 (take 6 (ip_hwaddr info)) = take 3 (ip_hwaddr info)" "drop 3 (take 6 (ip_hwaddr info)) = get_bytes 3 3 (ip_hwaddr info)"
    by (simp_all add: get_bytes_def drop_take)
  then obtain addr v' where "send_msg schar net AF_PACKET 0 index (create_raw info None m1 m2 (own_addresses info v)) =
      Some ((Eth_fd, addr, ?h @ take len net), net, v')"
    using send_raw [OF assms(1-5,7,8), of schar index] by auto
  moreover obtain t' where "receive_packet ver True ts u (SA_ll pr ifx ht pt hl a) (?h @ take len net) (t, w) =
      map_option (Pair t') (ptp_setup_rx (take len net) p sec ns False (Some (take 6 a)) True 0 w)"
    "\<forall>x. \<exists>t''. receive_packet ver True ts u (SA_ll pr ifx ht pt hl a) (?h @ take len net) (t', x) = Some (t'', x)"
    using receive_raw [OF h m(2) _ n(2) assms(10) _ assms(12), of t ts "Some (p, sec, ns)" w] assms(11,13,14) n(1,3) m(1)
    by auto
  ultimately show ?thesis by (metis append_assoc)
qed

theorem frame_delivered_witness:
  "\<exists>addr frame v'. send_msg False sample_net AF_PACKET 0 2 (create_raw sample_info None (replicate 4018 0) (replicate 4018 0)
      (own_addresses sample_info sample_sock)) = Some ((Eth_fd, addr, frame), sample_net, v') \<and>
    frame = [0x01, 0x1B, 0x19, 0, 0, 0] @ [0, 1, 2] @ [3, 4, 7] @ [0x88, 0xF7] @ sample_net"
proof -
  have len: "length sample_net = 44" "take 44 sample_net = sample_net" "wire_length sample_net = Some 44" "2 \<le> versionPTP sample_net"
    "\<not> is_pdelay (messageType sample_net)" by code_simp+
  have facts: "get_bytes 3 3 (ip_hwaddr sample_info) = [3, 4, 5]" "take 3 (ip_hwaddr sample_info) = [0, 1, 2]"
    "inc_mac_addr False [3, 4, 5] 2 = [3, 4, 7]" "so_eth_others sample_sock = [0x01, 0x1B, 0x19, 0, 0, 0]"
    "length (ip_hwaddr sample_info) = 6" "check_loop sample_sock (SA_ll 0 3 0 0 6 (replicate 8 9)) = 0"
    "get_bytes 14 44 (sb_buf (rt_last sample_task)) \<noteq> sample_net" by code_simp+
  show ?thesis
    using frame_delivered [of sample_info "replicate 4018 0" "replicate 4018 0" sample_sock sample_net 44 sample_sock 0 3 0 0 6
        "replicate 8 9" sample_task 2 "\<lambda>_. Some (1, 5, 7)" 1 5 7 False 2 sample_world]
    by (auto simp: len facts)
qed

text \<open>
  C22.  The last three bytes of an address as a number: \<open>inc_mac_id\<close> (the identity
  of a clock) and \<open>inc_mac_addr\<close> (the source address of a port) add exactly,
  modulo \<open>2 ^ 24\<close>, when \<open>char\<close> is unsigned.  When it is signed, a last byte that
  becomes \<open>0x80\<close> or more carries although it has not wrapped, and the address is
  256 too high.
\<close>

theorem source_address:
  "mac_val (inc_mac_id [a, b, c] i) = (mac_val [a, b, c] + unat i) mod 2 ^ 24 \<and>
   mac_val (inc_mac_addr False [a, b, c] i) = (mac_val [a, b, c] + unat i) mod 2 ^ 24 \<and>
   (128 \<le> unat c + unat i \<and> unat c + unat i < 256 \<and> unat b < 127 \<longrightarrow>
      mac_val (inc_mac_addr True [a, b, c] i) = mac_val [a, b, c] + unat i + 256)"
  unfolding inc_mac_same inc_mac_exact using inc_mac_signed by blast

theorem source_address_witness:
  "mac_val (inc_mac_addr False [0, 1, 0xFE] 3) = 0x000201 \<and> mac_val (inc_mac_addr True [0, 1, 0x80] 3) = 0x000283"
proof -
  have f: "mac_val [0, 1, 0xFE] = 0x0001FE" "mac_val [0, 1, 0x80] = 0x000180"
    "unat (0x80 :: u8) = 128" "unat (3 :: u8) = 3" "unat (1 :: u8) = 1"
    by (simp_all add: mac_val_def One_nat_def)
  have "128 \<le> unat (0x80 :: u8) + unat (3 :: u8)" "unat (0x80 :: u8) + unat (3 :: u8) < 256" "unat (1 :: u8) < 127"
    unfolding f by simp_all
  with source_address [of 0 1 "0x80" 3] source_address [of 0 1 "0xFE" 3] show ?thesis unfolding f by simp
qed

text \<open>
  C23.  A packet for which the driver has no timestamp belongs to port 0.  An entry
  of the port table that no clock has is found for it, and the stack follows the
  null pointer to its clock: one such packet ends the receive task.
\<close>

theorem unstamped_packet:
  assumes "length h = 14" and "34 \<le> length m" and "wire_length m = Some (length m)" and "2 \<le> versionPTP m"
    and "check_loop u (SA_ll pr ifx ht pt hl a) = 0" and "get_bytes 14 (length m) (sb_buf (rt_last t)) \<noteq> m"
    and "2 \<le> ver" and "ts (take 34 m) = None" and "c_cnt (w_clock w) < 13"
  shows "receive_packet ver True ts u (SA_ll pr ifx ht pt hl a) (h @ m) (t, w) = None"
  using receive_raw [OF assms(1-7), of ts None w] assms(8) unowned_fails [OF assms(9)] by auto

theorem unstamped_packet_witness:
  "receive_packet 2 True (\<lambda>_. None) sample_sock (SA_ll 0 3 0 0 6 (replicate 8 9)) (replicate 14 0 @ sample_net) (sample_task, sample_world) = None"
proof -
  have "length sample_net = 44" "wire_length sample_net = Some 44" "2 \<le> versionPTP sample_net" by code_simp+
  moreover have "check_loop sample_sock (SA_ll 0 3 0 0 6 (replicate 8 9)) = 0"
    "get_bytes 14 44 (sb_buf (rt_last sample_task)) \<noteq> sample_net" by code_simp+
  moreover have "c_cnt (w_clock sample_world) < 13" by (simp add: sample_world_def sample_clock_def)
  ultimately show ?thesis using unstamped_packet [of "replicate 14 0" sample_net] by simp
qed

subsection \<open>The saved configuration\<close>

text \<open>
  C24.  Take tables of 3 profiles and 8 ports whose signed values fit their width
  and whose flags are two-step, grandmaster capable, common delay service and at
  most one delay mechanism.  A configuration file that lists them (a section for the global
  values, for each profile and for each port, a line \<open>name value\<close> for each
  parameter), read by \<open>init_config\<close>, gives exactly that configuration, whatever
  the tables held before.
\<close>

theorem config_file_round_trip:
  assumes "store_fits s" and "store_fits t"
  shows "init_config big (Some (config_text s)) t = (0, s)"
  using assms by (rule init_config_text)

theorem config_file_round_trip_witness:
  "init_config id (Some (config_text default_store)) (copy_first default_store) = (0, default_store)"
proof -
  have "store_fits (copy_first default_store)" by code_simp
  then show ?thesis by (rule config_file_round_trip [OF default_ok(3)])
qed

subsection \<open>Message buffers\<close>

text \<open>
  C25.  Whatever the tasks do, in any order (messages and timestamps that come
  in, the process task, works, link changes, stopping), the reference count of a
  buffer is the number of pointers to it, no pointer of the clock or of the
  queue dangles, and \<open>alloc_msg_cnt\<close> is the number of buffers pointed to: no
  buffer is lost.
\<close>

theorem message_refcounts:
  assumes "stack_run w w'" and "mem_ok (w_msgs w) []"
  shows "(\<forall>a m. get_msg a w' = Some m \<longrightarrow> unat (m_refcnt m) = refs (w_msgs w') [] a \<and> 0 < refs (w_msgs w') [] a) \<and>
    (\<forall>s a. slot_of s w' = Some a \<longrightarrow> get_msg a w' \<noteq> None) \<and>
    (\<forall>a \<in> set (st_queue (w_msgs w')). get_msg a w' \<noteq> None) \<and>
    mh_cnt (st_heap (w_msgs w')) = int (card {a. 0 < refs (w_msgs w') [] a})"
proof -
  have ok: "store_ok (w_msgs w') []" using mem_run [OF assms] by (simp add: mem_ok_def)
  then have c: "counted (st_heap (w_msgs w')) (refs (w_msgs w') [])" by (simp add: store_ok_def)
  have live: "get_msg a w' \<noteq> None" if "0 < refs (w_msgs w') [] a" for a
    using counted_live [OF c that] by (auto simp: get_msg_def)
  have "unat (m_refcnt m) = refs (w_msgs w') [] a \<and> 0 < refs (w_msgs w') [] a" if "get_msg a w' = Some m" for a m
    using that counted_dead [OF c, of a] counted_live [OF c, of a] by (fastforce simp: get_msg_def)
  then show ?thesis using live refs_pos(1) [of "w_msgs w'"] refs_pos(2) [of _ "w_msgs w'"] store_cnt [OF ok] by blast
qed

theorem message_refcounts_witness:
  "mh_cnt (st_heap (w_msgs (clock_stop (proc_link_status 1 2 sample_world)))) =
   int (card {a. 0 < refs (w_msgs (clock_stop (proc_link_status 1 2 sample_world))) [] a})"
  using message_refcounts [OF run_step [OF run_step [OF run_refl step_link [of sample_world 1 2]] step_stop] sample_mem]
  by simp

text \<open>
  C26.  After any run, once the queue is empty, \<open>clock_delete_ptp_msg\<close> returns
  and gives back every buffer.
\<close>

theorem message_no_leak:
  assumes "stack_run w w'" and "mem_ok (w_msgs w) []" and "st_queue (w_msgs w') = []"
  shows "\<exists>v. clock_delete_ptp_msg w' = Some v \<and> mh_cnt (st_heap (w_msgs v)) = 0 \<and> (\<forall>a. get_msg a v = None)"
proof -
  have ok: "mem_ok (w_msgs w') []" by (rule mem_run [OF assms(1,2)])
  obtain v where v: "clock_delete_ptp_msg w' = Some v" using delete_returns [OF ok] by blast
  have "store_ok (w_msgs v) []" using contract_delete(1) [OF v] ok by (simp add: keeps_def mem_ok_def)
  moreover have "refs (w_msgs v) [] a = 0" for a
    using no_pointers [of "w_msgs v"] contract_delete(2) [OF v] delete_queue [OF v] assms(3) by simp
  ultimately show ?thesis
    using v store_cnt [of "w_msgs v" "[]"] counted_dead [of "st_heap (w_msgs v)" "refs (w_msgs v) []"]
    by (simp add: store_ok_def get_msg_def)
qed

theorem message_no_leak_witness:
  "\<exists>v. clock_delete_ptp_msg (clock_stop sample_world) = Some v \<and> mh_cnt (st_heap (w_msgs v)) = 0 \<and> (\<forall>a. get_msg a v = None)"
  using message_no_leak [OF run_step [OF run_refl step_stop [of sample_world]] sample_mem]
  by (simp add: sample_world_def sample_store_def)

subsection \<open>TLVs\<close>

text \<open>
  C27.  A clock that adds itself to the path trace of an Announce is found there:
  the next clock that checks the message sees every clock it has passed, so that
  an Announce that comes back is recognised.
\<close>

theorem path_trace_loop:
  assumes "length own = 8" and "64 \<le> messageLength m" and "chain 64 (messageLength m - 64) m"
    and "unat (messageLength m) + 12 < 65536" and "unat (messageLength m) + 12 \<le> length m"
    and "path_trace_place m \<noteq> Some None"
  shows "\<exists>m'. clock_add_path_trace own m = Some m' \<and> check_path_trace own m' = Some True \<and>
    (\<forall>i. check_path_trace i m = Some True \<longrightarrow> check_path_trace i m' = Some True)"
  by (rule path_trace_self [OF assms])

theorem path_trace_loop_witness:
  "\<exists>m'. clock_add_path_trace (sample_id 9) traced_sample = Some m' \<and> check_path_trace (sample_id 9) m' = Some True"
proof -
  have "chain 64 (64 - 64) traced_sample" by (subst chain.simps) simp
  moreover have "path_trace_place traced_sample \<noteq> Some None" by (simp add: path_trace_place_def traced_sample_facts)
  ultimately show ?thesis
    using path_trace_loop [of "sample_id 9" traced_sample] by (auto simp: traced_sample_facts sample_id_def)
qed

text \<open>
  C28.  The search for a TLV ends on every message whose TLVs have lengths below
  \<open>0xFFFC\<close>, and what it returns is right: a TLV found has the type asked for and
  lies inside the bytes that were left, with as many behind it as it says.
\<close>

theorem tlv_search:
  assumes "chain k left m"
  shows "\<exists>r. ptp_find_tlv k type left m = Some r \<and> r \<noteq> Tlv_bad \<and> found_ok k type left m r"
  using chain_found [OF assms] find_sound by blast

theorem tlv_search_witness:
  "\<exists>r. ptp_find_tlv 0 8 12 [8, 0, 8, 0, 1, 2, 3, 4, 5, 6, 7, 8] = Some r \<and> r \<noteq> Tlv_bad \<and>
    found_ok 0 8 12 [8, 0, 8, 0, 1, 2, 3, 4, 5, 6, 7, 8] r"
proof (rule tlv_search)
  have "chain 12 0 [8, 0, 8, 0, 1, 2, 3, 4, 5, 6, 7, 8]" by (subst chain.simps) simp
  then show "chain 0 12 [8, 0, 8, 0, 1, 2, 3, 4, 5, 6, 7, 8]"
    by (subst chain.simps) (simp add: size_at_def rd.simps)
qed

text \<open>
  C29.  One Announce of 76 bytes from the network stops a clock for good: after
  the conversion of its TLVs the search for the path trace stands on a TLV whose
  length wraps to 0, does not move, and \<open>ptp_rx\<close> does not return.
\<close>

theorem announce_hang:
  assumes "rx_accepted n bad_announce w" and "\<not> port_is_aed (port n w)"
    and "memcmp (c_id (w_clock w)) [1, 2, 3, 4, 5, 6, 7, 8] \<noteq> 0"
    and "mh_malloc (st_heap (w_msgs w)) (mh_next (st_heap (w_msgs w))) 76 = Some mem" and "length mem = 76"
  shows "ptp_msg_rx bad_announce = Some bad_received \<and>
    size_at 64 bad_received = 0 \<and> rd (64, 2) bad_received \<noteq> TLV_PATH_TRACE \<and> 64 + 4 \<le> length bad_received \<and>
    ptp_find_tlv 64 TLV_PATH_TRACE (messageLength bad_received - 64) bad_received = None \<and>
    ptp_rx n bad_announce rx False src w = None"
  using rx_bad_announce [OF assms] bad_announce_rx find_stuck [OF bad_announce_stuck] bad_announce_stuck
  by (simp add: stuck_def size_at_def One_nat_def)

theorem announce_hang_witness: "ptp_rx 1 bad_announce None False None gptp_world = None"
proof -
  have "rx_accepted 1 bad_announce gptp_world"
    by (simp add: rx_accepted_def own_domain_def gptp_world_facts bad_announce_facts sample_port_nth sample_port_def)
  moreover have "\<not> port_is_aed (port 1 gptp_world)" unfolding gptp_world_facts sample_port_nth by code_simp
  moreover have "memcmp (c_id (w_clock gptp_world)) [1, 2, 3, 4, 5, 6, 7, 8] \<noteq> 0" unfolding gptp_world_facts by code_simp
  ultimately show ?thesis
    using announce_hang [of 1 gptp_world "replicate 76 0" None None] by (simp add: gptp_world_facts sample_store_def)
qed

subsection \<open>Announce, Sync and Follow_Up\<close>



text \<open>
  A Sync or a Follow_Up is accepted just when its sequence id is ahead of
  the last one by 1 to \<open>0xFFF0\<close>, counted modulo \<open>2 ^ 16\<close>; the last one itself and
  the 15 before it are refused.
\<close>

theorem seqid_window:
  assumes "0 \<le> s" and "s \<le> 0xFFFF"
  shows "accept_seqid s m \<longleftrightarrow> (\<exists>d \<in> {1..0xFFF0}. uint (sequenceId m) = (s + d) mod 65536)"
  by (rule accept_window [OF assms])

theorem seqid_window_witness: "accept_seqid 0xFFFF (replicate 34 0) \<and> \<not> accept_seqid 7 (wr F_sequenceId 7 (replicate 34 0))"
proof -
  have "uint (sequenceId (replicate 34 0)) = (0xFFFF + 1) mod 65536" by (simp add: sequenceId_def rd.simps numeral_2_eq_2)
  moreover have "uint (sequenceId (wr F_sequenceId 7 (replicate 34 0))) = 7" by (simp add: sequenceId_def)
  ultimately show ?thesis
    using seqid_window [of "0xFFFF" "replicate 34 0"] seqid_window [of 7 "wr F_sequenceId 7 (replicate 34 0)"]
    by (auto intro!: bexI [of _ 1])
qed



text \<open>
  C33.  A bridge forwards a Follow_Up with the correction increased by the time
  the Sync spent on the link and inside the bridge, from its arrival to its
  departure at that port, and with nothing else of it changed but the port.
\<close>

theorem follow_up_corrected:
  assumes "ut_sec (cmsgs cm_last_sync_rx w) \<noteq> 0"
    and "utime_val (cmsgs cm_last_sync_rx w) \<le> utime_val (mi_hw_time (pmsgs pm_tx_sync n w))"
    and "slot_msg Last_fup w = Some (a, m)" and "\<bar>cd_meanPathDelay (c_cur (w_clock w))\<bar> < 2 ^ 62"
    and "\<bar>residence_ns n w\<bar> < 2 ^ 46"
    and "m_msg m = head @ concat hs @ t" and "msg_wf head hs t" and "messageType head = FOLLOW_UP_MSG"
    and "rd F_messageLength head \<le> length (m_msg m)" and "rd F_messageLength head \<le> length (w_tx w)"
  shows "\<exists>b net w'. ptp_fwd_fup n w = Some w' \<and> ptp_msg_rx net = Some b \<and>
    w_out w' = w_out w @ [E_tx_msg net (p_index (port n w)) (port_bit (p_index (port n w))) 7
      (cmsgs cm_transport w \<noteq> 0) (cmsgs cm_vid w) 0 0 None] \<and>
    correctionField b = s64 (correctionField (m_msg m) + residence_ns n w * 2 ^ 16) \<and>
    sequenceId b = sequenceId (m_msg m) \<and> get_timestamp 34 b = get_timestamp 34 (m_msg m) \<and>
    rd F_sourcePort b = unat (p_id (port n w))"
proof -
  obtain v where v: "ptp_fwd_fup n w = port_fwd_fup n (m_msg m) (residence_ns n w * 2 ^ 16) v" "same_but_msgs v w"
    using fwd_fup_residence [OF assms(1-5)] by blast
  then have "w_tx v = w_tx w" "w_out v = w_out w" "port n v = port n w" "cmsgs cm_transport v = cmsgs cm_transport w"
    "cmsgs cm_vid v = cmsgs cm_vid w" by (simp_all add: same_but_msgs_def)
  then show ?thesis
    using fwd_fup_sent [OF assms(7,8,6), of v n "residence_ns n w * 2 ^ 16"] assms(9,10) unfolding v(1) by simp
qed

theorem follow_up_corrected_witness:
  "\<exists>b net w'. ptp_fwd_fup 1 bridge_world = Some w' \<and> ptp_msg_rx net = Some b \<and> correctionField b = 1000 * 2 ^ 16"
proof -
  note h = sample_head_facts [of 8]
  have r: "residence_ns 1 bridge_world = 1000" by (simp add: residence_ns_def bridge_world_facts utime_val_def)
  have "msg_wf (sample_head 8) [] []" using h by (simp add: msg_wf_def body_size_def fixed_types_def)
  moreover have "m_msg (sample_message 8) = sample_head 8 @ concat [] @ []" by (simp add: sample_message_def new_message_def)
  ultimately show ?thesis
    using follow_up_corrected [where w = bridge_world and n = 1 and m = "sample_message 8" and head = "sample_head 8"
        and hs = "[]" and t = "[]"] h
    by (auto simp: bridge_world_facts utime_val_def r s64_id)
qed

text \<open>
  A port whose interval is \<open>mx\<close> times that of the clock sends one Sync in
  \<open>mx\<close>: of \<open>k\<close> Syncs, counted from the reset, \<open>k div mx\<close> go out.
\<close>

theorem sync_rate:
  assumes "mx \<noteq> 0"
  shows "syncs_sent k mx mx = k div unat mx"
  using syncs_sent_count [of mx mx k] assms by simp

theorem sync_rate_witness: "syncs_sent 10 4 4 = 2"
  using sync_rate [of 4 10] by simp

text \<open>
  C35.  A Sync with its corrections returns and leaves the exact offset of the
  clock: the receive time less the corrected origin time and the path delay.
\<close>

theorem sync_offset:
  fixes a b :: int
  assumes "store_ok (w_msgs w) held" and "0 < length (c_ports (w_clock w))"
    and "ut_nsec i < 1000000000" and "ts_nsec t < 1000000000"
    and "\<bar>a\<bar> \<le> 2 ^ 63" and "\<bar>b\<bar> \<le> 2 ^ 63" and "0 < utime_val i"
    and "0 < timestamp_val t + a + b" and "timestamp_val t + a + b < 2 ^ 32 * SCALED_NANOSEC_IN_SEC"
    and "f_delay_valid (dl_filter (hinfo w)) \<longrightarrow> 0 \<le> f_delay (dl_filter (hinfo w)) \<and> f_delay (dl_filter (hinfo w)) \<le> 10000"
  shows "\<exists>s w'. clock_sync (ptp_utime_to_scaled i) (origin_time t a b) w = Some (s, w') \<and>
    ptu_val (c_offset (w_clock w')) = utime_val i - (timestamp_val t + a + b) -
      (if f_delay_valid (dl_filter (hinfo w)) then f_delay (dl_filter (hinfo w)) * 2 ^ 16 else 0)"
proof -
  obtain s w' where r: "clock_sync (ptp_utime_to_scaled i) (origin_time t a b) w = Some (s, w')"
    using sync_returns [OF assms(1), of "ptp_utime_to_scaled i" "origin_time t a b"] by fastforce
  then show ?thesis using sync_offset_exact [OF r assms(2-10)] by blast
qed

theorem sync_offset_witness:
  "\<exists>s w'. clock_sync (ptp_utime_to_scaled \<lparr>ut_sec = 10, ut_nsec = 900\<rparr>)
      (origin_time \<lparr>ts_hi = 0, ts_lo = 10, ts_nsec = 100\<rparr> (50 * 2 ^ 16) (- (2 ^ 16))) sample_world = Some (s, w') \<and>
    ptu_val (c_offset (w_clock w')) = 751 * 2 ^ 16"
proof -
  have "store_ok (w_msgs sample_world) []" using sample_mem by (simp add: mem_ok_def)
  moreover have "\<not> f_delay_valid (dl_filter (hinfo sample_world))" "0 < length (c_ports (w_clock sample_world))" by code_simp+
  ultimately show ?thesis
    using sync_offset [of sample_world "[]" "\<lparr>ut_sec = 10, ut_nsec = 900\<rparr>" "\<lparr>ts_hi = 0, ts_lo = 10, ts_nsec = 100\<rparr>"
        "50 * 2 ^ 16" "- (2 ^ 16)"]
    by (simp add: utime_val_def timestamp_val_def)
qed

subsection \<open>What the code does not check\<close>









subsection \<open>From power-up\<close>

text \<open>
  C40.  \<open>init_stack\<close> and \<open>setup_ptp_hw\<close>, from cleared tables and any saved
  configuration with domains other than 255: a clock they create has its ports
  in ascending order among those of the switch and shares none with another
  clock; in every state it reaches from there the foreign master tables and data
  sets are consistent, and in every run of the stack the message buffers are.
\<close>

theorem boot_clocks:
  assumes "fresh_boot b" and "config_ok (en_store env)" and "\<forall>f \<in> set (ptp_profiles (en_store env)). f_domain f \<noteq> 255"
    and "mem_ok (w_msgs (b_world b)) []"
    and "b' = setup_ptp_hw env (init_stack env ptp_ports mac b)" and "i \<in> set (b_ptr b')"
  shows "(\<forall>v. reachable (clock_world i b') v \<longrightarrow> clock_inv v) \<and>
    (\<forall>v. stack_run (clock_world i b') v \<longrightarrow> mem_ok (w_msgs v) []) \<and>
    sorted_wrt (<) (indices (clock_world i b')) \<and> set (tl (indices (clock_world i b'))) \<subseteq> {1..ptp_ports} \<and>
    (\<forall>j \<in> set (b_ptr b'). j \<noteq> i \<longrightarrow>
       set (tl (indices (clock_world i b'))) \<inter> set (tl (indices (clock_world j b'))) = {})"
proof -
  obtain left where c: "created (switch_ports ptp_ports) left (init_stack env ptp_ports mac b)"
    using init_stack_created(1) [OF assms(1,3,2)] by blast
  have m: "w_msgs (clock_world i b') = w_msgs (b_world b)"
    using setup_hw_ok(4) [OF c] init_stack_created(2) [OF assms(1,3,2)] by (simp add: assms(5))
  have p: "b_ptr b' = b_ptr (init_stack env ptp_ports mac b)" unfolding assms(5) by (rule setup_hw_ok(1) [OF c])
  note start = setup_hw_ok(2,3) [OF c, of _ env, folded assms(5) p]
  note own = created_indices(2) [OF c, folded p] created_range [OF c, folded p] created_disjoint [OF c, folded p]
  have x: "indices (clock_world j b') = indices (clock_world j (init_stack env ptp_ports mac b))" if "j \<in> set (b_ptr b')" for j
    by (rule start(2) [OF that])
  have "set (tl (indices (clock_world i b'))) \<inter> set (tl (indices (clock_world j b'))) = {}"
    if "j \<in> set (b_ptr b')" "j \<noteq> i" for j
    unfolding x [OF that(1)] x [OF assms(6)] using own(3) [OF assms(6) that(1)] that(2) by simp
  moreover have "mem_ok (w_msgs v) []" if "stack_run (clock_world i b') v" for v
    using mem_run [OF that] assms(4) m by simp
  ultimately show ?thesis
    using clock_inv_reachable [OF _ start(1) [OF assms(6)]] own(1,2) [OF assms(6)] x [OF assms(6)] by simp
qed

theorem boot_clocks_witness:
  "clock_inv (clock_world 0 (setup_ptp_hw default_env (init_stack default_env 5 sample_mac blank_boot)))"
proof -
  let ?b = "setup_ptp_hw default_env (init_stack default_env 5 sample_mac blank_boot)"
  have e: "config_ok (en_store default_env)" "\<forall>f \<in> set (ptp_profiles (en_store default_env)). f_domain f \<noteq> 255"
    using default_ok by (simp_all add: default_env_def)
  have m: "mem_ok (w_msgs (b_world blank_boot)) []" using sample_mem by (simp add: blank_boot_def)
  have "b_ptr ?b = [0]"
    using setup_hw_ok(1) init_stack_created(1) [OF blank_fresh e(2,1), of 5 sample_mac] default_ptr by metis
  then have "0 \<in> set (b_ptr ?b)" by simp
  from boot_clocks [OF blank_fresh e m refl this] show ?thesis using reachable.start by blast
qed

end
